(* ===== verification/Prelude.thy ===== *)
theory Prelude
  imports Main "HOL-Library.Product_Lexorder" "HOL-Library.List_Lexorder" "HOL-Library.Char_ord"
begin

section \<open>Shared vocabulary of the development\<close>

text \<open>
  The vocabulary every component uses: fallible state transformers (the shape of a repository
  method of \<open>src/src/state.rs\<close>, which reads and writes one transaction and returns a
  \<open>Result\<close>), tables as lists of rows in \<open>rowid\<close> order with the few SQL idioms the
  code uses on them, saturating 64-bit arithmetic, decimal rendering of integers, and three
  interfaces: a pair of print/parse functions, a meet of policies, and an operation that keeps
  an invariant of the store.
\<close>

named_theorems keeps_intros "rules that show that an operation keeps a predicate of the state"

subsection \<open>Fallible state transformers\<close>

type_synonym ('s, 'e, 'a) action = "'s \<Rightarrow> 'e + ('a \<times> 's)"

definition ret :: "'a \<Rightarrow> ('s, 'e, 'a) action" where
  "ret a = (\<lambda>s. Inr (a, s))"

definition fail :: "'e \<Rightarrow> ('s, 'e, 'a) action" where
  "fail e = (\<lambda>s. Inl e)"

definition gets :: "('s \<Rightarrow> 'a) \<Rightarrow> ('s, 'e, 'a) action" where
  "gets f = (\<lambda>s. Inr (f s, s))"

definition modify :: "('s \<Rightarrow> 's) \<Rightarrow> ('s, 'e, unit) action" where
  "modify f = (\<lambda>s. Inr ((), f s))"

definition bind :: "('s, 'e, 'a) action \<Rightarrow> ('a \<Rightarrow> ('s, 'e, 'b) action) \<Rightarrow> ('s, 'e, 'b) action" where
  "bind m f = (\<lambda>s. case m s of Inl e \<Rightarrow> Inl e | Inr (a, s') \<Rightarrow> f a s')"

definition seq :: "('s, 'e, unit) action \<Rightarrow> ('s, 'e, 'b) action \<Rightarrow> ('s, 'e, 'b) action" where
  "seq m n = bind m (\<lambda>_. n)"

lemma ret_run [simp]: "ret a s = Inr (a, s)"
  by (simp add: ret_def)

lemma fail_run [simp]: "fail e s = Inl e"
  by (simp add: fail_def)

lemma gets_run [simp]: "gets f s = Inr (f s, s)"
  by (simp add: gets_def)

lemma modify_run [simp]: "modify f s = Inr ((), f s)"
  by (simp add: modify_def)

lemma bind_run: "bind m f s = (case m s of Inl e \<Rightarrow> Inl e | Inr (a, s') \<Rightarrow> f a s')"
  by (simp add: bind_def)

lemma bind_simps [simp]:
  "bind (gets g) f s = f (g s) s"
  "bind (modify h) k s = k () (h s)"
  "bind (ret a) f s = f a s"
  "bind (fail e) f s = Inl e"
  by (simp_all add: bind_def)

lemma seq_modify [simp]: "seq (modify h) n s = n (h s)"
  by (simp add: seq_def)

lemma bind_Inr_iff:
  "bind m f s = Inr (b, t) \<longleftrightarrow> (\<exists>a u. m s = Inr (a, u) \<and> f a u = Inr (b, t))"
  by (auto simp: bind_def split: sum.splits)

lemma seq_Inr_iff:
  "seq m n s = Inr (b, t) \<longleftrightarrow> (\<exists>u. m s = Inr ((), u) \<and> n u = Inr (b, t))"
  by (auto simp: seq_def bind_Inr_iff)

lemma bind_Inl_iff:
  "bind m f s = Inl e \<longleftrightarrow> m s = Inl e \<or> (\<exists>a u. m s = Inr (a, u) \<and> f a u = Inl e)"
  by (auto simp: bind_def split: sum.splits)

lemmas action_Inr = bind_Inr_iff seq_Inr_iff

text \<open>Rust's \<open>iter().try_for_each(...)\<close> and \<open>for x in xs { f(x)?; }\<close>.\<close>

fun for_each :: "('a \<Rightarrow> ('s, 'e, unit) action) \<Rightarrow> 'a list \<Rightarrow> ('s, 'e, unit) action" where
  "for_each f [] = ret ()"
| "for_each f (x # xs) = seq (f x) (for_each f xs)"

text \<open>Rust's \<open>iter().map(f).collect::<Result<Vec<_>, _>>()\<close>: the first error wins.\<close>

fun map_result :: "('a \<Rightarrow> 'e + 'b) \<Rightarrow> 'a list \<Rightarrow> 'e + 'b list" where
  "map_result f [] = Inr []"
| "map_result f (x # xs) =
     (case f x of Inl e \<Rightarrow> Inl e
      | Inr y \<Rightarrow> (case map_result f xs of Inl e \<Rightarrow> Inl e | Inr ys \<Rightarrow> Inr (y # ys)))"

lemma map_result_Inr_length: "map_result f xs = Inr ys \<Longrightarrow> length ys = length xs"
  by (induction xs arbitrary: ys) (auto split: sum.splits)

lemma map_result_Inr_iff:
  "map_result f xs = Inr ys \<longleftrightarrow> list_all2 (\<lambda>x y. f x = Inr y) xs ys"
proof (induction xs arbitrary: ys)
  case Nil
  then show ?case by auto
next
  case (Cons x xs)
  then show ?case by (cases ys) (auto simp flip: Cons.IH split: sum.splits)
qed

text \<open>A loop that updates a local variable: \<open>for x in xs { a = f(x, a)?; }\<close>.\<close>

fun fold_each :: "('x \<Rightarrow> 'a \<Rightarrow> ('s, 'e, 'a) action) \<Rightarrow> 'x list \<Rightarrow> 'a \<Rightarrow> ('s, 'e, 'a) action" where
  "fold_each f [] a = ret a"
| "fold_each f (x # xs) a = bind (f x a) (fold_each f xs)"

lemma fold_each_inv:
  assumes "fold_each f xs a s = Inr (b, t)" and "I a"
    and "\<And>x a s b t. x \<in> set xs \<Longrightarrow> I a \<Longrightarrow> f x a s = Inr (b, t) \<Longrightarrow> I b"
  shows "I b"
  using assms by (induction xs arbitrary: a s) (auto simp: bind_Inr_iff, blast)

subsection \<open>Operations that keep a predicate of the state\<close>

definition keeps :: "('s \<Rightarrow> bool) \<Rightarrow> ('s, 'e, 'a) action \<Rightarrow> bool" where
  "keeps P m \<longleftrightarrow> (\<forall>s a t. P s \<longrightarrow> m s = Inr (a, t) \<longrightarrow> P t)"

lemma keepsI: "(\<And>s a t. P s \<Longrightarrow> m s = Inr (a, t) \<Longrightarrow> P t) \<Longrightarrow> keeps P m"
  by (auto simp: keeps_def)

lemma keepsD: "keeps P m \<Longrightarrow> m s = Inr (a, t) \<Longrightarrow> P s \<Longrightarrow> P t"
  by (auto simp: keeps_def)

lemma keeps_ret [keeps_intros]: "keeps P (ret a)"
  by (auto simp: keeps_def)

lemma keeps_fail [keeps_intros]: "keeps P (fail e)"
  by (auto simp: keeps_def)

lemma keeps_gets [keeps_intros]: "keeps P (gets f)"
  by (auto simp: keeps_def)

lemma keeps_modify: "(\<And>s. P s \<Longrightarrow> P (f s)) \<Longrightarrow> keeps P (modify f)"
  by (auto simp: keeps_def)

lemma keeps_bind [keeps_intros]:
  "keeps P m \<Longrightarrow> (\<And>a. keeps P (f a)) \<Longrightarrow> keeps P (bind m f)"
  unfolding keeps_def bind_Inr_iff by blast

lemma keeps_seq [keeps_intros]: "keeps P m \<Longrightarrow> keeps P n \<Longrightarrow> keeps P (seq m n)"
  by (simp add: seq_def keeps_bind)

lemma keeps_if [keeps_intros]:
  "(b \<Longrightarrow> keeps P m) \<Longrightarrow> (\<not> b \<Longrightarrow> keeps P n) \<Longrightarrow> keeps P (if b then m else n)"
  by simp

lemma keeps_case_option [keeps_intros]:
  "keeps P m \<Longrightarrow> (\<And>a. x = Some a \<Longrightarrow> keeps P (f a)) \<Longrightarrow>
   keeps P (case x of None \<Rightarrow> m | Some a \<Rightarrow> f a)"
  by (cases x) auto

lemma keeps_for_each [keeps_intros]: "(\<And>x. keeps P (f x)) \<Longrightarrow> keeps P (for_each f xs)"
  by (induction xs) (auto intro: keeps_intros)

text \<open>
  The contract of a repository operation: it keeps an invariant. A transaction that runs such
  operations one after the other keeps it too, and a run of committed transactions does.
\<close>

locale invariant_operation =
  fixes inv :: "'s \<Rightarrow> bool"
    and run_op :: "'c \<Rightarrow> ('s, 'e, unit) action"
  assumes keeps_inv: "keeps inv (run_op c)"
begin

lemma run_all_keeps: "keeps inv (for_each run_op cs)"
  by (rule keeps_for_each) (rule keeps_inv)

lemma run_all_inv: "for_each run_op cs s = Inr (a, t) \<Longrightarrow> inv s \<Longrightarrow> inv t"
  using run_all_keeps by (rule keepsD)

end

subsection \<open>Tables\<close>

text \<open>
  A table is the list of its rows in \<open>rowid\<close> order. The only row the program ever deletes is
  the shutdown of a recovered run, whose order is never read, so an insertion appends. \<open>UPDATE t SET .. WHERE p\<close> is \<open>update_where\<close>; the number of
  rows it changes is \<open>count_where\<close> before the update.
\<close>

type_synonym 'r table = "'r list"

definition update_where :: "('r \<Rightarrow> bool) \<Rightarrow> ('r \<Rightarrow> 'r) \<Rightarrow> 'r table \<Rightarrow> 'r table" where
  "update_where p f rows = map (\<lambda>r. if p r then f r else r) rows"

definition count_where :: "('r \<Rightarrow> bool) \<Rightarrow> 'r table \<Rightarrow> nat" where
  "count_where p rows = length (filter p rows)"

definition exists_row :: "('r \<Rightarrow> bool) \<Rightarrow> 'r table \<Rightarrow> bool" where
  "exists_row p rows = list_ex p rows"

lemma exists_row_iff [simp]: "exists_row p rows \<longleftrightarrow> (\<exists>r \<in> set rows. p r)"
  by (simp add: exists_row_def list_ex_iff)

lemma set_update_where: "set (update_where p f rows) = (\<lambda>r. if p r then f r else r) ` set rows"
  by (simp add: update_where_def)

lemma length_update_where [simp]: "length (update_where p f rows) = length rows"
  by (simp add: update_where_def)

lemma update_where_append [simp]:
  "update_where p f (xs @ ys) = update_where p f xs @ update_where p f ys"
  by (simp add: update_where_def)

lemma map_update_where: "(\<And>r. p r \<Longrightarrow> g (f r) = g r) \<Longrightarrow> map g (update_where p f rows) = map g rows"
  by (simp add: update_where_def)

lemma update_where_none: "(\<And>r. r \<in> set rows \<Longrightarrow> \<not> p r) \<Longrightarrow> update_where p f rows = rows"
  by (simp add: update_where_def map_idI)

lemma count_where_0_iff: "count_where p rows = 0 \<longleftrightarrow> (\<forall>r \<in> set rows. \<not> p r)"
  by (auto simp: count_where_def filter_empty_conv)

lemma count_where_append [simp]: "count_where p (xs @ ys) = count_where p xs + count_where p ys"
  by (simp add: count_where_def)

lemma count_where_Cons [simp]:
  "count_where p (x # xs) = (if p x then Suc (count_where p xs) else count_where p xs)"
  by (simp add: count_where_def)

lemma count_where_Nil [simp]: "count_where p [] = 0"
  by (simp add: count_where_def)

lemma find_append:
  "find p (xs @ ys) = (case find p xs of None \<Rightarrow> find p ys | Some x \<Rightarrow> Some x)"
  by (induction xs) auto

lemma find_Some_in: "find p xs = Some x \<Longrightarrow> x \<in> set xs \<and> p x"
  by (auto simp: find_Some_iff)

lemma find_None_all: "find p xs = None \<longleftrightarrow> (\<forall>x \<in> set xs. \<not> p x)"
  by (auto simp: find_None_iff)

lemma find_update_where:
  assumes "\<And>r. q (f r) = q r"
  shows "find q (update_where p f rows) = map_option (\<lambda>r. if p r then f r else r) (find q rows)"
  using assms by (induction rows) (auto simp: update_where_def)

lemma find_unique:
  assumes "distinct (map key rows)" "r \<in> set rows"
  shows "find (\<lambda>x. key x = key r) rows = Some r"
  using assms by (induction rows) (auto simp: rev_image_eqI)

lemma count_where_unique:
  assumes "distinct (map key rows)" "r \<in> set rows" "p r"
    and "\<And>x. p x \<Longrightarrow> key x = key r"
  shows "count_where p rows = 1"
  using assms
proof -
  have "filter p rows = [r]"
    using assms
  proof (induction rows)
    case Nil
    then show ?case by simp
  next
    case (Cons x xs)
    have other: "y = x" if "y \<in> set (x # xs)" "key y = key x" for y
      using Cons.prems(1) that by (auto simp: rev_image_eqI)
    show ?case
    proof (cases "x = r")
      case True
      have "\<not> p y" if "y \<in> set xs" for y
        using Cons.prems(1,4) True that by (auto simp: rev_image_eqI)
      then have "filter p xs = []" by (simp add: filter_empty_conv)
      with True Cons.prems(3) show ?thesis by simp
    next
      case False
      then have r: "r \<in> set xs" using Cons.prems(2) by simp
      from Cons.prems(1) have "distinct (map key xs)" by simp
      then have "filter p xs = [r]" using r Cons.prems(3,4) by (rule Cons.IH)
      moreover have "\<not> p x"
        using other [of r] Cons.prems(2,4) False by auto
      ultimately show ?thesis by simp
    qed
  qed
  then show ?thesis by (simp add: count_where_def)
qed

text \<open>\<open>SELECT COALESCE(MAX(x), 0)\<close>.\<close>

definition max_or_zero :: "int list \<Rightarrow> int" where
  "max_or_zero xs = (if xs = [] then 0 else Max (set xs))"

lemma max_or_zero_ge: "x \<in> set xs \<Longrightarrow> x \<le> max_or_zero xs"
  by (auto simp: max_or_zero_def)

lemma max_or_zero_Nil [simp]: "max_or_zero [] = 0"
  by (simp add: max_or_zero_def)

lemma max_or_zero_in: "xs \<noteq> [] \<Longrightarrow> max_or_zero xs \<in> set xs"
  by (simp add: max_or_zero_def)

lemma max_or_zero_snoc:
  "(\<And>y. y \<in> set xs \<Longrightarrow> y < x) \<Longrightarrow> 0 \<le> x \<Longrightarrow> max_or_zero (xs @ [x]) = x"
  unfolding max_or_zero_def by (auto intro!: Max_eqI dest: less_imp_le)

text \<open>\<open>ORDER BY k\<close> with ties in \<open>rowid\<close> order is a stable sort.\<close>

abbreviation order_by :: "('r \<Rightarrow> 'k::linorder) \<Rightarrow> 'r table \<Rightarrow> 'r table" where
  "order_by \<equiv> sort_key"

text \<open>\<open>ORDER BY k DESC, rowid DESC LIMIT 1\<close>: the last row of the stable sort.\<close>

definition last_by :: "('r \<Rightarrow> 'k::linorder) \<Rightarrow> 'r table \<Rightarrow> 'r option" where
  "last_by k rows = (if rows = [] then None else Some (last (sort_key k rows)))"

lemma last_by_in: "last_by k rows = Some r \<Longrightarrow> r \<in> set rows"
  by (metis last_by_def last_in_set option.distinct(1) option.inject set_sort
      length_0_conv length_sort)

lemma last_by_None [simp]: "last_by k rows = None \<longleftrightarrow> rows = []"
  by (simp add: last_by_def)

lemma sort_key_Nil_iff [simp]: "sort_key k rows = [] \<longleftrightarrow> rows = []"
  by (metis length_0_conv length_sort)

text \<open>\<open>b\<close> is stored before \<open>a\<close>; in a list without duplicates this is well-founded.\<close>

definition earlier :: "'k list \<Rightarrow> 'k \<Rightarrow> 'k \<Rightarrow> bool" where
  "earlier ks b a \<longleftrightarrow> (\<exists>j < length ks. ks ! j = a \<and> b \<in> set (take j ks))"

lemma earlier_append: "earlier ks b a \<Longrightarrow> earlier (ks @ ks') b a"
  unfolding earlier_def
proof (elim exE conjE)
  fix j assume "j < length ks" "ks ! j = a" "b \<in> set (take j ks)"
  then show "\<exists>j < length (ks @ ks'). (ks @ ks') ! j = a \<and> b \<in> set (take j (ks @ ks'))"
    by (intro exI [of _ j]) (simp add: nth_append)
qed

lemma earlier_last: "b \<in> set ks \<Longrightarrow> earlier (ks @ [a]) b a"
  unfolding earlier_def by (intro exI [of _ "length ks"]) simp

definition position :: "'k list \<Rightarrow> 'k \<Rightarrow> nat" where
  "position ks k = length (takeWhile (\<lambda>x. x \<noteq> k) ks)"

lemma earlier_position:
  assumes "distinct ks" "earlier ks b a"
  shows "position ks b < position ks a"
proof -
  from assms(2) obtain j where j: "j < length ks" "ks ! j = a" "b \<in> set (take j ks)"
    by (auto simp: earlier_def)
  have split: "ks = take j ks @ a # drop (Suc j) ks" using id_take_nth_drop [OF j(1)] j(2) by simp
  then have "a \<notin> set (take j ks)" using assms(1) by (metis distinct.simps(2) distinct_append disjoint_iff
        list.set_intros(1))
  then have "takeWhile (\<lambda>x. x \<noteq> a) (take j ks @ a # drop (Suc j) ks) = take j ks"
    by (subst takeWhile_append2) auto
  with split j(1) have "position ks a = j" by (metis length_take less_imp_le min.absorb2 position_def)
  moreover have "takeWhile (\<lambda>x. x \<noteq> b) (take j ks @ a # drop (Suc j) ks) = takeWhile (\<lambda>x. x \<noteq> b) (take j ks)"
    using j(3) by (subst takeWhile_append1) auto
  with split have "position ks b = length (takeWhile (\<lambda>x. x \<noteq> b) (take j ks))"
    by (metis position_def)
  moreover have "length (takeWhile (\<lambda>x. x \<noteq> b) (take j ks)) < length (take j ks)"
    using j(3) by (metis (mono_tags, lifting) le_neq_implies_less length_takeWhile_le set_takeWhileD takeWhile_eq_all_conv takeWhile_eq_take take_all_iff order_refl)
  ultimately show ?thesis using j(1) by simp
qed

subsection \<open>64-bit arithmetic\<close>

definition i64_max :: int where "i64_max = 9223372036854775807"
definition i64_min :: int where "i64_min = - 9223372036854775808"

definition clamp_i64 :: "int \<Rightarrow> int" where
  "clamp_i64 x = max i64_min (min i64_max x)"

definition sat_add :: "int \<Rightarrow> int \<Rightarrow> int" where "sat_add a b = clamp_i64 (a + b)"
definition sat_sub :: "int \<Rightarrow> int \<Rightarrow> int" where "sat_sub a b = clamp_i64 (a - b)"
definition sat_mul :: "int \<Rightarrow> int \<Rightarrow> int" where "sat_mul a b = clamp_i64 (a * b)"

text \<open>Rust's \<open>/\<close> on integers truncates towards zero.\<close>

definition quot_i64 :: "int \<Rightarrow> int \<Rightarrow> int" where
  "quot_i64 n d = (if (n < 0) = (d < 0) then \<bar>n\<bar> div \<bar>d\<bar> else - (\<bar>n\<bar> div \<bar>d\<bar>))"

lemma clamp_i64_id: "i64_min \<le> x \<Longrightarrow> x \<le> i64_max \<Longrightarrow> clamp_i64 x = x"
  by (simp add: clamp_i64_def)

lemma clamp_i64_bounds: "i64_min \<le> clamp_i64 x" "clamp_i64 x \<le> i64_max"
  by (simp_all add: clamp_i64_def i64_min_def i64_max_def)

lemma clamp_i64_mono: "x \<le> y \<Longrightarrow> clamp_i64 x \<le> clamp_i64 y"
  by (simp add: clamp_i64_def)

subsection \<open>Decimal rendering\<close>

text \<open>The standard library's \<open>Display\<close> for integers.\<close>

fun show_nat :: "nat \<Rightarrow> string" where
  "show_nat n = (if n < 10 then [char_of (48 + n)] else show_nat (n div 10) @ [char_of (48 + n mod 10)])"

declare show_nat.simps [simp del]

definition show_int :: "int \<Rightarrow> string" where
  "show_int i = (if i < 0 then ''-'' @ show_nat (nat (- i)) else show_nat (nat i))"

subsection \<open>Interface: a printed form and its parser\<close>

text \<open>
  The contract of the \<open>as_str\<close>/\<open>FromStr\<close> pairs of the code: parsing inverts printing, and
  nothing else parses. Every column that stores an enum as text relies on it.
\<close>

locale text_codec =
  fixes valid :: "'a \<Rightarrow> bool"
    and print_it :: "'a \<Rightarrow> string"
    and parse_it :: "string \<Rightarrow> 'e + 'a"
  assumes parse_print: "valid x \<Longrightarrow> parse_it (print_it x) = Inr x"
    and print_parse: "parse_it s = Inr x \<Longrightarrow> valid x \<and> print_it x = s"
begin

lemma print_injective: "valid x \<Longrightarrow> valid y \<Longrightarrow> print_it x = print_it y \<Longrightarrow> x = y"
  using parse_print by (metis sum.inject(2))

lemma parse_iff: "parse_it s = Inr x \<longleftrightarrow> valid x \<and> s = print_it x"
  using parse_print print_parse by blast

lemma parse_error_iff: "(\<exists>e. parse_it s = Inl e) \<longleftrightarrow> s \<notin> print_it ` Collect valid"
proof
  assume "\<exists>e. parse_it s = Inl e"
  then show "s \<notin> print_it ` Collect valid" using parse_print by auto
next
  assume "s \<notin> print_it ` Collect valid"
  then show "\<exists>e. parse_it s = Inl e"
    using print_parse by (cases "parse_it s") auto
qed

end

subsection \<open>Interface: a meet of policies\<close>

text \<open>
  The contract of the \<open>intersect\<close> functions of \<open>src/src/config/policy.rs\<close> on the values that
  occur: a meet that stays inside them. The order the code uses, \<open>a.intersect(b) == a\<close>, is then
  a partial order with the meet as its greatest lower bound.
\<close>

locale policy_meet =
  fixes valid :: "'p \<Rightarrow> bool"
    and meet :: "'p \<Rightarrow> 'p \<Rightarrow> 'p"
  assumes meet_valid: "valid a \<Longrightarrow> valid b \<Longrightarrow> valid (meet a b)"
    and meet_idem: "valid a \<Longrightarrow> meet a a = a"
    and meet_comm: "valid a \<Longrightarrow> valid b \<Longrightarrow> meet a b = meet b a"
    and meet_assoc: "valid a \<Longrightarrow> valid b \<Longrightarrow> valid c \<Longrightarrow> meet (meet a b) c = meet a (meet b c)"
begin

definition below :: "'p \<Rightarrow> 'p \<Rightarrow> bool" where
  "below a b \<longleftrightarrow> meet a b = a"

lemma below_refl: "valid a \<Longrightarrow> below a a"
  by (simp add: below_def meet_idem)

lemma below_antisym: "valid a \<Longrightarrow> valid b \<Longrightarrow> below a b \<Longrightarrow> below b a \<Longrightarrow> a = b"
  by (metis below_def meet_comm)

lemma below_trans: "valid a \<Longrightarrow> valid b \<Longrightarrow> valid c \<Longrightarrow> below a b \<Longrightarrow> below b c \<Longrightarrow> below a c"
  by (metis below_def meet_assoc)

lemma meet_below_left: "valid a \<Longrightarrow> valid b \<Longrightarrow> below (meet a b) a"
  by (metis below_def meet_assoc meet_comm meet_idem)

lemma meet_below_right: "valid a \<Longrightarrow> valid b \<Longrightarrow> below (meet a b) b"
  by (metis below_def meet_assoc meet_idem)

lemma meet_greatest:
  "valid a \<Longrightarrow> valid b \<Longrightarrow> valid c \<Longrightarrow> below c a \<Longrightarrow> below c b \<Longrightarrow> below c (meet a b)"
  by (metis below_def meet_assoc)

lemma meet_below_iff:
  "valid a \<Longrightarrow> valid b \<Longrightarrow> valid c \<Longrightarrow> below c (meet a b) \<longleftrightarrow> below c a \<and> below c b"
  using meet_greatest meet_below_left meet_below_right below_trans meet_valid by metis

end

end
