(* ===== verification/Values.thy ===== *)
theory Values
  imports Prelude
begin

section \<open>Identifiers and structured values\<close>

text \<open>
  The typed identifiers of \<open>src/src/id.rs\<close> and the JSON values that the store keeps in its
  \<open>_json\<close> columns. An identifier is a 128-bit ULID under a type-specific prefix. The ULID
  codec is the \<open>ulid\<close> crate, so its two functions are a parameter (\<open>ulid_lib\<close>). A JSON
  object keeps its members sorted by key, as the map of \<open>serde_json\<close> does.
\<close>

subsection \<open>Identifiers\<close>

text \<open>One constructor per invocation of the macro \<open>define_id!\<close>.\<close>

datatype run_id = RunId (run_ulid: nat)
datatype project_id = ProjectId (project_ulid: nat)
datatype agent_id = AgentId (agent_ulid: nat)
datatype session_id = SessionId (session_ulid: nat)
datatype task_id = TaskId (task_ulid: nat)
datatype assignment_id = AssignmentId (assignment_ulid: nat)
datatype message_id = MessageId (message_ulid: nat)
datatype operation_id = OperationId (operation_ulid: nat)
datatype event_id = EventId (event_ulid: nat)

text \<open>
  The derived order of an identifier is that of its ULID. It is also the order of the text that
  SQLite compares in \<open>ORDER BY id\<close>: the encoding has a fixed length and an ascending alphabet.
\<close>

instantiation task_id :: linorder
begin
definition less_eq_task_id :: "task_id \<Rightarrow> task_id \<Rightarrow> bool" where
  "less_eq_task_id a b \<longleftrightarrow> task_ulid a \<le> task_ulid b"
definition less_task_id :: "task_id \<Rightarrow> task_id \<Rightarrow> bool" where
  "less_task_id a b \<longleftrightarrow> task_ulid a < task_ulid b"
instance
  by standard (auto simp: less_eq_task_id_def less_task_id_def intro: task_id.expand)
end

instantiation assignment_id :: linorder
begin
definition less_eq_assignment_id :: "assignment_id \<Rightarrow> assignment_id \<Rightarrow> bool" where
  "less_eq_assignment_id a b \<longleftrightarrow> assignment_ulid a \<le> assignment_ulid b"
definition less_assignment_id :: "assignment_id \<Rightarrow> assignment_id \<Rightarrow> bool" where
  "less_assignment_id a b \<longleftrightarrow> assignment_ulid a < assignment_ulid b"
instance
  by standard
    (auto simp: less_eq_assignment_id_def less_assignment_id_def intro: assignment_id.expand)
end

instantiation operation_id :: linorder
begin
definition less_eq_operation_id :: "operation_id \<Rightarrow> operation_id \<Rightarrow> bool" where
  "less_eq_operation_id a b \<longleftrightarrow> operation_ulid a \<le> operation_ulid b"
definition less_operation_id :: "operation_id \<Rightarrow> operation_id \<Rightarrow> bool" where
  "less_operation_id a b \<longleftrightarrow> operation_ulid a < operation_ulid b"
instance
  by standard
    (auto simp: less_eq_operation_id_def less_operation_id_def intro: operation_id.expand)
end

datatype id_error = InvalidPrefix string | InvalidUlid string | NonCanonicalUlid

record ulid_lib =
  ulid_show :: "nat \<Rightarrow> string"
  ulid_parse :: "string \<Rightarrow> string + nat"

text \<open>Rust's \<open>u8::to_ascii_lowercase\<close> and \<open>str::eq_ignore_ascii_case\<close>.\<close>

definition ascii_lower :: "char \<Rightarrow> char" where
  "ascii_lower c =
     (if 65 \<le> (of_char c :: nat) \<and> (of_char c :: nat) \<le> 90 then char_of ((of_char c :: nat) + 32)
      else c)"

definition eq_ignore_ascii_case :: "string \<Rightarrow> string \<Rightarrow> bool" where
  "eq_ignore_ascii_case a b \<longleftrightarrow> map ascii_lower a = map ascii_lower b"

text \<open>Rust's \<open>str::strip_prefix\<close>.\<close>

definition strip_prefix :: "'a list \<Rightarrow> 'a list \<Rightarrow> 'a list option" where
  "strip_prefix p s = (if take (length p) s = p then Some (drop (length p) s) else None)"

lemma strip_prefix_append [simp]: "strip_prefix p (p @ s) = Some s"
  by (simp add: strip_prefix_def)

lemma strip_prefix_Some: "strip_prefix p s = Some r \<longleftrightarrow> s = p @ r"
  by (auto simp: strip_prefix_def) (metis append_take_drop_id)

definition format_id :: "ulid_lib \<Rightarrow> string \<Rightarrow> nat \<Rightarrow> string" where
  "format_id lib prefix u = prefix @ ''-'' @ ulid_show lib u"

definition parse_id :: "ulid_lib \<Rightarrow> string \<Rightarrow> string \<Rightarrow> id_error + nat" where
  "parse_id lib prefix input =
     (case strip_prefix (prefix @ ''-'') input of
        None \<Rightarrow> Inl (InvalidPrefix (prefix @ ''-''))
      | Some encoded \<Rightarrow>
          (case ulid_parse lib encoded of
             Inl e \<Rightarrow> Inl (InvalidUlid e)
           | Inr u \<Rightarrow>
               if eq_ignore_ascii_case (ulid_show lib u) encoded then Inr u
               else Inl NonCanonicalUlid))"

text \<open>The prefixes given to \<open>define_id!\<close>.\<close>

definition id_prefixes :: "string list" where
  "id_prefixes = [''cr'', ''cp'', ''cg'', ''cs'', ''ct'', ''ca'', ''cm'', ''co'', ''ce'']"

text \<open>
  Property C40. Identifiers round-trip, and identifiers of two types never mix: a printed
  identifier parses under its own prefix to the same ULID, whatever ULID codec is used as long as
  it parses what it prints, and under any other prefix of the program it is rejected for its
  prefix.
\<close>

theorem id_roundtrip_and_separation:
  assumes codec: "ulid_parse lib (ulid_show lib u) = Inr u"
    and p: "p \<in> set id_prefixes"
  shows "parse_id lib p (format_id lib p u) = Inr u
    \<and> (\<forall>q \<in> set id_prefixes. q \<noteq> p \<longrightarrow>
         parse_id lib q (format_id lib p u) = Inl (InvalidPrefix (q @ ''-'')))"
proof
  have strip: "strip_prefix (p @ ''-'') (format_id lib p u) = Some (ulid_show lib u)"
    by (simp add: format_id_def strip_prefix_Some)
  then show "parse_id lib p (format_id lib p u) = Inr u"
    by (simp add: parse_id_def codec eq_ignore_ascii_case_def)
  show "\<forall>q \<in> set id_prefixes. q \<noteq> p \<longrightarrow>
      parse_id lib q (format_id lib p u) = Inl (InvalidPrefix (q @ ''-''))"
  proof (intro ballI impI)
    fix q assume q: "q \<in> set id_prefixes" "q \<noteq> p"
    have "length p = 2" "length q = 2" using p q by (auto simp: id_prefixes_def)
    with q(2) have "strip_prefix (q @ ''-'') (format_id lib p u) = None"
      by (auto simp: strip_prefix_def format_id_def)
    then show "parse_id lib q (format_id lib p u) = Inl (InvalidPrefix (q @ ''-''))"
      by (simp add: parse_id_def)
  qed
qed

definition unary_ulid :: ulid_lib where
  "unary_ulid = \<lparr>ulid_show = (\<lambda>n. replicate n (CHR ''0'')), ulid_parse = (\<lambda>s. Inr (length s))\<rparr>"

theorem id_roundtrip_and_separation_witness:
  "parse_id unary_ulid ''ct'' (format_id unary_ulid ''ct'' 3) = Inr 3
   \<and> parse_id unary_ulid ''ca'' (format_id unary_ulid ''ct'' 3) = Inl (InvalidPrefix ''ca-'')"
proof -
  have "ulid_parse unary_ulid (ulid_show unary_ulid 3) = Inr 3" by (simp add: unary_ulid_def)
  moreover have "''ct'' \<in> set id_prefixes" "''ca'' \<in> set id_prefixes"
    by (simp_all add: id_prefixes_def)
  ultimately show ?thesis
    using id_roundtrip_and_separation [of unary_ulid 3 "''ct''"] by simp
qed

subsection \<open>JSON values\<close>

text \<open>
  \<open>JId p u\<close> is the JSON string that holds the canonical text of the identifier with prefix \<open>p\<close>
  and ULID \<open>u\<close>; keeping it apart from other strings spares the encoders the ULID codec.
\<close>

datatype json =
  JNull | JBool bool | JInt int | JStr string | JId string nat | JArr "json list"
| JObj "(string \<times> json) list"

text \<open>Insertion into a map ordered by key, replacing the value of a key that is present.\<close>

fun obj_insert :: "string \<Rightarrow> 'v \<Rightarrow> (string \<times> 'v) list \<Rightarrow> (string \<times> 'v) list" where
  "obj_insert k v [] = [(k, v)]"
| "obj_insert k v ((k', v') # fs) =
     (if k = k' then (k, v) # fs
      else if k < k' then (k, v) # (k', v') # fs
      else (k', v') # obj_insert k v fs)"

text \<open>
  \<open>value[key] = v\<close> of \<open>serde_json\<close>: \<open>null\<close> becomes an object; on any value that is neither
  \<open>null\<close> nor an object the assignment panics, which is \<open>None\<close> here.
\<close>

fun json_set :: "string \<Rightarrow> json \<Rightarrow> json \<Rightarrow> json option" where
  "json_set k v JNull = Some (JObj [(k, v)])"
| "json_set k v (JObj fs) = Some (JObj (obj_insert k v fs))"
| "json_set k v _ = None"

text \<open>\<open>value.get(key)\<close> and the last step of SQLite's \<open>json_extract(value, '$.key')\<close>.\<close>

fun json_get :: "string \<Rightarrow> json \<Rightarrow> json option" where
  "json_get k (JObj fs) = map_of fs k"
| "json_get k _ = None"

fun json_path :: "string list \<Rightarrow> json \<Rightarrow> json option" where
  "json_path [] j = Some j"
| "json_path (k # ks) j = (case json_get k j of None \<Rightarrow> None | Some v \<Rightarrow> json_path ks v)"

lemma map_of_obj_insert [simp]: "map_of (obj_insert k v fs) = (map_of fs)(k \<mapsto> v)"
  by (induction k v fs rule: obj_insert.induct) (auto simp: fun_eq_iff)

lemma json_get_set: "json_set k v j = Some j' \<Longrightarrow> json_get k j' = Some v"
  by (cases j) auto

lemma json_get_set_other: "json_set k v j = Some j' \<Longrightarrow> q \<noteq> k \<Longrightarrow> json_get q j' = json_get q j"
  by (cases j) auto

definition json_opt :: "('a \<Rightarrow> json) \<Rightarrow> 'a option \<Rightarrow> json" where
  "json_opt f x = (case x of None \<Rightarrow> JNull | Some a \<Rightarrow> f a)"

end
