(* ===== verification/Tasks.thy ===== *)
theory Tasks
  imports Values
begin

section \<open>The task lifecycle (src/src/tasks.rs)\<close>

text \<open>
  The five durable statuses of a task, the four actions that move it other than a claim, the
  readiness of a task, and the text in which a status is stored.
\<close>

datatype TaskStatus = Open | InProgress | Submitted | Closed | Canceled

datatype TaskTransition = Reopen | Submit | Close | Cancel

fun status_as_str :: "TaskStatus \<Rightarrow> string" where
  "status_as_str Open = ''open''"
| "status_as_str InProgress = ''in_progress''"
| "status_as_str Submitted = ''submitted''"
| "status_as_str Closed = ''closed''"
| "status_as_str Canceled = ''canceled''"

fun can_transition_to :: "TaskStatus \<Rightarrow> TaskStatus \<Rightarrow> bool" where
  "can_transition_to Open next = (next = InProgress \<or> next = Canceled)"
| "can_transition_to InProgress next = (next = Open \<or> next = Submitted \<or> next = Canceled)"
| "can_transition_to Submitted next = (next = Open \<or> next = Closed \<or> next = Canceled)"
| "can_transition_to _ _ = False"

fun transition :: "TaskStatus \<Rightarrow> TaskTransition \<Rightarrow> TaskStatus option" where
  "transition InProgress Reopen = Some Open"
| "transition Submitted Reopen = Some Open"
| "transition InProgress Submit = Some Submitted"
| "transition Submitted Close = Some Closed"
| "transition Open Cancel = Some Canceled"
| "transition InProgress Cancel = Some Canceled"
| "transition Submitted Cancel = Some Canceled"
| "transition _ _ = None"

fun transition_as_str :: "TaskTransition \<Rightarrow> string" where
  "transition_as_str Reopen = ''reopen''"
| "transition_as_str Submit = ''submit''"
| "transition_as_str Close = ''close''"
| "transition_as_str Cancel = ''cancel''"

record TaskReadiness =
  rd_status :: TaskStatus
  rd_unresolved :: "task_id list"
  rd_has_active_claim :: bool

definition is_ready :: "TaskReadiness \<Rightarrow> bool" where
  "is_ready r \<longleftrightarrow> rd_status r = Open \<and> rd_unresolved r = [] \<and> \<not> rd_has_active_claim r"

datatype parse_status_error = ParseTaskStatusError string

definition parse_status :: "string \<Rightarrow> parse_status_error + TaskStatus" where
  "parse_status s =
     (if s = ''open'' then Inr Open
      else if s = ''in_progress'' then Inr InProgress
      else if s = ''submitted'' then Inr Submitted
      else if s = ''closed'' then Inr Closed
      else if s = ''canceled'' then Inr Canceled
      else Inl (ParseTaskStatusError s))"

lemma parse_status_print [simp]: "parse_status (status_as_str x) = Inr x"
  by (cases x) (simp_all add: parse_status_def)

interpretation status_codec: text_codec "\<lambda>_. True" status_as_str parse_status
  by unfold_locales (simp, auto simp: parse_status_def split: if_splits)

subsection \<open>Facts about the lifecycle\<close>

text \<open>
  The action table and the status table agree: an action leads exactly where the
  status table allows a move, the only allowed move that no action makes is the claim of an open
  task, and closed and canceled tasks never move.
\<close>

lemma lifecycle_tables_agree:
  "(can_transition_to s s' \<longleftrightarrow> (\<exists>a. transition s a = Some s') \<or> (s = Open \<and> s' = InProgress))
   \<and> \<not> can_transition_to Closed s' \<and> \<not> can_transition_to Canceled s'
   \<and> transition Open a \<noteq> Some InProgress"
proof -
  have "(\<exists>a. transition s a = Some s') \<longleftrightarrow>
      transition s Reopen = Some s' \<or> transition s Submit = Some s'
      \<or> transition s Close = Some s' \<or> transition s Cancel = Some s'"
    by (metis TaskTransition.exhaust)
  moreover have "transition Open a \<noteq> Some InProgress" by (cases a) simp_all
  ultimately show ?thesis by (cases s; cases s') simp_all
qed

lemma transition_not_in_progress: "transition s a = Some s' \<Longrightarrow> s' \<noteq> InProgress"
  by (cases s; cases a) auto

lemma transition_moves: "transition s a = Some s' \<Longrightarrow> s' \<noteq> s"
  by (cases s; cases a) auto

lemma transition_close: "transition s Close = Some s' \<longleftrightarrow> s = Submitted \<and> s' = Closed"
  by (cases s) auto

lemma transition_in_progress_not_close: "transition InProgress a = Some s' \<Longrightarrow> a \<noteq> Close"
  by (cases a) auto

fun_cases transition_SomeE: "transition s a = Some s'"

lemma is_ready_open: "is_ready r \<Longrightarrow> rd_status r = Open"
  by (simp add: is_ready_def)

end
