(* ===== verification/Lifecycle.thy ===== *)
theory Lifecycle
  imports Values
begin

section \<open>Provider and resource lifecycles\<close>

text \<open>
  The lifecycle of a provider execution (\<open>src/src/providers.rs\<close>), the durable knowledge about
  an external resource and the owner of a provider process (\<open>src/src/state.rs\<close>), with the text
  in which each is stored.
\<close>

datatype LifecycleState = Starting | Running | Exited | Lost | Unknown | Quarantined

fun lifecycle_as_str :: "LifecycleState \<Rightarrow> string" where
  "lifecycle_as_str Starting = ''starting''"
| "lifecycle_as_str Running = ''running''"
| "lifecycle_as_str Exited = ''exited''"
| "lifecycle_as_str Lost = ''lost''"
| "lifecycle_as_str Unknown = ''unknown''"
| "lifecycle_as_str Quarantined = ''quarantined''"

definition is_terminal :: "LifecycleState \<Rightarrow> bool" where
  "is_terminal s \<longleftrightarrow> s \<in> {Exited, Lost, Quarantined}"

definition allows :: "LifecycleState \<Rightarrow> LifecycleState \<Rightarrow> bool" where
  "allows s next \<longleftrightarrow> s = next \<or>
     (s \<in> {Starting, Running, Unknown} \<and> next \<in> {Running, Exited, Lost, Unknown, Quarantined})"

datatype lifecycle_error = InvalidLifecycleState string

definition parse_lifecycle :: "string \<Rightarrow> lifecycle_error + LifecycleState" where
  "parse_lifecycle s =
     (if s = ''starting'' then Inr Starting
      else if s = ''running'' then Inr Running
      else if s = ''exited'' then Inr Exited
      else if s = ''lost'' then Inr Lost
      else if s = ''unknown'' then Inr Unknown
      else if s = ''quarantined'' then Inr Quarantined
      else Inl (InvalidLifecycleState s))"

lemma parse_lifecycle_print [simp]: "parse_lifecycle (lifecycle_as_str x) = Inr x"
  by (cases x) (simp_all add: parse_lifecycle_def)

interpretation lifecycle_codec: text_codec "\<lambda>_. True" lifecycle_as_str parse_lifecycle
  by unfold_locales (simp, auto simp: parse_lifecycle_def split: if_splits)

datatype ExternalResourceState = RDesired | RObserved | RLost | RUnknown

fun resource_as_str :: "ExternalResourceState \<Rightarrow> string" where
  "resource_as_str RDesired = ''desired''"
| "resource_as_str RObserved = ''observed''"
| "resource_as_str RLost = ''lost''"
| "resource_as_str RUnknown = ''unknown''"

datatype resource_error = InvalidExternalResourceState string

definition parse_resource :: "string \<Rightarrow> resource_error + ExternalResourceState" where
  "parse_resource s =
     (if s = ''desired'' then Inr RDesired
      else if s = ''observed'' then Inr RObserved
      else if s = ''lost'' then Inr RLost
      else if s = ''unknown'' then Inr RUnknown
      else Inl (InvalidExternalResourceState s))"

lemma parse_resource_print [simp]: "parse_resource (resource_as_str x) = Inr x"
  by (cases x) (simp_all add: parse_resource_def)

interpretation resource_codec: text_codec "\<lambda>_. True" resource_as_str parse_resource
  by unfold_locales (simp, auto simp: parse_resource_def split: if_splits)

datatype SessionProcessOwner = SupervisorOwned | ForegroundOwned

fun owner_as_str :: "SessionProcessOwner \<Rightarrow> string" where
  "owner_as_str SupervisorOwned = ''supervisor''"
| "owner_as_str ForegroundOwned = ''foreground''"

datatype owner_error = InvalidSessionProcessOwner string

definition parse_owner :: "string \<Rightarrow> owner_error + SessionProcessOwner" where
  "parse_owner s =
     (if s = ''supervisor'' then Inr SupervisorOwned
      else if s = ''foreground'' then Inr ForegroundOwned
      else Inl (InvalidSessionProcessOwner s))"

lemma parse_owner_print [simp]: "parse_owner (owner_as_str x) = Inr x"
  by (cases x) (simp_all add: parse_owner_def)

interpretation owner_codec: text_codec "\<lambda>_. True" owner_as_str parse_owner
  by unfold_locales (simp, auto simp: parse_owner_def split: if_splits)

subsection \<open>Facts about the provider lifecycle\<close>

lemma allows_from_terminal: "is_terminal s \<Longrightarrow> allows s next \<longleftrightarrow> next = s"
  by (cases s) (auto simp: is_terminal_def allows_def)

lemma allows_never_back_to_starting: "allows s Starting \<longleftrightarrow> s = Starting"
  by (cases s) (auto simp: allows_def)

lemma allows_trans: "allows a b \<Longrightarrow> allows b c \<Longrightarrow> allows a c"
  by (auto simp: allows_def)

lemma not_terminal_cases: "\<not> is_terminal s \<longleftrightarrow> s = Starting \<or> s = Running \<or> s = Unknown"
  by (cases s) (auto simp: is_terminal_def)

end
