(* ===== verification/Token.thy ===== *)
theory Token
  imports Values "HOL-Library.Word"
begin

unbundle bit_operations_syntax

section \<open>Session credentials (src/src/auth.rs)\<close>

text \<open>
  The bearer token of a provider session: its canonical text form, the message its verifier
  authenticates, and verification. The HMAC itself is a crate, so it is a parameter: a function of
  the key and the message. Token bytes are \<open>8 word\<close>; the bytes of the message are \<open>char\<close>s.
\<close>

type_synonym u8 = "8 word"

datatype AgentToken = AgentToken (token_bytes: "u8 list")

definition TOKEN_BYTES :: nat where "TOKEN_BYTES = 32"
definition TOKEN_TEXT_PREFIX :: string where "TOKEN_TEXT_PREFIX = ''cot1_''"

text \<open>The array type \<open>[u8; TOKEN_BYTES]\<close>.\<close>

definition valid_token :: "AgentToken \<Rightarrow> bool" where
  "valid_token t \<longleftrightarrow> length (token_bytes t) = TOKEN_BYTES"

subsection \<open>The text form\<close>

definition HEX :: string where "HEX = ''0123456789abcdef''"

definition encode_byte :: "u8 \<Rightarrow> string" where
  "encode_byte b = [HEX ! unat (drop_bit 4 b), HEX ! unat (b AND 0x0f)]"

definition expose_secret :: "AgentToken \<Rightarrow> string" where
  "expose_secret t = TOKEN_TEXT_PREFIX @ concat (map encode_byte (token_bytes t))"

datatype token_error = ParseTokenError

definition decode_nibble :: "char \<Rightarrow> token_error + u8" where
  "decode_nibble c =
     (let b = (of_char c :: nat)
      in if 48 \<le> b \<and> b \<le> 57 then Inr (of_nat (b - 48))
         else if 97 \<le> b \<and> b \<le> 102 then Inr (of_nat (b - 97 + 10))
         else Inl ParseTokenError)"

definition decode_pair :: "char \<times> char \<Rightarrow> token_error + u8" where
  "decode_pair p =
     (case decode_nibble (fst p) of
        Inl e \<Rightarrow> Inl e
      | Inr hi \<Rightarrow> (case decode_nibble (snd p) of
           Inl e \<Rightarrow> Inl e
         | Inr lo \<Rightarrow> Inr (push_bit 4 hi OR lo)))"

text \<open>\<open>as_chunks::<2>\<close>: the complete pairs.\<close>

fun chunks2 :: "'a list \<Rightarrow> ('a \<times> 'a) list" where
  "chunks2 (x # y # zs) = (x, y) # chunks2 zs"
| "chunks2 _ = []"

definition parse_token :: "string \<Rightarrow> token_error + AgentToken" where
  "parse_token encoded =
     (case strip_prefix TOKEN_TEXT_PREFIX encoded of
        None \<Rightarrow> Inl ParseTokenError
      | Some payload \<Rightarrow>
          if length payload \<noteq> TOKEN_BYTES * 2 then Inl ParseTokenError
          else (case map_result decode_pair (chunks2 payload) of
                  Inl e \<Rightarrow> Inl e
                | Inr bytes \<Rightarrow> Inr (AgentToken bytes)))"

lemma hex_digits:
  "n < 16 \<Longrightarrow> decode_nibble (HEX ! n) = Inr (of_nat n)"
proof -
  assume "n < 16"
  then have "n \<in> set [0..<16]" by simp
  moreover have "list_all (\<lambda>n. decode_nibble (HEX ! n) = Inr (of_nat n)) [0..<16]"
    by code_simp
  ultimately show ?thesis by (auto simp: list_all_iff)
qed

lemma decode_nibble_Inr:
  assumes "decode_nibble c = Inr v"
  shows "unat v < 16 \<and> HEX ! unat v = c"
proof -
  define b :: nat where "b = of_char c"
  have c: "c = char_of b" by (simp add: b_def)
  have "(48 \<le> b \<and> b \<le> 57) \<or> (97 \<le> b \<and> b \<le> 102)"
    using assms unfolding decode_nibble_def b_def Let_def by (auto split: if_splits)
  then have "b \<in> set ([48..<58] @ [97..<103])"
    unfolding set_append set_upt by auto
  moreover have "list_all (\<lambda>n. case decode_nibble (char_of n) of Inl _ \<Rightarrow> True
      | Inr v \<Rightarrow> unat v < 16 \<and> HEX ! unat v = char_of n) ([48..<58] @ [97..<103])"
    by (simp add: upt_rec_numeral decode_nibble_def HEX_def char_of_def)
  ultimately have "case decode_nibble (char_of b) of Inl _ \<Rightarrow> True
      | Inr v \<Rightarrow> unat v < 16 \<and> HEX ! unat v = char_of b"
    unfolding list_all_iff by blast
  with assms c show ?thesis by simp
qed

lemma low_nibble: "b AND 0x0f = take_bit 4 (b :: u8)"
  by (simp add: take_bit_eq_mask mask_eq_exp_minus_1)

lemma nibble_bounds: "unat (drop_bit 4 (b :: u8)) < 16" "unat (b AND 0x0f) < 16"
proof -
  have "unat b < 256" using unsigned_less [of b, where ?'a = nat] by simp
  then have "drop_bit 4 (take_bit 8 (unat b)) < 16"
    by (simp add: drop_bit_eq_div take_bit_nat_eq_self)
  then show "unat (drop_bit 4 b) < 16" by (simp only: unsigned_drop_bit_eq) simp
  show "unat (b AND 0x0f) < 16"
    unfolding low_nibble unsigned_take_bit_eq by (simp add: take_bit_eq_mod)
qed

lemma join_nibbles: "push_bit 4 (drop_bit 4 b) OR (b AND 0x0f) = (b :: u8)"
  unfolding low_nibble by (auto intro!: bit_word_eqI simp: bit_simps)

lemma split_nibbles:
  assumes "unat hi < 16" "unat lo < 16"
  shows "drop_bit 4 (push_bit 4 hi OR lo) = (hi :: u8)" "(push_bit 4 hi OR lo) AND 0x0f = lo"
proof -
  have lo: "take_bit 4 lo = lo" and hi: "take_bit 4 hi = hi"
    using assms by (simp_all add: word_unat_eq_iff unsigned_take_bit_eq take_bit_nat_eq_self)
  have lob: "n < 4" if "bit lo n" for n
    using that lo by (metis bit_take_bit_iff)
  have hib: "n < 4" if "bit hi n" for n
    using that hi by (metis bit_take_bit_iff)
  show "drop_bit 4 (push_bit 4 hi OR lo) = hi"
    by (rule bit_word_eqI) (auto simp: bit_simps dest: lob hib)
  show "(push_bit 4 hi OR lo) AND 0x0f = lo"
    unfolding low_nibble by (rule bit_word_eqI) (auto simp: bit_simps dest: lob hib)
qed

lemma decode_encode_byte: "decode_pair (HEX ! unat (drop_bit 4 b), HEX ! unat (b AND 0x0f)) = Inr b"
  by (simp add: decode_pair_def hex_digits nibble_bounds join_nibbles)

lemma encode_decode_pair:
  assumes "decode_pair (x, y) = Inr b"
  shows "encode_byte b = [x, y]"
proof -
  obtain hi lo where d: "decode_nibble x = Inr hi" "decode_nibble y = Inr lo"
    and b: "b = push_bit 4 hi OR lo"
    using assms by (auto simp: decode_pair_def split: sum.splits)
  note hi = decode_nibble_Inr [OF d(1)] and lo = decode_nibble_Inr [OF d(2)]
  show ?thesis
    unfolding encode_byte_def b split_nibbles [OF conjunct1 [OF hi] conjunct1 [OF lo]]
    using hi lo by simp
qed

lemma chunks2_encode: "chunks2 (concat (map encode_byte bs))
    = map (\<lambda>b. (HEX ! unat (drop_bit 4 b), HEX ! unat (b AND 0x0f))) bs"
  by (induction bs) (simp_all add: encode_byte_def)

lemma map_result_encode: "map_result decode_pair (chunks2 (concat (map encode_byte bs))) = Inr bs"
  unfolding chunks2_encode by (induction bs) (simp_all add: decode_encode_byte)

lemma map_result_decode:
  "even (length cs) \<Longrightarrow> map_result decode_pair (chunks2 cs) = Inr bs \<Longrightarrow>
   concat (map encode_byte bs) = cs \<and> 2 * length bs = length cs"
  by (induction cs arbitrary: bs rule: chunks2.induct)
    (auto split: sum.splits simp: encode_decode_pair)

lemma length_encoded: "length (concat (map encode_byte bs)) = 2 * length bs"
  by (induction bs) (simp_all add: encode_byte_def)

interpretation token_codec: text_codec valid_token expose_secret parse_token
proof unfold_locales
  show "parse_token (expose_secret t) = Inr t" if "valid_token t" for t
    using that by (cases t) (simp add: parse_token_def expose_secret_def valid_token_def
        map_result_encode length_encoded)
  show "valid_token t \<and> expose_secret t = s" if p: "parse_token s = Inr t" for s t
  proof -
    obtain payload bytes where "s = TOKEN_TEXT_PREFIX @ payload" "length payload = 64"
      "map_result decode_pair (chunks2 payload) = Inr bytes" "t = AgentToken bytes"
      using p by (auto simp: parse_token_def strip_prefix_Some TOKEN_BYTES_def
          split: option.splits if_splits sum.splits)
    then show ?thesis
      using map_result_decode [of payload bytes]
      by (simp add: expose_secret_def valid_token_def TOKEN_BYTES_def)
  qed
qed

text \<open>
  Property C39. The text of a token is canonical: a 32-byte token parses back to itself, every
  text that parses is the text of the token it parses to, and two texts never give one token.
\<close>

theorem token_text_is_canonical:
  assumes "valid_token t"
  shows "parse_token (expose_secret t) = Inr t
    \<and> (parse_token s = Inr t \<longleftrightarrow> s = expose_secret t)
    \<and> length (expose_secret t) = 69"
proof -
  have "length (expose_secret t) = 69"
    using assms by (simp add: expose_secret_def length_encoded valid_token_def TOKEN_BYTES_def
        TOKEN_TEXT_PREFIX_def)
  then show ?thesis using assms token_codec.parse_print token_codec.parse_iff by blast
qed

theorem token_text_is_canonical_witness:
  "valid_token (AgentToken (replicate 32 0xab))
   \<and> parse_token (expose_secret (AgentToken (replicate 32 0xab))) = Inr (AgentToken (replicate 32 0xab))"
proof -
  have v: "valid_token (AgentToken (replicate 32 0xab))" by (simp add: valid_token_def TOKEN_BYTES_def)
  show ?thesis using v token_text_is_canonical [OF v] by blast
qed

subsection \<open>Verifiers\<close>

record SessionScope =
  sc_run_id :: run_id
  sc_agent_id :: agent_id
  sc_session_id :: session_id
  sc_generation :: int

datatype TokenVerifier = TokenVerifier string

definition VERIFIER_DOMAIN :: string where
  "VERIFIER_DOMAIN = ''coterie.session-token.verifier.v1'' @ [char_of (0::nat)]"

text \<open>\<open>i64::to_be_bytes\<close>: the eight bytes of the two's complement, most significant first.\<close>

fun be_bytes :: "nat \<Rightarrow> nat \<Rightarrow> string" where
  "be_bytes 0 v = []"
| "be_bytes (Suc k) v = be_bytes k (v div 256) @ [char_of (v mod 256)]"

definition i64_to_be_bytes :: "int \<Rightarrow> string" where
  "i64_to_be_bytes g = be_bytes 8 (nat (g mod 2 ^ 64))"

text \<open>The bytes given to \<open>mac.update\<close>, in order.\<close>

definition mac_message :: "ulid_lib \<Rightarrow> SessionScope \<Rightarrow> string" where
  "mac_message lib scope =
     VERIFIER_DOMAIN
     @ format_id lib ''cr'' (run_ulid (sc_run_id scope)) @ [char_of (0::nat)]
     @ format_id lib ''cg'' (agent_ulid (sc_agent_id scope)) @ [char_of (0::nat)]
     @ format_id lib ''cs'' (session_ulid (sc_session_id scope)) @ [char_of (0::nat)]
     @ i64_to_be_bytes (sc_generation scope)"

definition verifier ::
  "(u8 list \<Rightarrow> string \<Rightarrow> string) \<Rightarrow> ulid_lib \<Rightarrow> AgentToken \<Rightarrow> SessionScope \<Rightarrow> TokenVerifier" where
  "verifier hmac lib t scope = TokenVerifier (hmac (token_bytes t) (mac_message lib scope))"

text \<open>\<open>verify_slice\<close> compares the tag with the stored bytes (in constant time).\<close>

fun verify ::
  "(u8 list \<Rightarrow> string \<Rightarrow> string) \<Rightarrow> ulid_lib \<Rightarrow> TokenVerifier \<Rightarrow> AgentToken \<Rightarrow> SessionScope \<Rightarrow> bool" where
  "verify hmac lib (TokenVerifier tag) t scope \<longleftrightarrow>
     hmac (token_bytes t) (mac_message lib scope) = tag"

definition i64_scope :: "SessionScope \<Rightarrow> bool" where
  "i64_scope s \<longleftrightarrow> - (2 ^ 63) \<le> sc_generation s \<and> sc_generation s < 2 ^ 63"

lemma length_be_bytes [simp]: "length (be_bytes k v) = k"
  by (induction k arbitrary: v) simp_all

lemma be_bytes_inject:
  "v < 256 ^ k \<Longrightarrow> w < 256 ^ k \<Longrightarrow> be_bytes k v = be_bytes k w \<Longrightarrow> v = w"
proof (induction k arbitrary: v w)
  case 0
  then show ?case by simp
next
  case (Suc k)
  have d: "v div 256 < 256 ^ k" "w div 256 < 256 ^ k"
    using Suc.prems(1,2) by (simp_all add: less_mult_imp_div_less mult.commute)
  have e: "be_bytes k (v div 256) = be_bytes k (w div 256)"
    and b: "(char_of (v mod 256) :: char) = char_of (w mod 256)"
    using Suc.prems(3) by simp_all
  have "v div 256 = w div 256" by (rule Suc.IH [OF d e])
  moreover have "v mod 256 = w mod 256"
    using arg_cong [OF b, of "of_char :: char \<Rightarrow> nat"] by simp
  ultimately show ?case by (metis div_mult_mod_eq)
qed

lemma i64_bytes_inject:
  assumes "- (2 ^ 63) \<le> g" "g < 2 ^ 63" "- (2 ^ 63) \<le> h" "h < 2 ^ 63"
    and "i64_to_be_bytes g = i64_to_be_bytes h"
  shows "g = h"
proof -
  have "nat (x mod 2 ^ 64) < 256 ^ 8" for x :: int by (simp add: nat_less_iff)
  then have "nat (g mod 2 ^ 64) = nat (h mod 2 ^ 64)"
    using assms(5) unfolding i64_to_be_bytes_def by (blast intro: be_bytes_inject)
  then have "g mod 2 ^ 64 = h mod 2 ^ 64"
    by (subst (asm) nat_eq_iff2) simp
  then have "(g - h) mod 2 ^ 64 = 0" by (metis mod_eq_dvd_iff dvd_imp_mod_0)
  moreover have "\<bar>g - h\<bar> < 2 ^ 64" using assms(1-4) by (simp add: abs_less_iff)
  ultimately show ?thesis
    by (metis dvd_imp_le_int eq_iff_diff_eq_0 mod_0_imp_dvd abs_numeral power_abs
        linorder_not_less)
qed

lemma split_at_separator:
  "z \<notin> set a \<Longrightarrow> z \<notin> set b \<Longrightarrow> a @ z # c = b @ z # d \<Longrightarrow> a = b \<and> c = d"
proof (induction a arbitrary: b)
  case Nil
  then show ?case by (cases b) auto
next
  case (Cons x a)
  then show ?case by (cases b) auto
qed

text \<open>
  A credential is fenced to one session generation: two scopes of 64-bit generations
  have the same authenticated message only if they are the same scope, so a verifier accepts its
  own token in its own scope, and a token in another scope only if the MAC collides on the two
  different messages of the scopes. The identifier text is the ULID crate's: injective and without NUL bytes.
\<close>

lemma verifier_binds_the_scope:
  assumes lib: "inj (ulid_show lib)" "\<And>u. char_of (0::nat) \<notin> set (ulid_show lib u)"
    and i64: "i64_scope s" "i64_scope s'"
  shows "(mac_message lib s = mac_message lib s' \<longleftrightarrow> s = s')
    \<and> verify hmac lib (verifier hmac lib t s) t s
    \<and> (verify hmac lib (verifier hmac lib t s) t' s' \<and> s \<noteq> s' \<longrightarrow>
         mac_message lib s \<noteq> mac_message lib s'
         \<and> hmac (token_bytes t) (mac_message lib s) = hmac (token_bytes t') (mac_message lib s'))"
proof -
  have nul: "char_of (0::nat) \<notin> set (format_id lib p u)" if "p \<in> set id_prefixes" for p u
    using that lib(2) by (auto simp: format_id_def id_prefixes_def char_of_def)
  have ids: "''cr'' \<in> set id_prefixes" "''cg'' \<in> set id_prefixes" "''cs'' \<in> set id_prefixes"
    by (simp_all add: id_prefixes_def)
  have inj: "u = v" if "format_id lib p u = format_id lib p v" for p u v
    using that lib(1) by (auto simp: format_id_def dest: injD)
  have msg: "s = s'" if m: "mac_message lib s = mac_message lib s'"
  proof -
    have 1: "format_id lib ''cr'' (run_ulid (sc_run_id s)) = format_id lib ''cr'' (run_ulid (sc_run_id s'))"
      and r1: "format_id lib ''cg'' (agent_ulid (sc_agent_id s)) @ char_of (0::nat)
          # format_id lib ''cs'' (session_ulid (sc_session_id s)) @ char_of (0::nat)
          # i64_to_be_bytes (sc_generation s)
        = format_id lib ''cg'' (agent_ulid (sc_agent_id s')) @ char_of (0::nat)
          # format_id lib ''cs'' (session_ulid (sc_session_id s')) @ char_of (0::nat)
          # i64_to_be_bytes (sc_generation s')"
      using m split_at_separator [OF nul [OF ids(1)] nul [OF ids(1)]]
      unfolding mac_message_def by auto
    have 2: "format_id lib ''cg'' (agent_ulid (sc_agent_id s)) = format_id lib ''cg'' (agent_ulid (sc_agent_id s'))"
      and r2: "format_id lib ''cs'' (session_ulid (sc_session_id s)) @ char_of (0::nat)
          # i64_to_be_bytes (sc_generation s)
        = format_id lib ''cs'' (session_ulid (sc_session_id s')) @ char_of (0::nat)
          # i64_to_be_bytes (sc_generation s')"
      using split_at_separator [OF nul [OF ids(2)] nul [OF ids(2)] r1] by auto
    have 3: "format_id lib ''cs'' (session_ulid (sc_session_id s)) = format_id lib ''cs'' (session_ulid (sc_session_id s'))"
      and r3: "i64_to_be_bytes (sc_generation s) = i64_to_be_bytes (sc_generation s')"
      using split_at_separator [OF nul [OF ids(3)] nul [OF ids(3)] r2] by auto
    have "sc_generation s = sc_generation s'"
      using i64 r3 by (auto simp: i64_scope_def intro: i64_bytes_inject)
    moreover have "run_ulid (sc_run_id s) = run_ulid (sc_run_id s')"
      "agent_ulid (sc_agent_id s) = agent_ulid (sc_agent_id s')"
      "session_ulid (sc_session_id s) = session_ulid (sc_session_id s')"
      using 1 2 3 inj by blast+
    ultimately show ?thesis by (simp add: run_id.expand agent_id.expand session_id.expand)
  qed
  have "s = s'" if "mac_message lib s = mac_message lib s'" using msg that .
  moreover have "hmac (token_bytes t) (mac_message lib s) = hmac (token_bytes t') (mac_message lib s')"
    if "verify hmac lib (verifier hmac lib t s) t' s'" using that by (simp add: verifier_def)
  ultimately show ?thesis by (auto simp: verifier_def)
qed

definition sample_ulid :: ulid_lib where
  "sample_ulid = \<lparr>ulid_show = (\<lambda>n. replicate n (CHR ''0'')), ulid_parse = (\<lambda>s. Inr (length s))\<rparr>"

end
