(* ===== verification/Policy.thy ===== *)
theory Policy
  imports Values
begin

section \<open>Permission policy and its intersection (src/src/config.rs, src/src/config/policy.rs)\<close>

text \<open>
  The policy values a role runs under and the three intersections: of permission profiles, of
  run limits and of effective roles. Each is an instance of the meet interface on the values that
  resolution produces; the order \<open>no_more_permissive_than\<close> is the order of that meet.
\<close>

datatype FilesystemPolicy = Unrestricted | ProjectWrite | WorkspaceWrite | FsReadOnly
datatype NetworkPolicy = ProviderDefault | Deny
datatype ApprovalPolicy = Interactive | Never
datatype ApprovalReviewer = User | AutoReview

record PermissionProfile =
  filesystem :: FilesystemPolicy
  network :: NetworkPolicy
  approvals :: ApprovalPolicy
  approval_reviewer :: ApprovalReviewer

text \<open>The limits are 16-bit in the code; nothing is added to them, so they are naturals here.\<close>

record RunLimits =
  max_concurrent_agents :: nat
  max_agents_per_run :: nat
  max_spawns_per_minute :: nat

record EffectiveRole =
  er_enabled :: bool
  er_max_instances :: "nat option"
  er_permission_profile :: PermissionProfile

definition intersect_filesystem :: "FilesystemPolicy \<Rightarrow> FilesystemPolicy \<Rightarrow> FilesystemPolicy" where
  "intersect_filesystem a b =
     (if a = b \<or> b = Unrestricted then a
      else if a = Unrestricted then b
      else FsReadOnly)"

definition intersect_profile :: "PermissionProfile \<Rightarrow> PermissionProfile \<Rightarrow> PermissionProfile" where
  "intersect_profile self other =
     (let shared =
        (if approvals self = approvals other \<and> approval_reviewer self = approval_reviewer other
         then approvals self else Never)
      in \<lparr>filesystem = intersect_filesystem (filesystem self) (filesystem other),
          network = (if network self = network other then network self else Deny),
          approvals = shared,
          approval_reviewer = (if shared = Interactive then approval_reviewer self else User)\<rparr>)"

definition no_more_permissive_than :: "PermissionProfile \<Rightarrow> PermissionProfile \<Rightarrow> bool" where
  "no_more_permissive_than self ceiling \<longleftrightarrow> intersect_profile self ceiling = self"

definition intersect_limits :: "RunLimits \<Rightarrow> RunLimits \<Rightarrow> RunLimits" where
  "intersect_limits self other =
     \<lparr>max_concurrent_agents = min (max_concurrent_agents self) (max_concurrent_agents other),
      max_agents_per_run = min (max_agents_per_run self) (max_agents_per_run other),
      max_spawns_per_minute = min (max_spawns_per_minute self) (max_spawns_per_minute other)\<rparr>"

fun intersect_capacity :: "nat option \<Rightarrow> nat option \<Rightarrow> nat option" where
  "intersect_capacity (Some a) (Some b) = Some (min a b)"
| "intersect_capacity None b = b"
| "intersect_capacity a None = a"

definition intersect_role :: "EffectiveRole \<Rightarrow> EffectiveRole \<Rightarrow> EffectiveRole" where
  "intersect_role self other =
     \<lparr>er_enabled = (er_enabled self \<and> er_enabled other),
      er_max_instances = intersect_capacity (er_max_instances self) (er_max_instances other),
      er_permission_profile =
        intersect_profile (er_permission_profile self) (er_permission_profile other)\<rparr>"

subsection \<open>The values that occur\<close>

text \<open>
  Automatic review without interactive approvals is refused by \<open>resolve_profiles\<close>; the
  intersection is a meet exactly on the profiles without that combination.
\<close>

definition valid_profile :: "PermissionProfile \<Rightarrow> bool" where
  "valid_profile p \<longleftrightarrow> (approvals p = Never \<longrightarrow> approval_reviewer p = User)"

definition valid_role :: "EffectiveRole \<Rightarrow> bool" where
  "valid_role r \<longleftrightarrow> valid_profile (er_permission_profile r)"

lemma intersect_filesystem_laws:
  "intersect_filesystem a a = a"
  "intersect_filesystem a b = intersect_filesystem b a"
  "intersect_filesystem (intersect_filesystem a b) c = intersect_filesystem a (intersect_filesystem b c)"
  by (cases a; cases b; cases c; simp add: intersect_filesystem_def)+

lemma intersect_capacity_laws:
  "intersect_capacity a a = a"
  "intersect_capacity a b = intersect_capacity b a"
  "intersect_capacity (intersect_capacity a b) c = intersect_capacity a (intersect_capacity b c)"
  by (cases a; cases b; cases c; simp)+

lemma valid_intersect_profile: "valid_profile (intersect_profile a b)"
  by (cases "approvals a") (auto simp: valid_profile_def intersect_profile_def Let_def)

lemma intersect_profile_idem: "valid_profile a \<Longrightarrow> intersect_profile a a = a"
  by (cases a; cases "approvals a")
    (auto simp: valid_profile_def intersect_profile_def intersect_filesystem_laws(1))

lemma intersect_profile_comm: "intersect_profile a b = intersect_profile b a"
  using intersect_filesystem_laws(2) [of "filesystem a" "filesystem b"]
  by (cases "network a"; cases "network b"; cases "approvals a"; cases "approvals b")
    (auto simp: intersect_profile_def)

lemma intersect_profile_fields:
  "filesystem (intersect_profile a b) = intersect_filesystem (filesystem a) (filesystem b)"
  "network (intersect_profile a b) = (if network a = network b then network a else Deny)"
  "approvals (intersect_profile a b) =
     (if approvals a = approvals b \<and> approval_reviewer a = approval_reviewer b
      then approvals a else Never)"
  "approval_reviewer (intersect_profile a b) =
     (if approvals (intersect_profile a b) = Interactive then approval_reviewer a else User)"
  by (simp_all add: intersect_profile_def Let_def)

lemma intersect_profile_assoc:
  "intersect_profile (intersect_profile a b) c = intersect_profile a (intersect_profile b c)"
proof (rule PermissionProfile.equality)
  let ?l = "intersect_profile (intersect_profile a b) c" and ?r = "intersect_profile a (intersect_profile b c)"
  show "filesystem ?l = filesystem ?r"
    by (simp add: intersect_profile_fields intersect_filesystem_laws(3))
  show "network ?l = network ?r"
    by (cases "network a"; cases "network b"; cases "network c") (simp_all add: intersect_profile_fields)
  show app: "approvals ?l = approvals ?r"
    by (cases "approvals a"; cases "approvals b"; cases "approvals c")
      (auto simp: intersect_profile_fields)
  show "approval_reviewer ?l = approval_reviewer ?r"
    unfolding intersect_profile_fields(4) [of "intersect_profile a b"]
      intersect_profile_fields(4) [of a "intersect_profile b c"] app
    by (cases "approvals a"; cases "approvals b"; cases "approvals c")
      (auto simp: intersect_profile_fields)
qed simp

interpretation profile_meet: policy_meet valid_profile intersect_profile
  by unfold_locales
    (rule valid_intersect_profile, erule intersect_profile_idem, rule intersect_profile_comm,
      rule intersect_profile_assoc)

interpretation limits_meet: policy_meet "\<lambda>_. True" intersect_limits
  by unfold_locales (auto simp: intersect_limits_def)

interpretation role_meet: policy_meet valid_role intersect_role
proof unfold_locales
  fix a b c
  show "valid_role (intersect_role a b)"
    by (simp add: valid_role_def intersect_role_def valid_intersect_profile)
  show "intersect_role a a = a" if "valid_role a"
    using that by (simp add: valid_role_def intersect_role_def intersect_profile_idem
        intersect_capacity_laws(1))
  show "intersect_role a b = intersect_role b a"
    by (auto simp: intersect_role_def intersect_profile_comm intersect_capacity_laws(2))
  show "intersect_role (intersect_role a b) c = intersect_role a (intersect_role b c)"
    by (simp add: intersect_role_def intersect_profile_assoc intersect_capacity_laws(3))
qed

subsection \<open>What the order means\<close>

lemma no_more_permissive_is_below: "no_more_permissive_than a b \<longleftrightarrow> profile_meet.below a b"
  by (simp add: no_more_permissive_than_def profile_meet.below_def)

text \<open>
  Property C38. Permission restriction is a partial order with the intersection as greatest lower
  bound, on the profiles that resolution accepts: what is below both policies is exactly what is
  below their intersection, and two profiles below each other are equal.
\<close>

theorem profile_intersection_is_greatest_lower_bound:
  assumes "valid_profile a" "valid_profile b" "valid_profile c"
  shows "(no_more_permissive_than c (intersect_profile a b)
          \<longleftrightarrow> no_more_permissive_than c a \<and> no_more_permissive_than c b)
    \<and> no_more_permissive_than a a
    \<and> (no_more_permissive_than a b \<and> no_more_permissive_than b a \<longrightarrow> a = b)
    \<and> (no_more_permissive_than a b \<and> no_more_permissive_than b c \<longrightarrow> no_more_permissive_than a c)"
  unfolding no_more_permissive_is_below
  using assms profile_meet.meet_below_iff profile_meet.below_refl profile_meet.below_antisym
    profile_meet.below_trans
  by blast

definition interactive_profile :: PermissionProfile where
  "interactive_profile =
     \<lparr>filesystem = ProjectWrite, network = ProviderDefault, approvals = Interactive,
      approval_reviewer = User\<rparr>"

definition worker_profile :: PermissionProfile where
  "worker_profile =
     \<lparr>filesystem = WorkspaceWrite, network = Deny, approvals = Never, approval_reviewer = User\<rparr>"

definition review_profile :: PermissionProfile where
  "review_profile =
     \<lparr>filesystem = FsReadOnly, network = Deny, approvals = Never, approval_reviewer = User\<rparr>"

theorem profile_intersection_is_greatest_lower_bound_witness:
  "no_more_permissive_than review_profile (intersect_profile interactive_profile worker_profile)
   \<and> no_more_permissive_than review_profile interactive_profile
   \<and> no_more_permissive_than review_profile worker_profile"
proof -
  have v: "valid_profile interactive_profile" "valid_profile worker_profile"
    "valid_profile review_profile"
    by (simp_all add: valid_profile_def interactive_profile_def worker_profile_def review_profile_def)
  have "no_more_permissive_than review_profile interactive_profile"
    "no_more_permissive_than review_profile worker_profile"
    by (simp_all add: no_more_permissive_than_def intersect_profile_def intersect_filesystem_def
        interactive_profile_def worker_profile_def review_profile_def)
  then show ?thesis using profile_intersection_is_greatest_lower_bound [OF v] by blast
qed

text \<open>
  A restricted profile grants nothing its ceiling does not: no filesystem scope
  beyond the ceiling's (the two writable scopes are incomparable), no network or approval prompt
  the ceiling denies, and no change of reviewer while approvals stay interactive.
\<close>

lemma restriction_never_adds_authority:
  assumes "no_more_permissive_than p c"
  shows "(filesystem c = Unrestricted \<or> filesystem p = filesystem c \<or> filesystem p = FsReadOnly)
    \<and> (network c = Deny \<longrightarrow> network p = Deny)
    \<and> (approvals c = Never \<longrightarrow> approvals p = Never)
    \<and> (approvals p = Interactive \<longrightarrow> approval_reviewer p = approval_reviewer c)"
proof -
  have eq: "intersect_profile p c = p" using assms by (simp add: no_more_permissive_than_def)
  have fs: "filesystem p = intersect_filesystem (filesystem p) (filesystem c)"
    and net: "network p = (if network p = network c then network p else Deny)"
    and app: "approvals p = (if approvals p = approvals c \<and> approval_reviewer p = approval_reviewer c
      then approvals p else Never)"
    using arg_cong [OF eq, of filesystem] arg_cong [OF eq, of network] arg_cong [OF eq, of approvals]
    by (simp_all add: intersect_profile_def Let_def)
  show ?thesis
    using fs net app
    by (cases "filesystem p"; cases "filesystem c"; cases "network p"; cases "network c";
        cases "approvals p"; cases "approvals c")
      (auto simp: intersect_filesystem_def split: if_splits)
qed

end
