(* ===== verification/Archetype.thy ===== *)
theory Archetype
  imports Policy
begin

section \<open>Archetypes and capabilities (src/src/config.rs)\<close>

text \<open>
  Roles, capability grants and their authorization, the compiled operator defaults and the sealed
  archetype \<open>builtin:standard@1\<close>. A Rust \<open>BTreeMap\<close> keyed by name is an association list sorted
  by key, built with \<open>obj_insert\<close> of \<open>Values\<close> and read with \<open>map_of\<close>.
\<close>

datatype RoleMode = InteractiveMode | Job
datatype WorkspacePolicy = ProjectWorkspace | Worktree | ReadOnlyWorkspace
datatype AuthorizationDecision = Allowed | Denied

record Capability =
  namespace :: string
  action :: string

record CapabilityGrant =
  grant_namespace :: string
  grant_action :: string

record RoleDefinition =
  rl_provider :: string
  rl_mode :: RoleMode
  rl_max_instances :: "nat option"
  rl_workspace :: WorkspacePolicy
  rl_permission_profile :: string
  rl_instructions :: "string option"
  rl_capabilities :: "CapabilityGrant list"

type_synonym 'v name_map = "(string \<times> 'v) list"

record ArchetypeDefinition =
  ar_reference :: string
  ar_lead :: string
  ar_permission_profiles :: "PermissionProfile name_map"
  ar_roles :: "RoleDefinition name_map"

record SupervisionPolicy =
  restart_window_seconds :: int
  max_launch_attempts :: int
  restart_backoff_seconds :: int
  startup_timeout_seconds :: int
  job_timeout_seconds :: int
  interrupt_grace_ms :: int
  shutdown_timeout_ms :: int
  idle_timeout_seconds :: int

record CompiledDefaults =
  cd_archetype :: string
  cd_providers :: "string list name_map"
  cd_limits :: RunLimits
  cd_supervision :: SupervisionPolicy

subsection \<open>Names and capability grants\<close>

definition is_ascii_alphanumeric :: "char \<Rightarrow> bool" where
  "is_ascii_alphanumeric c \<longleftrightarrow>
     (let b = (of_char c :: nat)
      in (48 \<le> b \<and> b \<le> 57) \<or> (65 \<le> b \<and> b \<le> 90) \<or> (97 \<le> b \<and> b \<le> 122))"

definition valid_name :: "string \<Rightarrow> bool" where
  "valid_name name \<longleftrightarrow>
     name \<noteq> [] \<and> list_all (\<lambda>c. is_ascii_alphanumeric c \<or> c = CHR ''_'' \<or> c = CHR ''-'') name"

text \<open>Rust's \<open>str::split_once\<close>: the parts before and after the first separator.\<close>

fun split_once :: "char \<Rightarrow> string \<Rightarrow> (string \<times> string) option" where
  "split_once c [] = None"
| "split_once c (x # xs) =
     (if x = c then Some ([], xs)
      else (case split_once c xs of None \<Rightarrow> None | Some (a, b) \<Rightarrow> Some (x # a, b)))"

definition parse_grant :: "string \<Rightarrow> CapabilityGrant option" where
  "parse_grant value =
     (case split_once (CHR '':'') value of
        None \<Rightarrow> None
      | Some (ns, act) \<Rightarrow>
          if ns \<notin> set [''spawn'', ''send'', ''task'', ''logs'', ''project'', ''workspace'']
             \<or> \<not> (act = ''*'' \<or> valid_name act)
          then None
          else Some \<lparr>grant_namespace = ns, grant_action = act\<rparr>)"

definition grant_allows :: "CapabilityGrant \<Rightarrow> Capability \<Rightarrow> bool" where
  "grant_allows g c \<longleftrightarrow>
     grant_namespace g = namespace c \<and> (grant_action g = ''*'' \<or> grant_action g = action c)"

definition authorize_role :: "RoleDefinition \<Rightarrow> Capability \<Rightarrow> AuthorizationDecision" where
  "authorize_role role c =
     (if list_ex (\<lambda>g. grant_allows g c) (rl_capabilities role) then Allowed else Denied)"

definition role :: "ArchetypeDefinition \<Rightarrow> string \<Rightarrow> RoleDefinition option" where
  "role a name = map_of (ar_roles a) name"

definition authorize :: "ArchetypeDefinition \<Rightarrow> string \<Rightarrow> Capability \<Rightarrow> AuthorizationDecision" where
  "authorize a name c =
     (case role a name of None \<Rightarrow> Denied | Some r \<Rightarrow> authorize_role r c)"

subsection \<open>Compiled values\<close>

definition LEAD_CAPABILITIES :: "string list" where
  "LEAD_CAPABILITIES =
     [''spawn:worker'', ''spawn:reviewer'', ''send:*'', ''task:*'', ''logs:*'', ''project:attach'',
      ''workspace:integrate'']"

definition WORKER_CAPABILITIES :: "string list" where
  "WORKER_CAPABILITIES = [''send:lead'', ''send:peer'', ''task:read'', ''task:claim'', ''task:comment'']"

definition REVIEWER_CAPABILITIES :: "string list" where
  "REVIEWER_CAPABILITIES = [''send:lead'', ''task:read'', ''task:comment'']"

text \<open>The \<open>expect\<close> on an invalid grant is \<open>None\<close>; \<open>builtin_never_panics\<close> rules it out.\<close>

fun compiled_capabilities :: "string list \<Rightarrow> CapabilityGrant list option" where
  "compiled_capabilities [] = Some []"
| "compiled_capabilities (v # vs) =
     (case (parse_grant v, compiled_capabilities vs) of
        (Some g, Some gs) \<Rightarrow> Some (g # gs)
      | _ \<Rightarrow> None)"

definition compiled_defaults :: CompiledDefaults where
  "compiled_defaults =
     \<lparr>cd_archetype = ''builtin:standard@1'',
      cd_providers = [(''codex'', [''codex''])],
      cd_limits = \<lparr>max_concurrent_agents = 8, max_agents_per_run = 16, max_spawns_per_minute = 8\<rparr>,
      cd_supervision =
        \<lparr>restart_window_seconds = 60, max_launch_attempts = 3, restart_backoff_seconds = 1,
         startup_timeout_seconds = 30, job_timeout_seconds = 3600, interrupt_grace_ms = 250,
         shutdown_timeout_ms = 5000, idle_timeout_seconds = 60\<rparr>\<rparr>"

definition STANDARD_LEAD_INSTRUCTIONS :: string where
  "STANDARD_LEAD_INSTRUCTIONS =
     ''Coordinate work through Coterie. Delegate independent implementation and'' @ [char_of (10::nat)]
     @ ''review tasks when useful, and report consolidated outcomes to the user.''"

definition standard_role ::
  "RoleMode \<Rightarrow> nat option \<Rightarrow> WorkspacePolicy \<Rightarrow> string \<Rightarrow> string option \<Rightarrow> CapabilityGrant list
   \<Rightarrow> RoleDefinition" where
  "standard_role mode capacity workspace profile instructions grants =
     \<lparr>rl_provider = ''codex'', rl_mode = mode, rl_max_instances = capacity,
      rl_workspace = workspace, rl_permission_profile = profile,
      rl_instructions = instructions, rl_capabilities = grants\<rparr>"

definition builtin_standard :: "ArchetypeDefinition option" where
  "builtin_standard =
     (case (compiled_capabilities LEAD_CAPABILITIES, compiled_capabilities WORKER_CAPABILITIES,
            compiled_capabilities REVIEWER_CAPABILITIES) of
        (Some lead, Some worker, Some reviewer) \<Rightarrow>
          Some \<lparr>ar_reference = ''builtin:standard@1'', ar_lead = ''lead'',
            ar_permission_profiles =
              [(''interactive'', interactive_profile), (''review'', review_profile),
               (''worker'', worker_profile)],
            ar_roles =
              [(''lead'', standard_role InteractiveMode None ProjectWorkspace ''interactive''
                  (Some STANDARD_LEAD_INSTRUCTIONS) lead),
               (''reviewer'', standard_role Job (Some 1) ReadOnlyWorkspace ''review'' None reviewer),
               (''worker'', standard_role Job (Some 3) Worktree ''worker'' None worker)]\<rparr>
      | _ \<Rightarrow> None)"

subsection \<open>Facts\<close>

lemma authorize_unknown_role: "map_of (ar_roles a) name = None \<Longrightarrow> authorize a name c = Denied"
  by (simp add: authorize_def role_def)

lemma authorize_Allowed_iff:
  "authorize a name c = Allowed \<longleftrightarrow>
     (\<exists>r g. role a name = Some r \<and> g \<in> set (rl_capabilities r) \<and> grant_allows g c)"
  by (auto simp: authorize_def authorize_role_def list_ex_iff split: option.splits)

lemma split_once_char: "split_once c s = Some (a, b) \<Longrightarrow> s = a @ c # b \<and> c \<notin> set a"
  by (induction c s arbitrary: a b rule: split_once.induct) (auto split: if_splits option.splits)

lemma parse_grant_canonical:
  "parse_grant v = Some g \<Longrightarrow> v = grant_namespace g @ '':'' @ grant_action g"
proof -
  assume g: "parse_grant v = Some g"
  then obtain ns act where "split_once (CHR '':'') v = Some (ns, act)"
    and "g = \<lparr>grant_namespace = ns, grant_action = act\<rparr>"
    by (simp add: parse_grant_def split: option.splits if_splits prod.splits)
  then show ?thesis using split_once_char by force
qed

definition cap :: "string \<Rightarrow> string \<Rightarrow> Capability" where
  "cap ns act = \<lparr>namespace = ns, action = act\<rparr>"

lemma builtin_grants:
  "compiled_capabilities LEAD_CAPABILITIES =
     Some (map (\<lambda>(n, a). \<lparr>grant_namespace = n, grant_action = a\<rparr>)
       [(''spawn'', ''worker''), (''spawn'', ''reviewer''), (''send'', ''*''), (''task'', ''*''),
        (''logs'', ''*''), (''project'', ''attach''), (''workspace'', ''integrate'')])"
  "compiled_capabilities WORKER_CAPABILITIES =
     Some (map (\<lambda>(n, a). \<lparr>grant_namespace = n, grant_action = a\<rparr>)
       [(''send'', ''lead''), (''send'', ''peer''), (''task'', ''read''), (''task'', ''claim''),
        (''task'', ''comment'')])"
  "compiled_capabilities REVIEWER_CAPABILITIES =
     Some (map (\<lambda>(n, a). \<lparr>grant_namespace = n, grant_action = a\<rparr>)
       [(''send'', ''lead''), (''task'', ''read''), (''task'', ''comment'')])"
  by code_simp+

lemma builtin_never_panics: "\<exists>a. builtin_standard = Some a"
  by (simp add: builtin_standard_def builtin_grants)

lemma builtin_roles:
  assumes "builtin_standard = Some a"
  shows "ar_roles a =
      [(''lead'', standard_role InteractiveMode None ProjectWorkspace ''interactive''
          (Some STANDARD_LEAD_INSTRUCTIONS) (the (compiled_capabilities LEAD_CAPABILITIES))),
       (''reviewer'', standard_role Job (Some 1) ReadOnlyWorkspace ''review'' None
          (the (compiled_capabilities REVIEWER_CAPABILITIES))),
       (''worker'', standard_role Job (Some 3) Worktree ''worker'' None
          (the (compiled_capabilities WORKER_CAPABILITIES)))]"
  using assms by (auto simp: builtin_standard_def builtin_grants)

lemma builtin_authorize:
  assumes "builtin_standard = Some a"
  shows "authorize a name c = Allowed \<longleftrightarrow>
    (name = ''lead'' \<and>
       (namespace c \<in> {''send'', ''task'', ''logs''}
        \<or> namespace c = ''spawn'' \<and> action c \<in> {''worker'', ''reviewer''}
        \<or> namespace c = ''project'' \<and> action c = ''attach''
        \<or> namespace c = ''workspace'' \<and> action c = ''integrate''))
    \<or> (name = ''worker'' \<and>
       (namespace c = ''send'' \<and> action c \<in> {''lead'', ''peer''}
        \<or> namespace c = ''task'' \<and> action c \<in> {''read'', ''claim'', ''comment''}))
    \<or> (name = ''reviewer'' \<and>
       (namespace c = ''send'' \<and> action c = ''lead''
        \<or> namespace c = ''task'' \<and> action c \<in> {''read'', ''comment''}))"
proof -
  consider "name = ''lead''" | "name = ''worker''" | "name = ''reviewer''"
    | "name \<notin> {''lead'', ''worker'', ''reviewer''}" by blast
  then show ?thesis
    by cases
      (auto simp: authorize_def role_def authorize_role_def builtin_roles [OF assms]
        builtin_grants standard_role_def grant_allows_def)
qed

text \<open>
  The sealed archetype gives the authority to change what a run accepts or starts
  only to its lead: of its three roles only the lead may close, create or cancel tasks, spawn
  agents or integrate a workspace, a reviewer may not claim work, and a role it does not declare
  may do nothing.
\<close>

lemma builtin_separation_of_duties:
  assumes "builtin_standard = Some a"
  shows "(authorize a name (cap ''workspace'' act) = Allowed \<longrightarrow> name = ''lead'' \<and> act = ''integrate'')
    \<and> (authorize a name (cap ''spawn'' act) = Allowed
         \<longrightarrow> name = ''lead'' \<and> (act = ''worker'' \<or> act = ''reviewer''))
    \<and> (authorize a name (cap ''task'' act) = Allowed
         \<longrightarrow> name = ''lead''
           \<or> name = ''worker'' \<and> act \<in> {''read'', ''claim'', ''comment''}
           \<or> name = ''reviewer'' \<and> act \<in> {''read'', ''comment''})
    \<and> (authorize a name c = Allowed \<longrightarrow> name \<in> {''lead'', ''worker'', ''reviewer''})"
  unfolding builtin_authorize [OF assms] cap_def by auto

end
