(* ===== verification/Records.thy ===== *)
theory Records
  imports Tasks Lifecycle Token Archetype
begin

section \<open>The durable records and the database (src/src/state.rs)\<close>

text \<open>
  The row types of the run database, the mutation inputs and results, the event kinds, the errors
  of the store and the database itself: one table per SQL table that the modelled operations
  read or write, plus the number of event identifiers drawn so far. Paths are byte strings.
  Timestamps, generations, sequences and \<open>rowid\<close>s are 64-bit in the code and integers here;
  where the code saturates (\<open>src/src/state/supervision.rs\<close>) the saturation is written out.
\<close>

record RunRecord =
  rn_id :: run_id
  rn_status :: string
  rn_created_at :: int
  rn_stopped_at :: "int option"

record ProjectRecord =
  pj_id :: project_id
  pj_run_id :: run_id
  pj_alias :: string
  pj_original_path :: string
  pj_canonical_path :: string
  pj_identity :: json
  pj_is_primary :: bool
  pj_attached_at :: int

record AgentRecord =
  ag_id :: agent_id
  ag_run_id :: run_id
  ag_role :: string
  ag_generation :: int
  ag_state :: LifecycleState
  ag_created_at :: int

record SessionRecord =
  se_id :: session_id
  se_run_id :: run_id
  se_agent_id :: agent_id
  se_generation :: int
  se_provider :: string
  se_provider_session_id :: "string option"
  se_reconciliation_state :: ExternalResourceState
  se_state :: LifecycleState
  se_transcript_path :: string
  se_created_at :: int
  se_ended_at :: "int option"
  se_reconciled_at :: "int option"
  se_process_owner :: SessionProcessOwner

record SessionCredentialRecord =
  cr_session_id :: session_id
  cr_run_id :: run_id
  cr_agent_id :: agent_id
  cr_generation :: int
  cr_token_verifier :: TokenVerifier
  cr_created_at :: int
  cr_revoked_at :: "int option"

datatype SessionTransitionOutcome = SApplied | SUnchanged | SStale
datatype ResourceTransitionOutcome = WApplied | WUnchanged | WStale

record TaskGroupRecord =
  tg_id :: int
  tg_run_id :: run_id
  tg_name :: "string option"
  tg_created_at :: int

record TaskRecord =
  tk_id :: task_id
  tk_run_id :: run_id
  tk_project_id :: project_id
  tk_group_id :: "int option"
  tk_title :: string
  tk_description :: string
  tk_status :: TaskStatus
  tk_result :: "json option"
  tk_created_at :: int
  tk_updated_at :: int

record DependencyRecord =
  dp_run_id :: run_id
  dp_task_id :: task_id
  dp_dependency_task_id :: task_id
  dp_created_at :: int

record CommentRecord =
  co_id :: int
  co_run_id :: run_id
  co_task_id :: task_id
  co_author_agent_id :: "agent_id option"
  co_body :: string
  co_created_at :: int

text \<open>The last field is the column \<open>request_fingerprint\<close>, which the Rust struct does not read.\<close>

record OperationRecord =
  op_id :: operation_id
  op_run_id :: run_id
  op_kind :: string
  op_actor_agent_id :: "agent_id option"
  op_status :: string
  op_request :: json
  op_result :: "json option"
  op_attempt_count :: int
  op_reconciliation_state :: "ExternalResourceState option"
  op_reconciliation_attempt_count :: int
  op_reconciliation_error :: "string option"
  op_reconciled_at :: "int option"
  op_created_at :: int
  op_updated_at :: int
  op_request_fingerprint :: "string option"

record Mutation =
  mu_id :: operation_id
  mu_run_id :: run_id
  mu_kind :: string
  mu_actor_agent_id :: "agent_id option"
  mu_request :: json
  mu_created_at :: int

datatype 'a MutationOutcome = Applied 'a | Replayed 'a

fun as_replayed :: "'a MutationOutcome \<Rightarrow> 'a MutationOutcome" where
  "as_replayed (Applied r) = Replayed r"
| "as_replayed (Replayed r) = Replayed r"

record ClaimTaskMutation =
  ct_operation_id :: operation_id
  ct_run_id :: run_id
  ct_actor_agent_id :: "agent_id option"
  ct_task_id :: task_id
  ct_agent_id :: agent_id
  ct_assignment_id :: assignment_id
  ct_claimed_at :: int

record OperatorClosureOverride =
  ov_assignment_id :: assignment_id
  ov_project_id :: project_id
  ov_base_commit :: string
  ov_result_commit :: string
  ov_target_reference :: string
  ov_target_commit :: string
  ov_reason :: string
  ov_validation_summary :: string

record TaskTransitionMutation =
  tt_operation_id :: operation_id
  tt_run_id :: run_id
  tt_actor_agent_id :: "agent_id option"
  tt_task_id :: task_id
  tt_transition :: TaskTransition
  tt_result :: "json option"
  tt_operator_override :: "OperatorClosureOverride option"
  tt_summary :: "string option"
  tt_transitioned_at :: int

datatype TaskTransitionRejection = TransitionTaskNotFound | InvalidStatus TaskStatus | AcceptanceNotMet

datatype TaskTransitionResult =
  Transitioned TaskStatus TaskStatus
| TransitionRejected TaskTransitionRejection

datatype ClaimRejection = TaskNotFound | TaskNotOpen | Blocked | AlreadyClaimed | AgentNotFound | AgentBusy

datatype ClaimTaskResult = Claimed int assignment_id | ClaimRejected ClaimRejection

record ClaimRecord =
  cl_id :: int
  cl_run_id :: run_id
  cl_task_id :: task_id
  cl_agent_id :: agent_id
  cl_operation_id :: operation_id
  cl_state :: string
  cl_claimed_at :: int
  cl_released_at :: "int option"

record AssignmentRecord =
  as_id :: assignment_id
  as_run_id :: run_id
  as_task_id :: task_id
  as_agent_id :: agent_id
  as_session_id :: "session_id option"
  as_claim_id :: int
  as_generation :: int
  as_state :: string
  as_summary :: "string option"
  as_created_at :: int
  as_completed_at :: "int option"

record MessageRecord =
  ms_id :: message_id
  ms_run_id :: run_id
  ms_sender_agent_id :: "agent_id option"
  ms_recipient_agent_id :: agent_id
  ms_sequence :: int
  ms_body :: string
  ms_created_at :: int
  ms_acknowledged_at :: "int option"

record AcknowledgeMessagesMutation =
  ak_operation_id :: operation_id
  ak_run_id :: run_id
  ak_agent_id :: agent_id
  ak_through :: int
  ak_acknowledged_at :: int

datatype AcknowledgeMessagesResult = Acknowledged int nat | CursorNotFound int

record AssignmentScope =
  sp_run_id :: run_id
  sp_assignment_id :: assignment_id
  sp_generation :: int

record WorkspaceRecord =
  ws_assignment_id :: assignment_id
  ws_generation :: int
  ws_run_id :: run_id
  ws_project_id :: project_id
  ws_kind :: string
  ws_path :: string
  ws_state :: ExternalResourceState
  ws_base_commit :: "string option"
  ws_result_commit :: "string option"
  ws_target_commit :: "string option"
  ws_created_at :: int
  ws_reconciled_at :: "int option"

definition assignment_scope :: "AssignmentRecord \<Rightarrow> AssignmentScope" where
  "assignment_scope a =
     \<lparr>sp_run_id = as_run_id a, sp_assignment_id = as_id a, sp_generation = as_generation a\<rparr>"

definition workspace_scope :: "WorkspaceRecord \<Rightarrow> AssignmentScope" where
  "workspace_scope w =
     \<lparr>sp_run_id = ws_run_id w, sp_assignment_id = ws_assignment_id w, sp_generation = ws_generation w\<rparr>"

record EventRecord =
  ev_id :: event_id
  ev_run_id :: run_id
  ev_sequence :: int
  ev_type :: string
  ev_actor :: string
  ev_subject :: string
  ev_project_id :: "project_id option"
  ev_agent_id :: "agent_id option"
  ev_task_id :: "task_id option"
  ev_operation_id :: "operation_id option"
  ev_correlation_id :: "event_id option"
  ev_causation_id :: "event_id option"
  ev_payload :: json
  ev_summary :: string
  ev_created_at :: int

datatype (plugins del: transfer) EventKind =
  RunStarted | RunStopped | RunRecovered | RunShutdownChanged | SessionControlChanged
| SessionDeadlineApproaching | SessionRestartLimited | ProjectAttached | AgentCreated
| AgentLifecycleChanged | SessionStarted | SessionLifecycleChanged | SessionReconciliationChanged
| OperationReconciliationChanged | TaskCreated | TaskClaimed | TaskLifecycleChanged
| TaskResubmitted | TaskRecovered | AssignmentContinued | AssignmentCreated
| AssignmentSessionAssociated | AssignmentLifecycleChanged | ClaimReleased | MessageSent
| MessageAcknowledged | WorkspaceDesired | WorkspaceReconciliationChanged
| WorkspaceIntegrationDesired | WorkspaceIntegrated

fun event_kind_as_str :: "EventKind \<Rightarrow> string" where
  "event_kind_as_str RunStarted = ''run.started''"
| "event_kind_as_str RunStopped = ''run.stopped''"
| "event_kind_as_str RunRecovered = ''run.recovered''"
| "event_kind_as_str RunShutdownChanged = ''run.shutdown_changed''"
| "event_kind_as_str SessionControlChanged = ''session.control_changed''"
| "event_kind_as_str SessionDeadlineApproaching = ''session.deadline_approaching''"
| "event_kind_as_str SessionRestartLimited = ''session.restart_limited''"
| "event_kind_as_str ProjectAttached = ''project.attached''"
| "event_kind_as_str AgentCreated = ''agent.created''"
| "event_kind_as_str AgentLifecycleChanged = ''agent.lifecycle_changed''"
| "event_kind_as_str SessionStarted = ''session.started''"
| "event_kind_as_str SessionLifecycleChanged = ''session.lifecycle_changed''"
| "event_kind_as_str SessionReconciliationChanged = ''session.reconciliation_changed''"
| "event_kind_as_str OperationReconciliationChanged = ''operation.reconciliation_changed''"
| "event_kind_as_str TaskCreated = ''task.created''"
| "event_kind_as_str TaskClaimed = ''task.claimed''"
| "event_kind_as_str TaskLifecycleChanged = ''task.lifecycle_changed''"
| "event_kind_as_str TaskResubmitted = ''task.resubmitted''"
| "event_kind_as_str TaskRecovered = ''task.recovered''"
| "event_kind_as_str AssignmentContinued = ''assignment.continued''"
| "event_kind_as_str AssignmentCreated = ''assignment.created''"
| "event_kind_as_str AssignmentSessionAssociated = ''assignment.session_associated''"
| "event_kind_as_str AssignmentLifecycleChanged = ''assignment.lifecycle_changed''"
| "event_kind_as_str ClaimReleased = ''claim.released''"
| "event_kind_as_str MessageSent = ''message.sent''"
| "event_kind_as_str MessageAcknowledged = ''message.acknowledged''"
| "event_kind_as_str WorkspaceDesired = ''workspace.desired''"
| "event_kind_as_str WorkspaceReconciliationChanged = ''workspace.reconciliation_changed''"
| "event_kind_as_str WorkspaceIntegrationDesired = ''workspace.integration_desired''"
| "event_kind_as_str WorkspaceIntegrated = ''workspace.integrated''"

record NewEvent =
  ne_run_id :: run_id
  ne_kind :: EventKind
  ne_actor :: string
  ne_subject :: string
  ne_project_id :: "project_id option"
  ne_agent_id :: "agent_id option"
  ne_task_id :: "task_id option"
  ne_operation_id :: "operation_id option"
  ne_correlation_id :: "event_id option"
  ne_causation_id :: "event_id option"
  ne_data :: json
  ne_summary :: string
  ne_created_at :: int

subsection \<open>Supervision rows (src/src/state/supervision.rs)\<close>

datatype ShutdownPhase = Interrupting | Terminating | Reconciling | ShutdownTimedOut | ShutdownCompleted
datatype ControlPhase = Interrupt | Terminate | Kill | ControlTimedOut | ControlCompleted
datatype ControlReason = Shutdown | StartupTimeout | ExecutionTimeout

record RunShutdown =
  rs_run_id :: run_id
  rs_operation_id :: operation_id
  rs_phase :: ShutdownPhase
  rs_requested_at_ms :: int
  rs_interrupt_until_ms :: int
  rs_deadline_ms :: int

record SessionControl =
  sn_scope :: SessionScope
  sn_reason :: ControlReason
  sn_phase :: ControlPhase
  sn_delivered :: bool
  sn_requested_at_ms :: int
  sn_interrupt_until_ms :: int
  sn_kill_at_ms :: int
  sn_deadline_ms :: int

record LaunchAttempt =
  la_scope :: SessionScope
  la_window_started_at :: int
  la_attempts :: int
  la_next_attempt_at :: int
  la_in_flight :: bool
  la_quarantined :: bool

record SessionFailure =
  sf_session_id :: session_id
  sf_run_id :: run_id
  sf_agent_id :: agent_id
  sf_failed_at :: int
  sf_quarantine_until :: "int option"

text \<open>Handoffs of recovered assignments (src/src/state/recovery.rs).\<close>

record RecoveryHandoffRecord =
  rh_assignment_id :: assignment_id
  rh_run_id :: run_id
  rh_operation_id :: operation_id
  rh_document :: json

text \<open>Notifications of a foreground session (src/src/state/notifications.rs).\<close>

record ForegroundNotification =
  fn_scope :: SessionScope
  fn_thread_id :: "string option"
  fn_event_cursor :: int
  fn_message_cursor :: int

record NotificationDelivery =
  nd_operation_id :: operation_id
  nd_session_id :: session_id
  nd_event_cursor :: int
  nd_message_cursor :: int
  nd_state :: string
  nd_created_at :: int
  nd_observed_at :: "int option"
  nd_receipt_state :: string
  nd_received_at :: "int option"

text \<open>What identifies the process of a foreground session, observed once at its start.\<close>

datatype InheritedInput = Pty nat nat nat | NonTerminal | UnavailableInput

record ForegroundIdentity =
  fi_process_id :: nat
  fi_boot_id :: string
  fi_start_ticks :: nat
  fi_user_id :: nat
  fi_input :: InheritedInput

record ForegroundIdentityRow =
  fr_run_id :: run_id
  fr_session_id :: session_id
  fr_identity :: ForegroundIdentity

datatype LaunchAdmission = LaunchAllowed | Backoff int | LaunchQuarantined | LaunchUnknown

subsection \<open>Errors\<close>

text \<open>
  \<open>Database\<close> is a rejected constraint or trigger of the schema; the input/output errors of SQLite
  are outside the model. \<open>Panic\<close> is a Rust panic.
\<close>

datatype (plugins del: transfer) StoreError =
  Database
| EncodeJson
| Panic
| WorkspacePathReserved assignment_id
| EventTooLarge event_id
| OperationConflict operation_id
| OperationIncomplete operation_id string
| MissingOperationResult operation_id
| CorruptAgentState agent_id
| CorruptTaskState task_id
| CorruptAssignmentState assignment_id
| StaleAssignment assignment_id
| WorkspaceResultConflict assignment_id string string
| WorkspaceTargetConflict assignment_id string string
| ResubmissionConflict assignment_id
| RecoveryConflict assignment_id string
| RunRecoveryConflict run_id string
| RunNotActive run_id
| InvalidConfigurationSnapshot run_id
| CredentialAlreadyRevoked session_id
| InvalidSessionTransition session_id LifecycleState LifecycleState
| InconsistentSessionLifecycle session_id agent_id

subsection \<open>The database\<close>

record Db =
  runs :: "RunRecord table"
  projects :: "ProjectRecord table"
  agents :: "AgentRecord table"
  sessions :: "SessionRecord table"
  credentials :: "SessionCredentialRecord table"
  task_groups :: "TaskGroupRecord table"
  tasks :: "TaskRecord table"
  dependencies :: "DependencyRecord table"
  comments :: "CommentRecord table"
  operations :: "OperationRecord table"
  claims :: "ClaimRecord table"
  assignments :: "AssignmentRecord table"
  messages :: "MessageRecord table"
  workspaces :: "WorkspaceRecord table"
  events :: "EventRecord table"
  run_shutdowns :: "RunShutdown table"
  session_controls :: "SessionControl table"
  launch_attempts :: "LaunchAttempt table"
  session_failures :: "SessionFailure table"
  recovery_handoffs :: "RecoveryHandoffRecord table"
  foreground_notifications :: "ForegroundNotification table"
  notification_deliveries :: "NotificationDelivery table"
  foreground_identities :: "ForegroundIdentityRow table"
  events_drawn :: nat

definition empty_db :: Db where
  "empty_db =
     \<lparr>runs = [], projects = [], agents = [], sessions = [], credentials = [], task_groups = [],
      tasks = [], dependencies = [], comments = [], operations = [], claims = [], assignments = [],
      messages = [], workspaces = [], events = [], run_shutdowns = [], session_controls = [],
      launch_attempts = [], session_failures = [], recovery_handoffs = [],
      foreground_notifications = [], notification_deliveries = [], foreground_identities = [],
      events_drawn = 0\<rparr>"

type_synonym 'a repo = "(Db, StoreError, 'a) action"

text \<open>
  What the store takes from outside the repository: the ULID codec, the identifiers that
  \<open>EventId::generate\<close> draws, the length of a serialized event, and the environment variables.
\<close>

record Env =
  env_ulid :: ulid_lib
  env_event_ulid :: "nat \<Rightarrow> nat"
  env_event_len :: "EventRecord \<Rightarrow> nat"
  env_vars :: "string \<Rightarrow> string option"

text \<open>\<open>Store::transaction\<close>: all changes of a successful operation, or none.\<close>

definition transaction :: "'a repo \<Rightarrow> Db \<Rightarrow> (StoreError + 'a) \<times> Db" where
  "transaction m db = (case m db of Inl e \<Rightarrow> (Inl e, db) | Inr (a, db') \<Rightarrow> (Inr a, db'))"

definition require :: "bool \<Rightarrow> StoreError \<Rightarrow> unit repo" where
  "require b e = (if b then ret () else fail e)"

lemma require_Inr [simp]: "require b e db = Inr (u, db') \<longleftrightarrow> b \<and> db' = db"
  by (auto simp: require_def)

lemma require_True [simp]: "require True e = ret ()"
  by (simp add: require_def)

lemma keeps_require [keeps_intros]: "keeps P (require b e)"
  by (auto simp: keeps_def)

subsection \<open>Text forms used in events\<close>

definition run_text :: "Env \<Rightarrow> run_id \<Rightarrow> string" where
  "run_text e i = format_id (env_ulid e) ''cr'' (run_ulid i)"
definition agent_text :: "Env \<Rightarrow> agent_id \<Rightarrow> string" where
  "agent_text e i = format_id (env_ulid e) ''cg'' (agent_ulid i)"
definition session_text :: "Env \<Rightarrow> session_id \<Rightarrow> string" where
  "session_text e i = format_id (env_ulid e) ''cs'' (session_ulid i)"
definition task_text :: "Env \<Rightarrow> task_id \<Rightarrow> string" where
  "task_text e i = format_id (env_ulid e) ''ct'' (task_ulid i)"
definition assignment_text :: "Env \<Rightarrow> assignment_id \<Rightarrow> string" where
  "assignment_text e i = format_id (env_ulid e) ''ca'' (assignment_ulid i)"
definition operation_text :: "Env \<Rightarrow> operation_id \<Rightarrow> string" where
  "operation_text e i = format_id (env_ulid e) ''co'' (operation_ulid i)"

definition mutation_actor :: "Env \<Rightarrow> agent_id option \<Rightarrow> string" where
  "mutation_actor e a = (case a of None \<Rightarrow> ''operator'' | Some i \<Rightarrow> agent_text e i)"

text \<open>Identifiers inside JSON documents.\<close>

definition agent_json :: "agent_id \<Rightarrow> json" where "agent_json i = JId ''cg'' (agent_ulid i)"
definition session_json :: "session_id \<Rightarrow> json" where "session_json i = JId ''cs'' (session_ulid i)"
definition task_json :: "task_id \<Rightarrow> json" where "task_json i = JId ''ct'' (task_ulid i)"
definition assignment_json :: "assignment_id \<Rightarrow> json" where
  "assignment_json i = JId ''ca'' (assignment_ulid i)"
definition project_json :: "project_id \<Rightarrow> json" where "project_json i = JId ''cp'' (project_ulid i)"
definition status_json :: "TaskStatus \<Rightarrow> json" where "status_json s = JStr (status_as_str s)"

lemma id_json_inject [simp]:
  "agent_json a = agent_json b \<longleftrightarrow> a = b"
  "session_json s = session_json s' \<longleftrightarrow> s = s'"
  "task_json t = task_json u \<longleftrightarrow> t = u"
  "assignment_json x = assignment_json y \<longleftrightarrow> x = y"
  by (auto simp: agent_json_def session_json_def task_json_def assignment_json_def
      intro: agent_id.expand session_id.expand task_id.expand assignment_id.expand)

end
