(* ===== verification/Schema.thy ===== *)
theory Schema
  imports Records
begin

section \<open>The constraints of the schema (src/src/state/migrations)\<close>

text \<open>
  One predicate per table: what SQLite checks when a row is inserted - the primary key, the
  unique indexes (partial ones included), the foreign keys, the CHECK clauses and the triggers of
  the migrations under \<open>src/src/state/migrations\<close>, in the schema that all twenty leave behind. A
  foreign key with a NULL column is not checked.
\<close>

definition run_exists :: "Db \<Rightarrow> run_id \<Rightarrow> bool" where
  "run_exists db r \<longleftrightarrow> exists_row (\<lambda>x. rn_id x = r) (runs db)"
definition agent_exists :: "Db \<Rightarrow> run_id \<Rightarrow> agent_id \<Rightarrow> bool" where
  "agent_exists db r a \<longleftrightarrow> exists_row (\<lambda>x. ag_run_id x = r \<and> ag_id x = a) (agents db)"
definition project_exists :: "Db \<Rightarrow> run_id \<Rightarrow> project_id \<Rightarrow> bool" where
  "project_exists db r p \<longleftrightarrow> exists_row (\<lambda>x. pj_run_id x = r \<and> pj_id x = p) (projects db)"
definition task_exists :: "Db \<Rightarrow> run_id \<Rightarrow> task_id \<Rightarrow> bool" where
  "task_exists db r t \<longleftrightarrow> exists_row (\<lambda>x. tk_run_id x = r \<and> tk_id x = t) (tasks db)"
definition group_exists :: "Db \<Rightarrow> run_id \<Rightarrow> int \<Rightarrow> bool" where
  "group_exists db r g \<longleftrightarrow> exists_row (\<lambda>x. tg_run_id x = r \<and> tg_id x = g) (task_groups db)"
definition operation_exists :: "Db \<Rightarrow> run_id \<Rightarrow> operation_id \<Rightarrow> bool" where
  "operation_exists db r i \<longleftrightarrow> exists_row (\<lambda>x. op_run_id x = r \<and> op_id x = i) (operations db)"
definition claim_exists :: "Db \<Rightarrow> run_id \<Rightarrow> int \<Rightarrow> bool" where
  "claim_exists db r c \<longleftrightarrow> exists_row (\<lambda>x. cl_run_id x = r \<and> cl_id x = c) (claims db)"
definition session_exists :: "Db \<Rightarrow> run_id \<Rightarrow> agent_id \<Rightarrow> session_id \<Rightarrow> bool" where
  "session_exists db r a s \<longleftrightarrow>
     exists_row (\<lambda>x. se_run_id x = r \<and> se_agent_id x = a \<and> se_id x = s) (sessions db)"
definition assignment_exists :: "Db \<Rightarrow> run_id \<Rightarrow> assignment_id \<Rightarrow> bool" where
  "assignment_exists db r a \<longleftrightarrow> exists_row (\<lambda>x. as_run_id x = r \<and> as_id x = a) (assignments db)"
definition event_exists :: "Db \<Rightarrow> run_id \<Rightarrow> event_id \<Rightarrow> bool" where
  "event_exists db r e \<longleftrightarrow> exists_row (\<lambda>x. ev_run_id x = r \<and> ev_id x = e) (events db)"

definition references :: "('k \<Rightarrow> bool) \<Rightarrow> 'k option \<Rightarrow> bool" where
  "references p x = (case x of None \<Rightarrow> True | Some k \<Rightarrow> p k)"

lemma references_simps [simp]: "references p None" "references p (Some k) = p k"
  by (simp_all add: references_def)

definition run_row_ok :: "Db \<Rightarrow> RunRecord \<Rightarrow> bool" where
  "run_row_ok db r \<longleftrightarrow> rn_id r \<notin> rn_id ` set (runs db)"

definition project_row_ok :: "Db \<Rightarrow> ProjectRecord \<Rightarrow> bool" where
  "project_row_ok db p \<longleftrightarrow>
     pj_id p \<notin> pj_id ` set (projects db) \<and> run_exists db (pj_run_id p)
     \<and> \<not> exists_row (\<lambda>x. pj_run_id x = pj_run_id p \<and> pj_alias x = pj_alias p) (projects db)
     \<and> \<not> exists_row (\<lambda>x. pj_run_id x = pj_run_id p \<and> pj_canonical_path x = pj_canonical_path p) (projects db)
     \<and> \<not> (pj_is_primary p \<and> exists_row (\<lambda>x. pj_run_id x = pj_run_id p \<and> pj_is_primary x) (projects db))"

definition agent_row_ok :: "Db \<Rightarrow> AgentRecord \<Rightarrow> bool" where
  "agent_row_ok db a \<longleftrightarrow>
     ag_id a \<notin> ag_id ` set (agents db) \<and> 0 \<le> ag_generation a \<and> run_exists db (ag_run_id a)"

definition session_row_ok :: "Db \<Rightarrow> SessionRecord \<Rightarrow> bool" where
  "session_row_ok db s \<longleftrightarrow>
     se_id s \<notin> se_id ` set (sessions db) \<and> 0 \<le> se_generation s
     \<and> agent_exists db (se_run_id s) (se_agent_id s)
     \<and> \<not> exists_row (\<lambda>x. se_agent_id x = se_agent_id s \<and> se_generation x = se_generation s) (sessions db)"

definition credential_revocation_ok :: "SessionCredentialRecord \<Rightarrow> bool" where
  "credential_revocation_ok c \<longleftrightarrow>
     (case cr_revoked_at c of None \<Rightarrow> True | Some t \<Rightarrow> cr_created_at c \<le> t)"

definition credential_row_ok :: "Db \<Rightarrow> SessionCredentialRecord \<Rightarrow> bool" where
  "credential_row_ok db c \<longleftrightarrow>
     cr_session_id c \<notin> cr_session_id ` set (credentials db) \<and> 0 \<le> cr_generation c
     \<and> credential_revocation_ok c
     \<and> exists_row (\<lambda>x. se_run_id x = cr_run_id c \<and> se_agent_id x = cr_agent_id c
          \<and> se_id x = cr_session_id c \<and> se_generation x = cr_generation c) (sessions db)
     \<and> \<not> (cr_revoked_at c = None
          \<and> exists_row (\<lambda>x. cr_run_id x = cr_run_id c \<and> cr_agent_id x = cr_agent_id c
               \<and> cr_revoked_at x = None) (credentials db))"

definition group_row_ok :: "Db \<Rightarrow> TaskGroupRecord \<Rightarrow> bool" where
  "group_row_ok db g \<longleftrightarrow> tg_id g \<notin> tg_id ` set (task_groups db) \<and> run_exists db (tg_run_id g)"

definition task_row_ok :: "Db \<Rightarrow> TaskRecord \<Rightarrow> bool" where
  "task_row_ok db t \<longleftrightarrow>
     tk_id t \<notin> tk_id ` set (tasks db) \<and> run_exists db (tk_run_id t)
     \<and> project_exists db (tk_run_id t) (tk_project_id t)
     \<and> references (group_exists db (tk_run_id t)) (tk_group_id t)"

definition dependency_row_ok :: "Db \<Rightarrow> DependencyRecord \<Rightarrow> bool" where
  "dependency_row_ok db d \<longleftrightarrow>
     \<not> exists_row (\<lambda>x. dp_task_id x = dp_task_id d \<and> dp_dependency_task_id x = dp_dependency_task_id d)
         (dependencies db)
     \<and> dp_task_id d \<noteq> dp_dependency_task_id d
     \<and> task_exists db (dp_run_id d) (dp_task_id d)
     \<and> task_exists db (dp_run_id d) (dp_dependency_task_id d)"

definition comment_row_ok :: "Db \<Rightarrow> CommentRecord \<Rightarrow> bool" where
  "comment_row_ok db c \<longleftrightarrow>
     co_id c \<notin> co_id ` set (comments db) \<and> task_exists db (co_run_id c) (co_task_id c)
     \<and> references (agent_exists db (co_run_id c)) (co_author_agent_id c)"

definition operation_row_ok :: "Db \<Rightarrow> OperationRecord \<Rightarrow> bool" where
  "operation_row_ok db r \<longleftrightarrow>
     op_id r \<notin> op_id ` set (operations db) \<and> 0 \<le> op_attempt_count r
     \<and> 0 \<le> op_reconciliation_attempt_count r \<and> run_exists db (op_run_id r)
     \<and> references (agent_exists db (op_run_id r)) (op_actor_agent_id r)"

definition claim_row_ok :: "Db \<Rightarrow> ClaimRecord \<Rightarrow> bool" where
  "claim_row_ok db c \<longleftrightarrow>
     cl_id c \<notin> cl_id ` set (claims db)
     \<and> task_exists db (cl_run_id c) (cl_task_id c)
     \<and> agent_exists db (cl_run_id c) (cl_agent_id c)
     \<and> operation_exists db (cl_run_id c) (cl_operation_id c)
     \<and> \<not> (cl_released_at c = None
          \<and> exists_row (\<lambda>x. cl_task_id x = cl_task_id c \<and> cl_released_at x = None) (claims db))
     \<and> cl_operation_id c \<notin> cl_operation_id ` set (claims db)"

definition assignment_row_ok :: "Db \<Rightarrow> AssignmentRecord \<Rightarrow> bool" where
  "assignment_row_ok db a \<longleftrightarrow>
     as_id a \<notin> as_id ` set (assignments db) \<and> 0 \<le> as_generation a
     \<and> task_exists db (as_run_id a) (as_task_id a)
     \<and> agent_exists db (as_run_id a) (as_agent_id a)
     \<and> references (session_exists db (as_run_id a) (as_agent_id a)) (as_session_id a)
     \<and> claim_exists db (as_run_id a) (as_claim_id a)
     \<and> as_claim_id a \<notin> as_claim_id ` set (assignments db)
     \<and> \<not> (as_completed_at a = None
          \<and> exists_row (\<lambda>x. as_agent_id x = as_agent_id a \<and> as_completed_at x = None) (assignments db))"

definition message_row_ok :: "Db \<Rightarrow> MessageRecord \<Rightarrow> bool" where
  "message_row_ok db m \<longleftrightarrow>
     ms_id m \<notin> ms_id ` set (messages db) \<and> 0 < ms_sequence m \<and> run_exists db (ms_run_id m)
     \<and> references (agent_exists db (ms_run_id m)) (ms_sender_agent_id m)
     \<and> agent_exists db (ms_run_id m) (ms_recipient_agent_id m)
     \<and> \<not> exists_row (\<lambda>x. ms_run_id x = ms_run_id m \<and> ms_recipient_agent_id x = ms_recipient_agent_id m
          \<and> ms_sequence x = ms_sequence m) (messages db)"

text \<open>
  The trigger \<open>message_acknowledgements_are_final\<close> on an update of \<open>acknowledged_at\<close>.
\<close>

definition acknowledgement_allowed :: "MessageRecord \<Rightarrow> int option \<Rightarrow> bool" where
  "acknowledgement_allowed old_row at \<longleftrightarrow>
     ms_acknowledged_at old_row = None
     \<and> (case at of None \<Rightarrow> False | Some t \<Rightarrow> ms_created_at old_row \<le> t)"

text \<open>The view \<open>workspace_path_ownership\<close> of migration 14.\<close>

record PathOwnership =
  po_assignment_id :: assignment_id
  po_run_id :: run_id
  po_path :: string
  po_exclusive :: bool
  po_writer :: bool

definition observed_exit :: "SessionRecord \<Rightarrow> bool" where
  "observed_exit s \<longleftrightarrow> se_state s = Exited \<and> se_reconciliation_state s = RObserved"

definition workspace_writer :: "Db \<Rightarrow> WorkspaceRecord \<Rightarrow> AssignmentRecord \<Rightarrow> bool" where
  "workspace_writer db w a \<longleftrightarrow>
     ws_kind w = ''project'' \<and>
     (as_completed_at a = None
      \<or> as_state a \<notin> set [''completed'', ''released'', ''canceled'']
      \<or> as_session_id a = None
      \<or> \<not> exists_row (\<lambda>s. Some (se_id s) = as_session_id a \<and> se_run_id s = as_run_id a
            \<and> se_agent_id s = as_agent_id a \<and> se_generation s = as_generation a
            \<and> observed_exit s) (sessions db)
      \<or> exists_row (\<lambda>s. se_run_id s = as_run_id a \<and> se_agent_id s = as_agent_id a
            \<and> \<not> observed_exit s) (sessions db))"

definition workspace_path_ownership :: "Db \<Rightarrow> PathOwnership list" where
  "workspace_path_ownership db =
     concat (map (\<lambda>w. map (\<lambda>a.
         \<lparr>po_assignment_id = ws_assignment_id w, po_run_id = ws_run_id w, po_path = ws_path w,
          po_exclusive = (ws_kind w \<notin> set [''project'', ''read_only'']),
          po_writer = workspace_writer db w a\<rparr>)
       (filter (\<lambda>a. as_id a = ws_assignment_id w \<and> as_run_id a = ws_run_id w) (assignments db)))
     (workspaces db))"

text \<open>The condition shared by the trigger \<open>workspace_path_admission\<close> and \<open>insert_workspace\<close>.\<close>

definition path_reserved_by :: "WorkspaceRecord \<Rightarrow> PathOwnership \<Rightarrow> bool" where
  "path_reserved_by w own \<longleftrightarrow>
     po_run_id own = ws_run_id w \<and> po_path own = ws_path w
     \<and> (po_exclusive own \<or> ws_kind w \<notin> set [''project'', ''read_only'']
        \<or> (ws_kind w = ''project'' \<and> po_writer own))"

definition workspace_row_ok :: "Db \<Rightarrow> WorkspaceRecord \<Rightarrow> bool" where
  "workspace_row_ok db w \<longleftrightarrow>
     ws_assignment_id w \<notin> ws_assignment_id ` set (workspaces db) \<and> 0 \<le> ws_generation w
     \<and> assignment_exists db (ws_run_id w) (ws_assignment_id w)
     \<and> project_exists db (ws_run_id w) (ws_project_id w)
     \<and> \<not> (ws_kind w = ''worktree''
          \<and> exists_row (\<lambda>x. ws_run_id x = ws_run_id w \<and> ws_path x = ws_path w \<and> ws_kind x = ''worktree'')
              (workspaces db))
     \<and> exists_row (\<lambda>a. as_id a = ws_assignment_id w \<and> as_run_id a = ws_run_id w
          \<and> as_generation a = ws_generation w
          \<and> exists_row (\<lambda>t. tk_id t = as_task_id a \<and> tk_run_id t = as_run_id a
               \<and> tk_project_id t = ws_project_id w) (tasks db)) (assignments db)
     \<and> \<not> exists_row (path_reserved_by w) (workspace_path_ownership db)"

definition event_row_ok :: "Db \<Rightarrow> EventRecord \<Rightarrow> bool" where
  "event_row_ok db e \<longleftrightarrow>
     ev_id e \<notin> ev_id ` set (events db) \<and> 0 < ev_sequence e \<and> run_exists db (ev_run_id e)
     \<and> references (project_exists db (ev_run_id e)) (ev_project_id e)
     \<and> references (agent_exists db (ev_run_id e)) (ev_agent_id e)
     \<and> references (task_exists db (ev_run_id e)) (ev_task_id e)
     \<and> references (operation_exists db (ev_run_id e)) (ev_operation_id e)
     \<and> references (event_exists db (ev_run_id e)) (ev_correlation_id e)
     \<and> references (event_exists db (ev_run_id e)) (ev_causation_id e)
     \<and> \<not> exists_row (\<lambda>x. ev_run_id x = ev_run_id e \<and> ev_sequence x = ev_sequence e) (events db)"

definition shutdown_row_ok :: "Db \<Rightarrow> RunShutdown \<Rightarrow> bool" where
  "shutdown_row_ok db s \<longleftrightarrow>
     rs_run_id s \<notin> rs_run_id ` set (run_shutdowns db)
     \<and> rs_operation_id s \<notin> rs_operation_id ` set (run_shutdowns db)
     \<and> run_exists db (rs_run_id s) \<and> operation_exists db (rs_run_id s) (rs_operation_id s)
     \<and> rs_requested_at_ms s \<le> rs_interrupt_until_ms s
     \<and> rs_interrupt_until_ms s < rs_deadline_ms s"

text \<open>
  \<open>INSERT OR IGNORE\<close> skips a row whose key is taken or that violates a CHECK; a foreign key
  still aborts.
\<close>

definition control_fk_ok :: "Db \<Rightarrow> SessionScope \<Rightarrow> bool" where
  "control_fk_ok db s \<longleftrightarrow> session_exists db (sc_run_id s) (sc_agent_id s) (sc_session_id s)"

definition control_check_ok :: "SessionControl \<Rightarrow> bool" where
  "control_check_ok c \<longleftrightarrow>
     0 \<le> sc_generation (sn_scope c)
     \<and> sn_requested_at_ms c \<le> sn_interrupt_until_ms c
     \<and> sn_interrupt_until_ms c \<le> sn_kill_at_ms c \<and> sn_kill_at_ms c < sn_deadline_ms c"

text \<open>Handoffs are never updated or deleted; a foreground session has one notification row.\<close>

definition handoff_row_ok :: "Db \<Rightarrow> RecoveryHandoffRecord \<Rightarrow> bool" where
  "handoff_row_ok db h \<longleftrightarrow>
     rh_assignment_id h \<notin> rh_assignment_id ` set (recovery_handoffs db)
     \<and> rh_operation_id h \<notin> rh_operation_id ` set (recovery_handoffs db)
     \<and> run_exists db (rh_run_id h)
     \<and> assignment_exists db (rh_run_id h) (rh_assignment_id h)
     \<and> operation_exists db (rh_run_id h) (rh_operation_id h)"

definition identity_row_ok :: "Db \<Rightarrow> ForegroundIdentityRow \<Rightarrow> bool" where
  "identity_row_ok db r \<longleftrightarrow>
     fr_session_id r \<notin> fr_session_id ` set (foreground_identities db)
     \<and> exists_row (\<lambda>x. se_run_id x = fr_run_id r \<and> se_id x = fr_session_id r) (sessions db)"

definition notification_row_ok :: "Db \<Rightarrow> ForegroundNotification \<Rightarrow> bool" where
  "notification_row_ok db n \<longleftrightarrow>
     exists_row (\<lambda>x. se_run_id x = sc_run_id (fn_scope n) \<and> se_agent_id x = sc_agent_id (fn_scope n)
        \<and> se_id x = sc_session_id (fn_scope n) \<and> se_generation x = sc_generation (fn_scope n)) (sessions db)
     \<and> 0 \<le> fn_event_cursor n \<and> 0 \<le> fn_message_cursor n"

definition delivery_row_ok :: "Db \<Rightarrow> NotificationDelivery \<Rightarrow> bool" where
  "delivery_row_ok db d \<longleftrightarrow>
     nd_operation_id d \<notin> nd_operation_id ` set (notification_deliveries db)
     \<and> exists_row (\<lambda>n. sc_session_id (fn_scope n) = nd_session_id d) (foreground_notifications db)
     \<and> nd_state d \<in> {''attempting'', ''accepted'', ''failed'', ''unknown''}
     \<and> nd_receipt_state d \<in> {''pending'', ''received'', ''legacy''}"

subsection \<open>Keys\<close>

text \<open>
  What the primary keys and the partial unique indexes guarantee about the rows already stored.
\<close>

definition keys_ok :: "Db \<Rightarrow> bool" where
  "keys_ok db \<longleftrightarrow>
     distinct (map rn_id (runs db)) \<and> distinct (map ag_id (agents db))
     \<and> distinct (map se_id (sessions db)) \<and> distinct (map tk_id (tasks db))
     \<and> distinct (map op_id (operations db)) \<and> distinct (map cl_id (claims db))
     \<and> distinct (map as_id (assignments db)) \<and> distinct (map as_claim_id (assignments db))
     \<and> distinct (map cl_operation_id (claims db)) \<and> distinct (map ws_assignment_id (workspaces db))
     \<and> distinct (map cl_task_id (filter (\<lambda>c. cl_released_at c = None) (claims db)))
     \<and> distinct (map as_agent_id (filter (\<lambda>a. as_completed_at a = None) (assignments db)))"

end
