(* ===== verification/Repositories.thy ===== *)
theory Repositories
  imports Schema
begin

section \<open>Rows in and rows out (src/src/state.rs, Repositories)\<close>

text \<open>
  The insertions and the queries of \<open>Repositories\<close>. An insertion checks the constraints of its
  table and appends the row, or is rejected with \<open>Database\<close>; a query is a function of the
  database. Two of the queries are checked against each other at the end: the SQL that lists
  ready tasks and the readiness facts that are read for a single task.
\<close>

definition insert_row :: "(Db \<Rightarrow> 'r \<Rightarrow> bool) \<Rightarrow> ('r \<Rightarrow> Db \<Rightarrow> Db) \<Rightarrow> 'r \<Rightarrow> unit repo" where
  "insert_row ok add r = (\<lambda>db. if ok db r then Inr ((), add r db) else Inl Database)"

lemma insert_row_Inr: "insert_row ok add r db = Inr (u, db') \<longleftrightarrow> ok db r \<and> db' = add r db"
  by (auto simp: insert_row_def)

lemma keeps_insert_row:
  "(\<And>db. P db \<Longrightarrow> ok db r \<Longrightarrow> P (add r db)) \<Longrightarrow> keeps P (insert_row ok add r)"
  by (auto simp: keeps_def insert_row_Inr)

text \<open>The \<open>INTEGER PRIMARY KEY\<close> that SQLite assigns to a row inserted without one.\<close>

definition next_rowid :: "int list \<Rightarrow> int" where
  "next_rowid ids = max_or_zero ids + 1"

lemma next_rowid_fresh: "next_rowid ids \<notin> set ids"
  using max_or_zero_ge [of "next_rowid ids" ids] by (auto simp: next_rowid_def)

subsection \<open>Insertions\<close>

definition insert_run :: "RunRecord \<Rightarrow> unit repo" where
  "insert_run = insert_row run_row_ok (\<lambda>r. runs_update (\<lambda>rows. rows @ [r]))"

definition insert_project :: "ProjectRecord \<Rightarrow> unit repo" where
  "insert_project = insert_row project_row_ok (\<lambda>r. projects_update (\<lambda>rows. rows @ [r]))"

definition insert_agent :: "AgentRecord \<Rightarrow> unit repo" where
  "insert_agent = insert_row agent_row_ok (\<lambda>r. agents_update (\<lambda>rows. rows @ [r]))"

definition insert_session :: "SessionRecord \<Rightarrow> unit repo" where
  "insert_session = insert_row session_row_ok (\<lambda>r. sessions_update (\<lambda>rows. rows @ [r]))"

definition insert_credential :: "SessionCredentialRecord \<Rightarrow> unit repo" where
  "insert_credential = insert_row credential_row_ok (\<lambda>r. credentials_update (\<lambda>rows. rows @ [r]))"

definition insert_task_group :: "TaskGroupRecord \<Rightarrow> unit repo" where
  "insert_task_group = insert_row group_row_ok (\<lambda>r. task_groups_update (\<lambda>rows. rows @ [r]))"

definition insert_named_task_group :: "run_id \<Rightarrow> string \<Rightarrow> int \<Rightarrow> int repo" where
  "insert_named_task_group run name at =
     bind (gets (\<lambda>db. next_rowid (map tg_id (task_groups db)))) (\<lambda>i.
     bind (insert_task_group \<lparr>tg_id = i, tg_run_id = run, tg_name = Some name, tg_created_at = at\<rparr>)
       (\<lambda>_. ret i))"

definition insert_task :: "TaskRecord \<Rightarrow> unit repo" where
  "insert_task = insert_row task_row_ok (\<lambda>r. tasks_update (\<lambda>rows. rows @ [r]))"

definition insert_dependency :: "DependencyRecord \<Rightarrow> unit repo" where
  "insert_dependency = insert_row dependency_row_ok (\<lambda>r. dependencies_update (\<lambda>rows. rows @ [r]))"

definition insert_comment :: "CommentRecord \<Rightarrow> unit repo" where
  "insert_comment = insert_row comment_row_ok (\<lambda>r. comments_update (\<lambda>rows. rows @ [r]))"

definition insert_operation :: "OperationRecord \<Rightarrow> unit repo" where
  "insert_operation = insert_row operation_row_ok (\<lambda>r. operations_update (\<lambda>rows. rows @ [r]))"

definition insert_claim :: "ClaimRecord \<Rightarrow> unit repo" where
  "insert_claim = insert_row claim_row_ok (\<lambda>r. claims_update (\<lambda>rows. rows @ [r]))"

definition insert_message :: "MessageRecord \<Rightarrow> unit repo" where
  "insert_message = insert_row message_row_ok (\<lambda>r. messages_update (\<lambda>rows. rows @ [r]))"

lemmas insert_defs =
  insert_run_def insert_project_def insert_agent_def insert_session_def insert_credential_def
  insert_task_group_def insert_task_def insert_dependency_def insert_comment_def
  insert_operation_def insert_claim_def insert_message_def

subsection \<open>Lookups\<close>

definition find_run :: "Db \<Rightarrow> run_id \<Rightarrow> RunRecord option" where
  "find_run db i = find (\<lambda>r. rn_id r = i) (runs db)"

definition find_project :: "Db \<Rightarrow> project_id \<Rightarrow> ProjectRecord option" where
  "find_project db i = find (\<lambda>p. pj_id p = i) (projects db)"

definition project_by_alias :: "Db \<Rightarrow> run_id \<Rightarrow> string \<Rightarrow> ProjectRecord option" where
  "project_by_alias db run alias = find (\<lambda>p. pj_run_id p = run \<and> pj_alias p = alias) (projects db)"

definition projects_of_run :: "Db \<Rightarrow> run_id \<Rightarrow> ProjectRecord list" where
  "projects_of_run db run =
     order_by (\<lambda>p. (\<not> pj_is_primary p, pj_alias p, project_ulid (pj_id p)))
       (filter (\<lambda>p. pj_run_id p = run) (projects db))"

definition find_agent :: "Db \<Rightarrow> agent_id \<Rightarrow> AgentRecord option" where
  "find_agent db i = find (\<lambda>a. ag_id a = i) (agents db)"

definition agents_of_run :: "Db \<Rightarrow> run_id \<Rightarrow> AgentRecord list" where
  "agents_of_run db run = order_by ag_created_at (filter (\<lambda>a. ag_run_id a = run) (agents db))"

definition find_session :: "Db \<Rightarrow> session_id \<Rightarrow> SessionRecord option" where
  "find_session db i = find (\<lambda>s. se_id s = i) (sessions db)"

definition latest_session_for_agent :: "Db \<Rightarrow> run_id \<Rightarrow> agent_id \<Rightarrow> SessionRecord option" where
  "latest_session_for_agent db run agent =
     last_by se_generation (filter (\<lambda>s. se_run_id s = run \<and> se_agent_id s = agent) (sessions db))"

definition sessions_of_run :: "Db \<Rightarrow> run_id \<Rightarrow> SessionRecord list" where
  "sessions_of_run db run = order_by se_created_at (filter (\<lambda>s. se_run_id s = run) (sessions db))"

definition session_credential :: "Db \<Rightarrow> session_id \<Rightarrow> SessionCredentialRecord option" where
  "session_credential db s = find (\<lambda>c. cr_session_id c = s) (credentials db)"

definition task_group_by_name :: "Db \<Rightarrow> run_id \<Rightarrow> string \<Rightarrow> TaskGroupRecord option" where
  "task_group_by_name db run name =
     (case order_by tg_id (filter (\<lambda>g. tg_run_id g = run \<and> tg_name g = Some name) (task_groups db)) of
        [] \<Rightarrow> None | g # _ \<Rightarrow> Some g)"

definition find_task :: "Db \<Rightarrow> task_id \<Rightarrow> TaskRecord option" where
  "find_task db i = find (\<lambda>t. tk_id t = i) (tasks db)"

definition tasks_of_run :: "Db \<Rightarrow> run_id \<Rightarrow> TaskRecord list" where
  "tasks_of_run db run =
     order_by (\<lambda>t. (tk_created_at t, tk_id t)) (filter (\<lambda>t. tk_run_id t = run) (tasks db))"

definition find_operation :: "Db \<Rightarrow> operation_id \<Rightarrow> OperationRecord option" where
  "find_operation db i = find (\<lambda>r. op_id r = i) (operations db)"

definition operations_requiring_reconciliation :: "Db \<Rightarrow> run_id \<Rightarrow> OperationRecord list" where
  "operations_requiring_reconciliation db run =
     order_by (\<lambda>r. (op_created_at r, op_id r)) (filter (\<lambda>r. op_run_id r = run \<and>
        (op_reconciliation_state r = Some RDesired
         \<or> (op_reconciliation_state r = Some RUnknown
            \<and> (op_kind r \<in> set [''agent.spawn'', ''workspace.integrate''] \<or> op_reconciled_at r = None))))
       (operations db))"

definition foreground_launch_operation_for_session ::
    "Db \<Rightarrow> run_id \<Rightarrow> session_id \<Rightarrow> OperationRecord option" where
  "foreground_launch_operation_for_session db run session =
     find (\<lambda>r. op_run_id r = run \<and> op_kind r = ''agent.launch_foreground''
        \<and> Option.bind (op_result r) (json_path [''session_id'']) = Some (session_json session)
        \<and> Option.bind (op_result r) (json_path [''already_active'']) \<in> {Some (JBool False), Some (JInt 0)})
       (operations db)"

definition find_claim :: "Db \<Rightarrow> int \<Rightarrow> ClaimRecord option" where
  "find_claim db i = find (\<lambda>c. cl_id c = i) (claims db)"

definition active_claim_for_task :: "Db \<Rightarrow> run_id \<Rightarrow> task_id \<Rightarrow> ClaimRecord option" where
  "active_claim_for_task db run task =
     find (\<lambda>c. cl_run_id c = run \<and> cl_task_id c = task \<and> cl_released_at c = None) (claims db)"

definition find_assignment :: "Db \<Rightarrow> assignment_id \<Rightarrow> AssignmentRecord option" where
  "find_assignment db i = find (\<lambda>a. as_id a = i) (assignments db)"

definition active_assignment_for_agent :: "Db \<Rightarrow> run_id \<Rightarrow> agent_id \<Rightarrow> AssignmentRecord option" where
  "active_assignment_for_agent db run agent =
     find (\<lambda>a. as_run_id a = run \<and> as_agent_id a = agent \<and> as_completed_at a = None) (assignments db)"

definition active_assignment_for_task :: "Db \<Rightarrow> run_id \<Rightarrow> task_id \<Rightarrow> AssignmentRecord option" where
  "active_assignment_for_task db run task =
     find (\<lambda>a. as_run_id a = run \<and> as_task_id a = task \<and> as_completed_at a = None) (assignments db)"

definition latest_assignment_for_task :: "Db \<Rightarrow> run_id \<Rightarrow> task_id \<Rightarrow> AssignmentRecord option" where
  "latest_assignment_for_task db run task =
     last_by as_created_at (filter (\<lambda>a. as_run_id a = run \<and> as_task_id a = task) (assignments db))"

definition assignment_for_agent_task ::
    "Db \<Rightarrow> run_id \<Rightarrow> agent_id \<Rightarrow> task_id \<Rightarrow> AssignmentRecord option" where
  "assignment_for_agent_task db run agent task =
     last_by (\<lambda>a. (as_created_at a, as_id a))
       (filter (\<lambda>a. as_run_id a = run \<and> as_agent_id a = agent \<and> as_task_id a = task) (assignments db))"

definition find_message :: "Db \<Rightarrow> message_id \<Rightarrow> MessageRecord option" where
  "find_message db i = find (\<lambda>m. ms_id m = i) (messages db)"

definition find_workspace :: "Db \<Rightarrow> assignment_id \<Rightarrow> WorkspaceRecord option" where
  "find_workspace db i = find (\<lambda>w. ws_assignment_id w = i) (workspaces db)"

definition workspaces_of_run :: "Db \<Rightarrow> run_id \<Rightarrow> WorkspaceRecord list" where
  "workspaces_of_run db run = order_by ws_created_at (filter (\<lambda>w. ws_run_id w = run) (workspaces db))"

subsection \<open>Runs and agent generations\<close>

definition stop_run :: "run_id \<Rightarrow> int \<Rightarrow> unit repo" where
  "stop_run i at =
     (let active = (\<lambda>r. rn_id r = i \<and> rn_status r = ''active'' \<and> rn_stopped_at r = None) in
      bind (gets (\<lambda>db. count_where active (runs db))) (\<lambda>changed.
      seq (modify (runs_update (update_where active
             (\<lambda>r. r\<lparr>rn_status := ''stopped'', rn_stopped_at := Some at\<rparr>))))
          (require (changed = 1) (RunNotActive i))))"

definition start_agent_generation :: "run_id \<Rightarrow> agent_id \<Rightarrow> int \<Rightarrow> int \<Rightarrow> bool repo" where
  "start_agent_generation run agent current_generation next_generation =
     bind (gets (\<lambda>db. find_agent db agent)) (\<lambda>found.
     case found of None \<Rightarrow> ret False
     | Some a \<Rightarrow>
         if ag_run_id a \<noteq> run \<or> ag_generation a \<noteq> current_generation
            \<or> \<not> is_terminal (ag_state a) \<or> next_generation \<le> current_generation
         then ret False
         else
           let current = (\<lambda>x. ag_id x = agent \<and> ag_run_id x = run \<and> ag_generation x = current_generation) in
           bind (gets (\<lambda>db. count_where current (agents db))) (\<lambda>changed.
           seq (modify (agents_update (update_where current
                  (\<lambda>x. x\<lparr>ag_generation := next_generation, ag_state := Starting\<rparr>))))
               (ret (changed = 1))))"

subsection \<open>Readiness\<close>

text \<open>A dependency edge whose dependency, in the edge's run, is not closed.\<close>

definition edge_unresolved :: "Db \<Rightarrow> DependencyRecord \<Rightarrow> bool" where
  "edge_unresolved db e \<longleftrightarrow>
     exists_row (\<lambda>d. tk_id d = dp_dependency_task_id e \<and> tk_run_id d = dp_run_id e \<and> tk_status d \<noteq> Closed)
       (tasks db)"

definition task_readiness :: "Db \<Rightarrow> task_id \<Rightarrow> TaskReadiness option" where
  "task_readiness db i =
     (case find_task db i of None \<Rightarrow> None
      | Some t \<Rightarrow> Some
          \<lparr>rd_status = tk_status t,
           rd_unresolved = sort (map dp_dependency_task_id
              (filter (\<lambda>e. dp_task_id e = i \<and> edge_unresolved db e) (dependencies db))),
           rd_has_active_claim = exists_row (\<lambda>c. cl_task_id c = i \<and> cl_released_at c = None) (claims db)\<rparr>)"

text \<open>The three \<open>NOT EXISTS\<close> conditions shared by \<open>ready_tasks\<close> and \<open>compare_and_set_claim\<close>.\<close>

definition has_active_claim :: "Db \<Rightarrow> run_id \<Rightarrow> task_id \<Rightarrow> bool" where
  "has_active_claim db run task =
     exists_row (\<lambda>c. cl_task_id c = task \<and> cl_run_id c = run \<and> cl_released_at c = None) (claims db)"

definition is_blocked :: "Db \<Rightarrow> run_id \<Rightarrow> task_id \<Rightarrow> bool" where
  "is_blocked db run task =
     exists_row (\<lambda>e. dp_task_id e = task \<and> dp_run_id e = run \<and> edge_unresolved db e) (dependencies db)"

definition agent_busy :: "Db \<Rightarrow> run_id \<Rightarrow> agent_id \<Rightarrow> bool" where
  "agent_busy db run agent =
     exists_row (\<lambda>a. as_agent_id a = agent \<and> as_run_id a = run \<and> as_completed_at a = None) (assignments db)"

definition ready_tasks :: "Db \<Rightarrow> run_id \<Rightarrow> TaskRecord list" where
  "ready_tasks db run =
     order_by (\<lambda>t. (tk_created_at t, tk_id t))
       (filter (\<lambda>t. tk_run_id t = run \<and> tk_status t = Open
          \<and> \<not> has_active_claim db (tk_run_id t) (tk_id t) \<and> \<not> is_blocked db (tk_run_id t) (tk_id t))
         (tasks db))"

subsection \<open>References between stored rows\<close>

text \<open>What the foreign keys guarantee about the rows that decide readiness and ownership.\<close>

definition refs_ok :: "Db \<Rightarrow> bool" where
  "refs_ok db \<longleftrightarrow>
     (\<forall>c \<in> set (claims db). task_exists db (cl_run_id c) (cl_task_id c))
     \<and> (\<forall>e \<in> set (dependencies db). task_exists db (dp_run_id e) (dp_task_id e)
          \<and> task_exists db (dp_run_id e) (dp_dependency_task_id e))
     \<and> (\<forall>a \<in> set (assignments db). task_exists db (as_run_id a) (as_task_id a)
          \<and> agent_exists db (as_run_id a) (as_agent_id a) \<and> claim_exists db (as_run_id a) (as_claim_id a))
     \<and> (\<forall>w \<in> set (workspaces db). assignment_exists db (ws_run_id w) (ws_assignment_id w))"

lemma find_task_unique:
  assumes "keys_ok db" "t \<in> set (tasks db)"
  shows "find_task db (tk_id t) = Some t"
  using find_unique [of tk_id "tasks db" t] assms by (simp add: find_task_def keys_ok_def)

lemma find_task_Some: "find_task db i = Some t \<Longrightarrow> t \<in> set (tasks db) \<and> tk_id t = i"
  by (auto simp: find_task_def dest: find_Some_in)

lemma find_agent_Some: "find_agent db i = Some a \<Longrightarrow> a \<in> set (agents db) \<and> ag_id a = i"
  by (auto simp: find_agent_def dest: find_Some_in)

lemma find_agent_unique:
  assumes "keys_ok db" "a \<in> set (agents db)"
  shows "find_agent db (ag_id a) = Some a"
  using find_unique [of ag_id "agents db" a] assms by (simp add: find_agent_def keys_ok_def)

lemma find_session_Some: "find_session db i = Some s \<Longrightarrow> s \<in> set (sessions db) \<and> se_id s = i"
  by (auto simp: find_session_def dest: find_Some_in)

lemma find_session_unique:
  assumes "keys_ok db" "s \<in> set (sessions db)"
  shows "find_session db (se_id s) = Some s"
  using find_unique [of se_id "sessions db" s] assms by (simp add: find_session_def keys_ok_def)

lemma same_task_same_run:
  assumes "keys_ok db" "t \<in> set (tasks db)" "task_exists db run (tk_id t)"
  shows "tk_run_id t = run"
proof -
  from assms(3) obtain u where u: "u \<in> set (tasks db)" "tk_run_id u = run" "tk_id u = tk_id t"
    by (auto simp: task_exists_def)
  then have "Some u = Some t" using find_task_unique [OF assms(1)] assms(2) by metis
  with u show ?thesis by simp
qed

lemma claim_of_task_run:
  assumes "keys_ok db" "refs_ok db" "t \<in> set (tasks db)" "c \<in> set (claims db)" "cl_task_id c = tk_id t"
  shows "cl_run_id c = tk_run_id t"
  using assms same_task_same_run [OF assms(1,3), of "cl_run_id c"] by (auto simp: refs_ok_def)

lemma edge_of_task_run:
  assumes "keys_ok db" "refs_ok db" "t \<in> set (tasks db)" "e \<in> set (dependencies db)"
    and "dp_task_id e = tk_id t"
  shows "dp_run_id e = tk_run_id t"
  using assms same_task_same_run [OF assms(1,3), of "dp_run_id e"] by (auto simp: refs_ok_def)

lemma assignment_of_task_run:
  assumes "keys_ok db" "refs_ok db" "t \<in> set (tasks db)" "a \<in> set (assignments db)"
    and "as_task_id a = tk_id t"
  shows "as_run_id a = tk_run_id t"
  using assms same_task_same_run [OF assms(1,3), of "as_run_id a"] by (auto simp: refs_ok_def)

text \<open>
  The list of ready tasks and the readiness of a single task agree: on a database
  that satisfies the schema, a task of the run is listed by \<open>ready_tasks\<close> exactly when
  \<open>task_readiness\<close> reports it ready, that is open, unclaimed and with every dependency closed;
  the list is ordered by creation time and then identifier, without duplicates.
\<close>

lemma ready_tasks_agree_with_readiness:
  assumes keys: "keys_ok db" and refs: "refs_ok db" and task: "find_task db i = Some t"
    and run: "tk_run_id t = run"
  shows "(t \<in> set (ready_tasks db run) \<longleftrightarrow> (\<exists>r. task_readiness db i = Some r \<and> is_ready r))
    \<and> sorted (map (\<lambda>t. (tk_created_at t, tk_id t)) (ready_tasks db run))
    \<and> distinct (map tk_id (ready_tasks db run))"
proof (intro conjI)
  have t: "t \<in> set (tasks db)" and i: "tk_id t = i" using find_task_Some [OF task] by auto
  have claimed: "has_active_claim db (tk_run_id t) i
      \<longleftrightarrow> exists_row (\<lambda>c. cl_task_id c = i \<and> cl_released_at c = None) (claims db)"
    using claim_of_task_run [OF keys refs t] i by (auto simp: has_active_claim_def)
  have blocked: "is_blocked db (tk_run_id t) i
      \<longleftrightarrow> filter (\<lambda>e. dp_task_id e = i \<and> edge_unresolved db e) (dependencies db) \<noteq> []"
    using edge_of_task_run [OF keys refs t] i by (auto simp: is_blocked_def filter_empty_conv)
  show "t \<in> set (ready_tasks db run) \<longleftrightarrow> (\<exists>r. task_readiness db i = Some r \<and> is_ready r)"
    using t i run claimed blocked task
    by (auto simp: ready_tasks_def task_readiness_def is_ready_def)
  show "sorted (map (\<lambda>t. (tk_created_at t, tk_id t)) (ready_tasks db run))"
    by (simp add: ready_tasks_def)
  have "distinct (map tk_id (tasks db))" using keys by (simp add: keys_ok_def)
  then show "distinct (map tk_id (ready_tasks db run))"
    by (simp add: ready_tasks_def distinct_map inj_on_def)
qed

definition sample_task :: "nat \<Rightarrow> TaskStatus \<Rightarrow> TaskRecord" where
  "sample_task n s =
     \<lparr>tk_id = TaskId n, tk_run_id = RunId 1, tk_project_id = ProjectId 1, tk_group_id = None,
      tk_title = ''Title'', tk_description = ''Description'', tk_status = s, tk_result = None,
      tk_created_at = 1, tk_updated_at = 1\<rparr>"

lemma sample_task_simps [simp]:
  "tk_id (sample_task n s) = TaskId n" "tk_run_id (sample_task n s) = RunId 1"
  "tk_status (sample_task n s) = s" "tk_created_at (sample_task n s) = 1"
  "tk_project_id (sample_task n s) = ProjectId 1" "tk_group_id (sample_task n s) = None"
  by (simp_all add: sample_task_def)

end
