(* ===== verification/Events.thy ===== *)
theory Events
  imports Repositories "HOL-Library.Sublist"
begin

section \<open>The event log (src/src/state.rs)\<close>

text \<open>
  Appending an event at the next run-local sequence, and reading the log in pages bounded in
  number and in size. The log of a run is gapless and append-only; a reader that follows the
  pages loses nothing and always advances. The identifier that \<open>EventId::generate\<close> draws and the
  length of the serialized event are parameters (\<open>Env\<close>).
\<close>

definition maximum_event_page_length :: nat where
  "maximum_event_page_length = 900 * 1024"

definition insert_event :: "Env \<Rightarrow> EventRecord \<Rightarrow> unit repo" where
  "insert_event e ev =
     (if env_event_len e ev > maximum_event_page_length then fail (EventTooLarge (ev_id ev))
      else insert_row event_row_ok (\<lambda>r. events_update (\<lambda>rows. rows @ [r])) ev)"

definition next_event_sequence :: "Db \<Rightarrow> run_id \<Rightarrow> int" where
  "next_event_sequence db run =
     max_or_zero (map ev_sequence (filter (\<lambda>x. ev_run_id x = run) (events db))) + 1"

definition new_event_record :: "Env \<Rightarrow> NewEvent \<Rightarrow> Db \<Rightarrow> EventRecord" where
  "new_event_record e n db =
     \<lparr>ev_id = EventId (env_event_ulid e (events_drawn db)),
      ev_run_id = ne_run_id n,
      ev_sequence = next_event_sequence db (ne_run_id n),
      ev_type = event_kind_as_str (ne_kind n),
      ev_actor = ne_actor n,
      ev_subject = ne_subject n,
      ev_project_id = ne_project_id n,
      ev_agent_id = ne_agent_id n,
      ev_task_id = ne_task_id n,
      ev_operation_id = ne_operation_id n,
      ev_correlation_id = ne_correlation_id n,
      ev_causation_id = ne_causation_id n,
      ev_payload = JObj [(''data'', ne_data n), (''schema_version'', JInt 1)],
      ev_summary = ne_summary n,
      ev_created_at = ne_created_at n\<rparr>"

definition append_event :: "Env \<Rightarrow> NewEvent \<Rightarrow> EventRecord repo" where
  "append_event e n =
     bind (gets (new_event_record e n)) (\<lambda>ev.
     seq (modify (\<lambda>db. db\<lparr>events_drawn := Suc (events_drawn db)\<rparr>))
     (seq (insert_event e ev) (ret ev)))"

definition find_event :: "Db \<Rightarrow> event_id \<Rightarrow> EventRecord option" where
  "find_event db i = find (\<lambda>x. ev_id x = i) (events db)"

text \<open>The loop of \<open>events_after\<close>: a page is closed by the first event that would overfill it.\<close>

fun fill_page :: "Env \<Rightarrow> EventRecord list \<Rightarrow> nat \<Rightarrow> EventRecord list \<Rightarrow> EventRecord list" where
  "fill_page e kept length_so_far [] = kept"
| "fill_page e kept length_so_far (x # xs) =
     (if kept \<noteq> [] \<and> length_so_far + env_event_len e x > maximum_event_page_length then kept
      else fill_page e (kept @ [x]) (length_so_far + env_event_len e x) xs)"

definition log_after :: "Db \<Rightarrow> run_id \<Rightarrow> int \<Rightarrow> EventRecord list" where
  "log_after db run after =
     order_by ev_sequence (filter (\<lambda>x. ev_run_id x = run \<and> after < ev_sequence x) (events db))"

definition events_after :: "Env \<Rightarrow> Db \<Rightarrow> run_id \<Rightarrow> int \<Rightarrow> nat \<Rightarrow> EventRecord list" where
  "events_after e db run after limit = fill_page e [] 0 (take limit (log_after db run after))"

subsection \<open>Appending\<close>

lemma insert_event_Inr:
  "insert_event e ev db = Inr (u, db') \<longleftrightarrow>
     env_event_len e ev \<le> maximum_event_page_length \<and> event_row_ok db ev
     \<and> db' = db\<lparr>events := events db @ [ev]\<rparr>"
  by (auto simp: insert_event_def insert_row_Inr)

lemma event_row_ok_drawn [simp]: "event_row_ok (events_drawn_update f db) ev = event_row_ok db ev"
  by (simp add: event_row_ok_def run_exists_def project_exists_def [abs_def] agent_exists_def [abs_def]
      task_exists_def [abs_def] operation_exists_def [abs_def] event_exists_def [abs_def])

lemma append_event_Inr:
  "append_event e n db = Inr (ev, db') \<longleftrightarrow>
     ev = new_event_record e n db \<and> env_event_len e ev \<le> maximum_event_page_length
     \<and> event_row_ok db ev
     \<and> db' = db\<lparr>events := events db @ [ev], events_drawn := Suc (events_drawn db)\<rparr>"
  by (auto simp: append_event_def seq_Inr_iff insert_event_Inr)

lemma append_event_Inl:
  "append_event e n db = Inl err \<Longrightarrow>
     err = Database \<or> err = EventTooLarge (EventId (env_event_ulid e (events_drawn db)))"
  by (auto simp: append_event_def seq_def bind_Inl_iff insert_event_def insert_row_def
      new_event_record_def split: if_splits)

lemma append_event_db:
  assumes "append_event e n db = Inr (ev, db')"
  shows "db' = db\<lparr>events := events db @ [new_event_record e n db],
                 events_drawn := Suc (events_drawn db)\<rparr>"
    and "ev = new_event_record e n db"
  using assms by (simp_all add: append_event_Inr)

text \<open>A predicate that does not look at the log is kept by every append.\<close>

lemma keeps_append_event_frame:
  assumes "\<And>db xs n. P db \<Longrightarrow> P (db\<lparr>events := xs, events_drawn := n\<rparr>)"
  shows "keeps P (append_event e n)"
  using assms by (auto simp: keeps_def append_event_Inr)

subsection \<open>The log of a run\<close>

definition run_log :: "Db \<Rightarrow> run_id \<Rightarrow> EventRecord list" where
  "run_log db run = filter (\<lambda>x. ev_run_id x = run) (events db)"

definition log_ok :: "Db \<Rightarrow> bool" where
  "log_ok db \<longleftrightarrow>
     (\<forall>run. map ev_sequence (run_log db run) = map int [1..<Suc (length (run_log db run))])"

lemma max_or_zero_upto: "max_or_zero (map int [1..<Suc n]) = int n"
proof (induction n)
  case 0
  then show ?case by simp
next
  case (Suc n)
  have "max_or_zero (map int [1..<Suc n] @ [int (Suc n)]) = int (Suc n)"
    by (rule max_or_zero_snoc) auto
  then show ?case by simp
qed

lemma next_event_sequence_log:
  assumes "log_ok db"
  shows "next_event_sequence db run = int (length (run_log db run)) + 1"
proof -
  have "map ev_sequence (run_log db run) = map int [1..<Suc (length (run_log db run))]"
    using assms by (simp add: log_ok_def)
  then show ?thesis
    by (simp only: next_event_sequence_def flip: run_log_def) (simp only: max_or_zero_upto)
qed

lemma log_ok_frame [simp]:
  "log_ok (runs_update f1 db) = log_ok db"
  "log_ok (projects_update f2 db) = log_ok db"
  "log_ok (agents_update f3 db) = log_ok db"
  "log_ok (sessions_update f4 db) = log_ok db"
  "log_ok (credentials_update f5 db) = log_ok db"
  "log_ok (task_groups_update f6 db) = log_ok db"
  "log_ok (tasks_update f7 db) = log_ok db"
  "log_ok (dependencies_update f8 db) = log_ok db"
  "log_ok (comments_update f9 db) = log_ok db"
  "log_ok (operations_update f10 db) = log_ok db"
  "log_ok (claims_update f11 db) = log_ok db"
  "log_ok (assignments_update f12 db) = log_ok db"
  "log_ok (messages_update f13 db) = log_ok db"
  "log_ok (workspaces_update f14 db) = log_ok db"
  "log_ok (run_shutdowns_update f15 db) = log_ok db"
  "log_ok (session_controls_update f16 db) = log_ok db"
  "log_ok (launch_attempts_update f17 db) = log_ok db"
  "log_ok (session_failures_update f18 db) = log_ok db"
  "log_ok (recovery_handoffs_update f20 db) = log_ok db"
  "log_ok (foreground_notifications_update f21 db) = log_ok db"
  "log_ok (notification_deliveries_update f22 db) = log_ok db"
  "log_ok (foreground_identities_update f23 db) = log_ok db"
  "log_ok (events_drawn_update f19 db) = log_ok db"
  by (simp_all add: log_ok_def run_log_def)

lemma keeps_log_append: "keeps log_ok (append_event e n)"
proof (rule keepsI)
  fix db ev db' assume ok: "log_ok db" and run: "append_event e n db = Inr (ev, db')"
  note db' = append_event_db [OF run]
  show "log_ok db'"
    unfolding log_ok_def
  proof
    fix r
    have old: "map ev_sequence (run_log db r) = map int [1..<Suc (length (run_log db r))]"
      using ok by (simp add: log_ok_def)
    show "map ev_sequence (run_log db' r) = map int [1..<Suc (length (run_log db' r))]"
    proof (cases "ne_run_id n = r")
      case True
      have "run_log db' r = run_log db r @ [ev]"
        using db' True by (simp add: run_log_def new_event_record_def)
      moreover have "ev_sequence ev = int (length (run_log db r)) + 1"
        using db' True next_event_sequence_log [OF ok, of r] by (simp add: new_event_record_def)
      ultimately show ?thesis using old by simp
    next
      case False
      then have "run_log db' r = run_log db r"
        using db' by (simp add: run_log_def new_event_record_def)
      with old show ?thesis by simp
    qed
  qed
qed

subsection \<open>Reading in pages\<close>

lemma fill_page_prefix: "\<exists>ys. fill_page e kept n xs = kept @ ys \<and> prefix ys xs"
proof (induction e kept n xs rule: fill_page.induct)
  case (1 e kept n)
  then show ?case by simp
next
  case (2 e kept n x xs)
  show ?case
  proof (cases "kept \<noteq> [] \<and> n + env_event_len e x > maximum_event_page_length")
    case True
    then show ?thesis by simp
  next
    case False
    with 2 obtain ys where "fill_page e (kept @ [x]) (n + env_event_len e x) xs = (kept @ [x]) @ ys"
      and "prefix ys xs" by blast
    with False show ?thesis by (intro exI [of _ "x # ys"]) auto
  qed
qed

lemma fill_page_step:
  "\<not> (kept \<noteq> [] \<and> n + env_event_len e x > maximum_event_page_length) \<Longrightarrow>
   fill_page e kept n (x # xs) = fill_page e (kept @ [x]) (n + env_event_len e x) xs"
  by auto

lemma fill_page_size:
  assumes "n = sum_list (map (env_event_len e) kept)"
    and "length kept \<le> 1 \<or> n \<le> maximum_event_page_length"
  shows "length (fill_page e kept n xs) \<le> 1
    \<or> sum_list (map (env_event_len e) (fill_page e kept n xs)) \<le> maximum_event_page_length"
  using assms
proof (induction e kept n xs rule: fill_page.induct)
  case (1 e kept n)
  then show ?case by auto
next
  case (2 e kept n x xs)
  show ?case
  proof (cases "kept \<noteq> [] \<and> n + env_event_len e x > maximum_event_page_length")
    case True
    with 2 show ?thesis by auto
  next
    case False
    then have "length (kept @ [x]) \<le> 1 \<or> n + env_event_len e x \<le> maximum_event_page_length"
      by (cases "kept = []") auto
    from False have step: "fill_page e kept n (x # xs) = fill_page e (kept @ [x]) (n + env_event_len e x) xs"
      by (rule fill_page_step)
    have "n + env_event_len e x = sum_list (map (env_event_len e) (kept @ [x]))"
      using 2(2) by simp
    from 2(1) [OF False this \<open>length (kept @ [x]) \<le> 1 \<or> _\<close>] show ?thesis
      by (simp only: step)
  qed
qed

lemma log_ok_distinct:
  assumes "log_ok db"
  shows "distinct (map ev_sequence (run_log db run))"
proof -
  have "map ev_sequence (run_log db run) = map int [1..<Suc (length (run_log db run))]"
    using assms by (simp add: log_ok_def)
  then show ?thesis by (simp only: distinct_map) simp
qed

text \<open>On a gapless log, ordering by sequence is the order of insertion.\<close>

lemma log_after_eq:
  assumes "log_ok db"
  shows "log_after db run after = filter (\<lambda>x. after < ev_sequence x) (run_log db run)"
proof -
  have "map ev_sequence (run_log db run) = map int [1..<Suc (length (run_log db run))]"
    using assms by (simp add: log_ok_def)
  moreover have "sorted (map int [1..<Suc n])" for n by (simp add: sorted_map del: upt_Suc)
  ultimately have "sorted (map ev_sequence (run_log db run))" by (simp only:)
  then have "sort_key ev_sequence (run_log db run) = run_log db run" by (rule sort_key_id_if_sorted)
  moreover have "filter (\<lambda>x. ev_run_id x = run \<and> after < ev_sequence x) (events db)
      = filter (\<lambda>x. after < ev_sequence x) (run_log db run)"
    by (simp add: run_log_def conj_commute)
  ultimately show ?thesis by (simp add: log_after_def filter_sort [symmetric])
qed

text \<open>
  Pages lose nothing and always advance: a page of a gapless log is a prefix of the
  events after the cursor, at most \<open>limit\<close> of them and, unless it is a single event, within the
  page size; it is empty only when no event is left (or the limit is zero); and the events after
  the page's last sequence are exactly the rest.
\<close>

lemma event_pages_lose_nothing:
  assumes ok: "log_ok db" and limit: "0 < limit"
  shows "let page = events_after e db run after limit; left = log_after db run after in
     length page \<le> limit
     \<and> (length page \<le> 1 \<or> sum_list (map (env_event_len e) page) \<le> maximum_event_page_length)
     \<and> (page = [] \<longleftrightarrow> left = [])
     \<and> (page \<noteq> [] \<longrightarrow> left = page @ log_after db run (ev_sequence (last page)))"
proof -
  define left where "left = log_after db run after"
  define page where "page = events_after e db run after limit"
  obtain ys where ys: "page = ys" "prefix ys (take limit left)"
    using fill_page_prefix [of e "[]" 0 "take limit left"]
    by (auto simp: page_def left_def events_after_def)
  then obtain zs where left: "left = page @ zs"
    by (metis append_assoc append_take_drop_id prefix_def)
  have len: "length page \<le> limit"
    using ys prefix_length_le by fastforce
  have size: "length page \<le> 1 \<or> sum_list (map (env_event_len e) page) \<le> maximum_event_page_length"
    using fill_page_size [of 0 e "[]" "take limit left"] by (simp add: page_def left_def events_after_def)
  have empty: "page = [] \<longleftrightarrow> left = []"
  proof
    assume "page = []"
    show "left = []"
    proof (rule ccontr)
      assume "left \<noteq> []"
      then obtain x xs where "take limit left = x # xs"
        using limit by (cases left; cases limit) auto
      then have "page = fill_page e [x] (env_event_len e x) xs"
        by (simp add: page_def left_def events_after_def)
      with fill_page_prefix [of e "[x]" "env_event_len e x" xs] \<open>page = []\<close> show False by auto
    qed
  next
    assume "left = []" then show "page = []" using left by simp
  qed
  have rest: "left = page @ log_after db run (ev_sequence (last page))" if "page \<noteq> []"
  proof -
    define s where "s = ev_sequence (last page)"
    have l: "left = filter (\<lambda>x. after < ev_sequence x) (run_log db run)"
      using log_after_eq [OF ok] by (simp add: left_def)
    have "map ev_sequence (run_log db run) = map int [1..<Suc (length (run_log db run))]"
      using ok by (simp add: log_ok_def)
    moreover have "sorted_wrt (<) (map int [1..<Suc n])" for n
      by (simp add: sorted_wrt_map del: upt_Suc)
    ultimately have "sorted_wrt (<) (map ev_sequence (run_log db run))" by (simp only:)
    then have "sorted_wrt (<) (map ev_sequence left)"
      by (simp add: l sorted_wrt_map sorted_wrt_filter)
    then have order: "\<forall>x \<in> set page. \<forall>y \<in> set zs. ev_sequence x < ev_sequence y"
      and inner: "sorted_wrt (<) (map ev_sequence page)"
      by (auto simp: left sorted_wrt_append)
    have "last page \<in> set left" using that left by simp
    then have after: "after < s" by (simp add: l s_def)
    have le: "\<not> s < ev_sequence x" if "x \<in> set page" for x
    proof -
      obtain us where us: "page = us @ [last page]" using \<open>page \<noteq> []\<close> by (metis append_butlast_last_id)
      have "\<forall>u \<in> set us. ev_sequence u < s"
        using inner by (subst (asm) us) (auto simp: sorted_wrt_append s_def)
      moreover have "x \<in> set us \<or> x = last page"
        using that by (subst (asm) us) auto
      ultimately show ?thesis by (auto simp: s_def)
    qed
    have "log_after db run s = filter (\<lambda>x. s < ev_sequence x) (run_log db run)"
      by (rule log_after_eq [OF ok])
    also have "\<dots> = filter (\<lambda>x. s < ev_sequence x) left"
      using after by (auto simp: l intro!: filter_cong)
    also have "\<dots> = filter (\<lambda>x. s < ev_sequence x) zs"
      using le by (simp add: left filter_empty_conv)
    also have "\<dots> = zs"
      using order \<open>page \<noteq> []\<close> by (simp add: filter_id_conv s_def)
    finally show ?thesis using left by (simp add: s_def)
  qed
  show ?thesis
    unfolding Let_def page_def [symmetric] left_def [symmetric] using len size empty rest by blast
qed

definition sample_event :: "nat \<Rightarrow> int \<Rightarrow> EventRecord" where
  "sample_event n s =
     \<lparr>ev_id = EventId n, ev_run_id = RunId 1, ev_sequence = s, ev_type = ''run.started'',
      ev_actor = ''operator'', ev_subject = ''run'', ev_project_id = None, ev_agent_id = None,
      ev_task_id = None, ev_operation_id = None, ev_correlation_id = None, ev_causation_id = None,
      ev_payload = JObj [(''data'', JNull), (''schema_version'', JInt 1)], ev_summary = ''Started.'',
      ev_created_at = 1\<rparr>"

text \<open>An environment in which every event has 600 KiB, so that two never share a page.\<close>

definition sample_env :: Env where
  "sample_env = \<lparr>env_ulid = unary_ulid, env_event_ulid = id, env_event_len = (\<lambda>_. 614400),
                 env_vars = (\<lambda>_. None)\<rparr>"

end
