(* ===== verification/Store.thy ===== *)
theory Store
  imports Events
begin

section \<open>Invariants of the store and durable facts\<close>

text \<open>
  What every committed operation keeps (\<open>store_ok\<close>): the keys and references of the schema, the
  ownership invariant that ties tasks, claims and assignments together, the gapless event log,
  and inboxes without gaps. What it may never take back (\<open>extends\<close>): recorded events, the receipts
  of completed mutations, agent generations, delivered messages and acknowledgements, released
  claims, completed assignments, recorded integration targets, revoked credentials, closed or
  canceled tasks, and the handoffs of recovered assignments. \<open>safe\<close> operations keep the first and extend the second; each component proves its
  operations safe.
\<close>

named_theorems safe_intros "rules that show that an operation is safe for the store"

subsection \<open>Ownership\<close>

text \<open>
  A task is in progress exactly while it has an unreleased claim; an unreleased claim has an
  assignment that is not completed; and the assignment of a claim is for the same task and agent
  and completes with it.
\<close>

definition owned :: "Db \<Rightarrow> bool" where
  "owned db \<longleftrightarrow>
     (\<forall>t \<in> set (tasks db). tk_status t = InProgress \<longleftrightarrow>
        (\<exists>c \<in> set (claims db). cl_task_id c = tk_id t \<and> cl_released_at c = None))
     \<and> (\<forall>c \<in> set (claims db). cl_released_at c = None \<longrightarrow>
          (\<exists>a \<in> set (assignments db). as_claim_id a = cl_id c))
     \<and> (\<forall>a \<in> set (assignments db). \<forall>c \<in> set (claims db). as_claim_id a = cl_id c \<longrightarrow>
          as_task_id a = cl_task_id c \<and> as_agent_id a = cl_agent_id c
          \<and> (as_completed_at a = None \<longleftrightarrow> cl_released_at c = None))"

text \<open>The operation of a shutdown is a \<open>run.stop\<close>.\<close>

definition shutdowns_ok :: "Db \<Rightarrow> bool" where
  "shutdowns_ok db \<longleftrightarrow>
     (\<forall>s \<in> set (run_shutdowns db). \<exists>r \<in> set (operations db).
        op_id r = rs_operation_id s \<and> op_kind r = ''run.stop'')"

text \<open>
  The messages to a recipient are numbered from 1 in the order they were stored, and the
  acknowledged ones come first.
\<close>

definition inbox :: "Db \<Rightarrow> run_id \<Rightarrow> agent_id \<Rightarrow> MessageRecord list" where
  "inbox db run agent =
     filter (\<lambda>m. ms_run_id m = run \<and> ms_recipient_agent_id m = agent) (messages db)"

definition inboxes_ok :: "Db \<Rightarrow> bool" where
  "inboxes_ok db \<longleftrightarrow> (\<forall>run agent.
     map ms_sequence (inbox db run agent) = map int [1..<Suc (length (inbox db run agent))]
     \<and> (\<forall>m \<in> set (inbox db run agent). \<forall>m' \<in> set (inbox db run agent).
          ms_sequence m \<le> ms_sequence m' \<and> ms_acknowledged_at m' \<noteq> None \<longrightarrow> ms_acknowledged_at m \<noteq> None))"

text \<open>
  Two workspaces of a run share a path only when both are used in place: a worktree or another
  managed directory belongs to one assignment.
\<close>

definition in_place :: "WorkspaceRecord \<Rightarrow> bool" where
  "in_place w \<longleftrightarrow> ws_kind w \<in> set [''project'', ''read_only'']"

definition paths_ok :: "Db \<Rightarrow> bool" where
  "paths_ok db \<longleftrightarrow>
     (\<forall>w \<in> set (workspaces db). \<forall>w' \<in> set (workspaces db).
        ws_assignment_id w \<noteq> ws_assignment_id w' \<and> ws_run_id w = ws_run_id w' \<and> ws_path w = ws_path w'
        \<longrightarrow> in_place w \<and> in_place w')"

text \<open>A task depends only on tasks stored before it, so the dependencies have no cycle.\<close>

definition deps_ok :: "Db \<Rightarrow> bool" where
  "deps_ok db \<longleftrightarrow>
     (\<forall>d \<in> set (dependencies db).
        earlier (map tk_id (tasks db)) (dp_dependency_task_id d) (dp_task_id d))"

definition store_ok :: "Db \<Rightarrow> bool" where
  "store_ok db \<longleftrightarrow>
     keys_ok db \<and> refs_ok db \<and> owned db \<and> log_ok db \<and> shutdowns_ok db \<and> inboxes_ok db \<and> paths_ok db
     \<and> deps_ok db"

subsection \<open>Durable facts\<close>

definition grows :: "('r \<Rightarrow> 'r \<Rightarrow> bool) \<Rightarrow> 'r table \<Rightarrow> 'r table \<Rightarrow> bool" where
  "grows R old new \<longleftrightarrow> (\<forall>x \<in> set old. \<exists>y \<in> set new. R x y)"

text \<open>
  The receipt of a mutation: the identity that a retry is compared with, and the recorded result.
\<close>

definition receipt :: "OperationRecord \<Rightarrow> OperationRecord \<Rightarrow> bool" where
  "receipt x y \<longleftrightarrow>
     op_id y = op_id x \<and> op_run_id y = op_run_id x \<and> op_kind y = op_kind x
     \<and> op_actor_agent_id y = op_actor_agent_id x \<and> op_request y = op_request x
     \<and> op_request_fingerprint y = op_request_fingerprint x
     \<and> (op_kind x \<noteq> ''run.stop'' \<and> op_status x = ''succeeded'' \<longrightarrow>
          op_status y = ''succeeded'' \<and> op_result y = op_result x)"

definition agent_later :: "AgentRecord \<Rightarrow> AgentRecord \<Rightarrow> bool" where
  "agent_later x y \<longleftrightarrow>
     ag_id y = ag_id x \<and> ag_run_id y = ag_run_id x \<and> ag_role y = ag_role x
     \<and> ag_generation x \<le> ag_generation y"

definition message_later :: "MessageRecord \<Rightarrow> MessageRecord \<Rightarrow> bool" where
  "message_later x y \<longleftrightarrow>
     y = x \<or> (ms_acknowledged_at x = None \<and> y = x\<lparr>ms_acknowledged_at := ms_acknowledged_at y\<rparr>)"

definition claim_later :: "ClaimRecord \<Rightarrow> ClaimRecord \<Rightarrow> bool" where
  "claim_later x y \<longleftrightarrow>
     cl_id y = cl_id x \<and> cl_run_id y = cl_run_id x \<and> cl_task_id y = cl_task_id x
     \<and> cl_agent_id y = cl_agent_id x \<and> cl_operation_id y = cl_operation_id x
     \<and> (cl_released_at x \<noteq> None \<longrightarrow> y = x)"

definition assignment_later :: "AssignmentRecord \<Rightarrow> AssignmentRecord \<Rightarrow> bool" where
  "assignment_later x y \<longleftrightarrow>
     as_id y = as_id x \<and> as_run_id y = as_run_id x \<and> as_task_id y = as_task_id x
     \<and> as_agent_id y = as_agent_id x \<and> as_claim_id y = as_claim_id x
     \<and> as_generation y = as_generation x
     \<and> (as_session_id x \<noteq> None \<longrightarrow> as_session_id y = as_session_id x)
     \<and> (as_completed_at x \<noteq> None \<longrightarrow> y = x\<lparr>as_summary := as_summary y\<rparr>)"

definition workspace_later :: "WorkspaceRecord \<Rightarrow> WorkspaceRecord \<Rightarrow> bool" where
  "workspace_later x y \<longleftrightarrow>
     ws_assignment_id y = ws_assignment_id x \<and> ws_generation y = ws_generation x
     \<and> ws_run_id y = ws_run_id x \<and> ws_project_id y = ws_project_id x \<and> ws_kind y = ws_kind x
     \<and> ws_path y = ws_path x \<and> ws_base_commit y = ws_base_commit x
     \<and> (ws_result_commit x \<noteq> None \<longrightarrow> ws_result_commit y \<noteq> None)
     \<and> (ws_target_commit x \<noteq> None \<longrightarrow> ws_target_commit y = ws_target_commit x
          \<and> (ws_result_commit x \<noteq> None \<longrightarrow> ws_result_commit y = ws_result_commit x))"

definition credential_later :: "SessionCredentialRecord \<Rightarrow> SessionCredentialRecord \<Rightarrow> bool" where
  "credential_later x y \<longleftrightarrow>
     cr_session_id y = cr_session_id x \<and> cr_run_id y = cr_run_id x
     \<and> cr_agent_id y = cr_agent_id x \<and> cr_generation y = cr_generation x
     \<and> (cr_revoked_at x \<noteq> None \<longrightarrow> y = x)"

definition task_later :: "TaskRecord \<Rightarrow> TaskRecord \<Rightarrow> bool" where
  "task_later x y \<longleftrightarrow>
     tk_id y = tk_id x \<and> tk_run_id y = tk_run_id x \<and> tk_project_id y = tk_project_id x
     \<and> (tk_status x \<in> {Closed, Canceled} \<longrightarrow> y = x)"

definition extends :: "Db \<Rightarrow> Db \<Rightarrow> bool" where
  "extends old new \<longleftrightarrow>
     prefix (events old) (events new)
     \<and> grows receipt (operations old) (operations new)
     \<and> grows agent_later (agents old) (agents new)
     \<and> grows message_later (messages old) (messages new)
     \<and> grows claim_later (claims old) (claims new)
     \<and> grows assignment_later (assignments old) (assignments new)
     \<and> grows workspace_later (workspaces old) (workspaces new)
     \<and> grows credential_later (credentials old) (credentials new)
     \<and> grows task_later (tasks old) (tasks new)
     \<and> prefix (recovery_handoffs old) (recovery_handoffs new)
     \<and> prefix (foreground_identities old) (foreground_identities new)"

lemma grows_refl: "(\<And>x. R x x) \<Longrightarrow> grows R xs xs"
  by (auto simp: grows_def)

lemma grows_trans:
  "(\<And>x y z. R x y \<Longrightarrow> R y z \<Longrightarrow> R x z) \<Longrightarrow> grows R xs ys \<Longrightarrow> grows R ys zs \<Longrightarrow> grows R xs zs"
  unfolding grows_def by meson

lemma grows_append: "(\<And>x. R x x) \<Longrightarrow> grows R xs (xs @ ys)"
  by (auto simp: grows_def)

lemma grows_update_where:
  assumes "\<And>x. R x x" "\<And>x. p x \<Longrightarrow> R x (f x)"
  shows "grows R xs (update_where p f xs)"
  unfolding grows_def
proof
  fix x assume "x \<in> set xs"
  then have "(if p x then f x else x) \<in> set (update_where p f xs)" by (auto simp: set_update_where)
  moreover have "R x (if p x then f x else x)" using assms by simp
  ultimately show "\<exists>y \<in> set (update_where p f xs). R x y" by blast
qed

lemma later_refl [simp]:
  "receipt r r" "agent_later a a" "message_later m m" "claim_later c c" "assignment_later s s"
  "workspace_later w w" "credential_later d d" "task_later t t"
  by (simp_all add: receipt_def agent_later_def message_later_def claim_later_def
      assignment_later_def workspace_later_def credential_later_def task_later_def)

lemma receipt_trans: "receipt x y \<Longrightarrow> receipt y z \<Longrightarrow> receipt x z"
  by (auto simp: receipt_def)

lemma agent_later_trans: "agent_later x y \<Longrightarrow> agent_later y z \<Longrightarrow> agent_later x z"
  by (auto simp: agent_later_def)

lemma message_later_trans: "message_later x y \<Longrightarrow> message_later y z \<Longrightarrow> message_later x z"
  unfolding message_later_def by (cases x; cases y; cases z) auto

lemma claim_later_trans: "claim_later x y \<Longrightarrow> claim_later y z \<Longrightarrow> claim_later x z"
  by (auto simp: claim_later_def)

lemma assignment_later_trans: "assignment_later x y \<Longrightarrow> assignment_later y z \<Longrightarrow> assignment_later x z"
  unfolding assignment_later_def by (cases x; cases y; cases z) auto

lemma workspace_later_trans: "workspace_later x y \<Longrightarrow> workspace_later y z \<Longrightarrow> workspace_later x z"
  by (simp add: workspace_later_def)

lemma credential_later_trans: "credential_later x y \<Longrightarrow> credential_later y z \<Longrightarrow> credential_later x z"
  by (auto simp: credential_later_def)

lemma task_later_trans: "task_later x y \<Longrightarrow> task_later y z \<Longrightarrow> task_later x z"
  by (auto simp: task_later_def)

lemma extends_refl [simp]: "extends db db"
  by (simp add: extends_def grows_refl)

lemma extends_trans:
  assumes "extends a b" "extends b c"
  shows "extends a c"
  using assms unfolding extends_def
  by (auto intro: prefix_order.trans grows_trans [of receipt, OF receipt_trans]
      grows_trans [of agent_later, OF agent_later_trans]
      grows_trans [of message_later, OF message_later_trans]
      grows_trans [of claim_later, OF claim_later_trans]
      grows_trans [of assignment_later, OF assignment_later_trans]
      grows_trans [of workspace_later, OF workspace_later_trans]
      grows_trans [of credential_later, OF credential_later_trans]
      grows_trans [of task_later, OF task_later_trans])

subsection \<open>Frames\<close>

lemma keys_ok_frame [simp]:
  "keys_ok (projects_update f1 db) = keys_ok db"
  "keys_ok (credentials_update f4 db) = keys_ok db"
  "keys_ok (task_groups_update f5 db) = keys_ok db"
  "keys_ok (dependencies_update f7 db) = keys_ok db"
  "keys_ok (comments_update f8 db) = keys_ok db"
  "keys_ok (messages_update f12 db) = keys_ok db"
  "keys_ok (events_update f14 db) = keys_ok db"
  "keys_ok (run_shutdowns_update f15 db) = keys_ok db"
  "keys_ok (session_controls_update f16 db) = keys_ok db"
  "keys_ok (launch_attempts_update f17 db) = keys_ok db"
  "keys_ok (session_failures_update f18 db) = keys_ok db"
  "keys_ok (recovery_handoffs_update f20 db) = keys_ok db"
  "keys_ok (foreground_notifications_update f21 db) = keys_ok db"
  "keys_ok (notification_deliveries_update f22 db) = keys_ok db"
  "keys_ok (foreground_identities_update f23 db) = keys_ok db"
  "keys_ok (events_drawn_update f19 db) = keys_ok db"
  by (simp_all add: keys_ok_def)

lemma exists_frame [simp]:
  "task_exists (runs_update f0 db) = task_exists db"
  "task_exists (projects_update f1 db) = task_exists db"
  "task_exists (agents_update f2 db) = task_exists db"
  "task_exists (sessions_update f3 db) = task_exists db"
  "task_exists (credentials_update f4 db) = task_exists db"
  "task_exists (task_groups_update f5 db) = task_exists db"
  "task_exists (dependencies_update f7 db) = task_exists db"
  "task_exists (comments_update f8 db) = task_exists db"
  "task_exists (operations_update f9 db) = task_exists db"
  "task_exists (claims_update f10 db) = task_exists db"
  "task_exists (assignments_update f11 db) = task_exists db"
  "task_exists (messages_update f12 db) = task_exists db"
  "task_exists (workspaces_update f13 db) = task_exists db"
  "task_exists (events_update f14 db) = task_exists db"
  "task_exists (run_shutdowns_update f15 db) = task_exists db"
  "task_exists (session_controls_update f16 db) = task_exists db"
  "task_exists (launch_attempts_update f17 db) = task_exists db"
  "task_exists (session_failures_update f18 db) = task_exists db"
  "task_exists (recovery_handoffs_update f20 db) = task_exists db"
  "task_exists (foreground_notifications_update f21 db) = task_exists db"
  "task_exists (notification_deliveries_update f22 db) = task_exists db"
  "task_exists (foreground_identities_update f23 db) = task_exists db"
  "task_exists (events_drawn_update f19 db) = task_exists db"
  "agent_exists (runs_update f0 db) = agent_exists db"
  "agent_exists (projects_update f1 db) = agent_exists db"
  "agent_exists (sessions_update f3 db) = agent_exists db"
  "agent_exists (credentials_update f4 db) = agent_exists db"
  "agent_exists (task_groups_update f5 db) = agent_exists db"
  "agent_exists (tasks_update f6 db) = agent_exists db"
  "agent_exists (dependencies_update f7 db) = agent_exists db"
  "agent_exists (comments_update f8 db) = agent_exists db"
  "agent_exists (operations_update f9 db) = agent_exists db"
  "agent_exists (claims_update f10 db) = agent_exists db"
  "agent_exists (assignments_update f11 db) = agent_exists db"
  "agent_exists (messages_update f12 db) = agent_exists db"
  "agent_exists (workspaces_update f13 db) = agent_exists db"
  "agent_exists (events_update f14 db) = agent_exists db"
  "agent_exists (run_shutdowns_update f15 db) = agent_exists db"
  "agent_exists (session_controls_update f16 db) = agent_exists db"
  "agent_exists (launch_attempts_update f17 db) = agent_exists db"
  "agent_exists (session_failures_update f18 db) = agent_exists db"
  "agent_exists (recovery_handoffs_update f20 db) = agent_exists db"
  "agent_exists (foreground_notifications_update f21 db) = agent_exists db"
  "agent_exists (notification_deliveries_update f22 db) = agent_exists db"
  "agent_exists (foreground_identities_update f23 db) = agent_exists db"
  "agent_exists (events_drawn_update f19 db) = agent_exists db"
  "claim_exists (runs_update f0 db) = claim_exists db"
  "claim_exists (projects_update f1 db) = claim_exists db"
  "claim_exists (agents_update f2 db) = claim_exists db"
  "claim_exists (sessions_update f3 db) = claim_exists db"
  "claim_exists (credentials_update f4 db) = claim_exists db"
  "claim_exists (task_groups_update f5 db) = claim_exists db"
  "claim_exists (tasks_update f6 db) = claim_exists db"
  "claim_exists (dependencies_update f7 db) = claim_exists db"
  "claim_exists (comments_update f8 db) = claim_exists db"
  "claim_exists (operations_update f9 db) = claim_exists db"
  "claim_exists (assignments_update f11 db) = claim_exists db"
  "claim_exists (messages_update f12 db) = claim_exists db"
  "claim_exists (workspaces_update f13 db) = claim_exists db"
  "claim_exists (events_update f14 db) = claim_exists db"
  "claim_exists (run_shutdowns_update f15 db) = claim_exists db"
  "claim_exists (session_controls_update f16 db) = claim_exists db"
  "claim_exists (launch_attempts_update f17 db) = claim_exists db"
  "claim_exists (session_failures_update f18 db) = claim_exists db"
  "claim_exists (recovery_handoffs_update f20 db) = claim_exists db"
  "claim_exists (foreground_notifications_update f21 db) = claim_exists db"
  "claim_exists (notification_deliveries_update f22 db) = claim_exists db"
  "claim_exists (foreground_identities_update f23 db) = claim_exists db"
  "claim_exists (events_drawn_update f19 db) = claim_exists db"
  "assignment_exists (runs_update f0 db) = assignment_exists db"
  "assignment_exists (projects_update f1 db) = assignment_exists db"
  "assignment_exists (agents_update f2 db) = assignment_exists db"
  "assignment_exists (sessions_update f3 db) = assignment_exists db"
  "assignment_exists (credentials_update f4 db) = assignment_exists db"
  "assignment_exists (task_groups_update f5 db) = assignment_exists db"
  "assignment_exists (tasks_update f6 db) = assignment_exists db"
  "assignment_exists (dependencies_update f7 db) = assignment_exists db"
  "assignment_exists (comments_update f8 db) = assignment_exists db"
  "assignment_exists (operations_update f9 db) = assignment_exists db"
  "assignment_exists (claims_update f10 db) = assignment_exists db"
  "assignment_exists (messages_update f12 db) = assignment_exists db"
  "assignment_exists (workspaces_update f13 db) = assignment_exists db"
  "assignment_exists (events_update f14 db) = assignment_exists db"
  "assignment_exists (run_shutdowns_update f15 db) = assignment_exists db"
  "assignment_exists (session_controls_update f16 db) = assignment_exists db"
  "assignment_exists (launch_attempts_update f17 db) = assignment_exists db"
  "assignment_exists (session_failures_update f18 db) = assignment_exists db"
  "assignment_exists (recovery_handoffs_update f20 db) = assignment_exists db"
  "assignment_exists (foreground_notifications_update f21 db) = assignment_exists db"
  "assignment_exists (notification_deliveries_update f22 db) = assignment_exists db"
  "assignment_exists (foreground_identities_update f23 db) = assignment_exists db"
  "assignment_exists (events_drawn_update f19 db) = assignment_exists db"
  by (simp_all add: task_exists_def [abs_def] agent_exists_def [abs_def] claim_exists_def [abs_def]
      assignment_exists_def [abs_def])

lemma refs_ok_frame [simp]:
  "refs_ok (runs_update f0 db) = refs_ok db"
  "refs_ok (projects_update f1 db) = refs_ok db"
  "refs_ok (sessions_update f3 db) = refs_ok db"
  "refs_ok (credentials_update f4 db) = refs_ok db"
  "refs_ok (task_groups_update f5 db) = refs_ok db"
  "refs_ok (comments_update f8 db) = refs_ok db"
  "refs_ok (operations_update f9 db) = refs_ok db"
  "refs_ok (messages_update f12 db) = refs_ok db"
  "refs_ok (events_update f14 db) = refs_ok db"
  "refs_ok (run_shutdowns_update f15 db) = refs_ok db"
  "refs_ok (session_controls_update f16 db) = refs_ok db"
  "refs_ok (launch_attempts_update f17 db) = refs_ok db"
  "refs_ok (session_failures_update f18 db) = refs_ok db"
  "refs_ok (recovery_handoffs_update f20 db) = refs_ok db"
  "refs_ok (foreground_notifications_update f21 db) = refs_ok db"
  "refs_ok (notification_deliveries_update f22 db) = refs_ok db"
  "refs_ok (foreground_identities_update f23 db) = refs_ok db"
  "refs_ok (events_drawn_update f19 db) = refs_ok db"
  by (simp_all add: refs_ok_def)

lemma owned_frame [simp]:
  "owned (runs_update f0 db) = owned db"
  "owned (projects_update f1 db) = owned db"
  "owned (agents_update f2 db) = owned db"
  "owned (sessions_update f3 db) = owned db"
  "owned (credentials_update f4 db) = owned db"
  "owned (task_groups_update f5 db) = owned db"
  "owned (dependencies_update f7 db) = owned db"
  "owned (comments_update f8 db) = owned db"
  "owned (operations_update f9 db) = owned db"
  "owned (messages_update f12 db) = owned db"
  "owned (workspaces_update f13 db) = owned db"
  "owned (events_update f14 db) = owned db"
  "owned (run_shutdowns_update f15 db) = owned db"
  "owned (session_controls_update f16 db) = owned db"
  "owned (launch_attempts_update f17 db) = owned db"
  "owned (session_failures_update f18 db) = owned db"
  "owned (recovery_handoffs_update f20 db) = owned db"
  "owned (foreground_notifications_update f21 db) = owned db"
  "owned (notification_deliveries_update f22 db) = owned db"
  "owned (foreground_identities_update f23 db) = owned db"
  "owned (events_drawn_update f19 db) = owned db"
  by (simp_all add: owned_def)

lemma shutdowns_ok_frame [simp]:
  "shutdowns_ok (runs_update f0 db) = shutdowns_ok db"
  "shutdowns_ok (projects_update f1 db) = shutdowns_ok db"
  "shutdowns_ok (agents_update f2 db) = shutdowns_ok db"
  "shutdowns_ok (sessions_update f3 db) = shutdowns_ok db"
  "shutdowns_ok (credentials_update f4 db) = shutdowns_ok db"
  "shutdowns_ok (task_groups_update f5 db) = shutdowns_ok db"
  "shutdowns_ok (tasks_update f6 db) = shutdowns_ok db"
  "shutdowns_ok (dependencies_update f7 db) = shutdowns_ok db"
  "shutdowns_ok (comments_update f8 db) = shutdowns_ok db"
  "shutdowns_ok (claims_update f10 db) = shutdowns_ok db"
  "shutdowns_ok (assignments_update f11 db) = shutdowns_ok db"
  "shutdowns_ok (messages_update f12 db) = shutdowns_ok db"
  "shutdowns_ok (workspaces_update f13 db) = shutdowns_ok db"
  "shutdowns_ok (events_update f14 db) = shutdowns_ok db"
  "shutdowns_ok (session_controls_update f16 db) = shutdowns_ok db"
  "shutdowns_ok (launch_attempts_update f17 db) = shutdowns_ok db"
  "shutdowns_ok (session_failures_update f18 db) = shutdowns_ok db"
  "shutdowns_ok (recovery_handoffs_update f20 db) = shutdowns_ok db"
  "shutdowns_ok (foreground_notifications_update f21 db) = shutdowns_ok db"
  "shutdowns_ok (notification_deliveries_update f22 db) = shutdowns_ok db"
  "shutdowns_ok (foreground_identities_update f23 db) = shutdowns_ok db"
  "shutdowns_ok (events_drawn_update f19 db) = shutdowns_ok db"
  by (simp_all add: shutdowns_ok_def)

lemma paths_ok_frame [simp]:
  "paths_ok (runs_update f0 db) = paths_ok db"
  "paths_ok (projects_update f1 db) = paths_ok db"
  "paths_ok (agents_update f2 db) = paths_ok db"
  "paths_ok (sessions_update f3 db) = paths_ok db"
  "paths_ok (credentials_update f4 db) = paths_ok db"
  "paths_ok (task_groups_update f5 db) = paths_ok db"
  "paths_ok (tasks_update f6 db) = paths_ok db"
  "paths_ok (dependencies_update f7 db) = paths_ok db"
  "paths_ok (comments_update f8 db) = paths_ok db"
  "paths_ok (operations_update f9 db) = paths_ok db"
  "paths_ok (claims_update f10 db) = paths_ok db"
  "paths_ok (assignments_update f11 db) = paths_ok db"
  "paths_ok (messages_update f12 db) = paths_ok db"
  "paths_ok (events_update f14 db) = paths_ok db"
  "paths_ok (run_shutdowns_update f15 db) = paths_ok db"
  "paths_ok (session_controls_update f16 db) = paths_ok db"
  "paths_ok (launch_attempts_update f17 db) = paths_ok db"
  "paths_ok (session_failures_update f18 db) = paths_ok db"
  "paths_ok (recovery_handoffs_update f20 db) = paths_ok db"
  "paths_ok (foreground_notifications_update f21 db) = paths_ok db"
  "paths_ok (notification_deliveries_update f22 db) = paths_ok db"
  "paths_ok (foreground_identities_update f23 db) = paths_ok db"
  "paths_ok (events_drawn_update f19 db) = paths_ok db"
  by (simp_all add: paths_ok_def)

lemma inboxes_ok_frame [simp]:
  "inboxes_ok (runs_update f0 db) = inboxes_ok db"
  "inboxes_ok (projects_update f1 db) = inboxes_ok db"
  "inboxes_ok (agents_update f2 db) = inboxes_ok db"
  "inboxes_ok (sessions_update f3 db) = inboxes_ok db"
  "inboxes_ok (credentials_update f4 db) = inboxes_ok db"
  "inboxes_ok (task_groups_update f5 db) = inboxes_ok db"
  "inboxes_ok (tasks_update f6 db) = inboxes_ok db"
  "inboxes_ok (dependencies_update f7 db) = inboxes_ok db"
  "inboxes_ok (comments_update f8 db) = inboxes_ok db"
  "inboxes_ok (operations_update f9 db) = inboxes_ok db"
  "inboxes_ok (claims_update f10 db) = inboxes_ok db"
  "inboxes_ok (assignments_update f11 db) = inboxes_ok db"
  "inboxes_ok (workspaces_update f13 db) = inboxes_ok db"
  "inboxes_ok (events_update f14 db) = inboxes_ok db"
  "inboxes_ok (run_shutdowns_update f15 db) = inboxes_ok db"
  "inboxes_ok (session_controls_update f16 db) = inboxes_ok db"
  "inboxes_ok (launch_attempts_update f17 db) = inboxes_ok db"
  "inboxes_ok (session_failures_update f18 db) = inboxes_ok db"
  "inboxes_ok (recovery_handoffs_update f20 db) = inboxes_ok db"
  "inboxes_ok (foreground_notifications_update f21 db) = inboxes_ok db"
  "inboxes_ok (notification_deliveries_update f22 db) = inboxes_ok db"
  "inboxes_ok (foreground_identities_update f23 db) = inboxes_ok db"
  "inboxes_ok (events_drawn_update f19 db) = inboxes_ok db"
  by (simp_all add: inboxes_ok_def inbox_def)

lemma deps_ok_frame [simp]:
  "deps_ok (runs_update f0 db) = deps_ok db"
  "deps_ok (projects_update f1 db) = deps_ok db"
  "deps_ok (agents_update f2 db) = deps_ok db"
  "deps_ok (sessions_update f3 db) = deps_ok db"
  "deps_ok (credentials_update f4 db) = deps_ok db"
  "deps_ok (task_groups_update f5 db) = deps_ok db"
  "deps_ok (comments_update f8 db) = deps_ok db"
  "deps_ok (operations_update f9 db) = deps_ok db"
  "deps_ok (claims_update f10 db) = deps_ok db"
  "deps_ok (assignments_update f11 db) = deps_ok db"
  "deps_ok (messages_update f12 db) = deps_ok db"
  "deps_ok (workspaces_update f13 db) = deps_ok db"
  "deps_ok (events_update f14 db) = deps_ok db"
  "deps_ok (run_shutdowns_update f15 db) = deps_ok db"
  "deps_ok (session_controls_update f16 db) = deps_ok db"
  "deps_ok (launch_attempts_update f17 db) = deps_ok db"
  "deps_ok (session_failures_update f18 db) = deps_ok db"
  "deps_ok (recovery_handoffs_update f20 db) = deps_ok db"
  "deps_ok (foreground_notifications_update f21 db) = deps_ok db"
  "deps_ok (notification_deliveries_update f22 db) = deps_ok db"
  "deps_ok (foreground_identities_update f23 db) = deps_ok db"
  "deps_ok (events_drawn_update f19 db) = deps_ok db"
  by (simp_all add: deps_ok_def)

lemma store_ok_frame [simp]:
  "store_ok (projects_update f1 db) = store_ok db"
  "store_ok (credentials_update f4 db) = store_ok db"
  "store_ok (task_groups_update f5 db) = store_ok db"
  "store_ok (comments_update f8 db) = store_ok db"
  "store_ok (session_controls_update f16 db) = store_ok db"
  "store_ok (launch_attempts_update f17 db) = store_ok db"
  "store_ok (session_failures_update f18 db) = store_ok db"
  "store_ok (recovery_handoffs_update f20 db) = store_ok db"
  "store_ok (foreground_notifications_update f21 db) = store_ok db"
  "store_ok (notification_deliveries_update f22 db) = store_ok db"
  "store_ok (foreground_identities_update f23 db) = store_ok db"
  "store_ok (events_drawn_update f19 db) = store_ok db"
  by (simp_all add: store_ok_def)

lemma extends_frame [simp]:
  "extends db (runs_update f0 db)"
  "extends db (projects_update f1 db)"
  "extends db (sessions_update f3 db)"
  "extends db (task_groups_update f5 db)"
  "extends db (dependencies_update f7 db)"
  "extends db (comments_update f8 db)"
  "extends db (run_shutdowns_update f15 db)"
  "extends db (session_controls_update f16 db)"
  "extends db (launch_attempts_update f17 db)"
  "extends db (session_failures_update f18 db)"
  "extends db (foreground_notifications_update f21 db)"
  "extends db (notification_deliveries_update f22 db)"
  "extends db (events_drawn_update f19 db)"
  by (simp_all add: extends_def grows_refl)

lemma extends_table:
  "extends db (events_update f0 db) \<longleftrightarrow> prefix (events db) (f0 (events db))"
  "extends db (agents_update g2 db) \<longleftrightarrow> grows agent_later (agents db) (g2 (agents db))"
  "extends db (credentials_update g4 db) \<longleftrightarrow> grows credential_later (credentials db) (g4 (credentials db))"
  "extends db (tasks_update g6 db) \<longleftrightarrow> grows task_later (tasks db) (g6 (tasks db))"
  "extends db (operations_update g9 db) \<longleftrightarrow> grows receipt (operations db) (g9 (operations db))"
  "extends db (claims_update g10 db) \<longleftrightarrow> grows claim_later (claims db) (g10 (claims db))"
  "extends db (assignments_update g11 db) \<longleftrightarrow> grows assignment_later (assignments db) (g11 (assignments db))"
  "extends db (messages_update g12 db) \<longleftrightarrow> grows message_later (messages db) (g12 (messages db))"
  "extends db (workspaces_update g13 db) \<longleftrightarrow> grows workspace_later (workspaces db) (g13 (workspaces db))"
  "extends db (recovery_handoffs_update g20 db) \<longleftrightarrow> prefix (recovery_handoffs db) (g20 (recovery_handoffs db))"
  "extends db (foreground_identities_update g23 db) \<longleftrightarrow> prefix (foreground_identities db) (g23 (foreground_identities db))"
  by (simp_all add: extends_def grows_refl)

subsection \<open>Safe operations\<close>

definition history :: "Db \<Rightarrow> Db \<Rightarrow> bool" where
  "history old db \<longleftrightarrow> store_ok db \<and> extends old db"

definition safe :: "'a repo \<Rightarrow> bool" where
  "safe m \<longleftrightarrow> (\<forall>old. keeps (history old) m)"

lemma safeI:
  assumes "\<And>db a db'. store_ok db \<Longrightarrow> m db = Inr (a, db') \<Longrightarrow> store_ok db' \<and> extends db db'"
  shows "safe m"
  using assms extends_trans unfolding safe_def keeps_def history_def by blast

lemma safeD: "safe m \<Longrightarrow> m db = Inr (a, db') \<Longrightarrow> store_ok db \<Longrightarrow> store_ok db' \<and> extends db db'"
  unfolding safe_def keeps_def history_def using extends_refl by blast

lemma safe_ret [safe_intros]: "safe (ret a)"
  and safe_fail [safe_intros]: "safe (fail e)"
  and safe_gets [safe_intros]: "safe (gets f)"
  and safe_require [safe_intros]: "safe (require b e)"
  by (simp_all add: safe_def keeps_intros)

lemma safe_bind [safe_intros]: "safe m \<Longrightarrow> (\<And>a. safe (f a)) \<Longrightarrow> safe (bind m f)"
  by (simp add: safe_def keeps_bind)

lemma safe_seq [safe_intros]: "safe m \<Longrightarrow> safe n \<Longrightarrow> safe (seq m n)"
  by (simp add: safe_def keeps_seq)

lemma safe_if [safe_intros]: "(b \<Longrightarrow> safe m) \<Longrightarrow> (\<not> b \<Longrightarrow> safe n) \<Longrightarrow> safe (if b then m else n)"
  by simp

lemma safe_case_option [safe_intros]:
  "safe m \<Longrightarrow> (\<And>a. x = Some a \<Longrightarrow> safe (f a)) \<Longrightarrow> safe (case x of None \<Rightarrow> m | Some a \<Rightarrow> f a)"
  by (cases x) auto

lemma safe_for_each [safe_intros]: "(\<And>x. safe (f x)) \<Longrightarrow> safe (for_each f xs)"
  by (simp add: safe_def keeps_for_each)

lemma safe_modify:
  assumes "\<And>db. store_ok db \<Longrightarrow> store_ok (f db) \<and> extends db (f db)"
  shows "safe (modify f)"
  by (rule safeI) (use assms in auto)

lemma safe_insert_row:
  assumes "\<And>db. store_ok db \<Longrightarrow> ok db r \<Longrightarrow> store_ok (add r db) \<and> extends db (add r db)"
  shows "safe (insert_row ok add r)"
  by (rule safeI) (use assms in \<open>auto simp: insert_row_Inr\<close>)

text \<open>An operation that reads a fact first may rely on it afterwards.\<close>

lemma safe_bind_gets:
  assumes "\<And>db a db'. store_ok db \<Longrightarrow> k (f db) db = Inr (a, db') \<Longrightarrow> store_ok db' \<and> extends db db'"
  shows "safe (bind (gets f) k)"
  by (rule safeI) (use assms in auto)

lemma safe_append_event [safe_intros]: "safe (append_event e n)"
proof (rule safeI)
  fix db ev db' assume ok: "store_ok db" and run: "append_event e n db = Inr (ev, db')"
  have "log_ok db'" using keepsD [OF keeps_log_append run] ok by (simp add: store_ok_def)
  then show "store_ok db' \<and> extends db db'"
    using append_event_db(1) [OF run] ok by (simp add: store_ok_def extends_def grows_refl)
qed

lemma seq_ret [simp]: "seq (ret ()) n db = n db"
  by (simp add: seq_def)

lemma seq_fail [simp]: "seq (fail e) n db = Inl e"
  by (simp add: seq_def)

subsection \<open>Insertions are safe\<close>

lemma refs_ok_agents_append:
  "refs_ok db \<Longrightarrow> refs_ok (agents_update (\<lambda>rows. rows @ [r]) db)"
  by (auto simp: refs_ok_def agent_exists_def)

lemma refs_ok_tasks_append:
  "refs_ok db \<Longrightarrow> refs_ok (tasks_update (\<lambda>rows. rows @ [r]) db)"
  by (fastforce simp: refs_ok_def task_exists_def)

lemma safe_insert_run [safe_intros]: "safe (insert_run r)"
  unfolding insert_run_def
  by (rule safe_insert_row) (simp add: store_ok_def keys_ok_def run_row_ok_def)

lemma safe_insert_project [safe_intros]: "safe (insert_project r)"
  unfolding insert_project_def by (rule safe_insert_row) simp

lemma safe_insert_agent [safe_intros]: "safe (insert_agent r)"
  unfolding insert_agent_def
  by (rule safe_insert_row)
    (simp add: store_ok_def keys_ok_def agent_row_ok_def refs_ok_agents_append extends_table grows_append)

lemma safe_insert_session [safe_intros]: "safe (insert_session r)"
  unfolding insert_session_def
  by (rule safe_insert_row) (simp add: store_ok_def keys_ok_def session_row_ok_def)

lemma safe_insert_credential [safe_intros]: "safe (insert_credential r)"
  unfolding insert_credential_def by (rule safe_insert_row) (simp add: extends_table grows_append)

lemma safe_insert_task_group [safe_intros]: "safe (insert_task_group r)"
  unfolding insert_task_group_def by (rule safe_insert_row) simp

lemma safe_insert_named_task_group [safe_intros]: "safe (insert_named_task_group run name at)"
  unfolding insert_named_task_group_def by (intro safe_intros)

lemma safe_insert_comment [safe_intros]: "safe (insert_comment r)"
  unfolding insert_comment_def by (rule safe_insert_row) simp

lemma safe_insert_operation [safe_intros]: "safe (insert_operation r)"
  unfolding insert_operation_def
  by (rule safe_insert_row)
    (auto simp: store_ok_def keys_ok_def operation_row_ok_def extends_table grows_append shutdowns_ok_def)

lemma owned_tasks_append:
  assumes "owned db" "refs_ok db" "task_row_ok db t" "tk_status t \<noteq> InProgress"
  shows "owned (tasks_update (\<lambda>rows. rows @ [t]) db)"
proof -
  have "cl_task_id c \<noteq> tk_id t" if "c \<in> set (claims db)" for c
  proof -
    have "task_exists db (cl_run_id c) (cl_task_id c)" using assms(2) that by (simp add: refs_ok_def)
    then have "cl_task_id c \<in> tk_id ` set (tasks db)" by (auto simp: task_exists_def intro!: image_eqI)
    moreover have "tk_id t \<notin> tk_id ` set (tasks db)" using assms(3) by (simp add: task_row_ok_def)
    ultimately show ?thesis by auto
  qed
  with assms(1,4) show ?thesis by (simp add: owned_def)
qed

lemma deps_ok_same:
  "map tk_id (tasks db') = map tk_id (tasks db) \<Longrightarrow> dependencies db' = dependencies db
    \<Longrightarrow> deps_ok db' = deps_ok db"
  by (simp add: deps_ok_def)

lemma deps_ok_tasks_append:
  "deps_ok db \<Longrightarrow> deps_ok (tasks_update (\<lambda>rows. rows @ [t]) db)"
  by (auto simp: deps_ok_def intro: earlier_append)

lemma safe_insert_task: "tk_status t \<noteq> InProgress \<Longrightarrow> safe (insert_task t)"
  unfolding insert_task_def
  by (rule safe_insert_row)
    (auto simp: store_ok_def keys_ok_def task_row_ok_def owned_tasks_append refs_ok_tasks_append
      deps_ok_tasks_append
      extends_table grows_append)

subsection \<open>Updates in place\<close>

lemma image_update_where:
  "(\<And>r. p r \<Longrightarrow> g (f r) = g r) \<Longrightarrow> g ` set (update_where p f rows) = g ` set rows"
  by (metis map_update_where set_map)

lemma ex_update_where:
  "(\<And>r. p r \<Longrightarrow> Q (f r) = Q r) \<Longrightarrow> (\<exists>x \<in> set (update_where p f rows). Q x) \<longleftrightarrow> (\<exists>x \<in> set rows. Q x)"
  by (induction rows) (auto simp: update_where_def)

lemma all_update_where:
  "(\<And>r. p r \<Longrightarrow> Q (f r) = Q r) \<Longrightarrow> (\<forall>x \<in> set (update_where p f rows). Q x) \<longleftrightarrow> (\<forall>x \<in> set rows. Q x)"
  by (induction rows) (auto simp: update_where_def)

lemma filter_update_where:
  "(\<And>r. p r \<Longrightarrow> q (f r) = q r) \<Longrightarrow> filter q (update_where p f rows) = update_where p f (filter q rows)"
  by (induction rows) (auto simp: update_where_def)

lemma store_ok_runs_update:
  assumes "store_ok db" "\<And>r. p r \<Longrightarrow> rn_id (f r) = rn_id r"
  shows "store_ok (runs_update (update_where p f) db)"
  using assms by (simp add: store_ok_def keys_ok_def map_update_where)

lemma store_ok_sessions_update:
  assumes "store_ok db" "\<And>r. p r \<Longrightarrow> se_id (f r) = se_id r"
  shows "store_ok (sessions_update (update_where p f) db)"
  using assms by (simp add: store_ok_def keys_ok_def map_update_where)

lemma store_ok_agents_update:
  assumes "store_ok db" "\<And>r. p r \<Longrightarrow> ag_id (f r) = ag_id r \<and> ag_run_id (f r) = ag_run_id r"
  shows "store_ok (agents_update (update_where p f) db)"
proof -
  have "agent_exists (agents_update (update_where p f) db) = agent_exists db"
    using assms(2) by (simp add: fun_eq_iff agent_exists_def ex_update_where)
  then show ?thesis
    using assms by (simp add: store_ok_def keys_ok_def map_update_where refs_ok_def)
qed

lemma store_ok_operations_update:
  assumes "store_ok db" "\<And>r. p r \<Longrightarrow> op_id (f r) = op_id r \<and> op_kind (f r) = op_kind r"
  shows "store_ok (operations_update (update_where p f) db)"
  using assms by (simp add: store_ok_def keys_ok_def map_update_where shutdowns_ok_def ex_update_where)

lemma store_ok_tasks_update:
  assumes "store_ok db"
    and "\<And>r. p r \<Longrightarrow> tk_id (f r) = tk_id r \<and> tk_run_id (f r) = tk_run_id r
           \<and> (tk_status (f r) = InProgress \<longleftrightarrow> tk_status r = InProgress)"
  shows "store_ok (tasks_update (update_where p f) db)"
proof -
  have "task_exists (tasks_update (update_where p f) db) = task_exists db"
    using assms(2) by (simp add: fun_eq_iff task_exists_def ex_update_where)
  then show ?thesis
    using assms by (simp add: store_ok_def keys_ok_def map_update_where refs_ok_def owned_def
        all_update_where deps_ok_def)
qed

lemma store_ok_assignments_update:
  assumes "store_ok db"
    and "\<And>r. p r \<Longrightarrow> as_id (f r) = as_id r \<and> as_run_id (f r) = as_run_id r
           \<and> as_task_id (f r) = as_task_id r \<and> as_agent_id (f r) = as_agent_id r
           \<and> as_claim_id (f r) = as_claim_id r
           \<and> (as_completed_at (f r) = None \<longleftrightarrow> as_completed_at r = None)"
  shows "store_ok (assignments_update (update_where p f) db)"
proof -
  have "assignment_exists (assignments_update (update_where p f) db) = assignment_exists db"
    using assms(2) by (simp add: fun_eq_iff assignment_exists_def ex_update_where)
  then show ?thesis
    using assms by (simp add: store_ok_def keys_ok_def map_update_where refs_ok_def owned_def
        all_update_where ex_update_where filter_update_where)
qed

lemmas store_ok_updates =
  store_ok_runs_update store_ok_sessions_update store_ok_agents_update store_ok_operations_update
  store_ok_tasks_update store_ok_assignments_update

text \<open>The two operations on runs and generations of \<open>Repositories\<close>.\<close>

lemma safe_stop_run [safe_intros]: "safe (stop_run i at)"
  unfolding stop_run_def Let_def
  by (intro safe_intros safe_modify) (simp add: store_ok_runs_update)

lemma safe_start_agent_generation [safe_intros]: "safe (start_agent_generation run agent c n)"
  unfolding start_agent_generation_def Let_def
  by (intro safe_intros safe_modify)
    (auto simp: store_ok_agents_update extends_table agent_later_def intro!: grows_update_where)

subsection \<open>Consequences of ownership\<close>

lemma owned_in_progress:
  assumes ok: "store_ok db" and t: "t \<in> set (tasks db)" and s: "tk_status t = InProgress"
  obtains c a where "c \<in> set (claims db)" "cl_task_id c = tk_id t" "cl_released_at c = None"
    "cl_run_id c = tk_run_id t"
    "a \<in> set (assignments db)" "as_claim_id a = cl_id c" "as_completed_at a = None"
    "as_task_id a = tk_id t" "as_agent_id a = cl_agent_id c" "as_run_id a = tk_run_id t"
proof -
  have parts: "keys_ok db" "refs_ok db" "owned db" using ok by (auto simp: store_ok_def)
  from parts(3) t s obtain c where c: "c \<in> set (claims db)" "cl_task_id c = tk_id t" "cl_released_at c = None"
    by (auto simp: owned_def)
  with parts(3) obtain a where a: "a \<in> set (assignments db)" "as_claim_id a = cl_id c"
    by (auto simp: owned_def)
  with parts(3) c have link: "as_task_id a = tk_id t" "as_agent_id a = cl_agent_id c" "as_completed_at a = None"
    by (auto simp: owned_def)
  show thesis
    using that [OF c claim_of_task_run [OF parts(1,2) t c(1,2)] a link(3,1,2)
        assignment_of_task_run [OF parts(1,2) t a(1) link(1)]] .
qed

lemma active_claim_unique:
  assumes ok: "store_ok db" and "c \<in> set (claims db)" "cl_released_at c = None"
    and "c' \<in> set (claims db)" "cl_released_at c' = None" "cl_task_id c' = cl_task_id c"
  shows "c' = c"
proof -
  have "distinct (map cl_task_id (filter (\<lambda>c. cl_released_at c = None) (claims db)))"
    using ok by (simp add: store_ok_def keys_ok_def)
  then show ?thesis using assms(2-) by (auto simp: distinct_map inj_on_def)
qed

lemma assignment_of_claim_unique:
  assumes ok: "store_ok db" and "a \<in> set (assignments db)" "a' \<in> set (assignments db)"
    and "as_claim_id a' = as_claim_id a"
  shows "a' = a"
proof -
  have "distinct (map as_claim_id (assignments db))" using ok by (simp add: store_ok_def keys_ok_def)
  then show ?thesis using assms(2-) by (auto simp: distinct_map inj_on_def)
qed

lemma active_assignment_claim:
  assumes ok: "store_ok db" and a: "a \<in> set (assignments db)" "as_completed_at a = None"
  obtains c where "c \<in> set (claims db)" "cl_id c = as_claim_id a" "cl_released_at c = None"
    "cl_task_id c = as_task_id a" "cl_agent_id c = as_agent_id a"
proof -
  have parts: "keys_ok db" "refs_ok db" "owned db" using ok by (auto simp: store_ok_def)
  from parts(2) a obtain c where c: "c \<in> set (claims db)" "cl_id c = as_claim_id a"
    by (auto simp: refs_ok_def claim_exists_def)
  with parts(3) a have "cl_task_id c = as_task_id a" "cl_agent_id c = as_agent_id a" "cl_released_at c = None"
    by (auto simp: owned_def)
  with c that show thesis by blast
qed

lemma active_assignment_unique:
  assumes ok: "store_ok db" and a: "a \<in> set (assignments db)" "as_completed_at a = None"
    and b: "b \<in> set (assignments db)" "as_completed_at b = None" and same: "as_task_id b = as_task_id a"
  shows "b = a"
proof -
  obtain c where c: "c \<in> set (claims db)" "cl_id c = as_claim_id a" "cl_released_at c = None"
    "cl_task_id c = as_task_id a" using active_assignment_claim [OF ok a] by metis
  obtain d where d: "d \<in> set (claims db)" "cl_id d = as_claim_id b" "cl_released_at d = None"
    "cl_task_id d = as_task_id b" using active_assignment_claim [OF ok b] by metis
  have "d = c" using active_claim_unique [OF ok c(1,3) d(1,3)] c d same by simp
  with c(2) d(2) have "as_claim_id b = as_claim_id a" by simp
  then show ?thesis by (rule assignment_of_claim_unique [OF ok a(1) b(1)])
qed

end
