(* ===== verification/Mutations.thy ===== *)
theory Mutations
  imports Store
begin

section \<open>Idempotent mutations (src/src/state.rs, mutate_with_fingerprint)\<close>

text \<open>
  A mutation is recorded under its operation identifier together with its result, in the same
  transaction as its changes. A retry with the same identity returns the recorded result and
  changes nothing; a retry with another identity is a conflict. The locale states the contract
  for any mutation whose result round-trips through JSON and whose changes are safe for the store.
\<close>

definition pending_operation :: "Mutation \<Rightarrow> string option \<Rightarrow> OperationRecord" where
  "pending_operation m fingerprint =
     \<lparr>op_id = mu_id m, op_run_id = mu_run_id m, op_kind = mu_kind m,
      op_actor_agent_id = mu_actor_agent_id m, op_status = ''pending'', op_request = mu_request m,
      op_result = None, op_attempt_count = 1, op_reconciliation_state = None,
      op_reconciliation_attempt_count = 0, op_reconciliation_error = None, op_reconciled_at = None,
      op_created_at = mu_created_at m, op_updated_at = mu_created_at m,
      op_request_fingerprint = fingerprint\<rparr>"

definition same_identity :: "Mutation \<Rightarrow> string option \<Rightarrow> OperationRecord \<Rightarrow> bool" where
  "same_identity m fingerprint existing \<longleftrightarrow>
     op_run_id existing = mu_run_id m \<and> op_kind existing = mu_kind m
     \<and> op_actor_agent_id existing = mu_actor_agent_id m
     \<and> (case op_request_fingerprint existing of
          Some stored \<Rightarrow> fingerprint = Some stored
        | None \<Rightarrow> op_request existing = mu_request m)"

text \<open>
  \<open>enc\<close> and \<open>dec\<close> are the \<open>Serialize\<close> and \<open>Deserialize\<close> of the result type. The operation is
  inserted without a fingerprint, which an update then adds.
\<close>

definition mutate_with_fingerprint ::
    "('a \<Rightarrow> json) \<Rightarrow> (json \<Rightarrow> 'a option) \<Rightarrow> Mutation \<Rightarrow> string option \<Rightarrow> 'a repo \<Rightarrow> 'a MutationOutcome repo" where
  "mutate_with_fingerprint enc dec m fingerprint apply_it =
     bind (gets (\<lambda>db. find_operation db (mu_id m))) (\<lambda>found.
     case found of
       Some existing \<Rightarrow>
         if \<not> same_identity m fingerprint existing then fail (OperationConflict (mu_id m))
         else if op_status existing \<noteq> ''succeeded'' then
           fail (OperationIncomplete (mu_id m) (op_status existing))
         else (case op_result existing of
                 None \<Rightarrow> fail (MissingOperationResult (mu_id m))
               | Some encoded \<Rightarrow>
                   (case dec encoded of None \<Rightarrow> fail EncodeJson | Some r \<Rightarrow> ret (Replayed r)))
     | None \<Rightarrow>
         seq (insert_operation (pending_operation m None))
         (seq (modify (operations_update (update_where (\<lambda>x. op_id x = mu_id m)
                 (\<lambda>x. x\<lparr>op_request_fingerprint := fingerprint\<rparr>))))
         (bind apply_it (\<lambda>r.
         (seq (modify (operations_update (update_where (\<lambda>x. op_id x = mu_id m)
                 (\<lambda>x. x\<lparr>op_status := ''succeeded'', op_result := Some (enc r),
                         op_updated_at := mu_created_at m\<rparr>))))
         (ret (Applied r)))))))"

definition mutate :: "('a \<Rightarrow> json) \<Rightarrow> (json \<Rightarrow> 'a option) \<Rightarrow> Mutation \<Rightarrow> 'a repo \<Rightarrow> 'a MutationOutcome repo" where
  "mutate enc dec m apply_it = mutate_with_fingerprint enc dec m None apply_it"

subsection \<open>The operations table\<close>

lemma find_operation_Some: "find_operation db i = Some r \<Longrightarrow> r \<in> set (operations db) \<and> op_id r = i"
  by (auto simp: find_operation_def dest: find_Some_in)

lemma find_operation_unique:
  assumes "store_ok db" "r \<in> set (operations db)"
  shows "find_operation db (op_id r) = Some r"
  using find_unique [of op_id "operations db" r] assms by (simp add: find_operation_def store_ok_def keys_ok_def)

lemma find_operation_update:
  assumes "\<And>x. op_id (f x) = op_id x"
  shows "find_operation (operations_update (update_where p f) db) i
    = map_option (\<lambda>x. if p x then f x else x) (find_operation db i)"
  using assms by (simp add: find_operation_def find_update_where)

lemma extends_operation:
  assumes "extends a b" "store_ok b" "find_operation a i = Some x"
  obtains y where "find_operation b i = Some y" "receipt x y"
proof -
  from find_operation_Some [OF assms(3)] assms(1) obtain y
    where y: "y \<in> set (operations b)" "receipt x y"
    by (auto simp: extends_def grows_def)
  with find_operation_Some [OF assms(3)] have "op_id y = i" by (simp add: receipt_def)
  with find_operation_unique [OF assms(2) y(1)] y(2) that show thesis by simp
qed

lemma operations_append_fingerprint:
  assumes "i \<notin> op_id ` set rows"
  shows "update_where (\<lambda>x. op_id x = i) f (rows @ [r]) = rows @ [if op_id r = i then f r else r]"
  using assms by (auto simp: update_where_def image_iff intro!: map_idI)

lemma insert_pending_run:
  "seq (insert_operation (pending_operation m None))
     (seq (modify (operations_update (update_where (\<lambda>x. op_id x = mu_id m)
        (\<lambda>x. x\<lparr>op_request_fingerprint := fp\<rparr>)))) n) db
   = seq (insert_operation (pending_operation m fp)) n db"
proof -
  have ok: "operation_row_ok db (pending_operation m None) = operation_row_ok db (pending_operation m fp)"
    by (simp add: operation_row_ok_def pending_operation_def)
  show ?thesis
  proof (cases "operation_row_ok db (pending_operation m fp)")
    case False
    then show ?thesis by (simp add: seq_def bind_def insert_operation_def insert_row_def ok)
  next
    case True
    then have "mu_id m \<notin> op_id ` set (operations db)"
      by (simp add: operation_row_ok_def pending_operation_def)
    then have "update_where (\<lambda>x. op_id x = mu_id m) (\<lambda>x. x\<lparr>op_request_fingerprint := fp\<rparr>)
        (operations db @ [pending_operation m None]) = operations db @ [pending_operation m fp]"
      by (subst operations_append_fingerprint) (simp_all add: pending_operation_def)
    then have "operations_update (update_where (\<lambda>x. op_id x = mu_id m) (\<lambda>x. x\<lparr>op_request_fingerprint := fp\<rparr>))
        (operations_update (\<lambda>rows. rows @ [pending_operation m None]) db)
      = operations_update (\<lambda>rows. rows @ [pending_operation m fp]) db"
      by (cases db) simp
    with True ok show ?thesis
      by (simp add: seq_def bind_def insert_operation_def insert_row_def)
  qed
qed

lemma mutate_fresh:
  assumes "find_operation db (mu_id m) = None"
  shows "mutate_with_fingerprint enc dec m fp f db =
    seq (insert_operation (pending_operation m fp))
      (bind f (\<lambda>r. seq (modify (operations_update (update_where (\<lambda>x. op_id x = mu_id m)
         (\<lambda>x. x\<lparr>op_status := ''succeeded'', op_result := Some (enc r), op_updated_at := mu_created_at m\<rparr>))))
       (ret (Applied r)))) db"
  using assms unfolding mutate_with_fingerprint_def by (simp add: insert_pending_run)

lemma mutate_conflict:
  assumes "find_operation db (mu_id m) = Some x" "\<not> same_identity m fp x"
  shows "mutate_with_fingerprint enc dec m fp f db = Inl (OperationConflict (mu_id m))"
  using assms by (simp add: mutate_with_fingerprint_def)

lemma mutate_replay:
  assumes "find_operation db (mu_id m) = Some x" "same_identity m fp x"
    and "op_status x = ''succeeded''" "op_result x = Some j" "dec j = Some r"
  shows "mutate_with_fingerprint enc dec m fp f db = Inr (Replayed r, db)"
  using assms by (simp add: mutate_with_fingerprint_def)

text \<open>The changes of a first application, from the inserted intent to the recorded result.\<close>

lemma mutate_Applied:
  assumes "mutate_with_fingerprint enc dec m fp f db = Inr (Applied r, db')"
  obtains db0 db1 where
    "find_operation db (mu_id m) = None"
    "insert_operation (pending_operation m fp) db = Inr ((), db0)"
    "f db0 = Inr (r, db1)"
    "db' = operations_update (update_where (\<lambda>x. op_id x = mu_id m)
       (\<lambda>x. x\<lparr>op_status := ''succeeded'', op_result := Some (enc r), op_updated_at := mu_created_at m\<rparr>)) db1"
proof (cases "find_operation db (mu_id m)")
  case None
  with assms that show thesis by (auto simp: mutate_fresh action_Inr)
next
  case (Some x)
  with assms show thesis
    by (auto simp: mutate_with_fingerprint_def split: if_splits option.splits)
qed

lemma mutate_Replayed_db:
  assumes "mutate_with_fingerprint enc dec m fp f db = Inr (Replayed r, db')"
  shows "db' = db"
proof (cases "find_operation db (mu_id m)")
  case None
  with assms show ?thesis by (auto simp: mutate_fresh action_Inr)
next
  case (Some x)
  with assms show ?thesis
    by (auto simp: mutate_with_fingerprint_def split: if_splits option.splits)
qed

lemma insert_pending_find:
  assumes "find_operation db (mu_id m) = None" "insert_operation (pending_operation m fp) db = Inr ((), db0)"
  shows "find_operation db0 (mu_id m) = Some (pending_operation m fp)"
  using assms
  by (auto simp: insert_operation_def insert_row_Inr find_operation_def find_append pending_operation_def)

lemma safe_mutate_with_fingerprint [safe_intros]:
  assumes f: "safe f" and kind: "mu_kind m \<noteq> ''run.stop''"
  shows "safe (mutate_with_fingerprint enc dec m fp f)"
proof (rule safeI)
  fix db out db' assume ok: "store_ok db" and run: "mutate_with_fingerprint enc dec m fp f db = Inr (out, db')"
  show "store_ok db' \<and> extends db db'"
  proof (cases out)
    case (Replayed r)
    with mutate_Replayed_db [of enc dec m fp f db r db'] run ok show ?thesis by simp
  next
    case (Applied r)
    with run obtain db0 db1 where fresh: "find_operation db (mu_id m) = None"
      and ins: "insert_operation (pending_operation m fp) db = Inr ((), db0)"
      and step: "f db0 = Inr (r, db1)"
      and db': "db' = operations_update (update_where (\<lambda>x. op_id x = mu_id m)
        (\<lambda>x. x\<lparr>op_status := ''succeeded'', op_result := Some (enc r), op_updated_at := mu_created_at m\<rparr>)) db1"
      by (auto elim: mutate_Applied)
    note s0 = safeD [OF safe_insert_operation ins ok]
    note s1 = safeD [OF f step conjunct1 [OF s0]]
    have ok': "store_ok db'" unfolding db' by (rule store_ok_operations_update) (use s1 in auto)
    have e: "extends db db1" using s0 s1 extends_trans by blast
    have "grows receipt (operations db) (operations db')"
      unfolding grows_def
    proof
      fix x assume x: "x \<in> set (operations db)"
      then have "op_id x \<noteq> mu_id m"
        using fresh by (auto simp: find_operation_def find_None_all)
      moreover obtain y where "y \<in> set (operations db1)" "receipt x y"
        using e x by (auto simp: extends_def grows_def)
      ultimately show "\<exists>y \<in> set (operations db'). receipt x y"
        by (auto simp: db' set_update_where receipt_def intro!: bexI [of _ y] image_eqI [of _ _ y])
    qed
    moreover have "extends db (db'\<lparr>operations := operations db1\<rparr>)"
      using e by (simp add: db' extends_def)
    ultimately have "extends db db'"
      by (simp add: extends_def)
    with ok' show ?thesis by simp
  qed
qed

subsection \<open>The contract of an idempotent mutation\<close>

locale idempotent_mutation =
  fixes enc :: "'a \<Rightarrow> json"
    and dec :: "json \<Rightarrow> 'a option"
    and identity :: "'c \<Rightarrow> Mutation"
    and apply_it :: "'c \<Rightarrow> 'a repo"
  assumes dec_enc: "dec (enc r) = Some r"
    and apply_safe: "safe (apply_it c)"
    and not_a_stop: "mu_kind (identity c) \<noteq> ''run.stop''"
begin

abbreviation submit :: "'c \<Rightarrow> string option \<Rightarrow> 'a MutationOutcome repo" where
  "submit c fp \<equiv> mutate_with_fingerprint enc dec (identity c) fp (apply_it c)"

lemma submit_safe: "safe (submit c fp)"
  by (rule safe_mutate_with_fingerprint [OF apply_safe not_a_stop])

lemma applied_receipt:
  assumes ok: "store_ok db" and run: "submit c fp db = Inr (Applied r, db')"
  obtains x where "find_operation db' (mu_id (identity c)) = Some x"
    "receipt (pending_operation (identity c) fp) x"
    "op_status x = ''succeeded''" "op_result x = Some (enc r)"
proof -
  from run obtain db0 db1 where fresh: "find_operation db (mu_id (identity c)) = None"
    and ins: "insert_operation (pending_operation (identity c) fp) db = Inr ((), db0)"
    and step: "apply_it c db0 = Inr (r, db1)"
    and db': "db' = operations_update (update_where (\<lambda>x. op_id x = mu_id (identity c))
      (\<lambda>x. x\<lparr>op_status := ''succeeded'', op_result := Some (enc r),
             op_updated_at := mu_created_at (identity c)\<rparr>)) db1"
    by (auto elim: mutate_Applied)
  note s0 = safeD [OF safe_insert_operation ins ok]
  note s1 = safeD [OF apply_safe step conjunct1 [OF s0]]
  from extends_operation [OF conjunct2 [OF s1] conjunct1 [OF s1] insert_pending_find [OF fresh ins]]
  obtain y where y: "find_operation db1 (mu_id (identity c)) = Some y"
    "receipt (pending_operation (identity c) fp) y" .
  then have "op_id y = mu_id (identity c)" by (auto dest: find_operation_Some)
  with y that show thesis
    by (simp add: db' find_operation_update receipt_def pending_operation_def)
qed

text \<open>
  Once applied, a retry with the same identity returns the recorded result on every later
  database and leaves it unchanged; a reuse of the identifier for anything else is a conflict.
\<close>

lemma retry_replays:
  assumes ok: "store_ok db" and run: "submit c fp db = Inr (Applied r, db')"
    and later: "extends db' db''" "store_ok db''"
    and same: "identity c' = (identity c)\<lparr>mu_created_at := mu_created_at (identity c')\<rparr>"
  shows "submit c' fp db'' = Inr (Replayed r, db'')"
proof -
  from ok run obtain x where x: "find_operation db' (mu_id (identity c)) = Some x"
    "receipt (pending_operation (identity c) fp) x" "op_status x = ''succeeded''" "op_result x = Some (enc r)"
    by (rule applied_receipt)
  from later x(1) obtain y where y: "find_operation db'' (mu_id (identity c)) = Some y" "receipt x y"
    by (rule extends_operation)
  have id: "mu_id (identity c') = mu_id (identity c)"
    and same': "same_identity (identity c') fp y"
    using x(2) y(2) by (subst same, simp add: same_identity_def receipt_def pending_operation_def
        split: option.split)+
  have "op_kind x \<noteq> ''run.stop''"
    using x(2) not_a_stop [of c] by (simp add: receipt_def pending_operation_def)
  with x y(2) have "op_status y = ''succeeded''" "op_result y = Some (enc r)"
    by (simp_all add: receipt_def)
  with id same' y(1) show ?thesis
    by (intro mutate_replay [where x = y and j = "enc r"]) (simp_all add: dec_enc)
qed

lemma reuse_conflicts:
  assumes ok: "store_ok db" and run: "submit c None db = Inr (Applied r, db')"
    and later: "extends db' db''" "store_ok db''"
    and id: "mu_id (identity c') = mu_id (identity c)"
    and diff: "mu_request (identity c') \<noteq> mu_request (identity c)
      \<or> mu_actor_agent_id (identity c') \<noteq> mu_actor_agent_id (identity c)
      \<or> mu_run_id (identity c') \<noteq> mu_run_id (identity c)"
  shows "submit c' None db'' = Inl (OperationConflict (mu_id (identity c)))"
proof -
  from ok run obtain x where x: "find_operation db' (mu_id (identity c)) = Some x"
    "receipt (pending_operation (identity c) None) x" "op_status x = ''succeeded''" "op_result x = Some (enc r)"
    by (rule applied_receipt)
  from later x(1) obtain y where y: "find_operation db'' (mu_id (identity c)) = Some y" "receipt x y"
    by (rule extends_operation)
  have "\<not> same_identity (identity c') None y"
    using x(2) y(2) diff by (auto simp: same_identity_def receipt_def pending_operation_def)
  with y(1) id show ?thesis
    using mutate_conflict [of db'' "identity c'" y None] by simp
qed

end

end
