(* ===== verification/Recovery.thy ===== *)
theory Recovery
  imports Mutations
begin

section \<open>Recorded recoveries and their continuations (src/src/state/recovery.rs)\<close>

text \<open>
  A recovery of an interrupted assignment is an event; the assignment that later continues it is
  linked by another event. Both are read back from the log: the summaries of a run, the recovery
  of a task that is still waiting for a continuation, and the link a claim appends. The handoff
  document inside a summary is kept as the JSON it is.
\<close>

record RecoverySummary =
  rv_task_id :: task_id
  rv_assignment_id :: assignment_id
  rv_session_id :: session_id
  rv_project_id :: project_id
  rv_generation :: int
  rv_workspace_path :: string
  rv_workspace_path_bytes :: "int list"
  rv_base_commit :: "string option"
  rv_reason :: string
  rv_missing_exit_acknowledged :: bool
  rv_continuation_assignment_id :: "assignment_id option"
  rv_handoff :: "json option"

subsection \<open>Reading a summary\<close>

definition id_of_json :: "Env \<Rightarrow> string \<Rightarrow> json \<Rightarrow> nat option" where
  "id_of_json e tag j =
     (case j of
        JId p u \<Rightarrow> if p = tag then Some u else None
      | JStr s \<Rightarrow> (case parse_id (env_ulid e) tag s of Inl _ \<Rightarrow> None | Inr u \<Rightarrow> Some u)
      | _ \<Rightarrow> None)"

fun string_of_json :: "json \<Rightarrow> string option" where
  "string_of_json (JStr s) = Some s"
| "string_of_json _ = None"

fun int_of_json :: "json \<Rightarrow> int option" where
  "int_of_json (JInt i) = (if i64_min \<le> i \<and> i \<le> i64_max then Some i else None)"
| "int_of_json _ = None"

fun byte_of_json :: "json \<Rightarrow> int option" where
  "byte_of_json (JInt i) = (if 0 \<le> i \<and> i \<le> 255 then Some i else None)"
| "byte_of_json _ = None"

fun bool_of_json :: "json \<Rightarrow> bool option" where
  "bool_of_json (JBool b) = Some b"
| "bool_of_json _ = None"

fun list_of_json :: "(json \<Rightarrow> 'a option) \<Rightarrow> json \<Rightarrow> 'a list option" where
  "list_of_json f (JArr xs) = those (map f xs)"
| "list_of_json f _ = None"

text \<open>A required field, an \<open>Option\<close> field (absent or \<open>null\<close> is \<open>None\<close>), a field with a default.\<close>

definition field :: "(json \<Rightarrow> 'a option) \<Rightarrow> string \<Rightarrow> json \<Rightarrow> 'a option" where
  "field f k j = Option.bind (json_get k j) f"

definition option_field :: "(json \<Rightarrow> 'a option) \<Rightarrow> string \<Rightarrow> json \<Rightarrow> 'a option option" where
  "option_field f k j =
     (case json_get k j of
        None \<Rightarrow> Some None
      | Some JNull \<Rightarrow> Some None
      | Some v \<Rightarrow> map_option Some (f v))"

definition default_field :: "'a \<Rightarrow> (json \<Rightarrow> 'a option) \<Rightarrow> string \<Rightarrow> json \<Rightarrow> 'a option" where
  "default_field d f k j = (case json_get k j of None \<Rightarrow> Some d | Some v \<Rightarrow> f v)"

definition recovery_of_json :: "Env \<Rightarrow> json \<Rightarrow> RecoverySummary option" where
  "recovery_of_json e j =
     Option.bind (field (id_of_json e ''ct'') ''task_id'' j) (\<lambda>task.
     Option.bind (field (id_of_json e ''ca'') ''assignment_id'' j) (\<lambda>assignment.
     Option.bind (field (id_of_json e ''cs'') ''session_id'' j) (\<lambda>session.
     Option.bind (field (id_of_json e ''cp'') ''project_id'' j) (\<lambda>project.
     Option.bind (field int_of_json ''generation'' j) (\<lambda>generation.
     Option.bind (field string_of_json ''workspace_path'' j) (\<lambda>path.
     Option.bind (field (list_of_json byte_of_json) ''workspace_path_bytes'' j) (\<lambda>bytes.
     Option.bind (option_field string_of_json ''base_commit'' j) (\<lambda>base.
     Option.bind (field string_of_json ''reason'' j) (\<lambda>reason.
     Option.bind (default_field False bool_of_json ''missing_exit_acknowledged'' j) (\<lambda>missing.
     Option.bind (option_field (id_of_json e ''ca'') ''continuation_assignment_id'' j) (\<lambda>continuation.
     Option.bind (option_field Some ''handoff'' j) (\<lambda>handoff.
     Some \<lparr>rv_task_id = TaskId task, rv_assignment_id = AssignmentId assignment,
       rv_session_id = SessionId session, rv_project_id = ProjectId project,
       rv_generation = generation, rv_workspace_path = path, rv_workspace_path_bytes = bytes,
       rv_base_commit = base, rv_reason = reason, rv_missing_exit_acknowledged = missing,
       rv_continuation_assignment_id = map_option AssignmentId continuation,
       rv_handoff = handoff\<rparr>))))))))))))"

subsection \<open>Recoveries of a run\<close>

text \<open>The continuation of a recovery: the subject of the first event that names its assignment.\<close>

definition continuation_subject :: "Db \<Rightarrow> EventRecord \<Rightarrow> string option" where
  "continuation_subject db source =
     (case filter (\<lambda>c. ev_run_id c = ev_run_id source \<and> ev_type c = ''assignment.continued''
             \<and> json_path [''data'', ''previous_assignment_id''] (ev_payload c) \<noteq> None
             \<and> json_path [''data'', ''previous_assignment_id''] (ev_payload c) \<noteq> Some JNull
             \<and> json_path [''data'', ''previous_assignment_id''] (ev_payload c)
               = json_path [''data'', ''assignment_id''] (ev_payload source))
           (order_by ev_sequence (events db)) of
        [] \<Rightarrow> None
      | c # _ \<Rightarrow> Some (ev_subject c))"

definition read_recovery :: "Env \<Rightarrow> Db \<Rightarrow> EventRecord \<Rightarrow> StoreError + RecoverySummary" where
  "read_recovery e db source =
     (case map_option (parse_id (env_ulid e) ''ca'') (continuation_subject db source) of
        Some (Inl _) \<Rightarrow> Inl Database
      | continuation \<Rightarrow>
          (case json_path [''data''] (ev_payload source) of
             None \<Rightarrow> Inl Database
           | Some data \<Rightarrow>
               (case recovery_of_json e data of
                  None \<Rightarrow> Inl EncodeJson
                | Some r \<Rightarrow> Inr (r\<lparr>rv_continuation_assignment_id :=
                    (case continuation of Some (Inr u) \<Rightarrow> Some (AssignmentId u) | _ \<Rightarrow> None)\<rparr>))))"

definition task_recoveries :: "Env \<Rightarrow> Db \<Rightarrow> run_id \<Rightarrow> StoreError + RecoverySummary list" where
  "task_recoveries e db run =
     map_result (read_recovery e db)
       (order_by ev_sequence (filter (\<lambda>x. ev_run_id x = run \<and> ev_type x = ''task.recovered'') (events db)))"

definition pending_recovery :: "Env \<Rightarrow> Db \<Rightarrow> run_id \<Rightarrow> task_id \<Rightarrow> StoreError + RecoverySummary option" where
  "pending_recovery e db run task =
     (case task_recoveries e db run of
        Inl err \<Rightarrow> Inl err
      | Inr rs \<Rightarrow> Inr (find (\<lambda>r. rv_task_id r = task \<and> rv_continuation_assignment_id r = None) (rev rs)))"

definition lift_result :: "(Db \<Rightarrow> StoreError + 'a) \<Rightarrow> 'a repo" where
  "lift_result f = (\<lambda>db. case f db of Inl err \<Rightarrow> Inl err | Inr a \<Rightarrow> Inr (a, db))"

lemma lift_result_Inr [simp]: "lift_result f db = Inr (a, db') \<longleftrightarrow> f db = Inr a \<and> db' = db"
  by (auto simp: lift_result_def split: sum.splits)

lemma safe_lift_result [safe_intros]: "safe (lift_result f)"
  by (rule safeI) simp

lemma task_recoveries_no_recovery:
  "(\<And>x. x \<in> set (events db) \<Longrightarrow> ev_type x \<noteq> ''task.recovered'') \<Longrightarrow> task_recoveries e db run = Inr []"
  by (simp add: task_recoveries_def filter_empty_conv)

subsection \<open>Linking a continuation\<close>

definition link_continuation :: "Env \<Rightarrow> ClaimTaskMutation \<Rightarrow> unit repo" where
  "link_continuation e claim =
     bind (lift_result (\<lambda>db. pending_recovery e db (ct_run_id claim) (ct_task_id claim))) (\<lambda>pending.
     case pending of
       None \<Rightarrow> ret ()
     | Some source \<Rightarrow>
         bind (append_event e
           \<lparr>ne_run_id = ct_run_id claim, ne_kind = AssignmentContinued,
            ne_actor = mutation_actor e (ct_actor_agent_id claim),
            ne_subject = assignment_text e (ct_assignment_id claim),
            ne_project_id = Some (rv_project_id source), ne_agent_id = Some (ct_agent_id claim),
            ne_task_id = Some (ct_task_id claim), ne_operation_id = Some (ct_operation_id claim),
            ne_correlation_id = None, ne_causation_id = None,
            ne_data = JObj [(''previous_assignment_id'', assignment_json (rv_assignment_id source))],
            ne_summary = ''Assignment '' @ assignment_text e (ct_assignment_id claim)
              @ '' continues preserved assignment '' @ assignment_text e (rv_assignment_id source) @ ''.'',
            ne_created_at = ct_claimed_at claim\<rparr>) (\<lambda>_. ret ()))"

lemma safe_link_continuation [safe_intros]: "safe (link_continuation e claim)"
  unfolding link_continuation_def by (intro safe_intros)

end
