(* ===== verification/Samples.thy ===== *)
theory Samples
  imports Recovery
begin

section \<open>A sample run\<close>

text \<open>
  A small database used by the witnesses: one active run with a project, two agents, three open
  tasks of which the third depends on the second, and a submitted one.
\<close>

definition sample_run :: RunRecord where
  "sample_run = \<lparr>rn_id = RunId 1, rn_status = ''active'', rn_created_at = 1, rn_stopped_at = None\<rparr>"

definition sample_project :: ProjectRecord where
  "sample_project =
     \<lparr>pj_id = ProjectId 1, pj_run_id = RunId 1, pj_alias = ''main'', pj_original_path = ''/p'',
      pj_canonical_path = ''/p'', pj_identity = JObj [], pj_is_primary = True, pj_attached_at = 1\<rparr>"

definition sample_agent :: "nat \<Rightarrow> AgentRecord" where
  "sample_agent n =
     \<lparr>ag_id = AgentId n, ag_run_id = RunId 1, ag_role = ''worker'', ag_generation = 0,
      ag_state = Running, ag_created_at = 1\<rparr>"

lemma sample_agent_simps [simp]:
  "ag_id (sample_agent n) = AgentId n" "ag_run_id (sample_agent n) = RunId 1"
  "ag_generation (sample_agent n) = 0" "ag_state (sample_agent n) = Running"
  by (simp_all add: sample_agent_def)

definition sample_session :: SessionRecord where
  "sample_session =
     \<lparr>se_id = SessionId 1, se_run_id = RunId 1, se_agent_id = AgentId 1, se_generation = 0,
      se_provider = ''codex'', se_provider_session_id = None, se_reconciliation_state = RDesired,
      se_state = Running, se_transcript_path = ''/t'', se_created_at = 1, se_ended_at = None,
      se_reconciled_at = None, se_process_owner = SupervisorOwned\<rparr>"

definition sample_db :: Db where
  "sample_db = empty_db
     \<lparr>runs := [sample_run], projects := [sample_project],
      agents := [sample_agent 1, sample_agent 2], sessions := [sample_session],
      tasks := [sample_task 1 Open, sample_task 2 Open, sample_task 3 Open, sample_task 4 Submitted],
      dependencies := [\<lparr>dp_run_id = RunId 1, dp_task_id = TaskId 3, dp_dependency_task_id = TaskId 2,
                        dp_created_at = 1\<rparr>]\<rparr>"

lemma sample_db_simps [simp]:
  "runs sample_db = [sample_run]" "projects sample_db = [sample_project]"
  "agents sample_db = [sample_agent 1, sample_agent 2]" "sessions sample_db = [sample_session]"
  "tasks sample_db = [sample_task 1 Open, sample_task 2 Open, sample_task 3 Open, sample_task 4 Submitted]"
  "operations sample_db = []" "claims sample_db = []" "assignments sample_db = []"
  "messages sample_db = []" "workspaces sample_db = []" "events sample_db = []"
  "credentials sample_db = []" "run_shutdowns sample_db = []" "events_drawn sample_db = 0"
  "session_controls sample_db = []" "launch_attempts sample_db = []" "session_failures sample_db = []"
  by (simp_all add: sample_db_def empty_db_def)

lemma store_ok_sample_db: "store_ok sample_db"
  by (simp add: store_ok_def sample_db_def empty_db_def keys_ok_def refs_ok_def task_exists_def
      owned_def log_ok_def run_log_def shutdowns_ok_def inboxes_ok_def inbox_def paths_ok_def
      deps_ok_def earlier_def)
    (auto intro!: exI [of _ 2])

definition sample_claim :: "nat \<Rightarrow> nat \<Rightarrow> nat \<Rightarrow> ClaimTaskMutation" where
  "sample_claim operation task agent =
     \<lparr>ct_operation_id = OperationId operation, ct_run_id = RunId 1, ct_actor_agent_id = None,
      ct_task_id = TaskId task, ct_agent_id = AgentId agent,
      ct_assignment_id = AssignmentId operation, ct_claimed_at = 5\<rparr>"

lemma sample_claim_simps [simp]:
  "ct_operation_id (sample_claim i t a) = OperationId i" "ct_run_id (sample_claim i t a) = RunId 1"
  "ct_actor_agent_id (sample_claim i t a) = None" "ct_task_id (sample_claim i t a) = TaskId t"
  "ct_agent_id (sample_claim i t a) = AgentId a"
  "ct_assignment_id (sample_claim i t a) = AssignmentId i" "ct_claimed_at (sample_claim i t a) = 5"
  by (simp_all add: sample_claim_def)

definition sample_operation :: "nat \<Rightarrow> OperationRecord" where
  "sample_operation n =
     \<lparr>op_id = OperationId n, op_run_id = RunId 1, op_kind = ''task.claim'', op_actor_agent_id = None,
      op_status = ''pending'', op_request = JNull, op_result = None, op_attempt_count = 1,
      op_reconciliation_state = None, op_reconciliation_attempt_count = 0,
      op_reconciliation_error = None, op_reconciled_at = None, op_created_at = 5, op_updated_at = 5,
      op_request_fingerprint = None\<rparr>"

lemma sample_operation_simps [simp]:
  "op_id (sample_operation n) = OperationId n" "op_run_id (sample_operation n) = RunId 1"
  by (simp_all add: sample_operation_def)

text \<open>The same with two operations under way.\<close>

definition sample_busy :: Db where
  "sample_busy = sample_db\<lparr>operations := [sample_operation 1, sample_operation 2]\<rparr>"

lemma store_ok_sample_busy: "store_ok sample_busy"
  using store_ok_sample_db
  by (simp add: sample_busy_def store_ok_def keys_ok_def shutdowns_ok_def)

end
