(* ===== verification/Claims.thy ===== *)
theory Claims
  imports Samples
begin

section \<open>Claiming a task (src/src/state.rs)\<close>

text \<open>
  The compare-and-set that claims a ready task for an idle agent, the reason it gives when it
  refuses, the assignment it creates, the events it appends and the idempotent mutation around
  it. The claim is safe for the store, succeeds exactly on ready tasks, and excludes every other
  claim of the task until it is released.
\<close>

subsection \<open>Assignments\<close>

definition insert_assignment :: "AssignmentRecord \<Rightarrow> unit repo" where
  "insert_assignment a =
     bind (gets (\<lambda>db. find_agent db (as_agent_id a))) (\<lambda>agent.
     seq (require (case agent of None \<Rightarrow> False
            | Some g \<Rightarrow> ag_run_id g = as_run_id a \<and> ag_generation g = as_generation a)
          (StaleAssignment (as_id a)))
     (bind (gets (\<lambda>db. case as_session_id a of None \<Rightarrow> True
            | Some s \<Rightarrow> (case find_session db s of None \<Rightarrow> False
               | Some x \<Rightarrow> se_run_id x = as_run_id a \<and> se_agent_id x = as_agent_id a
                   \<and> se_generation x = as_generation a))) (\<lambda>session_ok.
     seq (require session_ok (StaleAssignment (as_id a)))
         (insert_row assignment_row_ok (\<lambda>r. assignments_update (\<lambda>rows. rows @ [r])) a))))"

lemma insert_assignment_Inr:
  "insert_assignment a db = Inr (u, db') \<Longrightarrow>
     db' = assignments_update (\<lambda>rows. rows @ [a]) db \<and> assignment_row_ok db a
     \<and> (\<exists>g. find_agent db (as_agent_id a) = Some g \<and> ag_run_id g = as_run_id a
          \<and> ag_generation g = as_generation a)"
  by (auto simp: insert_assignment_def seq_Inr_iff insert_row_Inr split: option.splits)

subsection \<open>Compare and set\<close>

text \<open>The WHERE clause of the UPDATE.\<close>

definition claimable :: "Db \<Rightarrow> ClaimTaskMutation \<Rightarrow> TaskRecord \<Rightarrow> bool" where
  "claimable db claim t \<longleftrightarrow>
     tk_id t = ct_task_id claim \<and> tk_run_id t = ct_run_id claim \<and> tk_status t = Open
     \<and> \<not> has_active_claim db (tk_run_id t) (tk_id t)
     \<and> \<not> is_blocked db (tk_run_id t) (tk_id t)
     \<and> \<not> agent_busy db (tk_run_id t) (ct_agent_id claim)"

definition claim_rejection :: "Db \<Rightarrow> ClaimTaskMutation \<Rightarrow> ClaimRejection" where
  "claim_rejection db claim =
     (if has_active_claim db (ct_run_id claim) (ct_task_id claim) then AlreadyClaimed
      else (case find (\<lambda>t. tk_id t = ct_task_id claim \<and> tk_run_id t = ct_run_id claim) (tasks db) of
          None \<Rightarrow> TaskNotFound
        | Some t \<Rightarrow>
            if tk_status t \<noteq> Open then TaskNotOpen
            else if is_blocked db (ct_run_id claim) (ct_task_id claim) then Blocked
            else if agent_busy db (ct_run_id claim) (ct_agent_id claim) then AgentBusy
            else TaskNotOpen))"

definition claimed_row :: "ClaimTaskMutation \<Rightarrow> int \<Rightarrow> ClaimRecord" where
  "claimed_row claim i =
     \<lparr>cl_id = i, cl_run_id = ct_run_id claim, cl_task_id = ct_task_id claim,
      cl_agent_id = ct_agent_id claim, cl_operation_id = ct_operation_id claim,
      cl_state = ''active'', cl_claimed_at = ct_claimed_at claim, cl_released_at = None\<rparr>"

definition claimed_assignment :: "ClaimTaskMutation \<Rightarrow> int \<Rightarrow> int \<Rightarrow> AssignmentRecord" where
  "claimed_assignment claim i generation =
     \<lparr>as_id = ct_assignment_id claim, as_run_id = ct_run_id claim, as_task_id = ct_task_id claim,
      as_agent_id = ct_agent_id claim, as_session_id = None, as_claim_id = i,
      as_generation = generation, as_state = ''active'', as_summary = None,
      as_created_at = ct_claimed_at claim, as_completed_at = None\<rparr>"

definition compare_and_set_claim :: "ClaimTaskMutation \<Rightarrow> ClaimTaskResult repo" where
  "compare_and_set_claim claim =
     bind (gets (\<lambda>db. find (\<lambda>a. ag_id a = ct_agent_id claim \<and> ag_run_id a = ct_run_id claim)
                        (agents db))) (\<lambda>agent.
     case agent of
       None \<Rightarrow> ret (ClaimRejected AgentNotFound)
     | Some g \<Rightarrow>
         bind (gets (\<lambda>db. count_where (claimable db claim) (tasks db))) (\<lambda>changed.
         seq (modify (\<lambda>db. tasks_update (update_where (claimable db claim)
                (\<lambda>t. t\<lparr>tk_status := InProgress, tk_updated_at := ct_claimed_at claim\<rparr>)) db))
         (if changed = 0 then bind (gets (\<lambda>db. claim_rejection db claim)) (\<lambda>r. ret (ClaimRejected r))
          else
            bind (gets (\<lambda>db. next_rowid (map cl_id (claims db)))) (\<lambda>i.
            seq (insert_claim (claimed_row claim i))
            (seq (insert_assignment (claimed_assignment claim i (ag_generation g)))
                 (ret (Claimed i (ct_assignment_id claim))))))))"

lemma claimed_row_simps [simp]:
  "cl_id (claimed_row claim i) = i" "cl_run_id (claimed_row claim i) = ct_run_id claim"
  "cl_task_id (claimed_row claim i) = ct_task_id claim"
  "cl_agent_id (claimed_row claim i) = ct_agent_id claim"
  "cl_operation_id (claimed_row claim i) = ct_operation_id claim"
  "cl_released_at (claimed_row claim i) = None"
  by (simp_all add: claimed_row_def)

lemma claimed_assignment_simps [simp]:
  "as_id (claimed_assignment claim i g) = ct_assignment_id claim"
  "as_run_id (claimed_assignment claim i g) = ct_run_id claim"
  "as_task_id (claimed_assignment claim i g) = ct_task_id claim"
  "as_agent_id (claimed_assignment claim i g) = ct_agent_id claim"
  "as_claim_id (claimed_assignment claim i g) = i"
  "as_session_id (claimed_assignment claim i g) = None"
  "as_generation (claimed_assignment claim i g) = g"
  "as_completed_at (claimed_assignment claim i g) = None"
  by (simp_all add: claimed_assignment_def)

text \<open>The database after a successful claim.\<close>

definition claimed_db :: "ClaimTaskMutation \<Rightarrow> int \<Rightarrow> int \<Rightarrow> Db \<Rightarrow> Db" where
  "claimed_db claim i g db =
     assignments_update (\<lambda>rows. rows @ [claimed_assignment claim i g])
       (claims_update (\<lambda>rows. rows @ [claimed_row claim i])
         (tasks_update (update_where (claimable db claim)
            (\<lambda>t. t\<lparr>tk_status := InProgress, tk_updated_at := ct_claimed_at claim\<rparr>)) db))"

lemma compare_and_set_claim_Inr:
  assumes "compare_and_set_claim claim db = Inr (r, db')"
  shows "(db' = db \<and> (r = ClaimRejected AgentNotFound \<or>
            (r = ClaimRejected (claim_rejection db claim) \<and> \<not> (\<exists>t \<in> set (tasks db). claimable db claim t))))
    \<or> (\<exists>t i g. t \<in> set (tasks db) \<and> claimable db claim t \<and> i = next_rowid (map cl_id (claims db))
         \<and> r = Claimed i (ct_assignment_id claim) \<and> db' = claimed_db claim i g db
         \<and> claim_row_ok (tasks_update (update_where (claimable db claim)
              (\<lambda>t. t\<lparr>tk_status := InProgress, tk_updated_at := ct_claimed_at claim\<rparr>)) db) (claimed_row claim i)
         \<and> assignment_row_ok (claims_update (\<lambda>rows. rows @ [claimed_row claim i])
              (tasks_update (update_where (claimable db claim)
                (\<lambda>t. t\<lparr>tk_status := InProgress, tk_updated_at := ct_claimed_at claim\<rparr>)) db))
              (claimed_assignment claim i g))"
proof (cases "find (\<lambda>a. ag_id a = ct_agent_id claim \<and> ag_run_id a = ct_run_id claim) (agents db)")
  case None
  with assms show ?thesis by (simp add: compare_and_set_claim_def)
next
  case (Some g)
  show ?thesis
  proof (cases "count_where (claimable db claim) (tasks db) = 0")
    case True
    then have none: "\<not> (\<exists>t \<in> set (tasks db). claimable db claim t)" by (simp add: count_where_0_iff)
    then have "tasks_update (update_where (claimable db claim)
        (\<lambda>t. t\<lparr>tk_status := InProgress, tk_updated_at := ct_claimed_at claim\<rparr>)) db = db"
      by (cases db) (simp add: update_where_none)
    with assms Some True none show ?thesis by (auto simp: compare_and_set_claim_def)
  next
    case False
    then obtain t where t: "t \<in> set (tasks db)" "claimable db claim t" by (auto simp: count_where_0_iff)
    from assms Some False have "r = Claimed (next_rowid (map cl_id (claims db))) (ct_assignment_id claim)"
      and run: "db' = claimed_db claim (next_rowid (map cl_id (claims db))) (ag_generation g) db"
      and rows: "claim_row_ok (tasks_update (update_where (claimable db claim)
          (\<lambda>t. t\<lparr>tk_status := InProgress, tk_updated_at := ct_claimed_at claim\<rparr>)) db)
          (claimed_row claim (next_rowid (map cl_id (claims db))))"
        "assignment_row_ok (claims_update (\<lambda>rows. rows @ [claimed_row claim (next_rowid (map cl_id (claims db)))])
          (tasks_update (update_where (claimable db claim)
            (\<lambda>t. t\<lparr>tk_status := InProgress, tk_updated_at := ct_claimed_at claim\<rparr>)) db))
          (claimed_assignment claim (next_rowid (map cl_id (claims db))) (ag_generation g))"
      by (auto simp: compare_and_set_claim_def action_Inr insert_claim_def insert_row_Inr claimed_db_def
          dest!: insert_assignment_Inr)
    with t show ?thesis by blast
  qed
qed

subsection \<open>A claim is safe\<close>

lemma store_ok_claimed:
  assumes ok: "store_ok db" and t: "t \<in> set (tasks db)" "claimable db claim t"
    and c_ok: "claim_row_ok db1 (claimed_row claim i)"
    and a_ok: "assignment_row_ok (claims_update (\<lambda>rows. rows @ [claimed_row claim i]) db1)
      (claimed_assignment claim i g)"
    and db1: "db1 = tasks_update (update_where (claimable db claim)
      (\<lambda>t. t\<lparr>tk_status := InProgress, tk_updated_at := ct_claimed_at claim\<rparr>)) db"
  shows "store_ok (claimed_db claim i g db)"
proof -
  let ?c = "claimed_row claim i" and ?a = "claimed_assignment claim i g"
  let ?f = "\<lambda>t. t\<lparr>tk_status := InProgress, tk_updated_at := ct_claimed_at claim\<rparr>"
  define db' where "db' = claimed_db claim i g db"
  have tabs: "claims db1 = claims db" "assignments db1 = assignments db"
    "tasks db1 = update_where (claimable db claim) ?f (tasks db)"
    by (simp_all add: db1)
  have tabs': "claims db' = claims db @ [?c]" "assignments db' = assignments db @ [?a]"
    "tasks db' = tasks db1" "agents db' = agents db" "dependencies db' = dependencies db"
    "workspaces db' = workspaces db"
    by (simp_all add: db'_def claimed_db_def tabs)
  have parts: "keys_ok db" "refs_ok db" "owned db" using ok by (auto simp: store_ok_def)
  have task_exists: "task_exists db' = task_exists db"
    by (simp add: fun_eq_iff task_exists_def tabs' tabs ex_update_where)
  have task_exists1: "task_exists db1 = task_exists db"
    by (simp add: fun_eq_iff task_exists_def tabs ex_update_where)
  have agent_exists: "agent_exists db' = agent_exists db"
    by (simp add: fun_eq_iff agent_exists_def tabs')
  have fresh: "i \<notin> cl_id ` set (claims db)" "ct_operation_id claim \<notin> cl_operation_id ` set (claims db)"
    and no_claim: "\<And>c. c \<in> set (claims db) \<Longrightarrow> cl_released_at c = None \<Longrightarrow> cl_task_id c \<noteq> ct_task_id claim"
    and c_refs: "task_exists db (ct_run_id claim) (ct_task_id claim)"
    using c_ok by (auto simp: claim_row_ok_def tabs task_exists1)
  have a_fresh: "ct_assignment_id claim \<notin> as_id ` set (assignments db)"
    "i \<notin> as_claim_id ` set (assignments db)"
    and idle: "\<And>a. a \<in> set (assignments db) \<Longrightarrow> as_completed_at a = None \<Longrightarrow> as_agent_id a \<noteq> ct_agent_id claim"
    and a_refs: "agent_exists db1 (ct_run_id claim) (ct_agent_id claim)"
    using a_ok by (auto simp: assignment_row_ok_def tabs)
  have keys: "keys_ok db'"
  proof -
    have "distinct (map tk_id (tasks db'))"
      using parts(1) by (simp add: keys_ok_def tabs' tabs map_update_where)
    moreover have "runs db' = runs db" "sessions db' = sessions db" "operations db' = operations db"
      by (simp_all add: db'_def claimed_db_def)
    moreover have "\<forall>x. x \<in> set (claims db) \<longrightarrow>
        (\<exists>y. cl_released_at x = Some y) \<or> ct_task_id claim \<noteq> cl_task_id x"
      using no_claim by fastforce
    moreover have "\<forall>x. x \<in> set (assignments db) \<longrightarrow>
        (\<exists>y. as_completed_at x = Some y) \<or> ct_agent_id claim \<noteq> as_agent_id x"
      using idle by fastforce
    ultimately show ?thesis
      using parts(1) fresh a_fresh by (simp add: keys_ok_def tabs' image_iff)
  qed
  have refs: "refs_ok db'"
  proof -
    have "claim_exists db' r j" if "claim_exists db r j" for r j
      using that by (auto simp: claim_exists_def tabs')
    moreover have "claim_exists db' (ct_run_id claim) i" by (simp add: claim_exists_def tabs')
    moreover have "agent_exists db (ct_run_id claim) (ct_agent_id claim)"
      using a_refs by (simp add: db1)
    moreover have "assignment_exists db' r j" if "assignment_exists db r j" for r j
      using that by (auto simp: assignment_exists_def tabs')
    ultimately show ?thesis
      using parts(2) c_refs by (simp add: refs_ok_def tabs' task_exists agent_exists)
  qed
  have own: "owned db'"
    unfolding owned_def
  proof (intro conjI)
    show "\<forall>u \<in> set (tasks db'). tk_status u = InProgress \<longleftrightarrow>
        (\<exists>c \<in> set (claims db'). cl_task_id c = tk_id u \<and> cl_released_at c = None)"
    proof
      fix u assume "u \<in> set (tasks db')"
      then obtain v where v: "v \<in> set (tasks db)" and u: "u = (if claimable db claim v then ?f v else v)"
        by (auto simp: tabs' tabs set_update_where)
      show "tk_status u = InProgress \<longleftrightarrow>
          (\<exists>c \<in> set (claims db'). cl_task_id c = tk_id u \<and> cl_released_at c = None)"
      proof (cases "tk_id v = ct_task_id claim")
        case True
        then have "Some v = Some t"
          using find_task_unique [OF parts(1) v] find_task_unique [OF parts(1) t(1)] t(2)
          by (simp add: claimable_def)
        with u t(2) True show ?thesis by (simp add: tabs')
      next
        case False
        then have "u = v" using u by (simp add: claimable_def)
        moreover have "tk_status v = InProgress \<longleftrightarrow>
            (\<exists>c \<in> set (claims db). cl_task_id c = tk_id v \<and> cl_released_at c = None)"
          using parts(3) v by (simp add: owned_def)
        ultimately show ?thesis using False by (simp add: tabs')
      qed
    qed
    show "\<forall>c \<in> set (claims db'). cl_released_at c = None \<longrightarrow>
        (\<exists>a \<in> set (assignments db'). as_claim_id a = cl_id c)"
      using parts(3) by (auto simp: owned_def tabs')
    have old: "as_claim_id a \<noteq> i" if "a \<in> set (assignments db)" for a
      using a_fresh(2) that by auto
    have old': "cl_id c \<noteq> i" if "c \<in> set (claims db)" for c
      using fresh(1) that by auto
    show "\<forall>a \<in> set (assignments db'). \<forall>c \<in> set (claims db'). as_claim_id a = cl_id c \<longrightarrow>
        as_task_id a = cl_task_id c \<and> as_agent_id a = cl_agent_id c
        \<and> (as_completed_at a = None \<longleftrightarrow> cl_released_at c = None)"
      using parts(3) old old' by (simp add: owned_def tabs' ball_Un) metis
  qed
  have "log_ok db' \<and> shutdowns_ok db' \<and> inboxes_ok db' \<and> paths_ok db' \<and> deps_ok db'"
    using ok by (simp add: store_ok_def db'_def claimed_db_def deps_ok_def map_update_where)
  with keys refs own show ?thesis by (simp add: store_ok_def db'_def)
qed

lemma extends_claimed: "extends db (claimed_db claim i g db)"
proof -
  have "grows task_later (tasks db) (tasks (claimed_db claim i g db))"
    unfolding claimed_db_def by (simp, rule grows_update_where) (auto simp: claimable_def task_later_def)
  then show ?thesis by (simp add: extends_def claimed_db_def grows_append grows_refl)
qed

lemma safe_compare_and_set_claim [safe_intros]: "safe (compare_and_set_claim claim)"
proof (rule safeI)
  fix db r db' assume ok: "store_ok db" and run: "compare_and_set_claim claim db = Inr (r, db')"
  from compare_and_set_claim_Inr [OF run] show "store_ok db' \<and> extends db db'"
  proof (elim disjE exE conjE)
    fix t i g
    assume t: "t \<in> set (tasks db)" "claimable db claim t" and db': "db' = claimed_db claim i g db"
      and rows: "claim_row_ok (tasks_update (update_where (claimable db claim)
              (\<lambda>t. t\<lparr>tk_status := InProgress, tk_updated_at := ct_claimed_at claim\<rparr>)) db) (claimed_row claim i)"
        "assignment_row_ok (claims_update (\<lambda>rows. rows @ [claimed_row claim i])
              (tasks_update (update_where (claimable db claim)
                (\<lambda>t. t\<lparr>tk_status := InProgress, tk_updated_at := ct_claimed_at claim\<rparr>)) db))
              (claimed_assignment claim i g)"
    show ?thesis
      using store_ok_claimed [OF ok t rows refl] extends_claimed by (simp add: db')
  qed (use ok in simp_all)
qed

subsection \<open>When a claim succeeds\<close>

lemma claimable_ready:
  "(\<exists>t \<in> set (tasks db). claimable db claim t) \<longleftrightarrow>
     (\<exists>t \<in> set (ready_tasks db (ct_run_id claim)). tk_id t = ct_task_id claim)
     \<and> \<not> agent_busy db (ct_run_id claim) (ct_agent_id claim)"
  by (auto simp: claimable_def ready_tasks_def)

text \<open>What each reason of a refusal says about the database.\<close>

fun rejection_holds :: "Db \<Rightarrow> ClaimTaskMutation \<Rightarrow> ClaimRejection \<Rightarrow> bool" where
  "rejection_holds db claim AgentNotFound \<longleftrightarrow> \<not> agent_exists db (ct_run_id claim) (ct_agent_id claim)"
| "rejection_holds db claim AlreadyClaimed \<longleftrightarrow> has_active_claim db (ct_run_id claim) (ct_task_id claim)"
| "rejection_holds db claim TaskNotFound \<longleftrightarrow> \<not> task_exists db (ct_run_id claim) (ct_task_id claim)"
| "rejection_holds db claim TaskNotOpen \<longleftrightarrow>
     (\<exists>t \<in> set (tasks db). tk_id t = ct_task_id claim \<and> tk_run_id t = ct_run_id claim \<and> tk_status t \<noteq> Open)"
| "rejection_holds db claim Blocked \<longleftrightarrow> is_blocked db (ct_run_id claim) (ct_task_id claim)"
| "rejection_holds db claim AgentBusy \<longleftrightarrow> agent_busy db (ct_run_id claim) (ct_agent_id claim)"

lemma claim_rejection_not_agent: "claim_rejection db claim \<noteq> AgentNotFound"
  by (auto simp: claim_rejection_def split: option.split)

lemma claim_rejection_holds:
  assumes "\<not> (\<exists>t \<in> set (tasks db). claimable db claim t)"
  shows "rejection_holds db claim (claim_rejection db claim)"
proof (cases "find (\<lambda>t. tk_id t = ct_task_id claim \<and> tk_run_id t = ct_run_id claim) (tasks db)")
  case None
  then have "\<not> task_exists db (ct_run_id claim) (ct_task_id claim)"
    by (auto simp: find_None_all task_exists_def)
  with None show ?thesis by (simp add: claim_rejection_def)
next
  case (Some t)
  then have t: "t \<in> set (tasks db)" "tk_id t = ct_task_id claim" "tk_run_id t = ct_run_id claim"
    by (auto dest: find_Some_in)
  then have "\<not> claimable db claim t" using assms by blast
  with t Some show ?thesis by (auto simp: claim_rejection_def claimable_def)
qed

lemma claimed_generation:
  assumes run: "compare_and_set_claim claim db = Inr (r, db')" and r: "r = Claimed i a"
    and db': "db' = claimed_db claim j g db"
  shows "\<exists>x. find_agent db (ct_agent_id claim) = Some x \<and> ag_generation x = g"
proof -
  from run r obtain x k where x: "find_agent db (ct_agent_id claim) = Some x"
    and k: "db' = claimed_db claim k (ag_generation x) db"
    by (auto simp: compare_and_set_claim_def action_Inr insert_claim_def insert_row_Inr claimed_db_def
        find_agent_def dest!: insert_assignment_Inr split: option.splits if_splits)
  have "assignments (claimed_db claim j g db) = assignments (claimed_db claim k (ag_generation x) db)"
    by (simp only: db' [symmetric] k [symmetric])
  then have "claimed_assignment claim j g = claimed_assignment claim k (ag_generation x)"
    by (simp add: claimed_db_def)
  then have "g = ag_generation x" by (simp add: claimed_assignment_def)
  with x show ?thesis by blast
qed

text \<open>
  Property C4. A claim succeeds exactly on a task that \<open>ready_tasks\<close> lists for an idle agent of
  the run; otherwise nothing changes and the reason given is true of the database. A successful
  claim moves only that task to in progress and leaves it with the one active claim and the one
  active assignment, in the agent's current generation.
\<close>

theorem claim_succeeds_exactly_when_ready:
  assumes ok: "store_ok db" and run: "compare_and_set_claim claim db = Inr (r, db')"
  shows "((\<exists>i a. r = Claimed i a) \<longleftrightarrow>
      agent_exists db (ct_run_id claim) (ct_agent_id claim)
      \<and> (\<exists>t \<in> set (ready_tasks db (ct_run_id claim)). tk_id t = ct_task_id claim)
      \<and> \<not> agent_busy db (ct_run_id claim) (ct_agent_id claim))
    \<and> (\<forall>why. r = ClaimRejected why \<longrightarrow> rejection_holds db claim why \<and> db' = db)
    \<and> (\<forall>i a. r = Claimed i a \<longrightarrow>
        filter (\<lambda>c. cl_task_id c = ct_task_id claim \<and> cl_released_at c = None) (claims db')
          = [claimed_row claim i]
        \<and> (\<exists>g. find_agent db (ct_agent_id claim) = Some g
            \<and> filter (\<lambda>x. as_agent_id x = ct_agent_id claim \<and> as_completed_at x = None) (assignments db')
              = [claimed_assignment claim i (ag_generation g)])
        \<and> map tk_status (tasks db') = map (\<lambda>t. if tk_id t = ct_task_id claim then InProgress else tk_status t) (tasks db))"
proof -
  define agent where
    "agent = find (\<lambda>a. ag_id a = ct_agent_id claim \<and> ag_run_id a = ct_run_id claim) (agents db)"
  have agent: "agent_exists db (ct_run_id claim) (ct_agent_id claim) \<longleftrightarrow> agent \<noteq> None"
    by (auto simp: agent_def agent_exists_def find_None_all)
  show ?thesis
  proof (cases "agent \<noteq> None \<and> (\<exists>t \<in> set (tasks db). claimable db claim t)")
    case False
    have "(\<exists>why. r = ClaimRejected why \<and> rejection_holds db claim why) \<and> db' = db"
    proof (cases agent)
      case None
      with run agent show ?thesis by (auto simp: compare_and_set_claim_def simp flip: agent_def)
    next
      case (Some g)
      with False have none: "\<not> (\<exists>t \<in> set (tasks db). claimable db claim t)" by simp
      with compare_and_set_claim_Inr [OF run] have "db' = db"
        "r = ClaimRejected AgentNotFound \<or> r = ClaimRejected (claim_rejection db claim)" by auto
      moreover have "r \<noteq> ClaimRejected AgentNotFound"
      proof -
        have "count_where (claimable db claim) (tasks db) = 0"
          using none by (simp add: count_where_0_iff)
        then show ?thesis
          using run Some by (auto simp: compare_and_set_claim_def action_Inr claim_rejection_not_agent
              simp flip: agent_def)
      qed
      ultimately show ?thesis using claim_rejection_holds [OF none] by auto
    qed
    with False agent show ?thesis by (auto simp: claimable_ready)
  next
    case True
    then have some: "\<exists>t \<in> set (tasks db). claimable db claim t" by simp
    have "r \<noteq> ClaimRejected AgentNotFound"
      using run True by (auto simp: compare_and_set_claim_def action_Inr claim_rejection_not_agent
          simp flip: agent_def split: if_splits)
    with compare_and_set_claim_Inr [OF run] some obtain t i g where
      t: "t \<in> set (tasks db)" "claimable db claim t"
      and r: "r = Claimed i (ct_assignment_id claim)" and db': "db' = claimed_db claim i g db"
      and c_ok: "claim_row_ok (tasks_update (update_where (claimable db claim)
          (\<lambda>t. t\<lparr>tk_status := InProgress, tk_updated_at := ct_claimed_at claim\<rparr>)) db) (claimed_row claim i)"
      and a_ok: "assignment_row_ok (claims_update (\<lambda>rows. rows @ [claimed_row claim i])
              (tasks_update (update_where (claimable db claim)
                (\<lambda>t. t\<lparr>tk_status := InProgress, tk_updated_at := ct_claimed_at claim\<rparr>)) db))
              (claimed_assignment claim i g)"
      by auto
    have only: "claimable db claim u \<longleftrightarrow> tk_id u = ct_task_id claim" if "u \<in> set (tasks db)" for u
    proof
      assume "tk_id u = ct_task_id claim"
      then have "u = t"
        using find_task_unique [of db u] find_task_unique [of db t] ok t that
        by (simp add: store_ok_def claimable_def)
      with t show "claimable db claim u" by simp
    qed (simp add: claimable_def)
    have "filter (\<lambda>c. cl_task_id c = ct_task_id claim \<and> cl_released_at c = None) (claims db) = []"
      using c_ok by (auto simp: claim_row_ok_def filter_empty_conv)
    then have claims': "filter (\<lambda>c. cl_task_id c = ct_task_id claim \<and> cl_released_at c = None) (claims db')
        = [claimed_row claim i]"
      by (simp add: db' claimed_db_def)
    have "filter (\<lambda>x. as_agent_id x = ct_agent_id claim \<and> as_completed_at x = None) (assignments db) = []"
      using a_ok by (auto simp: assignment_row_ok_def filter_empty_conv)
    then have assignments': "filter (\<lambda>x. as_agent_id x = ct_agent_id claim \<and> as_completed_at x = None)
        (assignments db') = [claimed_assignment claim i g]"
      by (simp add: db' claimed_db_def)
    have generation: "\<exists>x. find_agent db (ct_agent_id claim) = Some x \<and> ag_generation x = g"
      by (rule claimed_generation [OF run r db'])
    have statuses: "map tk_status (tasks db')
        = map (\<lambda>t. if tk_id t = ct_task_id claim then InProgress else tk_status t) (tasks db)"
      using only by (simp add: db' claimed_db_def update_where_def)
    show ?thesis
      using True agent r claims' assignments' generation statuses by (auto simp: claimable_ready)
  qed
qed


lemma sample_claim_runs:
  "compare_and_set_claim (sample_claim 1 1 1) sample_busy
   = Inr (Claimed 1 (AssignmentId 1), claimed_db (sample_claim 1 1 1) 1 0 sample_busy)"
  by (simp add: compare_and_set_claim_def sample_busy_def claimable_def has_active_claim_def
      is_blocked_def agent_busy_def next_rowid_def max_or_zero_def insert_claim_def insert_row_def
      claim_row_ok_def task_exists_def agent_exists_def operation_exists_def insert_assignment_def
      find_agent_def assignment_row_ok_def claim_exists_def seq_def claimed_db_def count_where_def
      update_where_def sample_db_def empty_db_def bind_run)

theorem claim_succeeds_exactly_when_ready_witness:
  "\<exists>t \<in> set (ready_tasks sample_busy (RunId 1)). tk_id t = TaskId 1"
  using claim_succeeds_exactly_when_ready [OF store_ok_sample_busy sample_claim_runs] by simp

lemma claim_refused_when_claimed:
  assumes "agent_exists db (ct_run_id claim) (ct_agent_id claim)"
    and "has_active_claim db (ct_run_id claim) (ct_task_id claim)"
  shows "compare_and_set_claim claim db = Inr (ClaimRejected AlreadyClaimed, db)"
proof -
  obtain g where "find (\<lambda>a. ag_id a = ct_agent_id claim \<and> ag_run_id a = ct_run_id claim) (agents db) = Some g"
    using assms(1)
    by (cases "find (\<lambda>a. ag_id a = ct_agent_id claim \<and> ag_run_id a = ct_run_id claim) (agents db)")
      (auto simp: agent_exists_def find_None_all)
  moreover have none: "\<And>t. \<not> claimable db claim t" using assms(2) by (auto simp: claimable_def)
  then have "tasks_update (update_where (claimable db claim)
      (\<lambda>t. t\<lparr>tk_status := InProgress, tk_updated_at := ct_claimed_at claim\<rparr>)) db = db"
    by (cases db) (simp add: update_where_none)
  moreover have "count_where (claimable db claim) (tasks db) = 0" using none by (simp add: count_where_0_iff)
  ultimately show ?thesis
    using assms(2) by (simp add: compare_and_set_claim_def claim_rejection_def)
qed

text \<open>
  Property C3. A task has one owner at a time: from a successful claim until that claim is
  released, on every later database, a claim of the same task by any agent is refused as already
  claimed and changes nothing, and the owning agent's claims of other tasks never succeed.
\<close>

theorem claims_exclude_each_other:
  assumes ok: "store_ok db" and first: "compare_and_set_claim claim db = Inr (Claimed i a, db1)"
    and later: "extends db1 db2" "store_ok db2"
    and held: "find_claim db2 i = Some held" "cl_released_at held = None"
  shows "(ct_run_id other = ct_run_id claim \<and> ct_task_id other = ct_task_id claim
        \<and> agent_exists db2 (ct_run_id other) (ct_agent_id other)
      \<longrightarrow> compare_and_set_claim other db2 = Inr (ClaimRejected AlreadyClaimed, db2))
    \<and> (ct_run_id other = ct_run_id claim \<and> ct_agent_id other = ct_agent_id claim
      \<longrightarrow> (\<nexists>j b db3. compare_and_set_claim other db2 = Inr (Claimed j b, db3)))"
proof -
  have ok1: "store_ok db1" using safeD [OF safe_compare_and_set_claim first ok] by simp
  from compare_and_set_claim_Inr [OF first] obtain g where db1: "db1 = claimed_db claim i g db"
    by auto
  then have "claimed_row claim i \<in> set (claims db1)" by (simp add: claimed_db_def)
  with later(1) obtain c where c: "c \<in> set (claims db2)" "claim_later (claimed_row claim i) c"
    unfolding extends_def grows_def by blast
  have held': "held \<in> set (claims db2)" "cl_id held = i"
    using held(1) by (auto simp: find_claim_def dest: find_Some_in)
  have "distinct (map cl_id (claims db2))" using later(2) by (simp add: store_ok_def keys_ok_def)
  then have "c = held" using held' c by (auto simp: distinct_map inj_on_def claim_later_def)
  then have row: "cl_run_id held = ct_run_id claim" "cl_task_id held = ct_task_id claim"
    "cl_agent_id held = ct_agent_id claim" using c(2) by (simp_all add: claim_later_def)
  then have active: "has_active_claim db2 (ct_run_id claim) (ct_task_id claim)"
    using held' held(2) by (auto simp: has_active_claim_def)
  have own: "owned db2" "refs_ok db2" using later(2) by (simp_all add: store_ok_def)
  then obtain x where x: "x \<in> set (assignments db2)" "as_claim_id x = i"
    using held' held(2) unfolding owned_def by blast
  with own held' held(2) row have "as_completed_at x = None" "as_agent_id x = ct_agent_id claim"
    "as_task_id x = ct_task_id claim" unfolding owned_def by auto
  moreover have "task_exists db2 (ct_run_id claim) (ct_task_id claim)"
    using own(2) held' row unfolding refs_ok_def by metis
  then obtain t where t: "t \<in> set (tasks db2)" "tk_run_id t = ct_run_id claim" "tk_id t = ct_task_id claim"
    by (auto simp: task_exists_def)
  ultimately have "as_run_id x = ct_run_id claim"
    using assignment_of_task_run [OF _ own(2) t(1) x(1)] later(2) by (simp add: store_ok_def)
  then have busy: "agent_busy db2 (ct_run_id claim) (ct_agent_id claim)"
    using x \<open>as_completed_at x = None\<close> \<open>as_agent_id x = ct_agent_id claim\<close> by (auto simp: agent_busy_def)
  show ?thesis
  proof (intro conjI impI notI)
    assume "ct_run_id other = ct_run_id claim \<and> ct_task_id other = ct_task_id claim
        \<and> agent_exists db2 (ct_run_id other) (ct_agent_id other)"
    then show "compare_and_set_claim other db2 = Inr (ClaimRejected AlreadyClaimed, db2)"
      using active by (metis claim_refused_when_claimed)
  next
    assume same: "ct_run_id other = ct_run_id claim \<and> ct_agent_id other = ct_agent_id claim"
    assume "\<exists>j b db3. compare_and_set_claim other db2 = Inr (Claimed j b, db3)"
    then obtain j b db3 where run: "compare_and_set_claim other db2 = Inr (Claimed j b, db3)" by blast
    from compare_and_set_claim_Inr [OF run] same busy show False by (auto simp: claimable_def)
  qed
qed

theorem claims_exclude_each_other_witness:
  "compare_and_set_claim (sample_claim 2 1 2) (claimed_db (sample_claim 1 1 1) 1 0 sample_busy)
   = Inr (ClaimRejected AlreadyClaimed, claimed_db (sample_claim 1 1 1) 1 0 sample_busy)"
proof -
  let ?db = "claimed_db (sample_claim 1 1 1) 1 0 sample_busy"
  have "store_ok ?db"
    using safeD [OF safe_compare_and_set_claim sample_claim_runs store_ok_sample_busy] by simp
  moreover have "find_claim ?db 1 = Some (claimed_row (sample_claim 1 1 1) 1)"
    by (simp add: find_claim_def claimed_db_def sample_busy_def)
  moreover have "agent_exists ?db (RunId 1) (AgentId 2)"
    by (simp add: agent_exists_def claimed_db_def sample_busy_def)
  ultimately show ?thesis
    using claims_exclude_each_other [OF store_ok_sample_busy sample_claim_runs extends_refl,
      of "claimed_row (sample_claim 1 1 1) 1" "sample_claim 2 1 2"] by simp
qed

subsection \<open>The claim mutation\<close>

fun rejection_as_str :: "ClaimRejection \<Rightarrow> string" where
  "rejection_as_str TaskNotFound = ''task_not_found''"
| "rejection_as_str TaskNotOpen = ''task_not_open''"
| "rejection_as_str Blocked = ''blocked''"
| "rejection_as_str AlreadyClaimed = ''already_claimed''"
| "rejection_as_str AgentNotFound = ''agent_not_found''"
| "rejection_as_str AgentBusy = ''agent_busy''"

text \<open>The \<open>Serialize\<close> and \<open>Deserialize\<close> that the serde attributes of \<open>ClaimTaskResult\<close> derive.\<close>

fun claim_result_json :: "ClaimTaskResult \<Rightarrow> json" where
  "claim_result_json (Claimed i a) =
     JObj [(''reason'', JObj [(''assignment_id'', assignment_json a), (''claim_id'', JInt i)]),
           (''status'', JStr ''claimed'')]"
| "claim_result_json (ClaimRejected r) =
     JObj [(''reason'', JStr (rejection_as_str r)), (''status'', JStr ''rejected'')]"

definition claim_rejection_of_json :: "json \<Rightarrow> ClaimRejection option" where
  "claim_rejection_of_json j =
     find (\<lambda>r. j = JStr (rejection_as_str r))
       [TaskNotFound, TaskNotOpen, Blocked, AlreadyClaimed, AgentNotFound, AgentBusy]"

definition claim_result_of_json :: "json \<Rightarrow> ClaimTaskResult option" where
  "claim_result_of_json j =
     (case (json_get ''status'' j, json_get ''reason'' j) of
        (Some (JStr s), Some content) \<Rightarrow>
          if s = ''claimed'' then
            (case (json_get ''claim_id'' content, json_get ''assignment_id'' content) of
               (Some (JInt i), Some (JId tag u)) \<Rightarrow>
                 if tag = ''ca'' then Some (Claimed i (AssignmentId u)) else None
             | _ \<Rightarrow> None)
          else if s = ''rejected'' then map_option ClaimRejected (claim_rejection_of_json content)
          else None
      | _ \<Rightarrow> None)"

lemma claim_result_roundtrip: "claim_result_of_json (claim_result_json r) = Some r"
proof (cases r)
  case (Claimed i a)
  then show ?thesis by (cases a) (simp add: claim_result_of_json_def assignment_json_def)
next
  case (ClaimRejected why)
  then show ?thesis by (cases why) (simp_all add: claim_result_of_json_def claim_rejection_of_json_def)
qed

definition append_task_claim_events :: "Env \<Rightarrow> ClaimTaskMutation \<Rightarrow> ClaimTaskResult \<Rightarrow> unit repo" where
  "append_task_claim_events e claim result =
     (case result of
        ClaimRejected _ \<Rightarrow> ret ()
      | Claimed i a \<Rightarrow>
          bind (gets (\<lambda>db. find_task db (ct_task_id claim))) (\<lambda>found.
          case found of
            None \<Rightarrow> fail (CorruptTaskState (ct_task_id claim))
          | Some task \<Rightarrow>
              bind (append_event e
                \<lparr>ne_run_id = ct_run_id claim, ne_kind = TaskLifecycleChanged,
                 ne_actor = mutation_actor e (ct_actor_agent_id claim),
                 ne_subject = task_text e (ct_task_id claim),
                 ne_project_id = Some (tk_project_id task), ne_agent_id = Some (ct_agent_id claim),
                 ne_task_id = Some (ct_task_id claim), ne_operation_id = Some (ct_operation_id claim),
                 ne_correlation_id = None, ne_causation_id = None,
                 ne_data = JObj [(''previous_status'', status_json Open),
                                 (''status'', status_json InProgress), (''transition'', JStr ''claim'')],
                 ne_summary = ''Task '' @ task_text e (ct_task_id claim)
                   @ '' changed from open to in_progress.'',
                 ne_created_at = ct_claimed_at claim\<rparr>) (\<lambda>task_event.
              bind (append_event e
                \<lparr>ne_run_id = ct_run_id claim, ne_kind = TaskClaimed,
                 ne_actor = mutation_actor e (ct_actor_agent_id claim),
                 ne_subject = task_text e (ct_task_id claim),
                 ne_project_id = Some (tk_project_id task), ne_agent_id = Some (ct_agent_id claim),
                 ne_task_id = Some (ct_task_id claim), ne_operation_id = Some (ct_operation_id claim),
                 ne_correlation_id = Some (ev_id task_event), ne_causation_id = Some (ev_id task_event),
                 ne_data = JObj [(''assignment_id'', assignment_json a), (''claim_id'', JInt i)],
                 ne_summary = ''Agent '' @ agent_text e (ct_agent_id claim) @ '' claimed task ''
                   @ task_text e (ct_task_id claim) @ ''.'',
                 ne_created_at = ct_claimed_at claim\<rparr>) (\<lambda>_.
              bind (gets (\<lambda>db. map_option ag_generation (find_agent db (ct_agent_id claim)))) (\<lambda>generation.
              bind (append_event e
                \<lparr>ne_run_id = ct_run_id claim, ne_kind = AssignmentCreated,
                 ne_actor = mutation_actor e (ct_actor_agent_id claim),
                 ne_subject = assignment_text e a,
                 ne_project_id = Some (tk_project_id task), ne_agent_id = Some (ct_agent_id claim),
                 ne_task_id = Some (ct_task_id claim), ne_operation_id = Some (ct_operation_id claim),
                 ne_correlation_id = Some (ev_id task_event), ne_causation_id = Some (ev_id task_event),
                 ne_data = JObj [(''claim_id'', JInt i), (''generation'', json_opt JInt generation),
                                 (''state'', JStr ''active'')],
                 ne_summary = ''Created assignment '' @ assignment_text e a @ ''.'',
                 ne_created_at = ct_claimed_at claim\<rparr>) (\<lambda>_.
              link_continuation e claim))))))"

lemma safe_append_task_claim_events [safe_intros]: "safe (append_task_claim_events e claim r)"
  unfolding append_task_claim_events_def by (cases r) (auto intro!: safe_intros)

definition claim_mutation :: "ClaimTaskMutation \<Rightarrow> Mutation" where
  "claim_mutation claim =
     \<lparr>mu_id = ct_operation_id claim, mu_run_id = ct_run_id claim, mu_kind = ''task.claim'',
      mu_actor_agent_id = ct_actor_agent_id claim,
      mu_request = JObj [(''agent_id'', agent_json (ct_agent_id claim)),
                         (''task_id'', task_json (ct_task_id claim))],
      mu_created_at = ct_claimed_at claim\<rparr>"

definition apply_claim :: "Env \<Rightarrow> ClaimTaskMutation \<Rightarrow> ClaimTaskResult repo" where
  "apply_claim e claim =
     bind (compare_and_set_claim claim) (\<lambda>r. seq (append_task_claim_events e claim r) (ret r))"

definition claim_task :: "Env \<Rightarrow> ClaimTaskMutation \<Rightarrow> ClaimTaskResult MutationOutcome repo" where
  "claim_task e claim =
     mutate claim_result_json claim_result_of_json (claim_mutation claim) (apply_claim e claim)"

interpretation claim_op: idempotent_mutation
  claim_result_json claim_result_of_json claim_mutation "apply_claim e" for e
  by unfold_locales (simp_all add: claim_result_roundtrip apply_claim_def claim_mutation_def safe_intros)

lemma claim_task_submit: "claim_task e claim = claim_op.submit e claim None"
  by (simp add: claim_task_def mutate_def)

lemma safe_claim_task [safe_intros]: "safe (claim_task e claim)"
  unfolding claim_task_submit by (rule claim_op.submit_safe)

end
