(* ===== verification/Transitions.thy ===== *)
theory Transitions
  imports Claims
begin

section \<open>Task transitions (src/src/state.rs)\<close>

text \<open>
  Every move of a task other than a claim: reopen, submit, close and cancel, with the release of
  the owner when the task was in progress, the acceptance rule for closing unintegrated work, the
  evidence an operator gives to override it, the events, and the idempotent mutation around them.
\<close>

subsection \<open>Operator evidence\<close>

text \<open>
  \<open>s.trim().is_empty()\<close> on UTF-8 bytes: every character is Unicode white space.
\<close>

definition ws1 :: "char \<Rightarrow> bool" where
  "ws1 a \<longleftrightarrow> (9 \<le> (of_char a :: nat) \<and> (of_char a :: nat) \<le> 13) \<or> (of_char a :: nat) = 32"

definition ws2 :: "char \<Rightarrow> char \<Rightarrow> bool" where
  "ws2 a b \<longleftrightarrow> (of_char a :: nat) = 194 \<and> (of_char b :: nat) \<in> {133, 160}"

definition ws3 :: "char \<Rightarrow> char \<Rightarrow> char \<Rightarrow> bool" where
  "ws3 a b c \<longleftrightarrow>
     (let x = (of_char a :: nat); y = (of_char b :: nat); z = (of_char c :: nat) in
      (x = 225 \<and> y = 154 \<and> z = 128)
      \<or> (x = 226 \<and> y = 128 \<and> ((128 \<le> z \<and> z \<le> 138) \<or> z \<in> {168, 169, 175}))
      \<or> (x = 226 \<and> y = 129 \<and> z = 159)
      \<or> (x = 227 \<and> y = 128 \<and> z = 128))"

fun is_blank :: "string \<Rightarrow> bool" where
  "is_blank [] = True"
| "is_blank [a] = ws1 a"
| "is_blank [a, b] = (if ws1 a then is_blank [b] else ws2 a b)"
| "is_blank (a # b # c # s) =
     (if ws1 a then is_blank (b # c # s) else if ws2 a b then is_blank (c # s)
      else ws3 a b c \<and> is_blank s)"

definition override_json :: "OperatorClosureOverride \<Rightarrow> json" where
  "override_json v =
     JObj [(''assignment_id'', assignment_json (ov_assignment_id v)),
           (''base_commit'', JStr (ov_base_commit v)),
           (''project_id'', project_json (ov_project_id v)),
           (''reason'', JStr (ov_reason v)),
           (''result_commit'', JStr (ov_result_commit v)),
           (''target_commit'', JStr (ov_target_commit v)),
           (''target_reference'', JStr (ov_target_reference v)),
           (''validation_summary'', JStr (ov_validation_summary v))]"

definition override_valid :: "Db \<Rightarrow> TaskTransitionMutation \<Rightarrow> TaskRecord \<Rightarrow> OperatorClosureOverride \<Rightarrow> bool" where
  "override_valid db m task v \<longleftrightarrow>
     tt_actor_agent_id m = None \<and> tt_transition m = Close \<and> tk_status task = Submitted
     \<and> ov_project_id v = tk_project_id task
     \<and> \<not> is_blank (ov_reason v) \<and> \<not> is_blank (ov_validation_summary v)
     \<and> (case latest_assignment_for_task db (tt_run_id m) (tk_id task) of
          None \<Rightarrow> False
        | Some a \<Rightarrow> as_id a = ov_assignment_id v \<and> as_state a = ''completed'')
     \<and> (case find_workspace db (ov_assignment_id v) of
          None \<Rightarrow> False
        | Some w \<Rightarrow> ws_run_id w = tt_run_id m \<and> ws_project_id w = tk_project_id task
            \<and> ws_kind w = ''worktree'' \<and> ws_target_commit w = None
            \<and> ws_base_commit w = Some (ov_base_commit v) \<and> ws_result_commit w = Some (ov_result_commit v))"

definition unintegrated :: "Db \<Rightarrow> TaskTransitionMutation \<Rightarrow> bool" where
  "unintegrated db m \<longleftrightarrow>
     (case latest_assignment_for_task db (tt_run_id m) (tt_task_id m) of
        None \<Rightarrow> False
      | Some a \<Rightarrow> (case find_workspace db (as_id a) of
            None \<Rightarrow> False
          | Some w \<Rightarrow> ws_kind w = ''worktree'' \<and> ws_target_commit w = None))"

definition acceptance_met :: "Db \<Rightarrow> TaskTransitionMutation \<Rightarrow> TaskRecord \<Rightarrow> bool" where
  "acceptance_met db m task \<longleftrightarrow>
     (case tt_operator_override m of
        Some v \<Rightarrow> override_valid db m task v
      | None \<Rightarrow> \<not> (tt_transition m = Close \<and> tk_status task = Submitted \<and> unintegrated db m))"

subsection \<open>Applying a transition\<close>

fun released_state :: "TaskTransition \<Rightarrow> string option" where
  "released_state Reopen = Some ''released''"
| "released_state Submit = Some ''completed''"
| "released_state Cancel = Some ''canceled''"
| "released_state Close = None"

definition held_assignment :: "TaskTransitionMutation \<Rightarrow> AssignmentRecord \<Rightarrow> bool" where
  "held_assignment m a \<longleftrightarrow>
     as_task_id a = tt_task_id m \<and> as_run_id a = tt_run_id m \<and> as_completed_at a = None"

definition held_claim :: "TaskTransitionMutation \<Rightarrow> ClaimRecord \<Rightarrow> bool" where
  "held_claim m c \<longleftrightarrow>
     cl_task_id c = tt_task_id m \<and> cl_run_id c = tt_run_id m \<and> cl_released_at c = None"

definition complete_assignment :: "TaskTransitionMutation \<Rightarrow> string \<Rightarrow> AssignmentRecord \<Rightarrow> AssignmentRecord" where
  "complete_assignment m state a =
     a\<lparr>as_state := state,
       as_summary := (case tt_summary m of None \<Rightarrow> as_summary a | Some s \<Rightarrow> Some s),
       as_completed_at := Some (tt_transitioned_at m)\<rparr>"

definition release_claim :: "TaskTransitionMutation \<Rightarrow> ClaimRecord \<Rightarrow> ClaimRecord" where
  "release_claim m c = c\<lparr>cl_state := ''released'', cl_released_at := Some (tt_transitioned_at m)\<rparr>"

definition release_task_ownership :: "TaskTransitionMutation \<Rightarrow> unit repo" where
  "release_task_ownership m =
     (case released_state (tt_transition m) of
        None \<Rightarrow> fail (CorruptTaskState (tt_task_id m))
      | Some state \<Rightarrow>
          bind (gets (\<lambda>db. count_where (held_assignment m) (assignments db))) (\<lambda>released_assignments.
          seq (modify (assignments_update (update_where (held_assignment m) (complete_assignment m state))))
          (bind (gets (\<lambda>db. count_where (held_claim m) (claims db))) (\<lambda>released_claims.
          seq (modify (claims_update (update_where (held_claim m) (release_claim m))))
              (require (released_assignments = 1 \<and> released_claims = 1)
                 (CorruptTaskState (tt_task_id m)))))))"

definition transition_result :: "TaskTransitionMutation \<Rightarrow> TaskRecord \<Rightarrow> json option" where
  "transition_result m task =
     (case tt_transition m of
        Reopen \<Rightarrow> None
      | Submit \<Rightarrow> tt_result m
      | Close \<Rightarrow> (case tt_result m of None \<Rightarrow> tk_result task | Some r \<Rightarrow> Some r)
      | Cancel \<Rightarrow> tk_result task)"

definition move_task :: "TaskTransitionMutation \<Rightarrow> TaskRecord \<Rightarrow> TaskStatus \<Rightarrow> Db \<Rightarrow> Db" where
  "move_task m task status =
     tasks_update (update_where (\<lambda>t. tk_id t = tt_task_id m \<and> tk_run_id t = tt_run_id m)
       (\<lambda>t. t\<lparr>tk_status := status, tk_result := transition_result m task,
              tk_updated_at := tt_transitioned_at m\<rparr>))"

definition apply_task_transition :: "TaskTransitionMutation \<Rightarrow> TaskTransitionResult repo" where
  "apply_task_transition m =
     bind (gets (\<lambda>db. find_task db (tt_task_id m))) (\<lambda>found.
     case (case found of None \<Rightarrow> None | Some t \<Rightarrow> if tk_run_id t = tt_run_id m then Some t else None) of
       None \<Rightarrow> ret (TransitionRejected TransitionTaskNotFound)
     | Some task \<Rightarrow>
         (case transition (tk_status task) (tt_transition m) of
            None \<Rightarrow> ret (TransitionRejected (InvalidStatus (tk_status task)))
          | Some status \<Rightarrow>
              bind (gets (\<lambda>db. acceptance_met db m task)) (\<lambda>accepted.
              if \<not> accepted then ret (TransitionRejected AcceptanceNotMet)
              else
                seq (if tk_status task = InProgress then release_task_ownership m else ret ())
                (seq (modify (move_task m task status))
                     (ret (Transitioned (tk_status task) status))))))"

subsection \<open>A transition is safe\<close>

definition released_db :: "TaskTransitionMutation \<Rightarrow> string \<Rightarrow> Db \<Rightarrow> Db" where
  "released_db m state db =
     claims_update (update_where (held_claim m) (release_claim m))
       (assignments_update (update_where (held_assignment m) (complete_assignment m state)) db)"

lemma release_task_ownership_run:
  "release_task_ownership m db = Inr (u, db') \<longleftrightarrow>
     (\<exists>state. released_state (tt_transition m) = Some state \<and> db' = released_db m state db
        \<and> count_where (held_assignment m) (assignments db) = 1
        \<and> count_where (held_claim m) (claims db) = 1)"
  by (auto simp: release_task_ownership_def released_db_def seq_Inr_iff split: option.splits)

lemma apply_task_transition_Inr:
  assumes "apply_task_transition m db = Inr (r, db')"
  shows "(db' = db \<and> (\<exists>why. r = TransitionRejected why))
    \<or> (\<exists>task status. find_task db (tt_task_id m) = Some task \<and> tk_run_id task = tt_run_id m
         \<and> transition (tk_status task) (tt_transition m) = Some status
         \<and> acceptance_met db m task \<and> r = Transitioned (tk_status task) status
         \<and> (if tk_status task = InProgress
            then (\<exists>state. released_state (tt_transition m) = Some state
                    \<and> db' = move_task m task status (released_db m state db))
            else db' = move_task m task status db))"
proof (cases "find_task db (tt_task_id m)")
  case None
  with assms show ?thesis by (auto simp: apply_task_transition_def)
next
  case (Some task)
  show ?thesis
  proof (cases "tk_run_id task = tt_run_id m")
    case False
    with assms Some show ?thesis by (auto simp: apply_task_transition_def)
  next
    case True
    show ?thesis
    proof (cases "transition (tk_status task) (tt_transition m)")
      case None
      with assms Some True show ?thesis by (auto simp: apply_task_transition_def)
    next
      case (Some status)
      with assms True \<open>find_task db (tt_task_id m) = Some task\<close> show ?thesis
        by (auto simp: apply_task_transition_def action_Inr release_task_ownership_run split: if_splits)
    qed
  qed
qed

lemma filter_update_where_leave:
  "(\<And>x. p x \<Longrightarrow> \<not> q (f x)) \<Longrightarrow> filter q (update_where p f rows) = filter (\<lambda>x. q x \<and> \<not> p x) rows"
  by (induction rows) (auto simp: update_where_def)

lemma distinct_map_filter_conj:
  "distinct (map k (filter q xs)) \<Longrightarrow> distinct (map k (filter (\<lambda>x. q x \<and> r x) xs))"
  using distinct_map_filter [of k "filter q xs" r] by (simp add: conj_commute)

lemma tasks_update_mem:
  "tasks_update (update_where p f) db = tasks_update (update_where (\<lambda>r. r \<in> set (tasks db) \<and> p r) f) db"
  by (cases db) (simp add: update_where_def)

lemma task_row_unique:
  assumes ok: "store_ok db" and t: "find_task db i = Some task" and u: "u \<in> set (tasks db)" "tk_id u = i"
  shows "u = task"
  using find_task_unique [of db u] assms by (simp add: store_ok_def)

lemma move_task_store_ok:
  assumes ok: "store_ok db" and t: "find_task db (tt_task_id m) = Some task"
    and s: "tk_status task \<noteq> InProgress" "status \<noteq> InProgress"
  shows "store_ok (move_task m task status db)"
  unfolding move_task_def
  by (subst tasks_update_mem, rule store_ok_tasks_update [OF ok])
    (use task_row_unique [OF ok t] s in auto)

lemma move_task_extends:
  assumes ok: "store_ok db" and t: "find_task db (tt_task_id m) = Some task"
    and s: "transition (tk_status task) a = Some status"
  shows "extends db (move_task m task status db)"
proof -
  have "tk_status task \<notin> {Closed, Canceled}" using s by (cases a) auto
  then show ?thesis
    unfolding move_task_def
    by (subst tasks_update_mem) (auto simp: extends_table task_later_def
        dest: task_row_unique [OF ok t] intro!: grows_update_where)
qed

lemma released_db_tables [simp]:
  "tasks (released_db m state db) = tasks db"
  "claims (released_db m state db) = update_where (held_claim m) (release_claim m) (claims db)"
  "assignments (released_db m state db)
     = update_where (held_assignment m) (complete_assignment m state) (assignments db)"
  by (simp_all add: released_db_def)

lemma released_row_simps [simp]:
  "cl_id (release_claim m c) = cl_id c" "cl_task_id (release_claim m c) = cl_task_id c"
  "cl_run_id (release_claim m c) = cl_run_id c" "cl_agent_id (release_claim m c) = cl_agent_id c"
  "cl_operation_id (release_claim m c) = cl_operation_id c"
  "cl_released_at (release_claim m c) = Some (tt_transitioned_at m)"
  "as_id (complete_assignment m s a) = as_id a" "as_run_id (complete_assignment m s a) = as_run_id a"
  "as_task_id (complete_assignment m s a) = as_task_id a"
  "as_agent_id (complete_assignment m s a) = as_agent_id a"
  "as_claim_id (complete_assignment m s a) = as_claim_id a"
  "as_completed_at (complete_assignment m s a) = Some (tt_transitioned_at m)"
  by (simp_all add: release_claim_def complete_assignment_def)

lemma released_move_store_ok:
  assumes ok: "store_ok db" and t: "find_task db (tt_task_id m) = Some task"
    and run: "tk_run_id task = tt_run_id m" and s: "status \<noteq> InProgress"
  shows "store_ok (move_task m task status (released_db m state db))"
proof -
  define db' where "db' = move_task m task status (released_db m state db)"
  have parts: "keys_ok db" "refs_ok db" "owned db" using ok by (auto simp: store_ok_def)
  have task: "task \<in> set (tasks db)" "tk_id task = tt_task_id m"
    using find_task_Some [OF t] by auto
  let ?fc = "release_claim m" and ?fa = "complete_assignment m state"
  let ?ft = "\<lambda>t. t\<lparr>tk_status := status, tk_result := transition_result m task,
      tk_updated_at := tt_transitioned_at m\<rparr>"
  let ?pt = "\<lambda>t. tk_id t = tt_task_id m \<and> tk_run_id t = tt_run_id m"
  have tabs: "claims db' = update_where (held_claim m) ?fc (claims db)"
    "assignments db' = update_where (held_assignment m) ?fa (assignments db)"
    "tasks db' = update_where ?pt ?ft (tasks db)"
    "agents db' = agents db" "dependencies db' = dependencies db"
    "runs db' = runs db" "sessions db' = sessions db" "operations db' = operations db"
    "workspaces db' = workspaces db"
    by (simp_all add: db'_def move_task_def released_db_def)
  have keys: "keys_ok db'"
    using parts(1) by (simp add: keys_ok_def tabs map_update_where filter_update_where_leave
        distinct_map_filter_conj)
  have "task_exists db' = task_exists db" "agent_exists db' = agent_exists db"
    "claim_exists db' = claim_exists db" "assignment_exists db' = assignment_exists db"
    by (simp_all add: fun_eq_iff task_exists_def agent_exists_def claim_exists_def assignment_exists_def
        tabs ex_update_where)
  then have refs: "refs_ok db'"
    using parts(2) by (simp add: refs_ok_def tabs all_update_where)
  have held: "held_assignment m a \<longleftrightarrow> held_claim m c"
    if "a \<in> set (assignments db)" "c \<in> set (claims db)" "as_claim_id a = cl_id c" for a c
  proof -
    have link: "as_task_id a = cl_task_id c" "as_completed_at a = None \<longleftrightarrow> cl_released_at c = None"
      using parts(3) that by (auto simp: owned_def)
    show ?thesis
    proof (cases "cl_task_id c = tt_task_id m")
      case True
      then have "cl_run_id c = tt_run_id m" "as_run_id a = tt_run_id m"
        using claim_of_task_run [OF parts(1,2) task(1) that(2)]
          assignment_of_task_run [OF parts(1,2) task(1) that(1)] task run link by simp_all
      with link show ?thesis by (simp add: held_assignment_def held_claim_def)
    next
      case False
      with link show ?thesis by (simp add: held_assignment_def held_claim_def)
    qed
  qed
  have own: "owned db'"
    unfolding owned_def
  proof (intro conjI)
    show "\<forall>u \<in> set (tasks db'). tk_status u = InProgress \<longleftrightarrow>
        (\<exists>c \<in> set (claims db'). cl_task_id c = tk_id u \<and> cl_released_at c = None)"
    proof
      fix u assume "u \<in> set (tasks db')"
      then obtain v where v: "v \<in> set (tasks db)" and u: "u = (if ?pt v then ?ft v else v)"
        by (auto simp: tabs set_update_where)
      show "tk_status u = InProgress \<longleftrightarrow>
          (\<exists>c \<in> set (claims db'). cl_task_id c = tk_id u \<and> cl_released_at c = None)"
      proof (cases "tk_id v = tt_task_id m")
        case True
        then have "v = task" using task_row_unique [OF ok t v] by simp
        with run True have u': "u = ?ft v" by (simp add: u)
        have "cl_released_at c \<noteq> None" if c: "c \<in> set (claims db')" "cl_task_id c = tk_id u" for c
        proof -
          obtain d where d: "d \<in> set (claims db)" "c = (if held_claim m d then ?fc d else d)"
            using c(1) by (auto simp: tabs set_update_where)
          with c(2) u' True have "cl_task_id d = tt_task_id m" by (auto split: if_splits)
          moreover from this have "cl_run_id d = tt_run_id m"
            using claim_of_task_run [OF parts(1,2) task(1) d(1)] task run by simp
          ultimately show ?thesis using d(2) by (cases "held_claim m d") (auto simp: held_claim_def)
        qed
        then show ?thesis using u' s by auto
      next
        case False
        then have "u = v" by (simp add: u)
        moreover have "(\<exists>c \<in> set (claims db'). cl_task_id c = tk_id v \<and> cl_released_at c = None)
            \<longleftrightarrow> (\<exists>c \<in> set (claims db). cl_task_id c = tk_id v \<and> cl_released_at c = None)"
          using False unfolding tabs by (intro ex_update_where) (auto simp: held_claim_def)
        ultimately show ?thesis using parts(3) v by (simp add: owned_def)
      qed
    qed
    show "\<forall>c \<in> set (claims db'). cl_released_at c = None \<longrightarrow>
        (\<exists>a \<in> set (assignments db'). as_claim_id a = cl_id c)"
    proof (intro ballI impI)
      fix c assume "c \<in> set (claims db')" "cl_released_at c = None"
      then have "c \<in> set (claims db)" by (auto simp: tabs set_update_where split: if_splits)
      then obtain a where "a \<in> set (assignments db)" "as_claim_id a = cl_id c"
        using parts(3) \<open>cl_released_at c = None\<close> by (auto simp: owned_def)
      then show "\<exists>a \<in> set (assignments db'). as_claim_id a = cl_id c"
        by (subst tabs, subst ex_update_where) auto
    qed
    show "\<forall>a \<in> set (assignments db'). \<forall>c \<in> set (claims db'). as_claim_id a = cl_id c \<longrightarrow>
        as_task_id a = cl_task_id c \<and> as_agent_id a = cl_agent_id c
        \<and> (as_completed_at a = None \<longleftrightarrow> cl_released_at c = None)"
    proof (intro ballI impI)
      fix a c assume "a \<in> set (assignments db')" "c \<in> set (claims db')" and eq: "as_claim_id a = cl_id c"
      then obtain x y where x: "x \<in> set (assignments db)" "a = (if held_assignment m x then ?fa x else x)"
        and y: "y \<in> set (claims db)" "c = (if held_claim m y then ?fc y else y)"
        by (auto simp: tabs set_update_where)
      then have same: "as_claim_id x = cl_id y" using eq by (auto split: if_splits)
      then have "as_task_id x = cl_task_id y \<and> as_agent_id x = cl_agent_id y
          \<and> (as_completed_at x = None \<longleftrightarrow> cl_released_at y = None)"
        using parts(3) x(1) y(1) by (simp add: owned_def)
      with x(2) y(2) held [OF x(1) y(1) same]
      show "as_task_id a = cl_task_id c \<and> as_agent_id a = cl_agent_id c
          \<and> (as_completed_at a = None \<longleftrightarrow> cl_released_at c = None)"
        by (cases "held_claim m y") auto
    qed
  qed
  have "log_ok db' \<and> shutdowns_ok db' \<and> inboxes_ok db' \<and> paths_ok db' \<and> deps_ok db'"
    using ok by (simp add: store_ok_def db'_def move_task_def released_db_def deps_ok_def map_update_where)
  with keys refs own show ?thesis by (simp add: store_ok_def db'_def)
qed

lemma released_extends: "extends db (released_db m state db)"
proof -
  have "grows claim_later (claims db) (claims (released_db m state db))"
    unfolding released_db_tables
    by (rule grows_update_where) (auto simp: claim_later_def held_claim_def)
  moreover have "grows assignment_later (assignments db) (assignments (released_db m state db))"
    unfolding released_db_tables
    by (rule grows_update_where) (auto simp: assignment_later_def held_assignment_def complete_assignment_def)
  ultimately show ?thesis by (simp add: extends_def released_db_def grows_refl)
qed

lemma released_move_extends:
  assumes ok: "store_ok db" and t: "find_task db (tt_task_id m) = Some task"
    and s: "transition (tk_status task) a = Some status"
  shows "extends db (move_task m task status (released_db m state db))"
proof -
  have "tasks (move_task m task status (released_db m state db)) = tasks (move_task m task status db)"
    by (simp add: move_task_def)
  then have "grows task_later (tasks db) (tasks (move_task m task status (released_db m state db)))"
    using move_task_extends [OF ok t s] by (simp add: extends_def)
  then show ?thesis
    using released_extends [of db m state] by (simp add: extends_def move_task_def)
qed

lemma safe_apply_task_transition [safe_intros]: "safe (apply_task_transition m)"
proof (rule safeI)
  fix db r db' assume ok: "store_ok db" and run: "apply_task_transition m db = Inr (r, db')"
  from apply_task_transition_Inr [OF run] show "store_ok db' \<and> extends db db'"
  proof (elim disjE exE conjE)
    fix task status
    assume t: "find_task db (tt_task_id m) = Some task" "tk_run_id task = tt_run_id m"
      and s: "transition (tk_status task) (tt_transition m) = Some status"
      and db': "if tk_status task = InProgress
            then (\<exists>state. released_state (tt_transition m) = Some state
                    \<and> db' = move_task m task status (released_db m state db))
            else db' = move_task m task status db"
    have s': "status \<noteq> InProgress" using transition_not_in_progress [OF s] .
    show ?thesis
    proof (cases "tk_status task = InProgress")
      case True
      with db' obtain state where "db' = move_task m task status (released_db m state db)" by auto
      then show ?thesis
        using released_move_store_ok [OF ok t s'] released_move_extends [OF ok t(1) s] by simp
    next
      case False
      with db' show ?thesis
        using move_task_store_ok [OF ok t(1) False s'] move_task_extends [OF ok t(1) s] by simp
    qed
  qed (use ok in simp_all)
qed

subsection \<open>What a transition does\<close>

lemma count_where_unique_row:
  assumes "distinct (map key rows)" "r \<in> set rows" "p r"
    and "\<And>x. x \<in> set rows \<Longrightarrow> p x \<Longrightarrow> key x = key r"
  shows "count_where p rows = 1"
proof -
  have "count_where p rows = count_where (\<lambda>x. x \<in> set rows \<and> p x) rows"
    unfolding count_where_def by (rule arg_cong [where f = length], rule filter_cong) simp_all
  also have "\<dots> = 1"
    by (rule count_where_unique [where key = key, OF assms(1,2)]) (blast intro: assms(2-4))+
  finally show ?thesis .
qed

lemma in_progress_counts:
  assumes ok: "store_ok db" and t: "find_task db (tt_task_id m) = Some task" "tk_run_id task = tt_run_id m"
    and s: "tk_status task = InProgress"
  shows "count_where (held_assignment m) (assignments db) = 1 \<and> count_where (held_claim m) (claims db) = 1"
proof -
  have task: "task \<in> set (tasks db)" "tk_id task = tt_task_id m" using find_task_Some [OF t(1)] by auto
  obtain c a where c: "c \<in> set (claims db)" "cl_task_id c = tk_id task" "cl_released_at c = None"
      "cl_run_id c = tk_run_id task"
    and a: "a \<in> set (assignments db)" "as_claim_id a = cl_id c" "as_completed_at a = None"
      "as_task_id a = tk_id task" "as_run_id a = tk_run_id task"
    using owned_in_progress [OF ok task(1) s] by metis
  have "count_where (held_assignment m) (assignments db) = 1"
  proof (rule count_where_unique_row [where key = as_id])
    show "distinct (map as_id (assignments db))" using ok by (simp add: store_ok_def keys_ok_def)
    show "held_assignment m a" using a task t by (simp add: held_assignment_def)
    have "x = a" if "x \<in> set (assignments db)" "held_assignment m x" for x
      using active_assignment_unique [OF ok a(1,3) that(1)] that(2) a task
      by (simp add: held_assignment_def)
    then show "as_id x = as_id a" if "x \<in> set (assignments db)" "held_assignment m x" for x
      using that by blast
  qed (fact a(1))
  moreover have "count_where (held_claim m) (claims db) = 1"
  proof (rule count_where_unique_row [where key = cl_id])
    show "distinct (map cl_id (claims db))" using ok by (simp add: store_ok_def keys_ok_def)
    show "held_claim m c" using c task t by (simp add: held_claim_def)
    have "x = c" if "x \<in> set (claims db)" "held_claim m x" for x
      using active_claim_unique [OF ok c(1,3) that(1)] that(2) c task by (simp add: held_claim_def)
    then show "cl_id x = cl_id c" if "x \<in> set (claims db)" "held_claim m x" for x
      using that by blast
  qed (fact c(1))
  ultimately show ?thesis by simp
qed

text \<open>The outcome as a function of the task, the action and the acceptance rule.\<close>

definition transition_outcome :: "Db \<Rightarrow> TaskTransitionMutation \<Rightarrow> TaskTransitionResult" where
  "transition_outcome db m =
     (case find (\<lambda>t. tk_id t = tt_task_id m \<and> tk_run_id t = tt_run_id m) (tasks db) of
        None \<Rightarrow> TransitionRejected TransitionTaskNotFound
      | Some task \<Rightarrow>
          (case transition (tk_status task) (tt_transition m) of
             None \<Rightarrow> TransitionRejected (InvalidStatus (tk_status task))
           | Some status \<Rightarrow> if acceptance_met db m task then Transitioned (tk_status task) status
               else TransitionRejected AcceptanceNotMet))"

lemma find_task_in_run:
  assumes ok: "store_ok db"
  shows "find (\<lambda>t. tk_id t = i \<and> tk_run_id t = run) (tasks db)
    = (case find_task db i of None \<Rightarrow> None | Some t \<Rightarrow> if tk_run_id t = run then Some t else None)"
proof (cases "find (\<lambda>t. tk_id t = i \<and> tk_run_id t = run) (tasks db)")
  case None
  then have "\<And>t. find_task db i = Some t \<Longrightarrow> tk_run_id t \<noteq> run"
    using find_task_Some by (fastforce simp: find_None_all)
  with None show ?thesis by (auto split: option.split)
next
  case (Some t)
  then have t: "t \<in> set (tasks db)" "tk_id t = i" "tk_run_id t = run" by (auto dest: find_Some_in)
  moreover have "find_task db i = Some t"
    using find_task_unique [of db t] ok t by (simp add: store_ok_def)
  ultimately show ?thesis using Some by simp
qed

lemma released_state_in_progress:
  "transition InProgress a = Some status \<Longrightarrow> \<exists>state. released_state a = Some state"
  by (cases a) auto

lemma apply_task_transition_total:
  assumes ok: "store_ok db"
  shows "\<exists>db'. apply_task_transition m db = Inr (transition_outcome db m, db')"
proof (cases "find_task db (tt_task_id m)")
  case None
  then show ?thesis by (simp add: apply_task_transition_def transition_outcome_def find_task_in_run [OF ok])
next
  case (Some task)
  note found = this
  show ?thesis
  proof (cases "tk_run_id task = tt_run_id m")
    case False
    with found show ?thesis
      by (simp add: apply_task_transition_def transition_outcome_def find_task_in_run [OF ok])
  next
    case True
    note run = this
    show ?thesis
    proof (cases "transition (tk_status task) (tt_transition m)")
      case None
      with found run show ?thesis
        by (simp add: apply_task_transition_def transition_outcome_def find_task_in_run [OF ok])
    next
      case (Some status)
      have "\<exists>db'. (if tk_status task = InProgress then release_task_ownership m else ret ()) db = Inr ((), db')"
      proof (cases "tk_status task = InProgress")
        case True
        then obtain state where "released_state (tt_transition m) = Some state"
          using released_state_in_progress Some by auto
        with in_progress_counts [OF ok found run True] True show ?thesis
          using release_task_ownership_run [of m db "()" "released_db m state db"] by auto
      qed simp
      with Some found run show ?thesis
        by (auto simp: apply_task_transition_def transition_outcome_def find_task_in_run [OF ok]
            seq_def bind_run)
    qed
  qed
qed

text \<open>
  Property C5. On a database that satisfies the invariants, a transition always returns - the
  checks for a corrupt task state never fire - and its outcome is the one of the lifecycle table
  and the acceptance rule. A refusal changes nothing. A success moves exactly the task, and when
  the task was in progress it ends the ownership: the task has no active claim and no active
  assignment left.
\<close>

theorem transition_follows_the_lifecycle:
  assumes ok: "store_ok db"
  shows "\<exists>db'. apply_task_transition m db = Inr (transition_outcome db m, db')
    \<and> store_ok db' \<and> extends db db'
    \<and> (\<forall>why. transition_outcome db m = TransitionRejected why \<longrightarrow> db' = db)
    \<and> (\<forall>old new. transition_outcome db m = Transitioned old new \<longrightarrow>
         map tk_status (tasks db')
           = map (\<lambda>t. if tk_id t = tt_task_id m then new else tk_status t) (tasks db)
         \<and> \<not> has_active_claim db' (tt_run_id m) (tt_task_id m)
         \<and> active_assignment_for_task db' (tt_run_id m) (tt_task_id m) = None)"
proof -
  from apply_task_transition_total [OF ok] obtain db' where
    run: "apply_task_transition m db = Inr (transition_outcome db m, db')" ..
  from safeD [OF safe_apply_task_transition run ok] have safe: "store_ok db'" "extends db db'" by auto
  have "(\<forall>why. transition_outcome db m = TransitionRejected why \<longrightarrow> db' = db)
    \<and> (\<forall>old new. transition_outcome db m = Transitioned old new \<longrightarrow>
         map tk_status (tasks db')
           = map (\<lambda>t. if tk_id t = tt_task_id m then new else tk_status t) (tasks db)
         \<and> \<not> has_active_claim db' (tt_run_id m) (tt_task_id m)
         \<and> active_assignment_for_task db' (tt_run_id m) (tt_task_id m) = None)"
    using apply_task_transition_Inr [OF run]
  proof (elim disjE exE conjE)
    fix why assume "db' = db" "transition_outcome db m = TransitionRejected why"
    then show ?thesis by simp
  next
    fix task status
    assume t: "find_task db (tt_task_id m) = Some task" "tk_run_id task = tt_run_id m"
      and s: "transition (tk_status task) (tt_transition m) = Some status"
      and out: "transition_outcome db m = Transitioned (tk_status task) status"
      and db': "if tk_status task = InProgress
            then (\<exists>state. released_state (tt_transition m) = Some state
                    \<and> db' = move_task m task status (released_db m state db))
            else db' = move_task m task status db"
    have tasks': "tasks db' = update_where (\<lambda>t. tk_id t = tt_task_id m \<and> tk_run_id t = tt_run_id m)
       (\<lambda>t. t\<lparr>tk_status := status, tk_result := transition_result m task,
              tk_updated_at := tt_transitioned_at m\<rparr>) (tasks db)"
      using db' by (auto simp: move_task_def split: if_splits)
    have same_run: "tk_run_id u = tt_run_id m" if "u \<in> set (tasks db)" "tk_id u = tt_task_id m" for u
      using task_row_unique [OF ok t(1) that] t(2) by simp
    have statuses: "map tk_status (tasks db')
        = map (\<lambda>t. if tk_id t = tt_task_id m then status else tk_status t) (tasks db)"
      using same_run by (auto simp: tasks' update_where_def)
    have task: "task \<in> set (tasks db)" "tk_id task = tt_task_id m" using find_task_Some [OF t(1)] by auto
    define u where "u = task\<lparr>tk_status := status, tk_result := transition_result m task,
      tk_updated_at := tt_transitioned_at m\<rparr>"
    have u: "u \<in> set (tasks db')" "tk_id u = tt_task_id m" "tk_status u = status"
      using task t(2) by (auto simp: tasks' set_update_where u_def intro!: image_eqI [of _ _ task])
    have "status \<noteq> InProgress" using transition_not_in_progress [OF s] .
    then have free: "\<And>c. c \<in> set (claims db') \<Longrightarrow> cl_task_id c = tt_task_id m \<Longrightarrow> cl_released_at c \<noteq> None"
      using safe(1) u unfolding store_ok_def owned_def by metis
    then have claim: "\<not> has_active_claim db' (tt_run_id m) (tt_task_id m)"
      by (auto simp: has_active_claim_def)
    have "as_completed_at a \<noteq> None" if "a \<in> set (assignments db')" "as_task_id a = tt_task_id m" for a
      using active_assignment_claim [OF safe(1) that(1)] free that(2) by metis
    then have "active_assignment_for_task db' (tt_run_id m) (tt_task_id m) = None"
      by (auto simp: active_assignment_for_task_def find_None_all)
    with statuses claim out show ?thesis by simp
  qed
  with run safe show ?thesis by blast
qed

definition sample_transition :: "nat \<Rightarrow> nat \<Rightarrow> TaskTransition \<Rightarrow> TaskTransitionMutation" where
  "sample_transition i task a =
     \<lparr>tt_operation_id = OperationId i, tt_run_id = RunId 1, tt_actor_agent_id = None,
      tt_task_id = TaskId task, tt_transition = a, tt_result = None, tt_operator_override = None,
      tt_summary = None, tt_transitioned_at = 7\<rparr>"

lemma sample_transition_simps [simp]:
  "tt_operation_id (sample_transition i t a) = OperationId i" "tt_run_id (sample_transition i t a) = RunId 1"
  "tt_actor_agent_id (sample_transition i t a) = None" "tt_task_id (sample_transition i t a) = TaskId t"
  "tt_transition (sample_transition i t a) = a" "tt_result (sample_transition i t a) = None"
  "tt_operator_override (sample_transition i t a) = None" "tt_summary (sample_transition i t a) = None"
  by (simp_all add: sample_transition_def)

theorem transition_follows_the_lifecycle_witness:
  "\<exists>db'. apply_task_transition (sample_transition 1 1 Cancel) sample_db = Inr (Transitioned Open Canceled, db')
     \<and> map tk_status (tasks db') = [Canceled, Open, Open, Submitted]"
proof -
  have "transition_outcome sample_db (sample_transition 1 1 Cancel) = Transitioned Open Canceled"
    by (simp add: transition_outcome_def acceptance_met_def)
  then show ?thesis
    using transition_follows_the_lifecycle [OF store_ok_sample_db, of "sample_transition 1 1 Cancel"] by auto
qed

text \<open>
  Property C6. Unintegrated work is never closed silently: a task whose latest assignment has a
  worktree without an integration target closes only for the operator (no agent), with evidence
  that names that completed assignment, the recorded base and result commits of its worktree and
  a reason and a validation summary that are not blank.
\<close>

theorem closing_unintegrated_work_needs_operator_evidence:
  assumes run: "apply_task_transition m db = Inr (Transitioned old Closed, db')"
    and a: "latest_assignment_for_task db (tt_run_id m) (tt_task_id m) = Some a"
    and w: "find_workspace db (as_id a) = Some w" "ws_kind w = ''worktree''" "ws_target_commit w = None"
  shows "old = Submitted \<and> tt_transition m = Close \<and> tt_actor_agent_id m = None
    \<and> (\<exists>v. tt_operator_override m = Some v \<and> ov_assignment_id v = as_id a \<and> as_state a = ''completed''
         \<and> ws_base_commit w = Some (ov_base_commit v) \<and> ws_result_commit w = Some (ov_result_commit v)
         \<and> \<not> is_blank (ov_reason v) \<and> \<not> is_blank (ov_validation_summary v))"
proof -
  from apply_task_transition_Inr [OF run] obtain task where
    t: "find_task db (tt_task_id m) = Some task" "old = tk_status task"
    and s: "transition (tk_status task) (tt_transition m) = Some Closed"
    and accepted: "acceptance_met db m task"
    by auto
  have close: "tk_status task = Submitted" "tt_transition m = Close"
    using s by (auto elim: transition_SomeE)
  have "tk_id task = tt_task_id m" using find_task_Some [OF t(1)] by simp
  moreover have "unintegrated db m" using a w by (simp add: unintegrated_def)
  ultimately obtain v where "tt_operator_override m = Some v" "override_valid db m task v"
    using accepted close by (auto simp: acceptance_met_def split: option.splits)
  with a w close t(2) \<open>tk_id task = tt_task_id m\<close> show ?thesis
    by (auto simp: override_valid_def split: option.splits)
qed

definition sample_evidence :: OperatorClosureOverride where
  "sample_evidence =
     \<lparr>ov_assignment_id = AssignmentId 9, ov_project_id = ProjectId 1, ov_base_commit = ''b'',
      ov_result_commit = ''r'', ov_target_reference = ''main'', ov_target_commit = ''t'',
      ov_reason = ''merged by hand'', ov_validation_summary = ''tests pass''\<rparr>"

definition sample_workspace :: WorkspaceRecord where
  "sample_workspace =
     \<lparr>ws_assignment_id = AssignmentId 9, ws_generation = 0, ws_run_id = RunId 1,
      ws_project_id = ProjectId 1, ws_kind = ''worktree'', ws_path = ''/w'', ws_state = RObserved,
      ws_base_commit = Some ''b'', ws_result_commit = Some ''r'', ws_target_commit = None,
      ws_created_at = 1, ws_reconciled_at = None\<rparr>"

definition sample_assignment :: AssignmentRecord where
  "sample_assignment =
     \<lparr>as_id = AssignmentId 9, as_run_id = RunId 1, as_task_id = TaskId 4, as_agent_id = AgentId 1,
      as_session_id = None, as_claim_id = 1, as_generation = 0, as_state = ''completed'',
      as_summary = None, as_created_at = 1, as_completed_at = Some 2\<rparr>"

text \<open>The submitted task with its completed assignment and an unintegrated worktree.\<close>

definition sample_submitted :: Db where
  "sample_submitted = sample_db\<lparr>assignments := [sample_assignment], workspaces := [sample_workspace]\<rparr>"

theorem closing_unintegrated_work_needs_operator_evidence_witness:
  "\<exists>v. tt_operator_override (sample_transition 1 4 Close\<lparr>tt_operator_override := Some sample_evidence\<rparr>) = Some v
     \<and> ws_result_commit sample_workspace = Some (ov_result_commit v)"
proof -
  let ?m = "sample_transition 1 4 Close\<lparr>tt_operator_override := Some sample_evidence\<rparr>"
  have a: "latest_assignment_for_task sample_submitted (RunId 1) (TaskId 4) = Some sample_assignment"
    by (simp add: latest_assignment_for_task_def sample_submitted_def sample_assignment_def last_by_def)
  have w: "find_workspace sample_submitted (AssignmentId 9) = Some sample_workspace"
    by (simp add: find_workspace_def sample_submitted_def sample_workspace_def)
  have t: "find_task sample_submitted (TaskId 4) = Some (sample_task 4 Submitted)"
    by (simp add: find_task_def sample_submitted_def)
  have blank: "\<not> is_blank ''merged by hand''" "\<not> is_blank ''tests pass''"
    by (simp_all add: ws1_def ws2_def ws3_def)
  have "acceptance_met sample_submitted ?m (sample_task 4 Submitted)"
    using a w blank by (simp add: acceptance_met_def override_valid_def sample_evidence_def
        sample_assignment_def sample_workspace_def)
  then have "apply_task_transition ?m sample_submitted
      = Inr (Transitioned Submitted Closed, move_task ?m (sample_task 4 Submitted) Closed sample_submitted)"
    using t by (simp add: apply_task_transition_def seq_def)
  from closing_unintegrated_work_needs_operator_evidence [OF this _ _ _ _, of sample_assignment sample_workspace] a w
  show ?thesis by (simp add: sample_assignment_def sample_workspace_def)
qed

subsection \<open>The transition mutation\<close>

text \<open>\<open>result.get_or_insert_with(|| json!({}))["operator_override"] = evidence\<close>.\<close>

definition with_evidence :: "TaskTransitionMutation \<Rightarrow> TaskTransitionMutation option" where
  "with_evidence m =
     (case tt_operator_override m of
        None \<Rightarrow> Some m
      | Some v \<Rightarrow>
          map_option (\<lambda>r. m\<lparr>tt_result := Some r\<rparr>)
            (json_set ''operator_override'' (override_json v)
               (case tt_result m of None \<Rightarrow> JObj [] | Some r \<Rightarrow> r)))"

definition transition_mutation :: "TaskTransitionMutation \<Rightarrow> Mutation" where
  "transition_mutation m =
     \<lparr>mu_id = tt_operation_id m, mu_run_id = tt_run_id m,
      mu_kind = ''task.'' @ transition_as_str (tt_transition m),
      mu_actor_agent_id = tt_actor_agent_id m,
      mu_request = JObj [(''result'', json_opt id (tt_result m)), (''summary'', json_opt JStr (tt_summary m)),
        (''task_id'', task_json (tt_task_id m)), (''transition'', JStr (transition_as_str (tt_transition m)))],
      mu_created_at = tt_transitioned_at m\<rparr>"

definition task_transition_event ::
    "Env \<Rightarrow> TaskTransitionMutation \<Rightarrow> TaskRecord \<Rightarrow> TaskStatus \<Rightarrow> TaskStatus \<Rightarrow> NewEvent" where
  "task_transition_event e m task old new =
     \<lparr>ne_run_id = tt_run_id m, ne_kind = TaskLifecycleChanged,
      ne_actor = mutation_actor e (tt_actor_agent_id m), ne_subject = task_text e (tt_task_id m),
      ne_project_id = Some (tk_project_id task), ne_agent_id = tt_actor_agent_id m,
      ne_task_id = Some (tt_task_id m), ne_operation_id = Some (tt_operation_id m),
      ne_correlation_id = None, ne_causation_id = None,
      ne_data = JObj ((case tt_operator_override m of None \<Rightarrow> []
                         | Some v \<Rightarrow> [(''operator_override'', override_json v)])
        @ [(''previous_status'', status_json old), (''status'', status_json new),
           (''transition'', JStr (transition_as_str (tt_transition m)))]),
      ne_summary = ''Task '' @ task_text e (tt_task_id m) @ '' changed from '' @ status_as_str old
        @ '' to '' @ status_as_str new @ ''.'',
      ne_created_at = tt_transitioned_at m\<rparr>"

definition assignment_completed_event ::
    "Env \<Rightarrow> TaskTransitionMutation \<Rightarrow> TaskRecord \<Rightarrow> AssignmentRecord \<Rightarrow> string \<Rightarrow> event_id \<Rightarrow> NewEvent" where
  "assignment_completed_event e m task a state cause =
     \<lparr>ne_run_id = tt_run_id m, ne_kind = AssignmentLifecycleChanged,
      ne_actor = mutation_actor e (tt_actor_agent_id m), ne_subject = assignment_text e (as_id a),
      ne_project_id = Some (tk_project_id task), ne_agent_id = Some (as_agent_id a),
      ne_task_id = Some (tt_task_id m), ne_operation_id = Some (tt_operation_id m),
      ne_correlation_id = Some cause, ne_causation_id = Some cause,
      ne_data = JObj [(''previous_state'', JStr (as_state a)), (''state'', JStr state)],
      ne_summary = ''Assignment '' @ assignment_text e (as_id a) @ '' changed to '' @ state @ ''.'',
      ne_created_at = tt_transitioned_at m\<rparr>"

definition claim_released_event ::
    "Env \<Rightarrow> TaskTransitionMutation \<Rightarrow> TaskRecord \<Rightarrow> ClaimRecord \<Rightarrow> event_id \<Rightarrow> NewEvent" where
  "claim_released_event e m task c cause =
     \<lparr>ne_run_id = tt_run_id m, ne_kind = ClaimReleased,
      ne_actor = mutation_actor e (tt_actor_agent_id m), ne_subject = task_text e (tt_task_id m),
      ne_project_id = Some (tk_project_id task), ne_agent_id = Some (cl_agent_id c),
      ne_task_id = Some (tt_task_id m), ne_operation_id = Some (tt_operation_id m),
      ne_correlation_id = Some cause, ne_causation_id = Some cause,
      ne_data = JObj [(''claim_id'', JInt (cl_id c))],
      ne_summary = ''Released the claim on task '' @ task_text e (tt_task_id m) @ ''.'',
      ne_created_at = tt_transitioned_at m\<rparr>"

text \<open>The closure given to \<open>mutate_with_fingerprint\<close>.\<close>

definition apply_transition :: "Env \<Rightarrow> TaskTransitionMutation \<Rightarrow> TaskTransitionResult repo" where
  "apply_transition e m =
     bind (gets (\<lambda>db. active_claim_for_task db (tt_run_id m) (tt_task_id m))) (\<lambda>active_claim.
     bind (gets (\<lambda>db. active_assignment_for_task db (tt_run_id m) (tt_task_id m))) (\<lambda>active_assignment.
     bind (apply_task_transition m) (\<lambda>result.
     case result of
       TransitionRejected _ \<Rightarrow> ret result
     | Transitioned old new \<Rightarrow>
         bind (gets (\<lambda>db. find_task db (tt_task_id m))) (\<lambda>found.
         case found of
           None \<Rightarrow> fail (CorruptTaskState (tt_task_id m))
         | Some task \<Rightarrow>
             bind (append_event e (task_transition_event e m task old new)) (\<lambda>task_event.
             if old \<noteq> InProgress then ret result
             else
               (case active_assignment of
                  None \<Rightarrow> fail (CorruptTaskState (tt_task_id m))
                | Some a \<Rightarrow>
                    (case active_claim of
                       None \<Rightarrow> fail (CorruptTaskState (tt_task_id m))
                     | Some c \<Rightarrow>
                         (case released_state (tt_transition m) of
                            None \<Rightarrow> fail Panic
                          | Some state \<Rightarrow>
                              bind (append_event e (assignment_completed_event e m task a state (ev_id task_event)))
                                (\<lambda>_. bind (append_event e (claim_released_event e m task c (ev_id task_event)))
                                (\<lambda>_. ret result))))))))))"

lemma safe_apply_transition [safe_intros]: "safe (apply_transition e m)"
  unfolding apply_transition_def
  by (intro safe_intros) (auto intro!: safe_intros split: TaskTransitionResult.split)

fun transition_result_json :: "TaskTransitionResult \<Rightarrow> json" where
  "transition_result_json (Transitioned old new) =
     JObj [(''reason'', JObj [(''previous_status'', status_json old), (''status'', status_json new)]),
           (''status'', JStr ''transitioned'')]"
| "transition_result_json (TransitionRejected TransitionTaskNotFound) =
     JObj [(''reason'', JStr ''task_not_found''), (''status'', JStr ''rejected'')]"
| "transition_result_json (TransitionRejected AcceptanceNotMet) =
     JObj [(''reason'', JStr ''acceptance_not_met''), (''status'', JStr ''rejected'')]"
| "transition_result_json (TransitionRejected (InvalidStatus s)) =
     JObj [(''reason'', JObj [(''invalid_status'', JObj [(''status'', status_json s)])]),
           (''status'', JStr ''rejected'')]"

definition status_of_json :: "json \<Rightarrow> TaskStatus option" where
  "status_of_json j =
     (case j of JStr s \<Rightarrow> (case parse_status s of Inl _ \<Rightarrow> None | Inr x \<Rightarrow> Some x) | _ \<Rightarrow> None)"

lemma status_of_json_print [simp]: "status_of_json (status_json s) = Some s"
  by (simp add: status_of_json_def status_json_def)

definition transition_rejection_of_json :: "json \<Rightarrow> TaskTransitionRejection option" where
  "transition_rejection_of_json j =
     (if j = JStr ''task_not_found'' then Some TransitionTaskNotFound
      else if j = JStr ''acceptance_not_met'' then Some AcceptanceNotMet
      else map_option InvalidStatus
        (Option.bind (json_path [''invalid_status'', ''status''] j) status_of_json))"

definition transition_result_of_json :: "json \<Rightarrow> TaskTransitionResult option" where
  "transition_result_of_json j =
     (case (json_get ''status'' j, json_get ''reason'' j) of
        (Some (JStr s), Some content) \<Rightarrow>
          if s = ''transitioned'' then
            Option.bind (Option.bind (json_get ''previous_status'' content) status_of_json) (\<lambda>old.
            Option.bind (Option.bind (json_get ''status'' content) status_of_json) (\<lambda>new.
            Some (Transitioned old new)))
          else if s = ''rejected'' then map_option TransitionRejected (transition_rejection_of_json content)
          else None
      | _ \<Rightarrow> None)"

lemma transition_result_roundtrip: "transition_result_of_json (transition_result_json r) = Some r"
proof (cases r)
  case (Transitioned old new)
  then show ?thesis by (simp add: transition_result_of_json_def)
next
  case (TransitionRejected why)
  then show ?thesis
    by (cases why) (simp_all add: transition_result_of_json_def transition_rejection_of_json_def)
qed

interpretation transition_op: idempotent_mutation
  transition_result_json transition_result_of_json transition_mutation "apply_transition e" for e
proof unfold_locales
  fix r show "transition_result_of_json (transition_result_json r) = Some r"
    by (rule transition_result_roundtrip)
next
  fix m show "safe (apply_transition e m)" by (rule safe_apply_transition)
next
  fix m show "mu_kind (transition_mutation m) \<noteq> ''run.stop''" by (simp add: transition_mutation_def)
qed

definition transition_task_with_fingerprint ::
    "Env \<Rightarrow> TaskTransitionMutation \<Rightarrow> string option \<Rightarrow> TaskTransitionResult MutationOutcome repo" where
  "transition_task_with_fingerprint e m fingerprint =
     (case with_evidence m of
        None \<Rightarrow> fail Panic
      | Some m' \<Rightarrow>
          mutate_with_fingerprint transition_result_json transition_result_of_json
            (transition_mutation m') fingerprint (apply_transition e m'))"

lemma safe_transition_task [safe_intros]: "safe (transition_task_with_fingerprint e m fp)"
  unfolding transition_task_with_fingerprint_def by (intro safe_intros transition_op.submit_safe)

end
