(* ===== verification/Sessions.thy ===== *)
theory Sessions
  imports Transitions
begin

section \<open>Sessions, generations and credentials (src/src/state.rs)\<close>

text \<open>
  Provider data and control are accepted only from the session that owns the agent's current
  generation in an active run and whose work was not recovered. This theory has that fence, the
  observations that are recorded behind it, and the credentials that follow the same ownership.
\<close>

subsection \<open>The fence\<close>

definition session_recovered :: "Db \<Rightarrow> run_id \<Rightarrow> session_id \<Rightarrow> bool" where
  "session_recovered db run session \<longleftrightarrow>
     exists_row (\<lambda>x. ev_run_id x = run \<and> ev_type x = ''task.recovered''
        \<and> json_path [''data'', ''session_id''] (ev_payload x) = Some (session_json session)) (events db)"

definition session_scope_is_current :: "Db \<Rightarrow> SessionScope \<Rightarrow> bool" where
  "session_scope_is_current db s \<longleftrightarrow>
     exists_row (\<lambda>x. se_id x = sc_session_id s \<and> se_run_id x = sc_run_id s
        \<and> se_agent_id x = sc_agent_id s \<and> se_generation x = sc_generation s
        \<and> exists_row (\<lambda>a. ag_id a = se_agent_id x \<and> ag_run_id a = se_run_id x
             \<and> ag_generation a = sc_generation s) (agents db)
        \<and> exists_row (\<lambda>r. rn_id r = se_run_id x \<and> rn_status r = ''active'') (runs db)) (sessions db)
     \<and> \<not> session_recovered db (sc_run_id s) (sc_session_id s)"

definition scope_row :: "SessionScope \<Rightarrow> SessionRecord \<Rightarrow> bool" where
  "scope_row s x \<longleftrightarrow>
     se_id x = sc_session_id s \<and> se_run_id x = sc_run_id s \<and> se_agent_id x = sc_agent_id s
     \<and> se_generation x = sc_generation s"

subsection \<open>Observations\<close>

definition record_session_launch_observation ::
    "SessionScope \<Rightarrow> string \<Rightarrow> int \<Rightarrow> SessionTransitionOutcome repo" where
  "record_session_launch_observation s provider_session at =
     bind (gets (\<lambda>db. find_session db (sc_session_id s))) (\<lambda>found.
     case found of None \<Rightarrow> ret SStale
     | Some x \<Rightarrow>
         bind (gets (\<lambda>db. session_scope_is_current db s)) (\<lambda>current.
         if \<not> current then ret SStale
         else if se_reconciliation_state x = RObserved \<and> se_provider_session_id x = Some provider_session
         then ret SUnchanged
         else
           seq (modify (sessions_update (update_where (scope_row s)
                  (\<lambda>r. r\<lparr>se_provider_session_id := Some provider_session,
                          se_reconciliation_state := RObserved, se_reconciled_at := Some at\<rparr>))))
               (ret SApplied)))"

definition record_session_reconciliation_state ::
    "SessionScope \<Rightarrow> ExternalResourceState \<Rightarrow> int \<Rightarrow> SessionTransitionOutcome repo" where
  "record_session_reconciliation_state s state at =
     bind (gets (\<lambda>db. find_session db (sc_session_id s))) (\<lambda>found.
     case found of None \<Rightarrow> ret SStale
     | Some x \<Rightarrow>
         bind (gets (\<lambda>db. session_scope_is_current db s)) (\<lambda>current.
         if \<not> current then ret SStale
         else if se_reconciliation_state x = state then ret SUnchanged
         else
           seq (modify (sessions_update (update_where (scope_row s)
                  (\<lambda>r. r\<lparr>se_reconciliation_state := state, se_reconciled_at := Some at\<rparr>))))
               (ret SApplied)))"

text \<open>
  \<open>UPDATE session_credentials SET revoked_at\<close>: the CHECK of the table rejects a revocation that
  precedes the creation, and with it the whole transaction.
\<close>

definition revoke_credentials :: "(SessionCredentialRecord \<Rightarrow> bool) \<Rightarrow> int \<Rightarrow> unit repo" where
  "revoke_credentials p at =
     bind (gets (\<lambda>db. list_all (\<lambda>c. p c \<longrightarrow> cr_created_at c \<le> at) (credentials db))) (\<lambda>check.
     seq (require check Database)
         (modify (credentials_update (update_where p (\<lambda>c. c\<lparr>cr_revoked_at := Some at\<rparr>)))))"

definition record_session_lifecycle ::
    "SessionScope \<Rightarrow> LifecycleState \<Rightarrow> int \<Rightarrow> SessionTransitionOutcome repo" where
  "record_session_lifecycle s observed at =
     bind (gets (\<lambda>db. find_session db (sc_session_id s))) (\<lambda>found.
     case found of None \<Rightarrow> ret SStale
     | Some x \<Rightarrow>
         bind (gets (\<lambda>db. session_scope_is_current db s)) (\<lambda>current.
         if \<not> current then ret SStale
         else
           bind (gets (\<lambda>db. find_agent db (sc_agent_id s))) (\<lambda>found_agent.
           case found_agent of None \<Rightarrow> ret SStale
           | Some a \<Rightarrow>
               if ag_run_id a \<noteq> sc_run_id s \<or> ag_generation a \<noteq> sc_generation s then ret SStale
               else if ag_state a \<noteq> se_state x then
                 fail (InconsistentSessionLifecycle (se_id x) (ag_id a))
               else if se_state x = observed then ret SUnchanged
               else if \<not> allows (se_state x) observed
                  \<and> \<not> (se_process_owner x = ForegroundOwned \<and> se_state x = Lost \<and> observed = Exited)
               then fail (InvalidSessionTransition (se_id x) (se_state x) observed)
               else
                 seq (modify (sessions_update (update_where (scope_row s)
                        (\<lambda>r. r\<lparr>se_state := observed,
                               se_ended_at := (if is_terminal observed then Some at else None)\<rparr>))))
                 (seq (modify (agents_update (update_where
                        (\<lambda>g. ag_id g = ag_id a \<and> ag_run_id g = sc_run_id s \<and> ag_generation g = sc_generation s)
                        (\<lambda>g. g\<lparr>ag_state := observed\<rparr>))))
                 (seq (if is_terminal observed
                       then revoke_credentials (\<lambda>c. cr_session_id c = se_id x \<and> cr_revoked_at c = None) at
                       else ret ())
                      (ret SApplied))))))"

subsection \<open>Credentials\<close>

definition credential_scope :: "SessionCredentialRecord \<Rightarrow> SessionScope" where
  "credential_scope c =
     \<lparr>sc_run_id = cr_run_id c, sc_agent_id = cr_agent_id c, sc_session_id = cr_session_id c,
      sc_generation = cr_generation c\<rparr>"

definition activate_session_credential :: "SessionCredentialRecord \<Rightarrow> unit repo" where
  "activate_session_credential c =
     seq (require (cr_revoked_at c = None) (CredentialAlreadyRevoked (cr_session_id c)))
     (bind (gets (\<lambda>db. session_scope_is_current db (credential_scope c))) (\<lambda>current.
      seq (require current (InconsistentSessionLifecycle (cr_session_id c) (cr_agent_id c)))
      (seq (revoke_credentials (\<lambda>x. cr_run_id x = cr_run_id c \<and> cr_agent_id x = cr_agent_id c
              \<and> cr_revoked_at x = None) (cr_created_at c))
           (insert_credential (c\<lparr>cr_revoked_at := None\<rparr>)))))"

definition replace_desired_session_credential :: "SessionCredentialRecord \<Rightarrow> unit repo" where
  "replace_desired_session_credential c =
     seq (require (cr_revoked_at c = None) (CredentialAlreadyRevoked (cr_session_id c)))
     (bind (gets (\<lambda>db. \<lambda>x. cr_session_id x = cr_session_id c \<and> cr_run_id x = cr_run_id c
             \<and> cr_agent_id x = cr_agent_id c \<and> cr_generation x = cr_generation c
             \<and> cr_revoked_at x = None
             \<and> exists_row (\<lambda>s. se_id s = cr_session_id x \<and> se_reconciliation_state s = RDesired)
                 (sessions db))) (\<lambda>p.
      bind (gets (\<lambda>db. count_where p (credentials db))) (\<lambda>updated.
      seq (modify (credentials_update (update_where p
             (\<lambda>x. x\<lparr>cr_token_verifier := cr_token_verifier c, cr_created_at := cr_created_at c\<rparr>))))
          (require (updated = 1) (InconsistentSessionLifecycle (cr_session_id c) (cr_agent_id c))))))"

definition active_session_credential ::
    "Db \<Rightarrow> run_id \<Rightarrow> agent_id \<Rightarrow> session_id \<Rightarrow> SessionCredentialRecord option" where
  "active_session_credential db run agent session =
     find (\<lambda>c. cr_run_id c = run \<and> cr_agent_id c = agent \<and> cr_session_id c = session
        \<and> cr_revoked_at c = None
        \<and> exists_row (\<lambda>s. se_run_id s = cr_run_id c \<and> se_agent_id s = cr_agent_id c
             \<and> se_id s = cr_session_id c \<and> se_generation s = cr_generation c \<and> se_ended_at s = None)
             (sessions db)
        \<and> exists_row (\<lambda>a. ag_run_id a = cr_run_id c \<and> ag_id a = cr_agent_id c
             \<and> ag_generation a = cr_generation c) (agents db)
        \<and> exists_row (\<lambda>r. rn_id r = cr_run_id c \<and> rn_status r = ''active'') (runs db))
       (credentials db)"

definition associate_assignment_session :: "assignment_id \<Rightarrow> session_id \<Rightarrow> unit repo" where
  "associate_assignment_session assignment session =
     bind (gets (\<lambda>db. case (find_assignment db assignment, find_session db session) of
        (Some a, Some s) \<Rightarrow>
          as_run_id a = se_run_id s \<and> as_agent_id a = se_agent_id s \<and> as_generation a = se_generation s
          \<and> \<not> is_terminal (se_state s)
          \<and> session_scope_is_current db
              \<lparr>sc_run_id = se_run_id s, sc_agent_id = se_agent_id s, sc_session_id = session,
               sc_generation = se_generation s\<rparr>
      | _ \<Rightarrow> False)) (\<lambda>valid.
     seq (require valid (CorruptAssignmentState assignment))
     (let free = (\<lambda>a. as_id a = assignment \<and> as_session_id a = None \<and> as_completed_at a = None) in
      bind (gets (\<lambda>db. count_where free (assignments db))) (\<lambda>changed.
      seq (modify (assignments_update (update_where free (\<lambda>a. a\<lparr>as_session_id := Some session\<rparr>))))
          (require (changed = 1) (CorruptAssignmentState assignment)))))"

subsection \<open>The process of a foreground session (src/src/state/foreground.rs)\<close>

definition foreground_identity :: "Db \<Rightarrow> run_id \<Rightarrow> session_id \<Rightarrow> ForegroundIdentity option" where
  "foreground_identity db run session =
     map_option fr_identity
       (find (\<lambda>r. fr_run_id r = run \<and> fr_session_id r = session) (foreground_identities db))"

definition process_text :: "nat \<Rightarrow> string" where
  "process_text p = ''process:'' @ show_nat p"

definition record_foreground_identity :: "SessionScope \<Rightarrow> ForegroundIdentity \<Rightarrow> SessionTransitionOutcome repo" where
  "record_foreground_identity s identity =
     bind (gets (\<lambda>db. session_scope_is_current db s
         \<and> (case find_session db (sc_session_id s) of None \<Rightarrow> False
            | Some x \<Rightarrow> se_process_owner x = ForegroundOwned
                \<and> se_provider_session_id x = Some (process_text (fi_process_id identity))))) (\<lambda>known.
     if \<not> known then ret SStale
     else bind (gets (\<lambda>db. foreground_identity db (sc_run_id s) (sc_session_id s))) (\<lambda>existing.
       case existing of
         Some i \<Rightarrow> if i = identity then ret SUnchanged else fail (CorruptAgentState (sc_agent_id s))
       | None \<Rightarrow>
           seq (insert_row identity_row_ok (\<lambda>r. foreground_identities_update (\<lambda>rows. rows @ [r]))
                  \<lparr>fr_run_id = sc_run_id s, fr_session_id = sc_session_id s, fr_identity = identity\<rparr>)
               (ret SApplied)))"

subsection \<open>Safety\<close>

lemma safe_record_foreground_identity [safe_intros]: "safe (record_foreground_identity s identity)"
  unfolding record_foreground_identity_def
  by (intro safe_intros safe_insert_row) (simp_all add: extends_table)

lemma safe_record_session_launch_observation [safe_intros]: "safe (record_session_launch_observation s p at)"
  unfolding record_session_launch_observation_def
  by (intro safe_intros safe_modify) (simp add: store_ok_sessions_update)

lemma safe_record_session_reconciliation_state [safe_intros]:
  "safe (record_session_reconciliation_state s state at)"
  unfolding record_session_reconciliation_state_def
  by (intro safe_intros safe_modify) (simp add: store_ok_sessions_update)

lemma safe_revoke_credentials:
  "(\<And>c. p c \<Longrightarrow> cr_revoked_at c = None) \<Longrightarrow> safe (revoke_credentials p at)"
  unfolding revoke_credentials_def
  by (intro safe_intros safe_modify)
    (auto simp: extends_table credential_later_def intro!: grows_update_where)

lemma safe_record_session_lifecycle [safe_intros]: "safe (record_session_lifecycle s observed at)"
  unfolding record_session_lifecycle_def
  by (intro safe_intros safe_modify safe_revoke_credentials)
    (auto simp: store_ok_sessions_update store_ok_agents_update extends_table agent_later_def
      intro!: grows_update_where)

lemma safe_activate_session_credential [safe_intros]: "safe (activate_session_credential c)"
  unfolding activate_session_credential_def
  by (intro safe_intros safe_revoke_credentials) simp

lemma safe_replace_desired_session_credential [safe_intros]: "safe (replace_desired_session_credential c)"
  unfolding replace_desired_session_credential_def
  by (rule safe_seq [OF safe_require safe_bind_gets])
    (auto simp: seq_Inr_iff extends_table credential_later_def intro!: grows_update_where)

lemma safe_associate_assignment_session [safe_intros]: "safe (associate_assignment_session a s)"
  unfolding associate_assignment_session_def Let_def
  by (intro safe_intros safe_modify)
    (auto simp: store_ok_assignments_update extends_table assignment_later_def intro!: grows_update_where)

subsection \<open>Fenced sessions stay fenced\<close>

definition fenced :: "Db \<Rightarrow> SessionScope \<Rightarrow> bool" where
  "fenced db s \<longleftrightarrow>
     exists_row (\<lambda>a. ag_id a = sc_agent_id s \<and> ag_run_id a = sc_run_id s
        \<and> sc_generation s < ag_generation a) (agents db)
     \<or> session_recovered db (sc_run_id s) (sc_session_id s)"

lemma fenced_later:
  assumes "fenced db s" "extends db db'"
  shows "fenced db' s"
  using assms(1) unfolding fenced_def
proof (elim disjE)
  assume "exists_row (\<lambda>a. ag_id a = sc_agent_id s \<and> ag_run_id a = sc_run_id s
      \<and> sc_generation s < ag_generation a) (agents db)"
  then obtain a where a: "a \<in> set (agents db)" "ag_id a = sc_agent_id s" "ag_run_id a = sc_run_id s"
    "sc_generation s < ag_generation a" by auto
  with assms(2) obtain b where "b \<in> set (agents db')" "agent_later a b"
    unfolding extends_def grows_def by blast
  with a show "exists_row (\<lambda>a. ag_id a = sc_agent_id s \<and> ag_run_id a = sc_run_id s
      \<and> sc_generation s < ag_generation a) (agents db') \<or> session_recovered db' (sc_run_id s) (sc_session_id s)"
    by (auto simp: agent_later_def)
next
  assume "session_recovered db (sc_run_id s) (sc_session_id s)"
  moreover have "set (events db) \<subseteq> set (events db')"
    using assms(2) by (simp add: extends_def set_mono_prefix)
  ultimately have "session_recovered db' (sc_run_id s) (sc_session_id s)"
    by (auto simp: session_recovered_def)
  then show "exists_row (\<lambda>a. ag_id a = sc_agent_id s \<and> ag_run_id a = sc_run_id s
      \<and> sc_generation s < ag_generation a) (agents db') \<or> session_recovered db' (sc_run_id s) (sc_session_id s)"
    by simp
qed

lemma fenced_not_current:
  assumes ok: "store_ok db" and "fenced db s"
  shows "\<not> session_scope_is_current db s"
proof
  assume cur: "session_scope_is_current db s"
  with assms(2) obtain a where a: "a \<in> set (agents db)" "ag_id a = sc_agent_id s"
      "sc_generation s < ag_generation a"
    by (auto simp: fenced_def session_scope_is_current_def)
  from cur obtain b where b: "b \<in> set (agents db)" "ag_id b = sc_agent_id s" "ag_generation b = sc_generation s"
    by (auto simp: session_scope_is_current_def)
  have "distinct (map ag_id (agents db))" using ok by (simp add: store_ok_def keys_ok_def)
  then have "b = a" using a b by (auto simp: distinct_map inj_on_def)
  with a b show False by simp
qed

lemma start_agent_generation_True:
  assumes "start_agent_generation run agent c n db = Inr (True, db')"
  shows "c < n \<and> (\<exists>a \<in> set (agents db'). ag_id a = agent \<and> ag_run_id a = run \<and> ag_generation a = n)"
proof -
  from assms obtain a where a: "find_agent db agent = Some a" "ag_run_id a = run" "ag_generation a = c" "c < n"
    and db': "db' = agents_update (update_where (\<lambda>x. ag_id x = agent \<and> ag_run_id x = run \<and> ag_generation x = c)
      (\<lambda>x. x\<lparr>ag_generation := n, ag_state := Starting\<rparr>)) db"
    by (auto simp: start_agent_generation_def Let_def split: option.splits if_splits)
  have "a \<in> set (agents db)" "ag_id a = agent" using find_agent_Some [OF a(1)] by auto
  then have "a\<lparr>ag_generation := n, ag_state := Starting\<rparr> \<in> set (agents db')"
    using a by (auto simp: db' set_update_where intro!: image_eqI [of _ _ a])
  then show ?thesis
    using a \<open>ag_id a = agent\<close>
    by (intro conjI bexI [of _ "a\<lparr>ag_generation := n, ag_state := Starting\<rparr>"]) simp_all
qed

text \<open>
  Property C16. A replaced session can never act again: once an agent starts a newer generation,
  every scope of an older generation is refused on all later databases - its launch observations,
  reconciliations and lifecycle reports are stale and change nothing, and no credential can be
  activated for it.
\<close>

theorem replaced_sessions_never_act_again:
  assumes ok: "store_ok db"
    and start: "start_agent_generation (sc_run_id s) (sc_agent_id s) c n db = Inr (True, db1)"
    and old: "sc_generation s \<le> c" and later: "extends db1 db2" "store_ok db2"
  shows "\<not> session_scope_is_current db2 s
    \<and> record_session_launch_observation s p at db2 = Inr (SStale, db2)
    \<and> record_session_reconciliation_state s state at db2 = Inr (SStale, db2)
    \<and> record_session_lifecycle s observed at db2 = Inr (SStale, db2)
    \<and> (credential_scope cred = s \<longrightarrow> (\<exists>e. activate_session_credential cred db2 = Inl e))"
proof -
  from start_agent_generation_True [OF start] old have "fenced db1 s"
    by (auto simp: fenced_def)
  then have "fenced db2 s" using later(1) by (rule fenced_later)
  with later(2) have cur: "\<not> session_scope_is_current db2 s" by (rule fenced_not_current)
  then show ?thesis
    by (auto simp: record_session_launch_observation_def record_session_reconciliation_state_def
        record_session_lifecycle_def activate_session_credential_def seq_def bind_run require_def
        split: option.split)
qed

definition sample_ended :: Db where
  "sample_ended = sample_db\<lparr>agents := [sample_agent 1\<lparr>ag_state := Exited\<rparr>, sample_agent 2]\<rparr>"

definition sample_scope :: SessionScope where
  "sample_scope = \<lparr>sc_run_id = RunId 1, sc_agent_id = AgentId 1, sc_session_id = SessionId 1, sc_generation = 0\<rparr>"

lemma store_ok_sample_ended: "store_ok sample_ended"
proof -
  have "sample_ended = agents_update (update_where (\<lambda>a. ag_id a = AgentId 1) (\<lambda>a. a\<lparr>ag_state := Exited\<rparr>)) sample_db"
    by (simp add: sample_ended_def sample_db_def update_where_def)
  then show ?thesis
    using store_ok_agents_update [OF store_ok_sample_db, of "\<lambda>a. ag_id a = AgentId 1"
        "\<lambda>a. a\<lparr>ag_state := Exited\<rparr>"] by simp
qed

theorem replaced_sessions_never_act_again_witness:
  "\<exists>db1. start_agent_generation (RunId 1) (AgentId 1) 0 1 sample_ended = Inr (True, db1)
     \<and> session_scope_is_current sample_db sample_scope
     \<and> record_session_lifecycle sample_scope Lost 9 db1 = Inr (SStale, db1)"
proof -
  have "\<exists>db1. start_agent_generation (RunId 1) (AgentId 1) 0 1 sample_ended = Inr (True, db1)"
    by (simp add: start_agent_generation_def sample_ended_def find_agent_def is_terminal_def Let_def
        count_where_def)
  then obtain db1 where start: "start_agent_generation (RunId 1) (AgentId 1) 0 1 sample_ended = Inr (True, db1)"
    by blast
  then have start': "start_agent_generation (sc_run_id sample_scope) (sc_agent_id sample_scope) 0 1 sample_ended
      = Inr (True, db1)"
    by (simp add: sample_scope_def)
  have "store_ok db1" using safeD [OF safe_start_agent_generation start store_ok_sample_ended] by simp
  moreover have "sc_generation sample_scope \<le> 0" by (simp add: sample_scope_def)
  ultimately have "record_session_lifecycle sample_scope Lost 9 db1 = Inr (SStale, db1)"
    using replaced_sessions_never_act_again [OF store_ok_sample_ended start' _ extends_refl] by simp
  moreover have "session_scope_is_current sample_db sample_scope"
    by (simp add: session_scope_is_current_def sample_scope_def sample_session_def sample_run_def
        session_recovered_def)
  ultimately show ?thesis using start by blast
qed

subsection \<open>What a lifecycle report does\<close>

lemma find_session_update:
  assumes "\<And>r. se_id (f r) = se_id r"
  shows "find_session (sessions_update (update_where p f) db) i
    = map_option (\<lambda>r. if p r then f r else r) (find_session db i)"
  using assms by (simp add: find_session_def find_update_where)

lemma revoke_credentials_Inr:
  "revoke_credentials p at db = Inr (u, db') \<longleftrightarrow>
     list_all (\<lambda>c. p c \<longrightarrow> cr_created_at c \<le> at) (credentials db)
     \<and> db' = credentials_update (update_where p (\<lambda>c. c\<lparr>cr_revoked_at := Some at\<rparr>)) db"
  by (auto simp: revoke_credentials_def seq_Inr_iff)

text \<open>
  A lifecycle report is applied only along the lifecycle of providers (or when the
  owner of a lost foreground process reports its exit), moves the session and its agent together,
  and ends the authority of a session that has ended: none of its credentials stays unrevoked.
  A stale or repeated report changes nothing.
\<close>

lemma lifecycle_reports_follow_the_lifecycle:
  assumes ok: "store_ok db" and run: "record_session_lifecycle s observed at db = Inr (out, db')"
  shows "(out \<noteq> SApplied \<longrightarrow> db' = db)
    \<and> (out = SApplied \<longrightarrow> (\<exists>x a. find_session db (sc_session_id s) = Some x
        \<and> find_agent db (sc_agent_id s) = Some a \<and> session_scope_is_current db s
        \<and> ag_state a = se_state x \<and> se_state x \<noteq> observed
        \<and> (allows (se_state x) observed
           \<or> se_process_owner x = ForegroundOwned \<and> se_state x = Lost \<and> observed = Exited)
        \<and> find_session db' (sc_session_id s) = Some (x\<lparr>se_state := observed,
             se_ended_at := (if is_terminal observed then Some at else None)\<rparr>)
        \<and> find_agent db' (sc_agent_id s) = Some (a\<lparr>ag_state := observed\<rparr>)
        \<and> (is_terminal observed \<longrightarrow> (\<forall>c \<in> set (credentials db').
             cr_session_id c = sc_session_id s \<longrightarrow> cr_revoked_at c \<noteq> None))))"
proof (cases "find_session db (sc_session_id s)")
  case None
  with run show ?thesis by (auto simp: record_session_lifecycle_def)
next
  case (Some x)
  have x: "x \<in> set (sessions db)" "se_id x = sc_session_id s" using find_session_Some [OF Some] by auto
  show ?thesis
  proof (cases "session_scope_is_current db s")
    case False
    with Some run show ?thesis by (auto simp: record_session_lifecycle_def)
  next
    case True
    then obtain y where y: "y \<in> set (sessions db)" "scope_row s y"
      by (auto simp: session_scope_is_current_def scope_row_def)
    have "find_session db (se_id y) = Some y"
      using find_session_unique [OF _ y(1)] ok by (simp add: store_ok_def)
    with y(2) Some have scope: "scope_row s x" by (simp add: scope_row_def)
    show ?thesis
    proof (cases "find_agent db (sc_agent_id s)")
      case None
      with Some True run show ?thesis by (auto simp: record_session_lifecycle_def)
    next
      case (Some a)
      have a: "ag_id a = sc_agent_id s" using find_agent_Some [OF Some] by simp
      show ?thesis
        using run \<open>find_session db (sc_session_id s) = Some x\<close> True Some scope x a
        by (auto simp: record_session_lifecycle_def action_Inr revoke_credentials_Inr find_session_def
            find_agent_def find_update_where set_update_where split: if_splits)
    qed
  qed
qed

lemma sample_scope_current: "session_scope_is_current sample_db sample_scope"
  by (simp add: session_scope_is_current_def sample_scope_def sample_session_def sample_run_def
      session_recovered_def)

text \<open>
  An agent has one live credential: activating a credential revokes every other
  credential of the agent, so that afterwards only the new one is unrevoked and no other one
  resolves; it is refused unless its scope is the current one.
\<close>

lemma activation_leaves_one_live_credential:
  assumes run: "activate_session_credential c db = Inr (u, db')"
  shows "session_scope_is_current db (credential_scope c)
    \<and> filter (\<lambda>x. cr_run_id x = cr_run_id c \<and> cr_agent_id x = cr_agent_id c \<and> cr_revoked_at x = None)
        (credentials db') = [c\<lparr>cr_revoked_at := None\<rparr>]
    \<and> (\<forall>session x. active_session_credential db' (cr_run_id c) (cr_agent_id c) session = Some x
         \<longrightarrow> session = cr_session_id c \<and> x = c\<lparr>cr_revoked_at := None\<rparr>)"
proof -
  let ?p = "\<lambda>x. cr_run_id x = cr_run_id c \<and> cr_agent_id x = cr_agent_id c \<and> cr_revoked_at x = None"
  let ?f = "\<lambda>x. x\<lparr>cr_revoked_at := Some (cr_created_at c)\<rparr>"
  from run have cur: "session_scope_is_current db (credential_scope c)"
    and creds: "credentials db' = update_where ?p ?f (credentials db) @ [c\<lparr>cr_revoked_at := None\<rparr>]"
    by (auto simp: activate_session_credential_def seq_Inr_iff revoke_credentials_Inr insert_credential_def
        insert_row_Inr)
  have "filter ?p (update_where ?p ?f (credentials db)) = []"
    by (auto simp: filter_empty_conv set_update_where)
  then have live: "filter ?p (credentials db') = [c\<lparr>cr_revoked_at := None\<rparr>]"
    by (simp add: creds)
  have only: "session = cr_session_id c \<and> x = c\<lparr>cr_revoked_at := None\<rparr>"
    if "active_session_credential db' (cr_run_id c) (cr_agent_id c) session = Some x" for session x
  proof -
    from that have x: "x \<in> set (credentials db')" "?p x" "cr_session_id x = session"
      unfolding active_session_credential_def by (blast dest: find_Some_in)+
    then have "x \<in> set (filter ?p (credentials db'))" by simp
    with live x(3) show ?thesis by auto
  qed
  show ?thesis using cur live only by blast
qed

definition sample_credential :: SessionCredentialRecord where
  "sample_credential =
     \<lparr>cr_session_id = SessionId 1, cr_run_id = RunId 1, cr_agent_id = AgentId 1, cr_generation = 0,
      cr_token_verifier = TokenVerifier ''v'', cr_created_at = 4, cr_revoked_at = None\<rparr>"

end
