(* ===== verification/Messages.thy ===== *)
theory Messages
  imports Sessions
begin

section \<open>Inboxes (src/src/state.rs, src/src/supervisor.rs)\<close>

text \<open>
  Messages are numbered per recipient and read after a cursor; an acknowledgement moves the
  recipient's cursor forward and is final. Reading after a cursor drops exactly the messages up
  to it, and acknowledged messages are always a prefix of the inbox.
\<close>

subsection \<open>Reading and numbering\<close>

definition next_message_sequence :: "Db \<Rightarrow> run_id \<Rightarrow> agent_id \<Rightarrow> int" where
  "next_message_sequence db run agent =
     max_or_zero (map ms_sequence
       (filter (\<lambda>m. ms_run_id m = run \<and> ms_recipient_agent_id m = agent) (messages db))) + 1"

definition messages_after :: "Db \<Rightarrow> run_id \<Rightarrow> agent_id \<Rightarrow> int \<Rightarrow> MessageRecord list" where
  "messages_after db run agent after =
     order_by ms_sequence (filter (\<lambda>m. ms_run_id m = run \<and> ms_recipient_agent_id m = agent
        \<and> after < ms_sequence m) (messages db))"

text \<open>The cursor that \<open>inbox\<close> of \<open>src/src/supervisor.rs\<close> hands to the reader.\<close>

definition next_cursor :: "int \<Rightarrow> MessageRecord list \<Rightarrow> int" where
  "next_cursor after ms = (if ms = [] then after else ms_sequence (last ms))"

subsection \<open>Acknowledging\<close>

definition acked_by :: "AcknowledgeMessagesMutation \<Rightarrow> MessageRecord \<Rightarrow> bool" where
  "acked_by k m \<longleftrightarrow>
     ms_run_id m = ak_run_id k \<and> ms_recipient_agent_id m = ak_agent_id k
     \<and> ms_sequence m \<le> ak_through k \<and> ms_acknowledged_at m = None"

definition apply_message_acknowledgement ::
    "AcknowledgeMessagesMutation \<Rightarrow> AcknowledgeMessagesResult repo" where
  "apply_message_acknowledgement k =
     bind (gets (\<lambda>db. max_or_zero (map ms_sequence (filter (\<lambda>m. ms_run_id m = ak_run_id k
             \<and> ms_recipient_agent_id m = ak_agent_id k) (messages db))))) (\<lambda>highest.
     if ak_through k \<le> 0 \<or> highest < ak_through k then ret (CursorNotFound highest)
     else
       bind (gets (\<lambda>db. max_or_zero (map ms_sequence (filter (\<lambda>m. ms_run_id m = ak_run_id k
             \<and> ms_recipient_agent_id m = ak_agent_id k \<and> ms_acknowledged_at m \<noteq> None) (messages db)))))
         (\<lambda>acknowledged_through.
       bind (gets (\<lambda>db. count_where (acked_by k) (messages db))) (\<lambda>acknowledged_count.
       bind (gets (\<lambda>db. list_all (\<lambda>m. acked_by k m \<longrightarrow>
             acknowledgement_allowed m (Some (ak_acknowledged_at k))) (messages db))) (\<lambda>allowed.
       seq (require allowed Database)
       (seq (modify (messages_update (update_where (acked_by k)
              (\<lambda>m. m\<lparr>ms_acknowledged_at := Some (ak_acknowledged_at k)\<rparr>))))
            (ret (Acknowledged (max acknowledged_through (ak_through k)) acknowledged_count)))))))"

subsection \<open>Facts about an inbox\<close>

lemma inbox_sequences:
  assumes "store_ok db"
  shows "map ms_sequence (inbox db run agent) = map int [1..<Suc (length (inbox db run agent))]"
  using assms by (simp add: store_ok_def inboxes_ok_def)

lemma inbox_acks:
  assumes "store_ok db" "m \<in> set (inbox db run agent)" "m' \<in> set (inbox db run agent)"
    and "ms_sequence m \<le> ms_sequence m'" "ms_acknowledged_at m' \<noteq> None"
  shows "ms_acknowledged_at m \<noteq> None"
  using assms unfolding store_ok_def inboxes_ok_def by blast

lemma next_message_sequence_inbox:
  assumes "store_ok db"
  shows "next_message_sequence db run agent = int (length (inbox db run agent)) + 1"
  using inbox_sequences [OF assms, of run agent]
  by (simp only: next_message_sequence_def flip: inbox_def) (simp only: max_or_zero_upto)

lemma upto_filter_drop:
  "map f xs = map int [Suc k..<Suc k + length xs] \<Longrightarrow> int k \<le> n \<Longrightarrow>
   filter (\<lambda>x. n < f x) xs = drop (nat n - k) xs"
proof (induction xs arbitrary: k)
  case Nil
  then show ?case by simp
next
  case (Cons x xs)
  have x: "f x = int (Suc k)" and xs: "map f xs = map int [Suc (Suc k)..<Suc (Suc k) + length xs]"
    using Cons.prems(1) by (simp_all add: upt_rec)
  show ?case
  proof (cases "int (Suc k) \<le> n")
    case True
    then have "nat n - k = Suc (nat n - Suc k)" by auto
    with Cons.IH [OF xs] x True show ?thesis by simp
  next
    case False
    then have "nat n = k" using Cons.prems(2) by auto
    moreover have "filter (\<lambda>x. n < f x) (x # xs) = x # xs"
    proof (rule filter_True, rule ballI)
      fix y assume "y \<in> set (x # xs)"
      then have "f y \<in> set (map f (x # xs))" unfolding set_map by (rule imageI)
      also have "map f (x # xs) = map int [Suc k..<Suc k + length (x # xs)]" by (rule Cons.prems(1))
      finally show "n < f y" using False by auto
    qed
    ultimately show ?thesis by simp
  qed
qed

lemma sorted_upto: "sorted (map int [1..<Suc n])"
  by (simp add: sorted_map del: upt_Suc)

text \<open>
  Reading after a cursor loses and repeats nothing: the messages after a cursor
  are the inbox with exactly that many messages dropped, in order; the cursor handed back counts
  the messages read, so the next read continues there.
\<close>

lemma inbox_reads_continue_at_the_cursor:
  assumes ok: "store_ok db" and after: "0 \<le> after"
  shows "messages_after db run agent after = drop (nat after) (inbox db run agent)
    \<and> (after \<le> int (length (inbox db run agent)) \<longrightarrow>
        next_cursor after (messages_after db run agent after) = int (length (inbox db run agent)))"
proof
  let ?box = "inbox db run agent"
  have seqs: "map ms_sequence ?box = map int [1..<Suc (length ?box)]" by (rule inbox_sequences [OF ok])
  have "sort_key ms_sequence ?box = ?box"
    by (rule sort_key_id_if_sorted) (simp only: seqs sorted_upto)
  moreover have "messages_after db run agent after
      = sort_key ms_sequence (filter (\<lambda>m. after < ms_sequence m) ?box)"
    by (simp add: messages_after_def inbox_def)
  ultimately have "messages_after db run agent after = filter (\<lambda>m. after < ms_sequence m) ?box"
    by (simp add: filter_sort [symmetric])
  also have "\<dots> = drop (nat after) ?box"
    using upto_filter_drop [of ms_sequence ?box 0 after] seqs after by simp
  finally show read: "messages_after db run agent after = drop (nat after) ?box" .
  show "after \<le> int (length ?box) \<longrightarrow>
      next_cursor after (messages_after db run agent after) = int (length ?box)"
  proof
    assume le: "after \<le> int (length ?box)"
    show "next_cursor after (messages_after db run agent after) = int (length ?box)"
    proof (cases "nat after = length ?box")
      case True
      with after show ?thesis by (simp add: read next_cursor_def)
    next
      case False
      with le after have lt: "nat after < length ?box" by simp
      then have "?box \<noteq> []" by auto
      then have "ms_sequence (last ?box) = last (map ms_sequence ?box)" by (simp add: last_map)
      also have "\<dots> = int (length ?box)"
        using \<open>?box \<noteq> []\<close> by (cases "length ?box") (simp_all add: seqs)
      finally show ?thesis using lt by (simp add: read next_cursor_def)
    qed
  qed
qed

definition sample_message :: "nat \<Rightarrow> int \<Rightarrow> MessageRecord" where
  "sample_message n q =
     \<lparr>ms_id = MessageId n, ms_run_id = RunId 1, ms_sender_agent_id = None,
      ms_recipient_agent_id = AgentId 1, ms_sequence = q, ms_body = ''hello'', ms_created_at = 3,
      ms_acknowledged_at = None\<rparr>"

definition sample_inbox :: Db where
  "sample_inbox = sample_db\<lparr>messages := [sample_message 1 1, sample_message 2 2, sample_message 3 3]\<rparr>"

lemma sample_inbox_box:
  "inbox sample_inbox run agent = (if run = RunId 1 \<and> agent = AgentId 1
     then [sample_message 1 1, sample_message 2 2, sample_message 3 3] else [])"
  by (simp add: inbox_def sample_inbox_def sample_message_def)

lemma store_ok_sample_inbox: "store_ok sample_inbox"
proof -
  have "inboxes_ok sample_inbox"
    by (simp add: inboxes_ok_def sample_inbox_box sample_message_def upt_rec)
  with store_ok_sample_db show ?thesis by (simp add: store_ok_def sample_inbox_def)
qed

subsection \<open>Acknowledging is monotone and exact\<close>

lemma apply_message_acknowledgement_Inr:
  assumes "apply_message_acknowledgement k db = Inr (r, db')"
  shows "(\<exists>n. r = CursorNotFound n \<and> db' = db)
    \<or> (\<exists>n c. r = Acknowledged n c \<and> 0 < ak_through k
        \<and> c = count_where (acked_by k) (messages db)
        \<and> (\<forall>m \<in> set (messages db). acked_by k m \<longrightarrow> acknowledgement_allowed m (Some (ak_acknowledged_at k)))
        \<and> db' = messages_update (update_where (acked_by k)
             (\<lambda>m. m\<lparr>ms_acknowledged_at := Some (ak_acknowledged_at k)\<rparr>)) db)"
  using assms by (auto simp: apply_message_acknowledgement_def seq_Inr_iff list_all_iff split: if_splits)

lemma inbox_update_acked:
  "inbox (messages_update (update_where (acked_by k) (\<lambda>m. m\<lparr>ms_acknowledged_at := Some at\<rparr>)) db) run agent
   = update_where (acked_by k) (\<lambda>m. m\<lparr>ms_acknowledged_at := Some at\<rparr>) (inbox db run agent)"
  by (simp add: inbox_def filter_update_where)

lemma safe_apply_message_acknowledgement [safe_intros]: "safe (apply_message_acknowledgement k)"
proof (rule safeI)
  fix db r db' assume ok: "store_ok db" and run: "apply_message_acknowledgement k db = Inr (r, db')"
  from apply_message_acknowledgement_Inr [OF run] show "store_ok db' \<and> extends db db'"
  proof (elim disjE exE conjE)
    let ?f = "\<lambda>m. m\<lparr>ms_acknowledged_at := Some (ak_acknowledged_at k)\<rparr>"
    assume db': "db' = messages_update (update_where (acked_by k) ?f) db"
    have "inboxes_ok db'"
      unfolding inboxes_ok_def
    proof (intro allI conjI ballI impI)
      fix run agent
      show "map ms_sequence (inbox db' run agent) = map int [1..<Suc (length (inbox db' run agent))]"
        using inbox_sequences [OF ok, of run agent] by (simp add: db' inbox_update_acked map_update_where)
    next
      fix run agent m m'
      assume m: "m \<in> set (inbox db' run agent)" and m': "m' \<in> set (inbox db' run agent)"
        and le: "ms_sequence m \<le> ms_sequence m' \<and> ms_acknowledged_at m' \<noteq> None"
      from m obtain x where x: "x \<in> set (inbox db run agent)" "m = (if acked_by k x then ?f x else x)"
        by (auto simp: db' inbox_update_acked set_update_where)
      from m' obtain y where y: "y \<in> set (inbox db run agent)" "m' = (if acked_by k y then ?f y else y)"
        by (auto simp: db' inbox_update_acked set_update_where)
      have seqs: "ms_sequence x \<le> ms_sequence y" using le x y by (auto split: if_splits)
      show "ms_acknowledged_at m \<noteq> None"
      proof (cases "ms_acknowledged_at y = None")
        case False
        then have "ms_acknowledged_at x \<noteq> None" using inbox_acks [OF ok x(1) y(1) seqs] by simp
        with x(2) show ?thesis by (auto split: if_splits)
      next
        case True
        then have "acked_by k y" using le y(2) by (auto split: if_splits)
        with seqs x(1) y(1) have "ms_acknowledged_at x = None \<longrightarrow> acked_by k x"
          by (auto simp: acked_by_def inbox_def)
        with x(2) show ?thesis by (auto split: if_splits)
      qed
    qed
    then have "store_ok db'" using ok by (simp add: store_ok_def db')
    moreover have "extends db db'"
      by (auto simp: db' extends_table message_later_def acked_by_def intro!: grows_update_where)
    ultimately show ?thesis by simp
  qed (use ok in simp_all)
qed

text \<open>
  Acknowledging is exact and final: with a cursor that exists, afterwards exactly
  the messages up to the larger of it and the previous cursor are acknowledged, messages that were
  acknowledged before keep their time, the count is the number of newly acknowledged ones, and the
  returned cursor never goes back; with a cursor that does not exist nothing changes.
\<close>

lemma acknowledgements_are_exact:
  assumes ok: "store_ok db" and run: "apply_message_acknowledgement k db = Inr (r, db')"
  shows "case r of
      CursorNotFound highest \<Rightarrow>
        db' = db \<and> highest = int (length (inbox db (ak_run_id k) (ak_agent_id k)))
        \<and> (ak_through k \<le> 0 \<or> highest < ak_through k)
    | Acknowledged through count \<Rightarrow>
        ak_through k \<le> through \<and> count = count_where (acked_by k) (messages db)
        \<and> (\<forall>m \<in> set (inbox db' (ak_run_id k) (ak_agent_id k)).
             ms_acknowledged_at m \<noteq> None \<longleftrightarrow> ms_sequence m \<le> through)
        \<and> (\<forall>m \<in> set (messages db). ms_acknowledged_at m \<noteq> None \<longrightarrow> m \<in> set (messages db'))"
proof -
  let ?box = "inbox db (ak_run_id k) (ak_agent_id k)"
  let ?f = "\<lambda>m. m\<lparr>ms_acknowledged_at := Some (ak_acknowledged_at k)\<rparr>"
  let ?acked = "filter (\<lambda>m. ms_run_id m = ak_run_id k \<and> ms_recipient_agent_id m = ak_agent_id k
      \<and> ms_acknowledged_at m \<noteq> None) (messages db)"
  have seqs: "map ms_sequence ?box = map int [1..<Suc (length ?box)]" by (rule inbox_sequences [OF ok])
  have highest: "max_or_zero (map ms_sequence (filter (\<lambda>m. ms_run_id m = ak_run_id k
      \<and> ms_recipient_agent_id m = ak_agent_id k) (messages db))) = int (length ?box)"
    using seqs by (simp only: flip: inbox_def) (simp only: max_or_zero_upto)
  show ?thesis
  proof (cases "ak_through k \<le> 0 \<or> int (length ?box) < ak_through k")
    case True
    with run have "r = CursorNotFound (int (length ?box))" "db' = db"
      by (auto simp: apply_message_acknowledgement_def highest)
    with True show ?thesis by simp
  next
    case False
    define before where "before = max_or_zero (map ms_sequence ?acked)"
    from run False have r: "r = Acknowledged (max before (ak_through k)) (count_where (acked_by k) (messages db))"
      and db': "db' = messages_update (update_where (acked_by k) ?f) db"
      by (auto simp: apply_message_acknowledgement_def highest before_def seq_Inr_iff)
    have acked: "?acked = filter (\<lambda>m. ms_acknowledged_at m \<noteq> None) ?box"
      by (simp add: inbox_def)
    have old: "ms_acknowledged_at m \<noteq> None \<longleftrightarrow> ms_sequence m \<le> before" if m: "m \<in> set ?box" for m
    proof
      assume "ms_acknowledged_at m \<noteq> None"
      then have "m \<in> set (filter (\<lambda>m. ms_acknowledged_at m \<noteq> None) ?box)" using m by simp
      then have "m \<in> set ?acked" by (simp only: acked)
      then show "ms_sequence m \<le> before" unfolding before_def by (intro max_or_zero_ge) auto
    next
      assume le: "ms_sequence m \<le> before"
      have "ms_sequence m \<in> set (map ms_sequence ?box)" using m by simp
      then have "0 < ms_sequence m" by (simp only: seqs) auto
      with le have "?acked \<noteq> []" by (auto simp: before_def)
      then have "before \<in> set (map ms_sequence ?acked)"
        unfolding before_def by (intro max_or_zero_in) simp
      then obtain m' where "m' \<in> set ?box" "ms_acknowledged_at m' \<noteq> None" "ms_sequence m' = before"
        unfolding acked by auto
      with le show "ms_acknowledged_at m \<noteq> None" using inbox_acks [OF ok m, of m'] by simp
    qed
    have new: "ms_acknowledged_at m \<noteq> None \<longleftrightarrow> ms_sequence m \<le> max before (ak_through k)"
      if "m \<in> set (inbox db' (ak_run_id k) (ak_agent_id k))" for m
    proof -
      from that obtain x where x: "x \<in> set ?box" "m = (if acked_by k x then ?f x else x)"
        by (auto simp: db' inbox_update_acked set_update_where)
      then have "ms_run_id x = ak_run_id k" "ms_recipient_agent_id x = ak_agent_id k" by (simp_all add: inbox_def)
      with old [OF x(1)] x(2) show ?thesis by (cases "acked_by k x") (auto simp: acked_by_def)
    qed
    have kept: "m \<in> set (messages db')" if "m \<in> set (messages db)" "ms_acknowledged_at m \<noteq> None" for m
      using that by (auto simp: db' set_update_where acked_by_def intro!: image_eqI [of _ _ m])
    show ?thesis using r new kept by simp
  qed
qed

definition sample_ack :: AcknowledgeMessagesMutation where
  "sample_ack = \<lparr>ak_operation_id = OperationId 8, ak_run_id = RunId 1, ak_agent_id = AgentId 1,
     ak_through = 2, ak_acknowledged_at = 6\<rparr>"

subsection \<open>The mutations\<close>

fun acknowledge_result_json :: "AcknowledgeMessagesResult \<Rightarrow> json" where
  "acknowledge_result_json (Acknowledged through count) =
     JObj [(''acknowledged_count'', JInt (int count)), (''acknowledged_through'', JInt through),
           (''status'', JStr ''acknowledged'')]"
| "acknowledge_result_json (CursorNotFound highest) =
     JObj [(''highest_cursor'', JInt highest), (''status'', JStr ''cursor_not_found'')]"

definition acknowledge_result_of_json :: "json \<Rightarrow> AcknowledgeMessagesResult option" where
  "acknowledge_result_of_json j =
     (case json_get ''status'' j of
        Some (JStr s) \<Rightarrow>
          if s = ''acknowledged'' then
            (case (json_get ''acknowledged_through'' j, json_get ''acknowledged_count'' j) of
               (Some (JInt through), Some (JInt count)) \<Rightarrow>
                 if 0 \<le> count then Some (Acknowledged through (nat count)) else None
             | _ \<Rightarrow> None)
          else if s = ''cursor_not_found'' then
            (case json_get ''highest_cursor'' j of
               Some (JInt highest) \<Rightarrow> Some (CursorNotFound highest) | _ \<Rightarrow> None)
          else None
      | _ \<Rightarrow> None)"

lemma acknowledge_result_roundtrip: "acknowledge_result_of_json (acknowledge_result_json r) = Some r"
  by (cases r) (simp_all add: acknowledge_result_of_json_def)

definition acknowledge_mutation :: "AcknowledgeMessagesMutation \<Rightarrow> Mutation" where
  "acknowledge_mutation k =
     \<lparr>mu_id = ak_operation_id k, mu_run_id = ak_run_id k, mu_kind = ''message.acknowledge'',
      mu_actor_agent_id = Some (ak_agent_id k),
      mu_request = JObj [(''agent_id'', agent_json (ak_agent_id k)), (''through'', JInt (ak_through k))],
      mu_created_at = ak_acknowledged_at k\<rparr>"

definition apply_acknowledgement :: "Env \<Rightarrow> AcknowledgeMessagesMutation \<Rightarrow> AcknowledgeMessagesResult repo" where
  "apply_acknowledgement e k =
     bind (apply_message_acknowledgement k) (\<lambda>result.
     case result of
       Acknowledged through count \<Rightarrow>
         if 0 < count then
           bind (append_event e
             \<lparr>ne_run_id = ak_run_id k, ne_kind = MessageAcknowledged,
              ne_actor = agent_text e (ak_agent_id k), ne_subject = agent_text e (ak_agent_id k),
              ne_project_id = None, ne_agent_id = Some (ak_agent_id k), ne_task_id = None,
              ne_operation_id = Some (ak_operation_id k), ne_correlation_id = None,
              ne_causation_id = None,
              ne_data = JObj [(''acknowledged_count'', JInt (int count)),
                              (''acknowledged_through'', JInt through)],
              ne_summary = ''Acknowledged '' @ show_nat count @ '' message(s) through cursor ''
                @ show_int through @ ''.'',
              ne_created_at = ak_acknowledged_at k\<rparr>) (\<lambda>_. ret result)
         else ret result
     | CursorNotFound _ \<Rightarrow> ret result)"

lemma safe_apply_acknowledgement [safe_intros]: "safe (apply_acknowledgement e k)"
  unfolding apply_acknowledgement_def
  by (intro safe_intros) (auto intro!: safe_intros split: AcknowledgeMessagesResult.split)

interpretation acknowledge_op: idempotent_mutation
  acknowledge_result_json acknowledge_result_of_json acknowledge_mutation "apply_acknowledgement e" for e
proof unfold_locales
  fix r show "acknowledge_result_of_json (acknowledge_result_json r) = Some r"
    by (rule acknowledge_result_roundtrip)
next
  fix k show "safe (apply_acknowledgement e k)" by (rule safe_apply_acknowledgement)
next
  fix k show "mu_kind (acknowledge_mutation k) \<noteq> ''run.stop''" by (simp add: acknowledge_mutation_def)
qed

definition acknowledge_messages ::
    "Env \<Rightarrow> AcknowledgeMessagesMutation \<Rightarrow> AcknowledgeMessagesResult MutationOutcome repo" where
  "acknowledge_messages e k =
     mutate acknowledge_result_json acknowledge_result_of_json (acknowledge_mutation k)
       (apply_acknowledgement e k)"

lemma safe_acknowledge_messages [safe_intros]: "safe (acknowledge_messages e k)"
  unfolding acknowledge_messages_def mutate_def by (rule acknowledge_op.submit_safe)

text \<open>The transaction of \<open>send_message\<close>, after the recipient is resolved and the sender authorized.\<close>

record SendMessage =
  sm_operation_id :: operation_id
  sm_run_id :: run_id
  sm_sender :: "agent_id option"
  sm_recipient :: agent_id
  sm_recipient_name :: string
  sm_message :: string
  sm_message_id :: message_id
  sm_now :: int

definition message_json :: "message_id \<Rightarrow> json" where
  "message_json i = JId ''cm'' (message_ulid i)"

definition message_text :: "Env \<Rightarrow> message_id \<Rightarrow> string" where
  "message_text e i = format_id (env_ulid e) ''cm'' (message_ulid i)"

definition message_intent_json :: "message_id \<times> int \<Rightarrow> json" where
  "message_intent_json x = JObj [(''message_id'', message_json (fst x)), (''sequence'', JInt (snd x))]"

definition message_intent_of_json :: "json \<Rightarrow> (message_id \<times> int) option" where
  "message_intent_of_json j =
     (case (json_get ''message_id'' j, json_get ''sequence'' j) of
        (Some (JId tag u), Some (JInt q)) \<Rightarrow> if tag = ''cm'' then Some (MessageId u, q) else None
      | _ \<Rightarrow> None)"

lemma message_intent_roundtrip: "message_intent_of_json (message_intent_json x) = Some x"
  by (cases x; cases "fst x") (simp add: message_intent_of_json_def message_intent_json_def message_json_def)

definition send_mutation :: "SendMessage \<Rightarrow> Mutation" where
  "send_mutation m =
     \<lparr>mu_id = sm_operation_id m, mu_run_id = sm_run_id m, mu_kind = ''message.send'',
      mu_actor_agent_id = sm_sender m,
      mu_request = JObj [(''message'', JStr (sm_message m)),
                         (''recipient_agent_id'', agent_json (sm_recipient m))],
      mu_created_at = sm_now m\<rparr>"

definition sent_row :: "SendMessage \<Rightarrow> int \<Rightarrow> MessageRecord" where
  "sent_row m q =
     \<lparr>ms_id = sm_message_id m, ms_run_id = sm_run_id m, ms_sender_agent_id = sm_sender m,
      ms_recipient_agent_id = sm_recipient m, ms_sequence = q, ms_body = sm_message m,
      ms_created_at = sm_now m, ms_acknowledged_at = None\<rparr>"

definition apply_send :: "Env \<Rightarrow> SendMessage \<Rightarrow> (message_id \<times> int) repo" where
  "apply_send e m =
     bind (gets (\<lambda>db. next_message_sequence db (sm_run_id m) (sm_recipient m))) (\<lambda>q.
     seq (insert_message (sent_row m q))
     (bind (append_event e
        \<lparr>ne_run_id = sm_run_id m, ne_kind = MessageSent, ne_actor = mutation_actor e (sm_sender m),
         ne_subject = message_text e (sm_message_id m), ne_project_id = None,
         ne_agent_id = Some (sm_recipient m), ne_task_id = None,
         ne_operation_id = Some (sm_operation_id m), ne_correlation_id = None, ne_causation_id = None,
         ne_data = JObj [(''recipient_agent_id'', agent_json (sm_recipient m)),
                         (''sender_agent_id'', json_opt agent_json (sm_sender m)),
                         (''sequence'', JInt q)],
         ne_summary = ''Persisted message '' @ message_text e (sm_message_id m) @ '' for ''
           @ sm_recipient_name m @ ''.'',
         ne_created_at = sm_now m\<rparr>) (\<lambda>_. ret (sm_message_id m, q))))"

lemma inbox_append:
  "inbox (messages_update (\<lambda>rows. rows @ [r]) db) run agent
    = inbox db run agent @ (if ms_run_id r = run \<and> ms_recipient_agent_id r = agent then [r] else [])"
  by (simp add: inbox_def)

lemma sent_row_simps [simp]:
  "ms_run_id (sent_row m q) = sm_run_id m" "ms_recipient_agent_id (sent_row m q) = sm_recipient m"
  "ms_sequence (sent_row m q) = q" "ms_acknowledged_at (sent_row m q) = None"
  by (simp_all add: sent_row_def)

lemma store_ok_send:
  assumes ok: "store_ok db" and q: "q = next_message_sequence db (sm_run_id m) (sm_recipient m)"
  shows "store_ok (messages_update (\<lambda>rows. rows @ [sent_row m q]) db)"
proof -
  let ?db = "messages_update (\<lambda>rows. rows @ [sent_row m q]) db"
  have "inboxes_ok ?db"
    unfolding inboxes_ok_def
  proof (intro allI conjI ballI impI)
    fix run agent
    show "map ms_sequence (inbox ?db run agent) = map int [1..<Suc (length (inbox ?db run agent))]"
      using inbox_sequences [OF ok, of run agent] next_message_sequence_inbox [OF ok, of run agent] q
      by (simp add: inbox_append)
  next
    fix run agent x y
    assume x: "x \<in> set (inbox ?db run agent)" and y: "y \<in> set (inbox ?db run agent)"
      and le: "ms_sequence x \<le> ms_sequence y \<and> ms_acknowledged_at y \<noteq> None"
    have y': "y \<in> set (inbox db run agent)" using y le by (auto simp: inbox_append split: if_splits)
    have "ms_sequence y \<in> set (map ms_sequence (inbox db run agent))" using y' by simp
    then have "ms_sequence y \<le> int (length (inbox db run agent))"
      by (simp only: inbox_sequences [OF ok]) auto
    then have "x \<noteq> sent_row m q \<or> run \<noteq> sm_run_id m \<or> agent \<noteq> sm_recipient m"
      using le next_message_sequence_inbox [OF ok, of run agent] q by auto
    then have "x \<in> set (inbox db run agent)" using x by (auto simp: inbox_append split: if_splits)
    then show "ms_acknowledged_at x \<noteq> None" using inbox_acks [OF ok _ y'] le by blast
  qed
  with ok show ?thesis by (simp add: store_ok_def)
qed

lemma safe_apply_send [safe_intros]: "safe (apply_send e m)"
proof (rule safeI)
  fix db r db' assume ok: "store_ok db" and run: "apply_send e m db = Inr (r, db')"
  define q where "q = next_message_sequence db (sm_run_id m) (sm_recipient m)"
  define db1 where "db1 = messages_update (\<lambda>rows. rows @ [sent_row m q]) db"
  from run obtain n ev where "append_event e n db1 = Inr (ev, db')"
    by (auto simp: apply_send_def action_Inr insert_message_def insert_row_Inr q_def db1_def)
  moreover have "store_ok db1" unfolding db1_def q_def by (rule store_ok_send [OF ok refl])
  moreover have "extends db db1" by (simp add: db1_def extends_table grows_append)
  ultimately show "store_ok db' \<and> extends db db'"
    using safeD [OF safe_append_event] extends_trans by blast
qed

interpretation send_op: idempotent_mutation
  message_intent_json message_intent_of_json send_mutation "apply_send e" for e
  by unfold_locales (simp_all add: message_intent_roundtrip safe_apply_send send_mutation_def)

definition send_message ::
    "Env \<Rightarrow> SendMessage \<Rightarrow> string option \<Rightarrow> (message_id \<times> int) MutationOutcome repo" where
  "send_message e m fingerprint =
     mutate_with_fingerprint message_intent_json message_intent_of_json (send_mutation m) fingerprint
       (apply_send e m)"

lemma safe_send_message [safe_intros]: "safe (send_message e m fp)"
  unfolding send_message_def by (rule send_op.submit_safe)

end
