(* ===== verification/Creation.thy ===== *)
theory Creation
  imports Messages
begin

section \<open>Creating tasks (src/src/supervisor.rs, create_task)\<close>

text \<open>
  The transaction of \<open>create_task\<close>: the dependencies must be tasks of the run, a named group is
  found or added, the task starts open, its edges follow, and an event records it. Edges are
  inserted nowhere else, so a task depends only on tasks that were stored before it.
\<close>

record CreateTask =
  nt_operation_id :: operation_id
  nt_run_id :: run_id
  nt_actor :: "agent_id option"
  nt_task_id :: task_id
  nt_project_id :: project_id
  nt_project_alias :: string
  nt_title :: string
  nt_description :: string
  nt_group :: "string option"
  nt_dependencies :: "task_id list"
  nt_now :: int

definition create_mutation :: "CreateTask \<Rightarrow> Mutation" where
  "create_mutation m =
     \<lparr>mu_id = nt_operation_id m, mu_run_id = nt_run_id m, mu_kind = ''task.create'',
      mu_actor_agent_id = nt_actor m,
      mu_request = JObj
        [(''dependencies'', JArr (map task_json (nt_dependencies m))),
         (''description'', JStr (nt_description m)), (''group'', json_opt JStr (nt_group m)),
         (''project'', JStr (nt_project_alias m)), (''title'', JStr (nt_title m))],
      mu_created_at = nt_now m\<rparr>"

definition created_task :: "CreateTask \<Rightarrow> int option \<Rightarrow> TaskRecord" where
  "created_task m g =
     \<lparr>tk_id = nt_task_id m, tk_run_id = nt_run_id m, tk_project_id = nt_project_id m,
      tk_group_id = g, tk_title = nt_title m, tk_description = nt_description m,
      tk_status = Open, tk_result = None, tk_created_at = nt_now m, tk_updated_at = nt_now m\<rparr>"

definition created_edge :: "CreateTask \<Rightarrow> task_id \<Rightarrow> DependencyRecord" where
  "created_edge m dependency =
     \<lparr>dp_run_id = nt_run_id m, dp_task_id = nt_task_id m, dp_dependency_task_id = dependency,
      dp_created_at = nt_now m\<rparr>"

definition require_dependency :: "run_id \<Rightarrow> task_id \<Rightarrow> unit repo" where
  "require_dependency run i =
     bind (gets (\<lambda>db. find_task db i)) (\<lambda>found.
     require (case found of None \<Rightarrow> False | Some t \<Rightarrow> tk_run_id t = run) (CorruptTaskState i))"

definition group_for :: "run_id \<Rightarrow> string option \<Rightarrow> int \<Rightarrow> int option repo" where
  "group_for run name now =
     (case name of None \<Rightarrow> ret None
      | Some n \<Rightarrow>
          bind (gets (\<lambda>db. task_group_by_name db run n)) (\<lambda>found.
          case found of
            Some g \<Rightarrow> ret (Some (tg_id g))
          | None \<Rightarrow> bind (insert_named_task_group run n now) (\<lambda>i. ret (Some i))))"

definition created_event :: "Env \<Rightarrow> CreateTask \<Rightarrow> NewEvent" where
  "created_event e m =
     \<lparr>ne_run_id = nt_run_id m, ne_kind = TaskCreated, ne_actor = mutation_actor e (nt_actor m),
      ne_subject = task_text e (nt_task_id m), ne_project_id = Some (nt_project_id m),
      ne_agent_id = nt_actor m, ne_task_id = Some (nt_task_id m),
      ne_operation_id = Some (nt_operation_id m), ne_correlation_id = None, ne_causation_id = None,
      ne_data = JObj [(''dependencies'', JArr (map task_json (nt_dependencies m))),
        (''group'', json_opt JStr (nt_group m)), (''status'', status_json Open),
        (''title'', JStr (nt_title m))],
      ne_summary = ''Created task '' @ task_text e (nt_task_id m) @ ''.'', ne_created_at = nt_now m\<rparr>"

definition apply_create :: "Env \<Rightarrow> CreateTask \<Rightarrow> task_id repo" where
  "apply_create e m =
     seq (for_each (require_dependency (nt_run_id m)) (nt_dependencies m))
     (bind (group_for (nt_run_id m) (nt_group m) (nt_now m)) (\<lambda>g.
      seq (insert_task (created_task m g))
      (seq (for_each (\<lambda>i. insert_dependency (created_edge m i)) (nt_dependencies m))
      (bind (append_event e (created_event e m)) (\<lambda>_.
       ret (nt_task_id m))))))"

definition task_id_of_json :: "json \<Rightarrow> task_id option" where
  "task_id_of_json j = (case j of JId tag u \<Rightarrow> if tag = ''ct'' then Some (TaskId u) else None | _ \<Rightarrow> None)"

lemma task_id_roundtrip: "task_id_of_json (task_json i) = Some i"
  by (cases i) (simp add: task_id_of_json_def task_json_def)

subsection \<open>Creation is safe\<close>

lemma keeps_for_each_in: "(\<And>x. x \<in> set xs \<Longrightarrow> keeps P (f x)) \<Longrightarrow> keeps P (for_each f xs)"
  by (induction xs) (auto intro: keeps_intros)

lemma keeps_insert_dependency:
  assumes "earlier ids (dp_dependency_task_id r) (dp_task_id r)"
  shows "keeps (\<lambda>db. history old db \<and> map tk_id (tasks db) = ids) (insert_dependency r)"
proof (rule keepsI)
  fix db a db' assume P: "history old db \<and> map tk_id (tasks db) = ids"
    and run: "insert_dependency r db = Inr (a, db')"
  from run have row: "dependency_row_ok db r" and db': "db' = dependencies_update (\<lambda>rows. rows @ [r]) db"
    by (auto simp: insert_dependency_def insert_row_Inr)
  have "refs_ok db'" using P row by (auto simp: db' history_def store_ok_def refs_ok_def dependency_row_ok_def)
  moreover have "deps_ok db'" using P assms by (auto simp: db' history_def store_ok_def deps_ok_def)
  moreover have "extends db db'" by (simp add: db')
  ultimately show "history old db' \<and> map tk_id (tasks db') = ids"
    using P extends_trans by (auto simp: db' history_def store_ok_def)
qed

lemma require_dependencies_Inr:
  "for_each (require_dependency run) ids db = Inr (u, db') \<longleftrightarrow>
     db' = db \<and> (\<forall>i \<in> set ids. \<exists>t. find_task db i = Some t \<and> tk_run_id t = run)"
  by (induction ids arbitrary: db)
    (auto simp: seq_Inr_iff require_dependency_def split: option.splits)

lemma safe_group_for [safe_intros]: "safe (group_for run name now)"
  unfolding group_for_def by (intro safe_intros)

lemma group_for_tasks: "keeps (\<lambda>db. tasks db = x \<and> dependencies db = y) (group_for run name now)"
  by (rule keepsI)
    (auto simp: group_for_def insert_named_task_group_def insert_task_group_def action_Inr insert_row_Inr
      split: option.splits)

lemma apply_createE:
  assumes "apply_create e m db = Inr (i, db')"
  obtains g db1 db2 db3 ev where "i = nt_task_id m"
    "\<forall>d \<in> set (nt_dependencies m). \<exists>t. find_task db d = Some t \<and> tk_run_id t = nt_run_id m"
    "group_for (nt_run_id m) (nt_group m) (nt_now m) db = Inr (g, db1)"
    "insert_task (created_task m g) db1 = Inr ((), db2)"
    "for_each (\<lambda>i. insert_dependency (created_edge m i)) (nt_dependencies m) db2 = Inr ((), db3)"
    "append_event e (created_event e m) db3 = Inr (ev, db')"
  using assms by (auto simp: apply_create_def action_Inr require_dependencies_Inr)

lemma safe_apply_create [safe_intros]: "safe (apply_create e m)"
proof (rule safeI)
  fix db i db' assume ok: "store_ok db" and run: "apply_create e m db = Inr (i, db')"
  from run obtain g db1 db2 db3 ev where
    deps: "\<forall>d \<in> set (nt_dependencies m). \<exists>t. find_task db d = Some t \<and> tk_run_id t = nt_run_id m"
    and g: "group_for (nt_run_id m) (nt_group m) (nt_now m) db = Inr (g, db1)"
    and t: "insert_task (created_task m g) db1 = Inr ((), db2)"
    and d: "for_each (\<lambda>i. insert_dependency (created_edge m i)) (nt_dependencies m) db2 = Inr ((), db3)"
    and ev: "append_event e (created_event e m) db3 = Inr (ev, db')"
    by (rule apply_createE)
  have s1: "store_ok db1 \<and> extends db db1" by (rule safeD [OF safe_group_for g ok])
  have "safe (insert_task (created_task m g))" by (rule safe_insert_task) (simp add: created_task_def)
  from safeD [OF this t] s1 have s2: "store_ok db2 \<and> extends db1 db2" by blast
  have tasks1: "tasks db1 = tasks db" using keepsD [OF group_for_tasks g] by simp
  have ids: "map tk_id (tasks db2) = map tk_id (tasks db) @ [nt_task_id m]"
    using t by (auto simp: insert_task_def insert_row_Inr tasks1 created_task_def)
  have "keeps (\<lambda>x. history db x \<and> map tk_id (tasks x) = map tk_id (tasks db) @ [nt_task_id m])
          (for_each (\<lambda>i. insert_dependency (created_edge m i)) (nt_dependencies m))"
  proof (intro keeps_for_each_in keeps_insert_dependency)
    fix x assume "x \<in> set (nt_dependencies m)"
    then have "x \<in> set (map tk_id (tasks db))" using deps by (force dest: find_task_Some)
    then show "earlier (map tk_id (tasks db) @ [nt_task_id m]) (dp_dependency_task_id (created_edge m x))
        (dp_task_id (created_edge m x))"
      by (simp add: created_edge_def earlier_last)
  qed
  from keepsD [OF this d] s1 s2 ids have "history db db3"
    by (auto simp: history_def intro: extends_trans)
  with safeD [OF safe_append_event ev] show "store_ok db' \<and> extends db db'"
    by (auto simp: history_def intro: extends_trans)
qed

interpretation create_op: idempotent_mutation task_json task_id_of_json create_mutation "apply_create e" for e
  by unfold_locales (simp_all add: task_id_roundtrip safe_apply_create create_mutation_def)

definition create_task :: "Env \<Rightarrow> CreateTask \<Rightarrow> string option \<Rightarrow> task_id MutationOutcome repo" where
  "create_task e m fingerprint =
     mutate_with_fingerprint task_json task_id_of_json (create_mutation m) fingerprint (apply_create e m)"

lemma safe_create_task [safe_intros]: "safe (create_task e m fp)"
  unfolding create_task_def by (rule create_op.submit_safe)

subsection \<open>Progress\<close>

lemma position_dependency:
  assumes "store_ok db" "d \<in> set (dependencies db)"
  shows "position (map tk_id (tasks db)) (dp_dependency_task_id d)
       < position (map tk_id (tasks db)) (dp_task_id d)"
  using assms by (intro earlier_position) (auto simp: store_ok_def keys_ok_def deps_ok_def)

lemma open_task_unclaimed:
  assumes "store_ok db" "t \<in> set (tasks db)" "tk_status t \<noteq> InProgress"
  shows "\<not> has_active_claim db (tk_run_id t) (tk_id t)"
  using assms by (auto simp: has_active_claim_def store_ok_def owned_def)

text \<open>
  Property C27. The queue cannot deadlock on its dependencies: if a run has an open task and all
  its tasks are open or closed, then some task is ready to be claimed.
\<close>

theorem open_work_never_deadlocks:
  assumes ok: "store_ok db" and work: "\<exists>t \<in> set (tasks db). tk_run_id t = run \<and> tk_status t = Open"
    and idle: "\<forall>t \<in> set (tasks db). tk_run_id t = run \<longrightarrow> tk_status t = Open \<or> tk_status t = Closed"
  shows "\<exists>t. t \<in> set (ready_tasks db run)"
proof -
  let ?pos = "\<lambda>t. position (map tk_id (tasks db)) (tk_id t)"
  let ?open = "\<lambda>t. t \<in> set (tasks db) \<and> tk_run_id t = run \<and> tk_status t = Open"
  from work obtain t where t: "?open t" and least: "\<And>u. ?open u \<Longrightarrow> ?pos t \<le> ?pos u"
    using ex_has_least_nat [of ?open _ ?pos] by blast
  have "\<not> is_blocked db (tk_run_id t) (tk_id t)"
  proof
    assume "is_blocked db (tk_run_id t) (tk_id t)"
    then obtain d u where d: "d \<in> set (dependencies db)" "dp_task_id d = tk_id t" "dp_run_id d = run"
      and u: "u \<in> set (tasks db)" "tk_id u = dp_dependency_task_id d" "tk_run_id u = dp_run_id d"
        "tk_status u \<noteq> Closed"
      using t by (auto simp: is_blocked_def edge_unresolved_def)
    then have "?open u" using idle by auto
    with least have "?pos t \<le> ?pos u" by blast
    moreover have "?pos u < ?pos t" using position_dependency [OF ok d(1)] d(2) u(2) by simp
    ultimately show False by simp
  qed
  moreover have "\<not> has_active_claim db (tk_run_id t) (tk_id t)"
    using open_task_unclaimed [OF ok] t by auto
  ultimately show ?thesis using t by (auto simp: ready_tasks_def)
qed

definition sample_queue :: Db where
  "sample_queue = tasks_update (\<lambda>_. [sample_task 1 Open, sample_task 2 Closed, sample_task 3 Open,
     sample_task 4 Closed]) sample_db"

lemma store_ok_sample_queue: "store_ok sample_queue"
proof -
  have "keys_ok sample_queue" "deps_ok sample_queue"
    using store_ok_sample_db by (simp_all add: store_ok_def keys_ok_def deps_ok_def sample_queue_def)
  moreover have "refs_ok sample_queue"
    by (simp add: refs_ok_def sample_queue_def task_exists_def sample_db_def empty_db_def)
  moreover have "owned sample_queue" by (simp add: owned_def sample_queue_def)
  ultimately show ?thesis using store_ok_sample_db by (simp add: store_ok_def sample_queue_def)
qed

lemma sample_queue_runs: "runs sample_queue = [sample_run]"
  by (simp add: sample_queue_def)

lemma sample_queue_stops:
  "\<exists>db'. stop_run (RunId 1) 9 sample_queue = Inr ((), db') \<and> map rn_status (runs db') = [''stopped'']"
  by (simp only: stop_run_def Let_def bind_simps seq_modify sample_queue_runs, simp add: sample_run_def)
    (simp add: update_where_def sample_queue_runs sample_run_def)

theorem open_work_never_deadlocks_witness: "\<exists>t. t \<in> set (ready_tasks sample_queue (RunId 1))"
  by (rule open_work_never_deadlocks [OF store_ok_sample_queue]) (simp_all add: sample_queue_def)

lemma insert_edges_Inr:
  assumes "for_each (\<lambda>i. insert_dependency (created_edge m i)) ds db = Inr (u, db')"
  shows "dependencies db' = dependencies db @ map (created_edge m) ds \<and> tasks db' = tasks db
    \<and> claims db' = claims db"
  using assms by (induction ds arbitrary: db) (auto simp: seq_Inr_iff insert_dependency_def insert_row_Inr)

lemma apply_create_tables:
  assumes "apply_create e m db = Inr (i, db')"
  shows "i = nt_task_id m \<and> nt_task_id m \<notin> tk_id ` set (tasks db)
    \<and> (\<exists>g. tasks db' = tasks db @ [created_task m g])
    \<and> dependencies db' = dependencies db @ map (created_edge m) (nt_dependencies m)"
proof -
  from assms obtain g db1 db2 db3 ev where i: "i = nt_task_id m"
    and g: "group_for (nt_run_id m) (nt_group m) (nt_now m) db = Inr (g, db1)"
    and t: "insert_task (created_task m g) db1 = Inr ((), db2)"
    and d: "for_each (\<lambda>i. insert_dependency (created_edge m i)) (nt_dependencies m) db2 = Inr ((), db3)"
    and ev: "append_event e (created_event e m) db3 = Inr (ev, db')"
    by (rule apply_createE)
  from keepsD [OF group_for_tasks g] have "tasks db1 = tasks db \<and> dependencies db1 = dependencies db" by simp
  then show ?thesis
    using i t insert_edges_Inr [OF d] append_event_db(1) [OF ev]
    by (auto simp: insert_task_def insert_row_Inr task_row_ok_def created_task_def)
qed

text \<open>
  Property C29. A created task is open, belongs to its run and is stored after its dependencies,
  which are exactly the requested ones; it is ready as soon as, and only if, all of them are
  closed. A dependency that is not a task of the run rejects the whole creation.
\<close>

theorem created_task_waits_for_its_dependencies:
  assumes ok: "store_ok db" and run: "apply_create e m db = Inr (i, db')"
  shows "\<exists>t. find_task db' i = Some t \<and> tk_status t = Open \<and> tk_run_id t = nt_run_id m
      \<and> map dp_dependency_task_id (filter (\<lambda>x. dp_task_id x = i) (dependencies db')) = nt_dependencies m
      \<and> (t \<in> set (ready_tasks db' (nt_run_id m)) \<longleftrightarrow>
           (\<forall>d \<in> set (nt_dependencies m). \<exists>u. find_task db' d = Some u \<and> tk_status u = Closed))"
proof -
  have ok': "store_ok db'" using safeD [OF safe_apply_create run ok] by simp
  then have keys: "keys_ok db'" by (simp add: store_ok_def)
  from apply_create_tables [OF run] obtain g where
    i: "i = nt_task_id m" "nt_task_id m \<notin> tk_id ` set (tasks db)"
    and ts: "tasks db' = tasks db @ [created_task m g]"
    and ds: "dependencies db' = dependencies db @ map (created_edge m) (nt_dependencies m)" by blast
  let ?t = "created_task m g"
  have t: "?t \<in> set (tasks db')" "tk_id ?t = i" "tk_run_id ?t = nt_run_id m" "tk_status ?t = Open"
    by (simp_all add: ts i created_task_def)
  have found: "find_task db' i = Some ?t" using find_task_unique [OF keys t(1)] t(2) by simp
  have "dp_task_id x \<noteq> i" if "x \<in> set (dependencies db)" for x
  proof -
    have "task_exists db (dp_run_id x) (dp_task_id x)" using ok that by (auto simp: store_ok_def refs_ok_def)
    then show ?thesis using i by (force simp: task_exists_def)
  qed
  then have "filter (\<lambda>x. dp_task_id x = i) (dependencies db') = map (created_edge m) (nt_dependencies m)"
    by (auto simp: ds i created_edge_def filter_empty_conv intro!: filter_True)
  then have edges: "map dp_dependency_task_id (filter (\<lambda>x. dp_task_id x = i) (dependencies db')) = nt_dependencies m"
    by (simp add: comp_def created_edge_def)
  have target: "\<exists>u. find_task db' d = Some u \<and> u \<in> set (tasks db') \<and> tk_id u = d \<and> tk_run_id u = nt_run_id m"
    if "d \<in> set (nt_dependencies m)" for d
  proof -
    have "created_edge m d \<in> set (dependencies db')" using that by (simp add: ds)
    then have "task_exists db' (nt_run_id m) d"
      using ok' by (auto simp: store_ok_def refs_ok_def created_edge_def)
    then show ?thesis using find_task_unique [OF keys] by (auto simp: task_exists_def)
  qed
  have unresolved: "edge_unresolved db' (created_edge m d) \<longleftrightarrow> (\<exists>u. find_task db' d = Some u \<and> tk_status u \<noteq> Closed)"
    if "d \<in> set (nt_dependencies m)" for d
  proof -
    obtain u where u: "find_task db' d = Some u" "u \<in> set (tasks db')" "tk_id u = d" "tk_run_id u = nt_run_id m"
      using target [OF \<open>d \<in> set (nt_dependencies m)\<close>] by blast
    have same: "v = u" if "v \<in> set (tasks db')" "tk_id v = d" for v
      using find_task_unique [OF keys that(1)] that(2) u(1) by simp
    show ?thesis using u by (auto simp: edge_unresolved_def created_edge_def dest: same)
  qed
  have "is_blocked db' (nt_run_id m) i \<longleftrightarrow>
      (\<exists>x \<in> set (filter (\<lambda>x. dp_task_id x = i) (dependencies db')). dp_run_id x = nt_run_id m \<and> edge_unresolved db' x)"
    by (auto simp: is_blocked_def)
  also have "\<dots> \<longleftrightarrow> (\<exists>d \<in> set (nt_dependencies m). edge_unresolved db' (created_edge m d))"
    using \<open>filter (\<lambda>x. dp_task_id x = i) (dependencies db') = map (created_edge m) (nt_dependencies m)\<close>
    by (auto simp: created_edge_def)
  finally have is_blocked: "is_blocked db' (nt_run_id m) i
      \<longleftrightarrow> (\<exists>d \<in> set (nt_dependencies m). edge_unresolved db' (created_edge m d))" .
  have blocked: "\<not> is_blocked db' (nt_run_id m) i \<longleftrightarrow>
      (\<forall>d \<in> set (nt_dependencies m). \<exists>u. find_task db' d = Some u \<and> tk_status u = Closed)"
  proof -
    have "\<not> edge_unresolved db' (created_edge m d) \<longleftrightarrow> (\<exists>u. find_task db' d = Some u \<and> tk_status u = Closed)"
      if "d \<in> set (nt_dependencies m)" for d
      using unresolved [OF that] target [OF that] by auto
    then show ?thesis using is_blocked by blast
  qed
  have "\<not> has_active_claim db' (nt_run_id m) i" using open_task_unclaimed [OF ok' t(1)] t by simp
  then have "?t \<in> set (ready_tasks db' (nt_run_id m)) \<longleftrightarrow> \<not> is_blocked db' (nt_run_id m) i"
    using t by (auto simp: ready_tasks_def)
  with blocked found edges t show ?thesis by auto
qed

definition sample_create :: CreateTask where
  "sample_create =
     \<lparr>nt_operation_id = OperationId 1, nt_run_id = RunId 1, nt_actor = None, nt_task_id = TaskId 9,
      nt_project_id = ProjectId 1, nt_project_alias = ''main'', nt_title = ''t'', nt_description = ''d'',
      nt_group = None, nt_dependencies = [TaskId 2], nt_now = 7\<rparr>"

theorem created_task_waits_for_its_dependencies_witness:
  "\<exists>db' t. apply_create sample_env sample_create sample_busy = Inr (TaskId 9, db')
     \<and> find_task db' (TaskId 9) = Some t \<and> tk_status t = Open
     \<and> map dp_dependency_task_id (filter (\<lambda>x. dp_task_id x = TaskId 9) (dependencies db')) = [TaskId 2]"
proof -
  have "\<exists>db'. apply_create sample_env sample_create sample_busy = Inr (TaskId 9, db')"
    by (simp add: apply_create_def sample_create_def require_dependency_def group_for_def insert_task_def
        insert_dependency_def insert_row_def task_row_ok_def created_task_def created_edge_def
        dependency_row_ok_def append_event_def insert_event_def event_row_ok_def new_event_record_def
        created_event_def next_event_sequence_def sample_env_def maximum_event_page_length_def
        sample_busy_def find_task_def run_exists_def project_exists_def task_exists_def operation_exists_def
        references_def sample_run_def sample_project_def seq_def bind_run require_def sample_db_def empty_db_def)
  then obtain db' where run: "apply_create sample_env sample_create sample_busy = Inr (TaskId 9, db')" by blast
  have "nt_dependencies sample_create = [TaskId 2]" by (simp add: sample_create_def)
  with created_task_waits_for_its_dependencies [OF store_ok_sample_busy run] run show ?thesis by auto
qed

end
