(* ===== verification/Workspaces.thy ===== *)
theory Workspaces
  imports Messages
begin

section \<open>Workspaces (src/src/state.rs, src/src/state/resubmit.rs)\<close>

text \<open>
  The reservation of a path for an assignment, the observations recorded while the assignment's
  ownership is current, and the replacement of a submitted result. Managed paths belong to one
  assignment, observations of a fenced assignment are stale, and a recorded integration is final.
\<close>

subsection \<open>Reserving a path\<close>

definition insert_workspace :: "WorkspaceRecord \<Rightarrow> unit repo" where
  "insert_workspace w =
     bind (gets (\<lambda>db. find (path_reserved_by w) (workspace_path_ownership db))) (\<lambda>reserved.
     case reserved of
       Some own \<Rightarrow> fail (WorkspacePathReserved (po_assignment_id own))
     | None \<Rightarrow> insert_row workspace_row_ok (\<lambda>r. workspaces_update (\<lambda>rows. rows @ [r])) w)"

lemma workspace_has_ownership:
  assumes "refs_ok db" "x \<in> set (workspaces db)"
  shows "\<exists>own \<in> set (workspace_path_ownership db). po_run_id own = ws_run_id x \<and> po_path own = ws_path x
    \<and> po_exclusive own = (\<not> in_place x)"
proof -
  from assms obtain a where "a \<in> set (assignments db)" "as_id a = ws_assignment_id x" "as_run_id a = ws_run_id x"
    by (auto simp: refs_ok_def assignment_exists_def)
  then have "\<lparr>po_assignment_id = ws_assignment_id x, po_run_id = ws_run_id x, po_path = ws_path x,
      po_exclusive = (ws_kind x \<notin> set [''project'', ''read_only'']),
      po_writer = workspace_writer db x a\<rparr> \<in> set (workspace_path_ownership db)"
    using assms(2) by (auto simp: workspace_path_ownership_def)
  then show ?thesis by (rule bexI [rotated]) (simp add: in_place_def)
qed

lemma insert_workspace_Inr:
  assumes "insert_workspace w db = Inr (u, db')"
  shows "db' = workspaces_update (\<lambda>rows. rows @ [w]) db \<and> workspace_row_ok db w"
  using assms by (auto simp: insert_workspace_def insert_row_Inr split: option.splits)

lemma safe_insert_workspace [safe_intros]: "safe (insert_workspace w)"
proof (rule safeI)
  fix db u db' assume ok: "store_ok db" and run: "insert_workspace w db = Inr (u, db')"
  note step = insert_workspace_Inr [OF run]
  have parts: "keys_ok db" "refs_ok db" "paths_ok db" using ok by (auto simp: store_ok_def)
  have free: "in_place w \<and> in_place x"
    if x: "x \<in> set (workspaces db)" "ws_run_id x = ws_run_id w" "ws_path x = ws_path w" for x
  proof -
    from workspace_has_ownership [OF parts(2) x(1)] obtain own where
      own: "own \<in> set (workspace_path_ownership db)" "po_run_id own = ws_run_id x" "po_path own = ws_path x"
        "po_exclusive own = (\<not> in_place x)" by blast
    moreover have "\<not> path_reserved_by w own"
      using step own(1) by (auto simp: workspace_row_ok_def)
    ultimately show ?thesis using x by (auto simp: path_reserved_by_def in_place_def)
  qed
  have "paths_ok db'"
    using parts(3) step free unfolding paths_ok_def by (simp add: ball_Un)
  moreover have "keys_ok db'" "refs_ok db'"
    using step parts(1,2) by (auto simp: keys_ok_def refs_ok_def workspace_row_ok_def)
  ultimately show "store_ok db' \<and> extends db db'"
    using ok step by (simp add: store_ok_def extends_table grows_append)
qed

text \<open>
  A managed path has one owner: after any accepted reservation, a worktree (or any
  path that is not used in place) is shared with no other workspace of the run, and a project
  directory is handed out for writing only when no assignment may still write there.
\<close>

lemma reserved_paths_are_exclusive:
  assumes ok: "store_ok db" and run: "insert_workspace w db = Inr (u, db')"
    and x: "x \<in> set (workspaces db')" "y \<in> set (workspaces db')" "ws_run_id x = ws_run_id y"
      "ws_path x = ws_path y" "ws_assignment_id x \<noteq> ws_assignment_id y"
  shows "ws_kind x \<in> {''project'', ''read_only''} \<and> ws_kind y \<in> {''project'', ''read_only''}
    \<and> (ws_kind w = ''project'' \<longrightarrow> (\<forall>own \<in> set (workspace_path_ownership db).
         po_run_id own = ws_run_id w \<and> po_path own = ws_path w \<longrightarrow> \<not> po_writer own))"
proof -
  have "store_ok db'" using safeD [OF safe_insert_workspace run ok] by simp
  then have "in_place x \<and> in_place y"
    using x unfolding store_ok_def paths_ok_def by blast
  moreover have "\<forall>own \<in> set (workspace_path_ownership db). \<not> path_reserved_by w own"
    using insert_workspace_Inr [OF run] by (simp add: workspace_row_ok_def)
  ultimately show ?thesis by (auto simp: in_place_def path_reserved_by_def)
qed

subsection \<open>Observations behind the assignment's fence\<close>

definition assignment_recovered :: "Db \<Rightarrow> run_id \<Rightarrow> assignment_id \<Rightarrow> bool" where
  "assignment_recovered db run assignment \<longleftrightarrow>
     exists_row (\<lambda>x. ev_run_id x = run \<and> ev_type x = ''task.recovered''
        \<and> json_path [''data'', ''assignment_id''] (ev_payload x) = Some (assignment_json assignment))
       (events db)"

definition assignment_scope_is_current :: "Db \<Rightarrow> AssignmentScope \<Rightarrow> bool" where
  "assignment_scope_is_current db s \<longleftrightarrow>
     exists_row (\<lambda>x. as_id x = sp_assignment_id s \<and> as_run_id x = sp_run_id s
        \<and> as_generation x = sp_generation s
        \<and> exists_row (\<lambda>a. ag_id a = as_agent_id x \<and> ag_run_id a = as_run_id x
             \<and> ag_generation a = sp_generation s) (agents db)
        \<and> exists_row (\<lambda>r. rn_id r = as_run_id x \<and> rn_status r = ''active'') (runs db)
        \<and> (case as_session_id x of None \<Rightarrow> True
           | Some i \<Rightarrow> exists_row (\<lambda>t. se_id t = i \<and> se_run_id t = as_run_id x
               \<and> se_agent_id t = as_agent_id x \<and> se_generation t = as_generation x) (sessions db)))
       (assignments db)
     \<and> \<not> assignment_recovered db (sp_run_id s) (sp_assignment_id s)"

definition workspace_for_scope :: "Db \<Rightarrow> AssignmentScope \<Rightarrow> WorkspaceRecord option" where
  "workspace_for_scope db s =
     (case find_workspace db (sp_assignment_id s) of
        None \<Rightarrow> None
      | Some w \<Rightarrow> if assignment_scope_is_current db s \<and> workspace_scope w = s then Some w else None)"

definition record_workspace_reconciliation_state ::
    "AssignmentScope \<Rightarrow> ExternalResourceState \<Rightarrow> int \<Rightarrow> ResourceTransitionOutcome repo" where
  "record_workspace_reconciliation_state s state at =
     bind (gets (\<lambda>db. workspace_for_scope db s)) (\<lambda>found.
     case found of None \<Rightarrow> ret WStale
     | Some w \<Rightarrow>
         if ws_state w = state then ret WUnchanged
         else seq (modify (workspaces_update (update_where (\<lambda>x. ws_assignment_id x = sp_assignment_id s)
                    (\<lambda>x. x\<lparr>ws_state := state, ws_reconciled_at := Some at\<rparr>))))
                (ret WApplied))"

definition record_workspace_result_commit ::
    "AssignmentScope \<Rightarrow> string \<Rightarrow> ResourceTransitionOutcome repo" where
  "record_workspace_result_commit s commit =
     bind (gets (\<lambda>db. workspace_for_scope db s)) (\<lambda>found.
     case found of None \<Rightarrow> ret WStale
     | Some w \<Rightarrow>
         (case ws_result_commit w of
            Some recorded \<Rightarrow>
              if recorded = commit then ret WUnchanged
              else fail (WorkspaceResultConflict (sp_assignment_id s) recorded commit)
          | None \<Rightarrow>
              seq (modify (workspaces_update (update_where (\<lambda>x. ws_assignment_id x = sp_assignment_id s)
                     (\<lambda>x. x\<lparr>ws_result_commit := Some commit\<rparr>))))
                  (ret WApplied)))"

definition record_workspace_target_commit ::
    "AssignmentScope \<Rightarrow> string \<Rightarrow> ResourceTransitionOutcome repo" where
  "record_workspace_target_commit s commit =
     bind (gets (\<lambda>db. workspace_for_scope db s)) (\<lambda>found.
     case found of None \<Rightarrow> ret WStale
     | Some w \<Rightarrow>
         (case ws_target_commit w of
            Some recorded \<Rightarrow>
              if recorded = commit then ret WUnchanged
              else fail (WorkspaceTargetConflict (sp_assignment_id s) recorded commit)
          | None \<Rightarrow>
              seq (modify (workspaces_update (update_where (\<lambda>x. ws_assignment_id x = sp_assignment_id s)
                     (\<lambda>x. x\<lparr>ws_target_commit := Some commit\<rparr>))))
                  (ret WApplied)))"

subsection \<open>Safety\<close>

lemma store_ok_workspaces_update:
  assumes "store_ok db"
    and "\<And>r. p r \<Longrightarrow> ws_assignment_id (f r) = ws_assignment_id r \<and> ws_run_id (f r) = ws_run_id r
           \<and> ws_path (f r) = ws_path r \<and> ws_kind (f r) = ws_kind r"
  shows "store_ok (workspaces_update (update_where p f) db)"
proof -
  have "paths_ok (workspaces_update (update_where p f) db)"
    unfolding paths_ok_def
  proof (intro ballI impI)
    fix w w'
    assume "w \<in> set (workspaces (workspaces_update (update_where p f) db))"
      "w' \<in> set (workspaces (workspaces_update (update_where p f) db))"
      and same: "ws_assignment_id w \<noteq> ws_assignment_id w' \<and> ws_run_id w = ws_run_id w' \<and> ws_path w = ws_path w'"
    then obtain x y where x: "x \<in> set (workspaces db)" "w = (if p x then f x else x)"
      and y: "y \<in> set (workspaces db)" "w' = (if p y then f y else y)"
      by (auto simp: set_update_where)
    have wx: "ws_assignment_id w = ws_assignment_id x \<and> ws_run_id w = ws_run_id x
        \<and> ws_path w = ws_path x \<and> ws_kind w = ws_kind x"
      using x(2) assms(2) by simp
    have wy: "ws_assignment_id w' = ws_assignment_id y \<and> ws_run_id w' = ws_run_id y
        \<and> ws_path w' = ws_path y \<and> ws_kind w' = ws_kind y"
      using y(2) assms(2) by simp
    have "in_place x \<and> in_place y"
      using assms(1) x(1) y(1) same wx wy unfolding store_ok_def paths_ok_def by metis
    then show "in_place w \<and> in_place w'" using wx wy by (simp add: in_place_def)
  qed
  then show ?thesis
    using assms by (simp add: store_ok_def keys_ok_def map_update_where refs_ok_def all_update_where)
qed

lemma find_workspace_Some:
  "find_workspace db i = Some w \<Longrightarrow> w \<in> set (workspaces db) \<and> ws_assignment_id w = i"
  by (auto simp: find_workspace_def dest: find_Some_in)

lemma workspace_row_unique:
  assumes ok: "store_ok db" and w: "find_workspace db i = Some w"
    and x: "x \<in> set (workspaces db)" "ws_assignment_id x = i"
  shows "x = w"
proof -
  have "distinct (map ws_assignment_id (workspaces db))" using ok by (simp add: store_ok_def keys_ok_def)
  then show ?thesis using find_workspace_Some [OF w] x by (auto simp: distinct_map inj_on_def)
qed

lemma workspaces_update_mem:
  "workspaces_update (update_where p f) db
    = workspaces_update (update_where (\<lambda>r. r \<in> set (workspaces db) \<and> p r) f) db"
  by (cases db) (simp add: update_where_def)

lemma workspace_for_scope_Some:
  "workspace_for_scope db s = Some w \<longleftrightarrow>
     find_workspace db (sp_assignment_id s) = Some w \<and> assignment_scope_is_current db s
     \<and> workspace_scope w = s"
  by (auto simp: workspace_for_scope_def split: option.splits)

text \<open>An update of the one workspace of an assignment.\<close>

lemma workspace_update_safe:
  assumes ok: "store_ok db" and w: "find_workspace db i = Some w"
    and f: "\<And>r. ws_assignment_id (f r) = ws_assignment_id r \<and> ws_run_id (f r) = ws_run_id r
           \<and> ws_path (f r) = ws_path r \<and> ws_kind (f r) = ws_kind r"
    and later: "workspace_later w (f w)"
  shows "store_ok (workspaces_update (update_where (\<lambda>x. ws_assignment_id x = i) f) db)
    \<and> extends db (workspaces_update (update_where (\<lambda>x. ws_assignment_id x = i) f) db)"
proof
  show "store_ok (workspaces_update (update_where (\<lambda>x. ws_assignment_id x = i) f) db)"
    by (rule store_ok_workspaces_update [OF ok]) (simp add: f)
  show "extends db (workspaces_update (update_where (\<lambda>x. ws_assignment_id x = i) f) db)"
    by (subst workspaces_update_mem)
      (use later in \<open>auto simp: extends_table dest: workspace_row_unique [OF ok w] intro!: grows_update_where\<close>)
qed

lemma safe_record_workspace_reconciliation_state [safe_intros]:
  "safe (record_workspace_reconciliation_state s state at)"
proof (rule safeI)
  fix db r db' assume ok: "store_ok db" and run: "record_workspace_reconciliation_state s state at db = Inr (r, db')"
  show "store_ok db' \<and> extends db db'"
  proof (cases "workspace_for_scope db s")
    case None
    with ok run show ?thesis by (simp add: record_workspace_reconciliation_state_def)
  next
    case (Some w)
    then have w: "find_workspace db (sp_assignment_id s) = Some w" by (simp add: workspace_for_scope_Some)
    from workspace_update_safe [OF ok w, of "\<lambda>x. x\<lparr>ws_state := state, ws_reconciled_at := Some at\<rparr>"]
    show ?thesis
      using Some run ok by (auto simp: record_workspace_reconciliation_state_def workspace_later_def split: if_splits)
  qed
qed

lemma safe_record_workspace_result_commit [safe_intros]: "safe (record_workspace_result_commit s commit)"
proof (rule safeI)
  fix db r db' assume ok: "store_ok db" and run: "record_workspace_result_commit s commit db = Inr (r, db')"
  show "store_ok db' \<and> extends db db'"
  proof (cases "workspace_for_scope db s")
    case None
    with ok run show ?thesis by (simp add: record_workspace_result_commit_def)
  next
    case (Some w)
    then have w: "find_workspace db (sp_assignment_id s) = Some w" by (simp add: workspace_for_scope_Some)
    show ?thesis
    proof (cases "ws_result_commit w")
      case (Some c)
      with \<open>workspace_for_scope db s = Some w\<close> run ok show ?thesis
        by (auto simp: record_workspace_result_commit_def split: if_splits)
    next
      case None
      with workspace_update_safe [OF ok w, of "\<lambda>x. x\<lparr>ws_result_commit := Some commit\<rparr>"] Some run
      show ?thesis by (simp add: record_workspace_result_commit_def workspace_later_def)
    qed
  qed
qed

lemma safe_record_workspace_target_commit [safe_intros]: "safe (record_workspace_target_commit s commit)"
proof (rule safeI)
  fix db r db' assume ok: "store_ok db" and run: "record_workspace_target_commit s commit db = Inr (r, db')"
  show "store_ok db' \<and> extends db db'"
  proof (cases "workspace_for_scope db s")
    case None
    with ok run show ?thesis by (simp add: record_workspace_target_commit_def)
  next
    case (Some w)
    then have w: "find_workspace db (sp_assignment_id s) = Some w" by (simp add: workspace_for_scope_Some)
    show ?thesis
    proof (cases "ws_target_commit w")
      case (Some c)
      with \<open>workspace_for_scope db s = Some w\<close> run ok show ?thesis
        by (auto simp: record_workspace_target_commit_def split: if_splits)
    next
      case None
      with workspace_update_safe [OF ok w, of "\<lambda>x. x\<lparr>ws_target_commit := Some commit\<rparr>"] Some run
      show ?thesis by (simp add: record_workspace_target_commit_def workspace_later_def)
    qed
  qed
qed

subsection \<open>Resubmission\<close>

record Resubmission =
  rb_assignment_id :: assignment_id
  rb_expected_result :: string
  rb_result_commit :: string
  rb_summary :: string
  rb_reason :: string

definition integration_intent :: "Db \<Rightarrow> run_id \<Rightarrow> assignment_id \<Rightarrow> bool" where
  "integration_intent db run assignment \<longleftrightarrow>
     exists_row (\<lambda>r. op_run_id r = run \<and> op_kind r = ''workspace.integrate''
        \<and> json_path [''assignment_id''] (op_request r) = Some (assignment_json assignment)) (operations db)"

definition resubmission_preflight ::
    "Db \<Rightarrow> run_id \<Rightarrow> Resubmission \<Rightarrow> StoreError + (AssignmentRecord \<times> TaskRecord \<times> WorkspaceRecord)" where
  "resubmission_preflight db run b =
     (let reject = Inl (ResubmissionConflict (rb_assignment_id b)) in
      case find_assignment db (rb_assignment_id b) of
        None \<Rightarrow> reject
      | Some a \<Rightarrow>
          if as_run_id a \<noteq> run then reject
          else (case workspace_for_scope db (assignment_scope a) of
            None \<Rightarrow> Inl (StaleAssignment (as_id a))
          | Some w \<Rightarrow>
              (case find_task db (as_task_id a) of
                 None \<Rightarrow> reject
               | Some t \<Rightarrow>
                   if as_state a \<noteq> ''completed'' \<or> as_completed_at a = None \<or> tk_status t \<noteq> Submitted
                      \<or> map_option as_id (latest_assignment_for_task db run (tk_id t)) \<noteq> Some (as_id a)
                   then reject
                   else if ws_kind w \<noteq> ''worktree'' \<or> ws_state w \<noteq> RObserved then reject
                   else if ws_target_commit w \<noteq> None then reject
                   else if integration_intent db run (as_id a) then reject
                   else if ws_result_commit w \<noteq> Some (rb_expected_result b)
                      \<or> Option.bind (tk_result t) (json_get ''result_commit'')
                        \<noteq> Some (JStr (rb_expected_result b))
                   then reject
                   else Inr (a, t, w))))"

definition resubmitted_event ::
    "Env \<Rightarrow> Mutation \<Rightarrow> Resubmission \<Rightarrow> AssignmentRecord \<Rightarrow> TaskRecord \<Rightarrow> WorkspaceRecord \<Rightarrow> json \<Rightarrow> json \<Rightarrow> NewEvent" where
  "resubmitted_event e mu b a t w previous result =
     \<lparr>ne_run_id = mu_run_id mu, ne_kind = TaskResubmitted, ne_actor = mutation_actor e (mu_actor_agent_id mu),
      ne_subject = task_text e (tk_id t), ne_project_id = Some (tk_project_id t),
      ne_agent_id = Some (as_agent_id a), ne_task_id = Some (tk_id t), ne_operation_id = Some (mu_id mu),
      ne_correlation_id = None, ne_causation_id = None,
      ne_data = JObj [(''assignment_id'', assignment_json (as_id a)),
        (''base_commit'', json_opt JStr (ws_base_commit w)), (''generation'', JInt (as_generation a)),
        (''previous_completed_at'', json_opt JInt (as_completed_at a)),
        (''previous_result'', previous), (''previous_summary'', json_opt JStr (as_summary a)),
        (''previous_updated_at'', JInt (tk_updated_at t)), (''reason'', JStr (rb_reason b)),
        (''result'', result), (''status'', JStr ''submitted'')],
      ne_summary = ''Superseded the submitted result for task '' @ task_text e (tk_id t) @ ''.'',
      ne_created_at = mu_created_at mu\<rparr>"

text \<open>\<open>result["result_commit"]\<close> on a recorded result that is neither an object nor null panics.\<close>

definition apply_resubmission :: "Env \<Rightarrow> Mutation \<Rightarrow> Resubmission \<Rightarrow> (json \<times> json) repo" where
  "apply_resubmission e mu b =
     bind (lift_result (\<lambda>db. resubmission_preflight db (mu_run_id mu) b)) (\<lambda>(a, t, w).
     let previous = (case tk_result t of None \<Rightarrow> JNull | Some r \<Rightarrow> r) in
     case Option.bind (json_set ''result_commit'' (JStr (rb_result_commit b)) previous)
            (json_set ''summary'' (JStr (rb_summary b))) of
       None \<Rightarrow> fail Panic
     | Some result \<Rightarrow>
         bind (append_event e (resubmitted_event e mu b a t w previous result)) (\<lambda>_.
         seq (modify (workspaces_update (update_where (\<lambda>x. ws_assignment_id x = as_id a)
                (\<lambda>x. x\<lparr>ws_result_commit := Some (rb_result_commit b)\<rparr>))))
         (seq (modify (assignments_update (update_where (\<lambda>x. as_id x = as_id a)
                (\<lambda>x. x\<lparr>as_summary := Some (rb_summary b)\<rparr>))))
         (seq (modify (tasks_update (update_where (\<lambda>x. tk_id x = tk_id t)
                (\<lambda>x. x\<lparr>tk_result := Some result, tk_updated_at := mu_created_at mu\<rparr>))))
              (ret (previous, result))))))"

text \<open>What the preflight has established.\<close>

lemma resubmission_preflight_Inr:
  assumes "resubmission_preflight db run b = Inr (a, t, w)"
  shows "find_assignment db (rb_assignment_id b) = Some a \<and> as_run_id a = run
    \<and> find_task db (as_task_id a) = Some t \<and> find_workspace db (as_id a) = Some w
    \<and> assignment_scope_is_current db (assignment_scope a)
    \<and> tk_status t = Submitted \<and> as_state a = ''completed''
    \<and> ws_kind w = ''worktree'' \<and> ws_state w = RObserved \<and> ws_target_commit w = None
    \<and> \<not> integration_intent db run (as_id a)
    \<and> ws_result_commit w = Some (rb_expected_result b)
    \<and> (\<exists>r. tk_result t = Some r \<and> json_get ''result_commit'' r = Some (JStr (rb_expected_result b)))
    \<and> map_option as_id (latest_assignment_for_task db run (tk_id t)) = Some (as_id a)"
proof (cases "find_assignment db (rb_assignment_id b)")
  case None
  with assms show ?thesis by (simp add: resubmission_preflight_def Let_def)
next
  case (Some x)
  show ?thesis
  proof (cases "workspace_for_scope db (assignment_scope x)")
    case None
    with assms Some show ?thesis by (simp add: resubmission_preflight_def Let_def split: if_splits)
  next
    case (Some y)
    from Some have "find_workspace db (as_id x) = Some y \<and> assignment_scope_is_current db (assignment_scope x)"
      by (simp add: workspace_for_scope_Some) (simp add: assignment_scope_def)
    moreover have "a = x" "w = y" and found: "find_task db (as_task_id x) = Some t" and "as_run_id x = run"
      and guards: "tk_status t = Submitted" "as_state x = ''completed''" "ws_kind y = ''worktree''"
        "ws_state y = RObserved" "ws_target_commit y = None" "\<not> integration_intent db run (as_id x)"
        "ws_result_commit y = Some (rb_expected_result b)"
        "Option.bind (tk_result t) (json_get ''result_commit'') = Some (JStr (rb_expected_result b))"
        "map_option as_id (latest_assignment_for_task db run (tk_id t)) = Some (as_id x)"
      using assms Some \<open>find_assignment db (rb_assignment_id b) = Some x\<close>
      by (auto simp: resubmission_preflight_def Let_def split: if_splits option.splits)
    moreover from guards(8) have "\<exists>r. tk_result t = Some r \<and> json_get ''result_commit'' r = Some (JStr (rb_expected_result b))"
      by (cases "tk_result t") auto
    ultimately show ?thesis using \<open>find_assignment db (rb_assignment_id b) = Some x\<close> by blast
  qed
qed

definition resubmitted_result :: "TaskRecord \<Rightarrow> Resubmission \<Rightarrow> json option" where
  "resubmitted_result t b =
     Option.bind (json_set ''result_commit'' (JStr (rb_result_commit b))
         (case tk_result t of None \<Rightarrow> JNull | Some r \<Rightarrow> r))
       (json_set ''summary'' (JStr (rb_summary b)))"

definition resubmitted_db ::
    "Mutation \<Rightarrow> Resubmission \<Rightarrow> AssignmentRecord \<Rightarrow> TaskRecord \<Rightarrow> json \<Rightarrow> Db \<Rightarrow> Db" where
  "resubmitted_db mu b a t result db =
     tasks_update (update_where (\<lambda>x. tk_id x = tk_id t)
         (\<lambda>x. x\<lparr>tk_result := Some result, tk_updated_at := mu_created_at mu\<rparr>))
       (assignments_update (update_where (\<lambda>x. as_id x = as_id a) (\<lambda>x. x\<lparr>as_summary := Some (rb_summary b)\<rparr>))
         (workspaces_update (update_where (\<lambda>x. ws_assignment_id x = as_id a)
            (\<lambda>x. x\<lparr>ws_result_commit := Some (rb_result_commit b)\<rparr>)) db))"

lemma apply_resubmission_Inr:
  assumes "apply_resubmission e mu b db = Inr (out, db')"
  obtains a t w result ev db1 where
    "resubmission_preflight db (mu_run_id mu) b = Inr (a, t, w)"
    "resubmitted_result t b = Some result"
    "append_event e (resubmitted_event e mu b a t w (case tk_result t of None \<Rightarrow> JNull | Some r \<Rightarrow> r) result) db
       = Inr (ev, db1)"
    "db' = resubmitted_db mu b a t result db1"
    "out = (case tk_result t of None \<Rightarrow> JNull | Some r \<Rightarrow> r, result)"
proof -
  from assms obtain a t w where pre: "resubmission_preflight db (mu_run_id mu) b = Inr (a, t, w)"
    by (auto simp: apply_resubmission_def bind_Inr_iff)
  with assms obtain result where res: "resubmitted_result t b = Some result"
    by (auto simp: apply_resubmission_def bind_Inr_iff resubmitted_result_def Let_def split: option.splits)
  from assms pre res that show thesis
    by (auto simp: apply_resubmission_def resubmitted_result_def bind_Inr_iff Let_def resubmitted_db_def)
qed

lemma resubmitted_db_safe:
  assumes ok: "store_ok db" and w: "find_workspace db (as_id a) = Some w" "ws_target_commit w = None"
    and t: "find_task db (tk_id t) = Some t" "tk_status t = Submitted"
  shows "store_ok (resubmitted_db mu b a t result db) \<and> extends db (resubmitted_db mu b a t result db)"
proof -
  let ?w = "\<lambda>x. x\<lparr>ws_result_commit := Some (rb_result_commit b)\<rparr>"
  let ?a = "\<lambda>x. x\<lparr>as_summary := Some (rb_summary b)\<rparr>"
  let ?t = "\<lambda>x. x\<lparr>tk_result := Some result, tk_updated_at := mu_created_at mu\<rparr>"
  define db1 where "db1 = workspaces_update (update_where (\<lambda>x. ws_assignment_id x = as_id a) ?w) db"
  define db2 where "db2 = assignments_update (update_where (\<lambda>x. as_id x = as_id a) ?a) db1"
  define db3 where "db3 = tasks_update (update_where (\<lambda>x. tk_id x = tk_id t) ?t) db2"
  have s1: "store_ok db1 \<and> extends db db1"
    unfolding db1_def
    by (rule workspace_update_safe [OF ok w(1)]) (use w(2) in \<open>simp_all add: workspace_later_def\<close>)
  have s2: "store_ok db2 \<and> extends db1 db2"
    unfolding db2_def
    using s1 by (auto simp: store_ok_assignments_update extends_table assignment_later_def intro!: grows_update_where)
  have "find_task db2 (tk_id t) = Some t" using t(1) by (simp add: db2_def db1_def find_task_def)
  then have row: "x = t" if "x \<in> set (tasks db2)" "tk_id x = tk_id t" for x
    using task_row_unique [OF conjunct1 [OF s2]] that by blast
  have "store_ok db3"
    unfolding db3_def using s2 by (intro store_ok_tasks_update) simp_all
  moreover have "extends db2 db3"
    unfolding db3_def using t(2)
    by (subst tasks_update_mem) (auto simp: extends_table task_later_def dest: row intro!: grows_update_where)
  ultimately show ?thesis
    using s1 s2 extends_trans by (simp add: resubmitted_db_def db3_def db2_def db1_def) blast
qed

lemma preflight_rows:
  assumes "resubmission_preflight db run b = Inr (a, t, w)"
  shows "find_workspace db (as_id a) = Some w" "ws_target_commit w = None"
    "find_task db (tk_id t) = Some t" "tk_status t = Submitted"
  using resubmission_preflight_Inr [OF assms] find_task_Some by auto

lemma safe_apply_resubmission [safe_intros]: "safe (apply_resubmission e mu b)"
proof (rule safeI)
  fix db out db' assume ok: "store_ok db" and run: "apply_resubmission e mu b db = Inr (out, db')"
  from run obtain a t w result ev db1 n where
    pre: "resubmission_preflight db (mu_run_id mu) b = Inr (a, t, w)"
    and ev: "append_event e n db = Inr (ev, db1)"
    and db': "db' = resubmitted_db mu b a t result db1"
    by (rule apply_resubmission_Inr)
  have s1: "store_ok db1" "extends db db1" using safeD [OF safe_append_event ev ok] by auto
  have "store_ok db' \<and> extends db1 db'"
    unfolding db'
    by (rule resubmitted_db_safe [OF s1(1), where w = w])
      (use preflight_rows [OF pre] append_event_db(1) [OF ev] in
        \<open>simp_all add: find_workspace_def find_task_def\<close>)
  with s1(2) show "store_ok db' \<and> extends db db'" using extends_trans by blast
qed

text \<open>
  A resubmission replaces exactly the submitted result it names: it is accepted only
  for the latest, completed assignment of a submitted task whose worktree still records the
  expected result, is not integrated and has no integration under way; it keeps task, worktree and
  ownership as they are otherwise, and the replaced result stays in the log.
\<close>

lemma resubmission_is_a_compare_and_set:
  assumes ok: "store_ok db" and run: "apply_resubmission e mu b db = Inr ((previous, result), db')"
  shows "\<exists>a t w. find_assignment db (rb_assignment_id b) = Some a \<and> find_task db (as_task_id a) = Some t
    \<and> find_workspace db (as_id a) = Some w
    \<and> tk_status t = Submitted \<and> as_state a = ''completed''
    \<and> map_option as_id (latest_assignment_for_task db (mu_run_id mu) (tk_id t)) = Some (as_id a)
    \<and> ws_result_commit w = Some (rb_expected_result b) \<and> ws_target_commit w = None
    \<and> \<not> integration_intent db (mu_run_id mu) (as_id a)
    \<and> tk_result t = Some previous \<and> json_get ''result_commit'' result = Some (JStr (rb_result_commit b))
    \<and> find_task db' (as_task_id a) = Some (t\<lparr>tk_result := Some result, tk_updated_at := mu_created_at mu\<rparr>)
    \<and> find_workspace db' (as_id a) = Some (w\<lparr>ws_result_commit := Some (rb_result_commit b)\<rparr>)
    \<and> claims db' = claims db
    \<and> (\<exists>x. events db' = events db @ [x] \<and> ev_type x = ''task.resubmitted''
         \<and> json_path [''data'', ''previous_result''] (ev_payload x) = Some previous)"
proof -
  from run obtain a t w ev db1 where
    pre: "resubmission_preflight db (mu_run_id mu) b = Inr (a, t, w)"
    and res: "resubmitted_result t b = Some result"
    and ev: "append_event e (resubmitted_event e mu b a t w previous result) db = Inr (ev, db1)"
    and db': "db' = resubmitted_db mu b a t result db1"
    and prev: "previous = (case tk_result t of None \<Rightarrow> JNull | Some r \<Rightarrow> r)"
    by (auto elim!: apply_resubmission_Inr)
  note facts = resubmission_preflight_Inr [OF pre]
  then obtain r where r: "tk_result t = Some r" by blast
  have t: "tk_id t = as_task_id a" using facts find_task_Some by blast
  note db1 = append_event_db(1) [OF ev]
  from res r obtain mid where "json_set ''result_commit'' (JStr (rb_result_commit b)) r = Some mid"
    "json_set ''summary'' (JStr (rb_summary b)) mid = Some result"
    by (auto simp: resubmitted_result_def split: bind_splits)
  then have commit: "json_get ''result_commit'' result = Some (JStr (rb_result_commit b))"
    using json_get_set json_get_set_other [of "''summary''" _ mid result "''result_commit''"] by auto
  have "find_task db' (as_task_id a) = Some (t\<lparr>tk_result := Some result, tk_updated_at := mu_created_at mu\<rparr>)"
    using facts t by (simp add: db' resubmitted_db_def db1 find_task_def find_update_where)
  moreover have "find_workspace db' (as_id a) = Some (w\<lparr>ws_result_commit := Some (rb_result_commit b)\<rparr>)"
    using facts find_workspace_Some [of db "as_id a" w]
    by (simp add: db' resubmitted_db_def db1 find_workspace_def find_update_where)
  moreover have "claims db' = claims db" by (simp add: db' resubmitted_db_def db1)
  moreover have "\<exists>x. events db' = events db @ [x] \<and> ev_type x = ''task.resubmitted''
         \<and> json_path [''data'', ''previous_result''] (ev_payload x) = Some previous"
    by (simp add: db' resubmitted_db_def db1 new_event_record_def resubmitted_event_def)
  moreover have "tk_result t = Some previous" using r prev by simp
  ultimately show ?thesis using facts commit by blast
qed

subsection \<open>A run with finished work\<close>

text \<open>
  The sample run after two assignments: agent 1 submitted task 4 from a worktree, agent 2 returned
  task 3 after reading the project in place.
\<close>

definition sample_released_claim :: "int \<Rightarrow> nat \<Rightarrow> nat \<Rightarrow> nat \<Rightarrow> ClaimRecord" where
  "sample_released_claim i operation task agent =
     \<lparr>cl_id = i, cl_run_id = RunId 1, cl_task_id = TaskId task, cl_agent_id = AgentId agent,
      cl_operation_id = OperationId operation, cl_state = ''released'', cl_claimed_at = 1,
      cl_released_at = Some 2\<rparr>"

definition sample_result_task :: TaskRecord where
  "sample_result_task = sample_task 4 Submitted\<lparr>tk_result := Some (JObj [(''result_commit'', JStr ''r'')])\<rparr>"

definition sample_reader :: AssignmentRecord where
  "sample_reader =
     sample_assignment\<lparr>as_id := AssignmentId 10, as_task_id := TaskId 3, as_agent_id := AgentId 2,
       as_claim_id := 2, as_state := ''released''\<rparr>"

definition sample_reader_workspace :: "string \<Rightarrow> WorkspaceRecord" where
  "sample_reader_workspace path =
     sample_workspace\<lparr>ws_assignment_id := AssignmentId 10, ws_kind := ''read_only'', ws_path := path,
       ws_base_commit := None, ws_result_commit := None\<rparr>"

definition sample_worked :: Db where
  "sample_worked = sample_db
     \<lparr>tasks := [sample_task 1 Open, sample_task 2 Open, sample_task 3 Open, sample_result_task],
      operations := [sample_operation 1, sample_operation 2],
      claims := [sample_released_claim 1 1 4 1, sample_released_claim 2 2 3 2],
      assignments := [sample_assignment, sample_reader],
      workspaces := [sample_workspace]\<rparr>"

lemma store_ok_sample_worked: "store_ok sample_worked"
proof -
  have "keys_ok sample_worked"
    using store_ok_sample_db by (simp add: store_ok_def keys_ok_def sample_worked_def sample_result_task_def
        sample_released_claim_def sample_assignment_def sample_reader_def)
  moreover have "refs_ok sample_worked"
    using store_ok_sample_db by (simp add: store_ok_def refs_ok_def sample_worked_def task_exists_def
        agent_exists_def claim_exists_def assignment_exists_def sample_result_task_def
        sample_released_claim_def sample_assignment_def sample_reader_def sample_workspace_def
        sample_db_def empty_db_def)
  moreover have "owned sample_worked"
    by (simp add: owned_def sample_worked_def sample_result_task_def sample_released_claim_def
        sample_assignment_def sample_reader_def)
  moreover have "paths_ok sample_worked" by (simp add: paths_ok_def sample_worked_def)
  moreover have "deps_ok sample_worked"
    using store_ok_sample_db by (simp add: store_ok_def deps_ok_def sample_worked_def sample_result_task_def)
  ultimately show ?thesis
    using store_ok_sample_db by (simp add: store_ok_def sample_worked_def shutdowns_ok_def)
qed

definition sample_shared :: Db where
  "sample_shared = workspaces_update (\<lambda>_. [sample_workspace\<lparr>ws_kind := ''read_only''\<rparr>]) sample_worked"

lemma store_ok_sample_shared: "store_ok sample_shared"
proof -
  have "paths_ok sample_shared" by (simp add: paths_ok_def sample_shared_def)
  moreover have "keys_ok sample_shared" "refs_ok sample_shared"
    using store_ok_sample_worked
    by (simp_all add: store_ok_def keys_ok_def refs_ok_def sample_shared_def sample_worked_def)
  ultimately show ?thesis using store_ok_sample_worked by (simp add: store_ok_def sample_shared_def)
qed

definition sample_resubmission :: Resubmission where
  "sample_resubmission =
     \<lparr>rb_assignment_id = AssignmentId 9, rb_expected_result = ''r'', rb_result_commit = ''r2'',
      rb_summary = ''fixed'', rb_reason = ''review''\<rparr>"

definition sample_resubmit_mutation :: Mutation where
  "sample_resubmit_mutation =
     \<lparr>mu_id = OperationId 2, mu_run_id = RunId 1, mu_kind = ''task.resubmit'', mu_actor_agent_id = None,
      mu_request = JNull, mu_created_at = 8\<rparr>"

end
