(* ===== verification/Redaction.thy ===== *)
theory Redaction
  imports Values "HOL-Library.Sublist"
begin

section \<open>Credential redaction (src/src/redaction.rs)\<close>

text \<open>
  The streaming redactor: it copies bytes, replaces configured secrets and session tokens, and
  keeps back a suffix that may still grow into one. A byte is a \<open>char\<close>. The loop of \<open>drain\<close> does
  not end when an empty secret is configured (the match would have length zero), so it is a
  \<open>partial_function\<close>; \<open>add\<close> refuses empty secrets and \<open>drain_total\<close> shows that it then returns.
\<close>

definition REPLACEMENT :: string where "REPLACEMENT = ''[REDACTED]''"
definition TOKEN_PREFIX :: string where "TOKEN_PREFIX = ''cot1_''"
definition TOKEN_LENGTH :: nat where "TOKEN_LENGTH = 69"

record Redactor =
  secrets :: "string list"
  pending :: string

definition is_ascii_hexdigit :: "char \<Rightarrow> bool" where
  "is_ascii_hexdigit c \<longleftrightarrow>
     (let b = (of_char c :: nat)
      in (48 \<le> b \<and> b \<le> 57) \<or> (65 \<le> b \<and> b \<le> 70) \<or> (97 \<le> b \<and> b \<le> 102))"

definition empty_redactor :: Redactor where
  "empty_redactor = \<lparr>secrets = [], pending = []\<rparr>"

definition add :: "string \<Rightarrow> Redactor \<Rightarrow> Redactor" where
  "add secret r =
     (if secret \<noteq> [] \<and> \<not> list_ex (\<lambda>s. s = secret) (secrets r)
      then r\<lparr>secrets := secrets r @ [secret]\<rparr> else r)"

text \<open>The values of \<open>OPENAI_API_KEY\<close> and \<open>COTERIE_TOKEN\<close> in the environment, where set.\<close>

definition from_environment :: "(string \<Rightarrow> string option) \<Rightarrow> Redactor" where
  "from_environment env =
     fold (\<lambda>name r. case env name of None \<Rightarrow> r | Some v \<Rightarrow> add v r)
       [''OPENAI_API_KEY'', ''COTERIE_TOKEN''] empty_redactor"

definition token_partial :: "string \<Rightarrow> bool" where
  "token_partial remaining \<longleftrightarrow> length remaining < TOKEN_LENGTH \<and>
     (prefix remaining TOKEN_PREFIX
      \<or> prefix TOKEN_PREFIX remaining
        \<and> list_all is_ascii_hexdigit (drop (length TOKEN_PREFIX) remaining))"

definition is_partial :: "string list \<Rightarrow> string \<Rightarrow> bool" where
  "is_partial S remaining \<longleftrightarrow> token_partial remaining \<or>
     list_ex (\<lambda>secret. length remaining < length secret \<and> prefix remaining secret) S"

definition starts_with_token :: "string \<Rightarrow> bool" where
  "starts_with_token remaining \<longleftrightarrow> TOKEN_LENGTH \<le> length remaining \<and> prefix TOKEN_PREFIX remaining
     \<and> list_all is_ascii_hexdigit (take (TOKEN_LENGTH - length TOKEN_PREFIX)
         (drop (length TOKEN_PREFIX) remaining))"

definition match_lengths :: "string list \<Rightarrow> string \<Rightarrow> nat list" where
  "match_lengths S remaining =
     map length (filter (\<lambda>s. prefix s remaining) S)
     @ (if starts_with_token remaining then [TOKEN_LENGTH] else [])"

definition longest_match :: "string list \<Rightarrow> string \<Rightarrow> nat option" where
  "longest_match S remaining =
     (if match_lengths S remaining = [] then None else Some (Max (set (match_lengths S remaining))))"

partial_function (option) drain :: "string list \<Rightarrow> bool \<Rightarrow> string \<Rightarrow> (string \<times> string) option" where
  "drain S end_of_stream remaining =
     (if remaining = [] then Some ([], [])
      else if is_partial S remaining
      then Some (if end_of_stream then (REPLACEMENT, []) else ([], remaining))
      else (case longest_match S remaining of
              Some n \<Rightarrow> Option.bind (drain S end_of_stream (drop n remaining))
                (\<lambda>(out, rest). Some (REPLACEMENT @ out, rest))
            | None \<Rightarrow> Option.bind (drain S end_of_stream (tl remaining))
                (\<lambda>(out, rest). Some (hd remaining # out, rest))))"

definition push :: "string \<Rightarrow> Redactor \<Rightarrow> (string \<times> Redactor) option" where
  "push bytes r =
     map_option (\<lambda>(out, rest). (out, r\<lparr>pending := rest\<rparr>)) (drain (secrets r) False (pending r @ bytes))"

definition finish :: "Redactor \<Rightarrow> (string \<times> Redactor) option" where
  "finish r = map_option (\<lambda>(out, rest). (out, r\<lparr>pending := rest\<rparr>)) (drain (secrets r) True (pending r))"

text \<open>The loop of a caller that pushes its chunks in turn and finishes.\<close>

fun feed :: "string list \<Rightarrow> Redactor \<Rightarrow> (string \<times> Redactor) option" where
  "feed [] r = finish r"
| "feed (c # cs) r =
     Option.bind (push c r) (\<lambda>(o1, r1).
       Option.bind (feed cs r1) (\<lambda>(o2, r2). Some (o1 @ o2, r2)))"

text \<open>
  \<open>text\<close>: a NUL delimiter is pushed after the value and popped from the output. The lossy UTF-8
  conversion at the end is the identity on bytes here.
\<close>

definition text_redacted :: "(string \<Rightarrow> string option) \<Rightarrow> string \<Rightarrow> string option" where
  "text_redacted env value =
     Option.bind (push (value @ [char_of (0::nat)]) (from_environment env)) (\<lambda>(o1, r1).
       Option.bind (finish r1) (\<lambda>(o2, r2). Some (butlast (o1 @ o2))))"

subsection \<open>The secrets of a redactor are never empty, so draining returns\<close>

definition nonempty_secrets :: "string list \<Rightarrow> bool" where
  "nonempty_secrets S \<longleftrightarrow> (\<forall>s \<in> set S. s \<noteq> [])"

lemma add_nonempty: "nonempty_secrets (secrets r) \<Longrightarrow> nonempty_secrets (secrets (add s r))"
  by (auto simp: add_def nonempty_secrets_def)

lemma fold_add_nonempty:
  "nonempty_secrets (secrets r) \<Longrightarrow> nonempty_secrets (secrets (fold add ss r))"
  by (induction ss arbitrary: r) (simp_all add: add_nonempty)

lemma fold_add_pending [simp]: "pending (fold add ss r) = pending r"
  by (induction ss arbitrary: r) (simp_all add: add_def)

lemma from_environment_nonempty: "nonempty_secrets (secrets (from_environment env))"
  by (auto simp: from_environment_def empty_redactor_def nonempty_secrets_def add_def
      split: option.splits)

lemma longest_match_Some:
  assumes "longest_match S r = Some n"
  shows "(\<exists>s \<in> set S. prefix s r \<and> n = length s) \<or> (starts_with_token r \<and> n = TOKEN_LENGTH)"
proof -
  have "match_lengths S r \<noteq> []" "n = Max (set (match_lengths S r))"
    using assms by (auto simp: longest_match_def split: if_splits)
  then have "n \<in> set (match_lengths S r)" by simp
  then show ?thesis by (auto simp: match_lengths_def split: if_splits)
qed

lemma longest_match_None:
  "longest_match S r = None \<longleftrightarrow> (\<forall>s \<in> set S. \<not> prefix s r) \<and> \<not> starts_with_token r"
  by (auto simp: longest_match_def match_lengths_def filter_empty_conv)

lemma longest_match_pos: "nonempty_secrets S \<Longrightarrow> longest_match S r = Some n \<Longrightarrow> 0 < n"
  using longest_match_Some [of S r n] by (auto simp: nonempty_secrets_def TOKEN_LENGTH_def)

lemma longest_match_le: "longest_match S r = Some n \<Longrightarrow> n \<le> length r"
  using longest_match_Some [of S r n] by (auto simp: starts_with_token_def dest: prefix_length_le)

lemma drain_Nil [simp]: "drain S e [] = Some ([], [])"
  by (simp add: drain.simps)

lemma drain_total: "nonempty_secrets S \<Longrightarrow> \<exists>out rest. drain S e r = Some (out, rest)"
proof (induction r rule: length_induct)
  case (1 r)
  have IH0: "\<exists>out rest. drain S e q = Some (out, rest)" if "length q < length r" for q
    using 1 that by blast
  show ?case
  proof (cases "r = [] \<or> is_partial S r")
    case True
    then show ?thesis by (subst drain.simps) auto
  next
    case False
    have IH: "\<exists>out rest. drain S e (drop n r) = Some (out, rest)" if "0 < n" for n
      using IH0 [of "drop n r"] False that by simp
    obtain o1 r1 where tl: "drain S e (tl r) = Some (o1, r1)"
      using IH [of 1] by (auto simp: drop_Suc)
    show ?thesis
    proof (cases "longest_match S r")
      case None
      with False tl show ?thesis by (subst drain.simps) simp
    next
      case (Some n)
      obtain o2 r2 where "drain S e (drop n r) = Some (o2, r2)"
        using IH [OF longest_match_pos [OF 1(2) Some]] by blast
      with False Some show ?thesis by (subst drain.simps) simp
    qed
  qed
qed

text \<open>
  Property C37. A redactor made by the program's own operations always returns: whatever secrets
  are added and whatever chunks are pushed, feeding and finishing produces an output.
\<close>

theorem redactor_always_returns:
  "\<exists>out r'. feed chunks (fold add ss (from_environment env)) = Some (out, r')"
proof -
  have "\<exists>out r'. feed chunks r = Some (out, r')" if "nonempty_secrets (secrets r)" for r
    using that
  proof (induction chunks arbitrary: r)
    case Nil
    then show ?case using drain_total [of "secrets r" True "pending r"] by (auto simp: finish_def)
  next
    case (Cons c cs)
    then obtain o1 p1 where "drain (secrets r) False (pending r @ c) = Some (o1, p1)"
      using drain_total by blast
    then show ?case using Cons.IH [of "r\<lparr>pending := p1\<rparr>"] Cons.prems by (force simp: push_def)
  qed
  then show ?thesis using fold_add_nonempty [OF from_environment_nonempty] by blast
qed

subsection \<open>Chunk boundaries do not matter\<close>

lemma partial_extend:
  assumes "\<not> is_partial S r" "r \<noteq> []"
  shows "\<not> is_partial S (r @ b)"
proof
  assume "is_partial S (r @ b)"
  then consider "token_partial (r @ b)"
    | s where "s \<in> set S" "length (r @ b) < length s" "prefix (r @ b) s"
    by (auto simp: is_partial_def list_ex_iff)
  then show False
  proof cases
    case 1
    then have "token_partial r"
      using prefix_order.trans [of r "r @ b" TOKEN_PREFIX] prefix_same_cases [of r "r @ b" TOKEN_PREFIX]
      by (auto simp: token_partial_def)
    with assms show False by (simp add: is_partial_def)
  next
    case 2
    then have "length r < length s" "prefix r s" by (auto dest: append_prefixD)
    with assms 2 show False by (auto simp: is_partial_def list_ex_iff)
  qed
qed

lemma starts_with_token_extend:
  assumes "\<not> token_partial r"
  shows "starts_with_token (r @ b) = starts_with_token r"
proof (cases "TOKEN_LENGTH \<le> length r")
  case True
  then have "length TOKEN_PREFIX \<le> length r" by (simp add: TOKEN_LENGTH_def TOKEN_PREFIX_def)
  then have "prefix TOKEN_PREFIX (r @ b) = prefix TOKEN_PREFIX r"
    using prefix_length_prefix [of TOKEN_PREFIX "r @ b" r] by (auto simp: prefix_append)
  with True show ?thesis by (simp add: starts_with_token_def TOKEN_LENGTH_def TOKEN_PREFIX_def)
next
  case False
  have "\<not> starts_with_token (r @ b)"
  proof
    assume t: "starts_with_token (r @ b)"
    then consider "prefix r TOKEN_PREFIX" | "prefix TOKEN_PREFIX r"
      using prefix_same_cases [of r "r @ b" TOKEN_PREFIX] by (auto simp: starts_with_token_def)
    then show False
    proof cases
      case 1
      with False assms show False by (simp add: token_partial_def)
    next
      case 2
      then obtain q where q: "r = TOKEN_PREFIX @ q" by (auto elim: prefixE)
      then have "list_all is_ascii_hexdigit q"
        using t False by (auto simp: starts_with_token_def list_all_iff TOKEN_LENGTH_def TOKEN_PREFIX_def)
      with False assms q show False by (simp add: token_partial_def)
    qed
  qed
  with False show ?thesis by (simp add: starts_with_token_def)
qed

lemma longest_match_extend:
  assumes "\<not> is_partial S r" "r \<noteq> []"
  shows "longest_match S (r @ b) = longest_match S r"
proof -
  have "prefix s (r @ b) = prefix s r" if "s \<in> set S" for s
  proof
    assume p: "prefix s (r @ b)"
    then have "prefix s r \<or> prefix r s" using prefix_same_cases [of s "r @ b" r] by simp
    moreover have "\<not> (length r < length s \<and> prefix r s)"
      using assms that by (auto simp: is_partial_def list_ex_iff)
    ultimately show "prefix s r" using prefix_length_prefix [OF p, of r] by (cases "length r < length s") auto
  qed (simp add: prefix_append)
  then have "filter (\<lambda>s. prefix s (r @ b)) S = filter (\<lambda>s. prefix s r) S"
    by (simp cong: filter_cong)
  moreover have "starts_with_token (r @ b) = starts_with_token r"
    using assms by (intro starts_with_token_extend) (simp add: is_partial_def)
  ultimately have "match_lengths S (r @ b) = match_lengths S r" by (simp add: match_lengths_def)
  then show ?thesis by (simp add: longest_match_def)
qed

lemma drain_step:
  assumes "r \<noteq> []" "\<not> is_partial S r"
  shows "drain S e r =
    (case longest_match S r of
       Some n \<Rightarrow> Option.bind (drain S e (drop n r)) (\<lambda>(out, rest). Some (REPLACEMENT @ out, rest))
     | None \<Rightarrow> Option.bind (drain S e (tl r)) (\<lambda>(out, rest). Some (hd r # out, rest)))"
  using assms by (subst drain.simps) simp

lemma drain_partial: "r \<noteq> [] \<Longrightarrow> is_partial S r \<Longrightarrow>
    drain S e r = Some (if e then (REPLACEMENT, []) else ([], r))"
  by (subst drain.simps) simp

lemma drain_split:
  assumes "nonempty_secrets S" "drain S False a = Some (o1, p)"
  shows "drain S e (a @ b) = Option.bind (drain S e (p @ b)) (\<lambda>(o2, r2). Some (o1 @ o2, r2))"
  using assms(2)
proof (induction a arbitrary: o1 rule: length_induct)
  case (1 a)
  show ?case
  proof (cases "a = [] \<or> is_partial S a")
    case True
    then have "o1 = []" "p = a" using 1(2) by (cases "a = []"; simp add: drain_partial)+
    then show ?thesis by (cases "drain S e (a @ b)") auto
  next
    case False
    then have ab: "a @ b \<noteq> []" "\<not> is_partial S (a @ b)"
      and same: "longest_match S (a @ b) = longest_match S a"
      by (auto simp: partial_extend longest_match_extend)
    have IH: "drain S e (q @ b) = Option.bind (drain S e (p @ b)) (\<lambda>(o2, r2). Some (o' @ o2, r2))"
      if "length q < length a" "drain S False q = Some (o', p)" for q o'
      using 1(1) that by blast
    show ?thesis
    proof (cases "longest_match S a")
      case None
      then obtain o' where o': "drain S False (tl a) = Some (o', p)" "o1 = hd a # o'"
        using False 1(2) drain_step [of a S False] by (auto simp: bind_eq_Some_conv)
      then show ?thesis
        using False IH [of "tl a" o'] drain_step [OF ab, of e] same None
        by (auto split: Option.bind_splits)
    next
      case (Some n)
      then obtain o' where o': "drain S False (drop n a) = Some (o', p)" "o1 = REPLACEMENT @ o'"
        using False 1(2) drain_step [of a S False] by (auto simp: bind_eq_Some_conv)
      have "length (drop n a) < length a" "n \<le> length a"
        using False longest_match_pos [OF assms(1) Some] longest_match_le [OF Some] by auto
      then show ?thesis
        using IH [of "drop n a" o'] o' drain_step [OF ab, of e] same Some
        by (auto split: Option.bind_splits)
    qed
  qed
qed

lemma feed_concat:
  assumes "nonempty_secrets (secrets r)"
  shows "map_option fst (feed chunks r) =
    map_option fst (drain (secrets r) True (pending r @ concat chunks))"
  using assms
proof (induction chunks arbitrary: r)
  case Nil
  then show ?case by (simp add: finish_def option.map_comp comp_def case_prod_beta)
next
  case (Cons c cs)
  obtain o1 p1 where d: "drain (secrets r) False (pending r @ c) = Some (o1, p1)"
    using drain_total [OF Cons.prems] by blast
  have "map_option fst (feed cs (r\<lparr>pending := p1\<rparr>)) =
      map_option fst (drain (secrets r) True (p1 @ concat cs))"
    using Cons.IH [of "r\<lparr>pending := p1\<rparr>"] Cons.prems by simp
  then show ?case
    using d drain_split [OF Cons.prems d, of True "concat cs"]
    by (cases "feed cs (r\<lparr>pending := p1\<rparr>)"; cases "drain (secrets r) True (p1 @ concat cs)")
      (auto simp: push_def)
qed

text \<open>
  Property C35. Redaction does not depend on how a stream is cut: for any secrets the program can
  configure, two ways of chunking the same bytes give the same redacted output, so a secret split
  over a chunk boundary is redacted like one that is not.
\<close>

theorem redaction_ignores_chunk_boundaries:
  assumes "concat chunks = concat chunks'"
  shows "map_option fst (feed chunks (fold add ss (from_environment env)))
       = map_option fst (feed chunks' (fold add ss (from_environment env)))"
  using feed_concat [OF fold_add_nonempty [OF from_environment_nonempty]] assms by simp

theorem redaction_ignores_chunk_boundaries_witness:
  "concat [''my key: abc'', ''def!''] = concat [''my key: abcdef!'']
   \<and> map_option fst (feed [''my key: abc'', ''def!''] (fold add [''abcdef''] (from_environment Map.empty)))
     = map_option fst (feed [''my key: abcdef!''] (fold add [''abcdef''] (from_environment Map.empty)))"
proof -
  have c: "concat [''my key: abc'', ''def!''] = concat [''my key: abcdef!'']" by simp
  show ?thesis using c redaction_ignores_chunk_boundaries [OF c] by blast
qed

subsection \<open>What is concealed\<close>

text \<open>
  The same pass with every concealed stretch marked instead of replaced: the reference against
  which concealment is stated, since the replacement text could itself spell part of a secret.
\<close>

partial_function (option) marked :: "string list \<Rightarrow> string \<Rightarrow> char option list option" where
  "marked S remaining =
     (if remaining = [] then Some []
      else if is_partial S remaining then Some [None]
      else (case longest_match S remaining of
              Some n \<Rightarrow> Option.bind (marked S (drop n remaining)) (\<lambda>out. Some (None # out))
            | None \<Rightarrow> Option.bind (marked S (tl remaining)) (\<lambda>out. Some (Some (hd remaining) # out))))"

definition unmark :: "char option list \<Rightarrow> string" where
  "unmark ms = concat (map (\<lambda>m. case m of None \<Rightarrow> REPLACEMENT | Some c \<Rightarrow> [c]) ms)"

lemma drain_marked:
  assumes "nonempty_secrets S"
  shows "\<exists>ms. marked S r = Some ms \<and> drain S True r = Some (unmark ms, [])"
proof (induction r rule: length_induct)
  case (1 r)
  have IH: "\<exists>ms. marked S q = Some ms \<and> drain S True q = Some (unmark ms, [])"
    if "length q < length r" for q
    using 1 that by blast
  show ?case
  proof (cases "r = [] \<or> is_partial S r")
    case True
    then show ?thesis by (auto simp: marked.simps [of S r] drain_partial unmark_def)
  next
    case False
    show ?thesis
    proof (cases "longest_match S r")
      case None
      obtain ms where "marked S (tl r) = Some ms" "drain S True (tl r) = Some (unmark ms, [])"
        using IH [of "tl r"] False by auto
      with False None show ?thesis
        by (auto simp: marked.simps [of S r] drain_step unmark_def)
    next
      case (Some n)
      have "length (drop n r) < length r" using False longest_match_pos [OF assms Some] by simp
      then obtain ms where "marked S (drop n r) = Some ms" "drain S True (drop n r) = Some (unmark ms, [])"
        using IH by blast
      with False Some show ?thesis
        by (auto simp: marked.simps [of S r] drain_step unmark_def)
    qed
  qed
qed

lemma marked_prefix:
  assumes "marked S r = Some ms" "prefix (map Some s) ms"
  shows "prefix s r"
  using assms
proof (induction s arbitrary: r ms)
  case Nil
  then show ?case by simp
next
  case (Cons c s)
  from Cons.prems have ne: "r \<noteq> []" "\<not> is_partial S r" "longest_match S r = None"
    by (auto simp: marked.simps [of S r] bind_eq_Some_conv split: if_splits option.splits)
  then obtain ms' where "marked S (tl r) = Some ms'" "ms = Some (hd r) # ms'"
    using Cons.prems(1) by (auto simp: marked.simps [of S r] bind_eq_Some_conv)
  moreover from this have "prefix (map Some s) ms'" "c = hd r" using Cons.prems(2) by auto
  ultimately have "prefix s (tl r)" using Cons.IH by blast
  then show ?case using ne \<open>c = hd r\<close> by (cases r) auto
qed

definition sensitive :: "string list \<Rightarrow> string \<Rightarrow> bool" where
  "sensitive S s \<longleftrightarrow> s \<in> set S \<or> (length s = TOKEN_LENGTH \<and> starts_with_token s)"

lemma sensitive_match:
  assumes "sensitive S s" "prefix s r" shows "longest_match S r \<noteq> None"
proof -
  have "starts_with_token r" if "length s = TOKEN_LENGTH" "starts_with_token s"
    using that assms(2) by (auto simp: starts_with_token_def TOKEN_LENGTH_def TOKEN_PREFIX_def
        elim!: prefixE)
  with assms show ?thesis by (auto simp: longest_match_None sensitive_def)
qed

lemma marked_conceals:
  assumes "nonempty_secrets S" "sensitive S s" "s \<noteq> []"
  shows "marked S r = Some ms \<Longrightarrow> \<not> sublist (map Some s) ms"
proof (induction r arbitrary: ms rule: length_induct)
  case (1 r)
  have IH: "\<not> sublist (map Some s) ms'" if "length q < length r" "marked S q = Some ms'" for q ms'
    using 1(1) that by blast
  have here: "\<not> prefix (map Some s) ms"
  proof
    assume p: "prefix (map Some s) ms"
    then have "longest_match S r \<noteq> None"
      using marked_prefix [OF 1(2) p] sensitive_match [OF assms(2)] by blast
    moreover from p assms(3) 1(2) have "longest_match S r = None"
      by (cases s) (auto simp: marked.simps [of S r] bind_eq_Some_conv split: if_splits option.splits)
    ultimately show False by simp
  qed
  show ?case
  proof (cases ms)
    case Nil
    with assms(3) show ?thesis by simp
  next
    case (Cons m ms')
    have "\<not> sublist (map Some s) ms'"
    proof (cases "is_partial S r")
      case True
      with 1(2) Cons have "ms' = []" by (auto simp: marked.simps [of S r] split: if_splits)
      with assms(3) show ?thesis by simp
    next
      case False
      have ne: "r \<noteq> []" using 1(2) Cons by (auto simp: marked.simps [of S r])
      show ?thesis
      proof (cases "longest_match S r")
        case None
        then have "marked S (tl r) = Some ms'"
          using 1(2) Cons False ne by (auto simp: marked.simps [of S r] bind_eq_Some_conv)
        with ne show ?thesis using IH [of "tl r"] by simp
      next
        case (Some n)
        then have "marked S (drop n r) = Some ms'"
          using 1(2) Cons False ne by (auto simp: marked.simps [of S r] bind_eq_Some_conv)
        moreover have "length (drop n r) < length r"
          using ne longest_match_pos [OF assms(1) Some] by simp
        ultimately show ?thesis using IH by blast
      qed
    qed
    with here Cons show ?thesis by (simp add: sublist_Cons_right)
  qed
qed

text \<open>
  Property C36. No configured secret and no session token is copied through: whatever the chunks,
  the output is the marked pass with its marks replaced, and no run of copied bytes of that pass
  contains a secret or a token.
\<close>

theorem redaction_conceals_secrets:
  assumes "sensitive (secrets (fold add ss (from_environment env))) s" "s \<noteq> []"
  shows "\<exists>ms. map_option fst (feed chunks (fold add ss (from_environment env))) = Some (unmark ms)
    \<and> \<not> sublist (map Some s) ms"
proof -
  let ?r = "fold add ss (from_environment env)"
  have S: "nonempty_secrets (secrets ?r)"
    by (rule fold_add_nonempty [OF from_environment_nonempty])
  have P: "pending ?r = []"
    by (auto simp: from_environment_def empty_redactor_def add_def split: option.splits)
  obtain ms where ms: "marked (secrets ?r) (concat chunks) = Some ms"
    "drain (secrets ?r) True (concat chunks) = Some (unmark ms, [])"
    using drain_marked [OF S] by blast
  then have "map_option fst (feed chunks ?r) = Some (unmark ms)"
    using feed_concat [OF S, of chunks] P by simp
  then show ?thesis using marked_conceals [OF S assms ms(1)] by blast
qed

theorem redaction_conceals_secrets_witness:
  "\<exists>ms. map_option fst (feed [''k=ab'', ''c;''] (fold add [''abc''] (from_environment Map.empty)))
      = Some (unmark ms) \<and> \<not> sublist (map Some ''abc'') ms"
proof -
  have "sensitive (secrets (fold add [''abc''] (from_environment Map.empty))) ''abc''"
    by (simp add: sensitive_def add_def from_environment_def empty_redactor_def)
  moreover have "''abc'' \<noteq> ([] :: string)" by simp
  ultimately show ?thesis by (rule redaction_conceals_secrets)
qed

end
