(* ===== verification/Reconciliation.thy ===== *)
theory Reconciliation
  imports Workspaces Redaction
begin

section \<open>Reconciliation of external effects (src/src/state.rs)\<close>

text \<open>
  The durable knowledge about the external effect of an operation: the intent, then what was
  found out about it, with the number of attempts and the last error. Errors are redacted before
  they are stored. The recorded result of a completed mutation is never touched.
\<close>

definition operation_reconciliation_event ::
    "Env \<Rightarrow> OperationRecord \<Rightarrow> ExternalResourceState option \<Rightarrow> ExternalResourceState \<Rightarrow> string option \<Rightarrow> int \<Rightarrow> NewEvent" where
  "operation_reconciliation_event e r previous state err at =
     \<lparr>ne_run_id = op_run_id r, ne_kind = OperationReconciliationChanged, ne_actor = ''reconciler'',
      ne_subject = operation_text e (op_id r), ne_project_id = None, ne_agent_id = op_actor_agent_id r,
      ne_task_id = None, ne_operation_id = Some (op_id r), ne_correlation_id = None,
      ne_causation_id = None,
      ne_data = JObj [(''error'', json_opt JStr err),
        (''previous_state'', json_opt (\<lambda>s. JStr (resource_as_str s)) previous),
        (''state'', JStr (resource_as_str state))],
      ne_summary = ''Operation '' @ operation_text e (op_id r) @ '' reconciliation changed to ''
        @ resource_as_str state @ ''.'',
      ne_created_at = at\<rparr>"

definition append_operation_reconciliation_event ::
    "Env \<Rightarrow> OperationRecord \<Rightarrow> ExternalResourceState option \<Rightarrow> ExternalResourceState \<Rightarrow> string option \<Rightarrow> int \<Rightarrow> unit repo" where
  "append_operation_reconciliation_event e r previous state err at =
     bind (append_event e (operation_reconciliation_event e r previous state err at)) (\<lambda>_. ret ())"

definition mark_operation_reconciliation_desired :: "Env \<Rightarrow> operation_id \<Rightarrow> unit repo" where
  "mark_operation_reconciliation_desired e i =
     (let fresh = (\<lambda>r. op_id r = i \<and> op_reconciliation_state r = None) in
      bind (gets (\<lambda>db. count_where fresh (operations db))) (\<lambda>updated.
      seq (modify (operations_update (update_where fresh
             (\<lambda>r. r\<lparr>op_reconciliation_state := Some RDesired, op_reconciliation_error := None,
                    op_reconciled_at := None\<rparr>))))
      (bind (gets (\<lambda>db. find_operation db i)) (\<lambda>found.
       if updated = 1 then
         (case found of
            None \<Rightarrow> fail (OperationIncomplete i ''external reconciliation intent disappeared'')
          | Some r \<Rightarrow> append_operation_reconciliation_event e r None RDesired None (op_created_at r))
       else if (case found of None \<Rightarrow> False | Some r \<Rightarrow> op_reconciliation_state r = Some RDesired) then ret ()
       else fail (OperationIncomplete i ''missing external reconciliation intent'')))))"

text \<open>\<open>error.map(redaction::text)\<close>; redaction always returns (\<open>redactor_always_returns\<close>).\<close>

definition redact_error :: "Env \<Rightarrow> string option \<Rightarrow> string option option" where
  "redact_error e err =
     (case err of None \<Rightarrow> Some None | Some s \<Rightarrow> map_option Some (text_redacted (env_vars e) s))"

definition record_operation_reconciliation ::
    "Env \<Rightarrow> operation_id \<Rightarrow> ExternalResourceState \<Rightarrow> string option \<Rightarrow> int \<Rightarrow> ResourceTransitionOutcome repo" where
  "record_operation_reconciliation e i state raw at =
     (case redact_error e raw of
        None \<Rightarrow> fail Panic
      | Some err \<Rightarrow>
          bind (gets (\<lambda>db. find_operation db i)) (\<lambda>found.
          case found of None \<Rightarrow> ret WStale
          | Some r \<Rightarrow>
              if op_reconciliation_state r = None then ret WStale
              else
                (let outcome = (if op_reconciliation_state r = Some state \<and> op_reconciliation_error r = err
                                then WUnchanged else WApplied) in
                 seq (modify (operations_update (update_where
                        (\<lambda>x. op_id x = i \<and> op_reconciliation_state x \<noteq> None)
                        (\<lambda>x. x\<lparr>op_reconciliation_state := Some state,
                               op_reconciliation_attempt_count := op_reconciliation_attempt_count x + 1,
                               op_reconciliation_error := err, op_reconciled_at := Some at\<rparr>))))
                 (seq (if outcome = WApplied
                       then append_operation_reconciliation_event e r (op_reconciliation_state r) state err at
                       else ret ())
                      (ret outcome)))))"

lemma safe_append_operation_reconciliation_event [safe_intros]:
  "safe (append_operation_reconciliation_event e r p s err at)"
  unfolding append_operation_reconciliation_event_def by (intro safe_intros)

lemma safe_operations_modify:
  assumes "\<And>r. p r \<Longrightarrow> op_id (f r) = op_id r \<and> op_kind (f r) = op_kind r \<and> receipt r (f r)"
  shows "safe (modify (operations_update (update_where p f)))"
  using assms by (intro safe_modify) (auto simp: store_ok_operations_update extends_table intro!: grows_update_where)

lemma safe_mark_operation_reconciliation_desired [safe_intros]:
  "safe (mark_operation_reconciliation_desired e i)"
  unfolding mark_operation_reconciliation_desired_def Let_def
  by (intro safe_intros safe_operations_modify) (auto simp: receipt_def)

lemma safe_record_operation_reconciliation [safe_intros]:
  "safe (record_operation_reconciliation e i state raw at)"
  unfolding record_operation_reconciliation_def Let_def
  by (intro safe_intros safe_operations_modify) (auto simp: receipt_def)

end
