(* ===== verification/Supervision.thy ===== *)
theory Supervision
  imports Reconciliation
begin

section \<open>Launches, deadlines and crash loops (src/src/state/supervision.rs)\<close>

text \<open>
  Restart admission with back-off and quarantine, deadline warnings, the idle cursor and the
  quarantine of crash loops. Times are in seconds or milliseconds as in the code; 64-bit
  saturation is written out.
\<close>

fun shutdown_phase_str :: "ShutdownPhase \<Rightarrow> string" where
  "shutdown_phase_str Interrupting = ''interrupting''"
| "shutdown_phase_str Terminating = ''terminating''"
| "shutdown_phase_str Reconciling = ''reconciling''"
| "shutdown_phase_str ShutdownTimedOut = ''timed_out''"
| "shutdown_phase_str ShutdownCompleted = ''completed''"

fun control_phase_str :: "ControlPhase \<Rightarrow> string" where
  "control_phase_str Interrupt = ''interrupt''"
| "control_phase_str Terminate = ''terminate''"
| "control_phase_str Kill = ''kill''"
| "control_phase_str ControlTimedOut = ''timed_out''"
| "control_phase_str ControlCompleted = ''completed''"

fun control_reason_str :: "ControlReason \<Rightarrow> string" where
  "control_reason_str Shutdown = ''shutdown''"
| "control_reason_str StartupTimeout = ''startup_timeout''"
| "control_reason_str ExecutionTimeout = ''execution_timeout''"

definition job_warning_window :: "int \<Rightarrow> int" where
  "job_warning_window timeout_seconds = max 1 (min 300 (quot_i64 timeout_seconds 10))"

definition supervision_event ::
    "Env \<Rightarrow> run_id \<Rightarrow> EventKind \<Rightarrow> string \<Rightarrow> agent_id option \<Rightarrow> operation_id option \<Rightarrow> json \<Rightarrow> string \<Rightarrow> int \<Rightarrow> unit repo" where
  "supervision_event e run kind subject agent operation data summary now_ms =
     bind (append_event e
       \<lparr>ne_run_id = run, ne_kind = kind, ne_actor = ''supervisor'', ne_subject = subject,
        ne_project_id = None, ne_agent_id = agent, ne_task_id = None, ne_operation_id = operation,
        ne_correlation_id = None, ne_causation_id = None, ne_data = data, ne_summary = summary,
        ne_created_at = quot_i64 now_ms 1000\<rparr>) (\<lambda>_. ret ())"

lemma safe_supervision_event [safe_intros]: "safe (supervision_event e r k s a i d t n)"
  unfolding supervision_event_def by (intro safe_intros)

definition find_run_shutdown :: "Db \<Rightarrow> run_id \<Rightarrow> RunShutdown option" where
  "find_run_shutdown db run = find (\<lambda>s. rs_run_id s = run) (run_shutdowns db)"

subsection \<open>Deadlines and idleness\<close>

definition deadline_warned :: "Env \<Rightarrow> Db \<Rightarrow> SessionScope \<Rightarrow> bool" where
  "deadline_warned e db s \<longleftrightarrow>
     exists_row (\<lambda>x. ev_run_id x = sc_run_id s \<and> ev_type x = ''session.deadline_approaching''
        \<and> ev_subject x = session_text e (sc_session_id s)
        \<and> json_path [''data'', ''generation''] (ev_payload x) = Some (JInt (sc_generation s))) (events db)"

definition warn_job_deadline :: "Env \<Rightarrow> SessionScope \<Rightarrow> int \<Rightarrow> int \<Rightarrow> unit repo" where
  "warn_job_deadline e s deadline_at now_ms =
     bind (gets (\<lambda>db. session_scope_is_current db s)) (\<lambda>current.
     if \<not> current then ret ()
     else bind (gets (\<lambda>db. deadline_warned e db s)) (\<lambda>warned.
       if warned then ret ()
       else supervision_event e (sc_run_id s) SessionDeadlineApproaching (session_text e (sc_session_id s))
         (Some (sc_agent_id s)) None
         (JObj [(''deadline_at'', JInt deadline_at), (''generation'', JInt (sc_generation s))])
         ''Background job deadline is approaching; complete pending review and commit handoff before the worker exits.''
         now_ms))"

definition idle_shutdown_cursor :: "Db \<Rightarrow> run_id \<Rightarrow> int option" where
  "idle_shutdown_cursor db run =
     (if exists_row (\<lambda>r. rn_id r = run \<and> rn_status r = ''active'') (runs db)
        \<and> \<not> exists_row (\<lambda>s. rs_run_id s = run) (run_shutdowns db)
        \<and> \<not> exists_row (\<lambda>s. se_run_id s = run
              \<and> (se_state s \<noteq> Exited \<or> se_reconciliation_state s \<noteq> RObserved)) (sessions db)
        \<and> \<not> exists_row (\<lambda>a. ag_run_id a = run \<and> ag_state a \<in> {Starting, Running, Unknown}) (agents db)
        \<and> \<not> exists_row (\<lambda>r. op_run_id r = run \<and> (op_status r = ''pending''
              \<or> op_reconciliation_state r \<in> {Some RDesired, Some RUnknown})) (operations db)
        \<and> \<not> exists_row (\<lambda>c. sc_run_id (sn_scope c) = run \<and> sn_phase c \<noteq> ControlCompleted)
              (session_controls db)
        \<and> \<not> exists_row (\<lambda>w. ws_run_id w = run \<and> ws_state w \<in> {RDesired, RUnknown}) (workspaces db)
      then Some (max_or_zero (map ev_sequence (filter (\<lambda>x. ev_run_id x = run) (events db))))
      else None)"

subsection \<open>Launch admission\<close>

definition find_launch :: "Db \<Rightarrow> session_id \<Rightarrow> LaunchAttempt option" where
  "find_launch db i = find (\<lambda>l. sc_session_id (la_scope l) = i) (launch_attempts db)"

text \<open>\<open>INSERT .. ON CONFLICT(session_id) DO UPDATE\<close>: the quarantine flag is not touched.\<close>

definition upsert_launch :: "SessionScope \<Rightarrow> int \<Rightarrow> int \<Rightarrow> int \<Rightarrow> unit repo" where
  "upsert_launch s window attempts next_at =
     bind (gets (\<lambda>db. find_launch db (sc_session_id s))) (\<lambda>found.
     case found of
       Some _ \<Rightarrow>
         seq (require (0 < attempts) Database)
           (modify (launch_attempts_update (update_where (\<lambda>l. sc_session_id (la_scope l) = sc_session_id s)
              (\<lambda>l. l\<lparr>la_window_started_at := window, la_attempts := attempts,
                     la_next_attempt_at := next_at, la_in_flight := True\<rparr>))))
     | None \<Rightarrow>
         insert_row (\<lambda>db l. control_fk_ok db (la_scope l) \<and> 0 \<le> sc_generation (la_scope l) \<and> 0 < la_attempts l)
           (\<lambda>l. launch_attempts_update (\<lambda>rows. rows @ [l]))
           \<lparr>la_scope = s, la_window_started_at = window, la_attempts = attempts,
            la_next_attempt_at = next_at, la_in_flight = True, la_quarantined = False\<rparr>)"

definition admit_session_launch :: "SessionScope \<Rightarrow> int \<Rightarrow> SupervisionPolicy \<Rightarrow> LaunchAdmission repo" where
  "admit_session_launch s now policy =
     bind (gets (\<lambda>db. session_scope_is_current db s \<and> find_run_shutdown db (sc_run_id s) = None)) (\<lambda>open_run.
     if \<not> open_run then ret LaunchUnknown
     else
       bind (gets (\<lambda>db. find_launch db (sc_session_id s))) (\<lambda>previous.
       let admit = (\<lambda>window attempts.
             let delay = sat_mul (restart_backoff_seconds policy) (2 ^ nat (min attempts 20)) in
             seq (upsert_launch s window (attempts + 1) (sat_add now delay)) (ret LaunchAllowed)) in
       case previous of
         None \<Rightarrow> admit now 0
       | Some l \<Rightarrow>
           if la_quarantined l then ret LaunchQuarantined
           else if la_in_flight l then ret LaunchUnknown
           else if now < la_next_attempt_at l then ret (Backoff (la_next_attempt_at l))
           else if restart_window_seconds policy \<le> sat_sub now (la_window_started_at l) then admit now 0
           else if max_launch_attempts policy \<le> la_attempts l then ret LaunchQuarantined
           else admit (la_window_started_at l) (la_attempts l)))"

definition fail_session_launch :: "Env \<Rightarrow> SessionScope \<Rightarrow> int \<Rightarrow> SupervisionPolicy \<Rightarrow> bool repo" where
  "fail_session_launch e s now policy =
     bind (gets (\<lambda>db. session_scope_is_current db s)) (\<lambda>current.
     if \<not> current then ret False
     else
       seq (modify (launch_attempts_update (update_where (\<lambda>l. sc_session_id (la_scope l) = sc_session_id s)
              (\<lambda>l. l\<lparr>la_in_flight := False, la_quarantined := (max_launch_attempts policy \<le> la_attempts l)\<rparr>))))
       (bind (gets (\<lambda>db. find_launch db (sc_session_id s))) (\<lambda>found.
        case found of
          None \<Rightarrow> fail Database
        | Some l \<Rightarrow>
            seq (if la_quarantined l
                 then supervision_event e (sc_run_id s) SessionRestartLimited
                   (session_text e (sc_session_id s)) (Some (sc_agent_id s)) None
                   (JObj [(''attempts'', JInt (max_launch_attempts policy)),
                          (''generation'', JInt (sc_generation s)), (''reason'', JStr ''launch_failures''),
                          (''window_seconds'', JInt (restart_window_seconds policy))])
                   ''Quarantined the session after repeated launch failures; inspect its task and workspace before recovery.''
                   (sat_mul now 1000)
                 else ret ())
                (ret (la_quarantined l)))))"

definition session_launch_is_retryable :: "Db \<Rightarrow> SessionScope \<Rightarrow> bool" where
  "session_launch_is_retryable db s \<longleftrightarrow>
     session_scope_is_current db s
     \<and> (case find_launch db (sc_session_id s) of
          None \<Rightarrow> False | Some l \<Rightarrow> \<not> la_in_flight l \<and> \<not> la_quarantined l)"

subsection \<open>Crash loops\<close>

definition agent_quarantine_until :: "Db \<Rightarrow> run_id \<Rightarrow> agent_id \<Rightarrow> int \<Rightarrow> int option" where
  "agent_quarantine_until db run agent now =
     (let untils = List.map_filter sf_quarantine_until
        (filter (\<lambda>f. sf_run_id f = run \<and> sf_agent_id f = agent
           \<and> (case sf_quarantine_until f of None \<Rightarrow> False | Some t \<Rightarrow> now < t)) (session_failures db)) in
      if untils = [] then None else Some (Max (set untils)))"

definition record_session_failure :: "Env \<Rightarrow> SessionScope \<Rightarrow> int \<Rightarrow> SupervisionPolicy \<Rightarrow> bool repo" where
  "record_session_failure e s now policy =
     bind (gets (\<lambda>db. session_scope_is_current db s)) (\<lambda>current.
     if \<not> current then ret False
     else
       bind (gets (\<lambda>db. exists_row (\<lambda>f. sf_session_id f = sc_session_id s) (session_failures db))) (\<lambda>known.
       if known then
         bind (gets (\<lambda>db. agent_quarantine_until db (sc_run_id s) (sc_agent_id s) now)) (\<lambda>until.
         ret (until \<noteq> None))
       else
         seq (insert_row (\<lambda>db f. session_exists db (sf_run_id f) (sf_agent_id f) (sf_session_id f))
                (\<lambda>f. session_failures_update (\<lambda>rows. rows @ [f]))
                \<lparr>sf_session_id = sc_session_id s, sf_run_id = sc_run_id s, sf_agent_id = sc_agent_id s,
                 sf_failed_at = now, sf_quarantine_until = None\<rparr>)
         (bind (gets (\<lambda>db. int (count_where (\<lambda>f. sf_run_id f = sc_run_id s \<and> sf_agent_id f = sc_agent_id s
                  \<and> sat_sub now (restart_window_seconds policy) < sf_failed_at f) (session_failures db))))
          (\<lambda>failures.
          if max_launch_attempts policy \<le> failures then
            (let until = sat_add now (restart_window_seconds policy) in
             seq (modify (session_failures_update (update_where (\<lambda>f. sf_session_id f = sc_session_id s)
                    (\<lambda>f. f\<lparr>sf_quarantine_until := Some until\<rparr>))))
             (seq (supervision_event e (sc_run_id s) SessionRestartLimited
                     (session_text e (sc_session_id s)) (Some (sc_agent_id s)) None
                     (JObj [(''failures'', JInt failures), (''generation'', JInt (sc_generation s)),
                            (''quarantine_until'', JInt until), (''reason'', JStr ''process_failures''),
                            (''window_seconds'', JInt (restart_window_seconds policy))])
                     ''Quarantined a crash loop; foreground replacement is blocked until the restart window expires.''
                     (sat_mul now 1000))
                  (ret True)))
          else ret False))))"

definition quarantine_unstarted_agent :: "Env \<Rightarrow> run_id \<Rightarrow> agent_id \<Rightarrow> operation_id \<Rightarrow> int \<Rightarrow> unit repo" where
  "quarantine_unstarted_agent e run agent operation now =
     bind (gets (\<lambda>db. find_agent db agent)) (\<lambda>found.
     case found of None \<Rightarrow> ret ()
     | Some a \<Rightarrow>
         bind (gets (\<lambda>db. latest_session_for_agent db run agent)) (\<lambda>latest.
         if ag_run_id a \<noteq> run \<or> ag_state a \<noteq> Starting \<or> latest \<noteq> None then ret ()
         else
           seq (modify (agents_update (update_where
                  (\<lambda>g. ag_id g = agent \<and> ag_run_id g = run \<and> ag_generation g = ag_generation a)
                  (\<lambda>g. g\<lparr>ag_state := Quarantined\<rparr>))))
               (supervision_event e run AgentLifecycleChanged (agent_text e agent) (Some agent) (Some operation)
                  (JObj [(''generation'', JInt (ag_generation a)), (''previous_state'', JStr ''starting''),
                         (''reason'', JStr ''preflight_failures''), (''state'', JStr ''quarantined'')])
                  ''Quarantined a launch after repeated preflight failures; no provider session was created.''
                  (sat_mul now 1000))))"

lemma safe_quarantine_unstarted_agent [safe_intros]: "safe (quarantine_unstarted_agent e r a i n)"
  unfolding quarantine_unstarted_agent_def
  by (intro safe_intros safe_modify)
    (auto simp: store_ok_agents_update extends_table agent_later_def intro!: grows_update_where)

lemma safe_warn_job_deadline [safe_intros]: "safe (warn_job_deadline e s d n)"
  unfolding warn_job_deadline_def by (intro safe_intros)

lemma safe_upsert_launch [safe_intros]: "safe (upsert_launch s w a n)"
  unfolding upsert_launch_def by (intro safe_intros safe_modify safe_insert_row) simp_all

lemma safe_admit_session_launch [safe_intros]: "safe (admit_session_launch s now p)"
  unfolding admit_session_launch_def Let_def by (intro safe_intros)

lemma safe_fail_session_launch [safe_intros]: "safe (fail_session_launch e s now p)"
  unfolding fail_session_launch_def by (intro safe_intros safe_modify) simp_all

lemma safe_record_session_failure [safe_intros]: "safe (record_session_failure e s now p)"
  unfolding record_session_failure_def Let_def
  by (intro safe_intros safe_modify safe_insert_row) simp_all

subsection \<open>What admission promises\<close>

lemma find_launch_append:
  "find_launch db i = None \<Longrightarrow>
   find_launch (launch_attempts_update (\<lambda>rows. rows @ [l]) db) i
     = (if sc_session_id (la_scope l) = i then Some l else None)"
  by (simp add: find_launch_def find_append)

lemma find_launch_update:
  "(\<And>l. la_scope (f l) = la_scope l) \<Longrightarrow>
   find_launch (launch_attempts_update (update_where (\<lambda>l. sc_session_id (la_scope l) = i) f) db) i
     = map_option f (find_launch db i)"
  unfolding find_launch_def
  by (auto simp: find_update_where map_option_case split: option.splits dest: find_Some_in)

lemma launch_frame [simp]:
  "session_scope_is_current (launch_attempts_update f db) s = session_scope_is_current db s"
  "find_run_shutdown (launch_attempts_update f db) run = find_run_shutdown db run"
  by (simp_all add: session_scope_is_current_def session_recovered_def find_run_shutdown_def)

text \<open>The scope of the stored row is the one that first launched the session.\<close>

lemma upsert_launch_find:
  assumes "upsert_launch s w a n db = Inr (u, db')"
  shows "\<exists>l. find_launch db' (sc_session_id s) = Some l \<and> la_window_started_at l = w \<and> la_attempts l = a
      \<and> la_next_attempt_at l = n \<and> la_in_flight l
      \<and> (la_quarantined l \<longrightarrow> (\<exists>k. find_launch db (sc_session_id s) = Some k \<and> la_quarantined k))
      \<and> 0 < a \<and> (\<exists>f. db' = launch_attempts_update f db)"
proof (cases "find_launch db (sc_session_id s)")
  case None
  with assms show ?thesis
    by (auto simp: upsert_launch_def insert_row_Inr find_launch_append)
next
  case (Some k)
  with assms show ?thesis
    by (auto simp: upsert_launch_def seq_Inr_iff find_launch_update)
qed

text \<open>
  Launch attempts are bounded and never overlap. An admitted launch is recorded
  durably as in flight before the provider starts: it is the first of a new window, or the next
  of a window that has not used up its attempts, so a window never holds more than
  \<open>max_launch_attempts\<close>. The next attempt is not before an exponential back-off, and until
  the launch is settled every further admission of the session is refused.
\<close>

lemma admitted_launches_are_bounded:
  assumes run: "admit_session_launch s now p db = Inr (LaunchAllowed, db')"
    and positive: "0 < max_launch_attempts p"
  shows "session_scope_is_current db s \<and> find_run_shutdown db (sc_run_id s) = None
    \<and> (\<exists>l. find_launch db' (sc_session_id s) = Some l \<and> la_in_flight l \<and> \<not> la_quarantined l
        \<and> la_attempts l \<le> max_launch_attempts p
        \<and> la_next_attempt_at l = sat_add now (sat_mul (restart_backoff_seconds p) (2 ^ nat (min (la_attempts l - 1) 20)))
        \<and> (la_attempts l = 1 \<and> la_window_started_at l = now
           \<or> (\<exists>k. find_launch db (sc_session_id s) = Some k \<and> la_attempts l = la_attempts k + 1
                \<and> la_window_started_at l = la_window_started_at k \<and> la_next_attempt_at k \<le> now))
        \<and> (\<forall>later q. admit_session_launch s later q db' = Inr (LaunchUnknown, db')))"
proof -
  from run have cur: "session_scope_is_current db s" and open_run: "find_run_shutdown db (sc_run_id s) = None"
    by (auto simp: admit_session_launch_def split: if_splits)
  have admitted: ?thesis
    if up: "upsert_launch s w (a + 1) (sat_add now (sat_mul (restart_backoff_seconds p) (2 ^ nat (min a 20)))) db
              = Inr (u, db')"
      and quiet: "\<And>k. find_launch db (sc_session_id s) = Some k \<Longrightarrow> \<not> la_quarantined k"
      and window: "a = 0 \<and> w = now \<or> (\<exists>k. find_launch db (sc_session_id s) = Some k \<and> a = la_attempts k
                     \<and> w = la_window_started_at k \<and> la_next_attempt_at k \<le> now \<and> a < max_launch_attempts p)"
    for w a u
  proof -
    from upsert_launch_find [OF up] quiet obtain l f where
      l: "find_launch db' (sc_session_id s) = Some l" "la_window_started_at l = w" "la_attempts l = a + 1"
        "la_next_attempt_at l = sat_add now (sat_mul (restart_backoff_seconds p) (2 ^ nat (min a 20)))"
        "la_in_flight l" "\<not> la_quarantined l" and db': "db' = launch_attempts_update f db" by blast
    have "admit_session_launch s later q db' = Inr (LaunchUnknown, db')" for later q
      using l(1,5,6) cur open_run by (simp add: admit_session_launch_def db')
    then show ?thesis using cur open_run l window positive by auto
  qed
  show ?thesis
  proof (cases "find_launch db (sc_session_id s)")
    case None
    with run cur open_run
    have "upsert_launch s now (0 + 1) (sat_add now (sat_mul (restart_backoff_seconds p) (2 ^ nat (min 0 20)))) db
      = Inr ((), db')"
      by (auto simp: admit_session_launch_def Let_def seq_Inr_iff)
    then show ?thesis by (rule admitted) (use None in auto)
  next
    case (Some k)
    have "admit_session_launch s now p db = (if la_quarantined k then ret LaunchQuarantined
        else if la_in_flight k then ret LaunchUnknown
        else if now < la_next_attempt_at k then ret (Backoff (la_next_attempt_at k))
        else if restart_window_seconds p \<le> sat_sub now (la_window_started_at k)
        then seq (upsert_launch s now (0 + 1) (sat_add now (sat_mul (restart_backoff_seconds p) (2 ^ nat (min 0 20)))))
               (ret LaunchAllowed)
        else if max_launch_attempts p \<le> la_attempts k then ret LaunchQuarantined
        else seq (upsert_launch s (la_window_started_at k) (la_attempts k + 1)
               (sat_add now (sat_mul (restart_backoff_seconds p) (2 ^ nat (min (la_attempts k) 20)))))
               (ret LaunchAllowed)) db"
      using cur open_run Some by (simp add: admit_session_launch_def Let_def)
    with run consider
      (fresh) "\<not> la_quarantined k"
        "upsert_launch s now (0 + 1) (sat_add now (sat_mul (restart_backoff_seconds p) (2 ^ nat (min 0 20)))) db
           = Inr ((), db')"
    | (again) "\<not> la_quarantined k" "la_next_attempt_at k \<le> now" "la_attempts k < max_launch_attempts p"
        "upsert_launch s (la_window_started_at k) (la_attempts k + 1)
           (sat_add now (sat_mul (restart_backoff_seconds p) (2 ^ nat (min (la_attempts k) 20)))) db
           = Inr ((), db')"
      by (auto simp: seq_Inr_iff split: if_splits)
    then show ?thesis
    proof cases
      case fresh
      from fresh(2) show ?thesis by (rule admitted) (use Some fresh in auto)
    next
      case again
      from again(4) show ?thesis by (rule admitted) (use Some again in auto)
    qed
  qed
qed

definition sample_policy :: SupervisionPolicy where
  "sample_policy =
     \<lparr>restart_window_seconds = 300, max_launch_attempts = 3, restart_backoff_seconds = 5,
      startup_timeout_seconds = 30, job_timeout_seconds = 3600, interrupt_grace_ms = 6000,
      shutdown_timeout_ms = 10000, idle_timeout_seconds = 0\<rparr>"

lemma supervision_event_Inr:
  assumes "supervision_event e r k subj a i d t n db = Inr (u, db')"
  shows "\<exists>ev. ev_type ev = event_kind_as_str k \<and> ev_run_id ev = r
      \<and> db' = db\<lparr>events := events db @ [ev], events_drawn := Suc (events_drawn db)\<rparr>"
proof -
  from assms obtain ev n' where n: "append_event e n' db = Inr (ev, db')" "ne_kind n' = k" "ne_run_id n' = r"
    by (auto simp: supervision_event_def bind_Inr_iff)
  have "ev_type (new_event_record e n' db) = event_kind_as_str k" "ev_run_id (new_event_record e n' db) = r"
    using n(2,3) by (simp_all add: new_event_record_def)
  then show ?thesis using append_event_db(1) [OF n(1)] by blast
qed

lemma session_scope_is_current_event:
  assumes "ev_type ev \<noteq> ''task.recovered''"
  shows "session_scope_is_current (db\<lparr>events := events db @ [ev], events_drawn := n\<rparr>) s
      = session_scope_is_current db s"
  using assms by (simp add: session_scope_is_current_def session_recovered_def)

lemma supervision_event_frame:
  assumes "supervision_event e r k subj a i d t n db = Inr (u, db')" "k \<noteq> TaskRecovered"
  shows "session_scope_is_current db' s = session_scope_is_current db s"
    and "find_run_shutdown db' run = find_run_shutdown db run"
    and "find_launch db' x = find_launch db x"
proof -
  from supervision_event_Inr [OF assms(1)] obtain ev where
    ev: "ev_type ev = event_kind_as_str k"
      "db' = db\<lparr>events := events db @ [ev], events_drawn := Suc (events_drawn db)\<rparr>" by blast
  have "event_kind_as_str k \<noteq> ''task.recovered''" using assms(2) by (cases k) auto
  then show "session_scope_is_current db' s = session_scope_is_current db s"
    using ev by (simp add: session_scope_is_current_event)
  show "find_run_shutdown db' run = find_run_shutdown db run" "find_launch db' x = find_launch db x"
    by (simp_all add: ev(2) find_run_shutdown_def find_launch_def)
qed

text \<open>
  A failed launch is either retried or given up, never both. When the attempts of
  the window are used up the session is quarantined: an event says so, the launch is not
  retryable, and no later time and no other policy admits it again. Otherwise it is retryable,
  and until its back-off has passed every admission answers with the time to wait for.
\<close>

lemma failed_launches_back_off_or_quarantine:
  assumes run: "fail_session_launch e s now p db = Inr (q, db')"
    and cur: "session_scope_is_current db s" and l: "find_launch db (sc_session_id s) = Some l"
    and open_run: "find_run_shutdown db (sc_run_id s) = None"
  shows "q = (max_launch_attempts p \<le> la_attempts l)
    \<and> find_launch db' (sc_session_id s) = Some (l\<lparr>la_in_flight := False, la_quarantined := q\<rparr>)
    \<and> session_launch_is_retryable db' s = (\<not> q)
    \<and> (q \<longrightarrow> (\<forall>later p'. admit_session_launch s later p' db' = Inr (LaunchQuarantined, db'))
           \<and> (\<exists>ev. events db' = events db @ [ev] \<and> ev_type ev = ''session.restart_limited''))
    \<and> (\<not> q \<longrightarrow> (\<forall>later p'. later < la_next_attempt_at l \<longrightarrow>
           admit_session_launch s later p' db' = Inr (Backoff (la_next_attempt_at l), db'))
         \<and> events db' = events db)"
proof -
  let ?f = "\<lambda>l. l\<lparr>la_in_flight := False, la_quarantined := (max_launch_attempts p \<le> la_attempts l)\<rparr>"
  let ?mid = "launch_attempts_update (update_where (\<lambda>l. sc_session_id (la_scope l) = sc_session_id s) ?f) db"
  have mid: "find_launch ?mid (sc_session_id s) = Some (?f l)" by (simp add: find_launch_update l)
  have q: "q = (max_launch_attempts p \<le> la_attempts l)"
    using run cur mid by (auto simp: fail_session_launch_def seq_Inr_iff split: if_splits)
  have facts: "session_scope_is_current db' s \<and> find_run_shutdown db' (sc_run_id s) = None
      \<and> find_launch db' (sc_session_id s) = Some (?f l)
      \<and> (if q then \<exists>ev. events db' = events db @ [ev] \<and> ev_type ev = ''session.restart_limited''
         else events db' = events db)"
  proof (cases q)
    case True
    with run cur mid q obtain subj ag i d t n where
      ev: "supervision_event e (sc_run_id s) SessionRestartLimited subj ag i d t n ?mid = Inr ((), db')"
      by (auto simp: fail_session_launch_def seq_Inr_iff split: if_splits)
    have "\<exists>ev. events db' = events db @ [ev] \<and> ev_type ev = ''session.restart_limited''"
      using supervision_event_Inr [OF ev] by auto
    then show ?thesis using supervision_event_frame [OF ev] cur open_run mid True by simp
  next
    case False
    with run cur mid q have "db' = ?mid"
      by (auto simp: fail_session_launch_def seq_Inr_iff split: if_splits)
    then show ?thesis using cur open_run mid False by simp
  qed
  then show ?thesis
    using q by (cases q) (auto simp: session_launch_is_retryable_def admit_session_launch_def)
qed

end
