(* ===== verification/Shutdown.thy ===== *)
theory Shutdown
  imports Supervision
begin

section \<open>Phased shutdown and session control (src/src/state/supervision.rs)\<close>

text \<open>
  The durable intent to stop a run, with its deadlines and the draining of assignments, and the
  intent to interrupt, terminate and kill one session.
\<close>

subsection \<open>Shutdown of a run\<close>

definition phase_event_data :: "ShutdownPhase option \<Rightarrow> ShutdownPhase \<Rightarrow> json" where
  "phase_event_data previous phase =
     JObj ((''phase'', JStr (shutdown_phase_str phase))
       # (case previous of None \<Rightarrow> [] | Some p \<Rightarrow> [(''previous_phase'', JStr (shutdown_phase_str p))]))"

definition drain_assignment :: "Env \<Rightarrow> AssignmentRecord \<Rightarrow> int \<Rightarrow> unit repo" where
  "drain_assignment e a now_ms =
     (if as_state a = ''draining'' then ret ()
      else
        seq (modify (assignments_update (update_where (\<lambda>x. as_id x = as_id a \<and> as_completed_at x = None)
               (\<lambda>x. x\<lparr>as_state := ''draining''\<rparr>))))
        (bind (append_event e
           \<lparr>ne_run_id = as_run_id a, ne_kind = AssignmentLifecycleChanged, ne_actor = ''supervisor'',
            ne_subject = assignment_text e (as_id a), ne_project_id = None,
            ne_agent_id = Some (as_agent_id a), ne_task_id = Some (as_task_id a),
            ne_operation_id = None, ne_correlation_id = None, ne_causation_id = None,
            ne_data = JObj [(''generation'', JInt (as_generation a)),
                            (''previous_state'', JStr (as_state a)), (''state'', JStr ''draining'')],
            ne_summary = ''Draining assignment '' @ assignment_text e (as_id a)
              @ '' while preserving its task and workspace.'',
            ne_created_at = quot_i64 now_ms 1000\<rparr>) (\<lambda>_. ret ())))"

definition drain_agent :: "Env \<Rightarrow> run_id \<Rightarrow> agent_id \<Rightarrow> int \<Rightarrow> unit repo" where
  "drain_agent e run agent now_ms =
     bind (gets (\<lambda>db. active_assignment_for_agent db run agent)) (\<lambda>found.
     case found of None \<Rightarrow> ret () | Some a \<Rightarrow> drain_assignment e a now_ms)"

definition stop_operation :: "run_id \<Rightarrow> operation_id \<Rightarrow> int \<Rightarrow> OperationRecord" where
  "stop_operation run operation now_ms =
     \<lparr>op_id = operation, op_run_id = run, op_kind = ''run.stop'', op_actor_agent_id = None,
      op_status = ''pending'', op_request = JObj [], op_result = None, op_attempt_count = 1,
      op_reconciliation_state = Some RDesired, op_reconciliation_attempt_count = 0,
      op_reconciliation_error = None, op_reconciled_at = None,
      op_created_at = quot_i64 now_ms 1000, op_updated_at = quot_i64 now_ms 1000,
      op_request_fingerprint = None\<rparr>"

definition insert_shutdown :: "RunShutdown \<Rightarrow> unit repo" where
  "insert_shutdown = insert_row shutdown_row_ok (\<lambda>s. run_shutdowns_update (\<lambda>rows. rows @ [s]))"

definition begin_run_shutdown ::
    "Env \<Rightarrow> run_id \<Rightarrow> operation_id \<Rightarrow> int \<Rightarrow> int \<Rightarrow> int \<Rightarrow> unit repo" where
  "begin_run_shutdown e run operation now_ms grace_ms timeout_ms =
     bind (gets (\<lambda>db. find_run_shutdown db run)) (\<lambda>existing.
     case existing of
       Some s \<Rightarrow> (if rs_operation_id s = operation then ret () else fail (OperationConflict operation))
     | None \<Rightarrow>
         bind (gets (\<lambda>db. find_operation db operation)) (\<lambda>known.
         if known \<noteq> None then fail (OperationConflict operation)
         else bind (gets (\<lambda>db. find_run db run)) (\<lambda>found.
           if \<not> (case found of None \<Rightarrow> False | Some r \<Rightarrow> rn_status r = ''active'') then fail (RunNotActive run)
           else
             seq (seq (insert_operation (stop_operation run operation now_ms))
                  (insert_shutdown
                     \<lparr>rs_run_id = run, rs_operation_id = operation, rs_phase = Interrupting,
                      rs_requested_at_ms = now_ms, rs_interrupt_until_ms = sat_add now_ms grace_ms,
                      rs_deadline_ms = sat_add now_ms timeout_ms\<rparr>))
             (seq (supervision_event e run RunShutdownChanged (run_text e run) None (Some operation)
                    (phase_event_data None Interrupting)
                    ''Stopping new launches and draining assignments.'' now_ms)
                  (bind (gets (\<lambda>db. map ag_id (agents_of_run db run))) (\<lambda>ids.
                   for_each (\<lambda>agent. drain_agent e run agent now_ms) ids))))))"

definition set_shutdown_phase :: "Env \<Rightarrow> run_id \<Rightarrow> ShutdownPhase \<Rightarrow> int \<Rightarrow> unit repo" where
  "set_shutdown_phase e run phase now_ms =
     bind (gets (\<lambda>db. find_run_shutdown db run)) (\<lambda>found.
     case found of None \<Rightarrow> ret ()
     | Some s \<Rightarrow>
         if rs_phase s = phase \<or> rs_phase s = ShutdownCompleted then ret ()
         else
           seq (modify (run_shutdowns_update (update_where (\<lambda>x. rs_run_id x = run)
                  (\<lambda>x. x\<lparr>rs_phase := phase\<rparr>))))
               (supervision_event e run RunShutdownChanged (run_text e run) None (Some (rs_operation_id s))
                  (phase_event_data (Some (rs_phase s)) phase) ''Shutdown phase changed.'' now_ms))"

definition store_shutdown_result :: "operation_id \<Rightarrow> json \<Rightarrow> int \<Rightarrow> unit repo" where
  "store_shutdown_result operation response now_ms =
     modify (operations_update (update_where (\<lambda>r. op_id r = operation)
       (\<lambda>r. r\<lparr>op_status := ''completed'', op_result := Some response,
               op_updated_at := quot_i64 now_ms 1000\<rparr>)))"

definition complete_shutdown_operation :: "Env \<Rightarrow> run_id \<Rightarrow> json \<Rightarrow> int \<Rightarrow> unit repo" where
  "complete_shutdown_operation e run response now_ms =
     bind (gets (\<lambda>db. find_run_shutdown db run)) (\<lambda>found.
     case found of None \<Rightarrow> fail (RunNotActive run)
     | Some s \<Rightarrow>
         seq (set_shutdown_phase e run ShutdownCompleted now_ms)
         (seq (store_shutdown_result (rs_operation_id s) response now_ms)
         (bind (record_operation_reconciliation e (rs_operation_id s) RObserved None (quot_i64 now_ms 1000))
            (\<lambda>_. ret ()))))"

subsection \<open>Control of a session\<close>

definition session_controls_of_run :: "Db \<Rightarrow> run_id \<Rightarrow> SessionControl list" where
  "session_controls_of_run db run =
     order_by (\<lambda>c. session_ulid (sc_session_id (sn_scope c)))
       (filter (\<lambda>c. sc_run_id (sn_scope c) = run) (session_controls db))"

definition control_event_data :: "SessionScope \<Rightarrow> ControlPhase option \<Rightarrow> ControlPhase \<Rightarrow> ControlReason \<Rightarrow> json" where
  "control_event_data s previous phase reason =
     JObj ([(''generation'', JInt (sc_generation s)), (''phase'', JStr (control_phase_str phase))]
       @ (case previous of None \<Rightarrow> [] | Some p \<Rightarrow> [(''previous_phase'', JStr (control_phase_str p))])
       @ [(''reason'', JStr (control_reason_str reason))])"

definition new_control :: "SessionScope \<Rightarrow> ControlReason \<Rightarrow> int \<Rightarrow> int \<Rightarrow> int \<Rightarrow> SessionControl" where
  "new_control s reason now_ms grace_ms timeout_ms =
     \<lparr>sn_scope = s, sn_reason = reason, sn_phase = Interrupt, sn_delivered = False,
      sn_requested_at_ms = now_ms, sn_interrupt_until_ms = sat_add now_ms grace_ms,
      sn_kill_at_ms = sat_add now_ms (quot_i64 timeout_ms 2),
      sn_deadline_ms = sat_add now_ms timeout_ms\<rparr>"

text \<open>
  \<open>INSERT OR IGNORE\<close>: the row is skipped when the session has one already, or when it violates a
  CHECK; a missing session still aborts.
\<close>

definition request_session_control ::
    "Env \<Rightarrow> SessionScope \<Rightarrow> ControlReason \<Rightarrow> int \<Rightarrow> int \<Rightarrow> int \<Rightarrow> unit repo" where
  "request_session_control e s reason now_ms grace_ms timeout_ms =
     (let row = new_control s reason now_ms grace_ms timeout_ms in
      bind (gets (\<lambda>db. session_scope_is_current db s)) (\<lambda>current.
      if \<not> current then ret ()
      else bind (gets (\<lambda>db. exists_row (\<lambda>c. sc_session_id (sn_scope c) = sc_session_id s)
                    (session_controls db))) (\<lambda>taken.
        if taken \<or> \<not> control_check_ok row then ret ()
        else
          seq (insert_row (\<lambda>db c. control_fk_ok db (sn_scope c))
                 (\<lambda>c. session_controls_update (\<lambda>rows. rows @ [c])) row)
          (seq (drain_agent e (sc_run_id s) (sc_agent_id s) now_ms)
               (supervision_event e (sc_run_id s) SessionControlChanged (session_text e (sc_session_id s))
                  (Some (sc_agent_id s)) None (control_event_data s None Interrupt reason)
                  ''Requested bounded session shutdown.'' now_ms)))))"

definition set_control_phase :: "Env \<Rightarrow> SessionControl \<Rightarrow> ControlPhase \<Rightarrow> int \<Rightarrow> unit repo" where
  "set_control_phase e control phase now_ms =
     (let s = sn_scope control in
      bind (gets (\<lambda>db. session_scope_is_current db s)) (\<lambda>current.
      if \<not> current \<or> phase = sn_phase control then ret ()
      else
        seq (modify (session_controls_update (update_where
               (\<lambda>c. sc_session_id (sn_scope c) = sc_session_id s)
               (\<lambda>c. c\<lparr>sn_phase := phase, sn_delivered := False\<rparr>))))
            (supervision_event e (sc_run_id s) SessionControlChanged (session_text e (sc_session_id s))
               (Some (sc_agent_id s)) None
               (control_event_data s (Some (sn_phase control)) phase (sn_reason control))
               ''Session control phase changed.'' now_ms)))"

definition mark_control_delivered :: "SessionControl \<Rightarrow> unit repo" where
  "mark_control_delivered control =
     bind (gets (\<lambda>db. session_scope_is_current db (sn_scope control))) (\<lambda>current.
     if current
     then modify (session_controls_update (update_where
            (\<lambda>c. sc_session_id (sn_scope c) = sc_session_id (sn_scope control) \<and> sn_phase c = sn_phase control)
            (\<lambda>c. c\<lparr>sn_delivered := True\<rparr>)))
     else ret ())"

subsection \<open>Safety of shutdown and control\<close>

lemma safe_drain_assignment [safe_intros]: "safe (drain_assignment e a n)"
  unfolding drain_assignment_def
  by (intro safe_intros safe_modify)
    (auto simp: store_ok_assignments_update extends_table assignment_later_def
      intro!: grows_update_where)

lemma safe_drain_agent [safe_intros]: "safe (drain_agent e r a n)"
  unfolding drain_agent_def by (intro safe_intros)

lemma safe_shutdown_intent:
  assumes "op_kind r = ''run.stop''" "rs_operation_id s = op_id r"
  shows "safe (seq (insert_operation r) (insert_shutdown s))"
proof (rule safeI)
  fix db u db' assume ok: "store_ok db" and run: "seq (insert_operation r) (insert_shutdown s) db = Inr (u, db')"
  then obtain w where w: "insert_operation r db = Inr ((), w)" and t: "insert_shutdown s w = Inr (u, db')"
    by (auto simp: seq_Inr_iff)
  have mid: "store_ok w" "extends db w" using safeD [OF safe_insert_operation w ok] by auto
  have "r \<in> set (operations w)" using w by (auto simp: insert_operation_def insert_row_Inr)
  with assms have "shutdowns_ok (run_shutdowns_update (\<lambda>rows. rows @ [s]) w)"
    using mid(1) by (auto simp: store_ok_def shutdowns_ok_def)
  moreover have "db' = run_shutdowns_update (\<lambda>rows. rows @ [s]) w"
    using t by (auto simp: insert_shutdown_def insert_row_Inr)
  ultimately show "store_ok db' \<and> extends db db'"
    using mid extends_trans [OF mid(2)] by (simp add: store_ok_def)
qed

lemma safe_begin_run_shutdown [safe_intros]: "safe (begin_run_shutdown e r i n g t)"
  unfolding begin_run_shutdown_def
  by (intro safe_intros safe_shutdown_intent) (simp_all add: stop_operation_def)

lemma store_ok_shutdown_phase:
  "store_ok db \<Longrightarrow> store_ok (run_shutdowns_update (update_where p (\<lambda>x. x\<lparr>rs_phase := ph\<rparr>)) db)"
  by (auto simp: store_ok_def shutdowns_ok_def set_update_where)

lemma safe_set_shutdown_phase [safe_intros]: "safe (set_shutdown_phase e r ph n)"
  unfolding set_shutdown_phase_def by (intro safe_intros safe_modify) (simp add: store_ok_shutdown_phase)

lemma grows_update_rows:
  assumes "\<And>x. R x x" "\<And>x. x \<in> set rows \<Longrightarrow> p x \<Longrightarrow> R x (f x)"
  shows "grows R rows (update_where p f rows)"
  unfolding grows_def
proof
  fix x assume x: "x \<in> set rows"
  show "\<exists>y \<in> set (update_where p f rows). R x y"
    by (rule bexI [of _ "if p x then f x else x"]) (use assms x in \<open>auto simp: set_update_where\<close>)
qed

lemma safe_store_shutdown_result:
  assumes ok: "store_ok db" and s: "s \<in> set (run_shutdowns db)"
    and run: "store_shutdown_result (rs_operation_id s) response n db = Inr (u, db')"
  shows "store_ok db' \<and> extends db db'"
proof -
  obtain r where r: "r \<in> set (operations db)" "op_id r = rs_operation_id s" "op_kind r = ''run.stop''"
    using ok s by (auto simp: store_ok_def shutdowns_ok_def)
  have "distinct (map op_id (operations db))" using ok by (simp add: store_ok_def keys_ok_def)
  then have stop: "op_kind x = ''run.stop''" if "x \<in> set (operations db)" "op_id x = rs_operation_id s" for x
    using r that by (auto simp: distinct_map inj_on_def)
  let ?f = "\<lambda>r. r\<lparr>op_status := ''completed'', op_result := Some response, op_updated_at := quot_i64 n 1000\<rparr>"
  have "grows receipt (operations db) (update_where (\<lambda>r. op_id r = rs_operation_id s) ?f (operations db))"
    by (rule grows_update_rows) (auto simp: receipt_def stop)
  then show ?thesis
    using run store_ok_operations_update [OF ok, of "\<lambda>r. op_id r = rs_operation_id s" ?f]
    by (auto simp: store_shutdown_result_def extends_table)
qed

lemma set_shutdown_phase_keeps_operation:
  assumes "set_shutdown_phase e r ph n db = Inr (u, db')" "s \<in> set (run_shutdowns db)"
  shows "\<exists>s' \<in> set (run_shutdowns db'). rs_operation_id s' = rs_operation_id s"
proof -
  have "map rs_operation_id (run_shutdowns db') = map rs_operation_id (run_shutdowns db)"
    using assms(1)
    by (auto simp: set_shutdown_phase_def supervision_event_def bind_Inr_iff map_update_where
        dest!: append_event_db(1) split: option.splits if_splits)
  then have "rs_operation_id s \<in> set (map rs_operation_id (run_shutdowns db'))" using assms(2) by simp
  then show ?thesis by auto
qed

lemma safe_complete_shutdown_operation [safe_intros]: "safe (complete_shutdown_operation e r resp n)"
proof (rule safeI)
  fix db u db' assume ok: "store_ok db" and run: "complete_shutdown_operation e r resp n db = Inr (u, db')"
  obtain s x y where s: "find_run_shutdown db r = Some s"
    and x: "set_shutdown_phase e r ShutdownCompleted n db = Inr ((), x)"
    and y: "store_shutdown_result (rs_operation_id s) resp n x = Inr ((), y)"
    and z: "bind (record_operation_reconciliation e (rs_operation_id s) RObserved None (quot_i64 n 1000))
              (\<lambda>_. ret ()) y = Inr (u, db')"
    using run unfolding complete_shutdown_operation_def
    by (auto simp: seq_Inr_iff split: option.splits)
  have "s \<in> set (run_shutdowns db)" using s by (auto simp: find_run_shutdown_def dest: find_Some_in)
  from set_shutdown_phase_keeps_operation [OF x this] obtain s' where
    s': "s' \<in> set (run_shutdowns x)" "rs_operation_id s' = rs_operation_id s" by blast
  have okx: "store_ok x" "extends db x" using safeD [OF safe_set_shutdown_phase x ok] by auto
  have oky: "store_ok y" "extends x y"
    using safe_store_shutdown_result [OF okx(1) s'(1), of resp n "()" y] y s'(2) by auto
  have "safe (bind (record_operation_reconciliation e (rs_operation_id s) RObserved None (quot_i64 n 1000)) (\<lambda>_. ret ()))"
    by (intro safe_intros)
  from safeD [OF this z oky(1)] okx oky show "store_ok db' \<and> extends db db'"
    by (blast intro: extends_trans)
qed

lemma safe_request_session_control [safe_intros]: "safe (request_session_control e s r n g t)"
  unfolding request_session_control_def Let_def
  by (intro safe_intros safe_insert_row) simp

lemma safe_set_control_phase [safe_intros]: "safe (set_control_phase e c ph n)"
  unfolding set_control_phase_def Let_def by (intro safe_intros safe_modify) simp

lemma safe_mark_control_delivered [safe_intros]: "safe (mark_control_delivered c)"
  unfolding mark_control_delivered_def by (intro safe_intros safe_modify) simp

subsection \<open>What a shutdown promises\<close>

definition drained :: "run_id \<Rightarrow> agent_id \<Rightarrow> Db \<Rightarrow> bool" where
  "drained run agent db \<longleftrightarrow>
     (\<forall>a \<in> set (assignments db). as_run_id a = run \<and> as_agent_id a = agent \<and> as_completed_at a = None
        \<longrightarrow> as_state a = ''draining'')"

lemma drain_assignment_cases:
  assumes "drain_assignment e a n db = Inr (u, db')"
  obtains (quiet) "as_state a = ''draining''" "db' = db"
  | (drain) ev m where "db' = db\<lparr>assignments := update_where (\<lambda>x. as_id x = as_id a \<and> as_completed_at x = None)
        (\<lambda>x. x\<lparr>as_state := ''draining''\<rparr>) (assignments db), events := ev, events_drawn := m\<rparr>"
proof (cases "as_state a = ''draining''")
  case True
  with assms quiet show thesis by (simp add: drain_assignment_def)
next
  case False
  let ?f = "assignments_update (update_where (\<lambda>x. as_id x = as_id a \<and> as_completed_at x = None)
        (\<lambda>x. x\<lparr>as_state := ''draining''\<rparr>))"
  from assms False obtain ev n' where "append_event e n' (?f db) = Inr (ev, db')"
    by (auto simp: drain_assignment_def bind_Inr_iff)
  from append_event_db(1) [OF this]
  show thesis by (intro drain [of "Suc (events_drawn db)" "events (?f db) @ [new_event_record e n' (?f db)]"])
      (cases db, simp)
qed

lemma drain_agent_frame:
  "keeps (\<lambda>db. agents db = x \<and> run_shutdowns db = y) (drain_agent e run agent n)"
  by (rule keepsI) (auto simp: drain_agent_def elim!: drain_assignment_cases split: option.splits)

lemma drain_agent_keeps_drained: "keeps (drained run agent) (drain_agent e run' agent' n)"
  by (rule keepsI)
    (auto simp: drain_agent_def drained_def set_update_where elim!: drain_assignment_cases split: option.splits)

lemma active_assignment_of_agent_unique:
  assumes "keys_ok db" "a \<in> set (assignments db)" "b \<in> set (assignments db)"
    and "as_completed_at a = None" "as_completed_at b = None" "as_agent_id b = as_agent_id a"
  shows "b = a"
  using assms by (auto simp: keys_ok_def distinct_map inj_on_def)

lemma drain_agent_drains:
  assumes run: "drain_agent e run agent n db = Inr (u, db')" and ok: "store_ok db"
  shows "drained run agent db'"
proof (cases "active_assignment_for_agent db run agent")
  case None
  with run have "db' = db" by (simp add: drain_agent_def)
  with None show ?thesis by (auto simp: drained_def active_assignment_for_agent_def find_None_all)
next
  case (Some a)
  then have a: "a \<in> set (assignments db)" "as_agent_id a = agent" "as_completed_at a = None"
    by (auto simp: active_assignment_for_agent_def dest: find_Some_in)
  have keys: "keys_ok db" using ok by (simp add: store_ok_def)
  have same: "x = a" if "x \<in> set (assignments db)" "as_agent_id x = agent" "as_completed_at x = None" for x
    using active_assignment_of_agent_unique [OF keys a(1) that(1) a(3) that(3)] a(2) that(2) by simp
  from run Some have "drain_assignment e a n db = Inr (u, db')" by (simp add: drain_agent_def)
  then show ?thesis
  proof (cases rule: drain_assignment_cases)
    case quiet
    then show ?thesis by (auto simp: drained_def dest: same)
  next
    case (drain ev m)
    then show ?thesis by (auto simp: drained_def set_update_where dest: same)
  qed
qed

lemma for_each_drain:
  assumes "for_each (\<lambda>agent. drain_agent e run agent n) ids db = Inr (u, db')" "store_ok db"
  shows "\<forall>agent \<in> set ids. drained run agent db'"
  using assms
proof (induction ids arbitrary: db)
  case Nil
  then show ?case by simp
next
  case (Cons i ids)
  then obtain w where w: "drain_agent e run i n db = Inr ((), w)"
    and rest: "for_each (\<lambda>agent. drain_agent e run agent n) ids w = Inr (u, db')"
    by (auto simp: seq_Inr_iff)
  have "store_ok w" using safeD [OF safe_drain_agent w Cons.prems(2)] by simp
  moreover have "drained run i db'"
    using keepsD [OF keeps_for_each [OF drain_agent_keeps_drained] rest] drain_agent_drains [OF w Cons.prems(2)]
    by blast
  ultimately show ?case using Cons.IH [OF rest] by simp
qed

lemma insert_shutdown_find:
  "insert_shutdown s db = Inr (u, db') \<Longrightarrow>
   db' = run_shutdowns_update (\<lambda>rows. rows @ [s]) db \<and> find_run_shutdown db' (rs_run_id s) = Some s"
  by (force simp: insert_shutdown_def insert_row_Inr find_run_shutdown_def find_append shutdown_row_ok_def
      image_iff split: option.splits dest: find_Some_in)

text \<open>
  Property C30. Stopping a run is one durable decision. The first request records its operation
  and its deadlines, drains every assignment of the run that is not completed, and closes the
  run to new launches at any later time; asking again with the same operation changes nothing,
  so that a restarted supervisor keeps the original deadlines, and another operation is refused.
\<close>

theorem shutdown_is_one_durable_decision:
  assumes ok: "store_ok db" and first: "find_run_shutdown db run = None"
    and run: "begin_run_shutdown e run i now_ms grace timeout db = Inr (u, db')"
  shows "find_run_shutdown db' run = Some \<lparr>rs_run_id = run, rs_operation_id = i, rs_phase = Interrupting,
          rs_requested_at_ms = now_ms, rs_interrupt_until_ms = sat_add now_ms grace,
          rs_deadline_ms = sat_add now_ms timeout\<rparr>
    \<and> (\<forall>a \<in> set (assignments db'). as_run_id a = run \<and> as_completed_at a = None \<longrightarrow> as_state a = ''draining'')
    \<and> (\<forall>s later p. sc_run_id s = run \<longrightarrow> admit_session_launch s later p db' = Inr (LaunchUnknown, db'))
    \<and> (\<forall>e' n g t. begin_run_shutdown e' run i n g t db' = Inr ((), db'))
    \<and> (\<forall>e' j n g t. j \<noteq> i \<longrightarrow> begin_run_shutdown e' run j n g t db' = Inl (OperationConflict j))"
proof -
  let ?s = "\<lparr>rs_run_id = run, rs_operation_id = i, rs_phase = Interrupting, rs_requested_at_ms = now_ms,
      rs_interrupt_until_ms = sat_add now_ms grace, rs_deadline_ms = sat_add now_ms timeout\<rparr>"
  from run first obtain w1 w2 subj d t where
    intent: "seq (insert_operation (stop_operation run i now_ms)) (insert_shutdown ?s) db = Inr ((), w1)"
    and ev: "supervision_event e run RunShutdownChanged subj None (Some i) d t now_ms w1 = Inr ((), w2)"
    and drains: "for_each (\<lambda>agent. drain_agent e run agent now_ms) (map ag_id (agents_of_run w2 run)) w2 = Inr (u, db')"
    by (auto simp: begin_run_shutdown_def seq_Inr_iff split: if_splits)
  have "find_run_shutdown w1 run = Some ?s"
    using intent insert_shutdown_find [of ?s] by (auto simp: seq_Inr_iff)
  then have s2: "find_run_shutdown w2 run = Some ?s" using supervision_event_frame(2) [OF ev] by simp
  have "safe (seq (insert_operation (stop_operation run i now_ms)) (insert_shutdown ?s))"
    by (rule safe_shutdown_intent) (simp_all add: stop_operation_def)
  from safeD [OF this intent ok] have ok1: "store_ok w1" by simp
  have ok2: "store_ok w2" using safeD [OF safe_supervision_event ev ok1] by simp
  have "safe (for_each (\<lambda>agent. drain_agent e run agent now_ms) (map ag_id (agents_of_run w2 run)))"
    by (intro safe_intros)
  from safeD [OF this drains ok2] have ok3: "store_ok db'" by simp
  have frame: "agents db' = agents w2 \<and> run_shutdowns db' = run_shutdowns w2"
    using keepsD [OF keeps_for_each [OF drain_agent_frame] drains] by simp
  then have s3: "find_run_shutdown db' run = Some ?s" using s2 by (simp add: find_run_shutdown_def)
  have draining: "as_state a = ''draining''"
    if a: "a \<in> set (assignments db')" "as_run_id a = run" "as_completed_at a = None" for a
  proof -
    have "agent_exists db' run (as_agent_id a)" using ok3 a by (auto simp: store_ok_def refs_ok_def)
    then have "as_agent_id a \<in> set (map ag_id (agents_of_run w2 run))"
      using frame by (force simp: agent_exists_def agents_of_run_def)
    then have "drained run (as_agent_id a) db'" using for_each_drain [OF drains ok2] by blast
    with a show ?thesis by (simp add: drained_def)
  qed
  show ?thesis
    using s3 draining by (simp add: admit_session_launch_def begin_run_shutdown_def)
qed

theorem shutdown_is_one_durable_decision_witness:
  "\<exists>db'. begin_run_shutdown sample_env (RunId 1) (OperationId 5) 1000 20 100 sample_db = Inr ((), db')
     \<and> begin_run_shutdown sample_env (RunId 1) (OperationId 5) 9000 20 100 db' = Inr ((), db')"
proof -
  let ?s = "\<lparr>rs_run_id = RunId 1, rs_operation_id = OperationId 5, rs_phase = Interrupting,
      rs_requested_at_ms = 1000, rs_interrupt_until_ms = 1020, rs_deadline_ms = 1100\<rparr>"
  have first: "find_run_shutdown sample_db (RunId 1) = None" by (simp add: find_run_shutdown_def)
  have "\<exists>db'. begin_run_shutdown sample_env (RunId 1) (OperationId 5) 1000 20 100 sample_db = Inr ((), db')"
    by (simp add: begin_run_shutdown_def find_run_shutdown_def find_operation_def find_run_def sample_run_def
        seq_def bind_run insert_operation_def insert_shutdown_def insert_row_def operation_row_ok_def
        shutdown_row_ok_def run_exists_def operation_exists_def references_def stop_operation_def
        sat_add_def clamp_i64_def i64_min_def i64_max_def supervision_event_def append_event_def
        insert_event_def event_row_ok_def new_event_record_def next_event_sequence_def sample_env_def
        agents_of_run_def drain_agent_def active_assignment_for_agent_def
        maximum_event_page_length_def)
  then obtain db' where "begin_run_shutdown sample_env (RunId 1) (OperationId 5) 1000 20 100 sample_db = Inr ((), db')"
    by blast
  with shutdown_is_one_durable_decision [OF store_ok_sample_db first this] show ?thesis by blast
qed

subsection \<open>When a control is recorded\<close>

lemma quot_i64_two: "0 \<le> t \<Longrightarrow> quot_i64 t 2 = t div 2"
  by (cases "t = 0") (simp_all add: quot_i64_def)

lemma new_control_times:
  assumes "0 \<le> now_ms" "0 \<le> grace" "0 < timeout" "now_ms + timeout \<le> i64_max"
  shows "sn_kill_at_ms (new_control s reason now_ms grace timeout) = now_ms + timeout div 2"
    "sn_deadline_ms (new_control s reason now_ms grace timeout) = now_ms + timeout"
    "sn_interrupt_until_ms (new_control s reason now_ms grace timeout) = min i64_max (now_ms + grace)"
    "control_check_ok (new_control s reason now_ms grace timeout) \<longleftrightarrow> 0 \<le> sc_generation s \<and> grace \<le> timeout div 2"
proof -
  let ?c = "new_control s reason now_ms grace timeout"
  have half: "quot_i64 timeout 2 = timeout div 2" using assms by (simp add: quot_i64_two)
  show times: "sn_kill_at_ms ?c = now_ms + timeout div 2" "sn_deadline_ms ?c = now_ms + timeout"
    using assms half by (auto simp: new_control_def sat_add_def i64_min_def intro!: clamp_i64_id)
  show until: "sn_interrupt_until_ms ?c = min i64_max (now_ms + grace)"
    using assms by (auto simp: new_control_def sat_add_def clamp_i64_def i64_min_def)
  show "control_check_ok ?c \<longleftrightarrow> 0 \<le> sc_generation s \<and> grace \<le> timeout div 2"
    using assms times until by (auto simp: control_check_ok_def new_control_def)
qed

lemma long_grace_drops_control:
  assumes "0 \<le> now_ms" "0 \<le> grace" "0 < timeout" "now_ms + timeout \<le> i64_max" "timeout div 2 < grace"
  shows "request_session_control e s reason now_ms grace timeout db = Inr ((), db)"
  using new_control_times(4) [OF assms(1-4)] assms(5) by (simp add: request_session_control_def Let_def)

text \<open>
  A request to stop a session is recorded only when its deadlines are in order:
  with a grace period of at most half the timeout, a first request for a current session stores
  its control in the interrupt phase with the deadlines of the policy; with a longer one the
  insertion is ignored, and the request changes nothing although it returns successfully.
\<close>

lemma control_requests_need_ordered_deadlines:
  assumes cur: "session_scope_is_current db s"
    and fresh: "\<forall>c \<in> set (session_controls db). sc_session_id (sn_scope c) \<noteq> sc_session_id s"
    and range: "0 \<le> now_ms" "0 \<le> grace" "0 < timeout" "now_ms + timeout \<le> i64_max" "0 \<le> sc_generation s"
    and run: "request_session_control e s reason now_ms grace timeout db = Inr (u, db')"
  shows "if timeout div 2 < grace then db' = db
    else \<exists>c. session_controls db' = session_controls db @ [c] \<and> sn_scope c = s \<and> sn_reason c = reason
      \<and> sn_phase c = Interrupt \<and> \<not> sn_delivered c \<and> sn_requested_at_ms c = now_ms
      \<and> sn_interrupt_until_ms c = now_ms + grace \<and> sn_kill_at_ms c = now_ms + timeout div 2
      \<and> sn_deadline_ms c = now_ms + timeout"
proof -
  let ?c = "new_control s reason now_ms grace timeout"
  note times = new_control_times(1,2) [OF range(1-4)] and until = new_control_times(3) [OF range(1-4)]
  have check: "control_check_ok ?c \<longleftrightarrow> grace \<le> timeout div 2"
    using new_control_times(4) [OF range(1-4)] range(5) by simp
  have free: "\<not> exists_row (\<lambda>c. sc_session_id (sn_scope c) = sc_session_id s) (session_controls db)"
    using fresh by simp
  show ?thesis
  proof (cases "timeout div 2 < grace")
    case True
    with run cur check show ?thesis by (simp add: request_session_control_def Let_def)
  next
    case False
    with run cur check free obtain w x where
      row: "insert_row (\<lambda>db c. control_fk_ok db (sn_scope c)) (\<lambda>c. session_controls_update (\<lambda>rows. rows @ [c])) ?c db
         = Inr ((), w)"
      and drain: "drain_agent e (sc_run_id s) (sc_agent_id s) now_ms w = Inr ((), x)"
      and ev: "supervision_event e (sc_run_id s) SessionControlChanged (session_text e (sc_session_id s))
          (Some (sc_agent_id s)) None (control_event_data s None Interrupt reason)
          ''Requested bounded session shutdown.'' now_ms x = Inr (u, db')"
      by (auto simp: request_session_control_def Let_def seq_Inr_iff)
    have "session_controls x = session_controls w"
      using drain by (auto simp: drain_agent_def elim!: drain_assignment_cases split: option.splits)
    moreover have "session_controls db' = session_controls x" using supervision_event_Inr [OF ev] by auto
    moreover have "session_controls w = session_controls db @ [?c]" using row by (auto simp: insert_row_Inr)
    ultimately have "session_controls db' = session_controls db @ [?c]" by simp
    moreover have "sn_interrupt_until_ms ?c = now_ms + grace" using until False range by simp
    ultimately show ?thesis using times False by (simp add: new_control_def)
  qed
qed

text \<open>The sample policy has a grace of 6 s within a timeout of 10 s.\<close>

end
