(* ===== verification/Resolver.thy ===== *)
theory Resolver
  imports Archetype
begin

section \<open>Resolution of the configuration (src/src/config/resolver.rs, provenance.rs, input.rs)\<close>

text \<open>
  The trusted global configuration, the untrusted project configuration and the operator's
  overrides are merged into one effective configuration, together with the origin of every value.
  The provenance map is the state of the resolution: a resolving function is an action on it. A
  Rust panic (\<open>expect\<close> on an absent value, indexing a map with an absent key) is the failure
  \<open>Panicked\<close>, apart from the errors the code returns.
\<close>

subsection \<open>Layers, errors and origins\<close>

datatype ConfigLayer = Compiled | Builtin | Global | Project | Operator

fun layer_text :: "ConfigLayer \<Rightarrow> string" where
  "layer_text Compiled = ''compiled''"
| "layer_text Builtin = ''builtin''"
| "layer_text Global = ''global''"
| "layer_text Project = ''project''"
| "layer_text Operator = ''operator''"

datatype ConfigError =
  ConfigIo string
| ConfigParse string string
| Invalid ConfigLayer string string "string option"

datatype failure = Rejected ConfigError | Panicked

record ConfigSource =
  cs_layer :: ConfigLayer
  cs_file :: "string option"
  cs_field :: string

record ValueProvenance =
  vp_source :: ConfigSource
  vp_selected_by :: "ConfigSource option"

type_synonym Provenance = "ValueProvenance name_map"
type_synonym 'a resolving = "(Provenance, failure, 'a) action"

definition config_source :: "ConfigLayer \<Rightarrow> string \<Rightarrow> ConfigSource" where
  "config_source layer field = \<lparr>cs_layer = layer, cs_file = None, cs_field = field\<rparr>"

definition direct :: "ConfigLayer \<Rightarrow> string \<Rightarrow> ValueProvenance" where
  "direct layer field = \<lparr>vp_source = config_source layer field, vp_selected_by = None\<rparr>"

definition invalid :: "ConfigLayer \<Rightarrow> string \<Rightarrow> string \<Rightarrow> failure" where
  "invalid layer field reason = Rejected (Invalid layer field reason None)"

definition invalid_global :: "string \<Rightarrow> string \<Rightarrow> failure" where
  "invalid_global field reason = invalid Global field reason"

definition check :: "bool \<Rightarrow> failure \<Rightarrow> unit resolving" where
  "check b e = (if b then ret () else fail e)"

text \<open>Rust's \<open>map[key]\<close> and \<open>map.get(key).expect(..)\<close>.\<close>

definition index :: "'v name_map \<Rightarrow> string \<Rightarrow> 'v resolving" where
  "index m k = (case map_of m k of None \<Rightarrow> fail Panicked | Some v \<Rightarrow> ret v)"

definition set_origin :: "string \<Rightarrow> ValueProvenance \<Rightarrow> unit resolving" where
  "set_origin field v = modify (obj_insert field v)"

definition record_field :: "string \<Rightarrow> ConfigLayer \<Rightarrow> unit resolving" where
  "record_field field layer = set_origin field (direct layer field)"

definition origin_of :: "string \<Rightarrow> ValueProvenance resolving" where
  "origin_of field = bind (gets (\<lambda>p. map_of p field)) (\<lambda>found.
     case found of None \<Rightarrow> fail Panicked | Some v \<Rightarrow> ret v)"

subsection \<open>Inputs\<close>

record LimitOverrides =
  li_max_concurrent_agents :: "nat option"
  li_max_agents_per_run :: "nat option"
  li_max_spawns_per_minute :: "nat option"

record SupervisionOverrides =
  so_restart_window_seconds :: "int option"
  so_max_launch_attempts :: "int option"
  so_restart_backoff_seconds :: "int option"
  so_startup_timeout_seconds :: "int option"
  so_job_timeout_seconds :: "int option"
  so_interrupt_grace_ms :: "int option"
  so_shutdown_timeout_ms :: "int option"
  so_idle_timeout_seconds :: "int option"

record RoleInput =
  ri_provider :: "string option"
  ri_mode :: "RoleMode option"
  ri_max_instances :: "nat option"
  ri_workspace :: "WorkspacePolicy option"
  ri_permission_profile :: "string option"
  ri_instructions :: "string option"
  ri_capabilities :: "string list option"

record ArchetypeInput =
  ai_lead :: "string option"
  ai_roles :: "RoleInput name_map"

record ProfileInput =
  pi_filesystem :: "FilesystemPolicy option"
  pi_network :: "NetworkPolicy option"
  pi_approvals :: "ApprovalPolicy option"
  pi_approval_reviewer :: "ApprovalReviewer option"

record RoleRestriction =
  rr_enabled :: "bool option"
  rr_max_instances :: "nat option"
  rr_permission_profile :: "string option"

text \<open>A \<open>ProviderInput\<close> is its only field, the optional command.\<close>

record GlobalConfig =
  gc_archetype :: "string option"
  gc_includes :: "string list option"
  gc_allowed_project_roots :: "string list option"
  gc_providers :: "string list option name_map"
  gc_limits :: LimitOverrides
  gc_supervision :: SupervisionOverrides
  gc_permission_profiles :: "ProfileInput name_map"
  gc_archetypes :: "ArchetypeInput name_map"

record ProjectConfig =
  pc_archetype :: "string option"
  pc_limits :: LimitOverrides
  pc_roles :: "RoleRestriction name_map"

record OperatorOverrides =
  oo_archetype :: "string option"
  oo_limits :: LimitOverrides
  oo_roles :: "RoleRestriction name_map"

record EffectiveConfig =
  ec_archetype :: ArchetypeDefinition
  ec_providers :: "string list name_map"
  ec_allowed_project_roots :: "string list"
  ec_limits :: RunLimits
  ec_supervision :: SupervisionPolicy
  ec_roles :: "EffectiveRole name_map"
  ec_provenance :: Provenance

subsection \<open>Serialised values\<close>

text \<open>
  What \<open>serde\<close> makes of the values: enums in kebab case, \<open>None\<close> as \<open>null\<close>, objects ordered by key.
\<close>

fun filesystem_text :: "FilesystemPolicy \<Rightarrow> string" where
  "filesystem_text Unrestricted = ''unrestricted''"
| "filesystem_text ProjectWrite = ''project-write''"
| "filesystem_text WorkspaceWrite = ''workspace-write''"
| "filesystem_text FsReadOnly = ''read-only''"

fun network_text :: "NetworkPolicy \<Rightarrow> string" where
  "network_text ProviderDefault = ''provider-default''"
| "network_text Deny = ''deny''"

fun approvals_text :: "ApprovalPolicy \<Rightarrow> string" where
  "approvals_text Interactive = ''interactive''"
| "approvals_text Never = ''never''"

fun reviewer_text :: "ApprovalReviewer \<Rightarrow> string" where
  "reviewer_text User = ''user''"
| "reviewer_text AutoReview = ''auto-review''"

fun mode_text :: "RoleMode \<Rightarrow> string" where
  "mode_text InteractiveMode = ''interactive''"
| "mode_text Job = ''job''"

fun workspace_text :: "WorkspacePolicy \<Rightarrow> string" where
  "workspace_text ProjectWorkspace = ''project''"
| "workspace_text Worktree = ''worktree''"
| "workspace_text ReadOnlyWorkspace = ''read-only''"

definition map_json :: "('v \<Rightarrow> json) \<Rightarrow> 'v name_map \<Rightarrow> json" where
  "map_json f m = JObj (map (\<lambda>(k, v). (k, f v)) m)"

definition nat_json :: "nat \<Rightarrow> json" where
  "nat_json n = JInt (int n)"

definition profile_json :: "PermissionProfile \<Rightarrow> json" where
  "profile_json p = JObj
     [(''approval_reviewer'', JStr (reviewer_text (approval_reviewer p))),
      (''approvals'', JStr (approvals_text (approvals p))),
      (''filesystem'', JStr (filesystem_text (filesystem p))),
      (''network'', JStr (network_text (network p)))]"

definition grant_json :: "CapabilityGrant \<Rightarrow> json" where
  "grant_json g = JObj [(''action'', JStr (grant_action g)), (''namespace'', JStr (grant_namespace g))]"

definition role_json :: "RoleDefinition \<Rightarrow> json" where
  "role_json r = JObj
     [(''capabilities'', JArr (map grant_json (rl_capabilities r))),
      (''instructions'', json_opt JStr (rl_instructions r)),
      (''max_instances'', json_opt nat_json (rl_max_instances r)),
      (''mode'', JStr (mode_text (rl_mode r))),
      (''permission_profile'', JStr (rl_permission_profile r)),
      (''provider'', JStr (rl_provider r)),
      (''workspace'', JStr (workspace_text (rl_workspace r)))]"

definition archetype_json :: "ArchetypeDefinition \<Rightarrow> json" where
  "archetype_json a = JObj
     [(''lead'', JStr (ar_lead a)),
      (''permission_profiles'', map_json profile_json (ar_permission_profiles a)),
      (''reference'', JStr (ar_reference a)),
      (''roles'', map_json role_json (ar_roles a))]"

definition limits_json :: "RunLimits \<Rightarrow> json" where
  "limits_json l = JObj
     [(''max_agents_per_run'', nat_json (max_agents_per_run l)),
      (''max_concurrent_agents'', nat_json (max_concurrent_agents l)),
      (''max_spawns_per_minute'', nat_json (max_spawns_per_minute l))]"

definition supervision_json :: "SupervisionPolicy \<Rightarrow> json" where
  "supervision_json s = JObj
     [(''idle_timeout_seconds'', JInt (idle_timeout_seconds s)),
      (''interrupt_grace_ms'', JInt (interrupt_grace_ms s)),
      (''job_timeout_seconds'', JInt (job_timeout_seconds s)),
      (''max_launch_attempts'', JInt (max_launch_attempts s)),
      (''restart_backoff_seconds'', JInt (restart_backoff_seconds s)),
      (''restart_window_seconds'', JInt (restart_window_seconds s)),
      (''shutdown_timeout_ms'', JInt (shutdown_timeout_ms s)),
      (''startup_timeout_seconds'', JInt (startup_timeout_seconds s))]"

definition provider_json :: "string list \<Rightarrow> json" where
  "provider_json command = JObj [(''command'', JArr (map JStr command))]"

definition effective_role_json :: "EffectiveRole \<Rightarrow> json" where
  "effective_role_json r = JObj
     [(''enabled'', JBool (er_enabled r)),
      (''max_instances'', json_opt nat_json (er_max_instances r)),
      (''permission_profile'', profile_json (er_permission_profile r))]"

definition effective_entries :: "EffectiveConfig \<Rightarrow> (string \<times> json) list" where
  "effective_entries c =
     [(''allowed_project_roots'', JArr (map JStr (ec_allowed_project_roots c))),
      (''archetype'', archetype_json (ec_archetype c)),
      (''limits'', limits_json (ec_limits c)),
      (''providers'', map_json provider_json (ec_providers c)),
      (''roles'', map_json effective_role_json (ec_roles c)),
      (''supervision'', supervision_json (ec_supervision c))]"

definition effective_json :: "EffectiveConfig \<Rightarrow> json" where
  "effective_json c = JObj (effective_entries c)"

subsection \<open>Origins of whole trees\<close>

text \<open>Arrays and scalars are leaves; an object is visited field by field.\<close>

lemma size_member: "(k, v) \<in> set fs \<Longrightarrow> size v < Suc (size_list (size_prod (\<lambda>_. 0) size) fs)"
  by (induction fs) auto

function visit :: "ConfigLayer \<Rightarrow> string \<Rightarrow> string \<Rightarrow> json \<Rightarrow> Provenance \<Rightarrow> Provenance" where
  "visit layer target source (JObj entries) p =
     fold (\<lambda>(k, v). visit layer (target @ ''.'' @ k) (source @ ''.'' @ k) v) entries p"
| "visit layer target source JNull p = obj_insert target (direct layer source) p"
| "visit layer target source (JBool b) p = obj_insert target (direct layer source) p"
| "visit layer target source (JInt i) p = obj_insert target (direct layer source) p"
| "visit layer target source (JStr s) p = obj_insert target (direct layer source) p"
| "visit layer target source (JId t u) p = obj_insert target (direct layer source) p"
| "visit layer target source (JArr xs) p = obj_insert target (direct layer source) p"
  by pat_completeness auto

termination
  by (relation "measure (\<lambda>(_, _, _, j, _). size j)") (auto dest: size_member)

definition record_tree :: "json \<Rightarrow> string \<Rightarrow> string \<Rightarrow> ConfigLayer \<Rightarrow> unit resolving" where
  "record_tree j target source layer = modify (visit layer target source j)"

definition profile_fields :: "string list" where
  "profile_fields = [''filesystem'', ''network'', ''approvals'', ''approval_reviewer'']"

definition record_profile_origin :: "ProfileInput name_map \<Rightarrow> ConfigLayer \<Rightarrow> string \<times> PermissionProfile \<Rightarrow> unit resolving" where
  "record_profile_origin profiles layer = (\<lambda>(name, profile).
     seq (record_tree (profile_json profile) (''archetype.permission_profiles.'' @ name)
            (''permission_profiles.'' @ name) layer)
     (bind (index profiles name) (\<lambda>input.
      if pi_approval_reviewer input = None
      then set_origin (''archetype.permission_profiles.'' @ name @ ''.approval_reviewer'')
             (direct Compiled (''permission_profiles.'' @ name @ ''.approval_reviewer''))
      else ret ())))"

definition record_absent_fields :: "string \<Rightarrow> string \<times> RoleInput \<Rightarrow> unit resolving" where
  "record_absent_fields prefix = (\<lambda>(name, role).
     for_each (\<lambda>(field, absent).
       if absent then set_origin (''archetype.roles.'' @ name @ ''.'' @ field)
           (direct Compiled (prefix @ ''.roles.'' @ name @ ''.'' @ field))
       else ret ())
       [(''max_instances'', ri_max_instances role = None), (''instructions'', ri_instructions role = None)])"

definition record_role_origin :: "string \<times> RoleDefinition \<Rightarrow> unit resolving" where
  "record_role_origin = (\<lambda>(name, role).
     seq (record_field (''roles.'' @ name @ ''.enabled'') Compiled)
     (bind (origin_of (''archetype.roles.'' @ name @ ''.max_instances'')) (\<lambda>capacity.
      seq (set_origin (''roles.'' @ name @ ''.max_instances'') capacity)
      (bind (origin_of (''archetype.roles.'' @ name @ ''.permission_profile'')) (\<lambda>selected.
       for_each (\<lambda>field.
         bind (origin_of (''archetype.permission_profiles.'' @ rl_permission_profile role @ ''.'' @ field)) (\<lambda>v.
         set_origin (''roles.'' @ name @ ''.permission_profile.'' @ field)
           (v\<lparr>vp_selected_by := Some (vp_source selected)\<rparr>))) profile_fields)))))"

definition record_archetype ::
    "ArchetypeDefinition \<Rightarrow> ArchetypeInput option \<Rightarrow> ProfileInput name_map \<Rightarrow> ConfigSource \<Rightarrow> unit resolving" where
  "record_archetype archetype input profiles selector =
     (let prefix = ''archetypes.'' @ ar_reference archetype;
          layer = (if input = None then Builtin else Global) in
      seq (record_tree (archetype_json archetype) ''archetype'' prefix layer)
      (seq (set_origin ''archetype.reference''
             \<lparr>vp_source = config_source layer prefix, vp_selected_by = Some selector\<rparr>)
      (seq (case input of None \<Rightarrow> ret ()
            | Some i \<Rightarrow> seq (for_each (record_profile_origin profiles layer) (ar_permission_profiles archetype))
                           (for_each (record_absent_fields prefix) (ai_roles i)))
           (for_each record_role_origin (ar_roles archetype)))))"

subsection \<open>Names, references and required fields\<close>

definition check_name :: "string \<Rightarrow> string \<Rightarrow> unit resolving" where
  "check_name name field = check (valid_name name) (invalid_global field
     ''names must contain only ASCII letters, digits, underscores, or hyphens'')"

text \<open>\<open>str::parse::<u32>\<close>: an optional plus sign and decimal digits, below \<open>2 ^ 32\<close>.\<close>

definition digit_value :: "char \<Rightarrow> nat option" where
  "digit_value c = (if 48 \<le> (of_char c :: nat) \<and> (of_char c :: nat) \<le> 57 then Some (of_char c - 48) else None)"

fun decimal :: "nat \<Rightarrow> string \<Rightarrow> nat option" where
  "decimal n [] = Some n"
| "decimal n (c # cs) = (case digit_value c of None \<Rightarrow> None | Some d \<Rightarrow> decimal (10 * n + d) cs)"

definition parse_u32 :: "string \<Rightarrow> nat option" where
  "parse_u32 s =
     (let digits = (case s of c # cs \<Rightarrow> if c = CHR ''+'' then cs else s | [] \<Rightarrow> [])
      in if digits = [] then None
         else (case decimal 0 digits of None \<Rightarrow> None | Some n \<Rightarrow> if n < 2 ^ 32 then Some n else None))"

definition valid_reference :: "string \<Rightarrow> string \<Rightarrow> bool" where
  "valid_reference reference expected \<longleftrightarrow>
     (case split_once (CHR '':'') reference of
        None \<Rightarrow> False
      | Some (prefix, rest) \<Rightarrow>
          (case split_once (CHR ''@'') rest of
             None \<Rightarrow> False
           | Some (name, version) \<Rightarrow>
               prefix = expected \<and> valid_name name
               \<and> (case parse_u32 version of None \<Rightarrow> False | Some n \<Rightarrow> 0 < n \<and> show_nat n = version)))"

definition required :: "'a option \<Rightarrow> string \<Rightarrow> 'a resolving" where
  "required value field = (case value of
     None \<Rightarrow> fail (invalid_global field ''required field is missing after merging trusted configuration'')
   | Some v \<Rightarrow> ret v)"

text \<open>\<open>Path::is_absolute\<close> on Unix.\<close>

definition is_absolute :: "string \<Rightarrow> bool" where
  "is_absolute path = (case path of [] \<Rightarrow> False | c # _ \<Rightarrow> c = CHR ''/'')"

subsection \<open>Profiles and archetypes\<close>

definition resolve_profile :: "string \<times> ProfileInput \<Rightarrow> PermissionProfile name_map \<Rightarrow> PermissionProfile name_map resolving" where
  "resolve_profile = (\<lambda>(name, input) done.
     let prefix = ''permission_profiles.'' @ name in
     seq (check_name name prefix)
     (seq (check (\<not> (pi_filesystem input = Some Unrestricted \<and> pi_network input = Some Deny))
        (invalid_global (prefix @ ''.network'')
          ''unrestricted access disables the network sandbox; select provider-default or a sandboxed filesystem policy''))
     (seq (check (\<not> (pi_approval_reviewer input = Some AutoReview \<and> pi_approvals input = Some Never))
        (invalid_global (prefix @ ''.approval_reviewer'') ''automatic review requires interactive approvals''))
     (bind (required (pi_filesystem input) (prefix @ ''.filesystem'')) (\<lambda>fs.
      bind (required (pi_network input) (prefix @ ''.network'')) (\<lambda>net.
      bind (required (pi_approvals input) (prefix @ ''.approvals'')) (\<lambda>app.
      ret (obj_insert name
        \<lparr>filesystem = fs, network = net, approvals = app,
         approval_reviewer = (case pi_approval_reviewer input of None \<Rightarrow> User | Some r \<Rightarrow> r)\<rparr> done))))))))"

definition resolve_profiles :: "ProfileInput name_map \<Rightarrow> PermissionProfile name_map resolving" where
  "resolve_profiles inputs = fold_each resolve_profile inputs []"

fun parse_grants :: "string \<Rightarrow> string list \<Rightarrow> CapabilityGrant list resolving" where
  "parse_grants field [] = ret []"
| "parse_grants field (g # gs) =
     (case parse_grant g of
        None \<Rightarrow> fail (invalid_global field ''capability requires a supported namespace and an action name or *'')
      | Some grant \<Rightarrow> bind (parse_grants field gs) (\<lambda>grants. ret (grant # grants)))"

definition resolve_role ::
    "string \<Rightarrow> PermissionProfile name_map \<Rightarrow> string list name_map \<Rightarrow> string \<times> RoleInput
     \<Rightarrow> RoleDefinition name_map \<times> PermissionProfile name_map
     \<Rightarrow> (RoleDefinition name_map \<times> PermissionProfile name_map) resolving" where
  "resolve_role outer profiles providers = (\<lambda>(name, input) (roles, used).
     let prefix = outer @ ''.roles.'' @ name in
     seq (check_name name prefix)
     (bind (required (ri_provider input) (prefix @ ''.provider'')) (\<lambda>provider.
      seq (check (map_of providers provider \<noteq> None)
            (invalid_global (prefix @ ''.provider'') ''role references a missing provider binding''))
      (bind (required (ri_permission_profile input) (prefix @ ''.permission_profile'')) (\<lambda>profile.
       case map_of profiles profile of
         None \<Rightarrow> fail (invalid_global (prefix @ ''.permission_profile'')
                   ''role references a missing trusted permission profile'')
       | Some value \<Rightarrow>
           bind (required (ri_capabilities input) (prefix @ ''.capabilities'')) (\<lambda>texts.
           bind (parse_grants (prefix @ ''.capabilities'') texts) (\<lambda>grants.
           bind (required (ri_mode input) (prefix @ ''.mode'')) (\<lambda>mode.
           bind (required (ri_workspace input) (prefix @ ''.workspace'')) (\<lambda>workspace.
           ret (obj_insert name
                  \<lparr>rl_provider = provider, rl_mode = mode, rl_max_instances = ri_max_instances input,
                   rl_workspace = workspace, rl_permission_profile = profile,
                   rl_instructions = ri_instructions input, rl_capabilities = grants\<rparr> roles,
                obj_insert profile value used))))))))))"

definition resolve_archetype ::
    "string \<Rightarrow> ArchetypeInput \<Rightarrow> PermissionProfile name_map \<Rightarrow> string list name_map \<Rightarrow> ArchetypeDefinition resolving" where
  "resolve_archetype reference input profiles providers =
     (let prefix = ''archetypes.'' @ reference in
      bind (required (ai_lead input) (prefix @ ''.lead'')) (\<lambda>lead.
      bind (fold_each (resolve_role prefix profiles providers) (ai_roles input) ([], [])) (\<lambda>(roles, used).
      seq (check (case map_of roles lead of None \<Rightarrow> False | Some r \<Rightarrow> rl_mode r = InteractiveMode)
            (invalid_global (prefix @ ''.lead'') ''designated foreground role must exist and use interactive mode''))
      (bind (index roles lead) (\<lambda>role.
       seq (check (rl_workspace role \<noteq> Worktree) (invalid_global (prefix @ ''.roles.'' @ lead @ ''.workspace'')
              ''the initial foreground agent has no task assignment; use project or read-only, and assign worktree roles to background tasks''))
           (ret \<lparr>ar_reference = reference, ar_lead = lead, ar_permission_profiles = used, ar_roles = roles\<rparr>))))))"

subsection \<open>Limits and supervision\<close>

definition apply_limit :: "string \<Rightarrow> nat option \<Rightarrow> nat \<Rightarrow> ConfigLayer \<Rightarrow> unit resolving" where
  "apply_limit name input bounded layer =
     (case input of None \<Rightarrow> ret ()
      | Some value \<Rightarrow>
          if value = 0 \<or> value \<noteq> bounded
          then fail (invalid layer (''limits.'' @ name) ''limit must be positive and cannot exceed trusted operator policy'')
          else record_field (''limits.'' @ name) layer)"

definition requested_limits :: "RunLimits \<Rightarrow> LimitOverrides \<Rightarrow> RunLimits" where
  "requested_limits effective input =
     \<lparr>max_concurrent_agents = (case li_max_concurrent_agents input of None \<Rightarrow> max_concurrent_agents effective | Some v \<Rightarrow> v),
      max_agents_per_run = (case li_max_agents_per_run input of None \<Rightarrow> max_agents_per_run effective | Some v \<Rightarrow> v),
      max_spawns_per_minute = (case li_max_spawns_per_minute input of None \<Rightarrow> max_spawns_per_minute effective | Some v \<Rightarrow> v)\<rparr>"

definition apply_limits ::
    "RunLimits \<Rightarrow> LimitOverrides \<Rightarrow> RunLimits option \<Rightarrow> ConfigLayer \<Rightarrow> RunLimits resolving" where
  "apply_limits effective input ceiling layer =
     (let requested = requested_limits effective input;
          bounded = (case ceiling of None \<Rightarrow> requested | Some c \<Rightarrow> intersect_limits requested c) in
      seq (apply_limit ''max_concurrent_agents'' (li_max_concurrent_agents input) (max_concurrent_agents bounded) layer)
      (seq (apply_limit ''max_agents_per_run'' (li_max_agents_per_run input) (max_agents_per_run bounded) layer)
      (seq (apply_limit ''max_spawns_per_minute'' (li_max_spawns_per_minute input) (max_spawns_per_minute bounded) layer)
           (ret bounded))))"

text \<open>\<open>i64::MAX / 1_000\<close>\<close>

definition bound_limit :: int where
  "bound_limit = quot_i64 i64_max 1000"

definition apply_bound ::
    "string \<Rightarrow> int option \<Rightarrow> (int \<Rightarrow> SupervisionPolicy \<Rightarrow> SupervisionPolicy) \<Rightarrow> SupervisionPolicy \<Rightarrow> SupervisionPolicy resolving" where
  "apply_bound name input set_it policy =
     (case input of None \<Rightarrow> ret policy
      | Some value \<Rightarrow>
          if value \<le> 0 \<or> bound_limit < value
          then fail (invalid_global (''supervision.'' @ name) ''supervision bounds must be positive and fit millisecond arithmetic'')
          else seq (record_field (''supervision.'' @ name) Global) (ret (set_it value policy)))"

definition apply_idle_timeout :: "int option \<Rightarrow> SupervisionPolicy \<Rightarrow> SupervisionPolicy resolving" where
  "apply_idle_timeout input policy =
     (case input of None \<Rightarrow> ret policy
      | Some value \<Rightarrow>
          if \<not> (0 \<le> value \<and> value \<le> bound_limit)
          then fail (invalid_global ''supervision.idle_timeout_seconds'' ''idle timeout must be nonnegative and fit millisecond arithmetic'')
          else seq (record_field ''supervision.idle_timeout_seconds'' Global)
                   (ret (policy\<lparr>idle_timeout_seconds := value\<rparr>)))"

definition resolve_supervision :: "SupervisionPolicy \<Rightarrow> SupervisionOverrides \<Rightarrow> SupervisionPolicy resolving" where
  "resolve_supervision policy input =
     bind (apply_bound ''restart_window_seconds'' (so_restart_window_seconds input) (\<lambda>v p. p\<lparr>restart_window_seconds := v\<rparr>) policy) (\<lambda>policy.
     bind (apply_bound ''max_launch_attempts'' (so_max_launch_attempts input) (\<lambda>v p. p\<lparr>max_launch_attempts := v\<rparr>) policy) (\<lambda>policy.
     bind (apply_bound ''restart_backoff_seconds'' (so_restart_backoff_seconds input) (\<lambda>v p. p\<lparr>restart_backoff_seconds := v\<rparr>) policy) (\<lambda>policy.
     bind (apply_bound ''startup_timeout_seconds'' (so_startup_timeout_seconds input) (\<lambda>v p. p\<lparr>startup_timeout_seconds := v\<rparr>) policy) (\<lambda>policy.
     bind (apply_bound ''job_timeout_seconds'' (so_job_timeout_seconds input) (\<lambda>v p. p\<lparr>job_timeout_seconds := v\<rparr>) policy) (\<lambda>policy.
     bind (apply_bound ''interrupt_grace_ms'' (so_interrupt_grace_ms input) (\<lambda>v p. p\<lparr>interrupt_grace_ms := v\<rparr>) policy) (\<lambda>policy.
     bind (apply_bound ''shutdown_timeout_ms'' (so_shutdown_timeout_ms input) (\<lambda>v p. p\<lparr>shutdown_timeout_ms := v\<rparr>) policy) (\<lambda>policy.
     bind (apply_idle_timeout (so_idle_timeout_seconds input) policy) (\<lambda>policy.
     seq (check (interrupt_grace_ms policy < shutdown_timeout_ms policy)
            (invalid_global ''supervision.interrupt_grace_ms'' ''interrupt grace must be shorter than the overall shutdown timeout''))
         (ret policy)))))))))"

subsection \<open>Role restrictions\<close>

definition select_profile_origin ::
    "string \<Rightarrow> string \<Rightarrow> ProfileInput name_map \<Rightarrow> ConfigLayer \<Rightarrow> string \<Rightarrow> unit resolving" where
  "select_profile_origin prefix profile inputs layer field =
     bind (if field = ''approval_reviewer''
           then bind (index inputs profile) (\<lambda>i. ret (pi_approval_reviewer i = None)) else ret False) (\<lambda>compiled.
     set_origin (prefix @ ''.permission_profile.'' @ field)
       \<lparr>vp_source = config_source (if compiled then Compiled else Global)
          (''permission_profiles.'' @ profile @ ''.'' @ field),
        vp_selected_by = Some (config_source layer (prefix @ ''.permission_profile''))\<rparr>)"

definition restricted_role :: "RoleRestriction \<Rightarrow> EffectiveRole \<Rightarrow> EffectiveRole" where
  "restricted_role restriction current = current
     \<lparr>er_enabled := (case rr_enabled restriction of None \<Rightarrow> er_enabled current | Some b \<Rightarrow> b),
      er_max_instances := (case rr_max_instances restriction of None \<Rightarrow> er_max_instances current | Some n \<Rightarrow> Some n)\<rparr>"

definition role_ceiling :: "RoleDefinition \<Rightarrow> PermissionProfile \<Rightarrow> EffectiveRole" where
  "role_ceiling baseline profile =
     \<lparr>er_enabled = True, er_max_instances = rl_max_instances baseline, er_permission_profile = profile\<rparr>"

definition apply_role ::
    "ArchetypeDefinition \<Rightarrow> PermissionProfile name_map \<Rightarrow> ProfileInput name_map \<Rightarrow> ConfigLayer
     \<Rightarrow> string \<times> RoleRestriction \<Rightarrow> EffectiveRole name_map \<Rightarrow> EffectiveRole name_map resolving" where
  "apply_role archetype profiles inputs layer = (\<lambda>(name, restriction) roles.
     let prefix = ''roles.'' @ name in
     case role archetype name of
       None \<Rightarrow> fail (invalid layer prefix ''restriction references an undeclared role'')
     | Some baseline \<Rightarrow>
         bind (index roles name) (\<lambda>current.
         seq (check (\<not> (rr_enabled restriction = Some False \<and> name = ar_lead archetype))
                (invalid layer (prefix @ ''.enabled'') ''the designated foreground role cannot be disabled''))
         (bind (case rr_permission_profile restriction of
                  None \<Rightarrow> ret (restricted_role restriction current)
                | Some profile \<Rightarrow>
                    (case map_of profiles profile of
                       None \<Rightarrow> fail (invalid layer (prefix @ ''.permission_profile'')
                                ''restriction must select an existing trusted global permission profile'')
                     | Some value \<Rightarrow> ret ((restricted_role restriction current)\<lparr>er_permission_profile := value\<rparr>)))
          (\<lambda>requested.
          bind (index (ar_permission_profiles archetype) (rl_permission_profile baseline)) (\<lambda>trusted.
          let bounded = intersect_role requested (role_ceiling baseline trusted) in
          seq (check (er_max_instances requested = er_max_instances bounded)
                (invalid layer (prefix @ ''.max_instances'') ''capacity exceeds the trusted archetype''))
          (seq (check (er_permission_profile requested = er_permission_profile bounded)
                (invalid layer (prefix @ ''.permission_profile'')
                  ''permission profile exceeds or is incomparable with the trusted archetype profile''))
          (seq (if rr_enabled restriction \<noteq> None then record_field (prefix @ ''.enabled'') layer else ret ())
          (seq (if rr_max_instances restriction \<noteq> None then record_field (prefix @ ''.max_instances'') layer else ret ())
          (seq (case rr_permission_profile restriction of None \<Rightarrow> ret ()
                | Some profile \<Rightarrow> for_each (select_profile_origin prefix profile inputs layer) profile_fields)
               (ret (obj_insert name bounded roles)))))))))))"

definition apply_roles ::
    "ArchetypeDefinition \<Rightarrow> RoleRestriction name_map \<Rightarrow> PermissionProfile name_map \<Rightarrow> ProfileInput name_map
     \<Rightarrow> ConfigLayer \<Rightarrow> EffectiveRole name_map \<Rightarrow> EffectiveRole name_map resolving" where
  "apply_roles archetype restrictions profiles inputs layer roles =
     fold_each (apply_role archetype profiles inputs layer) restrictions roles"

subsection \<open>Resolution\<close>

definition resolve_provider :: "string \<times> string list option \<Rightarrow> string list name_map \<Rightarrow> string list name_map resolving" where
  "resolve_provider = (\<lambda>(name, input) providers.
     seq (check_name name (''providers.'' @ name))
     (case (case input of Some c \<Rightarrow> Some c | None \<Rightarrow> map_of providers name) of
        None \<Rightarrow> fail (invalid_global (''providers.'' @ name @ ''.command'') ''provider requires a command argument array'')
      | Some command \<Rightarrow>
          seq (check (\<not> (case command of [] \<Rightarrow> True | program # _ \<Rightarrow> program = [])
                      \<and> \<not> list_ex (\<lambda>argument. char_of (0::nat) \<in> set argument) command)
                (invalid_global (''providers.'' @ name @ ''.command'')
                  ''command requires a nonempty executable and arguments without NUL bytes''))
          (seq (if input \<noteq> None then record_field (''providers.'' @ name @ ''.command'') Global else ret ())
               (ret (obj_insert name command providers)))))"

definition resolve_definition ::
    "PermissionProfile name_map \<Rightarrow> string list name_map \<Rightarrow> string \<times> ArchetypeInput
     \<Rightarrow> ArchetypeDefinition name_map \<Rightarrow> ArchetypeDefinition name_map resolving" where
  "resolve_definition profiles providers = (\<lambda>(reference, input) archetypes.
     seq (check (valid_reference reference ''global'')
            (invalid_global (''archetypes.'' @ reference)
              ''global definitions require a versioned global:name@N reference; builtin: is reserved''))
     (bind (resolve_archetype reference input profiles providers) (\<lambda>archetype.
      ret (obj_insert reference archetype archetypes))))"

definition check_selector :: "ArchetypeDefinition name_map \<Rightarrow> string option \<times> ConfigLayer \<Rightarrow> unit resolving" where
  "check_selector archetypes = (\<lambda>(selection, layer).
     check (case selection of None \<Rightarrow> True | Some reference \<Rightarrow> map_of archetypes reference \<noteq> None)
       (invalid layer ''archetype''
         ''unknown archetype; select an available versioned builtin: or global: definition''))"

fun or_else :: "'a option \<Rightarrow> 'a option \<Rightarrow> 'a option" where
  "or_else (Some a) _ = Some a"
| "or_else None b = b"

definition selected_reference :: "GlobalConfig \<Rightarrow> ProjectConfig \<Rightarrow> OperatorOverrides \<Rightarrow> string" where
  "selected_reference global project operator =
     (case or_else (oo_archetype operator) (or_else (pc_archetype project) (gc_archetype global)) of
        Some reference \<Rightarrow> reference | None \<Rightarrow> cd_archetype compiled_defaults)"

definition selection_layer :: "GlobalConfig \<Rightarrow> ProjectConfig \<Rightarrow> OperatorOverrides \<Rightarrow> ConfigLayer" where
  "selection_layer global project operator =
     (if oo_archetype operator \<noteq> None then Operator
      else if pc_archetype project \<noteq> None then Project
      else if gc_archetype global \<noteq> None then Global else Compiled)"

definition initial_role ::
    "ArchetypeDefinition \<Rightarrow> string \<times> RoleDefinition \<Rightarrow> EffectiveRole name_map \<Rightarrow> EffectiveRole name_map resolving" where
  "initial_role archetype = (\<lambda>(name, r) roles.
     bind (index (ar_permission_profiles archetype) (rl_permission_profile r)) (\<lambda>profile.
     ret (obj_insert name (role_ceiling r profile) roles)))"

definition check_read_only :: "string \<Rightarrow> EffectiveRole name_map \<Rightarrow> string \<times> RoleDefinition \<Rightarrow> unit resolving" where
  "check_read_only reference roles = (\<lambda>(name, r).
     bind (index roles name) (\<lambda>eff.
     check (\<not> (er_enabled eff \<and> rl_workspace r = ReadOnlyWorkspace
               \<and> filesystem (er_permission_profile eff) \<noteq> FsReadOnly))
       (invalid_global (''archetypes.'' @ reference @ ''.roles.'' @ name @ ''.workspace'')
         ''a read-only workspace requires an effective read-only filesystem permission profile'')))"

definition unrestricted_role :: "EffectiveRole \<Rightarrow> bool" where
  "unrestricted_role r \<longleftrightarrow> er_enabled r \<and> filesystem (er_permission_profile r) = Unrestricted"

definition restrict_and_check ::
    "GlobalConfig \<Rightarrow> ProjectConfig \<Rightarrow> OperatorOverrides \<Rightarrow> PermissionProfile name_map
     \<Rightarrow> RunLimits \<Rightarrow> ArchetypeDefinition \<Rightarrow> (RunLimits \<times> EffectiveRole name_map) resolving" where
  "restrict_and_check global project operator profiles trusted archetype =
     bind (fold_each (initial_role archetype) (ar_roles archetype) []) (\<lambda>roles.
     bind (apply_limits trusted (pc_limits project) (Some trusted) Project) (\<lambda>limits.
     bind (apply_roles archetype (pc_roles project) profiles (gc_permission_profiles global) Project roles) (\<lambda>roles.
     bind (apply_limits limits (oo_limits operator) (Some trusted) Operator) (\<lambda>limits.
     bind (apply_roles archetype (oo_roles operator) profiles (gc_permission_profiles global) Operator roles) (\<lambda>roles.
     seq (for_each (check_read_only (ar_reference archetype) roles) (ar_roles archetype))
     (seq (check (\<not> (list_ex unrestricted_role (map snd roles)
                     \<and> or_else (oo_archetype operator) (gc_archetype global)
                         \<noteq> Some (selected_reference global project operator)))
            (invalid Project ''archetype''
              ''unrestricted access requires selecting this archetype in trusted global configuration or with --archetype''))
          (ret (limits, roles))))))))"

definition resolve_values ::
    "GlobalConfig \<Rightarrow> ProjectConfig \<Rightarrow> OperatorOverrides \<Rightarrow> EffectiveConfig resolving" where
  "resolve_values global project operator =
     seq (check (gc_includes global = None)
       (invalid_global ''includes'' ''includes must be expanded by the file loader before resolution''))
     (seq (record_tree (map_json provider_json (cd_providers compiled_defaults)) ''providers'' ''providers'' Compiled)
     (seq (record_tree (limits_json (cd_limits compiled_defaults)) ''limits'' ''limits'' Compiled)
     (seq (record_tree (supervision_json (cd_supervision compiled_defaults)) ''supervision'' ''supervision'' Compiled)
     (let roots = (case gc_allowed_project_roots global of None \<Rightarrow> [] | Some paths \<Rightarrow> paths) in
     (seq (check (list_all is_absolute roots)
            (invalid_global ''allowed_project_roots'' ''project roots must be absolute paths''))
     (seq (record_field ''allowed_project_roots''
            (if gc_allowed_project_roots global \<noteq> None then Global else Compiled))
     (bind (fold_each resolve_provider (gc_providers global) (cd_providers compiled_defaults)) (\<lambda>providers.
     (bind (apply_limits (cd_limits compiled_defaults) (gc_limits global) None Global) (\<lambda>trusted.
     (bind (resolve_supervision (cd_supervision compiled_defaults) (gc_supervision global)) (\<lambda>policy.
     (bind (resolve_profiles (gc_permission_profiles global)) (\<lambda>profiles.
     (bind (case builtin_standard of None \<Rightarrow> fail Panicked | Some b \<Rightarrow> ret b) (\<lambda>standard.
     (bind (fold_each (resolve_definition profiles providers) (gc_archetypes global)
              [(ar_reference standard, standard)]) (\<lambda>archetypes.
     (seq (for_each (check_selector archetypes)
            [(gc_archetype global, Global), (pc_archetype project, Project), (oo_archetype operator, Operator)])
     (bind (index archetypes (selected_reference global project operator)) (\<lambda>archetype.
     (seq (record_archetype archetype (map_of (gc_archetypes global) (selected_reference global project operator))
            (gc_permission_profiles global)
            (config_source (selection_layer global project operator) ''archetype''))
     (bind (restrict_and_check global project operator profiles trusted archetype) (\<lambda>(limits, roles).
      ret \<lparr>ec_archetype = archetype, ec_providers = providers, ec_allowed_project_roots = roots,
           ec_limits = limits, ec_supervision = policy, ec_roles = roles, ec_provenance = []\<rparr>
     ))))))))))))))))))))))))"

definition resolve :: "GlobalConfig \<Rightarrow> ProjectConfig \<Rightarrow> OperatorOverrides \<Rightarrow> failure + EffectiveConfig" where
  "resolve global project operator =
     (case resolve_values global project operator [] of
        Inl e \<Rightarrow> Inl e
      | Inr (config, provenance) \<Rightarrow> Inr (config\<lparr>ec_provenance := provenance\<rparr>))"

end
