(* ===== verification/Resolution.thy ===== *)
theory Resolution
  imports Resolver
begin

section \<open>What a resolved configuration guarantees\<close>

text \<open>
  A small Hoare logic for resolving functions. \<open>resolves D m R E\<close> says of \<open>m\<close>, started with the
  origins of at least the fields \<open>D\<close> recorded: it does not panic; and if it returns a value, the
  value satisfies \<open>R\<close>, no origin was dropped, and the origins of the fields \<open>E\<close> are recorded too.
\<close>

named_theorems resolves_intros "proof rules of the logic of resolving functions"

definition fields_of :: "Provenance \<Rightarrow> string set" where
  "fields_of p = fst ` set p"

definition resolves ::
    "string set \<Rightarrow> 'a resolving \<Rightarrow> ('a \<Rightarrow> bool) \<Rightarrow> ('a \<Rightarrow> string set) \<Rightarrow> bool" where
  "resolves D m R E \<longleftrightarrow>
     (\<forall>s. D \<subseteq> fields_of s \<longrightarrow>
        (case m s of Inl e \<Rightarrow> e \<noteq> Panicked
         | Inr (a, t) \<Rightarrow> fields_of s \<union> E a \<subseteq> fields_of t \<and> R a))"

lemma resolvesD:
  "resolves D m R E \<Longrightarrow> D \<subseteq> fields_of s \<Longrightarrow> m s = Inr (a, t) \<Longrightarrow> fields_of s \<union> E a \<subseteq> fields_of t \<and> R a"
  unfolding resolves_def by (drule spec [of _ s]) simp

lemma resolves_no_panic: "resolves D m R E \<Longrightarrow> D \<subseteq> fields_of s \<Longrightarrow> m s = Inl e \<Longrightarrow> e \<noteq> Panicked"
  unfolding resolves_def by (drule spec [of _ s]) simp

lemma obj_insert_keys [simp]: "fst ` set (obj_insert k v m) = insert k (fst ` set m)"
  by (induction k v m rule: obj_insert.induct) auto

lemma fields_of_insert [simp]: "fields_of (obj_insert k v p) = insert k (fields_of p)"
  by (simp add: fields_of_def)

subsection \<open>Proof rules\<close>

lemma resolves_weaken:
  assumes "resolves D m R E" "\<And>a. R a \<Longrightarrow> R' a \<and> E' a \<subseteq> D \<union> E a"
  shows "resolves D m R' E'"
  unfolding resolves_def
proof (intro allI impI)
  fix s assume D: "D \<subseteq> fields_of s"
  with assms(1) have "case m s of Inl e \<Rightarrow> e \<noteq> Panicked
         | Inr (a, t) \<Rightarrow> fields_of s \<union> E a \<subseteq> fields_of t \<and> R a"
    by (simp add: resolves_def)
  with D assms(2) show "case m s of Inl e \<Rightarrow> e \<noteq> Panicked
         | Inr (a, t) \<Rightarrow> fields_of s \<union> E' a \<subseteq> fields_of t \<and> R' a"
    by (cases "m s") (auto, blast)
qed

lemma resolves_mono: "resolves D m R E \<Longrightarrow> D \<subseteq> D' \<Longrightarrow> resolves D' m R E"
  unfolding resolves_def by blast

lemma resolves_ret: "R a \<Longrightarrow> E a \<subseteq> D \<Longrightarrow> resolves D (ret a) R E"
  by (auto simp: resolves_def)

lemma resolves_fail: "e \<noteq> Panicked \<Longrightarrow> resolves D (fail e) R E"
  by (simp add: resolves_def)

lemma resolves_raw [simp]:
  "e \<noteq> Panicked \<Longrightarrow> resolves D (\<lambda>s. Inl e) R E"
  "R a \<Longrightarrow> E a \<subseteq> D \<Longrightarrow> resolves D (\<lambda>s. Inr (a, s)) R E"
  by (auto simp: resolves_def)

lemma resolves_bind:
  assumes "resolves D m R E" "\<And>a. R a \<Longrightarrow> resolves (D \<union> E a) (f a) R' E'"
  shows "resolves D (bind m f) R' E'"
  unfolding resolves_def
proof (intro allI impI)
  fix s assume D: "D \<subseteq> fields_of s"
  show "case bind m f s of Inl e \<Rightarrow> e \<noteq> Panicked
      | Inr (a, t) \<Rightarrow> fields_of s \<union> E' a \<subseteq> fields_of t \<and> R' a"
  proof (cases "m s")
    case (Inl e)
    with resolves_no_panic [OF assms(1) D] show ?thesis by (simp add: bind_def)
  next
    case (Inr r)
    obtain a t where r: "r = (a, t)" by (cases r)
    with resolvesD [OF assms(1) D] Inr have "fields_of s \<union> E a \<subseteq> fields_of t" "R a" by simp_all
    with assms(2) [of a] D have "case f a t of Inl e \<Rightarrow> e \<noteq> Panicked
        | Inr (b, u) \<Rightarrow> fields_of t \<union> E' b \<subseteq> fields_of u \<and> R' b"
      by (auto simp: resolves_def)
    with \<open>fields_of s \<union> E a \<subseteq> fields_of t\<close> show ?thesis
      by (auto simp: bind_def Inr r split: sum.splits)
  qed
qed

lemma resolves_seq:
  "resolves D m (\<lambda>_. True) (\<lambda>_. E) \<Longrightarrow> resolves (D \<union> E) n R' E' \<Longrightarrow> resolves D (seq m n) R' E'"
  unfolding seq_def by (rule resolves_bind)

lemma resolves_check:
  assumes "b \<Longrightarrow> resolves D n R E" "e \<noteq> Panicked"
  shows "resolves D (seq (check b e) n) R E"
  using assms by (auto simp: check_def seq_def resolves_def bind_def)

lemma invalid_neq_Panicked [simp]: "invalid layer f r \<noteq> Panicked" "invalid_global f r \<noteq> Panicked"
  by (simp_all add: invalid_def invalid_global_def)

lemma resolves_set_origin: "resolves D (set_origin f v) (\<lambda>_. True) (\<lambda>_. {f})"
  by (auto simp: resolves_def set_origin_def)

lemma resolves_record_field: "resolves D (record_field f layer) (\<lambda>_. True) (\<lambda>_. {f})"
  by (simp add: record_field_def resolves_set_origin)

lemma resolves_origin_of: "f \<in> D \<Longrightarrow> resolves D (origin_of f) (\<lambda>_. True) (\<lambda>_. {})"
  unfolding resolves_def origin_of_def fields_of_def
  by (auto simp: weak_map_of_SomeI split: option.splits) (metis map_of_eq_None_iff option.discI subsetD)

lemma resolves_index: "map_of m k = Some v \<Longrightarrow> resolves D (index m k) (\<lambda>a. a = v) (\<lambda>_. {})"
  by (auto simp: index_def resolves_def)

lemma resolves_required: "resolves D (required x f) (\<lambda>a. x = Some a) (\<lambda>_. {})"
  by (cases x) (simp_all add: required_def resolves_def)

lemma resolves_unit_if:
  "(b \<Longrightarrow> resolves D m (\<lambda>_. True) (\<lambda>_. E)) \<Longrightarrow>
   resolves D (if b then m else ret ()) (\<lambda>_. True) (\<lambda>_. if b then E else {})"
  by (auto intro: resolves_ret)

lemma resolves_for_each:
  assumes "\<And>x. x \<in> set xs \<Longrightarrow> resolves D (f x) (\<lambda>_. C x) (\<lambda>_. E x)"
  shows "resolves D (for_each f xs) (\<lambda>_. \<forall>x \<in> set xs. C x) (\<lambda>_. \<Union>x \<in> set xs. E x)"
  using assms
proof (induction xs)
  case Nil
  then show ?case unfolding for_each.simps by (intro resolves_ret) auto
next
  case (Cons x xs)
  have "resolves (D \<union> E x) (for_each f xs) (\<lambda>_. \<forall>y \<in> set (x # xs). C y) (\<lambda>_. \<Union>y \<in> set (x # xs). E y)"
    if "C x"
    by (rule resolves_weaken [OF resolves_mono [OF Cons.IH]]) (use Cons.prems that in auto)
  moreover have "resolves D (f x) (\<lambda>_. C x) (\<lambda>_. E x)" using Cons.prems by simp
  ultimately show ?case unfolding for_each.simps seq_def by (simp add: resolves_bind)
qed

lemma resolves_for_each_unit:
  "(\<And>x. x \<in> set xs \<Longrightarrow> resolves D (f x) (\<lambda>_. True) (\<lambda>_. {})) \<Longrightarrow>
   resolves D (for_each f xs) (\<lambda>_. True) (\<lambda>_. {})"
  using resolves_for_each [of xs D f "\<lambda>_. True" "\<lambda>_. {}"] by simp

lemma resolves_fold_each:
  assumes "\<And>x a. x \<in> set xs \<Longrightarrow> I a \<Longrightarrow> resolves (D \<union> F a) (f x a) (\<lambda>b. I b \<and> C x) F" and "I a" "F a \<subseteq> D"
  shows "resolves D (fold_each f xs a) (\<lambda>b. I b \<and> (\<forall>x \<in> set xs. C x)) F"
proof -
  have "resolves (D \<union> F a) (fold_each f xs a) (\<lambda>b. I b \<and> (\<forall>x \<in> set xs. C x)) F"
    using assms(1,2)
  proof (induction xs arbitrary: a)
    case Nil
    then show ?case unfolding fold_each.simps by (intro resolves_ret) auto
  next
    case (Cons x xs)
    have rest: "resolves (D \<union> F a \<union> F b) (fold_each f xs b) (\<lambda>c. I c \<and> (\<forall>y \<in> set (x # xs). C y)) F"
      if "I b" "C x" for b
    proof (rule resolves_weaken)
      show "resolves (D \<union> F a \<union> F b) (fold_each f xs b) (\<lambda>c. I c \<and> (\<forall>y \<in> set xs. C y)) F"
        using Cons.IH [OF Cons.prems(1) that(1)] by (rule resolves_mono) auto
    qed (use that in auto)
    have "resolves (D \<union> F a) (f x a) (\<lambda>b. I b \<and> C x) F" using Cons.prems by simp
    then show ?case unfolding fold_each.simps by (rule resolves_bind) (use rest in auto)
  qed
  with assms(3) show ?thesis by (simp add: Un_absorb2)
qed

lemma resolves_conj:
  "resolves D m R E \<Longrightarrow> (\<And>s a t. m s = Inr (a, t) \<Longrightarrow> R' a) \<Longrightarrow> resolves D m (\<lambda>a. R a \<and> R' a) E"
  unfolding resolves_def by (fastforce split: sum.splits)

lemma resolves_seq_True:
  "resolves D m (\<lambda>_. C) (\<lambda>_. E) \<Longrightarrow> (C \<Longrightarrow> resolves (D \<union> E) n R' E') \<Longrightarrow> resolves D (seq m n) R' E'"
  unfolding seq_def by (rule resolves_bind)

subsection \<open>The leaves of a value\<close>

function leaf_paths :: "string \<Rightarrow> json \<Rightarrow> string list" where
  "leaf_paths target (JObj entries) = concat (map (\<lambda>(k, v). leaf_paths (target @ ''.'' @ k) v) entries)"
| "leaf_paths target JNull = [target]"
| "leaf_paths target (JBool b) = [target]"
| "leaf_paths target (JInt i) = [target]"
| "leaf_paths target (JStr s) = [target]"
| "leaf_paths target (JId t u) = [target]"
| "leaf_paths target (JArr xs) = [target]"
  by pat_completeness auto
termination
  by (relation "measure (\<lambda>(_, j). size j)") (auto dest: size_member)

lemma fields_of_fold:
  "(\<And>k v p. (k, v) \<in> set es \<Longrightarrow> fields_of (g k v p) = fields_of p \<union> set (h k v)) \<Longrightarrow>
   fields_of (fold (\<lambda>(k, v). g k v) es p) = fields_of p \<union> set (concat (map (\<lambda>(k, v). h k v) es))"
  by (induction es arbitrary: p) (auto simp: Un_assoc)

lemma fields_of_visit: "fields_of (visit layer target source j p) = fields_of p \<union> set (leaf_paths target j)"
proof (induction layer target source j p rule: visit.induct)
  case (1 layer target source entries p)
  then show ?case
    unfolding visit.simps leaf_paths.simps by (intro fields_of_fold) blast
qed simp_all

lemma resolves_record_tree:
  "resolves D (record_tree j target source layer) (\<lambda>_. True) (\<lambda>_. set (leaf_paths target j))"
  by (simp add: resolves_def record_tree_def fields_of_visit)

lemma leaf_of_entry:
  "(k, v) \<in> set es \<Longrightarrow> p \<in> set (leaf_paths (target @ ''.'' @ k) v) \<Longrightarrow> p \<in> set (leaf_paths target (JObj es))"
  by auto

lemma leaf_of_map:
  "map_of m k = Some v \<Longrightarrow> p \<in> set (leaf_paths (target @ ''.'' @ k) (f v)) \<Longrightarrow>
   p \<in> set (leaf_paths target (map_json f m))"
  unfolding map_json_def by (rule leaf_of_entry [of k "f v"]) (auto dest: map_of_SomeD)

lemma leaf_json_opt [simp]: "leaf_paths target (json_opt nat_json x) = [target]"
  "leaf_paths target (json_opt JStr y) = [target]"
  by (auto simp: json_opt_def nat_json_def split: option.splits)

subsection \<open>Limits and supervision\<close>

definition limits_positive :: "RunLimits \<Rightarrow> bool" where
  "limits_positive l \<longleftrightarrow> 0 < max_concurrent_agents l \<and> 0 < max_agents_per_run l \<and> 0 < max_spawns_per_minute l"

lemma resolves_apply_limit:
  "resolves D (apply_limit name input bounded layer)
     (\<lambda>_. \<forall>v. input = Some v \<longrightarrow> 0 < v \<and> v = bounded) (\<lambda>_. {})"
  unfolding apply_limit_def
  by (cases input) (auto intro!: resolves_ret resolves_fail resolves_weaken [OF resolves_record_field])

lemma intersect_limits_absorb:
  "intersect_limits l c = l \<longleftrightarrow> max_concurrent_agents l \<le> max_concurrent_agents c
     \<and> max_agents_per_run l \<le> max_agents_per_run c \<and> max_spawns_per_minute l \<le> max_spawns_per_minute c"
  by (cases l) (auto simp: intersect_limits_def min_def)

lemma requested_within:
  fixes input effective ceiling
  defines "bounded \<equiv> (case ceiling of None \<Rightarrow> requested_limits effective input
      | Some c \<Rightarrow> intersect_limits (requested_limits effective input) c)"
  assumes "limits_positive effective" "\<And>c. ceiling = Some c \<Longrightarrow> intersect_limits effective c = effective"
    and "\<forall>v. li_max_concurrent_agents input = Some v \<longrightarrow> 0 < v \<and> v = max_concurrent_agents bounded"
    and "\<forall>v. li_max_agents_per_run input = Some v \<longrightarrow> 0 < v \<and> v = max_agents_per_run bounded"
    and "\<forall>v. li_max_spawns_per_minute input = Some v \<longrightarrow> 0 < v \<and> v = max_spawns_per_minute bounded"
  shows "limits_positive bounded \<and> bounded = requested_limits effective input
     \<and> (\<forall>c. ceiling = Some c \<longrightarrow> intersect_limits bounded c = bounded)"
proof -
  have eq: "bounded = requested_limits effective input"
  proof (cases ceiling)
    case (Some c)
    with assms(3) have le: "max_concurrent_agents effective \<le> max_concurrent_agents c"
      "max_agents_per_run effective \<le> max_agents_per_run c"
      "max_spawns_per_minute effective \<le> max_spawns_per_minute c"
      unfolding intersect_limits_absorb by simp_all
    have unset: "li_max_concurrent_agents input = None \<Longrightarrow>
        max_concurrent_agents bounded = max_concurrent_agents (requested_limits effective input)"
      "li_max_agents_per_run input = None \<Longrightarrow>
        max_agents_per_run bounded = max_agents_per_run (requested_limits effective input)"
      "li_max_spawns_per_minute input = None \<Longrightarrow>
        max_spawns_per_minute bounded = max_spawns_per_minute (requested_limits effective input)"
      using le by (simp_all add: bounded_def Some intersect_limits_def requested_limits_def)
    have set_fields: "li_max_concurrent_agents input = Some v \<Longrightarrow> max_concurrent_agents (requested_limits effective input) = v"
      "li_max_agents_per_run input = Some v \<Longrightarrow> max_agents_per_run (requested_limits effective input) = v"
      "li_max_spawns_per_minute input = Some v \<Longrightarrow> max_spawns_per_minute (requested_limits effective input) = v" for v
      by (simp_all add: requested_limits_def)
    show ?thesis
    proof (rule RunLimits.equality)
      show "max_concurrent_agents bounded = max_concurrent_agents (requested_limits effective input)"
        using assms(4) unset(1) set_fields(1) by (cases "li_max_concurrent_agents input") auto
      show "max_agents_per_run bounded = max_agents_per_run (requested_limits effective input)"
        using assms(5) unset(2) set_fields(2) by (cases "li_max_agents_per_run input") auto
      show "max_spawns_per_minute bounded = max_spawns_per_minute (requested_limits effective input)"
        using assms(6) unset(3) set_fields(3) by (cases "li_max_spawns_per_minute input") auto
    qed simp
  qed (simp add: bounded_def)
  moreover have "limits_positive (requested_limits effective input)"
    using assms(2,4-6) by (auto simp: limits_positive_def requested_limits_def split: option.splits)
  moreover have "intersect_limits bounded c = bounded" if "ceiling = Some c" for c
    using that by (simp add: bounded_def intersect_limits_def)
  ultimately show ?thesis by simp
qed

lemma resolves_apply_limits:
  assumes "limits_positive effective" "\<And>c. ceiling = Some c \<Longrightarrow> intersect_limits effective c = effective"
  shows "resolves D (apply_limits effective input ceiling layer)
    (\<lambda>l. limits_positive l \<and> l = requested_limits effective input
       \<and> (\<forall>c. ceiling = Some c \<longrightarrow> intersect_limits l c = l)) (\<lambda>_. {})"
  unfolding apply_limits_def Let_def
  apply (rule resolves_seq_True, rule resolves_apply_limit)
  apply (rule resolves_seq_True, rule resolves_apply_limit)
  apply (rule resolves_seq_True, rule resolves_apply_limit)
  apply (rule resolves_ret)
   apply (rule requested_within)
     apply (use assms in simp_all)
  done

definition supervision_fits :: "SupervisionPolicy \<Rightarrow> bool" where
  "supervision_fits p \<longleftrightarrow>
     (\<forall>v \<in> {restart_window_seconds p, max_launch_attempts p, restart_backoff_seconds p,
            startup_timeout_seconds p, job_timeout_seconds p, interrupt_grace_ms p, shutdown_timeout_ms p}.
        0 < v \<and> v \<le> bound_limit)
     \<and> 0 \<le> idle_timeout_seconds p \<and> idle_timeout_seconds p \<le> bound_limit"

lemma fits_update:
  assumes "supervision_fits p" "0 < v" "v \<le> bound_limit"
  shows "supervision_fits (p\<lparr>restart_window_seconds := v\<rparr>)" "supervision_fits (p\<lparr>max_launch_attempts := v\<rparr>)"
    "supervision_fits (p\<lparr>restart_backoff_seconds := v\<rparr>)" "supervision_fits (p\<lparr>startup_timeout_seconds := v\<rparr>)"
    "supervision_fits (p\<lparr>job_timeout_seconds := v\<rparr>)" "supervision_fits (p\<lparr>interrupt_grace_ms := v\<rparr>)"
    "supervision_fits (p\<lparr>shutdown_timeout_ms := v\<rparr>)"
  using assms by (simp_all add: supervision_fits_def)

lemma resolves_apply_bound:
  assumes "supervision_fits p" "\<And>v. 0 < v \<Longrightarrow> v \<le> bound_limit \<Longrightarrow> supervision_fits (set_it v p)"
  shows "resolves D (apply_bound name input set_it p) supervision_fits (\<lambda>_. {})"
  unfolding apply_bound_def
  using assms
  by (cases input)
    (auto intro!: resolves_ret resolves_fail resolves_seq resolves_record_field simp: not_le not_less)

lemma resolves_apply_idle_timeout:
  assumes "supervision_fits p"
  shows "resolves D (apply_idle_timeout input p) supervision_fits (\<lambda>_. {})"
  unfolding apply_idle_timeout_def
  using assms
  by (cases input)
    (auto intro!: resolves_ret resolves_fail resolves_seq resolves_record_field simp: supervision_fits_def)

lemma resolves_supervision:
  assumes "supervision_fits p"
  shows "resolves D (resolve_supervision p input)
    (\<lambda>q. supervision_fits q \<and> interrupt_grace_ms q < shutdown_timeout_ms q) (\<lambda>_. {})"
  unfolding resolve_supervision_def
  apply (rule resolves_bind, rule resolves_apply_bound [OF assms], erule (1) fits_update [OF assms])
  apply (rule resolves_bind, rule resolves_apply_bound, assumption, erule (2) fits_update)+
  apply (rule resolves_bind, erule resolves_apply_idle_timeout)
  apply (rule resolves_check)
   apply (rule resolves_ret)
  apply simp_all
  done

lemma compiled_supervision_fits: "supervision_fits (cd_supervision compiled_defaults)"
  by (simp add: supervision_fits_def compiled_defaults_def bound_limit_def quot_i64_def i64_max_def)

lemma compiled_limits_positive: "limits_positive (cd_limits compiled_defaults)"
  by (simp add: limits_positive_def compiled_defaults_def)

subsection \<open>Providers, profiles and archetypes\<close>

definition keys_sorted :: "'v name_map \<Rightarrow> bool" where
  "keys_sorted m \<longleftrightarrow> sorted_wrt (<) (map fst m)"

lemma keys_sorted_insert: "keys_sorted m \<Longrightarrow> keys_sorted (obj_insert k v m)"
proof -
  have keys: "fst ` set (obj_insert k v fs) = insert k (fst ` set fs)" for fs by simp
  show "keys_sorted m \<Longrightarrow> keys_sorted (obj_insert k v m)"
  proof (induction k v m rule: obj_insert.induct)
    case (2 k v k' v' fs)
    then show ?case
      using keys [of fs] by (auto simp: keys_sorted_def image_iff)
  qed (simp add: keys_sorted_def)
qed

lemma keys_sorted_eq:
  assumes "keys_sorted m" "keys_sorted n" "fst ` set m = fst ` set n"
  shows "map fst m = map fst n"
  using assms strict_sorted_equal [of "map fst m" "map fst n"] by (simp add: keys_sorted_def)

text \<open>Every binding has a program, and the compiled provider is never lost.\<close>

definition bindings_ok :: "string list name_map \<Rightarrow> bool" where
  "bindings_ok providers \<longleftrightarrow>
     (\<forall>name command. map_of providers name = Some command \<longrightarrow> command \<noteq> [] \<and> hd command \<noteq> [])
     \<and> map_of providers ''codex'' \<noteq> None"

definition binding_paths :: "string list name_map \<Rightarrow> string set" where
  "binding_paths providers = (\<lambda>name. ''providers.'' @ name @ ''.command'') ` fst ` set providers"

lemma map_of_key: "map_of m k = Some v \<Longrightarrow> k \<in> fst ` set m"
  by (metis map_of_eq_None_iff option.discI)

lemma resolves_check_name:
  "resolves D n R E \<Longrightarrow> resolves D (seq (check_name name field) n) R E"
  unfolding check_name_def by (rule resolves_check) simp_all

lemma resolves_provider:
  assumes "bindings_ok providers"
  shows "resolves (D \<union> binding_paths providers) (resolve_provider x providers) bindings_ok binding_paths"
proof -
  obtain name input where x: "x = (name, input)" by (cases x)
  let ?path = "''providers.'' @ name @ ''.command''"
  let ?D = "D \<union> binding_paths providers"
  show ?thesis
  proof (cases "case input of Some c \<Rightarrow> Some c | None \<Rightarrow> map_of providers name")
    case None
    then show ?thesis
      unfolding resolve_provider_def x prod.case
      by (intro resolves_check_name) (simp add: resolves_fail del: fail_def)
  next
    case (Some command)
    have path: "input = None \<Longrightarrow> ?path \<in> ?D"
      using Some by (auto simp: binding_paths_def dest: map_of_key)
    have "resolves ?D (seq (if input \<noteq> None then record_field ?path Global else ret ())
        (ret (obj_insert name command providers))) bindings_ok binding_paths"
      if "command \<noteq> []" "hd command \<noteq> []"
    proof (rule resolves_seq)
      show "resolves ?D (if input \<noteq> None then record_field ?path Global else ret ())
          (\<lambda>_. True) (\<lambda>_. {?path})"
        using path by (auto intro: resolves_record_field resolves_ret)
      show "resolves (?D \<union> {?path}) (ret (obj_insert name command providers)) bindings_ok binding_paths"
        using assms that by (intro resolves_ret) (auto simp: bindings_ok_def binding_paths_def)
    qed
    then show ?thesis
      unfolding resolve_provider_def x prod.case Some option.case
      by (intro resolves_check_name resolves_check) (auto split: list.splits)
  qed
qed

definition profile_from :: "ProfileInput name_map \<Rightarrow> string \<Rightarrow> PermissionProfile \<Rightarrow> bool" where
  "profile_from inputs name q \<longleftrightarrow>
     (\<exists>i. (name, i) \<in> set inputs \<and> pi_filesystem i = Some (filesystem q)
        \<and> pi_network i = Some (network q) \<and> pi_approvals i = Some (approvals q))"

definition profiles_ok :: "ProfileInput name_map \<Rightarrow> PermissionProfile name_map \<Rightarrow> bool" where
  "profiles_ok inputs profiles \<longleftrightarrow>
     (\<forall>name q. map_of profiles name = Some q \<longrightarrow> valid_profile q \<and> profile_from inputs name q)"

lemma resolves_profile:
  assumes "x \<in> set inputs" "profiles_ok inputs done"
  shows "resolves D (resolve_profile x done) (profiles_ok inputs) (\<lambda>_. {})"
proof -
  obtain name i where x: "x = (name, i)" by (cases x)
  show ?thesis
    unfolding resolve_profile_def x prod.case Let_def
    apply (rule resolves_check_name)
    apply (rule resolves_check)
     apply (rule resolves_check)
      apply (rule resolves_bind, rule resolves_required)
      apply (rule resolves_bind, rule resolves_required)
      apply (rule resolves_bind, rule resolves_required)
      apply (rule resolves_ret)
    subgoal using assms x
      by (cases "pi_approval_reviewer i"; cases "the (pi_approval_reviewer i)")
        (auto simp: profiles_ok_def profile_from_def valid_profile_def split: if_splits)
    by simp_all
qed

lemma resolves_profiles: "resolves D (resolve_profiles inputs) (profiles_ok inputs) (\<lambda>_. {})"
  unfolding resolve_profiles_def
  by (rule resolves_weaken, rule resolves_fold_each [where C = "\<lambda>_. True" and F = "\<lambda>_. {}"])
    (auto simp: profiles_ok_def intro: resolves_profile [unfolded profiles_ok_def])

text \<open>
  A resolved definition: its role and profile maps are ordered, its lead is an interactive role
  that is not given a worktree, and every role names a profile of the definition and a provider.
\<close>

definition roles_closed :: "string list name_map \<Rightarrow> RoleDefinition name_map \<Rightarrow> PermissionProfile name_map \<Rightarrow> bool" where
  "roles_closed providers roles profiles \<longleftrightarrow>
     keys_sorted roles \<and> keys_sorted profiles
     \<and> (\<forall>name r. map_of roles name = Some r \<longrightarrow>
          map_of profiles (rl_permission_profile r) \<noteq> None \<and> map_of providers (rl_provider r) \<noteq> None)
     \<and> (\<forall>name q. map_of profiles name = Some q \<longrightarrow> valid_profile q)"

definition archetype_ok :: "string list name_map \<Rightarrow> ArchetypeDefinition \<Rightarrow> bool" where
  "archetype_ok providers a \<longleftrightarrow>
     roles_closed providers (ar_roles a) (ar_permission_profiles a)
     \<and> (\<exists>r. map_of (ar_roles a) (ar_lead a) = Some r \<and> rl_mode r = InteractiveMode \<and> rl_workspace r \<noteq> Worktree)"

definition custom_profiles :: "ProfileInput name_map \<Rightarrow> PermissionProfile name_map \<Rightarrow> bool" where
  "custom_profiles inputs profiles \<longleftrightarrow> (\<forall>name q. map_of profiles name = Some q \<longrightarrow> profile_from inputs name q)"

lemma resolves_parse_grants: "resolves D (parse_grants field gs) (\<lambda>_. True) (\<lambda>_. {})"
proof (induction gs)
  case Nil
  then show ?case unfolding parse_grants.simps by (intro resolves_ret) auto
next
  case (Cons g gs)
  then show ?case
    unfolding parse_grants.simps
    by (cases "parse_grant g") (auto intro: resolves_fail resolves_bind resolves_ret)
qed

lemma resolves_role:
  assumes "roles_closed providers (fst acc) (snd acc) \<and> custom_profiles inputs (snd acc)" "profiles_ok inputs profiles"
  shows "resolves D (resolve_role outer profiles providers x acc)
    (\<lambda>acc. roles_closed providers (fst acc) (snd acc) \<and> custom_profiles inputs (snd acc)) (\<lambda>_. {})"
proof -
  obtain name i roles used where x: "x = (name, i)" "acc = (roles, used)" by (cases x; cases acc)
  show ?thesis
    unfolding resolve_role_def x prod.case Let_def
    apply (rule resolves_check_name)
    apply (rule resolves_bind, rule resolves_required)
    apply (rule resolves_check)
     apply (rule resolves_bind, rule resolves_required)
    subgoal for provider profile
      apply (cases "map_of profiles profile")
       apply (simp add: resolves_fail del: fail_def)
      apply simp
      apply (rule resolves_bind, rule resolves_required)
      apply (rule resolves_bind, rule resolves_parse_grants)
      apply (rule resolves_bind, rule resolves_required)
      apply (rule resolves_bind, rule resolves_required)
      apply (rule resolves_ret)
       apply (use assms x in \<open>auto simp: roles_closed_def custom_profiles_def profiles_ok_def keys_sorted_insert\<close>)
      done
    by simp
qed

lemma resolves_archetype:
  assumes "profiles_ok inputs profiles"
  shows "resolves D (resolve_archetype reference i profiles providers)
    (\<lambda>a. ar_reference a = reference \<and> archetype_ok providers a \<and> custom_profiles inputs (ar_permission_profiles a))
    (\<lambda>_. {})"
  unfolding resolve_archetype_def Let_def
  apply (rule resolves_bind, rule resolves_required)
  apply (rule resolves_bind)
   apply (rule resolves_fold_each [where C = "\<lambda>_. True" and F = "\<lambda>_. {}"
      and I = "\<lambda>acc. roles_closed providers (fst acc) (snd acc) \<and> custom_profiles inputs (snd acc)"])
     apply (simp, rule resolves_role [unfolded conj_assoc], simp, rule assms)
    apply (simp add: roles_closed_def custom_profiles_def keys_sorted_def)
   apply simp
  apply (clarsimp split: prod.splits)
  apply (rule resolves_check)
   apply (clarsimp split: option.splits)
   apply (rule resolves_bind, rule resolves_index, assumption)
   apply (rule resolves_check)
    apply (rule resolves_ret)
     apply (auto simp: archetype_ok_def)
  done

lemma split_global: "valid_reference reference ''global'' \<Longrightarrow> reference \<noteq> ''builtin:standard@1''"
proof
  assume v: "valid_reference reference ''global''" and r: "reference = ''builtin:standard@1''"
  have "split_once (CHR '':'') ''builtin:standard@1'' = Some (''builtin'', ''standard@1'')" by simp
  with v r show False by (simp add: valid_reference_def split: option.splits prod.splits)
qed

lemma standard_ok:
  assumes "builtin_standard = Some standard" "bindings_ok providers"
  shows "archetype_ok providers standard" "ar_reference standard = ''builtin:standard@1''"
  using assms
  by (auto simp: builtin_standard_def builtin_grants archetype_ok_def roles_closed_def keys_sorted_def bindings_ok_def
      standard_role_def valid_profile_def interactive_profile_def worker_profile_def review_profile_def
      split: if_splits)

definition archetypes_ok ::
    "ArchetypeInput name_map \<Rightarrow> ProfileInput name_map \<Rightarrow> string list name_map \<Rightarrow> ArchetypeDefinition name_map \<Rightarrow> bool" where
  "archetypes_ok definitions inputs providers archetypes \<longleftrightarrow>
     (\<forall>reference a. map_of archetypes reference = Some a \<longrightarrow>
        ar_reference a = reference \<and> archetype_ok providers a
        \<and> (if reference = ''builtin:standard@1'' then builtin_standard = Some a
           else reference \<in> fst ` set definitions \<and> custom_profiles inputs (ar_permission_profiles a)))
     \<and> map_of archetypes ''builtin:standard@1'' \<noteq> None"

lemma resolves_definition:
  assumes "x \<in> set definitions" "profiles_ok inputs profiles" "archetypes_ok definitions inputs providers archetypes"
  shows "resolves D (resolve_definition profiles providers x archetypes)
    (\<lambda>b. archetypes_ok definitions inputs providers b \<and> fst x \<noteq> ''builtin:standard@1'') (\<lambda>_. {})"
proof -
  obtain reference i where x: "x = (reference, i)" by (cases x)
  have member: "reference \<in> fst ` set definitions" using assms(1) x by force
  show ?thesis
    unfolding resolve_definition_def x prod.case
  proof (rule resolves_check)
    assume "valid_reference reference ''global''"
    then have other: "reference \<noteq> ''builtin:standard@1''" by (rule split_global)
    show "resolves D (bind (resolve_archetype reference i profiles providers)
        (\<lambda>a. ret (obj_insert reference a archetypes)))
      (\<lambda>b. archetypes_ok definitions inputs providers b \<and> fst (reference, i) \<noteq> ''builtin:standard@1'') (\<lambda>_. {})"
    proof (rule resolves_bind [OF resolves_archetype [OF assms(2)]], rule resolves_ret)
      fix a assume "ar_reference a = reference \<and> archetype_ok providers a
        \<and> custom_profiles inputs (ar_permission_profiles a)"
      with other assms(3) member have "archetypes_ok definitions inputs providers (obj_insert reference a archetypes)"
        unfolding archetypes_ok_def map_of_obj_insert by simp
      with other show "archetypes_ok definitions inputs providers (obj_insert reference a archetypes)
          \<and> fst (reference, i) \<noteq> ''builtin:standard@1''" by simp
    qed simp
  qed simp
qed

subsection \<open>Origins of the selected archetype\<close>

lemma keys_sorted_member: "keys_sorted m \<Longrightarrow> (k, v) \<in> set m \<Longrightarrow> map_of m k = Some v"
  by (rule map_of_is_SomeI) (auto simp: keys_sorted_def strict_sorted_iff)

abbreviation archetype_leaves :: "ArchetypeDefinition \<Rightarrow> string set" where
  "archetype_leaves a \<equiv> set (leaf_paths ''archetype'' (archetype_json a))"

lemma role_leaf:
  assumes "map_of (ar_roles a) name = Some r"
  shows "''archetype.roles.'' @ name @ ''.max_instances'' \<in> archetype_leaves a"
    "''archetype.roles.'' @ name @ ''.permission_profile'' \<in> archetype_leaves a"
proof -
  have up: "p \<in> archetype_leaves a"
    if "p \<in> set (leaf_paths ((''archetype'' @ ''.'' @ ''roles'') @ ''.'' @ name) (role_json r))" for p
    unfolding archetype_json_def
    by (rule leaf_of_entry [of "''roles''"]) (simp, rule leaf_of_map [where f = role_json, OF assms that])
  show "''archetype.roles.'' @ name @ ''.max_instances'' \<in> archetype_leaves a"
    "''archetype.roles.'' @ name @ ''.permission_profile'' \<in> archetype_leaves a"
    by (rule up, simp add: role_json_def)+
qed

lemma profile_leaves: "set (leaf_paths target (profile_json q)) = (\<lambda>f. target @ ''.'' @ f) ` set profile_fields"
  by (auto simp: profile_json_def profile_fields_def)

lemma profile_leaf:
  assumes "map_of (ar_permission_profiles a) name = Some q" "field \<in> set profile_fields"
  shows "''archetype.permission_profiles.'' @ name @ ''.'' @ field \<in> archetype_leaves a"
proof -
  have "(''archetype'' @ ''.'' @ ''permission_profiles'') @ ''.'' @ name @ ''.'' @ field \<in> archetype_leaves a"
    unfolding archetype_json_def
    by (rule leaf_of_entry [of "''permission_profiles''"], simp, rule leaf_of_map [where f = profile_json, OF assms(1)])
      (use assms(2) in \<open>auto simp: profile_leaves\<close>)
  then show ?thesis by simp
qed

definition role_paths :: "string \<Rightarrow> string set" where
  "role_paths name =
     {''roles.'' @ name @ ''.enabled'', ''roles.'' @ name @ ''.max_instances''}
     \<union> (\<lambda>f. ''roles.'' @ name @ ''.permission_profile.'' @ f) ` set profile_fields"

lemma effective_role_leaves:
  "set (leaf_paths (''roles'' @ ''.'' @ name) (effective_role_json r)) = role_paths name"
proof -
  have "leaf_paths (''roles'' @ ''.'' @ name) (effective_role_json r) =
      [(''roles'' @ ''.'' @ name) @ ''.'' @ ''enabled'', (''roles'' @ ''.'' @ name) @ ''.'' @ ''max_instances'']
      @ leaf_paths ((''roles'' @ ''.'' @ name) @ ''.'' @ ''permission_profile'') (profile_json (er_permission_profile r))"
    unfolding effective_role_json_def leaf_paths.simps by simp
  then show ?thesis by (auto simp: profile_leaves role_paths_def)
qed

lemma resolves_role_origin:
  assumes a: "archetype_ok providers a" and r: "(name, r) \<in> set (ar_roles a)" and D: "archetype_leaves a \<subseteq> D"
  shows "resolves D (record_role_origin (name, r)) (\<lambda>_. True) (\<lambda>_. role_paths name)"
proof -
  have look: "map_of (ar_roles a) name = Some r"
    using a r by (auto simp: archetype_ok_def roles_closed_def intro: keys_sorted_member)
  with a obtain q where q: "map_of (ar_permission_profiles a) (rl_permission_profile r) = Some q"
    by (fastforce simp: archetype_ok_def roles_closed_def)
  note leaves = role_leaf [OF look, THEN subsetD [OF D]] profile_leaf [OF q, THEN subsetD [OF D]]
  show ?thesis
    unfolding record_role_origin_def prod.case
    apply (rule resolves_seq, rule resolves_record_field)
    apply (rule resolves_bind, rule resolves_origin_of)
     apply (use leaves(1) in simp)
    apply (rule resolves_seq, rule resolves_set_origin)
    apply (rule resolves_bind, rule resolves_origin_of)
     apply (use leaves(2) in simp)
    apply (rule resolves_weaken, rule resolves_for_each [where C = "\<lambda>_. True"
        and E = "\<lambda>f. {''roles.'' @ name @ ''.permission_profile.'' @ f}"])
     apply (rule resolves_bind, rule resolves_origin_of)
      apply (use leaves(3) in simp)
     apply (rule resolves_set_origin)
    apply (rule conjI, rule TrueI, unfold role_paths_def, blast)
    done
qed

lemma resolves_profile_origin:
  assumes "profile_from inputs name q"
  shows "resolves D (record_profile_origin inputs layer (name, q)) (\<lambda>_. True) (\<lambda>_. {})"
proof -
  obtain i where "map_of inputs name = Some i"
    using assms by (auto simp: profile_from_def dest!: weak_map_of_SomeI)
  then show ?thesis
    unfolding record_profile_origin_def prod.case
    by (intro resolves_seq [OF resolves_record_tree] resolves_bind [OF resolves_index])
      (auto intro: resolves_weaken [OF resolves_set_origin] resolves_ret)
qed

lemma resolves_absent_fields: "resolves D (record_absent_fields prefix x) (\<lambda>_. True) (\<lambda>_. {})"
proof -
  obtain name i where x: "x = (name, i)" by (cases x)
  show ?thesis
    unfolding record_absent_fields_def x prod.case
    by (rule resolves_weaken, rule resolves_for_each [where C = "\<lambda>_. True" and E = "\<lambda>_. {}"])
      (auto intro: resolves_weaken [OF resolves_set_origin] resolves_ret)
qed

lemma resolves_record_archetype:
  assumes a: "archetype_ok providers a"
    and custom: "input \<noteq> None \<Longrightarrow> custom_profiles inputs (ar_permission_profiles a) \<and> keys_sorted (ar_permission_profiles a)"
  shows "resolves D (record_archetype a input inputs selector) (\<lambda>_. True)
    (\<lambda>_. archetype_leaves a \<union> (\<Union>x \<in> set (ar_roles a). role_paths (fst x)))"
proof -
  have inputs_part: "resolves D' (case input of None \<Rightarrow> ret ()
      | Some i \<Rightarrow> seq (for_each (record_profile_origin inputs layer) (ar_permission_profiles a))
                     (for_each (record_absent_fields prefix) (ai_roles i))) (\<lambda>_. True) (\<lambda>_. {})" for D' layer prefix
  proof (cases input)
    case None
    then show ?thesis by (auto intro: resolves_ret)
  next
    case (Some i)
    have "resolves D' (record_profile_origin inputs layer x) (\<lambda>_. True) (\<lambda>_. {})"
      if "x \<in> set (ar_permission_profiles a)" for x
    proof -
      obtain name q where x: "x = (name, q)" by (cases x)
      with that custom Some have "map_of (ar_permission_profiles a) name = Some q" by (auto intro: keys_sorted_member)
      with custom Some show ?thesis by (auto simp: x custom_profiles_def intro: resolves_profile_origin)
    qed
    then show ?thesis
      unfolding Some option.case
      by (intro resolves_seq [OF resolves_for_each_unit] resolves_for_each_unit resolves_absent_fields)
  qed
  have roles_part: "resolves D' (for_each record_role_origin (ar_roles a)) (\<lambda>_. True)
      (\<lambda>_. \<Union>x \<in> set (ar_roles a). role_paths (fst x))" if "archetype_leaves a \<subseteq> D'" for D'
  proof -
    have "resolves D' (record_role_origin x) (\<lambda>_. True) (\<lambda>_. role_paths (fst x))" if "x \<in> set (ar_roles a)" for x
      using resolves_role_origin [OF a, of "fst x" "snd x"] that \<open>archetype_leaves a \<subseteq> D'\<close> by simp
    from resolves_for_each [of _ D' _ "\<lambda>_. True", OF this] show ?thesis by simp
  qed
  show ?thesis
    unfolding record_archetype_def Let_def
    apply (rule resolves_seq, rule resolves_record_tree)
    apply (rule resolves_seq, rule resolves_set_origin)
    apply (rule resolves_seq, rule inputs_part)
    apply (rule resolves_weaken, rule roles_part)
     apply auto
    done
qed

subsection \<open>Effective roles\<close>

text \<open>
  What a restricted role keeps of its ceiling: nothing more permissive than the trusted profile,
  and at most its capacity.
\<close>

definition role_below :: "ArchetypeDefinition \<Rightarrow> string \<Rightarrow> EffectiveRole \<Rightarrow> bool" where
  "role_below a name r \<longleftrightarrow>
     (\<exists>b q. map_of (ar_roles a) name = Some b \<and> map_of (ar_permission_profiles a) (rl_permission_profile b) = Some q
        \<and> no_more_permissive_than (er_permission_profile r) q
        \<and> intersect_capacity (er_max_instances r) (rl_max_instances b) = er_max_instances r)"

definition roles_ok :: "ArchetypeDefinition \<Rightarrow> EffectiveRole name_map \<Rightarrow> bool" where
  "roles_ok a roles \<longleftrightarrow>
     keys_sorted roles \<and> fst ` set roles = fst ` set (ar_roles a)
     \<and> (\<forall>name r. map_of roles name = Some r \<longrightarrow> role_below a name r \<and> (name = ar_lead a \<longrightarrow> er_enabled r))"

lemma roles_ok_index:
  assumes "roles_ok a roles" "map_of (ar_roles a) name = Some b"
  obtains r where "map_of roles name = Some r"
  using assms map_of_key [OF assms(2)] by (metis map_of_eq_None_iff not_None_eq roles_ok_def)

lemma initial_roles_keys:
  "fold_each (initial_role a) xs roles s = Inr (b, t) \<Longrightarrow> fst ` set b = fst ` set roles \<union> fst ` set xs"
proof (induction xs arbitrary: roles s)
  case (Cons x xs)
  obtain name r where x: "x = (name, r)" by (cases x)
  from Cons.prems obtain q u where "fold_each (initial_role a) xs (obj_insert name (role_ceiling r q) roles) u = Inr (b, t)"
    by (auto simp: bind_Inr_iff initial_role_def x)
  from Cons.IH [OF this] show ?case by (auto simp: x)
qed simp

lemma resolves_initial_roles:
  assumes a: "archetype_ok providers a"
  shows "resolves D (fold_each (initial_role a) (ar_roles a) []) (roles_ok a) (\<lambda>_. {})"
proof -
  let ?I = "\<lambda>roles. keys_sorted roles
    \<and> (\<forall>name r. map_of roles name = Some r \<longrightarrow> role_below a name r \<and> er_enabled r)"
  have sorted: "keys_sorted (ar_roles a)" using a by (simp add: archetype_ok_def roles_closed_def)
  have step: "resolves (D \<union> {}) (initial_role a x roles) (\<lambda>roles. ?I roles \<and> True) (\<lambda>_. {})"
    if x: "x \<in> set (ar_roles a)" and I: "?I roles" for x roles
  proof -
    obtain name b where x': "x = (name, b)" by (cases x)
    with x sorted have b: "map_of (ar_roles a) name = Some b" by (simp add: keys_sorted_member)
    with a obtain q where q: "map_of (ar_permission_profiles a) (rl_permission_profile b) = Some q" "valid_profile q"
      by (fastforce simp: archetype_ok_def roles_closed_def)
    then have "role_below a name (role_ceiling b q)"
      using b by (simp add: role_below_def role_ceiling_def no_more_permissive_than_def intersect_profile_idem
          intersect_capacity_laws)
    with I have "?I (obj_insert name (role_ceiling b q) roles)"
      by (simp add: keys_sorted_insert role_ceiling_def)
    then show ?thesis
      unfolding x' initial_role_def prod.case
      by (intro resolves_bind [OF resolves_index [OF q(1)]] resolves_ret) auto
  qed
  have "resolves D (fold_each (initial_role a) (ar_roles a) []) (\<lambda>b. ?I b \<and> (\<forall>x \<in> set (ar_roles a). True)) (\<lambda>_. {})"
    by (rule resolves_fold_each [where F = "\<lambda>_. {}"]) (rule step, auto simp: keys_sorted_def)
  then have "resolves D (fold_each (initial_role a) (ar_roles a) [])
      (\<lambda>b. (?I b \<and> (\<forall>x \<in> set (ar_roles a). True)) \<and> fst ` set b = fst ` set (ar_roles a)) (\<lambda>_. {})"
    by (rule resolves_conj) (drule initial_roles_keys, simp)
  then show ?thesis by (rule resolves_weaken) (auto simp: roles_ok_def)
qed

lemma resolves_select_profile_origin:
  "map_of inputs profile \<noteq> None \<Longrightarrow>
   resolves D (select_profile_origin prefix profile inputs layer field) (\<lambda>_. True) (\<lambda>_. {})"
  unfolding select_profile_origin_def
  by (rule resolves_bind [where R = "\<lambda>_. True" and E = "\<lambda>_. {}"])
    (auto intro: resolves_bind [OF resolves_index] resolves_ret resolves_weaken [OF resolves_set_origin])

lemma resolves_apply_role:
  assumes a: "archetype_ok providers a" and p: "profiles_ok inputs profiles" and I: "roles_ok a roles"
  shows "resolves D (apply_role a profiles inputs layer x roles) (roles_ok a) (\<lambda>_. {})"
proof -
  obtain name restriction where x: "x = (name, restriction)" by (cases x)
  show ?thesis
  proof (cases "map_of (ar_roles a) name")
    case None
    then show ?thesis by (simp add: apply_role_def x role_def resolves_fail)
  next
    case (Some b)
    from a Some obtain q where q: "map_of (ar_permission_profiles a) (rl_permission_profile b) = Some q"
      by (fastforce simp: archetype_ok_def roles_closed_def)
    from I Some obtain current where current: "map_of roles name = Some current" by (rule roles_ok_index)
    with I have below: "role_below a name current" "name = ar_lead a \<Longrightarrow> er_enabled current"
      by (auto simp: roles_ok_def)
    have update: "roles_ok a (obj_insert name (intersect_role requested (role_ceiling b q)) roles)"
      if "er_max_instances requested = er_max_instances (intersect_role requested (role_ceiling b q))"
        "er_permission_profile requested = er_permission_profile (intersect_role requested (role_ceiling b q))"
        "name = ar_lead a \<Longrightarrow> er_enabled requested"
      for requested
    proof -
      let ?bounded = "intersect_role requested (role_ceiling b q)"
      have "intersect_capacity (er_max_instances requested) (rl_max_instances b) = er_max_instances requested"
        "intersect_profile (er_permission_profile requested) q = er_permission_profile requested"
        by (rule that(1,2) [symmetric, unfolded intersect_role_def role_ceiling_def, simplified])+
      then have "role_below a name ?bounded"
        using Some q by (simp add: role_below_def no_more_permissive_than_def flip: that(1,2))
      moreover have "name = ar_lead a \<Longrightarrow> er_enabled ?bounded"
        using that(3) by (simp add: intersect_role_def role_ceiling_def)
      moreover have "insert name (fst ` set (ar_roles a)) = fst ` set (ar_roles a)"
        using map_of_key [OF Some] by (rule insert_absorb)
      ultimately show ?thesis using I by (simp add: roles_ok_def keys_sorted_insert)
    qed
    have chosen: "resolves D' (case rr_permission_profile restriction of
          None \<Rightarrow> ret (restricted_role restriction current)
        | Some profile \<Rightarrow>
            (case map_of profiles profile of
               None \<Rightarrow> fail (invalid layer (f profile) reason)
             | Some value \<Rightarrow> ret ((restricted_role restriction current)\<lparr>er_permission_profile := value\<rparr>)))
        (\<lambda>requested. er_enabled requested = er_enabled (restricted_role restriction current)
           \<and> (\<forall>profile. rr_permission_profile restriction = Some profile \<longrightarrow> map_of inputs profile \<noteq> None)) (\<lambda>_. {})"
      for D' f reason
    proof (cases "rr_permission_profile restriction")
      case None
      then show ?thesis by (simp add: resolves_ret)
    next
      case (Some profile)
      have "map_of inputs profile \<noteq> None" if "map_of profiles profile = Some v" for v
        using p that by (auto simp: profiles_ok_def profile_from_def dest!: weak_map_of_SomeI)
      then show ?thesis using Some by (cases "map_of profiles profile") (auto intro: resolves_fail resolves_ret)
    qed
    have recorded: "resolves D' (if c then record_field f layer else ret ()) (\<lambda>_. True) (\<lambda>_. {})" for D' c f
      by (auto intro: resolves_ret resolves_weaken [OF resolves_record_field])
    have selected: "resolves D' (case rr_permission_profile restriction of None \<Rightarrow> ret ()
        | Some profile \<Rightarrow> for_each (select_profile_origin prefix profile inputs layer) profile_fields)
        (\<lambda>_. True) (\<lambda>_. {})"
      if "\<forall>profile. rr_permission_profile restriction = Some profile \<longrightarrow> map_of inputs profile \<noteq> None" for D' prefix
    proof (cases "rr_permission_profile restriction")
      case None
      then show ?thesis by (simp add: resolves_ret)
    next
      case (Some profile)
      then show ?thesis using that unfolding Some option.case
        by (intro resolves_for_each_unit resolves_select_profile_origin) simp
    qed
    have enabled: "er_enabled requested"
      if "name = ar_lead a" "er_enabled requested = er_enabled (restricted_role restriction current)"
        "\<not> (rr_enabled restriction = Some False \<and> name = ar_lead a)" for requested
      using that below(2) by (cases "rr_enabled restriction") (auto simp: restricted_role_def)
    show ?thesis
      unfolding apply_role_def x prod.case Let_def role_def Some option.case
      apply (rule resolves_bind, rule resolves_index [OF current])
      apply (rule resolves_check)
       apply (rule resolves_bind, simp only:, rule chosen)
       apply (rule resolves_bind, rule resolves_index [OF q])
       apply (simp only:)
       apply (rule resolves_check)
        apply (rule resolves_check)
         apply (rule resolves_seq, rule recorded)
         apply (rule resolves_seq, rule recorded)
         apply (rule resolves_seq, rule selected, erule conjunct2)
         apply (rule resolves_ret)
          apply (rule update, assumption, assumption)
          apply (rule enabled, assumption, erule conjunct1, assumption)
         apply simp_all
      done
  qed
qed

lemma resolves_apply_roles:
  assumes "archetype_ok providers a" "profiles_ok inputs profiles" "roles_ok a roles"
  shows "resolves D (apply_roles a restrictions profiles inputs layer roles) (roles_ok a) (\<lambda>_. {})"
proof -
  have "resolves D (fold_each (apply_role a profiles inputs layer) restrictions roles)
      (\<lambda>b. roles_ok a b \<and> (\<forall>x \<in> set restrictions. True)) (\<lambda>_. {})"
    using assms by (intro resolves_fold_each) (auto intro: resolves_apply_role)
  then show ?thesis unfolding apply_roles_def by simp
qed

subsection \<open>The whole resolution\<close>

definition read_only_kept :: "ArchetypeDefinition \<Rightarrow> EffectiveRole name_map \<Rightarrow> bool" where
  "read_only_kept a roles \<longleftrightarrow>
     (\<forall>name b r. map_of (ar_roles a) name = Some b \<and> map_of roles name = Some r
        \<and> er_enabled r \<and> rl_workspace b = ReadOnlyWorkspace \<longrightarrow> filesystem (er_permission_profile r) = FsReadOnly)"

definition trusted_limits :: "GlobalConfig \<Rightarrow> RunLimits" where
  "trusted_limits g = requested_limits (cd_limits compiled_defaults) (gc_limits g)"

definition final_limits :: "GlobalConfig \<Rightarrow> ProjectConfig \<Rightarrow> OperatorOverrides \<Rightarrow> RunLimits" where
  "final_limits g p ov = requested_limits (requested_limits (trusted_limits g) (pc_limits p)) (oo_limits ov)"

lemma resolves_check_read_only:
  assumes a: "archetype_ok providers a" and roles: "roles_ok a roles"
  shows "resolves D (for_each (check_read_only reference roles) (ar_roles a)) (\<lambda>_. read_only_kept a roles) (\<lambda>_. {})"
proof -
  let ?C = "\<lambda>x. \<forall>r. map_of roles (fst x) = Some r \<and> er_enabled r \<and> rl_workspace (snd x) = ReadOnlyWorkspace
    \<longrightarrow> filesystem (er_permission_profile r) = FsReadOnly"
  have sorted: "keys_sorted (ar_roles a)" using a by (simp add: archetype_ok_def roles_closed_def)
  have "resolves D (check_read_only reference roles x) (\<lambda>_. ?C x) (\<lambda>_. {})" if "x \<in> set (ar_roles a)" for x
  proof -
    obtain name b where x: "x = (name, b)" by (cases x)
    with that sorted have "map_of (ar_roles a) name = Some b" by (simp add: keys_sorted_member)
    with roles obtain r where r: "map_of roles name = Some r" by (rule roles_ok_index)
    show ?thesis
      unfolding check_read_only_def x prod.case
      by (rule resolves_bind [OF resolves_index [OF r]])
        (auto simp: check_def r intro: resolves_ret resolves_fail)
  qed
  then have "resolves D (for_each (check_read_only reference roles) (ar_roles a))
      (\<lambda>_. \<forall>x \<in> set (ar_roles a). ?C x) (\<lambda>_. \<Union>x \<in> set (ar_roles a). {})"
    by (rule resolves_for_each)
  then show ?thesis
    by (rule resolves_weaken) (simp add: read_only_kept_def, metis fst_conv snd_conv map_of_SomeD)
qed

lemma resolves_restrict_and_check:
  assumes a: "archetype_ok providers a" and p: "profiles_ok (gc_permission_profiles g) profiles"
    and positive: "limits_positive (trusted_limits g)"
  shows "resolves D (restrict_and_check g pr ov profiles (trusted_limits g) a)
    (\<lambda>(limits, roles). limits_positive limits \<and> limits = final_limits g pr ov
       \<and> intersect_limits limits (trusted_limits g) = limits
       \<and> roles_ok a roles \<and> read_only_kept a roles
       \<and> (list_ex unrestricted_role (map snd roles)
            \<longrightarrow> or_else (oo_archetype ov) (gc_archetype g) = Some (selected_reference g pr ov)))
    (\<lambda>_. {})"
proof -
  let ?t = "trusted_limits g"
  have self: "intersect_limits ?t c = ?t" if "Some ?t = Some c" for c
    using that by (simp add: intersect_limits_def)
  note project = resolves_apply_limits [where ceiling = "Some ?t" and effective = ?t, OF positive self]
  show ?thesis
    unfolding restrict_and_check_def
    apply (rule resolves_bind, rule resolves_initial_roles [OF a])
    apply (rule resolves_bind, rule project, assumption)
    apply (rule resolves_bind, erule resolves_apply_roles [OF a p])
    apply (rule resolves_bind, rule resolves_apply_limits, erule conjunct1, simp)
    apply (rule resolves_bind, erule resolves_apply_roles [OF a p])
    apply (rule resolves_seq_True, erule resolves_check_read_only [OF a])
    apply (rule resolves_check)
     apply (rule resolves_ret)
      apply (simp add: final_limits_def)
     apply simp_all
    done
qed

definition config_ok :: "GlobalConfig \<Rightarrow> ProjectConfig \<Rightarrow> OperatorOverrides \<Rightarrow> EffectiveConfig \<Rightarrow> bool" where
  "config_ok g pr ov c \<longleftrightarrow>
     archetype_ok (ec_providers c) (ec_archetype c) \<and> bindings_ok (ec_providers c)
     \<and> ar_reference (ec_archetype c) = selected_reference g pr ov
     \<and> (builtin_standard = Some (ec_archetype c)
        \<or> selected_reference g pr ov \<in> fst ` set (gc_archetypes g)
          \<and> custom_profiles (gc_permission_profiles g) (ar_permission_profiles (ec_archetype c)))
     \<and> supervision_fits (ec_supervision c)
     \<and> interrupt_grace_ms (ec_supervision c) < shutdown_timeout_ms (ec_supervision c)
     \<and> limits_positive (ec_limits c) \<and> ec_limits c = final_limits g pr ov
     \<and> intersect_limits (ec_limits c) (trusted_limits g) = ec_limits c
     \<and> roles_ok (ec_archetype c) (ec_roles c) \<and> read_only_kept (ec_archetype c) (ec_roles c)
     \<and> (list_ex unrestricted_role (map snd (ec_roles c))
          \<longrightarrow> or_else (oo_archetype ov) (gc_archetype g) = Some (selected_reference g pr ov))"

definition section_leaves :: "EffectiveConfig \<Rightarrow> string set" where
  "section_leaves c = (\<Union>(k, v) \<in> set (effective_entries c). set (leaf_paths k v))"

lemma limits_leaves: "set (leaf_paths target (limits_json l)) = set (leaf_paths target (limits_json l'))"
  by (simp add: limits_json_def nat_json_def)

lemma supervision_leaves: "set (leaf_paths target (supervision_json l)) = set (leaf_paths target (supervision_json l'))"
  by (simp add: supervision_json_def)

lemma provider_leaves: "set (leaf_paths ''providers'' (map_json provider_json m)) = binding_paths m"
  by (force simp: map_json_def provider_json_def binding_paths_def image_image)

lemma roles_leaves:
  "set (leaf_paths ''roles'' (map_json effective_role_json m)) = (\<Union>name \<in> fst ` set m. role_paths name)"
  unfolding map_json_def leaf_paths.simps
  using effective_role_leaves by (auto simp del: append.simps)

lemma section_leaves_eq:
  "section_leaves c = {''allowed_project_roots''} \<union> archetype_leaves (ec_archetype c)
     \<union> set (leaf_paths ''limits'' (limits_json (ec_limits c))) \<union> binding_paths (ec_providers c)
     \<union> (\<Union>name \<in> fst ` set (ec_roles c). role_paths name)
     \<union> set (leaf_paths ''supervision'' (supervision_json (ec_supervision c)))"
  by (simp add: section_leaves_def effective_entries_def provider_leaves roles_leaves Un_assoc)

lemma compiled_bindings_ok: "bindings_ok (cd_providers compiled_defaults)"
  by (auto simp: bindings_ok_def compiled_defaults_def split: if_splits)

lemma compiled_reference: "cd_archetype compiled_defaults = ''builtin:standard@1''"
  by (simp add: compiled_defaults_def)

lemma resolves_providers:
  assumes "binding_paths (cd_providers compiled_defaults) \<subseteq> D"
  shows "resolves D (fold_each resolve_provider xs (cd_providers compiled_defaults)) bindings_ok binding_paths"
proof -
  have "resolves D (fold_each resolve_provider xs (cd_providers compiled_defaults))
      (\<lambda>b. bindings_ok b \<and> (\<forall>x \<in> set xs. True)) binding_paths"
    by (rule resolves_fold_each) (use assms compiled_bindings_ok resolves_provider in auto)
  then show ?thesis by simp
qed

lemma resolves_definitions:
  assumes p: "profiles_ok inputs profiles" and b: "bindings_ok providers" and std: "builtin_standard = Some standard"
  shows "resolves D (fold_each (resolve_definition profiles providers) definitions [(ar_reference standard, standard)])
    (\<lambda>b. archetypes_ok definitions inputs providers b \<and> (\<forall>x \<in> set definitions. fst x \<noteq> ''builtin:standard@1'')) (\<lambda>_. {})"
proof (rule resolves_fold_each)
  show "archetypes_ok definitions inputs providers [(ar_reference standard, standard)]"
    unfolding archetypes_ok_def standard_ok(2) [OF std b]
    using standard_ok [OF std b] by (auto simp: std)
qed (use p in \<open>auto intro: resolves_definition\<close>)

lemma resolves_selectors:
  assumes "archetypes_ok definitions inputs providers archetypes"
  shows "resolves D (for_each (check_selector archetypes)
      [(gc_archetype g, Global), (pc_archetype pr, Project), (oo_archetype ov, Operator)])
    (\<lambda>_. map_of archetypes (selected_reference g pr ov) \<noteq> None) (\<lambda>_. {})"
proof -
  let ?C = "\<lambda>x. case fst x of None \<Rightarrow> True | Some reference \<Rightarrow> map_of archetypes reference \<noteq> None"
  let ?xs = "[(gc_archetype g, Global), (pc_archetype pr, Project), (oo_archetype ov, Operator)]"
  have "resolves D (check_selector archetypes x) (\<lambda>_. ?C x) (\<lambda>_. {})" for x
    by (cases x) (auto simp: check_selector_def check_def intro: resolves_ret resolves_fail)
  then have "resolves D (for_each (check_selector archetypes) ?xs) (\<lambda>_. \<forall>x \<in> set ?xs. ?C x) (\<lambda>_. \<Union>x \<in> set ?xs. {})"
    by (intro resolves_for_each)
  moreover have "map_of archetypes (cd_archetype compiled_defaults) \<noteq> None"
    using assms by (simp add: archetypes_ok_def compiled_reference)
  ultimately show ?thesis
    by (elim resolves_weaken)
      (cases "gc_archetype g"; cases "pc_archetype pr"; cases "oo_archetype ov"; simp add: selected_reference_def)
qed

lemma archetypes_ok_select:
  assumes ok: "archetypes_ok definitions inputs providers archetypes"
    and names: "\<forall>x \<in> set definitions. fst x \<noteq> ''builtin:standard@1''"
    and a: "map_of archetypes reference = Some a"
  shows "archetype_ok providers a" "ar_reference a = reference"
    "builtin_standard = Some a \<or> reference \<in> fst ` set definitions \<and> custom_profiles inputs (ar_permission_profiles a)"
    "map_of definitions reference \<noteq> None \<Longrightarrow>
       custom_profiles inputs (ar_permission_profiles a) \<and> keys_sorted (ar_permission_profiles a)"
proof -
  from ok a have parts: "ar_reference a = reference" "archetype_ok providers a"
    "if reference = ''builtin:standard@1'' then builtin_standard = Some a
     else reference \<in> fst ` set definitions \<and> custom_profiles inputs (ar_permission_profiles a)"
    unfolding archetypes_ok_def by blast+
  show "archetype_ok providers a" "ar_reference a = reference"
    "builtin_standard = Some a \<or> reference \<in> fst ` set definitions \<and> custom_profiles inputs (ar_permission_profiles a)"
    using parts by (simp_all split: if_splits)
  assume "map_of definitions reference \<noteq> None"
  then have "reference \<noteq> ''builtin:standard@1''"
    using names by (metis fst_conv map_of_SomeD not_None_eq)
  then show "custom_profiles inputs (ar_permission_profiles a) \<and> keys_sorted (ar_permission_profiles a)"
    using parts by (simp add: archetype_ok_def roles_closed_def)
qed

lemma resolves_select_and_restrict:
  assumes arch: "archetypes_ok (gc_archetypes g) (gc_permission_profiles g) providers archetypes"
    and names: "\<forall>x \<in> set (gc_archetypes g). fst x \<noteq> ''builtin:standard@1''"
    and a: "map_of archetypes (selected_reference g pr ov) = Some a"
    and p: "profiles_ok (gc_permission_profiles g) profiles" and b: "bindings_ok providers"
    and limits: "limits_positive (trusted_limits g)"
    and sup: "supervision_fits policy" "interrupt_grace_ms policy < shutdown_timeout_ms policy"
    and D: "{''allowed_project_roots''} \<union> binding_paths providers \<union> set (leaf_paths ''limits'' (limits_json l))
        \<union> set (leaf_paths ''supervision'' (supervision_json s)) \<subseteq> D"
  shows "resolves D
     (seq (record_archetype a (map_of (gc_archetypes g) (selected_reference g pr ov)) (gc_permission_profiles g) selector)
     (bind (restrict_and_check g pr ov profiles (trusted_limits g) a) (\<lambda>(limits, roles).
      ret \<lparr>ec_archetype = a, ec_providers = providers, ec_allowed_project_roots = roots,
           ec_limits = limits, ec_supervision = policy, ec_roles = roles, ec_provenance = []\<rparr>)))
     (config_ok g pr ov) section_leaves"
proof (rule resolves_seq)
  note sel = archetypes_ok_select [OF arch names a]
  let ?R = "\<Union>x \<in> set (ar_roles a). role_paths (fst x)"
  show "resolves D (record_archetype a (map_of (gc_archetypes g) (selected_reference g pr ov))
      (gc_permission_profiles g) selector) (\<lambda>_. True) (\<lambda>_. archetype_leaves a \<union> ?R)"
    by (rule resolves_record_archetype [OF sel(1)]) (rule sel(4))
  show "resolves (D \<union> (archetype_leaves a \<union> ?R))
     (bind (restrict_and_check g pr ov profiles (trusted_limits g) a) (\<lambda>(limits, roles).
      ret \<lparr>ec_archetype = a, ec_providers = providers, ec_allowed_project_roots = roots,
           ec_limits = limits, ec_supervision = policy, ec_roles = roles, ec_provenance = []\<rparr>))
     (config_ok g pr ov) section_leaves"
  proof (rule resolves_bind [OF resolves_restrict_and_check [OF sel(1) p limits]])
    fix lr :: "RunLimits \<times> EffectiveRole name_map"
    obtain l' roles where lr: "lr = (l', roles)" by (cases lr)
    assume "case lr of (limits, roles) \<Rightarrow> limits_positive limits \<and> limits = final_limits g pr ov
       \<and> intersect_limits limits (trusted_limits g) = limits \<and> roles_ok a roles \<and> read_only_kept a roles
       \<and> (list_ex unrestricted_role (map snd roles)
            \<longrightarrow> or_else (oo_archetype ov) (gc_archetype g) = Some (selected_reference g pr ov))"
    then have r: "limits_positive l'" "l' = final_limits g pr ov"
      "intersect_limits l' (trusted_limits g) = l'" "roles_ok a roles" "read_only_kept a roles"
      "list_ex unrestricted_role (map snd roles)
        \<longrightarrow> or_else (oo_archetype ov) (gc_archetype g) = Some (selected_reference g pr ov)"
      unfolding lr prod.case by blast+
    let ?c = "\<lparr>ec_archetype = a, ec_providers = providers, ec_allowed_project_roots = roots,
           ec_limits = l', ec_supervision = policy, ec_roles = roles, ec_provenance = []\<rparr>"
    have "config_ok g pr ov ?c" using sel(1-3) b sup r by (simp add: config_ok_def)
    have "(\<Union>name \<in> fst ` set roles. role_paths name) = ?R" using r(4) by (simp add: roles_ok_def image_image)
    moreover have "set (leaf_paths ''limits'' (limits_json l')) \<subseteq> D"
      "set (leaf_paths ''supervision'' (supervision_json policy)) \<subseteq> D"
      using D limits_leaves [of "''limits''" l' l] supervision_leaves [of "''supervision''" policy s] by blast+
    ultimately have "section_leaves ?c \<subseteq> D \<union> (archetype_leaves a \<union> ?R) \<union> {}"
      using D unfolding section_leaves_eq by auto
    with \<open>config_ok g pr ov ?c\<close>
    show "resolves (D \<union> (archetype_leaves a \<union> ?R) \<union> {})
       (case lr of (limits, roles) \<Rightarrow> ret \<lparr>ec_archetype = a, ec_providers = providers, ec_allowed_project_roots = roots,
           ec_limits = limits, ec_supervision = policy, ec_roles = roles, ec_provenance = []\<rparr>)
       (config_ok g pr ov) section_leaves"
      unfolding lr prod.case by (rule resolves_ret)
  qed
qed

lemma resolves_values: "resolves {} (resolve_values g pr ov) (config_ok g pr ov) section_leaves"
proof -
  obtain standard where std: "builtin_standard = Some standard" using builtin_never_panics by blast
  have trusted: "resolves D (apply_limits (cd_limits compiled_defaults) (gc_limits g) None Global)
      (\<lambda>l. limits_positive (trusted_limits g) \<and> l = trusted_limits g) (\<lambda>_. {})" for D
    by (rule resolves_weaken, rule resolves_apply_limits [OF compiled_limits_positive])
      (auto simp: trusted_limits_def)
  show ?thesis
    unfolding resolve_values_def Let_def std option.case
    apply (rule resolves_check)
     apply (rule resolves_seq, rule resolves_record_tree)+
     apply (rule resolves_check)
      apply (rule resolves_seq, rule resolves_record_field)
      apply (rule resolves_bind, rule resolves_providers, unfold provider_leaves, blast)
      apply (rule resolves_bind, rule trusted)
      apply (rule resolves_bind, rule resolves_supervision [OF compiled_supervision_fits])
      apply (rule resolves_bind, rule resolves_profiles)
      apply (rule resolves_bind [where R = "\<lambda>b. b = standard" and E = "\<lambda>_. {}"], rule resolves_ret, simp, simp)
      apply (simp only:)
      apply (rule resolves_bind, erule (1) resolves_definitions [OF _ _ std])
      apply (rule resolves_seq_True, rule resolves_selectors, erule conjunct1)
      apply (drule not_None_eq [THEN iffD1], erule exE)
      apply (rule resolves_bind, erule resolves_index)
      apply (simp only:)
      apply (rule resolves_select_and_restrict)
               apply (erule conjunct1, erule conjunct2, assumption, assumption, assumption)
           apply (erule conjunct1, erule conjunct1, erule conjunct2)
      apply blast
     apply simp_all
    done
qed

lemma resolve_ok:
  assumes "resolve g pr ov = Inr c"
  shows "config_ok g pr ov c" "section_leaves c \<subseteq> fields_of (ec_provenance c)"
proof -
  from assms obtain c0 p where run: "resolve_values g pr ov [] = Inr (c0, p)" and c: "c = c0\<lparr>ec_provenance := p\<rparr>"
    by (auto simp: resolve_def split: sum.splits prod.splits)
  from resolvesD [OF resolves_values _ run]
  have "section_leaves c0 \<subseteq> fields_of p" "config_ok g pr ov c0" by simp_all
  moreover have "config_ok g pr ov c = config_ok g pr ov c0" by (simp add: c config_ok_def)
  moreover have "section_leaves c = section_leaves c0" by (simp add: c section_leaves_def effective_entries_def)
  ultimately show "config_ok g pr ov c" "section_leaves c \<subseteq> fields_of (ec_provenance c)" by (simp_all add: c)
qed

lemma role_below_restricts:
  assumes "role_below a name r"
  shows "\<exists>b q. role a name = Some b \<and> map_of (ar_permission_profiles a) (rl_permission_profile b) = Some q
    \<and> no_more_permissive_than (er_permission_profile r) q
    \<and> (\<forall>n. rl_max_instances b = Some n \<longrightarrow> (\<exists>m. er_max_instances r = Some m \<and> m \<le> n))"
proof -
  from assms obtain b q where b: "map_of (ar_roles a) name = Some b"
    "map_of (ar_permission_profiles a) (rl_permission_profile b) = Some q"
    "no_more_permissive_than (er_permission_profile r) q"
    "intersect_capacity (er_max_instances r) (rl_max_instances b) = er_max_instances r"
    by (auto simp: role_below_def)
  have "\<exists>m. er_max_instances r = Some m \<and> m \<le> n" if "rl_max_instances b = Some n" for n
    using b(4) that by (cases "er_max_instances r") (auto simp: min_def split: if_splits)
  with b show ?thesis by (auto simp: role_def)
qed

text \<open>
  Property C7. The project cannot widen what the operator trusts. A resolved configuration runs
  a trusted archetype (the built-in one or one defined by the global configuration, whose profiles
  come from there); each limit is at most the trusted one and positive; every role is bounded by
  the archetype's profile and capacity; the lead stays enabled; a role with a read-only workspace
  is read-only; and unrestricted access needs an archetype that the operator or the global
  configuration selected.
\<close>

theorem resolution_never_exceeds_trusted_policy:
  assumes run: "resolve g pr ov = Inr c"
  shows "(builtin_standard = Some (ec_archetype c)
       \<or> ar_reference (ec_archetype c) \<in> fst ` set (gc_archetypes g)
         \<and> (\<forall>name q. map_of (ar_permission_profiles (ec_archetype c)) name = Some q
              \<longrightarrow> profile_from (gc_permission_profiles g) name q))
    \<and> (0 < max_concurrent_agents (ec_limits c) \<and> max_concurrent_agents (ec_limits c)
         \<le> (case li_max_concurrent_agents (gc_limits g) of Some v \<Rightarrow> v | None \<Rightarrow> 8))
    \<and> (0 < max_agents_per_run (ec_limits c) \<and> max_agents_per_run (ec_limits c)
         \<le> (case li_max_agents_per_run (gc_limits g) of Some v \<Rightarrow> v | None \<Rightarrow> 16))
    \<and> (0 < max_spawns_per_minute (ec_limits c) \<and> max_spawns_per_minute (ec_limits c)
         \<le> (case li_max_spawns_per_minute (gc_limits g) of Some v \<Rightarrow> v | None \<Rightarrow> 8))
    \<and> (\<forall>name r. map_of (ec_roles c) name = Some r \<longrightarrow>
         (\<exists>b q. role (ec_archetype c) name = Some b
            \<and> map_of (ar_permission_profiles (ec_archetype c)) (rl_permission_profile b) = Some q
            \<and> no_more_permissive_than (er_permission_profile r) q
            \<and> (\<forall>n. rl_max_instances b = Some n \<longrightarrow> (\<exists>m. er_max_instances r = Some m \<and> m \<le> n))
            \<and> (er_enabled r \<and> rl_workspace b = ReadOnlyWorkspace
                 \<longrightarrow> filesystem (er_permission_profile r) = FsReadOnly)
            \<and> (er_enabled r \<and> filesystem (er_permission_profile r) = Unrestricted
                 \<longrightarrow> or_else (oo_archetype ov) (gc_archetype g) = Some (ar_reference (ec_archetype c)))))
    \<and> (\<exists>r. map_of (ec_roles c) (ar_lead (ec_archetype c)) = Some r \<and> er_enabled r)"
proof -
  let ?a = "ec_archetype c"
  note ok = resolve_ok(1) [OF run, unfolded config_ok_def]
  have trusted: "intersect_limits (ec_limits c) (trusted_limits g) = ec_limits c" "limits_positive (ec_limits c)"
    using ok by blast+
  have c1: "builtin_standard = Some ?a \<or> ar_reference ?a \<in> fst ` set (gc_archetypes g)
      \<and> (\<forall>name q. map_of (ar_permission_profiles ?a) name = Some q \<longrightarrow> profile_from (gc_permission_profiles g) name q)"
    using ok unfolding custom_profiles_def by metis
  have c2: "0 < max_concurrent_agents (ec_limits c) \<and> max_concurrent_agents (ec_limits c)
         \<le> (case li_max_concurrent_agents (gc_limits g) of Some v \<Rightarrow> v | None \<Rightarrow> 8)"
    "0 < max_agents_per_run (ec_limits c) \<and> max_agents_per_run (ec_limits c)
         \<le> (case li_max_agents_per_run (gc_limits g) of Some v \<Rightarrow> v | None \<Rightarrow> 16)"
    "0 < max_spawns_per_minute (ec_limits c) \<and> max_spawns_per_minute (ec_limits c)
         \<le> (case li_max_spawns_per_minute (gc_limits g) of Some v \<Rightarrow> v | None \<Rightarrow> 8)"
    using trusted unfolding intersect_limits_absorb
    by (auto simp: limits_positive_def trusted_limits_def requested_limits_def compiled_defaults_def split: option.splits)
  have roles: "roles_ok ?a (ec_roles c)" "read_only_kept ?a (ec_roles c)" "archetype_ok (ec_providers c) ?a"
    and unrestricted: "list_ex unrestricted_role (map snd (ec_roles c))
      \<longrightarrow> or_else (oo_archetype ov) (gc_archetype g) = Some (ar_reference ?a)"
    using ok by auto
  have c3: "\<exists>b q. role ?a name = Some b
            \<and> map_of (ar_permission_profiles ?a) (rl_permission_profile b) = Some q
            \<and> no_more_permissive_than (er_permission_profile r) q
            \<and> (\<forall>n. rl_max_instances b = Some n \<longrightarrow> (\<exists>m. er_max_instances r = Some m \<and> m \<le> n))
            \<and> (er_enabled r \<and> rl_workspace b = ReadOnlyWorkspace
                 \<longrightarrow> filesystem (er_permission_profile r) = FsReadOnly)
            \<and> (er_enabled r \<and> filesystem (er_permission_profile r) = Unrestricted
                 \<longrightarrow> or_else (oo_archetype ov) (gc_archetype g) = Some (ar_reference ?a))"
    if r: "map_of (ec_roles c) name = Some r" for name r
  proof -
    from roles(1) r have "role_below ?a name r" by (simp add: roles_ok_def)
    then obtain b q where b: "role ?a name = Some b"
      "map_of (ar_permission_profiles ?a) (rl_permission_profile b) = Some q"
      "no_more_permissive_than (er_permission_profile r) q"
      "\<forall>n. rl_max_instances b = Some n \<longrightarrow> (\<exists>m. er_max_instances r = Some m \<and> m \<le> n)"
      using role_below_restricts by blast
    moreover have "er_enabled r \<and> rl_workspace b = ReadOnlyWorkspace \<longrightarrow> filesystem (er_permission_profile r) = FsReadOnly"
      using roles(2) b(1) r by (auto simp: read_only_kept_def role_def)
    moreover have "er_enabled r \<and> filesystem (er_permission_profile r) = Unrestricted
        \<longrightarrow> or_else (oo_archetype ov) (gc_archetype g) = Some (ar_reference ?a)"
      using unrestricted map_of_SomeD [OF r] by (fastforce simp: list_ex_iff unrestricted_role_def)
    ultimately show ?thesis by blast
  qed
  have c4: "\<exists>r. map_of (ec_roles c) (ar_lead ?a) = Some r \<and> er_enabled r"
  proof -
    from roles(3) obtain b where "map_of (ar_roles ?a) (ar_lead ?a) = Some b" by (auto simp: archetype_ok_def)
    with roles(1) obtain r where "map_of (ec_roles c) (ar_lead ?a) = Some r" by (rule roles_ok_index)
    with roles(1) show ?thesis by (auto simp: roles_ok_def)
  qed
  show ?thesis
    by (intro conjI [OF c1] conjI [OF c2(1)] conjI [OF c2(2)] conjI [OF c2(3)] conjI [OF _ c4] allI impI)
      (erule c3)
qed

definition no_limits :: LimitOverrides where
  "no_limits = \<lparr>li_max_concurrent_agents = None, li_max_agents_per_run = None, li_max_spawns_per_minute = None\<rparr>"

definition sample_global :: GlobalConfig where
  "sample_global = \<lparr>gc_archetype = None, gc_includes = None, gc_allowed_project_roots = None, gc_providers = [],
     gc_limits = no_limits\<lparr>li_max_spawns_per_minute := Some 4\<rparr>,
     gc_supervision = \<lparr>so_restart_window_seconds = None, so_max_launch_attempts = None,
       so_restart_backoff_seconds = None, so_startup_timeout_seconds = None, so_job_timeout_seconds = None,
       so_interrupt_grace_ms = Some 3000, so_shutdown_timeout_ms = None, so_idle_timeout_seconds = None\<rparr>,
     gc_permission_profiles = [], gc_archetypes = []\<rparr>"

definition sample_overrides :: OperatorOverrides where
  "sample_overrides = \<lparr>oo_archetype = None, oo_limits = no_limits, oo_roles = []\<rparr>"

definition sample_project_config :: ProjectConfig where
  "sample_project_config = \<lparr>pc_archetype = None, pc_limits = no_limits\<lparr>li_max_agents_per_run := Some 5\<rparr>,
     pc_roles = [(''worker'', \<lparr>rr_enabled = Some False, rr_max_instances = Some 1, rr_permission_profile = None\<rparr>)]\<rparr>"

text \<open>Recording the origins of an archetype never rejects the configuration.\<close>

definition never_rejects :: "'a resolving \<Rightarrow> bool" where
  "never_rejects m \<longleftrightarrow> (\<forall>s e. m s \<noteq> Inl (Rejected e))"

lemma never_rejects_intros:
  "never_rejects (ret a)" "never_rejects (modify h)" "never_rejects (index table k)" "never_rejects (origin_of p)"
  "never_rejects (set_origin p v)"
  "never_rejects m \<Longrightarrow> (\<And>a. never_rejects (f a)) \<Longrightarrow> never_rejects (bind m f)"
  "never_rejects u \<Longrightarrow> never_rejects n \<Longrightarrow> never_rejects (seq u n)"
  by (auto simp: never_rejects_def index_def origin_of_def set_origin_def bind_Inl_iff seq_def split: option.splits)

lemma never_rejects_for_each: "(\<And>x. never_rejects (g x)) \<Longrightarrow> never_rejects (for_each g xs)"
  by (induction xs) (auto intro: never_rejects_intros)

lemma never_rejects_role_origin: "never_rejects (record_role_origin x)"
  unfolding record_role_origin_def record_field_def
  unfolding split_def by (intro never_rejects_intros never_rejects_for_each)

lemma standard_origins_recorded:
  assumes "builtin_standard = Some standard"
  shows "\<exists>t. record_archetype standard None [] selector s = Inr ((), t)"
proof -
  have "never_rejects (record_archetype standard None [] selector)"
    unfolding record_archetype_def Let_def record_tree_def
    by (simp, intro never_rejects_intros never_rejects_for_each never_rejects_role_origin)
  then have "record_archetype standard None [] selector s \<noteq> Inl (Rejected e)" for e by (simp add: never_rejects_def)
  moreover have "record_archetype standard None [] selector s \<noteq> Inl Panicked"
    using resolves_no_panic [OF resolves_record_archetype [OF standard_ok(1) [OF assms compiled_bindings_ok]],
        of None "[]" "{}" s selector] by auto
  ultimately show ?thesis
    by (cases "record_archetype standard None [] selector s") (metis failure.exhaust, force)
qed

lemma sample_supervision:
  "\<exists>t. resolve_supervision (cd_supervision compiled_defaults) (gc_supervision sample_global) s
     = Inr ((cd_supervision compiled_defaults)\<lparr>interrupt_grace_ms := 3000\<rparr>, t)"
  by (simp add: resolve_supervision_def sample_global_def compiled_defaults_def apply_bound_def apply_idle_timeout_def
      bound_limit_def quot_i64_def i64_max_def bind_run seq_def record_field_def set_origin_def check_def)

lemma role_names_ordered: "''lead'' < ''reviewer''" "''reviewer'' < ''worker''" "''lead'' < ''worker''"
  by code_simp+

lemma sample_roles:
  assumes "builtin_standard = Some standard"
  shows "\<exists>roles t. fold_each (initial_role standard) (ar_roles standard) [] s = Inr (roles, t)
     \<and> roles = [(''lead'', role_ceiling (the (role standard ''lead'')) interactive_profile),
          (''reviewer'', role_ceiling (the (role standard ''reviewer'')) review_profile),
          (''worker'', role_ceiling (the (role standard ''worker'')) worker_profile)]"
proof -
  have "ar_permission_profiles standard = [(''interactive'', interactive_profile), (''review'', review_profile),
       (''worker'', worker_profile)]"
    using assms by (auto simp: builtin_standard_def builtin_grants)
  then show ?thesis
    using role_names_ordered by (simp add: builtin_roles [OF assms] initial_role_def bind_run index_def standard_role_def role_def)
qed

lemma sample_limits:
  "trusted_limits sample_global = \<lparr>max_concurrent_agents = 8, max_agents_per_run = 16, max_spawns_per_minute = 4\<rparr>"
  "\<exists>t. apply_limits (cd_limits compiled_defaults) (gc_limits sample_global) None Global s = Inr (trusted_limits sample_global, t)"
  "\<exists>t. apply_limits (trusted_limits sample_global) (pc_limits sample_project_config) (Some (trusted_limits sample_global)) Project s
     = Inr ((trusted_limits sample_global)\<lparr>max_agents_per_run := 5\<rparr>, t)"
  "apply_limits l (oo_limits sample_overrides) (Some c) Operator s = Inr (intersect_limits l c, s)"
  by (simp_all add: trusted_limits_def requested_limits_def sample_global_def sample_project_config_def sample_overrides_def
      no_limits_def compiled_defaults_def apply_limits_def apply_limit_def intersect_limits_def Let_def bind_run seq_def
      record_field_def set_origin_def)

lemma sample_worker_restricted:
  assumes std: "builtin_standard = Some standard"
    and roles: "roles = [(''lead'', l), (''reviewer'', r), (''worker'', role_ceiling (the (role standard ''worker'')) worker_profile)]"
  shows "\<exists>t. apply_roles standard (pc_roles sample_project_config) [] (gc_permission_profiles sample_global) Project roles s
     = Inr ([(''lead'', l), (''reviewer'', r),
         (''worker'', \<lparr>er_enabled = False, er_max_instances = Some 1, er_permission_profile = worker_profile\<rparr>)], t)"
proof -
  have parts: "ar_permission_profiles standard = [(''interactive'', interactive_profile), (''review'', review_profile),
       (''worker'', worker_profile)]" "ar_lead standard = ''lead''"
    using std by (auto simp: builtin_standard_def builtin_grants)
  show ?thesis
    using role_names_ordered
    by (simp add: roles apply_roles_def apply_role_def sample_project_config_def Let_def builtin_roles [OF std] role_def
        parts standard_role_def index_def check_def seq_def bind_run role_ceiling_def restricted_role_def
        intersect_role_def intersect_profile_def intersect_filesystem_def worker_profile_def record_field_def set_origin_def)
qed

lemma sample_restricts:
  assumes std: "builtin_standard = Some standard"
  shows "\<exists>roles t. restrict_and_check sample_global sample_project_config sample_overrides [] (trusted_limits sample_global) standard s
     = Inr (((trusted_limits sample_global)\<lparr>max_agents_per_run := 5\<rparr>, roles), t)"
proof -
  let ?lead = "role_ceiling (the (role standard ''lead'')) interactive_profile"
  let ?reviewer = "role_ceiling (the (role standard ''reviewer'')) review_profile"
  let ?worker = "role_ceiling (the (role standard ''worker'')) worker_profile"
  obtain t1 where t1: "fold_each (initial_role standard) (ar_roles standard) [] s
      = Inr ([(''lead'', ?lead), (''reviewer'', ?reviewer), (''worker'', ?worker)], t1)"
    using sample_roles [OF std] by metis
  obtain t2 where t2: "apply_limits (trusted_limits sample_global) (pc_limits sample_project_config)
      (Some (trusted_limits sample_global)) Project t1 = Inr ((trusted_limits sample_global)\<lparr>max_agents_per_run := 5\<rparr>, t2)"
    using sample_limits(3) by metis
  obtain t3 where t3: "apply_roles standard (pc_roles sample_project_config) [] (gc_permission_profiles sample_global) Project
      [(''lead'', ?lead), (''reviewer'', ?reviewer), (''worker'', ?worker)] t2
      = Inr ([(''lead'', ?lead), (''reviewer'', ?reviewer),
         (''worker'', \<lparr>er_enabled = False, er_max_instances = Some 1, er_permission_profile = worker_profile\<rparr>)], t3)"
    using sample_worker_restricted [OF std refl] by metis
  have l: "intersect_limits ((trusted_limits sample_global)\<lparr>max_agents_per_run := 5\<rparr>) (trusted_limits sample_global)
      = (trusted_limits sample_global)\<lparr>max_agents_per_run := 5\<rparr>"
    by (simp add: sample_limits(1) intersect_limits_def)
  have o: "apply_roles standard (oo_roles sample_overrides) [] inputs Operator roles s = Inr (roles, s)" for inputs roles s
    by (simp add: apply_roles_def sample_overrides_def)
  show ?thesis
    unfolding restrict_and_check_def
    by (simp add: bind_run t1 t2 t3 sample_limits(4) l o seq_def)
      (simp add: builtin_roles [OF std] check_read_only_def index_def check_def bind_run seq_def standard_role_def
        role_def role_ceiling_def unrestricted_role_def interactive_profile_def review_profile_def worker_profile_def)
qed

lemma sample_resolves:
  "\<exists>c. resolve sample_global sample_project_config sample_overrides = Inr c
     \<and> max_agents_per_run (ec_limits c) = 5
     \<and> ec_supervision c = (cd_supervision compiled_defaults)\<lparr>interrupt_grace_ms := 3000\<rparr>"
proof -
  obtain standard where std: "builtin_standard = Some standard" using builtin_never_panics by blast
  have ref: "ar_reference standard = ''builtin:standard@1''" by (rule standard_ok(2) [OF std compiled_bindings_ok])
  obtain T where T: "record_archetype standard None [] sel s = Inr ((), T sel s)" for sel s
    using standard_origins_recorded [OF std] by metis
  obtain U where U: "resolve_supervision (cd_supervision compiled_defaults) (gc_supervision sample_global) s
     = Inr ((cd_supervision compiled_defaults)\<lparr>interrupt_grace_ms := 3000\<rparr>, U s)" for s
    using sample_supervision by metis
  obtain V where V: "apply_limits (cd_limits compiled_defaults) (gc_limits sample_global) None Global s
     = Inr (trusted_limits sample_global, V s)" for s
    using sample_limits(2) by metis
  obtain R W where R: "restrict_and_check sample_global sample_project_config sample_overrides [] (trusted_limits sample_global) standard s
     = Inr (((trusted_limits sample_global)\<lparr>max_agents_per_run := 5\<rparr>, R s), W s)" for s
    using sample_restricts [OF std] by metis
  have fields: "gc_includes sample_global = None" "gc_allowed_project_roots sample_global = None"
    "gc_providers sample_global = []" "gc_permission_profiles sample_global = []" "gc_archetypes sample_global = []"
    "gc_archetype sample_global = None" "pc_archetype sample_project_config = None" "oo_archetype sample_overrides = None"
    by (simp_all add: sample_global_def sample_project_config_def sample_overrides_def)
  have reference: "selected_reference sample_global sample_project_config sample_overrides = ''builtin:standard@1''"
    by (simp add: selected_reference_def fields compiled_reference)
  show ?thesis
    by (simp add: resolve_def resolve_values_def Let_def fields reference std ref seq_def bind_run check_def record_tree_def
        record_field_def set_origin_def U V R T resolve_profiles_def check_selector_def index_def del: append.simps)
qed

theorem resolution_never_exceeds_trusted_policy_witness:
  "\<exists>c. resolve sample_global sample_project_config sample_overrides = Inr c
     \<and> max_agents_per_run (ec_limits c) = 5 \<and> max_spawns_per_minute (ec_limits c) \<le> 4
     \<and> (\<exists>r. map_of (ec_roles c) (ar_lead (ec_archetype c)) = Some r \<and> er_enabled r)"
proof -
  obtain c where c: "resolve sample_global sample_project_config sample_overrides = Inr c" "max_agents_per_run (ec_limits c) = 5"
    using sample_resolves by blast
  have "li_max_spawns_per_minute (gc_limits sample_global) = Some 4" by (simp add: sample_global_def)
  then have "max_spawns_per_minute (ec_limits c) \<le> 4"
    using resolution_never_exceeds_trusted_policy [OF c(1)] by simp
  moreover have "\<exists>r. map_of (ec_roles c) (ar_lead (ec_archetype c)) = Some r \<and> er_enabled r"
    using resolution_never_exceeds_trusted_policy [OF c(1)] by (elim conjE)
  ultimately show ?thesis using c by blast
qed

text \<open>
  Property C28. Resolution never panics: none of its map lookups and \<open>expect\<close>s can fail, on any
  input. And when it accepts the input, every value of the effective configuration, down to the
  single fields of every role and profile, has a recorded origin.
\<close>

theorem resolution_is_total_and_traceable:
  "resolve g pr ov \<noteq> Inl Panicked
   \<and> (\<forall>c. resolve g pr ov = Inr c \<longrightarrow>
        (\<forall>k v path. (k, v) \<in> set (effective_entries c) \<and> path \<in> set (leaf_paths k v)
           \<longrightarrow> map_of (ec_provenance c) path \<noteq> None))"
proof (intro conjI allI impI)
  show "resolve g pr ov \<noteq> Inl Panicked"
    using resolves_no_panic [OF resolves_values, of "[]" g pr ov]
    by (auto simp: resolve_def split: sum.splits)
  fix c k v path
  assume "resolve g pr ov = Inr c" and path: "(k, v) \<in> set (effective_entries c) \<and> path \<in> set (leaf_paths k v)"
  from resolve_ok(2) [OF this(1)] path have "path \<in> fst ` set (ec_provenance c)"
    by (auto simp: section_leaves_def fields_of_def)
  then show "map_of (ec_provenance c) path \<noteq> None" by (simp add: map_of_eq_None_iff)
qed

theorem resolution_is_total_and_traceable_witness:
  "\<exists>c. resolve sample_global sample_project_config sample_overrides = Inr c
     \<and> map_of (ec_provenance c) ''limits.max_agents_per_run'' \<noteq> None"
proof -
  obtain c where c: "resolve sample_global sample_project_config sample_overrides = Inr c"
    using sample_resolves by blast
  have "(''limits'', limits_json (ec_limits c)) \<in> set (effective_entries c)"
    "''limits.max_agents_per_run'' \<in> set (leaf_paths ''limits'' (limits_json (ec_limits c)))"
    by (simp_all add: effective_entries_def limits_json_def nat_json_def)
  with resolution_is_total_and_traceable [of sample_global sample_project_config sample_overrides] c show ?thesis by blast
qed

text \<open>
  An accepted supervision policy is safe to compute with: every bound is positive
  and its milliseconds fit 64 bits, so that no deadline computed from it wraps or saturates before
  the clock itself is near the end of its range, and the interrupt grace ends before the shutdown.
\<close>

lemma resolved_supervision_fits_the_clock:
  assumes run: "resolve g pr ov = Inr c"
  shows "let p = ec_supervision c in
     (\<forall>v. v \<in> {restart_window_seconds p, restart_backoff_seconds p, startup_timeout_seconds p,
              job_timeout_seconds p, idle_timeout_seconds p} \<longrightarrow>
        sat_mul v 1000 = v * 1000 \<and> (\<forall>now. 0 \<le> now \<and> now \<le> i64_max - v * 1000
           \<longrightarrow> sat_add now (sat_mul v 1000) = now + v * 1000))
     \<and> 0 < max_launch_attempts p \<and> 0 < restart_backoff_seconds p \<and> 0 < restart_window_seconds p
     \<and> 0 < interrupt_grace_ms p \<and> interrupt_grace_ms p < shutdown_timeout_ms p"
proof -
  let ?p = "ec_supervision c"
  have ok: "supervision_fits (ec_supervision c)" "interrupt_grace_ms (ec_supervision c) < shutdown_timeout_ms (ec_supervision c)"
    using resolve_ok(1) [OF run] by (simp_all add: config_ok_def)
  have range: "sat_mul v 1000 = v * 1000 \<and> (\<forall>now. 0 \<le> now \<and> now \<le> i64_max - v * 1000
      \<longrightarrow> sat_add now (sat_mul v 1000) = now + v * 1000)" if "0 \<le> v" "v \<le> bound_limit" for v
  proof -
    have "v * 1000 \<le> i64_max" using that by (simp add: bound_limit_def quot_i64_def i64_max_def)
    with that have "sat_mul v 1000 = v * 1000"
      unfolding sat_mul_def by (intro clamp_i64_id) (simp_all add: i64_min_def)
    moreover have "sat_add now (v * 1000) = now + v * 1000" if "0 \<le> now" "now \<le> i64_max - v * 1000" for now
      unfolding sat_add_def using that \<open>0 \<le> v\<close> by (intro clamp_i64_id) (simp_all add: i64_min_def)
    ultimately show ?thesis by simp
  qed
  show ?thesis
    unfolding Let_def
  proof (intro conjI allI impI)
    fix v assume "v \<in> {restart_window_seconds ?p, restart_backoff_seconds ?p, startup_timeout_seconds ?p,
      job_timeout_seconds ?p, idle_timeout_seconds ?p}"
    then have "0 \<le> v" "v \<le> bound_limit" using ok(1) by (auto simp: supervision_fits_def)
    note v = range [OF this]
    then show "sat_mul v 1000 = v * 1000" by simp
    fix now assume "0 \<le> now \<and> now \<le> i64_max - v * 1000"
    with v show "sat_add now (sat_mul v 1000) = now + v * 1000" by blast
  qed (use ok in \<open>simp_all add: supervision_fits_def\<close>)
qed

end
