(* ===== verification/Snapshot.thy ===== *)
theory Snapshot
  imports Resolution Repositories
begin

section \<open>Locks and run snapshots (src/src/config/lock.rs, snapshot.rs, state/configuration.rs)\<close>

text \<open>
  A lock pins the portable part of a configuration by a fingerprint; a snapshot keeps the whole
  configuration of a run, with its origins, in the run's transaction. SHA-256, the JSON writer and
  reader and the semantic-version parser are libraries, so they are parameters here.
\<close>

record ProviderRoleRequirement =
  rq_mode :: RoleMode
  rq_permission_profile :: PermissionProfile

type_synonym ProviderRequirements = "ProviderRoleRequirement name_map name_map"

record ConfigLock =
  lk_archetype :: string
  lk_coterie_version :: string
  lk_providers :: ProviderRequirements
  lk_fingerprint :: string

datatype LockStatus = Absent | Verified

datatype LockError = LockIo string string | LockInvalid string string | LockMismatch string "string list"

record library =
  json_bytes :: "json \<Rightarrow> string"
  sha256 :: "string \<Rightarrow> u8 list"

subsection \<open>The portable projection\<close>

definition portable_profile_json :: "PermissionProfile \<Rightarrow> json" where
  "portable_profile_json p = JObj
     ((if approval_reviewer p = User then [] else [(''approval_reviewer'', JStr (reviewer_text (approval_reviewer p)))])
      @ [(''approvals'', JStr (approvals_text (approvals p))),
         (''filesystem'', JStr (filesystem_text (filesystem p))),
         (''network'', JStr (network_text (network p)))])"

definition requirement_json :: "ProviderRoleRequirement \<Rightarrow> json" where
  "requirement_json r = JObj
     [(''mode'', JStr (mode_text (rq_mode r))),
      (''permission_profile'', portable_profile_json (rq_permission_profile r))]"

text \<open>\<open>map.remove(key)\<close> on an object, and updating a value in place.\<close>

definition obj_remove :: "string \<Rightarrow> (string \<times> json) list \<Rightarrow> (string \<times> json) list" where
  "obj_remove k fs = filter (\<lambda>(k', _). k' \<noteq> k) fs"

fun omit_default_reviewer :: "json \<Rightarrow> json" where
  "omit_default_reviewer (JObj fs) =
     (if map_of fs ''approval_reviewer'' = Some (JStr ''user'') then JObj (obj_remove ''approval_reviewer'' fs) else JObj fs)"
| "omit_default_reviewer j = j"

fun json_update :: "string \<Rightarrow> (json \<Rightarrow> json) \<Rightarrow> json \<Rightarrow> json" where
  "json_update k f (JObj fs) = JObj (map (\<lambda>(k', v). (k', if k' = k then f v else v)) fs)"
| "json_update k f j = j"

fun json_values :: "(json \<Rightarrow> json) \<Rightarrow> json \<Rightarrow> json" where
  "json_values f (JObj fs) = JObj (map (\<lambda>(k, v). (k, f v)) fs)"
| "json_values f j = j"

fun json_remove :: "string \<Rightarrow> json \<Rightarrow> json" where
  "json_remove k (JObj fs) = JObj (obj_remove k fs)"
| "json_remove k j = j"

text \<open>The nested map of requirements; \<open>config.roles[name]\<close> panics when the role is absent.\<close>

fun provider_requirements ::
    "EffectiveRole name_map \<Rightarrow> RoleDefinition name_map \<Rightarrow> ProviderRequirements \<Rightarrow> ProviderRequirements option" where
  "provider_requirements roles [] acc = Some acc"
| "provider_requirements roles ((name, r) # rest) acc =
     (case map_of roles name of
        None \<Rightarrow> None
      | Some eff \<Rightarrow>
          provider_requirements roles rest
            (if er_enabled eff then
               obj_insert (rl_provider r)
                 (obj_insert name \<lparr>rq_mode = rl_mode r, rq_permission_profile = er_permission_profile eff\<rparr>
                   (case map_of acc (rl_provider r) of None \<Rightarrow> [] | Some m \<Rightarrow> m)) acc
             else acc))"

definition portable_json :: "EffectiveConfig \<Rightarrow> ProviderRequirements \<Rightarrow> json" where
  "portable_json c providers =
     (let portable = JObj
        [(''archetype'', archetype_json (ec_archetype c)),
         (''limits'', limits_json (ec_limits c)),
         (''providers'', map_json (map_json requirement_json) providers),
         (''roles'', map_json effective_role_json (ec_roles c)),
         (''schema_version'', JInt 1),
         (''supervision'', supervision_json (ec_supervision c))];
          portable = json_update ''archetype'' (json_update ''permission_profiles'' (json_values omit_default_reviewer)) portable;
          portable = json_update ''roles'' (json_values (json_update ''permission_profile'' omit_default_reviewer)) portable
      in if idle_timeout_seconds (ec_supervision c) = 0
         then json_update ''supervision'' (json_remove ''idle_timeout_seconds'') portable
         else portable)"

definition package_version :: string where "package_version = ''0.2.0''"

definition for_config :: "library \<Rightarrow> EffectiveConfig \<Rightarrow> ConfigLock option" where
  "for_config lib c =
     map_option (\<lambda>providers.
       \<lparr>lk_archetype = ar_reference (ec_archetype c),
        lk_coterie_version = ''^'' @ package_version,
        lk_providers = providers,
        lk_fingerprint = concat (map encode_byte (sha256 lib (json_bytes lib (portable_json c providers))))\<rparr>)
     (provider_requirements (ec_roles c) (ar_roles (ec_archetype c)) [])"

definition is_lower_hex :: "char \<Rightarrow> bool" where
  "is_lower_hex ch \<longleftrightarrow> (let b = (of_char ch :: nat) in (48 \<le> b \<and> b \<le> 57) \<or> (97 \<le> b \<and> b \<le> 102))"

text \<open>
  \<open>requirement text\<close> is \<open>None\<close> when the text is not a version requirement, and otherwise whether
  a version matches it.
\<close>

definition compare_lock ::
    "(string \<Rightarrow> (string \<Rightarrow> bool) option) \<Rightarrow> ConfigLock \<Rightarrow> ConfigLock \<Rightarrow> string \<Rightarrow> string \<Rightarrow> LockError + unit" where
  "compare_lock requirement locked expected path version =
     (case requirement (lk_coterie_version locked) of
        None \<Rightarrow> Inl (LockInvalid path ''coterie_version is not a semantic version requirement'')
      | Some matches \<Rightarrow>
          if length (lk_fingerprint locked) \<noteq> 64 \<or> \<not> list_all is_lower_hex (lk_fingerprint locked)
          then Inl (LockInvalid path ''fingerprint must contain 64 lowercase SHA-256 hex digits'')
          else
            (let fields = map fst (filter (\<lambda>(_, same). \<not> same)
               [(''archetype'', lk_archetype locked = lk_archetype expected),
                (''coterie_version'', matches version),
                (''providers'', lk_providers locked = lk_providers expected),
                (''fingerprint'', lk_fingerprint locked = lk_fingerprint expected)])
             in if fields = [] then Inr () else Inl (LockMismatch path fields)))"

text \<open>
  \<open>verify\<close> on the bytes that were read: \<open>None\<close> when there is no lock file; the bound on the size
  is checked before parsing.
\<close>

definition MAX_LOCK_BYTES :: nat where "MAX_LOCK_BYTES = 1024 * 1024"

definition verify_lock ::
    "(string \<Rightarrow> (string \<Rightarrow> bool) option) \<Rightarrow> (string \<Rightarrow> ConfigLock option) \<Rightarrow> ConfigLock \<Rightarrow> string \<Rightarrow> string option
     \<Rightarrow> LockError + LockStatus" where
  "verify_lock requirement parse expected path file =
     (case file of
        None \<Rightarrow> Inr Absent
      | Some content \<Rightarrow>
          if MAX_LOCK_BYTES < length content then Inl (LockInvalid path ''lock exceeds the 1 MiB limit'')
          else (case parse content of
                  None \<Rightarrow> Inl (LockInvalid path ''expected a version 1 JSON lock with only the documented fields'')
                | Some locked \<Rightarrow>
                    (case compare_lock requirement locked expected path package_version of
                       Inl e \<Rightarrow> Inl e | Inr _ \<Rightarrow> Inr Verified)))"

subsection \<open>Run snapshots\<close>

record RunConfiguration =
  rc_effective :: EffectiveConfig
  rc_provenance :: Provenance

definition new_run_configuration :: "EffectiveConfig \<Rightarrow> RunConfiguration" where
  "new_run_configuration c = \<lparr>rc_effective = c, rc_provenance = ec_provenance c\<rparr>"

definition restore :: "RunConfiguration \<Rightarrow> EffectiveConfig" where
  "restore r = (rc_effective r)\<lparr>ec_provenance := rc_provenance r\<rparr>"

definition snapshot_fingerprint :: "library \<Rightarrow> RunConfiguration \<Rightarrow> string option" where
  "snapshot_fingerprint lib r = map_option lk_fingerprint (for_config lib (rc_effective r))"

text \<open>\<open>differences\<close>: the top-level keys whose serialised values differ.\<close>

definition differences :: "RunConfiguration \<Rightarrow> EffectiveConfig \<Rightarrow> string list" where
  "differences r current =
     map fst (filter (\<lambda>(k, v). map_of (effective_entries current) k \<noteq> Some v) (effective_entries (rc_effective r)))"

definition valid_snapshot :: "library \<Rightarrow> RunConfiguration \<Rightarrow> string \<Rightarrow> bool" where
  "valid_snapshot lib r fingerprint \<longleftrightarrow>
     (let c = rc_effective r in
      map fst (ar_roles (ec_archetype c)) = map fst (ec_roles c)
      \<and> (case map_of (ec_roles c) (ar_lead (ec_archetype c)) of None \<Rightarrow> False | Some eff \<Rightarrow> er_enabled eff)
      \<and> list_all (\<lambda>(_, r). case map_of (ec_providers c) (rl_provider r) of
            None \<Rightarrow> False
          | Some command \<Rightarrow> (case command of [] \<Rightarrow> False | program # _ \<Rightarrow> program \<noteq> []))
          (ar_roles (ec_archetype c))
      \<and> snapshot_fingerprint lib r = Some fingerprint)"

record ConfigurationSnapshotRecord =
  cs_id :: int
  cs_run_id :: run_id
  cs_project_id :: "project_id option"
  cs_scope :: string
  cs_schema_version :: int
  cs_fingerprint :: string
  cs_document :: string
  cs_created_at :: int

text \<open>
  The table of snapshots is a state of its own: no other operation reads or writes it, and its
  triggers forbid updates and deletions. The rows it references are in the database \<open>db\<close>.
\<close>

definition snapshot_row_ok :: "Db \<Rightarrow> ConfigurationSnapshotRecord table \<Rightarrow> ConfigurationSnapshotRecord \<Rightarrow> bool" where
  "snapshot_row_ok db rows r \<longleftrightarrow>
     cs_scope r \<in> {''run'', ''project''} \<and> 0 < cs_schema_version r
     \<and> (cs_scope r = ''run'' \<and> cs_project_id r = None \<or> cs_scope r = ''project'' \<and> cs_project_id r \<noteq> None)
     \<and> run_exists db (cs_run_id r) \<and> references (project_exists db (cs_run_id r)) (cs_project_id r)
     \<and> \<not> exists_row (\<lambda>x. cs_id x = cs_id r) rows
     \<and> \<not> exists_row (\<lambda>x. cs_run_id x = cs_run_id r \<and> cs_project_id x = cs_project_id r) rows"

definition insert_configuration_snapshot ::
    "Db \<Rightarrow> ConfigurationSnapshotRecord \<Rightarrow> (ConfigurationSnapshotRecord table, StoreError, unit) action" where
  "insert_configuration_snapshot db r = (\<lambda>rows. if snapshot_row_ok db rows r then Inr ((), rows @ [r]) else Inl Database)"

definition snapshot_configuration ::
    "library \<Rightarrow> (RunConfiguration \<Rightarrow> string) \<Rightarrow> Db \<Rightarrow> run_id \<Rightarrow> EffectiveConfig \<Rightarrow> int
     \<Rightarrow> (ConfigurationSnapshotRecord table, StoreError, unit) action" where
  "snapshot_configuration lib encode db run config created_at =
     (let snapshot = new_run_configuration config in
      case snapshot_fingerprint lib snapshot of
        None \<Rightarrow> fail Panic
      | Some fingerprint \<Rightarrow>
          bind (gets (\<lambda>rows. next_rowid (map cs_id rows))) (\<lambda>i.
          insert_configuration_snapshot db
            \<lparr>cs_id = i, cs_run_id = run, cs_project_id = None, cs_scope = ''run'', cs_schema_version = 1,
             cs_fingerprint = fingerprint, cs_document = encode snapshot, cs_created_at = created_at\<rparr>))"

definition run_configuration ::
    "library \<Rightarrow> (string \<Rightarrow> RunConfiguration option) \<Rightarrow> ConfigurationSnapshotRecord table \<Rightarrow> run_id
     \<Rightarrow> StoreError + RunConfiguration" where
  "run_configuration lib decode rows run =
     (case find (\<lambda>r. cs_run_id r = run \<and> cs_scope r = ''run'') rows of
        None \<Rightarrow> Inl (InvalidConfigurationSnapshot run)
      | Some row \<Rightarrow>
          (case decode (cs_document row) of
             None \<Rightarrow> Inl (InvalidConfigurationSnapshot run)
           | Some snapshot \<Rightarrow>
               if cs_schema_version row \<noteq> 1 \<or> \<not> valid_snapshot lib snapshot (cs_fingerprint row)
               then Inl (InvalidConfigurationSnapshot run)
               else Inr snapshot))"

definition configuration ::
    "library \<Rightarrow> (string \<Rightarrow> RunConfiguration option) \<Rightarrow> ConfigurationSnapshotRecord table \<Rightarrow> run_id
     \<Rightarrow> StoreError + EffectiveConfig" where
  "configuration lib decode rows run = map_sum id restore (run_configuration lib decode rows run)"

definition recent_spawns :: "Db \<Rightarrow> run_id \<Rightarrow> int \<Rightarrow> nat" where
  "recent_spawns db run now =
     count_where (\<lambda>r. op_run_id r = run \<and> op_kind r = ''agent.spawn'' \<and> sat_sub now 60 < op_created_at r) (operations db)"

subsection \<open>The closed form of the projection\<close>

definition portable_role_json :: "EffectiveRole \<Rightarrow> json" where
  "portable_role_json r = JObj
     [(''enabled'', JBool (er_enabled r)),
      (''max_instances'', json_opt nat_json (er_max_instances r)),
      (''permission_profile'', portable_profile_json (er_permission_profile r))]"

definition portable_supervision :: "SupervisionPolicy \<Rightarrow> json" where
  "portable_supervision s =
     (if idle_timeout_seconds s = 0 then json_remove ''idle_timeout_seconds'' (supervision_json s) else supervision_json s)"

lemma omit_profile: "omit_default_reviewer (profile_json p) = portable_profile_json p"
  by (cases "approval_reviewer p") (simp_all add: profile_json_def portable_profile_json_def obj_remove_def)

lemma omit_profiles: "json_values omit_default_reviewer (map_json profile_json m) = map_json portable_profile_json m"
  by (simp add: map_json_def case_prod_unfold comp_def omit_profile)

lemma omit_role: "json_update ''permission_profile'' omit_default_reviewer (effective_role_json r) = portable_role_json r"
  by (simp add: effective_role_json_def portable_role_json_def omit_profile)

lemma omit_roles:
  "json_values (json_update ''permission_profile'' omit_default_reviewer) (map_json effective_role_json m)
     = map_json portable_role_json m"
proof -
  have "(\<lambda>(k, v). (k, json_update ''permission_profile'' omit_default_reviewer v)) (k, effective_role_json r)
      = (k, portable_role_json r)" for k r by (simp only: prod.case omit_role)
  then show ?thesis by (simp add: map_json_def comp_def case_prod_unfold del: json_update.simps)
qed

lemma portable_json_eq:
  "portable_json c providers = JObj
     [(''archetype'', JObj
        [(''lead'', JStr (ar_lead (ec_archetype c))),
         (''permission_profiles'', map_json portable_profile_json (ar_permission_profiles (ec_archetype c))),
         (''reference'', JStr (ar_reference (ec_archetype c))),
         (''roles'', map_json role_json (ar_roles (ec_archetype c)))]),
      (''limits'', limits_json (ec_limits c)),
      (''providers'', map_json (map_json requirement_json) providers),
      (''roles'', map_json portable_role_json (ec_roles c)),
      (''schema_version'', JInt 1),
      (''supervision'', portable_supervision (ec_supervision c))]"
  unfolding portable_json_def Let_def archetype_json_def portable_supervision_def
  by (simp add: omit_profiles omit_roles del: json_values.simps)

subsection \<open>Injectivity\<close>

lemma text_inj:
  "filesystem_text a = filesystem_text b \<longleftrightarrow> a = b" "network_text c = network_text d \<longleftrightarrow> c = d"
  "approvals_text e = approvals_text f \<longleftrightarrow> e = f" "reviewer_text g = reviewer_text h \<longleftrightarrow> g = h"
  "mode_text i = mode_text j \<longleftrightarrow> i = j" "workspace_text k = workspace_text l \<longleftrightarrow> k = l"
  subgoal by (cases a; cases b) simp_all
  subgoal by (cases c; cases d) simp_all
  subgoal by (cases e; cases f) simp_all
  subgoal by (cases g; cases h) simp_all
  subgoal by (cases i; cases j) simp_all
  subgoal by (cases k; cases l) simp_all
  done

lemma map_json_inj:
  assumes "\<And>a b. f a = f b \<longleftrightarrow> a = b"
  shows "map_json f m = map_json f n \<longleftrightarrow> m = n"
proof -
  have "inj (\<lambda>(k, v). (k, f v))" using assms by (auto simp: inj_on_def)
  then show ?thesis unfolding map_json_def json.inject by (rule inj_map_eq_map)
qed

lemma json_opt_inj:
  "json_opt nat_json x = json_opt nat_json y \<longleftrightarrow> x = y" "json_opt JStr u = json_opt JStr v \<longleftrightarrow> u = v"
  by (auto simp: json_opt_def nat_json_def split: option.splits)

lemma portable_profile_inj: "portable_profile_json p = portable_profile_json q \<longleftrightarrow> p = q"
proof
  assume eq: "portable_profile_json p = portable_profile_json q"
  have "approval_reviewer p = approval_reviewer q \<and> approvals p = approvals q
      \<and> filesystem p = filesystem q \<and> network p = network q"
    using eq by (auto simp: portable_profile_json_def text_inj split: if_splits)
  then show "p = q" by simp
qed simp

lemma grant_inj: "grant_json a = grant_json b \<longleftrightarrow> a = b"
  by (cases a; cases b) (auto simp: grant_json_def)

lemma role_json_inj: "role_json a = role_json b \<longleftrightarrow> a = b"
proof
  assume eq: "role_json a = role_json b"
  have "inj grant_json" using grant_inj by (auto simp: inj_on_def)
  with eq have "rl_capabilities a = rl_capabilities b" by (simp add: role_json_def inj_map_eq_map)
  with eq show "a = b" by (simp add: role_json_def json_opt_inj text_inj nat_json_def)
qed simp

lemma limits_json_inj: "limits_json a = limits_json b \<longleftrightarrow> a = b"
  by (cases a; cases b) (auto simp: limits_json_def nat_json_def)

lemma portable_role_inj: "portable_role_json a = portable_role_json b \<longleftrightarrow> a = b"
  by (cases a; cases b) (auto simp: portable_role_json_def portable_profile_inj json_opt_inj)

lemma portable_supervision_inj: "portable_supervision a = portable_supervision b \<longleftrightarrow> a = b"
  by (cases a; cases b)
    (auto simp: portable_supervision_def supervision_json_def obj_remove_def split: if_splits)

text \<open>The policy that a lock pins; command lines, project roots and origins are left out.\<close>

definition portable_policy :: "EffectiveConfig \<Rightarrow> ArchetypeDefinition \<times> RunLimits \<times> SupervisionPolicy \<times> EffectiveRole name_map" where
  "portable_policy c = (ec_archetype c, ec_limits c, ec_supervision c, ec_roles c)"

lemma portable_json_policy: "portable_json c p = portable_json c' p' \<Longrightarrow> portable_policy c = portable_policy c'"
proof -
  assume "portable_json c p = portable_json c' p'"
  then have "ar_lead (ec_archetype c) = ar_lead (ec_archetype c')"
    "ar_permission_profiles (ec_archetype c) = ar_permission_profiles (ec_archetype c')"
    "ar_reference (ec_archetype c) = ar_reference (ec_archetype c')"
    "ar_roles (ec_archetype c) = ar_roles (ec_archetype c')"
    "ec_limits c = ec_limits c'" "ec_roles c = ec_roles c'" "ec_supervision c = ec_supervision c'"
    unfolding portable_json_eq
    by (simp_all add: map_json_inj portable_profile_inj role_json_inj limits_json_inj portable_role_inj
        portable_supervision_inj)
  then show ?thesis by (simp add: portable_policy_def)
qed

lemma for_config_policy: "portable_policy c = portable_policy c' \<Longrightarrow> for_config lib c = for_config lib c'"
  unfolding for_config_def portable_json_def portable_policy_def by simp

lemma provider_requirements_total:
  "fst ` set rs \<subseteq> fst ` set roles \<Longrightarrow> \<exists>p. provider_requirements roles rs acc = Some p"
proof (induction rs arbitrary: acc)
  case (Cons x rs)
  obtain name r where x: "x = (name, r)" by (cases x)
  with Cons.prems obtain eff where "map_of roles name = Some eff"
    by (metis (no_types, lifting) fst_conv image_insert insert_subset list.simps(15) map_of_eq_None_iff not_None_eq)
  with Cons show ?case by (simp add: x)
qed simp

lemma encoded_bytes_inj:
  assumes "length a = 32" "length b = 32" "concat (map encode_byte a) = concat (map encode_byte b)"
  shows "a = b"
proof -
  have "expose_secret (AgentToken a) = expose_secret (AgentToken b)" using assms by (simp add: expose_secret_def)
  moreover have "valid_token (AgentToken a)" "valid_token (AgentToken b)"
    using assms by (simp_all add: valid_token_def TOKEN_BYTES_def)
  ultimately have "AgentToken a = AgentToken b" using token_codec.print_injective by blast
  then show ?thesis by simp
qed

subsection \<open>Properties\<close>

lemma hex_digit: "is_lower_hex (HEX ! n)" if "n < 16"
proof -
  have "n \<in> set [0..<16]" using that by simp
  moreover have "list_all (\<lambda>n. is_lower_hex (HEX ! n)) [0..<16]" by code_simp
  ultimately show ?thesis by (simp add: list_all_iff)
qed

lemma fingerprint_form:
  "length (concat (map encode_byte bs)) = 2 * length bs" "list_all is_lower_hex (concat (map encode_byte bs))"
  using hex_digit nibble_bounds by (induction bs) (auto simp: encode_byte_def)

lemma compare_lock_Inr:
  "compare_lock requirement l l' path version = Inr u \<longleftrightarrow>
     (\<exists>matches. requirement (lk_coterie_version l) = Some matches \<and> matches version)
     \<and> length (lk_fingerprint l) = 64 \<and> list_all is_lower_hex (lk_fingerprint l)
     \<and> lk_archetype l = lk_archetype l' \<and> lk_providers l = lk_providers l' \<and> lk_fingerprint l = lk_fingerprint l'"
  by (auto simp: compare_lock_def Let_def split: option.splits if_splits)

text \<open>
  Property C31. A lock verifies exactly the policy it was made for. For a lock written by this
  version and read back, verification against the current configuration succeeds when the
  archetype, limits, supervision and effective roles are the same, whatever the host's commands,
  project roots and origins are; and it succeeds only then, unless SHA-256 collides.
\<close>

theorem lock_verifies_exactly_its_policy:
  assumes locks: "for_config lib c = Some l" "for_config lib c' = Some l'"
    and written: "parse content = Some l" "length content \<le> MAX_LOCK_BYTES"
    and version: "requirement (lk_coterie_version l) = Some matches" "matches package_version"
    and digest: "\<And>b. length (sha256 lib b) = 32"
    and writer: "\<And>p p'. provider_requirements (ec_roles c) (ar_roles (ec_archetype c)) [] = Some p \<Longrightarrow>
      provider_requirements (ec_roles c') (ar_roles (ec_archetype c')) [] = Some p' \<Longrightarrow> json_bytes lib (portable_json c p) = json_bytes lib (portable_json c' p') \<Longrightarrow>
      portable_json c p = portable_json c' p'"
  shows "(portable_policy c = portable_policy c' \<longrightarrow> verify_lock requirement parse l' path (Some content) = Inr Verified)
    \<and> (verify_lock requirement parse l' path (Some content) = Inr Verified \<longrightarrow>
         portable_policy c = portable_policy c'
         \<or> (\<exists>p. json_bytes lib (portable_json c p) \<noteq> json_bytes lib (portable_json c' p)
              \<and> sha256 lib (json_bytes lib (portable_json c p)) = sha256 lib (json_bytes lib (portable_json c' p))))"
proof -
  from locks obtain p p' where
    reqs: "provider_requirements (ec_roles c) (ar_roles (ec_archetype c)) [] = Some p"
      "provider_requirements (ec_roles c') (ar_roles (ec_archetype c')) [] = Some p'" and
    l: "l = \<lparr>lk_archetype = ar_reference (ec_archetype c), lk_coterie_version = ''^'' @ package_version, lk_providers = p,
        lk_fingerprint = concat (map encode_byte (sha256 lib (json_bytes lib (portable_json c p))))\<rparr>"
    and l': "l' = \<lparr>lk_archetype = ar_reference (ec_archetype c'), lk_coterie_version = ''^'' @ package_version, lk_providers = p',
        lk_fingerprint = concat (map encode_byte (sha256 lib (json_bytes lib (portable_json c' p'))))\<rparr>"
    by (auto simp: for_config_def)
  have verify: "verify_lock requirement parse l' path (Some content) = Inr Verified \<longleftrightarrow>
      compare_lock requirement l l' path package_version = Inr ()"
    using written by (auto simp: verify_lock_def split: sum.splits)
  have form: "length (lk_fingerprint l) = 64" "list_all is_lower_hex (lk_fingerprint l)"
    using digest by (simp_all add: l fingerprint_form)
  have c1: "compare_lock requirement l l' path package_version = Inr ()" if "portable_policy c = portable_policy c'"
  proof -
    have "l = l'" using for_config_policy [OF that, of lib] locks by simp
    then show ?thesis using version form by (simp add: compare_lock_Inr)
  qed
  have c2: "portable_policy c = portable_policy c'
      \<or> (\<exists>p. json_bytes lib (portable_json c p) \<noteq> json_bytes lib (portable_json c' p)
           \<and> sha256 lib (json_bytes lib (portable_json c p)) = sha256 lib (json_bytes lib (portable_json c' p)))"
    if "compare_lock requirement l l' path package_version = Inr ()"
  proof (cases "json_bytes lib (portable_json c p) = json_bytes lib (portable_json c' p')")
    case True
    then show ?thesis using portable_json_policy [OF writer [OF reqs]] by blast
  next
    case False
    from that have same: "lk_providers l = lk_providers l'" "lk_fingerprint l = lk_fingerprint l'"
      by (simp_all add: compare_lock_Inr)
    from same(1) have "p = p'" by (simp add: l l')
    from same(2) have "sha256 lib (json_bytes lib (portable_json c p)) = sha256 lib (json_bytes lib (portable_json c' p'))"
      unfolding l l' by (intro encoded_bytes_inj [OF digest digest]) simp
    with False \<open>p = p'\<close> show ?thesis by blast
  qed
  from c1 c2 show ?thesis unfolding verify by blast
qed

lemma for_config_provenance [simp]: "for_config lib (c\<lparr>ec_provenance := p\<rparr>) = for_config lib c"
  by (rule for_config_policy) (simp add: portable_policy_def)

lemma valid_snapshot_provenance [simp]:
  "valid_snapshot lib (r\<lparr>rc_effective := (rc_effective r)\<lparr>ec_provenance := p\<rparr>\<rparr>) f = valid_snapshot lib r f"
  by (simp add: valid_snapshot_def snapshot_fingerprint_def Let_def)

lemma resolved_snapshot_valid:
  assumes run: "resolve g pr ov = Inr c" and f: "snapshot_fingerprint lib (new_run_configuration c) = Some f"
  shows "valid_snapshot lib (new_run_configuration c) f"
proof -
  let ?a = "ec_archetype c"
  note ok = resolve_ok(1) [OF run, unfolded config_ok_def]
  have roles: "roles_ok ?a (ec_roles c)" and arch: "archetype_ok (ec_providers c) ?a" and bind: "bindings_ok (ec_providers c)"
    using ok by auto
  have sorted: "keys_sorted (ar_roles ?a)" "keys_sorted (ec_roles c)" "fst ` set (ar_roles ?a) = fst ` set (ec_roles c)"
    using roles arch by (simp_all add: roles_ok_def archetype_ok_def roles_closed_def)
  have keys: "map fst (ar_roles ?a) = map fst (ec_roles c)" by (rule keys_sorted_eq [OF sorted])
  from arch obtain b where b: "map_of (ar_roles ?a) (ar_lead ?a) = Some b" by (auto simp: archetype_ok_def)
  from roles b obtain r where r: "map_of (ec_roles c) (ar_lead ?a) = Some r" by (rule roles_ok_index)
  with roles have lead: "er_enabled r" by (auto simp: roles_ok_def)
  have bound: "case map_of (ec_providers c) (rl_provider b) of None \<Rightarrow> False
      | Some command \<Rightarrow> (case command of [] \<Rightarrow> False | program # _ \<Rightarrow> program \<noteq> [])"
    if "(name, b) \<in> set (ar_roles ?a)" for name b
  proof -
    from keys_sorted_member [OF sorted(1) that] arch obtain command
      where command: "map_of (ec_providers c) (rl_provider b) = Some command"
      by (fastforce simp: archetype_ok_def roles_closed_def)
    with bind have "command \<noteq> [] \<and> hd command \<noteq> []" by (auto simp: bindings_ok_def)
    then show ?thesis using command by (cases command) simp_all
  qed
  show ?thesis
    using keys r lead bound f
    by (auto simp: valid_snapshot_def Let_def new_run_configuration_def list_all_iff)
qed

text \<open>
  What a run starts with is what it runs with after every restart: once a resolved
  configuration was stored for a run, reading it back in any later state of the table gives
  exactly that configuration, with its origins, and no second one can be stored for the run. The
  JSON reader is one that returns what was written, apart from the field that is not serialised.
\<close>

lemma saved_configuration_is_restored:
  assumes resolved: "resolve g pr ov = Inr c"
    and reader: "decode (encode (new_run_configuration c)) =
      Some ((new_run_configuration c)\<lparr>rc_effective := c\<lparr>ec_provenance := []\<rparr>\<rparr>)"
    and rows: "\<forall>r \<in> set rows. cs_scope r = ''run'' \<longrightarrow> cs_project_id r = None"
    and saved: "snapshot_configuration lib encode db run c t rows = Inr (u, rows')"
  shows "configuration lib decode (rows' @ later_rows) run = Inr c
    \<and> (\<forall>c' t' db'. \<exists>e. snapshot_configuration lib encode db' run c' t' (rows' @ later_rows) = Inl e)"
proof -
  obtain f where f: "snapshot_fingerprint lib (new_run_configuration c) = Some f"
    using saved by (auto simp: snapshot_configuration_def Let_def split: option.splits)
  define row where "row = \<lparr>cs_id = next_rowid (map cs_id rows), cs_run_id = run, cs_project_id = None, cs_scope = ''run'',
    cs_schema_version = 1, cs_fingerprint = f, cs_document = encode (new_run_configuration c), cs_created_at = t\<rparr>"
  have rows': "rows' = rows @ [row]" and ok: "snapshot_row_ok db rows row"
    using saved by (auto simp: snapshot_configuration_def Let_def f insert_configuration_snapshot_def row_def split: if_splits)
  have fields: "cs_run_id row = run" "cs_scope row = ''run''" "cs_project_id row = None" "cs_schema_version row = 1"
    "cs_fingerprint row = f" "cs_document row = encode (new_run_configuration c)"
    by (simp_all add: row_def)
  have "find (\<lambda>r. cs_run_id r = run \<and> cs_scope r = ''run'') rows = None"
    using ok rows by (auto simp: find_None_iff snapshot_row_ok_def fields)
  then have "find (\<lambda>r. cs_run_id r = run \<and> cs_scope r = ''run'') (rows' @ later_rows) = Some row"
    by (simp add: rows' fields find_append)
  moreover have "valid_snapshot lib ((new_run_configuration c)\<lparr>rc_effective := c\<lparr>ec_provenance := []\<rparr>\<rparr>) f"
    using resolved_snapshot_valid [OF resolved f] valid_snapshot_provenance [of lib "[]" "new_run_configuration c" f]
    by (simp add: new_run_configuration_def)
  moreover have "restore ((new_run_configuration c)\<lparr>rc_effective := c\<lparr>ec_provenance := []\<rparr>\<rparr>) = c"
    by (simp add: restore_def new_run_configuration_def)
  ultimately have "configuration lib decode (rows' @ later_rows) run = Inr c"
    by (simp add: configuration_def run_configuration_def fields reader)
  moreover have "\<exists>e. snapshot_configuration lib encode db' run c' t' (rows' @ later_rows) = Inl e" for c' t' db'
    by (auto simp: snapshot_configuration_def Let_def insert_configuration_snapshot_def snapshot_row_ok_def rows' fields
        split: option.splits)
  ultimately show ?thesis by blast
qed

definition sample_library :: library where
  "sample_library = \<lparr>json_bytes = (\<lambda>_. []), sha256 = (\<lambda>_. replicate 32 0)\<rparr>"

lemma sample_fingerprint:
  assumes "resolve g pr ov = Inr c"
  obtains l where "for_config lib c = Some l"
proof -
  from resolve_ok(1) [OF assms] have "fst ` set (ar_roles (ec_archetype c)) \<subseteq> fst ` set (ec_roles c)"
    by (auto simp: config_ok_def roles_ok_def)
  from provider_requirements_total [OF this] obtain p
    where "provider_requirements (ec_roles c) (ar_roles (ec_archetype c)) [] = Some p" by blast
  then show ?thesis by (intro that) (simp add: for_config_def)
qed

theorem lock_verifies_exactly_its_policy_witness:
  "\<exists>c l. resolve sample_global sample_project_config sample_overrides = Inr c \<and> for_config sample_library c = Some l
     \<and> verify_lock (\<lambda>_. Some (\<lambda>_. True)) (\<lambda>_. Some l) l ''coterie.lock'' (Some ''{}'') = Inr Verified"
proof -
  obtain c where c: "resolve sample_global sample_project_config sample_overrides = Inr c" using sample_resolves by blast
  obtain l where l: "for_config sample_library c = Some l" using sample_fingerprint [OF c] .
  have "verify_lock (\<lambda>_. Some (\<lambda>_. True)) (\<lambda>_. Some l) l ''coterie.lock'' (Some ''{}'') = Inr Verified"
    using lock_verifies_exactly_its_policy [OF l l, of "\<lambda>_. Some l" "''{}''" "\<lambda>_. Some (\<lambda>_. True)" "\<lambda>_. True" "''coterie.lock''"]
    by (auto simp: MAX_LOCK_BYTES_def sample_library_def)
  with c l show ?thesis by blast
qed

end
