(* ===== verification/EventLog.thy ===== *)
theory EventLog
  imports Store
begin

section \<open>Appending to the event log\<close>

text \<open>
  What the operations that record several events share: appending a list of events changes the log
  only, the log of a run is in the order of its sequence numbers, and an append goes through
  whenever the rows it mentions exist.
\<close>

text \<open>\<open>self.append_event(...)?;\<close> with its result dropped.\<close>

definition log_event :: "Env \<Rightarrow> NewEvent \<Rightarrow> unit repo" where
  "log_event e n = bind (append_event e n) (\<lambda>_. ret ())"

lemma log_event_Inr: "log_event e n db = Inr (u, db') \<longleftrightarrow> (\<exists>ev. append_event e n db = Inr (ev, db'))"
  by (simp add: log_event_def bind_Inr_iff)

lemma safe_log_event [safe_intros]: "safe (log_event e n)"
  unfolding log_event_def by (intro safe_intros)

text \<open>Appending a list of events changes the log only, and records them in order.\<close>

lemma append_events_Inr:
  assumes "for_each (\<lambda>x. log_event e (f x)) xs db = Inr (u, db')"
  shows "\<exists>evs n. db' = db\<lparr>events := events db @ evs, events_drawn := n\<rparr>
    \<and> map ev_payload evs = map (\<lambda>x. JObj [(''data'', ne_data (f x)), (''schema_version'', JInt 1)]) xs
    \<and> map ev_type evs = map (\<lambda>x. event_kind_as_str (ne_kind (f x))) xs
    \<and> map ev_run_id evs = map (\<lambda>x. ne_run_id (f x)) xs
    \<and> map ev_subject evs = map (\<lambda>x. ne_subject (f x)) xs"
  using assms
proof (induction xs arbitrary: db)
  case Nil
  have "db = db\<lparr>events := events db @ [], events_drawn := events_drawn db\<rparr>" by simp
  moreover have "db' = db" using Nil by simp
  ultimately show ?case by (intro exI [of _ "[]"] exI [of _ "events_drawn db"]) simp
next
  case (Cons x xs)
  from Cons.prems obtain ev mid where ev: "append_event e (f x) db = Inr (ev, mid)"
    and rest: "for_each (\<lambda>x. log_event e (f x)) xs mid = Inr (u, db')"
    by (auto simp: seq_Inr_iff log_event_Inr)
  note mid = append_event_db [OF ev]
  from Cons.IH [OF rest] obtain evs n where
    *: "db' = mid\<lparr>events := events mid @ evs, events_drawn := n\<rparr>"
      "map ev_payload evs = map (\<lambda>x. JObj [(''data'', ne_data (f x)), (''schema_version'', JInt 1)]) xs"
      "map ev_type evs = map (\<lambda>x. event_kind_as_str (ne_kind (f x))) xs"
      "map ev_run_id evs = map (\<lambda>x. ne_run_id (f x)) xs"
      "map ev_subject evs = map (\<lambda>x. ne_subject (f x)) xs"
    by blast
  have "db' = db\<lparr>events := events db @ (new_event_record e (f x) db # evs), events_drawn := n\<rparr>"
    using *(1) mid(1) by simp
  with *(2-) show ?case
    by (intro exI [of _ "new_event_record e (f x) db # evs"] exI [of _ n]) (simp add: new_event_record_def)
qed

lemma run_log_sorted: "log_ok db \<Longrightarrow> sort_key ev_sequence (run_log db run) = run_log db run"
proof (rule sort_key_id_if_sorted)
  assume "log_ok db"
  then have "map ev_sequence (run_log db run) = map int [1..<Suc (length (run_log db run))]"
    by (simp add: log_ok_def)
  moreover have "sorted (map int [1..<Suc n])" for n by (simp add: sorted_map del: upt_Suc)
  ultimately show "sorted (map ev_sequence (run_log db run))" by (simp only:)
qed

subsection \<open>When events can be appended\<close>

text \<open>
  Events whose rows exist can always be appended as long as they are not too long and the event
  identifiers drawn so far are distinct.
\<close>

definition event_room :: "Env \<Rightarrow> Db \<Rightarrow> bool" where
  "event_room e db \<longleftrightarrow>
     log_ok db \<and> inj (env_event_ulid e) \<and> (\<forall>ev. env_event_len e ev \<le> maximum_event_page_length)
     \<and> (\<forall>x \<in> set (events db). \<exists>k < events_drawn db. ev_id x = EventId (env_event_ulid e k))"

definition references_ok :: "Db \<Rightarrow> NewEvent \<Rightarrow> bool" where
  "references_ok db n \<longleftrightarrow>
     run_exists db (ne_run_id n) \<and> references (project_exists db (ne_run_id n)) (ne_project_id n)
     \<and> references (agent_exists db (ne_run_id n)) (ne_agent_id n)
     \<and> references (task_exists db (ne_run_id n)) (ne_task_id n)
     \<and> references (operation_exists db (ne_run_id n)) (ne_operation_id n)
     \<and> ne_correlation_id n = None \<and> ne_causation_id n = None"

lemma references_ok_events [simp]:
  "references_ok (db\<lparr>events := xs, events_drawn := k\<rparr>) n = references_ok db n"
  by (simp add: references_ok_def run_exists_def project_exists_def [abs_def] agent_exists_def [abs_def]
      task_exists_def [abs_def] operation_exists_def [abs_def])

lemma append_event_possible:
  assumes room: "event_room e db" and refs: "references_ok db n"
  obtains ev db' where "append_event e n db = Inr (ev, db')" "event_room e db'"
    "db' = db\<lparr>events := events db @ [ev], events_drawn := Suc (events_drawn db)\<rparr>"
proof -
  let ?ev = "new_event_record e n db"
  let ?db' = "db\<lparr>events := events db @ [?ev], events_drawn := Suc (events_drawn db)\<rparr>"
  have log: "log_ok db" and drawn: "\<And>x. x \<in> set (events db) \<Longrightarrow> \<exists>k < events_drawn db. ev_id x = EventId (env_event_ulid e k)"
    and inject: "inj (env_event_ulid e)" and short: "\<And>ev. env_event_len e ev \<le> maximum_event_page_length"
    using room by (auto simp: event_room_def)
  have "ev_id ?ev \<notin> ev_id ` set (events db)"
  proof
    assume "ev_id ?ev \<in> ev_id ` set (events db)"
    then obtain x where "x \<in> set (events db)" "ev_id x = EventId (env_event_ulid e (events_drawn db))"
      by (auto simp: new_event_record_def)
    with drawn [of x] inject show False by (auto simp: inj_eq)
  qed
  moreover have "next_event_sequence db (ne_run_id n) = int (length (run_log db (ne_run_id n))) + 1"
    by (rule next_event_sequence_log [OF log])
  moreover have "ev_sequence x \<le> int (length (run_log db (ne_run_id n)))"
    if "x \<in> set (events db)" "ev_run_id x = ne_run_id n" for x
  proof -
    have "ev_sequence x \<in> set (map ev_sequence (run_log db (ne_run_id n)))" using that by (auto simp: run_log_def)
    also have "map ev_sequence (run_log db (ne_run_id n)) = map int [1..<Suc (length (run_log db (ne_run_id n)))]"
      using log by (simp add: log_ok_def)
    finally show ?thesis by auto
  qed
  ultimately have "event_row_ok db ?ev"
    using refs by (force simp: event_row_ok_def references_ok_def new_event_record_def)
  then have run: "append_event e n db = Inr (?ev, ?db')" using short by (simp add: append_event_Inr)
  moreover have "event_room e ?db'"
  proof -
    have "log_ok ?db'" using keepsD [OF keeps_log_append run log] .
    moreover have "\<exists>k < Suc (events_drawn db). ev_id x = EventId (env_event_ulid e k)" if "x \<in> set (events ?db')" for x
      using that drawn [of x] by (auto simp: new_event_record_def less_Suc_eq)
    ultimately show ?thesis using inject short by (auto simp: event_room_def)
  qed
  ultimately show ?thesis using that by blast
qed

text \<open>An event may name an earlier event of its run as its cause.\<close>

lemma append_caused_event_possible:
  assumes room: "event_room e db" and refs: "references_ok db (n\<lparr>ne_correlation_id := None, ne_causation_id := None\<rparr>)"
    and cause: "x \<in> set (events db)" "ev_run_id x = ne_run_id n" "ne_correlation_id n = Some (ev_id x)" "ne_causation_id n = Some (ev_id x)"
  obtains ev db' where "append_event e n db = Inr (ev, db')" "event_room e db'"
    "db' = db\<lparr>events := events db @ [ev], events_drawn := Suc (events_drawn db)\<rparr>"
proof -
  let ?n = "n\<lparr>ne_correlation_id := None, ne_causation_id := None\<rparr>"
  have short: "env_event_len e ev \<le> maximum_event_page_length" for ev using room by (simp add: event_room_def)
  obtain ev db' where plain: "append_event e ?n db = Inr (ev, db')" "event_room e db'"
    by (rule append_event_possible [OF room refs])
  then have "event_row_ok db (new_event_record e ?n db)" by (auto simp: append_event_Inr)
  with cause have "event_row_ok db (new_event_record e n db)"
    by (auto simp: event_row_ok_def new_event_record_def event_exists_def exists_row_iff)
  with short have run: "append_event e n db = Inr (new_event_record e n db,
      db\<lparr>events := events db @ [new_event_record e n db], events_drawn := Suc (events_drawn db)\<rparr>)" by (simp add: append_event_Inr)
  have "log_ok db" using room by (simp add: event_room_def)
  then have "log_ok (db\<lparr>events := events db @ [new_event_record e n db], events_drawn := Suc (events_drawn db)\<rparr>)"
    using keepsD [OF keeps_log_append run] by simp
  then have "event_room e (db\<lparr>events := events db @ [new_event_record e n db], events_drawn := Suc (events_drawn db)\<rparr>)"
    using room by (auto simp: event_room_def new_event_record_def less_Suc_eq)
  with run that show ?thesis by blast
qed


lemma log_events_possible:
  assumes "event_room e db" "\<And>x. x \<in> set xs \<Longrightarrow> references_ok db (f x)"
  shows "\<exists>db'. for_each (\<lambda>x. log_event e (f x)) xs db = Inr ((), db') \<and> event_room e db'
    \<and> (\<exists>evs n. db' = db\<lparr>events := events db @ evs, events_drawn := n\<rparr>)"
  using assms
proof (induction xs arbitrary: db)
  case Nil
  have "db = db\<lparr>events := events db @ [], events_drawn := events_drawn db\<rparr>" by simp
  with Nil show ?case by (intro exI [of _ db] conjI exI [of _ "[]"] exI [of _ "events_drawn db"]) simp_all
next
  case (Cons x xs)
  from append_event_possible [OF Cons.prems(1), of "f x"] Cons.prems(2) obtain ev mid where
    ev: "append_event e (f x) db = Inr (ev, mid)" and room: "event_room e mid"
    and mid: "mid = db\<lparr>events := events db @ [ev], events_drawn := Suc (events_drawn db)\<rparr>"
    by auto
  have "references_ok mid (f y)" if "y \<in> set xs" for y using Cons.prems(2) [of y] that by (simp add: mid)
  from Cons.IH [OF room this] obtain db' evs n where
    rest: "for_each (\<lambda>x. log_event e (f x)) xs mid = Inr ((), db')" "event_room e db'"
      "db' = mid\<lparr>events := events mid @ evs, events_drawn := n\<rparr>" by blast
  have "for_each (\<lambda>x. log_event e (f x)) (x # xs) db = Inr ((), db')"
    using ev rest(1) by (auto simp: seq_Inr_iff log_event_Inr)
  moreover have "db' = db\<lparr>events := events db @ (ev # evs), events_drawn := n\<rparr>" using rest(3) by (simp add: mid)
  ultimately show ?case using rest(2) by blast
qed

end
