(* ===== verification/TaskRecovery.thy ===== *)
theory TaskRecovery
  imports Workspaces Shutdown EventLog
begin

section \<open>Recovery of interrupted assignments (src/src/state/recovery.rs)\<close>

text \<open>
  An operator retires the assignment of a worker that is known to be gone: the task is open again,
  ownership is released, the worktree is preserved, and an immutable handoff records what was seen
  in it. A later claim of the task is linked to the retired assignment. This theory holds the
  report of the recovery (src/src/protocol/recovery.rs), the preflight and the retirement.
\<close>

subsection \<open>Text\<close>

text \<open>
  \<open>to_string_lossy\<close>: every maximal ill-formed part of the bytes becomes U+FFFD. \<open>utf8_step\<close> looks
  at the first bytes: how many belong together, and whether they encode a character. Reading
  past the end yields the byte 0, which never continues a character.
\<close>

definition byte_at :: "string \<Rightarrow> nat \<Rightarrow> nat" where
  "byte_at s i = (if i < length s then of_char (s ! i) else 0)"

definition continues :: "nat \<Rightarrow> bool" where
  "continues b \<longleftrightarrow> 128 \<le> b \<and> b < 192"

definition utf8_step :: "string \<Rightarrow> nat \<times> bool" where
  "utf8_step s =
     (let b = byte_at s 0; c = byte_at s 1 in
      if b < 128 then (1, True)
      else if 194 \<le> b \<and> b \<le> 223 then (if continues c then (2, True) else (1, False))
      else if 224 \<le> b \<and> b \<le> 239 then
        (if (b = 224 \<and> 160 \<le> c \<and> c < 192) \<or> (b = 237 \<and> 128 \<le> c \<and> c < 160)
            \<or> (b \<noteq> 224 \<and> b \<noteq> 237 \<and> continues c)
         then (if continues (byte_at s 2) then (3, True) else (2, False))
         else (1, False))
      else if 240 \<le> b \<and> b \<le> 244 then
        (if (b = 240 \<and> 144 \<le> c \<and> c < 192) \<or> (b = 244 \<and> 128 \<le> c \<and> c < 144)
            \<or> (b \<noteq> 240 \<and> b \<noteq> 244 \<and> continues c)
         then (if continues (byte_at s 2)
               then (if continues (byte_at s 3) then (4, True) else (3, False))
               else (2, False))
         else (1, False))
      else (1, False))"

lemma utf8_step_pos: "(n, v) = utf8_step s \<Longrightarrow> 0 < n"
  by (auto simp: utf8_step_def Let_def split: if_splits)

definition replacement_character :: string where
  "replacement_character = map char_of [239, 191, 189 :: nat]"

function to_string_lossy :: "string \<Rightarrow> string" where
  "to_string_lossy s =
     (if s = [] then []
      else (let (n, valid) = utf8_step s in
            (if valid then take n s else replacement_character) @ to_string_lossy (drop n s)))"
  by pat_completeness auto

termination
  by (relation "measure length") (auto dest: utf8_step_pos)

declare to_string_lossy.simps [simp del]

text \<open>\<open>TextPreview::new\<close>: the longest prefix within the budget that ends between characters.\<close>

definition PREVIEW_BYTES :: nat where
  "PREVIEW_BYTES = 512"

record TextPreview =
  tp_text :: string
  tp_total_bytes :: nat
  tp_truncated :: bool

definition is_char_boundary :: "string \<Rightarrow> nat \<Rightarrow> bool" where
  "is_char_boundary s i \<longleftrightarrow> i = 0 \<or> i = length s \<or> (i < length s \<and> \<not> continues (byte_at s i))"

fun boundary_before :: "string \<Rightarrow> nat \<Rightarrow> nat" where
  "boundary_before s 0 = 0"
| "boundary_before s (Suc n) = (if is_char_boundary s (Suc n) then Suc n else boundary_before s n)"

definition text_preview :: "string \<Rightarrow> TextPreview" where
  "text_preview s =
     (let n = boundary_before s (min (length s) PREVIEW_BYTES)
      in \<lparr>tp_text = take n s, tp_total_bytes = length s, tp_truncated = (n \<noteq> length s)\<rparr>)"

definition preview_json :: "TextPreview \<Rightarrow> json" where
  "preview_json p = JObj
     [(''text'', JStr (tp_text p)), (''total_bytes'', JInt (int (tp_total_bytes p))),
      (''truncated'', JBool (tp_truncated p))]"

subsection \<open>The handoff (src/src/protocol/recovery.rs)\<close>

record ReportedEvidence =
  re_text :: string
  re_source :: string

record RecoveryReport =
  rp_validation_evidence :: "ReportedEvidence list"
  rp_unfinished_steps :: "ReportedEvidence list"

record RecoveryPath =
  rpa_path :: string
  rpa_path_bytes :: "int list"

record RecoverySnapshot =
  rsn_head_commit :: string
  rsn_operation_in_progress :: bool
  rsn_complete :: bool
  rsn_dirty_paths :: "RecoveryPath list"
  rsn_staged_paths :: "RecoveryPath list"
  rsn_unstaged_paths :: "RecoveryPath list"
  rsn_untracked_paths :: "RecoveryPath list"
  rsn_conflicted_paths :: "RecoveryPath list"
  rsn_unreadable_paths :: "RecoveryPath list"
  rsn_hidden_index_paths :: "RecoveryPath list"

record RecoveryHandoff =
  ho_operation_id :: operation_id
  ho_source_assignment_id :: assignment_id
  ho_recorded_at :: int
  ho_reported_by :: "agent_id option"
  ho_mechanical :: RecoverySnapshot
  ho_reported :: RecoveryReport

text \<open>The serialised forms, with their keys in order.\<close>

definition operation_json :: "operation_id \<Rightarrow> json" where
  "operation_json i = JId ''co'' (operation_ulid i)"

definition evidence_json :: "ReportedEvidence \<Rightarrow> json" where
  "evidence_json v = JObj [(''source'', JStr (re_source v)), (''text'', JStr (re_text v))]"

definition report_json :: "RecoveryReport \<Rightarrow> json" where
  "report_json r = JObj
     [(''unfinished_steps'', JArr (map evidence_json (rp_unfinished_steps r))),
      (''validation_evidence'', JArr (map evidence_json (rp_validation_evidence r)))]"

definition recovery_path_json :: "RecoveryPath \<Rightarrow> json" where
  "recovery_path_json p = JObj
     [(''path'', JStr (rpa_path p)), (''path_bytes'', JArr (map JInt (rpa_path_bytes p)))]"

definition paths_json :: "RecoveryPath list \<Rightarrow> json" where
  "paths_json ps = JArr (map recovery_path_json ps)"

definition snapshot_json :: "RecoverySnapshot \<Rightarrow> json" where
  "snapshot_json s = JObj
     [(''complete'', JBool (rsn_complete s)), (''conflicted_paths'', paths_json (rsn_conflicted_paths s)),
      (''dirty_paths'', paths_json (rsn_dirty_paths s)), (''head_commit'', JStr (rsn_head_commit s)),
      (''hidden_index_paths'', paths_json (rsn_hidden_index_paths s)),
      (''operation_in_progress'', JBool (rsn_operation_in_progress s)),
      (''staged_paths'', paths_json (rsn_staged_paths s)),
      (''unreadable_paths'', paths_json (rsn_unreadable_paths s)),
      (''unstaged_paths'', paths_json (rsn_unstaged_paths s)),
      (''untracked_paths'', paths_json (rsn_untracked_paths s))]"

definition handoff_json :: "RecoveryHandoff \<Rightarrow> json" where
  "handoff_json h = JObj
     [(''mechanical'', snapshot_json (ho_mechanical h)),
      (''operation_id'', operation_json (ho_operation_id h)),
      (''recorded_at'', JInt (ho_recorded_at h)),
      (''reported'', report_json (ho_reported h)),
      (''reported_by'', json_opt agent_json (ho_reported_by h)),
      (''source_assignment_id'', assignment_json (ho_source_assignment_id h))]"

text \<open>\<open>RecoveryHandoff::brief\<close>, serialised.\<close>

definition evidence_preview_json :: "ReportedEvidence \<Rightarrow> json" where
  "evidence_preview_json v = JObj
     [(''source'', preview_json (text_preview (re_source v))), (''text'', preview_json (text_preview (re_text v)))]"

definition first_preview_json :: "ReportedEvidence list \<Rightarrow> json" where
  "first_preview_json vs = (case vs of [] \<Rightarrow> JNull | v # _ \<Rightarrow> evidence_preview_json v)"

definition count_json :: "'a list \<Rightarrow> json" where
  "count_json xs = JInt (int (length xs))"

definition brief_json :: "RecoveryHandoff \<Rightarrow> json" where
  "brief_json h =
     (let m = ho_mechanical h; r = ho_reported h in JObj
       [(''complete'', JBool (rsn_complete m)), (''conflicted_paths'', count_json (rsn_conflicted_paths m)),
        (''dirty_paths'', count_json (rsn_dirty_paths m)), (''head_commit'', JStr (rsn_head_commit m)),
        (''hidden_index_paths'', count_json (rsn_hidden_index_paths m)),
        (''operation_id'', operation_json (ho_operation_id h)),
        (''operation_in_progress'', JBool (rsn_operation_in_progress m)),
        (''recorded_at'', JInt (ho_recorded_at h)),
        (''reported_by'', json_opt agent_json (ho_reported_by h)),
        (''source_assignment_id'', assignment_json (ho_source_assignment_id h)),
        (''staged_paths'', count_json (rsn_staged_paths m)),
        (''unfinished_step'', first_preview_json (rp_unfinished_steps r)),
        (''unfinished_steps_count'', count_json (rp_unfinished_steps r)),
        (''unreadable_paths'', count_json (rsn_unreadable_paths m)),
        (''unstaged_paths'', count_json (rsn_unstaged_paths m)),
        (''untracked_paths'', count_json (rsn_untracked_paths m)),
        (''validation_evidence'', first_preview_json (rp_validation_evidence r)),
        (''validation_evidence_count'', count_json (rp_validation_evidence r))])"

text \<open>Reading a handoff back; unknown members are rejected.\<close>

definition known_members :: "string list \<Rightarrow> json \<Rightarrow> bool" where
  "known_members ks j = (case j of JObj fs \<Rightarrow> list_all (\<lambda>(k, _). k \<in> set ks) fs | _ \<Rightarrow> False)"

definition evidence_of_json :: "json \<Rightarrow> ReportedEvidence option" where
  "evidence_of_json j =
     (if \<not> known_members [''text'', ''source''] j then None
      else Option.bind (field string_of_json ''text'' j) (\<lambda>t.
           Option.bind (field string_of_json ''source'' j) (\<lambda>s.
           Some \<lparr>re_text = t, re_source = s\<rparr>)))"

definition report_of_json :: "json \<Rightarrow> RecoveryReport option" where
  "report_of_json j =
     (if \<not> known_members [''validation_evidence'', ''unfinished_steps''] j then None
      else Option.bind (field (list_of_json evidence_of_json) ''validation_evidence'' j) (\<lambda>v.
           Option.bind (field (list_of_json evidence_of_json) ''unfinished_steps'' j) (\<lambda>u.
           Some \<lparr>rp_validation_evidence = v, rp_unfinished_steps = u\<rparr>)))"

definition recovery_path_of_json :: "json \<Rightarrow> RecoveryPath option" where
  "recovery_path_of_json j =
     (if \<not> known_members [''path'', ''path_bytes''] j then None
      else Option.bind (field string_of_json ''path'' j) (\<lambda>p.
           Option.bind (field (list_of_json byte_of_json) ''path_bytes'' j) (\<lambda>bs.
           Some \<lparr>rpa_path = p, rpa_path_bytes = bs\<rparr>)))"

definition snapshot_of_json :: "json \<Rightarrow> RecoverySnapshot option" where
  "snapshot_of_json j =
     (if \<not> known_members [''head_commit'', ''operation_in_progress'', ''complete'', ''dirty_paths'', ''staged_paths'',
          ''unstaged_paths'', ''untracked_paths'', ''conflicted_paths'', ''unreadable_paths'', ''hidden_index_paths''] j
      then None
      else let paths = field (list_of_json recovery_path_of_json) in
        Option.bind (field string_of_json ''head_commit'' j) (\<lambda>head.
        Option.bind (field bool_of_json ''operation_in_progress'' j) (\<lambda>busy.
        Option.bind (field bool_of_json ''complete'' j) (\<lambda>complete.
        Option.bind (paths ''dirty_paths'' j) (\<lambda>dirty.
        Option.bind (paths ''staged_paths'' j) (\<lambda>staged.
        Option.bind (paths ''unstaged_paths'' j) (\<lambda>unstaged.
        Option.bind (paths ''untracked_paths'' j) (\<lambda>untracked.
        Option.bind (paths ''conflicted_paths'' j) (\<lambda>conflicted.
        Option.bind (paths ''unreadable_paths'' j) (\<lambda>unreadable.
        Option.bind (paths ''hidden_index_paths'' j) (\<lambda>hidden.
        Some \<lparr>rsn_head_commit = head, rsn_operation_in_progress = busy, rsn_complete = complete,
              rsn_dirty_paths = dirty, rsn_staged_paths = staged, rsn_unstaged_paths = unstaged,
              rsn_untracked_paths = untracked, rsn_conflicted_paths = conflicted,
              rsn_unreadable_paths = unreadable, rsn_hidden_index_paths = hidden\<rparr>)))))))))))"

definition handoff_of_json :: "Env \<Rightarrow> json \<Rightarrow> RecoveryHandoff option" where
  "handoff_of_json e j =
     (if \<not> known_members [''operation_id'', ''source_assignment_id'', ''recorded_at'', ''reported_by'', ''mechanical'', ''reported''] j
      then None
      else Option.bind (field (id_of_json e ''co'') ''operation_id'' j) (\<lambda>operation.
           Option.bind (field (id_of_json e ''ca'') ''source_assignment_id'' j) (\<lambda>assignment.
           Option.bind (field int_of_json ''recorded_at'' j) (\<lambda>at.
           Option.bind (option_field (id_of_json e ''cg'') ''reported_by'' j) (\<lambda>by.
           Option.bind (field snapshot_of_json ''mechanical'' j) (\<lambda>mechanical.
           Option.bind (field report_of_json ''reported'' j) (\<lambda>reported.
           Some \<lparr>ho_operation_id = OperationId operation, ho_source_assignment_id = AssignmentId assignment,
                 ho_recorded_at = at, ho_reported_by = map_option AgentId by,
                 ho_mechanical = mechanical, ho_reported = reported\<rparr>)))))))"

subsection \<open>Preflight\<close>

definition active_run :: "Db \<Rightarrow> run_id \<Rightarrow> bool" where
  "active_run db run \<longleftrightarrow> (case find_run db run of None \<Rightarrow> False | Some r \<Rightarrow> rn_status r = ''active'')"

text \<open>The assignment still owns its task, and its claim is live.\<close>

definition owns_task :: "Db \<Rightarrow> run_id \<Rightarrow> AssignmentRecord \<Rightarrow> TaskRecord \<Rightarrow> bool" where
  "owns_task db run a t \<longleftrightarrow>
     tk_status t = InProgress \<and> as_completed_at a = None \<and> as_state a \<in> {''active'', ''draining''}
     \<and> map_option as_id (active_assignment_for_task db run (tk_id t)) = Some (as_id a)
     \<and> (case find_claim db (as_claim_id a) of None \<Rightarrow> False
        | Some c \<Rightarrow> cl_run_id c = run \<and> cl_task_id c = tk_id t \<and> cl_agent_id c = as_agent_id a
            \<and> cl_released_at c = None)"

text \<open>The session ended the way the caller claims, and its credential is revoked.\<close>

definition session_ended :: "Db \<Rightarrow> SessionScope \<Rightarrow> SessionRecord \<Rightarrow> bool \<Rightarrow> bool" where
  "session_ended db scope s acknowledge_lost \<longleftrightarrow>
     session_scope_is_current db scope
     \<and> (if acknowledge_lost then se_state s = Lost \<and> se_reconciliation_state s = RLost
        else se_state s = Exited \<and> se_reconciliation_state s = RObserved)
     \<and> se_ended_at s \<noteq> None \<and> se_provider_session_id s \<noteq> None
     \<and> (case find_agent db (sc_agent_id scope) of None \<Rightarrow> False | Some g \<Rightarrow> ag_state g = se_state s)
     \<and> (case session_credential db (se_id s) of None \<Rightarrow> False | Some c \<Rightarrow> cr_revoked_at c \<noteq> None)"

text \<open>A control, a launch or an integration of the assignment is not settled.\<close>

definition unsettled :: "Db \<Rightarrow> run_id \<Rightarrow> session_id \<Rightarrow> assignment_id \<Rightarrow> bool" where
  "unsettled db run session assignment \<longleftrightarrow>
     exists_row (\<lambda>c. sc_session_id (sn_scope c) = session \<and> sn_phase c \<noteq> ControlCompleted) (session_controls db)
     \<or> exists_row (\<lambda>r. op_run_id r = run \<and> op_kind r = ''agent.spawn''
          \<and> Option.bind (op_result r) (json_path [''assignment_id'']) = Some (assignment_json assignment)
          \<and> (op_status r \<noteq> ''succeeded'' \<or> op_reconciliation_state r \<noteq> Some RObserved)) (operations db)
     \<or> integration_intent db run assignment"

definition exit_reason :: "json \<Rightarrow> bool" where
  "exit_reason payload \<longleftrightarrow>
     json_path [''data'', ''exit'', ''reason''] payload
       \<in> {Some (JStr ''process''), Some (JStr ''interrupted''), Some (JStr ''terminated'')}"

definition exit_event :: "Env \<Rightarrow> run_id \<Rightarrow> SessionRecord \<Rightarrow> EventRecord \<Rightarrow> bool" where
  "exit_event e run s x \<longleftrightarrow>
     ev_run_id x = run \<and> ev_type x = ''session.lifecycle_changed'' \<and> ev_subject x = session_text e (se_id s)
     \<and> json_path [''data'', ''generation''] (ev_payload x) = Some (JInt (se_generation s))
     \<and> json_path [''data'', ''state''] (ev_payload x) = Some (JStr ''exited'')"

definition provider_exit_recorded :: "Env \<Rightarrow> Db \<Rightarrow> run_id \<Rightarrow> SessionRecord \<Rightarrow> bool" where
  "provider_exit_recorded e db run s \<longleftrightarrow>
     exists_row (\<lambda>x. exit_event e run s x \<and> ev_actor x = ''provider'' \<and> exit_reason (ev_payload x)) (events db)"

definition unsubmitted_worktree :: "WorkspaceRecord \<Rightarrow> string option \<Rightarrow> bool" where
  "unsubmitted_worktree w retained_commit \<longleftrightarrow>
     ws_kind w = ''worktree'' \<and> ws_state w = RObserved
     \<and> (ws_result_commit w = None \<or> ws_result_commit w = retained_commit) \<and> ws_target_commit w = None"

definition session_scope_of :: "run_id \<Rightarrow> AssignmentRecord \<Rightarrow> SessionRecord \<Rightarrow> SessionScope" where
  "session_scope_of run a s =
     \<lparr>sc_run_id = run, sc_agent_id = as_agent_id a, sc_session_id = se_id s, sc_generation = as_generation a\<rparr>"

text \<open>The reasons that are reported for a refusal.\<close>

datatype (plugins del: transfer) RecoveryRefusal =
  RunClosed | NoAssignment | NoTask | NotActive | NoExit | NotInactive | Unsettled
| UnverifiedLoss | UnverifiedExit | NoWorktree

definition refusal_text :: "RecoveryRefusal \<Rightarrow> string" where
  "refusal_text r =
     (case r of
        RunClosed \<Rightarrow>
          ''the run is stopped or draining; task recovery requires an active run; inspect `coterie doctor`; after shutdown completes, ask the operator to use `coterie run list` ''
          @ ''and `coterie run recover <run-id> --reason TEXT`, then launch a fresh session before retrying `task recover`''
      | NoAssignment \<Rightarrow> ''assignment not found in this run; inspect `coterie prime`''
      | NoTask \<Rightarrow> ''task missing; inspect `coterie doctor`''
      | NotActive \<Rightarrow>
          ''the assignment is no longer active; inspect `coterie prime`; submitted work uses `coterie task resubmit`''
      | NoExit \<Rightarrow> ''no observed session exit; inspect `coterie doctor`''
      | NotInactive \<Rightarrow>
          ''process inactivity is not verified for the current generation; wait for an observed exit ''
          @ ''and inspect `coterie doctor` before retrying `coterie task recover`''
      | Unsettled \<Rightarrow>
          ''launch, control, or integration intent is unresolved; inspect `coterie doctor` ''
          @ ''and reconcile the original operation before `coterie task recover`''
      | UnverifiedLoss \<Rightarrow>
          ''the lost session has an exit event or unverified process ownership; preserve the worktree and inspect `coterie doctor`''
      | UnverifiedExit \<Rightarrow>
          ''no verified provider process-exit record; preserve the worktree and inspect `coterie doctor`''
      | NoWorktree \<Rightarrow>
          ''an observed, unsubmitted Git worktree is required; inspect `coterie doctor`; submitted work uses `coterie task resubmit`'')"

definition interrupted_assignment_preflight ::
    "Env \<Rightarrow> Db \<Rightarrow> run_id \<Rightarrow> assignment_id \<Rightarrow> bool \<Rightarrow> string option \<Rightarrow> StoreError + (AssignmentRecord \<times> WorkspaceRecord)" where
  "interrupted_assignment_preflight e db run assignment acknowledge_lost retained_commit =
     (let reject = (\<lambda>r. Inl (RecoveryConflict assignment (refusal_text r))) in
      if \<not> active_run db run \<or> find_run_shutdown db run \<noteq> None then reject RunClosed
      else (case find_assignment db assignment of None \<Rightarrow> reject NoAssignment
      | Some a \<Rightarrow>
          if as_run_id a \<noteq> run then reject NoAssignment
          else (case find_task db (as_task_id a) of None \<Rightarrow> reject NoTask
          | Some t \<Rightarrow>
              if \<not> owns_task db run a t then reject NotActive
              else (case Option.bind (as_session_id a) (find_session db) of None \<Rightarrow> reject NoExit
              | Some s \<Rightarrow>
                  if \<not> session_ended db (session_scope_of run a s) s acknowledge_lost then reject NotInactive
                  else if unsettled db run (se_id s) assignment then reject Unsettled
                  else if provider_exit_recorded e db run s = acknowledge_lost
                      \<or> se_process_owner s \<noteq> SupervisorOwned then
                    reject (if acknowledge_lost then UnverifiedLoss else UnverifiedExit)
                  else (case workspace_for_scope db (assignment_scope a) of
                    None \<Rightarrow> Inl (StaleAssignment (as_id a))
                  | Some w \<Rightarrow>
                      if \<not> unsubmitted_worktree w retained_commit then reject NoWorktree
                      else Inr (a, w))))))"

definition recovery_preflight ::
    "Env \<Rightarrow> Db \<Rightarrow> run_id \<Rightarrow> assignment_id \<Rightarrow> bool \<Rightarrow> StoreError + (AssignmentRecord \<times> WorkspaceRecord)" where
  "recovery_preflight e db run assignment acknowledge_lost =
     interrupted_assignment_preflight e db run assignment acknowledge_lost None"

subsection \<open>Retirement\<close>

text \<open>\<open>RecoverySummary\<close> as it is serialised: flags that are off and an absent handoff are left out.\<close>

definition recovery_json :: "RecoverySummary \<Rightarrow> json" where
  "recovery_json r = JObj
     ([(''assignment_id'', assignment_json (rv_assignment_id r)), (''base_commit'', json_opt JStr (rv_base_commit r)),
       (''continuation_assignment_id'', json_opt assignment_json (rv_continuation_assignment_id r)),
       (''generation'', JInt (rv_generation r))]
      @ (case rv_handoff r of None \<Rightarrow> [] | Some h \<Rightarrow> [(''handoff'', h)])
      @ (if rv_missing_exit_acknowledged r then [(''missing_exit_acknowledged'', JBool True)] else [])
      @ [(''project_id'', project_json (rv_project_id r)), (''reason'', JStr (rv_reason r)),
         (''session_id'', session_json (rv_session_id r)), (''task_id'', task_json (rv_task_id r)),
         (''workspace_path'', JStr (rv_workspace_path r)),
         (''workspace_path_bytes'', JArr (map JInt (rv_workspace_path_bytes r)))])"

definition recovery_summary ::
    "AssignmentRecord \<Rightarrow> session_id \<Rightarrow> WorkspaceRecord \<Rightarrow> string \<Rightarrow> RecoveryHandoff \<Rightarrow> bool \<Rightarrow> RecoverySummary" where
  "recovery_summary a session w reason handoff acknowledge_lost =
     \<lparr>rv_task_id = as_task_id a, rv_assignment_id = as_id a, rv_session_id = session,
      rv_project_id = ws_project_id w, rv_generation = as_generation a,
      rv_workspace_path = to_string_lossy (ws_path w),
      rv_workspace_path_bytes = map (\<lambda>c. int (of_char c)) (ws_path w), rv_base_commit = ws_base_commit w,
      rv_reason = reason, rv_missing_exit_acknowledged = acknowledge_lost,
      rv_continuation_assignment_id = None, rv_handoff = Some (brief_json handoff)\<rparr>"

definition reopen :: "Mutation \<Rightarrow> AssignmentRecord \<Rightarrow> TaskTransitionMutation" where
  "reopen m a =
     \<lparr>tt_operation_id = mu_id m, tt_run_id = mu_run_id m, tt_actor_agent_id = mu_actor_agent_id m,
      tt_task_id = as_task_id a, tt_transition = Reopen, tt_result = None, tt_operator_override = None,
      tt_summary = None, tt_transitioned_at = mu_created_at m\<rparr>"

definition recovery_event ::
    "Env \<Rightarrow> Mutation \<Rightarrow> AssignmentRecord \<Rightarrow> WorkspaceRecord \<Rightarrow> EventKind \<times> string \<times> json \<Rightarrow> NewEvent" where
  "recovery_event e m a w = (\<lambda>(kind, subject, data).
     \<lparr>ne_run_id = mu_run_id m, ne_kind = kind, ne_actor = mutation_actor e (mu_actor_agent_id m),
      ne_subject = subject, ne_project_id = Some (ws_project_id w), ne_agent_id = Some (as_agent_id a),
      ne_task_id = Some (as_task_id a), ne_operation_id = Some (mu_id m),
      ne_correlation_id = None, ne_causation_id = None, ne_data = data,
      ne_summary = ''Retired interrupted assignment '' @ assignment_text e (as_id a)
        @ '' for continuation; source worktree preserved.'',
      ne_created_at = mu_created_at m\<rparr>)"

definition recovery_events :: "Env \<Rightarrow> AssignmentRecord \<Rightarrow> RecoverySummary \<Rightarrow> (EventKind \<times> string \<times> json) list" where
  "recovery_events e a recovery =
     [(TaskRecovered, task_text e (as_task_id a), recovery_json recovery),
      (TaskLifecycleChanged, task_text e (as_task_id a),
        JObj [(''previous_status'', JStr ''in_progress''), (''status'', JStr ''open''), (''transition'', JStr ''recover'')]),
      (AssignmentLifecycleChanged, assignment_text e (as_id a),
        JObj [(''previous_state'', JStr (as_state a)), (''state'', JStr ''released'')]),
      (ClaimReleased, show_int (as_claim_id a),
        JObj [(''assignment_id'', assignment_json (as_id a)), (''claim_id'', JInt (as_claim_id a))])]"

definition insert_handoff :: "RecoveryHandoffRecord \<Rightarrow> unit repo" where
  "insert_handoff = insert_row handoff_row_ok (\<lambda>h. recovery_handoffs_update (\<lambda>rows. rows @ [h]))"

definition recover_assignment ::
    "Env \<Rightarrow> Mutation \<Rightarrow> assignment_id \<Rightarrow> string \<Rightarrow> RecoveryHandoff \<Rightarrow> bool \<Rightarrow> RecoverySummary repo" where
  "recover_assignment e m assignment reason handoff acknowledge_lost =
     bind (lift_result (\<lambda>db. recovery_preflight e db (mu_run_id m) assignment acknowledge_lost)) (\<lambda>(a, w).
     case as_session_id a of
       None \<Rightarrow> fail Panic
     | Some session \<Rightarrow>
         let recovery = recovery_summary a session w reason handoff acknowledge_lost in
         seq (insert_handoff
                \<lparr>rh_assignment_id = assignment, rh_run_id = mu_run_id m, rh_operation_id = mu_id m,
                 rh_document = handoff_json handoff\<rparr>)
         (bind (apply_task_transition (reopen m a)) (\<lambda>_.
          seq (for_each (\<lambda>x. log_event e (recovery_event e m a w x))
                 (recovery_events e a recovery))
              (ret recovery))))"

definition recovery_handoff :: "Env \<Rightarrow> Db \<Rightarrow> run_id \<Rightarrow> assignment_id \<Rightarrow> StoreError + RecoveryHandoff option" where
  "recovery_handoff e db run assignment =
     (case find (\<lambda>h. rh_run_id h = run \<and> rh_assignment_id h = assignment) (recovery_handoffs db) of
        None \<Rightarrow> Inr None
      | Some h \<Rightarrow> (case handoff_of_json e (rh_document h) of None \<Rightarrow> Inl EncodeJson | Some d \<Rightarrow> Inr (Some d)))"

subsection \<open>What a successful preflight has established\<close>

lemma interrupted_preflight_Inr:
  assumes "interrupted_assignment_preflight e db run i lost commit = Inr (a, w)"
  obtains t s where "active_run db run" "find_run_shutdown db run = None"
    "find_assignment db i = Some a" "as_run_id a = run" "find_task db (as_task_id a) = Some t"
    "owns_task db run a t" "as_session_id a = Some (se_id s)" "find_session db (se_id s) = Some s"
    "session_ended db (session_scope_of run a s) s lost" "\<not> unsettled db run (se_id s) i"
    "provider_exit_recorded e db run s \<longleftrightarrow> \<not> lost" "se_process_owner s = SupervisorOwned"
    "workspace_for_scope db (assignment_scope a) = Some w" "unsubmitted_worktree w commit"
proof -
  from assms obtain t s where *: "active_run db run" "find_run_shutdown db run = None"
    "find_assignment db i = Some a" "as_run_id a = run" "find_task db (as_task_id a) = Some t"
    "owns_task db run a t" and s: "Option.bind (as_session_id a) (find_session db) = Some s" and
    "session_ended db (session_scope_of run a s) s lost" "\<not> unsettled db run (se_id s) i"
    "provider_exit_recorded e db run s \<longleftrightarrow> \<not> lost" "se_process_owner s = SupervisorOwned"
    "workspace_for_scope db (assignment_scope a) = Some w" "unsubmitted_worktree w commit"
    unfolding interrupted_assignment_preflight_def Let_def by (auto split: if_splits option.splits)
  moreover from s obtain j where "as_session_id a = Some j" "find_session db j = Some s"
    by (cases "as_session_id a") auto
  moreover from this(2) have "se_id s = j" by (auto dest: find_session_Some)
  ultimately show ?thesis using that by blast
qed

lemma safe_insert_handoff [safe_intros]: "safe (insert_handoff h)"
  unfolding insert_handoff_def by (rule safe_insert_row) (simp add: extends_table)

lemma safe_recover_assignment [safe_intros]: "safe (recover_assignment e m i reason h lost)"
  unfolding recover_assignment_def case_prod_unfold Let_def
  by (intro safe_intros safe_lift_result safe_apply_task_transition)

text \<open>Reopening the task of a live assignment always goes through.\<close>

lemma reopen_Inr:
  assumes ok: "store_ok db" and t: "find_task db (as_task_id a) = Some t" "tk_run_id t = mu_run_id m"
    and s: "tk_status t = InProgress"
    and run: "apply_task_transition (reopen m a) db = Inr (r, db')"
  shows "db' = move_task (reopen m a) t Open (released_db (reopen m a) ''released'' db)"
proof -
  have "transition_outcome db (reopen m a) = Transitioned InProgress Open"
    using t s by (simp add: transition_outcome_def find_task_in_run [OF ok] reopen_def acceptance_met_def)
  with apply_task_transition_total [OF ok, of "reopen m a"] run have r: "r = Transitioned InProgress Open" by auto
  from apply_task_transition_Inr [OF run] show ?thesis
  proof (elim disjE conjE exE)
    fix why assume "r = TransitionRejected why"
    with r show ?thesis by simp
  next
    fix task status
    assume "find_task db (tt_task_id (reopen m a)) = Some task" "r = Transitioned (tk_status task) status"
      "if tk_status task = InProgress then (\<exists>state. released_state (tt_transition (reopen m a)) = Some state
         \<and> db' = move_task (reopen m a) task status (released_db (reopen m a) state db))
       else db' = move_task (reopen m a) task status db"
    with r t s show ?thesis by (auto simp: reopen_def)
  qed
qed

lemma recovery_json_get:
  "json_get ''assignment_id'' (recovery_json r) = Some (assignment_json (rv_assignment_id r))"
  "json_get ''base_commit'' (recovery_json r) = Some (json_opt JStr (rv_base_commit r))"
  "json_get ''continuation_assignment_id'' (recovery_json r)
     = Some (json_opt assignment_json (rv_continuation_assignment_id r))"
  "json_get ''generation'' (recovery_json r) = Some (JInt (rv_generation r))"
  "json_get ''handoff'' (recovery_json r) = rv_handoff r"
  "json_get ''missing_exit_acknowledged'' (recovery_json r)
     = (if rv_missing_exit_acknowledged r then Some (JBool True) else None)"
  "json_get ''project_id'' (recovery_json r) = Some (project_json (rv_project_id r))"
  "json_get ''reason'' (recovery_json r) = Some (JStr (rv_reason r))"
  "json_get ''session_id'' (recovery_json r) = Some (session_json (rv_session_id r))"
  "json_get ''task_id'' (recovery_json r) = Some (task_json (rv_task_id r))"
  "json_get ''workspace_path'' (recovery_json r) = Some (JStr (rv_workspace_path r))"
  "json_get ''workspace_path_bytes'' (recovery_json r) = Some (JArr (map JInt (rv_workspace_path_bytes r)))"
  by (simp_all add: recovery_json_def map_add_def split: option.split)

text \<open>The database after a recovery.\<close>

definition retired_db ::
    "Mutation \<Rightarrow> RecoveryHandoff \<Rightarrow> AssignmentRecord \<Rightarrow> TaskRecord \<Rightarrow> EventRecord list \<Rightarrow> nat \<Rightarrow> Db \<Rightarrow> Db" where
  "retired_db m h a t evs n db =
     (move_task (reopen m a) t Open (released_db (reopen m a) ''released''
       (recovery_handoffs_update (\<lambda>rows. rows @ [\<lparr>rh_assignment_id = as_id a, rh_run_id = mu_run_id m,
          rh_operation_id = mu_id m, rh_document = handoff_json h\<rparr>]) db)))
     \<lparr>events := events db @ evs, events_drawn := n\<rparr>"

lemma retired_db_tables [simp]:
  "tasks (retired_db m h a t evs n db) =
     update_where (\<lambda>x. tk_id x = as_task_id a \<and> tk_run_id x = mu_run_id m)
       (\<lambda>x. x\<lparr>tk_status := Open, tk_result := transition_result (reopen m a) t, tk_updated_at := mu_created_at m\<rparr>)
       (tasks db)"
  "claims (retired_db m h a t evs n db) = update_where (held_claim (reopen m a)) (release_claim (reopen m a)) (claims db)"
  "assignments (retired_db m h a t evs n db)
     = update_where (held_assignment (reopen m a)) (complete_assignment (reopen m a) ''released'') (assignments db)"
  "workspaces (retired_db m h a t evs n db) = workspaces db"
  "sessions (retired_db m h a t evs n db) = sessions db"
  "credentials (retired_db m h a t evs n db) = credentials db"
  "runs (retired_db m h a t evs n db) = runs db"
  "events (retired_db m h a t evs n db) = events db @ evs"
  "recovery_handoffs (retired_db m h a t evs n db) = recovery_handoffs db
     @ [\<lparr>rh_assignment_id = as_id a, rh_run_id = mu_run_id m, rh_operation_id = mu_id m, rh_document = handoff_json h\<rparr>]"
  by (simp_all add: retired_db_def move_task_def released_db_def reopen_def)

lemma recover_assignmentE:
  assumes ok: "store_ok db" and run: "recover_assignment e m i reason h lost db = Inr (rv, db')"
  obtains a w s t evs n where
    "find_assignment db i = Some a" "as_id a = i" "as_run_id a = mu_run_id m" "find_task db (as_task_id a) = Some t"
    "tk_run_id t = mu_run_id m" "owns_task db (mu_run_id m) a t"
    "as_session_id a = Some (se_id s)" "find_session db (se_id s) = Some s"
    "session_ended db (session_scope_of (mu_run_id m) a s) s lost"
    "workspace_for_scope db (assignment_scope a) = Some w" "unsubmitted_worktree w None"
    "rv = recovery_summary a (se_id s) w reason h lost"
    "rh_assignment_id ` set (recovery_handoffs db) \<subseteq> - {i}"
    "db' = retired_db m h a t evs n db"
    "map ev_payload evs = map (\<lambda>(_, _, data). JObj [(''data'', data), (''schema_version'', JInt 1)]) (recovery_events e a rv)"
    "map ev_type evs = [''task.recovered'', ''task.lifecycle_changed'', ''assignment.lifecycle_changed'', ''claim.released'']"
    "map ev_run_id evs = replicate 4 (mu_run_id m)"
proof -
  from run obtain a w where pre: "interrupted_assignment_preflight e db (mu_run_id m) i lost None = Inr (a, w)"
    and rest: "(case as_session_id a of None \<Rightarrow> fail Panic
     | Some session \<Rightarrow>
         let recovery = recovery_summary a session w reason h lost in
         seq (insert_handoff \<lparr>rh_assignment_id = i, rh_run_id = mu_run_id m, rh_operation_id = mu_id m,
                 rh_document = handoff_json h\<rparr>)
         (bind (apply_task_transition (reopen m a)) (\<lambda>_.
          seq (for_each (\<lambda>x. log_event e (recovery_event e m a w x)) (recovery_events e a recovery)) (ret recovery)))) db
       = Inr (rv, db')"
    by (auto simp: recover_assignment_def recovery_preflight_def bind_Inr_iff)
  from interrupted_preflight_Inr [OF pre] obtain t s where facts:
    "find_assignment db i = Some a" "as_run_id a = mu_run_id m" "find_task db (as_task_id a) = Some t"
    "owns_task db (mu_run_id m) a t" "as_session_id a = Some (se_id s)" "find_session db (se_id s) = Some s"
    "session_ended db (session_scope_of (mu_run_id m) a s) s lost"
    "workspace_for_scope db (assignment_scope a) = Some w" "unsubmitted_worktree w None"
    by metis
  let ?row = "\<lparr>rh_assignment_id = i, rh_run_id = mu_run_id m, rh_operation_id = mu_id m, rh_document = handoff_json h\<rparr>"
  let ?db1 = "recovery_handoffs_update (\<lambda>rows. rows @ [?row]) db"
  have a: "a \<in> set (assignments db)" "as_id a = i" using facts(1) by (auto simp: find_assignment_def dest: find_Some_in)
  have t: "tk_run_id t = mu_run_id m"
    using a facts(2) find_task_Some [OF facts(3)] ok same_task_same_run [of db t "as_run_id a"]
    by (auto simp: store_ok_def refs_ok_def)
  from rest facts(5) obtain u mid r db2 where fresh: "handoff_row_ok db ?row" and mid: "mid = ?db1"
    and reopened: "apply_task_transition (reopen m a) mid = Inr (r, db2)"
    and evs: "for_each (\<lambda>x. log_event e (recovery_event e m a w x)) (recovery_events e a rv) db2 = Inr (u, db')"
    and rv: "rv = recovery_summary a (se_id s) w reason h lost"
    by (auto simp: Let_def seq_Inr_iff bind_Inr_iff insert_handoff_def insert_row_Inr)
  have ok1: "store_ok mid" using ok by (simp add: mid)
  have "find_task mid (as_task_id a) = Some t" using facts(3) by (simp add: mid find_task_def)
  moreover have "tk_status t = InProgress" using facts(4) by (simp add: owns_task_def)
  ultimately have db2: "db2 = move_task (reopen m a) t Open (released_db (reopen m a) ''released'' mid)"
    using reopen_Inr [OF ok1 _ t _ reopened] by blast
  from append_events_Inr [OF evs] obtain xs n where xs:
    "db' = db2\<lparr>events := events db2 @ xs, events_drawn := n\<rparr>"
    "map ev_payload xs = map (\<lambda>x. JObj [(''data'', ne_data (recovery_event e m a w x)), (''schema_version'', JInt 1)]) (recovery_events e a rv)"
    "map ev_type xs = map (\<lambda>x. event_kind_as_str (ne_kind (recovery_event e m a w x))) (recovery_events e a rv)"
    "map ev_run_id xs = map (\<lambda>x. ne_run_id (recovery_event e m a w x)) (recovery_events e a rv)"
    by blast
  have "events db2 = events db" by (simp add: db2 mid move_task_def released_db_def)
  with xs(1) have db': "db' = retired_db m h a t xs n db"
    unfolding retired_db_def using a(2) by (simp add: db2 mid)
  have rh: "rh_assignment_id ` set (recovery_handoffs db) \<subseteq> - {i}" using fresh by (auto simp: handoff_row_ok_def)
  have logged: "map ev_payload xs = map (\<lambda>(_, _, data). JObj [(''data'', data), (''schema_version'', JInt 1)]) (recovery_events e a rv)"
    "map ev_type xs = [''task.recovered'', ''task.lifecycle_changed'', ''assignment.lifecycle_changed'', ''claim.released'']"
    "map ev_run_id xs = replicate 4 (mu_run_id m)"
    using xs(2-) by (simp_all add: recovery_event_def recovery_events_def numeral_eq_Suc)
  show ?thesis by (rule that [OF facts(1) a(2) facts(2,3) t facts(4-9) rv rh db' logged])
qed

lemma recovered_marks:
  assumes "map ev_payload evs = map (\<lambda>(_, _, data). JObj [(''data'', data), (''schema_version'', JInt 1)]) (recovery_events e a rv)"
    "map ev_type evs = [''task.recovered'', ''task.lifecycle_changed'', ''assignment.lifecycle_changed'', ''claim.released'']"
    "map ev_run_id evs = replicate 4 run" "set evs \<subseteq> set (events db)"
  shows "session_recovered db run (rv_session_id rv)" "assignment_recovered db run (rv_assignment_id rv)"
proof -
  from assms(2) obtain x rest where x: "evs = x # rest" by (cases evs) auto
  with assms have "ev_run_id x = run" "ev_type x = ''task.recovered''" "x \<in> set (events db)"
    "ev_payload x = JObj [(''data'', recovery_json rv), (''schema_version'', JInt 1)]"
    by (auto simp: numeral_eq_Suc recovery_events_def)
  then show "session_recovered db run (rv_session_id rv)" "assignment_recovered db run (rv_assignment_id rv)"
    by (auto simp: session_recovered_def assignment_recovered_def recovery_json_get)
qed

lemma assignment_recovered_later:
  "assignment_recovered db run i \<Longrightarrow> extends db db' \<Longrightarrow> assignment_recovered db' run i"
  by (auto simp: assignment_recovered_def extends_def dest: set_mono_prefix)

lemma recovered_not_current:
  "assignment_recovered db (sp_run_id s) (sp_assignment_id s) \<Longrightarrow> workspace_for_scope db s = None"
  by (auto simp: workspace_for_scope_def assignment_scope_is_current_def split: option.split)

text \<open>
  Property C18. A recovery goes through only for a live assignment whose worker is known to be
  gone: its session has ended and its credential is revoked. Afterwards the task is open and
  unowned, the worktree is as it was, and the retirement is final: in every later database the
  old session and the old assignment are fenced off, and the assignment is not recovered again.
\<close>

theorem recovery_retires_and_fences_the_worker:
  assumes ok: "store_ok db" and run: "recover_assignment e m i reason h lost db = Inr (rv, db')"
  shows "\<exists>a s t. find_assignment db i = Some a \<and> find_task db (as_task_id a) = Some t
    \<and> as_session_id a = Some (se_id s) \<and> find_session db (se_id s) = Some s
    \<and> tk_status t = InProgress \<and> se_state s = (if lost then Lost else Exited) \<and> se_ended_at s \<noteq> None
    \<and> (\<exists>c. session_credential db (se_id s) = Some c \<and> cr_revoked_at c \<noteq> None)
    \<and> map_option tk_status (find_task db' (tk_id t)) = Some Open
    \<and> \<not> has_active_claim db' (mu_run_id m) (tk_id t)
    \<and> active_assignment_for_task db' (mu_run_id m) (tk_id t) = None
    \<and> workspaces db' = workspaces db
    \<and> (\<forall>later. store_ok later \<and> extends db' later \<longrightarrow>
         \<not> session_scope_is_current later (session_scope_of (mu_run_id m) a s)
         \<and> workspace_for_scope later (assignment_scope a) = None
         \<and> (\<forall>m' reason' h' lost'. \<exists>err. recover_assignment e m' i reason' h' lost' later = Inl err))"
proof -
  from recover_assignmentE [OF ok run] obtain a w s t evs n where a: "find_assignment db i = Some a" "as_id a = i"
      "as_run_id a = mu_run_id m"
    and t: "find_task db (as_task_id a) = Some t" "tk_run_id t = mu_run_id m" "owns_task db (mu_run_id m) a t"
    and s: "as_session_id a = Some (se_id s)" "find_session db (se_id s) = Some s"
      "session_ended db (session_scope_of (mu_run_id m) a s) s lost"
    and rv: "rv = recovery_summary a (se_id s) w reason h lost"
    and db': "db' = retired_db m h a t evs n db"
    and evs: "map ev_payload evs = map (\<lambda>(_, _, data). JObj [(''data'', data), (''schema_version'', JInt 1)]) (recovery_events e a rv)"
      "map ev_type evs = [''task.recovered'', ''task.lifecycle_changed'', ''assignment.lifecycle_changed'', ''claim.released'']"
      "map ev_run_id evs = replicate 4 (mu_run_id m)" .
  have ok': "store_ok db'" using safeD [OF safe_recover_assignment run ok] by simp
  have id: "tk_id t = as_task_id a" using find_task_Some [OF t(1)] by simp
  have marks: "session_recovered db' (mu_run_id m) (se_id s)" "assignment_recovered db' (mu_run_id m) i"
    using recovered_marks [OF evs, of db'] by (simp_all add: db' rv recovery_summary_def a(2))
  have "find_task db' (tk_id t) = map_option (\<lambda>x. if tk_id x = as_task_id a \<and> tk_run_id x = mu_run_id m
      then x\<lparr>tk_status := Open, tk_result := transition_result (reopen m a) t, tk_updated_at := mu_created_at m\<rparr> else x)
      (find_task db (tk_id t))"
    unfolding find_task_def db' retired_db_tables by (rule find_update_where) simp
  then have opened: "map_option tk_status (find_task db' (tk_id t)) = Some Open" using t by (simp add: id)
  have free: "\<not> has_active_claim db' (mu_run_id m) (tk_id t)"
    "active_assignment_for_task db' (mu_run_id m) (tk_id t) = None"
    by (auto simp: has_active_claim_def active_assignment_for_task_def find_None_all db' set_update_where
        held_claim_def held_assignment_def reopen_def id)
  have final: "\<not> session_scope_is_current later (session_scope_of (mu_run_id m) a s)"
    "workspace_for_scope later (assignment_scope a) = None"
    "\<exists>err. recover_assignment e m' i reason' h' lost' later = Inl err"
    if later: "store_ok later" "extends db' later" for later m' reason' h' lost'
  proof -
    have "fenced db' (session_scope_of (mu_run_id m) a s)"
      using marks(1) by (simp add: fenced_def session_scope_of_def)
    then have "fenced later (session_scope_of (mu_run_id m) a s)" using later(2) by (rule fenced_later)
    then show "\<not> session_scope_is_current later (session_scope_of (mu_run_id m) a s)"
      using later(1) by (rule fenced_not_current [rotated])
    have marked: "assignment_recovered later (mu_run_id m) i"
      using marks(2) later(2) by (rule assignment_recovered_later)
    then show "workspace_for_scope later (assignment_scope a) = None"
      using a by (intro recovered_not_current) (simp add: assignment_scope_def)
    show "\<exists>err. recover_assignment e m' i reason' h' lost' later = Inl err"
    proof (cases "recover_assignment e m' i reason' h' lost' later")
      case (Inr r)
      then have "recover_assignment e m' i reason' h' lost' later = Inr (fst r, snd r)" by simp
      from recover_assignmentE [OF later(1) this] obtain b w' where b: "find_assignment later i = Some b" "as_id b = i"
        and w': "workspace_for_scope later (assignment_scope b) = Some w'"
        by metis
      have "a \<in> set (assignments db)" using a(1) by (auto simp: find_assignment_def dest: find_Some_in)
      moreover have "extends db later"
        using safeD [OF safe_recover_assignment run ok] later(2) extends_trans by blast
      ultimately obtain d where d: "d \<in> set (assignments later)" "as_id d = i" "as_run_id d = mu_run_id m"
        using a(2,3) unfolding extends_def grows_def assignment_later_def by metis
      have "d = b"
        using later(1) d(1,2) b find_unique [of as_id "assignments later" d]
        by (simp add: store_ok_def keys_ok_def find_assignment_def)
      with d marked have "workspace_for_scope later (assignment_scope b) = None"
        by (intro recovered_not_current) (simp add: assignment_scope_def)
      with w' show ?thesis by simp
    qed simp
  qed
  have inactive: "tk_status t = InProgress" "se_state s = (if lost then Lost else Exited)" "se_ended_at s \<noteq> None"
    "\<exists>c. session_credential db (se_id s) = Some c \<and> cr_revoked_at c \<noteq> None"
    using t(3) s(3) by (auto simp: owns_task_def session_ended_def split: if_splits option.splits)
  have forever: "\<forall>later. store_ok later \<and> extends db' later \<longrightarrow>
      \<not> session_scope_is_current later (session_scope_of (mu_run_id m) a s)
      \<and> workspace_for_scope later (assignment_scope a) = None
      \<and> (\<forall>m' reason' h' lost'. \<exists>err. recover_assignment e m' i reason' h' lost' later = Inl err)"
    using final by blast
  have kept: "workspaces db' = workspaces db" by (simp add: db')
  show ?thesis
    by (rule exI [of _ a], rule exI [of _ s], rule exI [of _ t], intro conjI)
      (rule a(1) t(1) s(1,2) inactive opened free kept forever)+
qed

subsection \<open>Reading a recovery back\<close>

lemma list_of_json_map:
  "(\<And>x. x \<in> set xs \<Longrightarrow> f (g x) = Some x) \<Longrightarrow> list_of_json f (JArr (map g xs)) = Some xs"
  by (induction xs) auto

definition bytes_ok :: "int list \<Rightarrow> bool" where
  "bytes_ok bs \<longleftrightarrow> list_all (\<lambda>b. 0 \<le> b \<and> b \<le> 255) bs"

definition paths_bytes_ok :: "RecoveryPath list \<Rightarrow> bool" where
  "paths_bytes_ok ps \<longleftrightarrow> list_all (\<lambda>p. bytes_ok (rpa_path_bytes p)) ps"

text \<open>The ranges of the Rust types: path bytes are \<open>u8\<close>, the time is an \<open>i64\<close>.\<close>

definition handoff_in_range :: "RecoveryHandoff \<Rightarrow> bool" where
  "handoff_in_range h \<longleftrightarrow>
     i64_min \<le> ho_recorded_at h \<and> ho_recorded_at h \<le> i64_max
     \<and> list_all paths_bytes_ok
          [rsn_dirty_paths (ho_mechanical h), rsn_staged_paths (ho_mechanical h), rsn_unstaged_paths (ho_mechanical h),
           rsn_untracked_paths (ho_mechanical h), rsn_conflicted_paths (ho_mechanical h),
           rsn_unreadable_paths (ho_mechanical h), rsn_hidden_index_paths (ho_mechanical h)]"

lemma bytes_roundtrip: "bytes_ok bs \<Longrightarrow> list_of_json byte_of_json (JArr (map JInt bs)) = Some bs"
  by (rule list_of_json_map) (auto simp: bytes_ok_def list_all_iff)

lemma path_bytes_ok: "bytes_ok (map (\<lambda>c. int (of_char c)) s)"
proof -
  have "int (of_char c) \<le> 255" for c using nat_of_char_less_256 [of c] by linarith
  then show ?thesis by (simp only: bytes_ok_def list_all_iff set_map) auto
qed

lemma recovery_path_roundtrip:
  "bytes_ok (rpa_path_bytes p) \<Longrightarrow> recovery_path_of_json (recovery_path_json p) = Some p"
  by (simp add: recovery_path_of_json_def recovery_path_json_def known_members_def field_def
      bytes_roundtrip del: list_of_json.simps)

lemma paths_roundtrip:
  "paths_bytes_ok ps \<Longrightarrow> list_of_json recovery_path_of_json (paths_json ps) = Some ps"
  unfolding paths_json_def
  by (rule list_of_json_map) (auto simp: paths_bytes_ok_def list_all_iff intro: recovery_path_roundtrip)

lemma evidence_roundtrip: "evidence_of_json (evidence_json v) = Some v"
  by (simp add: evidence_of_json_def evidence_json_def known_members_def field_def)

lemma report_roundtrip: "report_of_json (report_json r) = Some r"
proof -
  have "list_of_json evidence_of_json (JArr (map evidence_json vs)) = Some vs" for vs
    by (rule list_of_json_map) (rule evidence_roundtrip)
  then show ?thesis
    by (simp add: report_of_json_def report_json_def known_members_def field_def del: list_of_json.simps)
qed

lemma handoff_roundtrip:
  assumes "handoff_in_range h"
  shows "handoff_of_json e (handoff_json h) = Some h"
proof -
  have "snapshot_of_json (snapshot_json (ho_mechanical h)) = Some (ho_mechanical h)"
    using assms
    by (simp add: handoff_in_range_def snapshot_of_json_def snapshot_json_def known_members_def field_def
        paths_roundtrip Let_def del: list_of_json.simps)
  then show ?thesis
    using assms
    by (cases "ho_reported_by h")
      (simp_all add: handoff_in_range_def handoff_of_json_def handoff_json_def known_members_def field_def
        option_field_def report_roundtrip id_of_json_def operation_json_def agent_json_def assignment_json_def json_opt_def)
qed

lemma brief_not_null [simp]: "brief_json h \<noteq> JNull" "JNull \<noteq> brief_json h"
  by (simp_all add: brief_json_def Let_def)

lemma option_field_Some: "json_get k j = Some v \<Longrightarrow> v \<noteq> JNull \<Longrightarrow> option_field f k j = map_option Some (f v)"
  by (cases v) (simp_all add: option_field_def)

lemma option_field_opt:
  assumes "json_get k j = Some (json_opt g x)" "\<And>y. g y \<noteq> JNull"
  shows "option_field f k j = (case x of None \<Rightarrow> Some None | Some y \<Rightarrow> map_option Some (f (g y)))"
proof (cases x)
  case None
  with assms(1) show ?thesis by (simp add: json_opt_def option_field_def)
next
  case (Some y)
  with assms option_field_Some [of k j "g y" f] show ?thesis by (simp add: json_opt_def)
qed

lemma recovery_roundtrip:
  assumes "i64_min \<le> rv_generation r" "rv_generation r \<le> i64_max" "bytes_ok (rv_workspace_path_bytes r)"
    and h: "rv_handoff r = Some h" "h \<noteq> JNull"
  shows "recovery_of_json e (recovery_json r) = Some r"
proof -
  have "option_field Some ''handoff'' (recovery_json r) = Some (Some h)"
    using option_field_Some [of "''handoff''" "recovery_json r" h Some] h by (simp add: recovery_json_get)
  moreover have "option_field string_of_json ''base_commit'' (recovery_json r) = Some (rv_base_commit r)"
    by (subst option_field_opt [OF recovery_json_get(2)]) (simp_all split: option.split)
  moreover have "option_field (id_of_json e ''ca'') ''continuation_assignment_id'' (recovery_json r)
      = Some (map_option assignment_ulid (rv_continuation_assignment_id r))"
    by (subst option_field_opt [OF recovery_json_get(3)])
      (simp_all add: assignment_json_def id_of_json_def split: option.split)
  ultimately show ?thesis
    using assms bytes_roundtrip [OF assms(3)]
    by (simp add: recovery_of_json_def field_def default_field_def recovery_json_get
        id_of_json_def task_json_def assignment_json_def session_json_def project_json_def option.map_comp comp_def
        option.map_ident del: list_of_json.simps)
qed

subsection \<open>The recovery and its continuation in the log\<close>

definition recovered_events :: "Db \<Rightarrow> run_id \<Rightarrow> EventRecord list" where
  "recovered_events db run = filter (\<lambda>x. ev_type x = ''task.recovered'') (run_log db run)"

lemma task_recoveries_log:
  assumes "log_ok db"
  shows "task_recoveries e db run = map_result (read_recovery e db) (recovered_events db run)"
proof -
  have "filter (\<lambda>x. ev_run_id x = run \<and> ev_type x = ''task.recovered'') (events db) = recovered_events db run"
    by (simp add: recovered_events_def run_log_def conj_commute)
  then show ?thesis
    using run_log_sorted [OF assms] by (simp add: task_recoveries_def recovered_events_def filter_sort [symmetric])
qed

lemma map_result_append:
  "map_result f xs = Inr ys \<Longrightarrow> map_result f zs = Inr ws \<Longrightarrow> map_result f (xs @ zs) = Inr (ys @ ws)"
  by (simp add: map_result_Inr_iff list_all2_appendI)

lemma map_result_cong: "(\<And>x. x \<in> set xs \<Longrightarrow> f x = g x) \<Longrightarrow> map_result f xs = map_result g xs"
  by (induction xs) (simp_all split: sum.split)

definition continues_assignment :: "run_id \<Rightarrow> json option \<Rightarrow> EventRecord \<Rightarrow> bool" where
  "continues_assignment run j c \<longleftrightarrow>
     ev_run_id c = run \<and> ev_type c = ''assignment.continued''
     \<and> json_path [''data'', ''previous_assignment_id''] (ev_payload c) \<noteq> None
     \<and> json_path [''data'', ''previous_assignment_id''] (ev_payload c) \<noteq> Some JNull
     \<and> json_path [''data'', ''previous_assignment_id''] (ev_payload c) = j"

lemma continuation_subject_log:
  assumes "log_ok db"
  shows "continuation_subject db x =
    (case filter (continues_assignment (ev_run_id x) (json_path [''data'', ''assignment_id''] (ev_payload x)))
        (run_log db (ev_run_id x)) of [] \<Rightarrow> None | c # _ \<Rightarrow> Some (ev_subject c))"
proof -
  let ?P = "continues_assignment (ev_run_id x) (json_path [''data'', ''assignment_id''] (ev_payload x))"
  have "filter ?P (order_by ev_sequence (events db)) = filter ?P (run_log db (ev_run_id x))"
  proof -
    have "filter ?P (events db) = filter ?P (run_log db (ev_run_id x))"
      unfolding run_log_def filter_filter by (rule filter_cong) (auto simp only: continues_assignment_def)
    moreover have "filter ?P (order_by ev_sequence (run_log db (ev_run_id x))) = filter ?P (run_log db (ev_run_id x))"
      by (simp only: run_log_sorted [OF assms])
    ultimately show ?thesis by (simp add: filter_sort)
  qed
  then show ?thesis by (simp only: continuation_subject_def flip: continues_assignment_def)
qed

text \<open>Events that are no continuation of a recovery leave what is read of it alone.\<close>

lemma read_recovery_append:
  assumes "log_ok db" "log_ok db'" "events db' = events db @ evs"
    and "\<And>c. c \<in> set evs \<Longrightarrow> \<not> continues_assignment (ev_run_id x) (json_path [''data'', ''assignment_id''] (ev_payload x)) c"
  shows "read_recovery e db' x = read_recovery e db x"
proof -
  have "filter (continues_assignment (ev_run_id x) (json_path [''data'', ''assignment_id''] (ev_payload x))) (run_log db' (ev_run_id x))
      = filter (continues_assignment (ev_run_id x) (json_path [''data'', ''assignment_id''] (ev_payload x))) (run_log db (ev_run_id x))"
    using assms(3,4) by (auto simp: run_log_def filter_empty_conv)
  then show ?thesis by (simp add: read_recovery_def continuation_subject_log assms(1,2))
qed

lemma read_recovery_summary:
  assumes "continuation_subject db x = c" "ev_payload x = JObj [(''data'', recovery_json r), (''schema_version'', JInt 1)]"
    and "recovery_of_json e (recovery_json r) = Some r"
    and "c = None \<or> (\<exists>t i. c = Some t \<and> parse_id (env_ulid e) ''ca'' t = Inr (assignment_ulid i) \<and> k = Some i)"
    and "c = None \<Longrightarrow> k = None"
  shows "read_recovery e db x = Inr (r\<lparr>rv_continuation_assignment_id := k\<rparr>)"
  using assms by (auto simp: read_recovery_def)

lemma link_continuation_Inr:
  assumes "link_continuation e claim db = Inr (u, db')"
    and "pending_recovery e db (ct_run_id claim) (ct_task_id claim) = Inr (Some source)"
  obtains c n where "db' = db\<lparr>events := events db @ [c], events_drawn := n\<rparr>" "ev_run_id c = ct_run_id claim"
    "ev_type c = ''assignment.continued''" "ev_subject c = assignment_text e (ct_assignment_id claim)"
    "json_path [''data'', ''previous_assignment_id''] (ev_payload c) = Some (assignment_json (rv_assignment_id source))"
  using assms by (auto simp: link_continuation_def bind_Inr_iff append_event_Inr new_event_record_def)

lemma assignment_text_roundtrip:
  assumes "ulid_parse (env_ulid e) (ulid_show (env_ulid e) (assignment_ulid i)) = Inr (assignment_ulid i)"
  shows "parse_id (env_ulid e) ''ca'' (assignment_text e i) = Inr (assignment_ulid i)"
proof -
  have "strip_prefix (''ca'' @ ''-'') (assignment_text e i) = Some (ulid_show (env_ulid e) (assignment_ulid i))"
    by (simp add: assignment_text_def format_id_def strip_prefix_Some)
  with assms show ?thesis by (simp add: parse_id_def eq_ignore_ascii_case_def)
qed

text \<open>What a recovery adds to the log: one record of the recovery, and no continuation.\<close>

lemma recovery_logged:
  assumes ok: "store_ok db" and run: "recover_assignment e m i reason h lost db = Inr (rv, db')"
  obtains x evs where "ev_type x = ''task.recovered''" "ev_run_id x = mu_run_id m"
    "ev_payload x = JObj [(''data'', recovery_json rv), (''schema_version'', JInt 1)]"
    "events db' = events db @ x # evs" "\<And>y. y \<in> set (x # evs) \<Longrightarrow> ev_type y \<noteq> ''assignment.continued''"
    "recovered_events db' (mu_run_id m) = recovered_events db (mu_run_id m) @ [x]"
proof -
  obtain a w s t evs n where "find_session db (se_id s) = Some s"
    and db': "db' = retired_db m h a t evs n db"
    and evs: "map ev_payload evs = map (\<lambda>(_, _, data). JObj [(''data'', data), (''schema_version'', JInt 1)]) (recovery_events e a rv)"
      "map ev_type evs = [''task.recovered'', ''task.lifecycle_changed'', ''assignment.lifecycle_changed'', ''claim.released'']"
      "map ev_run_id evs = replicate 4 (mu_run_id m)"
    by (rule recover_assignmentE [OF ok run]) (rule that)
  from evs(2) obtain x x2 x3 x4 where xs: "evs = [x, x2, x3, x4]" by (auto simp: map_eq_Cons_conv)
  from evs xs have x: "ev_type x = ''task.recovered''" "ev_run_id x = mu_run_id m"
      "ev_payload x = JObj [(''data'', recovery_json rv), (''schema_version'', JInt 1)]"
    and others: "\<And>y. y \<in> {x2, x3, x4} \<Longrightarrow> ev_type y \<noteq> ''task.recovered''"
      "\<And>y. y \<in> set evs \<Longrightarrow> ev_type y \<noteq> ''assignment.continued''"
    by (auto simp: numeral_eq_Suc recovery_events_def)
  have "recovered_events db' (mu_run_id m) = recovered_events db (mu_run_id m) @ [x]"
    using x others(1) by (simp add: recovered_events_def run_log_def db' xs)
  with that [of x "[x2, x3, x4]"] x others(2) show ?thesis by (simp add: xs db')
qed

lemma recovery_unrecorded_before:
  assumes ok: "store_ok db" and run: "recover_assignment e m i reason h lost db = Inr (rv, db')"
  shows "rv_assignment_id rv = i \<and> rv_continuation_assignment_id rv = None \<and> rv_handoff rv = Some (brief_json h)
    \<and> bytes_ok (rv_workspace_path_bytes rv) \<and> \<not> assignment_recovered db (mu_run_id m) i
    \<and> find (\<lambda>h. rh_run_id h = mu_run_id m \<and> rh_assignment_id h = i) (recovery_handoffs db')
      = Some \<lparr>rh_assignment_id = i, rh_run_id = mu_run_id m, rh_operation_id = mu_id m, rh_document = handoff_json h\<rparr>"
proof -
  obtain a w s t evs n where a: "find_assignment db i = Some a" "as_id a = i"
      "as_run_id a = mu_run_id m" and current: "workspace_for_scope db (assignment_scope a) = Some w"
    and "find_session db (se_id s) = Some s"
    and rv: "rv = recovery_summary a (se_id s) w reason h lost"
    and fresh: "rh_assignment_id ` set (recovery_handoffs db) \<subseteq> - {i}"
    and db': "db' = retired_db m h a t evs n db"
    by (rule recover_assignmentE [OF ok run]) (rule that)
  have "\<not> assignment_recovered db (mu_run_id m) i"
    using current recovered_not_current [of db "assignment_scope a"] a by (auto simp: assignment_scope_def)
  moreover have "find (\<lambda>h. rh_run_id h = mu_run_id m \<and> rh_assignment_id h = i) (recovery_handoffs db) = None"
    using fresh by (auto simp: find_None_all)
  ultimately show ?thesis
    using a(2) path_bytes_ok by (simp add: rv recovery_summary_def db' find_append)
qed

lemma recovered_event_of:
  "y \<in> set (recovered_events db run) \<Longrightarrow> y \<in> set (events db) \<and> ev_run_id y = run \<and> ev_type y = ''task.recovered''"
  by (auto simp: recovered_events_def run_log_def)

lemma recovery_is_pending:
  assumes ok: "store_ok db" and run: "recover_assignment e m i reason h lost db = Inr (rv, db')"
    and readable: "task_recoveries e db (mu_run_id m) = Inr rs"
    and uncontinued: "\<And>c. c \<in> set (events db) \<Longrightarrow> ev_type c = ''assignment.continued'' \<Longrightarrow>
      json_path [''data'', ''previous_assignment_id''] (ev_payload c) \<noteq> Some (assignment_json i)"
    and range: "i64_min \<le> rv_generation rv" "rv_generation rv \<le> i64_max"
  shows "map_result (read_recovery e db') (recovered_events db (mu_run_id m)) = Inr rs
    \<and> task_recoveries e db' (mu_run_id m) = Inr (rs @ [rv])
    \<and> pending_recovery e db' (mu_run_id m) (rv_task_id rv) = Inr (Some rv)"
proof -
  let ?run = "mu_run_id m"
  obtain x evs where x: "ev_type x = ''task.recovered''" "ev_run_id x = ?run"
    "ev_payload x = JObj [(''data'', recovery_json rv), (''schema_version'', JInt 1)]"
    and events': "events db' = events db @ x # evs" and others: "\<And>y. y \<in> set (x # evs) \<Longrightarrow> ev_type y \<noteq> ''assignment.continued''"
    and sources: "recovered_events db' ?run = recovered_events db ?run @ [x]"
    by (rule recovery_logged [OF ok run]) (rule that)
  note facts = recovery_unrecorded_before [OF ok run]
  have decoded: "recovery_of_json e (recovery_json rv) = Some rv"
    using recovery_roundtrip [OF range, of "brief_json h"] facts by simp
  have key: "json_path [''data'', ''assignment_id''] (ev_payload x) = Some (assignment_json i)"
    using facts by (simp add: x(3) recovery_json_get)
  have log: "log_ok db" "log_ok db'"
    using ok safeD [OF safe_recover_assignment run ok] by (simp_all add: store_ok_def)
  have kept: "map_result (read_recovery e db') (recovered_events db ?run) = Inr rs"
  proof -
    have "read_recovery e db' y = read_recovery e db y" for y
      using read_recovery_append [OF log events', of y] others by (auto simp: continues_assignment_def)
    then have "map_result (read_recovery e db') (recovered_events db ?run)
        = map_result (read_recovery e db) (recovered_events db ?run)" by (rule map_result_cong)
    then show ?thesis using readable by (simp add: task_recoveries_log [OF log(1)])
  qed
  have none: "continuation_subject db' x = None"
  proof -
    have "\<not> continues_assignment ?run (Some (assignment_json i)) c" if "c \<in> set (events db')" for c
      using that uncontinued others by (auto simp: continues_assignment_def events' simp del: json_path.simps)
    then have "filter (continues_assignment ?run (Some (assignment_json i))) (run_log db' ?run) = []"
      by (auto simp: filter_empty_conv run_log_def)
    then show ?thesis by (simp only: continuation_subject_log [OF log(2)] x(2) key) simp
  qed
  have "read_recovery e db' x = Inr (rv\<lparr>rv_continuation_assignment_id := None\<rparr>)"
    by (rule read_recovery_summary [OF none x(3) decoded]) simp_all
  then have "map_result (read_recovery e db') [x] = Inr [rv]" using facts by (cases rv) simp
  with kept have "task_recoveries e db' ?run = Inr (rs @ [rv])"
    by (simp only: task_recoveries_log [OF log(2)] sources) (rule map_result_append)
  then show ?thesis using kept facts by (simp add: pending_recovery_def)
qed

text \<open>Other events of the run leave what is read of its recoveries alone.\<close>

definition quiet_about_recovery :: "run_id \<Rightarrow> EventRecord list \<Rightarrow> bool" where
  "quiet_about_recovery run evs \<longleftrightarrow>
     (\<forall>y \<in> set evs. ev_run_id y = run \<longrightarrow> ev_type y \<notin> {''task.recovered'', ''assignment.continued''})"

lemma recoveries_append:
  assumes "log_ok db" "log_ok db'" "events db' = events db @ evs" "quiet_about_recovery run evs"
  shows "recovered_events db' run = recovered_events db run" "task_recoveries e db' run = task_recoveries e db run"
    "pending_recovery e db' run task = pending_recovery e db run task"
    "map_result (read_recovery e db') (recovered_events db run) = map_result (read_recovery e db) (recovered_events db run)"
proof -
  show sources: "recovered_events db' run = recovered_events db run"
    using assms(3,4) by (auto simp: recovered_events_def run_log_def quiet_about_recovery_def filter_empty_conv)
  have "read_recovery e db' x = read_recovery e db x" if "x \<in> set (recovered_events db run)" for x
    using recovered_event_of [OF that] assms(4)
    by (intro read_recovery_append [OF assms(1-3)]) (auto simp: quiet_about_recovery_def continues_assignment_def)
  then show read: "map_result (read_recovery e db') (recovered_events db run) = map_result (read_recovery e db) (recovered_events db run)"
    by (rule map_result_cong)
  show all: "task_recoveries e db' run = task_recoveries e db run"
    by (simp only: task_recoveries_log [OF assms(1)] task_recoveries_log [OF assms(2)] sources read)
  show "pending_recovery e db' run task = pending_recovery e db run task"
    by (simp only: pending_recovery_def all)
qed

lemma recoveries_of_events:
  assumes "events db' = events db"
  shows "task_recoveries e db' run = task_recoveries e db run"
proof -
  have "read_recovery e db' = read_recovery e db"
    by (simp only: fun_eq_iff read_recovery_def continuation_subject_def assms simp_thms)
  then show ?thesis by (simp only: task_recoveries_def assms)
qed

lemma claim_links:
  assumes ok: "store_ok db" and run: "claim_task e claim db = Inr (Applied (Claimed k a), db'')"
  obtains mid evs last more where "link_continuation e claim mid = Inr ((), last)" "store_ok mid" "store_ok last"
    "events mid = events db @ evs" "quiet_about_recovery run evs" "events db'' = events last" "recovery_handoffs mid = recovery_handoffs db"
proof -
  from run obtain db0 db1 where ins: "insert_operation (pending_operation (claim_mutation claim) None) db = Inr ((), db0)"
    and body: "apply_claim e claim db0 = Inr (Claimed k a, db1)"
    and db'': "db'' = operations_update (update_where (\<lambda>x. op_id x = mu_id (claim_mutation claim))
       (\<lambda>x. x\<lparr>op_status := ''succeeded'', op_result := Some (claim_result_json (Claimed k a)),
         op_updated_at := mu_created_at (claim_mutation claim)\<rparr>)) db1"
    unfolding claim_task_def mutate_def by (rule mutate_Applied)
  have ok0: "store_ok db0" and first: "events db0 = events db" "recovery_handoffs db0 = recovery_handoffs db"
    using safeD [OF safe_insert_operation ins ok] ins by (auto simp: insert_operation_def insert_row_Inr)
  from body obtain db2 where cas: "compare_and_set_claim claim db0 = Inr (Claimed k a, db2)"
    and app: "append_task_claim_events e claim (Claimed k a) db2 = Inr ((), db1)"
    by (auto simp: apply_claim_def bind_Inr_iff seq_Inr_iff)
  have ok2: "store_ok db2" using safeD [OF safe_compare_and_set_claim cas ok0] by simp
  have second: "events db2 = events db0" "recovery_handoffs db2 = recovery_handoffs db0"
    using compare_and_set_claim_Inr [OF cas] by (auto simp: claimed_db_def)
  from app obtain n1 n2 n3 x1 x2 x3 d1 d2 d3 where
    a1: "append_event e n1 db2 = Inr (x1, d1)" "ne_kind n1 = TaskLifecycleChanged" and
    a2: "append_event e n2 d1 = Inr (x2, d2)" "ne_kind n2 = TaskClaimed" and
    a3: "append_event e n3 d2 = Inr (x3, d3)" "ne_kind n3 = AssignmentCreated" and
    link: "link_continuation e claim d3 = Inr ((), db1)"
    by (auto simp: append_task_claim_events_def bind_Inr_iff split: option.splits)
  have d1: "store_ok d1" using safeD [OF safe_append_event a1(1) ok2] by simp
  have d2: "store_ok d2" using safeD [OF safe_append_event a2(1) d1] by simp
  have d3: "store_ok d3" using safeD [OF safe_append_event a3(1) d2] by simp
  have last: "store_ok db1" using safeD [OF safe_link_continuation link d3] by simp
  have evs: "events d3 = events db @ [new_event_record e n1 db2, new_event_record e n2 d1, new_event_record e n3 d2]"
    "recovery_handoffs d3 = recovery_handoffs db"
    using a1(1) a2(1) a3(1) by (auto simp: append_event_Inr first second)
  have quiet: "quiet_about_recovery run [new_event_record e n1 db2, new_event_record e n2 d1, new_event_record e n3 d2]"
    by (simp add: quiet_about_recovery_def new_event_record_def a1(2) a2(2) a3(2))
  show thesis by (rule that [OF link d3 last evs(1) quiet _ evs(2)]) (simp add: db'')
qed


text \<open>
  Property C21. The context of a recovery reaches the claim that continues the work. Let the
  assignment have no continuation yet, and let no other recovery or continuation of the run be
  recorded between the recovery and the next claim of the task; any other transactions may come
  between. Then at the time of the claim the handoff and the summary read back exactly as they were
  recorded, and the recovery is the pending one of the task; and the claim links its
  assignment to it, which leaves the recovery recorded but no longer pending. Earlier recoveries of
  the run are not disturbed.
\<close>

theorem recovery_context_reaches_the_continuation:
  assumes ok: "store_ok db" and run: "recover_assignment e m i reason h lost db = Inr (rv, db')"
    and later: "store_ok db1" "extends db' db1"
    and between: "events db1 = events db' @ between" "quiet_about_recovery (mu_run_id m) between"
    and claims: "claim_task e claim db1 = Inr (Applied (Claimed k a), db2)"
    and claim: "ct_run_id claim = mu_run_id m" "ct_task_id claim = rv_task_id rv"
    and readable: "task_recoveries e db (mu_run_id m) = Inr rs"
    and uncontinued: "\<And>c. c \<in> set (events db) \<Longrightarrow> ev_type c = ''assignment.continued'' \<Longrightarrow>
      json_path [''data'', ''previous_assignment_id''] (ev_payload c) \<noteq> Some (assignment_json i)"
    and range: "handoff_in_range h" "i64_min \<le> rv_generation rv" "rv_generation rv \<le> i64_max"
    and codec: "ulid_parse (env_ulid e) (ulid_show (env_ulid e) (assignment_ulid (ct_assignment_id claim)))
      = Inr (assignment_ulid (ct_assignment_id claim))"
  shows "recovery_handoff e db1 (mu_run_id m) i = Inr (Some h)
    \<and> pending_recovery e db1 (mu_run_id m) (rv_task_id rv) = Inr (Some rv)
    \<and> task_recoveries e db2 (mu_run_id m)
        = Inr (rs @ [rv\<lparr>rv_continuation_assignment_id := Some (ct_assignment_id claim)\<rparr>])
    \<and> pending_recovery e db2 (mu_run_id m) (rv_task_id rv) = pending_recovery e db (mu_run_id m) (rv_task_id rv)"
proof -
  let ?run = "mu_run_id m" and ?linked = "rv\<lparr>rv_continuation_assignment_id := Some (ct_assignment_id claim)\<rparr>"
  obtain x evs where x: "ev_type x = ''task.recovered''" "ev_run_id x = ?run"
    "ev_payload x = JObj [(''data'', recovery_json rv), (''schema_version'', JInt 1)]"
    and events': "events db' = events db @ x # evs" and others: "\<And>y. y \<in> set (x # evs) \<Longrightarrow> ev_type y \<noteq> ''assignment.continued''"
    and sources: "recovered_events db' ?run = recovered_events db ?run @ [x]"
    by (rule recovery_logged [OF ok run]) (rule that)
  note facts = recovery_unrecorded_before [OF ok run]
  note pend = recovery_is_pending [OF ok run readable uncontinued range(2,3)]
  have decoded: "recovery_of_json e (recovery_json rv) = Some rv"
    using recovery_roundtrip [OF range(2,3), of "brief_json h"] facts by simp
  have key: "json_path [''data'', ''assignment_id''] (ev_payload x) = Some (assignment_json i)"
    using facts by (simp add: x(3) recovery_json_get)
  obtain rows where "recovery_handoffs db1 = recovery_handoffs db' @ rows" using later(2) by (auto simp: extends_def prefix_def)
  then have handoff: "recovery_handoff e db1 ?run i = Inr (Some h)"
    using facts by (simp add: recovery_handoff_def handoff_roundtrip [OF range(1)] find_append)
  obtain mid last quiet where link: "link_continuation e claim mid = Inr ((), last)" and mid: "store_ok mid" "store_ok last"
      "events mid = events db1 @ quiet" "quiet_about_recovery ?run quiet" and events2: "events db2 = events last"
    by (rule claim_links [OF later(1) claims])
  have logs: "log_ok db'" "log_ok db1" "log_ok mid" "log_ok last"
    using safeD [OF safe_recover_assignment run ok] later(1) mid(1,2) by (simp_all add: store_ok_def)
  note here = recoveries_append [OF logs(1,2) between]
  note there = recoveries_append [OF logs(2,3) mid(3,4)]
  have pending: "pending_recovery e db1 ?run (rv_task_id rv) = Inr (Some rv)" using here(3) pend by simp
  have first: "pending_recovery e mid (ct_run_id claim) (ct_task_id claim) = Inr (Some rv)"
    using there(3) pending by (simp only: claim)
  obtain c n where last: "last = mid\<lparr>events := events mid @ [c], events_drawn := n\<rparr>" and c: "ev_run_id c = ?run"
    "ev_type c = ''assignment.continued''" "ev_subject c = assignment_text e (ct_assignment_id claim)"
    "json_path [''data'', ''previous_assignment_id''] (ev_payload c) = Some (assignment_json i)"
    by (rule link_continuation_Inr [OF link first]) (use that facts claim(1) in \<open>simp only:\<close>)
  have events_last: "events last = events mid @ [c]" by (simp add: last)
  have sources_mid: "recovered_events mid ?run = recovered_events db ?run @ [x]" using sources here(1) there(1) by simp
  then have sources_last: "recovered_events last ?run = recovered_events db ?run @ [x]"
    using c by (simp add: recovered_events_def run_log_def events_last)
  have "read_recovery e last y = read_recovery e mid y" if "y \<in> set (recovered_events db ?run)" for y
  proof -
    have "json_path [''data'', ''assignment_id''] (ev_payload y) \<noteq> Some (assignment_json i)"
      using facts recovered_event_of [OF that] by (auto simp: assignment_recovered_def simp del: json_path.simps)
    with read_recovery_append [OF logs(3,4) events_last, of y] c show ?thesis
      by (auto simp: continues_assignment_def simp del: json_path.simps)
  qed
  moreover have "read_recovery e mid y = read_recovery e db' y" if "y \<in> set (recovered_events db ?run)" for y
    using recovered_event_of [OF that] between(2) mid(4)
    by (intro read_recovery_append [OF logs(1,3), where evs = "between @ quiet"])
      (auto simp: between(1) mid(3) quiet_about_recovery_def continues_assignment_def)
  ultimately have "map_result (read_recovery e last) (recovered_events db ?run)
      = map_result (read_recovery e db') (recovered_events db ?run)" by (intro map_result_cong) simp
  then have kept: "map_result (read_recovery e last) (recovered_events db ?run) = Inr rs" using pend by simp
  have "filter (continues_assignment ?run (Some (assignment_json i))) (run_log mid ?run) = []"
    using uncontinued others between(2) mid(4)
    by (auto simp: filter_empty_conv run_log_def continues_assignment_def events' between(1) mid(3) quiet_about_recovery_def
        simp del: json_path.simps)
  then have "filter (continues_assignment ?run (Some (assignment_json i))) (run_log last ?run) = [c]"
    using c by (simp add: run_log_def events_last continues_assignment_def assignment_json_def del: json_path.simps)
  then have "continuation_subject last x = Some (assignment_text e (ct_assignment_id claim))"
    by (simp only: continuation_subject_log [OF logs(4)] x(2) key) (simp add: c(3))
  from read_recovery_summary [OF this x(3) decoded, of "Some (ct_assignment_id claim)"]
  have "map_result (read_recovery e last) [x] = Inr [?linked]" using assignment_text_roundtrip [OF codec] by auto
  with kept have "task_recoveries e last ?run = Inr (rs @ [?linked])"
    by (simp only: task_recoveries_log [OF logs(4)] sources_last) (rule map_result_append)
  moreover have same: "task_recoveries e db2 ?run = task_recoveries e last ?run"
    by (rule recoveries_of_events [OF events2])
  ultimately have all: "task_recoveries e db2 ?run = Inr (rs @ [?linked])" by simp
  then have "pending_recovery e db2 ?run (rv_task_id rv) = pending_recovery e db ?run (rv_task_id rv)"
    using readable by (simp add: pending_recovery_def)
  with handoff pending all show ?thesis by blast
qed

subsection \<open>An interrupted worker\<close>

definition sample_exited :: SessionRecord where
  "sample_exited = sample_session\<lparr>se_provider_session_id := Some ''p'', se_reconciliation_state := RObserved,
     se_state := Exited, se_ended_at := Some 3, se_reconciled_at := Some 3\<rparr>"

definition sample_held :: AssignmentRecord where
  "sample_held = sample_assignment\<lparr>as_task_id := TaskId 1, as_session_id := Some (SessionId 1),
     as_state := ''active'', as_completed_at := None\<rparr>"

definition sample_held_claim :: ClaimRecord where
  "sample_held_claim = (sample_released_claim 1 1 1 1)\<lparr>cl_state := ''active'', cl_released_at := None\<rparr>"

definition sample_exit_event :: EventRecord where
  "sample_exit_event =
     \<lparr>ev_id = EventId 0, ev_run_id = RunId 1, ev_sequence = 1, ev_type = ''session.lifecycle_changed'',
      ev_actor = ''provider'', ev_subject = session_text sample_env (SessionId 1), ev_project_id = None,
      ev_agent_id = Some (AgentId 1), ev_task_id = None, ev_operation_id = None, ev_correlation_id = None,
      ev_causation_id = None,
      ev_payload = JObj [(''data'', JObj [(''exit'', JObj [(''reason'', JStr ''process'')]), (''generation'', JInt 0),
        (''state'', JStr ''exited'')])],
      ev_summary = ''Session exited.'', ev_created_at = 3\<rparr>"

definition sample_interrupted :: Db where
  "sample_interrupted = sample_db
     \<lparr>agents := [sample_agent 1\<lparr>ag_state := Exited\<rparr>, sample_agent 2], sessions := [sample_exited],
      credentials := [sample_credential\<lparr>cr_revoked_at := Some 5\<rparr>],
      tasks := [sample_task 1 InProgress, sample_task 2 Open, sample_task 3 Open, sample_task 4 Submitted],
      operations := [sample_operation 1, sample_operation 2], claims := [sample_held_claim],
      assignments := [sample_held], workspaces := [sample_workspace\<lparr>ws_result_commit := None\<rparr>],
      events := [sample_exit_event], events_drawn := 1\<rparr>"

definition sample_retirement :: Mutation where
  "sample_retirement =
     \<lparr>mu_id = OperationId 2, mu_run_id = RunId 1, mu_kind = ''task.recover'', mu_actor_agent_id = None,
      mu_request = JNull, mu_created_at = 8\<rparr>"

definition sample_handoff :: RecoveryHandoff where
  "sample_handoff =
     \<lparr>ho_operation_id = OperationId 2, ho_source_assignment_id = AssignmentId 9, ho_recorded_at = 8,
      ho_reported_by = None,
      ho_mechanical = \<lparr>rsn_head_commit = ''b'', rsn_operation_in_progress = False, rsn_complete = True,
        rsn_dirty_paths = [\<lparr>rpa_path = ''f'', rpa_path_bytes = [102]\<rparr>], rsn_staged_paths = [],
        rsn_unstaged_paths = [\<lparr>rpa_path = ''f'', rpa_path_bytes = [102]\<rparr>], rsn_untracked_paths = [],
        rsn_conflicted_paths = [], rsn_unreadable_paths = [], rsn_hidden_index_paths = []\<rparr>,
      ho_reported = \<lparr>rp_validation_evidence = [], rp_unfinished_steps = [\<lparr>re_text = ''t'', re_source = ''s''\<rparr>]\<rparr>\<rparr>"

lemmas sample_interrupted_rows =
  sample_interrupted_def sample_exited_def sample_session_def sample_held_def sample_assignment_def
  sample_held_claim_def sample_released_claim_def sample_workspace_def

lemma store_ok_sample_interrupted: "store_ok sample_interrupted"
proof -
  have "keys_ok sample_interrupted"
    using store_ok_sample_db by (simp add: store_ok_def keys_ok_def sample_interrupted_rows)
  moreover have "refs_ok sample_interrupted"
    using store_ok_sample_db by (simp add: store_ok_def refs_ok_def task_exists_def
        agent_exists_def claim_exists_def assignment_exists_def sample_interrupted_rows sample_db_def empty_db_def)
  moreover have "owned sample_interrupted" by (simp add: owned_def sample_interrupted_rows)
  moreover have "paths_ok sample_interrupted" by (simp add: paths_ok_def sample_interrupted_def)
  moreover have "deps_ok sample_interrupted"
    using store_ok_sample_db by (simp add: store_ok_def deps_ok_def sample_interrupted_def)
  moreover have "log_ok sample_interrupted"
    by (simp add: log_ok_def run_log_def sample_interrupted_def sample_exit_event_def)
  ultimately show ?thesis
    using store_ok_sample_db by (simp add: store_ok_def sample_interrupted_def shutdowns_ok_def)
qed

lemma sample_interrupted_preflight:
  "recovery_preflight sample_env sample_interrupted (RunId 1) (AssignmentId 9) False
     = Inr (sample_held, sample_workspace\<lparr>ws_result_commit := None\<rparr>)"
proof -
  let ?db = sample_interrupted and ?w = "sample_workspace\<lparr>ws_result_commit := None\<rparr>"
  have "active_run ?db (RunId 1)" "find_run_shutdown ?db (RunId 1) = None"
    by (simp_all add: active_run_def find_run_def find_run_shutdown_def sample_interrupted_def sample_run_def)
  moreover have "find_assignment ?db (AssignmentId 9) = Some sample_held" "as_run_id sample_held = RunId 1"
    by (simp_all add: find_assignment_def sample_interrupted_rows)
  moreover have "find_task ?db (as_task_id sample_held) = Some (sample_task 1 InProgress)"
    by (simp add: find_task_def sample_interrupted_rows)
  moreover have "owns_task ?db (RunId 1) sample_held (sample_task 1 InProgress)"
    by (simp add: owns_task_def active_assignment_for_task_def find_claim_def sample_interrupted_rows)
  moreover have "Option.bind (as_session_id sample_held) (find_session ?db) = Some sample_exited"
    by (simp add: find_session_def sample_interrupted_rows)
  moreover have scope: "session_scope_is_current ?db sample_scope"
    by (simp add: session_scope_is_current_def session_recovered_def sample_interrupted_rows sample_scope_def
        sample_run_def sample_exit_event_def)
  moreover have "session_scope_of (RunId 1) sample_held sample_exited = sample_scope"
    by (simp add: session_scope_of_def sample_scope_def sample_interrupted_rows)
  moreover have "session_ended ?db sample_scope sample_exited False"
    using scope by (simp add: session_ended_def find_agent_def session_credential_def sample_interrupted_rows
        sample_scope_def sample_credential_def)
  moreover have "\<not> unsettled ?db (RunId 1) (se_id sample_exited) (AssignmentId 9)"
    by (simp add: unsettled_def integration_intent_def sample_interrupted_def sample_operation_def)
  moreover have "provider_exit_recorded sample_env ?db (RunId 1) sample_exited"
    by (simp add: provider_exit_recorded_def exit_event_def exit_reason_def sample_interrupted_rows sample_exit_event_def)
  moreover have "se_process_owner sample_exited = SupervisorOwned" by (simp add: sample_interrupted_rows)
  moreover have "workspace_for_scope ?db (assignment_scope sample_held) = Some ?w"
    by (simp add: workspace_for_scope_def assignment_scope_is_current_def assignment_recovered_def find_workspace_def
        assignment_scope_def workspace_scope_def sample_interrupted_rows sample_run_def sample_exit_event_def)
  moreover have "unsubmitted_worktree ?w None" by (simp add: unsubmitted_worktree_def sample_workspace_def)
  ultimately show ?thesis by (simp add: recovery_preflight_def interrupted_assignment_preflight_def Let_def)
qed

text \<open>The database after its recovery, and the next claim of its task.\<close>

definition sample_retired :: "EventRecord list \<Rightarrow> nat \<Rightarrow> Db" where
  "sample_retired evs n = retired_db sample_retirement sample_handoff sample_held (sample_task 1 InProgress) evs n sample_interrupted"

lemma sample_retired_rows:
  "runs (sample_retired evs n) = [sample_run]" "projects (sample_retired evs n) = [sample_project]"
  "map ag_id (agents (sample_retired evs n)) = [AgentId 1, AgentId 2]"
  "map ag_run_id (agents (sample_retired evs n)) = [RunId 1, RunId 1]"
  "operations (sample_retired evs n) = [sample_operation 1, sample_operation 2]"
  "map tk_id (tasks (sample_retired evs n)) = [TaskId 1, TaskId 2, TaskId 3, TaskId 4]"
  "map tk_run_id (tasks (sample_retired evs n)) = [RunId 1, RunId 1, RunId 1, RunId 1]"
  "map tk_project_id (tasks (sample_retired evs n)) = [ProjectId 1, ProjectId 1, ProjectId 1, ProjectId 1]"
  "events (sample_retired evs n) = sample_exit_event # evs"
  by (simp_all add: sample_retired_def retired_db_def move_task_def released_db_def sample_interrupted_def update_where_def
      numeral_eq_Suc reopen_def)

lemma sample_reclaims:
  assumes "db = sample_retired evs n\<lparr>operations := ops\<rparr>" "operation_exists db (RunId 1) (OperationId 3)"
  shows "compare_and_set_claim (sample_claim 3 1 2) db = Inr (Claimed 2 (AssignmentId 3), claimed_db (sample_claim 3 1 2) 2 0 db)"
proof -
  have "dependencies sample_db = [\<lparr>dp_run_id = RunId 1, dp_task_id = TaskId 3, dp_dependency_task_id = TaskId 2, dp_created_at = 1\<rparr>]"
    by (simp add: sample_db_def)
  with assms(2) show ?thesis unfolding assms(1)
    by (simp add: compare_and_set_claim_def claimable_def has_active_claim_def sample_retired_def
        is_blocked_def agent_busy_def next_rowid_def max_or_zero_def insert_claim_def insert_row_def
        claim_row_ok_def task_exists_def agent_exists_def operation_exists_def insert_assignment_def
        find_agent_def assignment_row_ok_def claim_exists_def seq_def claimed_db_def count_where_def
        update_where_def sample_interrupted_rows bind_run retired_db_def move_task_def released_db_def
        held_claim_def held_assignment_def release_claim_def complete_assignment_def reopen_def sample_retirement_def)
qed


lemma sample_continues:
  assumes room: "event_room sample_env (sample_retired evs n)"
    and pend: "pending_recovery sample_env (sample_retired evs n) (RunId 1) (TaskId 1) = Inr (Some rv)" "rv_project_id rv = ProjectId 1"
  shows "\<exists>db2. claim_task sample_env (sample_claim 3 1 2) (sample_retired evs n) = Inr (Applied (Claimed 2 (AssignmentId 3)), db2)"
proof -
  define c where "c = sample_claim 3 1 2"
  have c: "ct_operation_id c = OperationId 3" "ct_run_id c = RunId 1" "ct_task_id c = TaskId 1" "ct_agent_id c = AgentId 2"
    "ct_assignment_id c = AssignmentId 3" "ct_actor_agent_id c = None" by (simp_all add: c_def)
  let ?c = c and ?db = "sample_retired evs n"
  let ?m = "claim_mutation c"
  define begun where "begun = ?db\<lparr>operations := operations ?db @ [pending_operation ?m None]\<rparr>"
  define claimed where "claimed = claimed_db c 2 0 begun"
  have agents: "agent_exists ?db (RunId 1) (AgentId 2)"
    using sample_retired_rows(3,4) [of evs n] by (auto simp: agent_exists_def map_eq_Cons_conv)
  have m: "mu_id ?m = OperationId 3" "mu_run_id ?m = RunId 1" "mu_actor_agent_id ?m = None" by (simp_all add: claim_mutation_def c)
  have fresh: "find_operation ?db (mu_id ?m) = None" by (simp add: find_operation_def sample_retired_rows m)
  have pending: "op_id (pending_operation ?m None) = OperationId 3" "op_run_id (pending_operation ?m None) = RunId 1"
    "op_actor_agent_id (pending_operation ?m None) = None" "op_attempt_count (pending_operation ?m None) = 1"
    "op_reconciliation_attempt_count (pending_operation ?m None) = 0" by (simp_all add: pending_operation_def m)
  have ins: "insert_operation (pending_operation ?m None) ?db = Inr ((), begun)"
    by (simp add: begun_def insert_operation_def insert_row_Inr operation_row_ok_def pending run_exists_def sample_retired_rows sample_run_def)
  have cas: "compare_and_set_claim ?c begun = Inr (Claimed 2 (AssignmentId 3), claimed)"
    unfolding claimed_def c_def
    by (rule sample_reclaims [OF begun_def]) (use pending in \<open>auto simp: begun_def operation_exists_def sample_retired_rows\<close>)
  have tables: "events claimed = events ?db" "events_drawn claimed = events_drawn ?db" "projects claimed = projects ?db"
    "agents claimed = agents ?db" "operations claimed = operations ?db @ [pending_operation ?m None]" "runs claimed = runs ?db"
    "map tk_id (tasks claimed) = map tk_id (tasks ?db)" "map tk_run_id (tasks claimed) = map tk_run_id (tasks ?db)" "map tk_project_id (tasks claimed) = map tk_project_id (tasks ?db)"
    by (simp_all add: claimed_def begun_def claimed_db_def update_where_def comp_def if_distrib)
  have refs: "references_ok claimed k"
    if "ne_run_id k = RunId 1" "ne_project_id k = Some (ProjectId 1)" "ne_agent_id k = Some (AgentId 2)"
      "ne_task_id k = Some (TaskId 1)" "ne_operation_id k = Some (OperationId 3)"
      "ne_correlation_id k = None" "ne_causation_id k = None" for k
  proof -
    have "agent_exists claimed (RunId 1) (AgentId 2)" using agents by (simp add: agent_exists_def tables)
    moreover have "task_exists claimed (RunId 1) (TaskId 1)"
      using sample_retired_rows(6,7) [of evs n] tables(7,8) by (auto simp: task_exists_def map_eq_Cons_conv)
    ultimately show ?thesis using that
      by (auto simp: references_ok_def run_exists_def project_exists_def operation_exists_def tables sample_retired_rows sample_run_def
          sample_project_def pending)
  qed
  have room2: "event_room sample_env claimed" using room by (simp add: event_room_def tables) (simp add: claimed_def begun_def claimed_db_def)
  obtain t where task: "find_task claimed (TaskId 1) = Some t" "tk_project_id t = ProjectId 1"
    using sample_retired_rows(6,8) [of evs n] tables(7,9) by (auto simp: find_task_def map_eq_Cons_conv)
  let ?n1 = "\<lparr>ne_run_id = ct_run_id c, ne_kind = TaskLifecycleChanged,
     ne_actor = mutation_actor sample_env (ct_actor_agent_id c), ne_subject = task_text sample_env (ct_task_id c),
     ne_project_id = Some (tk_project_id t), ne_agent_id = Some (ct_agent_id c),
     ne_task_id = Some (ct_task_id c), ne_operation_id = Some (ct_operation_id c),
     ne_correlation_id = None, ne_causation_id = None,
     ne_data = JObj [(''previous_status'', status_json Open),
                     (''status'', status_json InProgress), (''transition'', JStr ''claim'')],
     ne_summary = ''Task '' @ task_text sample_env (ct_task_id c) @ '' changed from open to in_progress.'',
     ne_created_at = ct_claimed_at c\<rparr>"
  obtain x1 d1 where first: "append_event sample_env ?n1 claimed = Inr (x1, d1)" "event_room sample_env d1"
    and d1: "d1 = claimed\<lparr>events := events claimed @ [x1], events_drawn := Suc (events_drawn claimed)\<rparr>"
    by (rule append_event_possible [OF room2 refs, of ?n1]) (simp_all add: c task)
  have x1: "x1 \<in> set (events d1)" "ev_run_id x1 = RunId 1" using append_event_db(2) [OF first(1)] by (simp_all add: d1 new_event_record_def c)
  let ?cause = "Some (ev_id x1)"
  let ?n2 = "\<lparr>ne_run_id = ct_run_id c, ne_kind = TaskClaimed,
     ne_actor = mutation_actor sample_env (ct_actor_agent_id c), ne_subject = task_text sample_env (ct_task_id c),
     ne_project_id = Some (tk_project_id t), ne_agent_id = Some (ct_agent_id c),
     ne_task_id = Some (ct_task_id c), ne_operation_id = Some (ct_operation_id c),
     ne_correlation_id = ?cause, ne_causation_id = ?cause,
     ne_data = JObj [(''assignment_id'', assignment_json (AssignmentId 3)), (''claim_id'', JInt 2)],
     ne_summary = ''Agent '' @ agent_text sample_env (ct_agent_id c) @ '' claimed task '' @ task_text sample_env (ct_task_id c) @ ''.'',
     ne_created_at = ct_claimed_at c\<rparr>"
  have "references_ok d1 (?n2\<lparr>ne_correlation_id := None, ne_causation_id := None\<rparr>)"
    unfolding d1 references_ok_events by (rule refs) (simp_all add: c task)
  then obtain x2 d2 where second: "append_event sample_env ?n2 d1 = Inr (x2, d2)" "event_room sample_env d2"
    and d2: "d2 = d1\<lparr>events := events d1 @ [x2], events_drawn := Suc (events_drawn d1)\<rparr>"
    by (rule append_caused_event_possible [OF first(2) _ x1(1)]) (simp_all add: c x1)
  define g where "g = map_option ag_generation (find_agent d2 (ct_agent_id c))"
  let ?n3 = "\<lparr>ne_run_id = ct_run_id c, ne_kind = AssignmentCreated,
     ne_actor = mutation_actor sample_env (ct_actor_agent_id c), ne_subject = assignment_text sample_env (AssignmentId 3),
     ne_project_id = Some (tk_project_id t), ne_agent_id = Some (ct_agent_id c),
     ne_task_id = Some (ct_task_id c), ne_operation_id = Some (ct_operation_id c),
     ne_correlation_id = ?cause, ne_causation_id = ?cause,
     ne_data = JObj [(''claim_id'', JInt 2), (''generation'', json_opt JInt g), (''state'', JStr ''active'')],
     ne_summary = ''Created assignment '' @ assignment_text sample_env (AssignmentId 3) @ ''.'',
     ne_created_at = ct_claimed_at c\<rparr>"
  have "references_ok d2 (?n3\<lparr>ne_correlation_id := None, ne_causation_id := None\<rparr>)"
    unfolding d2 d1 references_ok_events by (rule refs) (simp_all add: c task)
  moreover have "x1 \<in> set (events d2)" using x1(1) by (simp add: d2)
  ultimately obtain x3 d3 where third: "append_event sample_env ?n3 d2 = Inr (x3, d3)" "event_room sample_env d3"
    and d3: "d3 = d2\<lparr>events := events d2 @ [x3], events_drawn := Suc (events_drawn d2)\<rparr>"
    by (rule append_caused_event_possible [OF second(2)]) (simp_all add: c x1)
  have quiet: "quiet_about_recovery (RunId 1) [x1, x2, x3]"
    using append_event_db(2) [OF first(1)] append_event_db(2) [OF second(1)] append_event_db(2) [OF third(1)]
    by (simp add: quiet_about_recovery_def new_event_record_def)
  have logs: "log_ok ?db" "log_ok d3" "events d3 = events ?db @ [x1, x2, x3]"
    using room third(2) by (simp_all add: event_room_def d3 d2 d1 tables)
  have pending': "pending_recovery sample_env d3 (ct_run_id c) (ct_task_id c) = Inr (Some rv)"
    using recoveries_append(3) [OF logs quiet] pend(1) by (simp only: c)
  let ?n4 = "\<lparr>ne_run_id = ct_run_id c, ne_kind = AssignmentContinued,
      ne_actor = mutation_actor sample_env (ct_actor_agent_id c), ne_subject = assignment_text sample_env (ct_assignment_id c),
      ne_project_id = Some (rv_project_id rv), ne_agent_id = Some (ct_agent_id c),
      ne_task_id = Some (ct_task_id c), ne_operation_id = Some (ct_operation_id c),
      ne_correlation_id = None, ne_causation_id = None,
      ne_data = JObj [(''previous_assignment_id'', assignment_json (rv_assignment_id rv))],
      ne_summary = ''Assignment '' @ assignment_text sample_env (ct_assignment_id c)
        @ '' continues preserved assignment '' @ assignment_text sample_env (rv_assignment_id rv) @ ''.'',
      ne_created_at = ct_claimed_at c\<rparr>"
  have "references_ok d3 ?n4"
    unfolding d3 d2 d1 references_ok_events by (rule refs) (simp_all add: c pend(2))
  then obtain x4 d4 where "append_event sample_env ?n4 d3 = Inr (x4, d4)"
    by (rule append_event_possible [OF third(2)])
  then have link: "link_continuation sample_env c d3 = Inr ((), d4)"
    using pending' by (simp add: link_continuation_def bind_run lift_result_def del: append.simps)
  have "append_task_claim_events sample_env c (Claimed 2 (AssignmentId 3)) claimed = Inr ((), d4)"
    using task(1) first(1) second(1) third(1) link
    by (simp add: append_task_claim_events_def bind_run c(3) g_def del: append.simps One_nat_def)
  then have "apply_claim sample_env c begun = Inr (Claimed 2 (AssignmentId 3), d4)"
    using cas by (simp add: apply_claim_def bind_run seq_def)
  then have "\<exists>db2. claim_task sample_env c ?db = Inr (Applied (Claimed 2 (AssignmentId 3)), db2)"
    using ins by (simp add: claim_task_def mutate_def mutate_fresh [OF fresh] bind_run seq_def)
  then show ?thesis by (simp only: c_def)
qed

lemma sample_recovery:
  "\<exists>rv evs n. recover_assignment sample_env sample_retirement (AssignmentId 9) ''gone'' sample_handoff False sample_interrupted
     = Inr (rv, sample_retired evs n) \<and> rv_task_id rv = TaskId 1 \<and> rv_generation rv = 0
     \<and> event_room sample_env (sample_retired evs n)"
proof -
  let ?w = "sample_workspace\<lparr>ws_result_commit := None\<rparr>" and ?m = sample_retirement
  let ?row = "\<lparr>rh_assignment_id = AssignmentId 9, rh_run_id = RunId 1, rh_operation_id = OperationId 2,
      rh_document = handoff_json sample_handoff\<rparr>"
  let ?mid = "recovery_handoffs_update (\<lambda>rows. rows @ [?row]) sample_interrupted"
  let ?rv = "recovery_summary sample_held (SessionId 1) ?w ''gone'' sample_handoff False"
  have m: "mu_run_id ?m = RunId 1" "mu_id ?m = OperationId 2" by (simp_all add: sample_retirement_def)
  have "handoff_row_ok sample_interrupted ?row"
    by (simp add: handoff_row_ok_def sample_interrupted_rows run_exists_def sample_run_def assignment_exists_def
        operation_exists_def sample_db_def empty_db_def)
  then have h: "insert_handoff ?row sample_interrupted = Inr ((), ?mid)" by (simp add: insert_handoff_def insert_row_Inr)
  have ok: "store_ok ?mid" using store_ok_sample_interrupted by simp
  from apply_task_transition_total [OF ok, of "reopen ?m sample_held"] obtain r db2 where
    reopened: "apply_task_transition (reopen ?m sample_held) ?mid = Inr (r, db2)" by blast
  have t: "find_task ?mid (as_task_id sample_held) = Some (sample_task 1 InProgress)"
    by (simp add: find_task_def sample_interrupted_rows)
  have db2: "db2 = move_task (reopen ?m sample_held) (sample_task 1 InProgress) Open
      (released_db (reopen ?m sample_held) ''released'' ?mid)"
    by (rule reopen_Inr [OF ok t _ _ reopened]) (simp_all add: m)
  have log: "log_ok db2" using safeD [OF safe_apply_task_transition reopened ok] by (simp add: store_ok_def)
  have tables: "events db2 = [sample_exit_event]" "events_drawn db2 = 1" "runs db2 = [sample_run]"
    "projects db2 = [sample_project]" "map ag_id (agents db2) = [AgentId 1, AgentId 2]"
    "map ag_run_id (agents db2) = [RunId 1, RunId 1]"
    "operations db2 = [sample_operation 1, sample_operation 2]"
    by (simp_all add: db2 move_task_def released_db_def sample_interrupted_def)
  have task: "task_exists db2 (RunId 1) (TaskId 1)"
    by (simp add: task_exists_def db2 move_task_def released_db_def sample_interrupted_def update_where_def)
  have room: "event_room sample_env db2"
    using log by (simp add: event_room_def tables sample_env_def maximum_event_page_length_def sample_exit_event_def)
  have refs: "references_ok db2 n"
    if "ne_run_id n = RunId 1" "ne_project_id n = Some (ProjectId 1)" "ne_agent_id n \<in> {Some (AgentId 1), Some (AgentId 2)}"
      "ne_task_id n = Some (TaskId 1)" "ne_operation_id n = Some (OperationId 2)"
      "ne_correlation_id n = None" "ne_causation_id n = None" for n
  proof -
    have "agent_exists db2 (RunId 1) i" if "i \<in> {AgentId 1, AgentId 2}" for i
      using that by (auto simp: agent_exists_def db2 move_task_def released_db_def sample_interrupted_def)
    with that task show ?thesis
      by (auto simp: references_ok_def run_exists_def project_exists_def operation_exists_def tables sample_run_def
          sample_project_def)
  qed
  have ref: "references_ok db2 (recovery_event sample_env ?m sample_held ?w x)" for x
    by (rule refs) (simp_all add: recovery_event_def case_prod_unfold m sample_interrupted_rows)
  from log_events_possible [OF room, of "recovery_events sample_env sample_held ?rv"
      "recovery_event sample_env ?m sample_held ?w"] ref obtain db' evs n where
    logged: "for_each (\<lambda>x. log_event sample_env (recovery_event sample_env ?m sample_held ?w x))
        (recovery_events sample_env sample_held ?rv) db2 = Inr ((), db')" "event_room sample_env db'"
      "db' = db2\<lparr>events := events db2 @ evs, events_drawn := n\<rparr>" by blast
  have "recover_assignment sample_env ?m (AssignmentId 9) ''gone'' sample_handoff False sample_interrupted = Inr (?rv, db')"
  proof -
    have "as_session_id sample_held = Some (SessionId 1)" by (simp add: sample_held_def)
    with h reopened logged(1) show ?thesis
      by (simp add: recover_assignment_def bind_run sample_interrupted_preflight m lift_result_def Let_def seq_def
          del: One_nat_def)
  qed
  moreover have "db' = sample_retired evs n"
    using m tables(1) by (simp add: logged(3) db2 sample_retired_def retired_db_def sample_held_def sample_assignment_def sample_interrupted_def)
  moreover have "rv_task_id ?rv = TaskId 1" "rv_generation ?rv = 0"
    by (simp_all add: recovery_summary_def sample_held_def sample_assignment_def)
  ultimately show ?thesis using logged(2) by blast
qed

theorem recovery_retires_and_fences_the_worker_witness:
  "\<exists>rv db'. recover_assignment sample_env sample_retirement (AssignmentId 9) ''gone'' sample_handoff False sample_interrupted
       = Inr (rv, db')
     \<and> \<not> has_active_claim db' (RunId 1) (TaskId 1) \<and> workspaces db' = workspaces sample_interrupted"
proof -
  obtain rv db' where run: "recover_assignment sample_env sample_retirement (AssignmentId 9) ''gone'' sample_handoff False
      sample_interrupted = Inr (rv, db')" using sample_recovery by blast
  have a: "find_assignment sample_interrupted (AssignmentId 9) = Some sample_held"
    by (simp add: find_assignment_def sample_interrupted_rows)
  have t: "find_task sample_interrupted (as_task_id sample_held) = Some (sample_task 1 InProgress)"
    by (simp add: find_task_def sample_interrupted_rows)
  from recovery_retires_and_fences_the_worker [OF store_ok_sample_interrupted run] a t
  have "\<not> has_active_claim db' (RunId 1) (TaskId 1)" "workspaces db' = workspaces sample_interrupted"
    by (auto simp: sample_retirement_def)
  with run show ?thesis by blast
qed

theorem recovery_context_reaches_the_continuation_witness:
  "\<exists>rv db' db''. recover_assignment sample_env sample_retirement (AssignmentId 9) ''gone'' sample_handoff False
       sample_interrupted = Inr (rv, db')
     \<and> claim_task sample_env (sample_claim 3 1 2) db' = Inr (Applied (Claimed 2 (AssignmentId 3)), db'')
     \<and> recovery_handoff sample_env db' (RunId 1) (AssignmentId 9) = Inr (Some sample_handoff)
     \<and> pending_recovery sample_env db' (RunId 1) (TaskId 1) = Inr (Some rv)
     \<and> task_recoveries sample_env db'' (RunId 1) = Inr [rv\<lparr>rv_continuation_assignment_id := Some (AssignmentId 3)\<rparr>]"
proof -
  obtain rv evs n where recovered: "recover_assignment sample_env sample_retirement (AssignmentId 9) ''gone'' sample_handoff False
      sample_interrupted = Inr (rv, sample_retired evs n)" and rv: "rv_task_id rv = TaskId 1" "rv_generation rv = 0"
    and room: "event_room sample_env (sample_retired evs n)"
    using sample_recovery by blast
  define db' where "db' = sample_retired evs n"
  note run = recovered [folded db'_def]
  have readable: "task_recoveries sample_env sample_interrupted (mu_run_id sample_retirement) = Inr []"
    by (rule task_recoveries_no_recovery) (simp add: sample_interrupted_def sample_exit_event_def)
  have uncontinued: "json_path [''data'', ''previous_assignment_id''] (ev_payload c) \<noteq> Some (assignment_json (AssignmentId 9))"
    if "c \<in> set (events sample_interrupted)" "ev_type c = ''assignment.continued''" for c
    using that by (simp add: sample_interrupted_def sample_exit_event_def)
  have range: "handoff_in_range sample_handoff" "i64_min \<le> rv_generation rv" "rv_generation rv \<le> i64_max"
    by (simp_all add: handoff_in_range_def sample_handoff_def paths_bytes_ok_def bytes_ok_def rv i64_min_def i64_max_def)
  have pend: "pending_recovery sample_env db' (RunId 1) (TaskId 1) = Inr (Some rv)"
    using recovery_is_pending [OF store_ok_sample_interrupted run readable uncontinued range(2,3)] rv
    by (simp add: sample_retirement_def)
  have project: "rv_project_id rv = ProjectId 1"
    by (rule recover_assignmentE [OF store_ok_sample_interrupted run])
      (auto simp: recovery_summary_def find_assignment_def sample_interrupted_rows workspace_for_scope_def find_workspace_def
        split: if_splits)
  let ?c = "sample_claim 3 1 2"
  obtain db'' where claims: "claim_task sample_env ?c db' = Inr (Applied (Claimed 2 (AssignmentId 3)), db'')"
    using sample_continues [OF room] pend project by (auto simp: db'_def)
  have claim: "ct_run_id ?c = mu_run_id sample_retirement" "ct_task_id ?c = rv_task_id rv"
    by (simp_all add: sample_retirement_def rv)
  have later: "store_ok db'" "extends db' db'" "events db' = events db' @ []" "quiet_about_recovery (mu_run_id sample_retirement) []"
    using safeD [OF safe_recover_assignment run store_ok_sample_interrupted] by (simp_all add: quiet_about_recovery_def)
  have codec: "ulid_parse (env_ulid sample_env) (ulid_show (env_ulid sample_env) (assignment_ulid (ct_assignment_id ?c)))
      = Inr (assignment_ulid (ct_assignment_id ?c))"
    by (simp add: sample_env_def unary_ulid_def)
  have m: "mu_run_id sample_retirement = RunId 1" by (simp add: sample_retirement_def)
  from recovery_context_reaches_the_continuation
      [OF store_ok_sample_interrupted run later claims claim readable uncontinued range codec]
  have "recovery_handoff sample_env db' (RunId 1) (AssignmentId 9) = Inr (Some sample_handoff)"
    "pending_recovery sample_env db' (RunId 1) (TaskId 1) = Inr (Some rv)"
    "task_recoveries sample_env db'' (RunId 1) = Inr [rv\<lparr>rv_continuation_assignment_id := Some (AssignmentId 3)\<rparr>]"
    unfolding m rv(1) sample_claim_simps by simp_all
  with run claims show ?thesis by blast
qed

end
