(* ===== verification/RunRecovery.thy ===== *)
theory RunRecovery
  imports TaskRecovery
begin

section \<open>Reactivation of a stopped run (src/src/state/run_recovery.rs)\<close>

text \<open>
  A run whose stop has completed can be made active again under the same identity. Nothing of its
  history is undone: its sessions stay ended and their credentials revoked, its claims and
  assignments keep their owners, and the operation that stopped it is answered from the record
  instead of stopping the continuation.
\<close>

subsection \<open>What must be settled\<close>

definition run_json :: "run_id \<Rightarrow> json" where
  "run_json i = JId ''cr'' (run_ulid i)"

text \<open>The query \<open>uncertain\<close>: unsettled operations, controls without their session or agent,
  workspaces that were not observed, and live assignments without a workspace.\<close>

definition run_uncertain :: "Db \<Rightarrow> run_id \<Rightarrow> operation_id \<Rightarrow> bool" where
  "run_uncertain db run operation \<longleftrightarrow>
     exists_row (\<lambda>r. op_run_id r = run \<and> op_id r \<noteq> operation
        \<and> (op_status r = ''pending'' \<or> op_reconciliation_state r \<in> {Some RDesired, Some RUnknown})) (operations db)
     \<or> exists_row (\<lambda>c. sc_run_id (sn_scope c) = run
          \<and> \<not> exists_row (scope_row (sn_scope c)) (sessions db)) (session_controls db)
     \<or> exists_row (\<lambda>c. sc_run_id (sn_scope c) = run \<and> sn_phase c \<noteq> ControlCompleted
          \<and> \<not> exists_row (\<lambda>a. ag_id a = sc_agent_id (sn_scope c) \<and> ag_run_id a = sc_run_id (sn_scope c)
               \<and> ag_generation a = sc_generation (sn_scope c)) (agents db)) (session_controls db)
     \<or> exists_row (\<lambda>w. ws_run_id w = run \<and> ws_state w \<in> {RDesired, RUnknown}) (workspaces db)
     \<or> exists_row (\<lambda>a. as_run_id a = run \<and> as_completed_at a = None
          \<and> \<not> exists_row (\<lambda>w. ws_assignment_id w = as_id a) (workspaces db)) (assignments db)"

definition json_integer :: "json option \<Rightarrow> bool" where
  "json_integer j \<longleftrightarrow> (case j of Some (JInt _) \<Rightarrow> True | _ \<Rightarrow> False)"

definition exit_recorded :: "Env \<Rightarrow> Db \<Rightarrow> run_id \<Rightarrow> SessionRecord \<Rightarrow> bool" where
  "exit_recorded e db run s \<longleftrightarrow>
     exists_row (\<lambda>x. exit_event e run s x
        \<and> (ev_actor x = ''provider'' \<and> exit_reason (ev_payload x)
           \<or> ev_actor x = ''foreground''
             \<and> (json_integer (json_path [''data'', ''details'', ''code''] (ev_payload x))
                \<or> json_integer (json_path [''data'', ''details'', ''signal''] (ev_payload x))))) (events db)"

definition session_closed :: "Env \<Rightarrow> Db \<Rightarrow> run_id \<Rightarrow> SessionRecord \<Rightarrow> bool" where
  "session_closed e db run s \<longleftrightarrow>
     se_state s = Exited \<and> exit_recorded e db run s \<and> se_ended_at s \<noteq> None
     \<and> se_reconciliation_state s = RObserved
     \<and> (case session_credential db (se_id s) of None \<Rightarrow> False | Some c \<Rightarrow> cr_revoked_at c \<noteq> None)"

text \<open>The refusals, in the order they are checked.\<close>

datatype (plugins del: transfer) RunRefusal =
  NotStopped | NoShutdown | ShutdownUnfinished | Uncertain | SessionsOpen | AssignmentMissing
| AssignmentTaskMissing | Inconsistent | ProjectMissing | ForeignProject

definition run_refusal_text :: "RunRefusal \<Rightarrow> string" where
  "run_refusal_text r =
     (case r of
        NotStopped \<Rightarrow>
          ''the run is active or has no completed stop; reconnect with `coterie` for an active run, ''
          @ ''or finish `coterie stop` before stopped-run recovery''
      | NoShutdown \<Rightarrow> ''completed shutdown evidence is missing''
      | ShutdownUnfinished \<Rightarrow> ''shutdown is incomplete; preserve state and finish the original stop operation''
      | Uncertain \<Rightarrow> ''resource intent or ownership remains unresolved; preserve state and inspect `coterie doctor`''
      | SessionsOpen \<Rightarrow>
          ''process inactivity and credential revocation must be observed for every session; ''
          @ ''preserve state and inspect `coterie doctor`''
      | AssignmentMissing \<Rightarrow> ''workspace assignment is missing''
      | AssignmentTaskMissing \<Rightarrow> ''assignment task is missing''
      | Inconsistent \<Rightarrow> ''assignment ownership is inconsistent; preserve the workspace and inspect `coterie doctor`''
      | ProjectMissing \<Rightarrow> ''workspace project is missing''
      | ForeignProject \<Rightarrow> ''workspace project belongs to another run'')"

text \<open>A workspace whose assignment is still live, or holds the submitted result of its task.\<close>

definition ownership_consistent ::
    "Db \<Rightarrow> run_id \<Rightarrow> WorkspaceRecord \<Rightarrow> AssignmentRecord \<Rightarrow> TaskRecord \<Rightarrow> bool" where
  "ownership_consistent db run w a t \<longleftrightarrow>
     as_run_id a = run \<and> as_generation a = ws_generation w \<and> tk_run_id t = run
     \<and> tk_project_id t = ws_project_id w
     \<and> (case find_agent db (as_agent_id a) of None \<Rightarrow> False
        | Some g \<Rightarrow> ag_run_id g = run \<and> ag_generation g = as_generation a)
     \<and> (case Option.bind (as_session_id a) (find_session db) of None \<Rightarrow> False
        | Some s \<Rightarrow> se_run_id s = run \<and> se_agent_id s = as_agent_id a \<and> se_generation s = as_generation a)
     \<and> (case find_claim db (as_claim_id a) of None \<Rightarrow> False
        | Some c \<Rightarrow> cl_run_id c = run \<and> cl_agent_id c = as_agent_id a \<and> cl_task_id c = tk_id t
            \<and> (as_completed_at a \<noteq> None \<or> cl_released_at c = None))
     \<and> ws_state w = RObserved"

definition retained_workspace ::
    "Db \<Rightarrow> run_id \<Rightarrow> WorkspaceRecord \<Rightarrow> StoreError + (WorkspaceRecord \<times> ProjectRecord) option" where
  "retained_workspace db run w =
     (let reject = (\<lambda>r. Inl (RunRecoveryConflict run (run_refusal_text r))) in
      case find_assignment db (ws_assignment_id w) of None \<Rightarrow> reject AssignmentMissing
      | Some a \<Rightarrow>
          (case find_task db (as_task_id a) of None \<Rightarrow> reject AssignmentTaskMissing
           | Some t \<Rightarrow>
               if as_completed_at a \<noteq> None
                  \<and> (tk_status t \<noteq> Submitted
                     \<or> map_option as_id (latest_assignment_for_task db run (tk_id t)) \<noteq> Some (as_id a))
               then Inr None
               else if \<not> ownership_consistent db run w a t then reject Inconsistent
               else (case find_project db (ws_project_id w) of None \<Rightarrow> reject ProjectMissing
                 | Some p \<Rightarrow> if pj_run_id p \<noteq> run then reject ForeignProject else Inr (Some (w, p)))))"

definition stop_completed :: "Db \<Rightarrow> run_id \<Rightarrow> RunShutdown \<Rightarrow> bool" where
  "stop_completed db run s \<longleftrightarrow>
     rs_phase s = ShutdownCompleted
     \<and> (case find_operation db (rs_operation_id s) of None \<Rightarrow> False
        | Some r \<Rightarrow> op_run_id r = run \<and> op_kind r = ''run.stop'' \<and> op_status r = ''completed''
            \<and> op_reconciliation_state r = Some RObserved)"

definition run_stopped :: "Db \<Rightarrow> run_id \<Rightarrow> bool" where
  "run_stopped db run \<longleftrightarrow>
     (case find_run db run of None \<Rightarrow> False | Some r \<Rightarrow> rn_status r = ''stopped'' \<and> rn_stopped_at r \<noteq> None)"

definition stopped_run_preflight ::
    "Env \<Rightarrow> Db \<Rightarrow> run_id \<Rightarrow> operation_id \<Rightarrow> StoreError + (WorkspaceRecord \<times> ProjectRecord) list" where
  "stopped_run_preflight e db run operation =
     (let reject = (\<lambda>r. Inl (RunRecoveryConflict run (run_refusal_text r))) in
      if \<not> run_stopped db run then reject NotStopped
      else (case find_run_shutdown db run of None \<Rightarrow> reject NoShutdown
        | Some s \<Rightarrow>
            if \<not> stop_completed db run s then reject ShutdownUnfinished
            else if run_uncertain db run operation then reject Uncertain
            else if \<not> list_all (session_closed e db run) (sessions_of_run db run) then reject SessionsOpen
            else map_sum id (List.map_filter id)
                   (map_result (retained_workspace db run) (workspaces_of_run db run))))"

subsection \<open>Reactivation\<close>

record RunRecoveryReport =
  rr_run_id :: run_id
  rr_operation_id :: operation_id
  rr_previous_stop_operation_id :: operation_id
  rr_previous_stopped_at :: int
  rr_recovered_at :: int
  rr_next_step :: string

definition next_step_text :: string where
  "next_step_text =
     ''Launch `coterie` for a fresh session; inspect `prime` and use `task recover` ''
     @ ''before spawning unfinished task continuations.''"

definition run_report_json :: "RunRecoveryReport \<Rightarrow> json" where
  "run_report_json r = JObj
     [(''next_step'', JStr (rr_next_step r)), (''operation_id'', operation_json (rr_operation_id r)),
      (''previous_stop_operation_id'', operation_json (rr_previous_stop_operation_id r)),
      (''previous_stopped_at'', JInt (rr_previous_stopped_at r)), (''recovered_at'', JInt (rr_recovered_at r)),
      (''run_id'', run_json (rr_run_id r))]"

text \<open>\<open>value["reason"]\<close>: \<open>null\<close> when there is no such member.\<close>

definition json_index :: "string \<Rightarrow> json \<Rightarrow> json" where
  "json_index k j = (case json_get k j of None \<Rightarrow> JNull | Some v \<Rightarrow> v)"

definition run_recovered_event :: "Env \<Rightarrow> Mutation \<Rightarrow> RunShutdown \<Rightarrow> RunRecoveryReport \<Rightarrow> NewEvent" where
  "run_recovered_event e m s report =
     \<lparr>ne_run_id = mu_run_id m, ne_kind = RunRecovered, ne_actor = ''operator'',
      ne_subject = run_text e (mu_run_id m), ne_project_id = None, ne_agent_id = None, ne_task_id = None,
      ne_operation_id = Some (mu_id m), ne_correlation_id = None, ne_causation_id = None,
      ne_data = JObj
        [(''previous_shutdown'', JObj
            [(''deadline_ms'', JInt (rs_deadline_ms s)), (''interrupt_until_ms'', JInt (rs_interrupt_until_ms s)),
             (''operation_id'', operation_json (rs_operation_id s)),
             (''phase'', JStr (shutdown_phase_str (rs_phase s))), (''requested_at_ms'', JInt (rs_requested_at_ms s))]),
         (''reason'', json_index ''reason'' (mu_request m)), (''recovery'', run_report_json report)],
      ne_summary = ''Reactivated stopped run; historical sessions remain revoked and assignments retain their ownership.'',
      ne_created_at = mu_created_at m\<rparr>"

definition complete_control :: "Env \<Rightarrow> Mutation \<Rightarrow> SessionControl \<Rightarrow> unit repo" where
  "complete_control e m c =
     (if sn_phase c \<noteq> ControlCompleted
      then set_control_phase e c ControlCompleted (sat_mul (mu_created_at m) 1000) else ret ())"

definition reactivate_run :: "Env \<Rightarrow> Mutation \<Rightarrow> RunRecoveryReport repo" where
  "reactivate_run e m =
     bind (lift_result (\<lambda>db. stopped_run_preflight e db (mu_run_id m) (mu_id m))) (\<lambda>_.
     bind (gets (\<lambda>db. find_run db (mu_run_id m))) (\<lambda>run.
     bind (gets (\<lambda>db. find_run_shutdown db (mu_run_id m))) (\<lambda>shutdown.
     case (Option.bind run rn_stopped_at, shutdown) of
       (Some stopped_at, Some s) \<Rightarrow>
         let report =
           \<lparr>rr_run_id = mu_run_id m, rr_operation_id = mu_id m,
            rr_previous_stop_operation_id = rs_operation_id s, rr_previous_stopped_at = stopped_at,
            rr_recovered_at = mu_created_at m, rr_next_step = next_step_text\<rparr> in
         seq (modify (runs_update (update_where (\<lambda>r. rn_id r = mu_run_id m)
                (\<lambda>r. r\<lparr>rn_status := ''active'', rn_stopped_at := None\<rparr>))))
         (bind (gets (\<lambda>db. session_controls_of_run db (mu_run_id m))) (\<lambda>controls.
          seq (for_each (complete_control e m) controls)
          (seq (log_event e (run_recovered_event e m s report))
          (seq (modify (run_shutdowns_update (filter (\<lambda>x. rs_run_id x \<noteq> mu_run_id m))))
               (ret report)))))
     | _ \<Rightarrow> fail Panic)))"

subsection \<open>The answer to a repeated stop\<close>

text \<open>
  The recorded response of the stop: \<open>None\<close> is not a response at all, \<open>Some None\<close> is a response
  of another kind. The derived decoder of the other variants is the parameter \<open>other\<close>.
\<close>

definition decode_response :: "(json \<Rightarrow> bool) \<Rightarrow> Env \<Rightarrow> json \<Rightarrow> (run_id \<times> operation_id) option option" where
  "decode_response other e j =
     (if json_get ''result'' j = Some (JStr ''shutting_down'')
      then Option.bind (field (id_of_json e ''cr'') ''run_id'' j) (\<lambda>run.
           Option.bind (field (id_of_json e ''co'') ''operation_id'' j) (\<lambda>operation.
           Some (Some (RunId run, OperationId operation))))
      else if other j then Some None else None)"

definition shutting_down_json :: "run_id \<Rightarrow> operation_id \<Rightarrow> json" where
  "shutting_down_json run operation = JObj
     [(''operation_id'', operation_json operation), (''result'', JStr ''shutting_down''), (''run_id'', run_json run)]"

definition stop_was_recovered :: "Db \<Rightarrow> run_id \<Rightarrow> operation_id \<Rightarrow> bool" where
  "stop_was_recovered db run operation \<longleftrightarrow>
     exists_row (\<lambda>x. ev_run_id x = run \<and> ev_type x = ''run.recovered''
        \<and> json_path [''data'', ''recovery'', ''previous_stop_operation_id''] (ev_payload x)
          = Some (operation_json operation)) (events db)"

definition recovered_shutdown_result ::
    "(json \<Rightarrow> bool) \<Rightarrow> Env \<Rightarrow> Db \<Rightarrow> run_id \<Rightarrow> operation_id \<Rightarrow> StoreError + (run_id \<times> operation_id) option" where
  "recovered_shutdown_result other e db run operation =
     (if \<not> stop_was_recovered db run operation then Inr None
      else (case find_operation db operation of None \<Rightarrow> Inl (OperationConflict operation)
        | Some r \<Rightarrow>
            if \<not> (op_run_id r = run \<and> op_kind r = ''run.stop'' \<and> op_status r = ''completed'')
            then Inl (OperationConflict operation)
            else (case op_result r of None \<Rightarrow> Inl (MissingOperationResult operation)
              | Some j \<Rightarrow>
                  (case decode_response other e j of None \<Rightarrow> Inl EncodeJson
                   | Some response \<Rightarrow>
                       if response \<noteq> Some (run, operation) then Inl (OperationConflict operation)
                       else Inr (Some (run, operation))))))"

subsection \<open>Reactivation is safe\<close>

lemma safe_complete_control [safe_intros]: "safe (complete_control e m c)"
  unfolding complete_control_def by (intro safe_intros)

lemma safe_forget_shutdown [safe_intros]: "safe (modify (run_shutdowns_update (filter p)))"
  by (rule safe_modify) (simp add: store_ok_def shutdowns_ok_def)

lemma safe_reactivate_run [safe_intros]: "safe (reactivate_run e m)"
proof -
  have "safe (modify (runs_update (update_where p (\<lambda>r. r\<lparr>rn_status := t, rn_stopped_at := None\<rparr>))))" for p t
    by (rule safe_modify) (simp add: store_ok_runs_update)
  then show ?thesis
    unfolding reactivate_run_def Let_def
    by (intro safe_intros safe_lift_result) (auto split: option.split intro!: safe_intros)
qed

text \<open>Completing the controls that are still open changes them and the log only.\<close>

definition same_but_controls :: "Db \<Rightarrow> Db \<Rightarrow> bool" where
  "same_but_controls old db \<longleftrightarrow>
     db\<lparr>session_controls := [], events := [], events_drawn := 0\<rparr>
     = old\<lparr>session_controls := [], events := [], events_drawn := 0\<rparr>"

lemma same_but_controls_tables:
  assumes "same_but_controls old db"
  shows "runs db = runs old" "agents db = agents old" "sessions db = sessions old" "credentials db = credentials old"
    "tasks db = tasks old" "operations db = operations old" "claims db = claims old"
    "assignments db = assignments old" "workspaces db = workspaces old" "run_shutdowns db = run_shutdowns old"
proof -
  have eq: "f (db\<lparr>session_controls := [], events := [], events_drawn := 0\<rparr>)
      = f (old\<lparr>session_controls := [], events := [], events_drawn := 0\<rparr>)" for f :: "Db \<Rightarrow> 'a"
    using assms by (simp only: same_but_controls_def)
  show "runs db = runs old" "agents db = agents old" "sessions db = sessions old" "credentials db = credentials old"
    "tasks db = tasks old" "operations db = operations old" "claims db = claims old"
    "assignments db = assignments old" "workspaces db = workspaces old" "run_shutdowns db = run_shutdowns old"
    using eq [of runs] eq [of agents] eq [of sessions] eq [of credentials] eq [of tasks] eq [of operations]
      eq [of claims] eq [of assignments] eq [of workspaces] eq [of run_shutdowns]
    by simp_all
qed

lemma keeps_complete_control: "keeps (same_but_controls old) (complete_control e m c)"
proof -
  have "keeps (same_but_controls old) (modify (session_controls_update f))" for f
    by (rule keeps_modify) (simp add: same_but_controls_def)
  moreover have "keeps (same_but_controls old) (append_event e n)" for n
    by (rule keeps_append_event_frame) (simp add: same_but_controls_def)
  ultimately show ?thesis
    unfolding complete_control_def set_control_phase_def supervision_event_def Let_def
    by (intro keeps_intros)
qed

lemma complete_controls_frame:
  assumes "for_each (complete_control e m) cs db = Inr (u, db')"
  shows "same_but_controls db db'"
  using keepsD [OF keeps_for_each [OF keeps_complete_control] assms] by (simp add: same_but_controls_def)

lemma preflight_Inr:
  assumes "stopped_run_preflight e db run operation = Inr kept"
  obtains r t s where "find_run db run = Some r" "rn_status r = ''stopped''" "rn_stopped_at r = Some t"
    "find_run_shutdown db run = Some s" "stop_completed db run s" "\<not> run_uncertain db run operation"
    "list_all (session_closed e db run) (sessions_of_run db run)"
  using assms
  by (auto simp: stopped_run_preflight_def run_stopped_def Let_def split: option.splits if_splits)

lemma reactivate_runE:
  assumes "reactivate_run e m db = Inr (rep, db')"
  obtains r t s ev w where "find_run db (mu_run_id m) = Some r" "rn_status r = ''stopped''" "rn_stopped_at r = Some t"
    "find_run_shutdown db (mu_run_id m) = Some s" "stop_completed db (mu_run_id m) s"
    "\<not> run_uncertain db (mu_run_id m) (mu_id m)"
    "list_all (session_closed e db (mu_run_id m)) (sessions_of_run db (mu_run_id m))"
    "rep = \<lparr>rr_run_id = mu_run_id m, rr_operation_id = mu_id m, rr_previous_stop_operation_id = rs_operation_id s,
      rr_previous_stopped_at = t, rr_recovered_at = mu_created_at m, rr_next_step = next_step_text\<rparr>"
    "same_but_controls (runs_update (update_where (\<lambda>r. rn_id r = mu_run_id m)
      (\<lambda>r. r\<lparr>rn_status := ''active'', rn_stopped_at := None\<rparr>)) db) w"
    "db' = run_shutdowns_update (filter (\<lambda>x. rs_run_id x \<noteq> mu_run_id m))
      (w\<lparr>events := events w @ [ev], events_drawn := Suc (events_drawn w)\<rparr>)"
    "ev = new_event_record e (run_recovered_event e m s rep) w"
proof -
  from assms obtain kept where pre: "stopped_run_preflight e db (mu_run_id m) (mu_id m) = Inr kept"
    by (auto simp: reactivate_run_def bind_Inr_iff lift_result_def split: sum.splits)
  obtain r t s where facts: "find_run db (mu_run_id m) = Some r" "rn_status r = ''stopped''" "rn_stopped_at r = Some t"
    "find_run_shutdown db (mu_run_id m) = Some s" "stop_completed db (mu_run_id m) s"
    "\<not> run_uncertain db (mu_run_id m) (mu_id m)"
    "list_all (session_closed e db (mu_run_id m)) (sessions_of_run db (mu_run_id m))"
    by (rule preflight_Inr [OF pre]) (rule that)
  let ?rep = "\<lparr>rr_run_id = mu_run_id m, rr_operation_id = mu_id m, rr_previous_stop_operation_id = rs_operation_id s,
      rr_previous_stopped_at = t, rr_recovered_at = mu_created_at m, rr_next_step = next_step_text\<rparr>"
  let ?mid = "runs_update (update_where (\<lambda>r. rn_id r = mu_run_id m)
      (\<lambda>r. r\<lparr>rn_status := ''active'', rn_stopped_at := None\<rparr>)) db"
  from assms pre facts obtain w ev w' where rep: "rep = ?rep"
    and controls: "for_each (complete_control e m) (session_controls_of_run ?mid (mu_run_id m)) ?mid = Inr ((), w)"
    and ev: "append_event e (run_recovered_event e m s ?rep) w = Inr (ev, w')"
    and db': "db' = run_shutdowns_update (filter (\<lambda>x. rs_run_id x \<noteq> mu_run_id m)) w'"
    by (auto simp: reactivate_run_def bind_run lift_result_def seq_Inr_iff log_event_Inr Let_def)
  show thesis
    by (rule that [OF facts rep complete_controls_frame [OF controls]])
      (simp_all add: db' append_event_db [OF ev] rep)
qed

text \<open>
  Property C20. A stopped run is reactivated only when nothing of it can still be running: its stop
  operation has completed, every session of the run is observed as exited with a recorded exit and
  a revoked credential, and no resource of it is unsettled. Reactivation makes the run active and
  keeps every session, credential, claim, assignment, task and workspace as it is, so no earlier
  session can act again. The operation that stopped the run does not stop the continuation: it is
  refused as a new shutdown and answered from its record, and the reactivation is not repeated.
\<close>

theorem reactivation_requires_a_finished_stop:
  assumes run: "reactivate_run e m db = Inr (rep, db')"
  shows "(\<exists>r s. find_run db (mu_run_id m) = Some r \<and> rn_status r = ''stopped''
        \<and> rn_stopped_at r = Some (rr_previous_stopped_at rep)
        \<and> find_run_shutdown db (mu_run_id m) = Some s \<and> stop_completed db (mu_run_id m) s
        \<and> rs_operation_id s = rr_previous_stop_operation_id rep)
    \<and> \<not> run_uncertain db (mu_run_id m) (mu_id m)
    \<and> (\<forall>s \<in> set (sessions db). se_run_id s = mu_run_id m \<longrightarrow> se_state s = Exited
        \<and> (\<exists>c. session_credential db' (se_id s) = Some c \<and> cr_revoked_at c \<noteq> None))
    \<and> active_run db' (mu_run_id m) \<and> find_run_shutdown db' (mu_run_id m) = None
    \<and> sessions db' = sessions db \<and> credentials db' = credentials db \<and> claims db' = claims db
    \<and> assignments db' = assignments db \<and> tasks db' = tasks db \<and> workspaces db' = workspaces db
    \<and> (\<forall>e' n g t. begin_run_shutdown e' (mu_run_id m) (rr_previous_stop_operation_id rep) n g t db'
          = Inl (OperationConflict (rr_previous_stop_operation_id rep)))
    \<and> (\<forall>other r. find_operation db (rr_previous_stop_operation_id rep) = Some r
          \<and> op_result r = Some (shutting_down_json (mu_run_id m) (rr_previous_stop_operation_id rep))
        \<longrightarrow> recovered_shutdown_result other e db' (mu_run_id m) (rr_previous_stop_operation_id rep)
            = Inr (Some (mu_run_id m, rr_previous_stop_operation_id rep)))
    \<and> (\<forall>e' m'. mu_run_id m' = mu_run_id m
        \<longrightarrow> reactivate_run e' m' db' = Inl (RunRecoveryConflict (mu_run_id m) (run_refusal_text NotStopped)))"
proof -
  let ?run = "mu_run_id m" and ?active = "\<lambda>r. r\<lparr>rn_status := ''active'', rn_stopped_at := None\<rparr>"
  obtain r t s ev w where r: "find_run db ?run = Some r" "rn_status r = ''stopped''" "rn_stopped_at r = Some t"
    and s: "find_run_shutdown db ?run = Some s" "stop_completed db ?run s" and sure: "\<not> run_uncertain db ?run (mu_id m)"
    and closed: "list_all (session_closed e db ?run) (sessions_of_run db ?run)"
    and rep: "rep = \<lparr>rr_run_id = ?run, rr_operation_id = mu_id m, rr_previous_stop_operation_id = rs_operation_id s,
      rr_previous_stopped_at = t, rr_recovered_at = mu_created_at m, rr_next_step = next_step_text\<rparr>"
    and w: "same_but_controls (runs_update (update_where (\<lambda>r. rn_id r = ?run) ?active) db) w"
    and db': "db' = run_shutdowns_update (filter (\<lambda>x. rs_run_id x \<noteq> ?run))
      (w\<lparr>events := events w @ [ev], events_drawn := Suc (events_drawn w)\<rparr>)"
    and ev: "ev = new_event_record e (run_recovered_event e m s rep) w"
    by (rule reactivate_runE [OF run]) (rule that)
  note same = same_but_controls_tables [OF w]
  have "find_run db' ?run = Some (?active r)"
    using r(1) by (auto simp: find_run_def db' same find_update_where dest: find_Some_in)
  then have active: "active_run db' ?run" "\<not> run_stopped db' ?run"
    by (simp_all add: active_run_def run_stopped_def)
  have gone: "find_run_shutdown db' ?run = None"
    by (auto simp: find_run_shutdown_def db' find_None_all)
  obtain o' where o': "find_operation db (rs_operation_id s) = Some o'" "op_run_id o' = ?run"
      "op_kind o' = ''run.stop''" "op_status o' = ''completed''"
    using s(2) by (auto simp: stop_completed_def split: option.splits)
  have ops: "find_operation db' i = find_operation db i" for i by (simp add: find_operation_def db' same)
  have kept: "sessions db' = sessions db" "credentials db' = credentials db" "claims db' = claims db"
    "assignments db' = assignments db" "tasks db' = tasks db" "workspaces db' = workspaces db"
    by (simp_all add: db' same)
  have revoked: "se_state x = Exited \<and> (\<exists>c. session_credential db' (se_id x) = Some c \<and> cr_revoked_at c \<noteq> None)"
    if "x \<in> set (sessions db)" "se_run_id x = ?run" for x
  proof -
    have "session_closed e db ?run x" using closed that by (auto simp: list_all_iff sessions_of_run_def)
    moreover have "session_credential db' (se_id x) = session_credential db (se_id x)"
      by (simp add: session_credential_def kept)
    ultimately show ?thesis by (auto simp: session_closed_def split: option.splits)
  qed
  have fenced: "begin_run_shutdown e' ?run (rs_operation_id s) n g u db' = Inl (OperationConflict (rs_operation_id s))"
    for e' n g u using gone o'(1) ops by (simp add: begin_run_shutdown_def)
  have recovered: "stop_was_recovered db' ?run (rs_operation_id s)"
    by (auto simp: stop_was_recovered_def db' ev new_event_record_def run_recovered_event_def rep run_report_json_def)
  have answered: "recovered_shutdown_result other e db' ?run (rs_operation_id s) = Inr (Some (?run, rs_operation_id s))"
    if "op_result o' = Some (shutting_down_json ?run (rs_operation_id s))" for other
  proof -
    have "decode_response other e (shutting_down_json ?run (rs_operation_id s)) = Some (Some (?run, rs_operation_id s))"
      by (simp add: decode_response_def shutting_down_json_def field_def run_json_def operation_json_def id_of_json_def)
    then show ?thesis using that recovered o' ops by (simp add: recovered_shutdown_result_def)
  qed
  have once: "reactivate_run e' m' db' = Inl (RunRecoveryConflict ?run (run_refusal_text NotStopped))"
    if "mu_run_id m' = ?run" for e' m'
    using active(2) that by (simp add: reactivate_run_def bind_run lift_result_def stopped_run_preflight_def Let_def)
  show ?thesis
    using r s sure revoked active(1) gone kept fenced answered once o'(1) by (auto simp: rep)
qed

subsection \<open>A stopped run\<close>

definition sample_stopped :: Db where
  "sample_stopped = sample_db
     \<lparr>runs := [sample_run\<lparr>rn_status := ''stopped'', rn_stopped_at := Some 6\<rparr>],
      agents := [sample_agent 1\<lparr>ag_state := Exited\<rparr>, sample_agent 2], sessions := [sample_exited],
      credentials := [sample_credential\<lparr>cr_revoked_at := Some 5\<rparr>],
      operations := [sample_operation 2,
        (sample_operation 3)\<lparr>op_kind := ''run.stop'', op_status := ''completed'', op_reconciliation_state := Some RObserved,
           op_result := Some (shutting_down_json (RunId 1) (OperationId 3))\<rparr>],
      run_shutdowns := [\<lparr>rs_run_id = RunId 1, rs_operation_id = OperationId 3, rs_phase = ShutdownCompleted,
        rs_requested_at_ms = 5000, rs_interrupt_until_ms = 5020, rs_deadline_ms = 5100\<rparr>],
      session_controls := [(new_control sample_scope Shutdown 5000 20 100)\<lparr>sn_phase := Terminate\<rparr>],
      events := [sample_exit_event], events_drawn := 1\<rparr>"

lemma sample_stopped_preflight:
  "stopped_run_preflight sample_env sample_stopped (RunId 1) (OperationId 2) = Inr []"
proof -
  have "run_stopped sample_stopped (RunId 1)"
    by (simp add: run_stopped_def find_run_def sample_stopped_def sample_run_def)
  moreover have "find_run_shutdown sample_stopped (RunId 1) = Some (hd (run_shutdowns sample_stopped))"
    by (simp add: find_run_shutdown_def sample_stopped_def)
  moreover have "stop_completed sample_stopped (RunId 1) (hd (run_shutdowns sample_stopped))"
    by (simp add: stop_completed_def find_operation_def sample_stopped_def)
  moreover have "\<not> run_uncertain sample_stopped (RunId 1) (OperationId 2)"
    by (simp add: run_uncertain_def sample_stopped_def sample_interrupted_rows sample_scope_def new_control_def scope_row_def)
  moreover have "session_closed sample_env sample_stopped (RunId 1) sample_exited"
    by (simp add: session_closed_def exit_recorded_def exit_event_def exit_reason_def session_credential_def
        sample_stopped_def sample_interrupted_rows sample_exit_event_def sample_credential_def)
  moreover have "sessions_of_run sample_stopped (RunId 1) = [sample_exited]"
    by (simp add: sessions_of_run_def sample_stopped_def sample_interrupted_rows)
  moreover have "workspaces_of_run sample_stopped (RunId 1) = []"
    by (simp add: workspaces_of_run_def sample_stopped_def)
  ultimately show ?thesis by (simp add: stopped_run_preflight_def Let_def List.map_filter_def)
qed

definition sample_reactivation :: Mutation where
  "sample_reactivation =
     \<lparr>mu_id = OperationId 2, mu_run_id = RunId 1, mu_kind = ''run.recover'', mu_actor_agent_id = None,
      mu_request = JObj [(''reason'', JStr ''reboot'')], mu_created_at = 9\<rparr>"

lemma supervision_event_possible:
  assumes "event_room e db" "references_ok db \<lparr>ne_run_id = run, ne_kind = kind, ne_actor = ''supervisor'', ne_subject = subject,
        ne_project_id = None, ne_agent_id = agent, ne_task_id = None, ne_operation_id = operation,
        ne_correlation_id = None, ne_causation_id = None, ne_data = data, ne_summary = summary,
        ne_created_at = quot_i64 now_ms 1000\<rparr>"
  obtains ev where "supervision_event e run kind subject agent operation data summary now_ms db
      = Inr ((), db\<lparr>events := events db @ [ev], events_drawn := Suc (events_drawn db)\<rparr>)"
    "event_room e (db\<lparr>events := events db @ [ev], events_drawn := Suc (events_drawn db)\<rparr>)"
  by (rule append_event_possible [OF assms]) (auto simp: supervision_event_def bind_run intro: that)

lemma sample_reactivated:
  "\<exists>rep db'. reactivate_run sample_env sample_reactivation sample_stopped = Inr (rep, db')"
proof -
  let ?m = sample_reactivation and ?c = "(new_control sample_scope Shutdown 5000 20 100)\<lparr>sn_phase := Terminate\<rparr>"
  let ?mid = "runs_update (update_where (\<lambda>r. rn_id r = RunId 1) (\<lambda>r. r\<lparr>rn_status := ''active'', rn_stopped_at := None\<rparr>))
      sample_stopped"
  let ?mid' = "session_controls_update (update_where (\<lambda>c. sc_session_id (sn_scope c) = sc_session_id sample_scope)
      (\<lambda>c. c\<lparr>sn_phase := ControlCompleted, sn_delivered := False\<rparr>)) ?mid"
  have m: "mu_run_id ?m = RunId 1" "mu_id ?m = OperationId 2" by (simp_all add: sample_reactivation_def)
  have scope: "sn_scope ?c = sample_scope" "sc_run_id sample_scope = RunId 1" "sc_agent_id sample_scope = AgentId 1"
    by (simp_all add: new_control_def sample_scope_def)
  have ids: "map rn_id (runs ?mid') = [RunId 1]" "operations ?mid' = operations sample_stopped"
    "agents ?mid' = agents sample_stopped" "events ?mid' = [sample_exit_event]" "events_drawn ?mid' = 1"
    by (simp_all add: sample_stopped_def sample_run_def update_where_def)
  have room: "event_room sample_env ?mid'"
    by (simp add: event_room_def sample_stopped_def sample_env_def maximum_event_page_length_def sample_exit_event_def
        log_ok_def run_log_def)
  have refs: "references_ok ?mid' n"
    if "ne_run_id n = RunId 1" "ne_project_id n = None" "ne_agent_id n \<in> {None, Some (AgentId 1)}"
      "ne_task_id n = None" "ne_operation_id n \<in> {None, Some (OperationId 2)}"
      "ne_correlation_id n = None" "ne_causation_id n = None" for n
  proof -
    have "run_exists ?mid' (RunId 1)" by (simp add: run_exists_def sample_stopped_def sample_run_def update_where_def)
    moreover have "agent_exists ?mid' (RunId 1) (AgentId 1)" by (simp add: agent_exists_def ids sample_stopped_def)
    moreover have "operation_exists ?mid' (RunId 1) (OperationId 2)"
      by (simp add: operation_exists_def ids sample_stopped_def)
    ultimately show ?thesis using that by (auto simp: references_ok_def)
  qed
  have current: "session_scope_is_current ?mid sample_scope"
    by (simp add: session_scope_is_current_def session_recovered_def sample_stopped_def sample_interrupted_rows
        sample_scope_def sample_run_def sample_exit_event_def update_where_def)
  have ref: "references_ok ?mid' \<lparr>ne_run_id = RunId 1, ne_kind = kind, ne_actor = ''supervisor'', ne_subject = subject,
        ne_project_id = None, ne_agent_id = Some (AgentId 1), ne_task_id = None, ne_operation_id = None,
        ne_correlation_id = None, ne_causation_id = None, ne_data = data, ne_summary = summary,
        ne_created_at = quot_i64 now_ms 1000\<rparr>" for kind subject data summary now_ms
    by (rule refs) simp_all
  obtain ev where ev: "supervision_event sample_env (RunId 1) SessionControlChanged (session_text sample_env (sc_session_id sample_scope))
        (Some (AgentId 1)) None (control_event_data sample_scope (Some Terminate) ControlCompleted (sn_reason ?c))
        ''Session control phase changed.'' (sat_mul (mu_created_at ?m) 1000) ?mid'
      = Inr ((), ?mid'\<lparr>events := events ?mid' @ [ev], events_drawn := Suc (events_drawn ?mid')\<rparr>)"
    and room': "event_room sample_env (?mid'\<lparr>events := events ?mid' @ [ev], events_drawn := Suc (events_drawn ?mid')\<rparr>)"
    by (rule supervision_event_possible [OF room ref]) (rule that)
  let ?w = "?mid'\<lparr>events := events ?mid' @ [ev], events_drawn := Suc (events_drawn ?mid')\<rparr>"
  have controls: "for_each (complete_control sample_env ?m) (session_controls_of_run ?mid (RunId 1)) ?mid = Inr ((), ?w)"
  proof -
    have "session_controls_of_run ?mid (RunId 1) = [?c]"
      by (simp add: session_controls_of_run_def sample_stopped_def scope)
    moreover have "complete_control sample_env ?m ?c ?mid = Inr ((), ?w)"
      using ev current by (simp add: complete_control_def set_control_phase_def Let_def scope bind_run seq_def)
    ultimately show ?thesis by (simp add: seq_def bind_run)
  qed
  let ?s = "hd (run_shutdowns sample_stopped)"
  let ?rep = "\<lparr>rr_run_id = RunId 1, rr_operation_id = OperationId 2, rr_previous_stop_operation_id = rs_operation_id ?s,
      rr_previous_stopped_at = 6, rr_recovered_at = mu_created_at ?m, rr_next_step = next_step_text\<rparr>"
  have "references_ok ?w (run_recovered_event sample_env ?m ?s ?rep)"
    using refs [of "run_recovered_event sample_env ?m ?s ?rep"] by (simp add: run_recovered_event_def m)
  then obtain x w' where "append_event sample_env (run_recovered_event sample_env ?m ?s ?rep) ?w = Inr (x, w')"
    by (rule append_event_possible [OF room']) (rule that)
  then have logged: "log_event sample_env (run_recovered_event sample_env ?m ?s ?rep) ?w = Inr ((), w')"
    by (rule iffD2 [OF log_event_Inr, OF exI])
  have "find_run sample_stopped (RunId 1) = Some (sample_run\<lparr>rn_status := ''stopped'', rn_stopped_at := Some 6\<rparr>)"
    "find_run_shutdown sample_stopped (RunId 1) = Some ?s"
    by (simp_all add: find_run_def find_run_shutdown_def sample_stopped_def sample_run_def)
  with controls logged have "reactivate_run sample_env ?m sample_stopped
      = Inr (?rep, run_shutdowns_update (filter (\<lambda>x. rs_run_id x \<noteq> RunId 1)) w')"
    by (simp add: reactivate_run_def bind_run lift_result_def m sample_stopped_preflight Let_def seq_def del: One_nat_def)
  then show ?thesis by blast
qed

theorem reactivation_requires_a_finished_stop_witness:
  "\<exists>rep db'. reactivate_run sample_env sample_reactivation sample_stopped = Inr (rep, db')
     \<and> active_run db' (RunId 1) \<and> sessions db' = sessions sample_stopped
     \<and> recovered_shutdown_result (\<lambda>_. False) sample_env db' (RunId 1) (OperationId 3)
         = Inr (Some (RunId 1, OperationId 3))"
proof -
  obtain rep db' where run: "reactivate_run sample_env sample_reactivation sample_stopped = Inr (rep, db')"
    using sample_reactivated by blast
  note facts = reactivation_requires_a_finished_stop [OF run]
  have m: "mu_run_id sample_reactivation = RunId 1" by (simp add: sample_reactivation_def)
  from facts have "rr_previous_stop_operation_id rep = OperationId 3"
    by (auto simp: m find_run_shutdown_def sample_stopped_def)
  moreover have "find_operation sample_stopped (OperationId 3) = Some (operations sample_stopped ! 1)"
    "op_result (operations sample_stopped ! 1) = Some (shutting_down_json (RunId 1) (OperationId 3))"
    by (simp_all add: find_operation_def sample_stopped_def)
  ultimately show ?thesis using facts run by (auto simp: m)
qed

end
