(* ===== verification/Notifications.thy ===== *)
theory Notifications
  imports TaskRecovery
begin

section \<open>Foreground notifications (src/src/state/notifications.rs)\<close>

text \<open>
  A foreground coordinator is woken by notices queued with its provider. The database holds for
  each session the provider thread it is bound to and the cursors up to which it was notified,
  and one row per delivery. A delivery is outstanding until the provider accepted it and the
  recipient confirmed its receipt; a new one is claimed only when none is outstanding.
\<close>

subsection \<open>The protocol (src/src/protocol/notifications.rs)\<close>

datatype NotificationAvailability = Unavailable | PendingBinding | Automatic | UncertainDelivery

datatype QueueOutcome = QueueAccepted | QueueFailed | QueueUnknown

fun queue_outcome_str :: "QueueOutcome \<Rightarrow> string" where
  "queue_outcome_str QueueAccepted = ''accepted''"
| "queue_outcome_str QueueFailed = ''failed''"
| "queue_outcome_str QueueUnknown = ''unknown''"

record NotificationClaim =
  nc_operation_id :: operation_id
  nc_thread_id :: string

definition thread_byte_ok :: "nat \<Rightarrow> char \<Rightarrow> bool" where
  "thread_byte_ok index b =
     (if index \<in> set [8, 13, 18, 23] then b = CHR ''-''
      else (48 \<le> (of_char b :: nat) \<and> (of_char b :: nat) \<le> 57)
        \<or> (97 \<le> (of_char b :: nat) \<and> (of_char b :: nat) \<le> 102))"

definition valid_thread_id :: "string \<Rightarrow> bool" where
  "valid_thread_id value \<longleftrightarrow>
     length value = 36 \<and> list_all (\<lambda>(index, b). thread_byte_ok index b) (List.enumerate 0 value)"

subsection \<open>Reading\<close>

definition own_row :: "SessionScope \<Rightarrow> ForegroundNotification \<Rightarrow> bool" where
  "own_row s n \<longleftrightarrow> sc_session_id (fn_scope n) = sc_session_id s"

definition find_notification :: "Db \<Rightarrow> SessionScope \<Rightarrow> ForegroundNotification option" where
  "find_notification db s = find (own_row s) (foreground_notifications db)"

definition highest_event :: "Db \<Rightarrow> run_id \<Rightarrow> int" where
  "highest_event db run = max_or_zero (map ev_sequence (filter (\<lambda>x. ev_run_id x = run) (events db)))"

definition highest_message :: "Db \<Rightarrow> run_id \<Rightarrow> agent_id \<Rightarrow> int" where
  "highest_message db run agent =
     max_or_zero (map ms_sequence
       (filter (\<lambda>m. ms_run_id m = run \<and> ms_recipient_agent_id m = agent) (messages db)))"

definition notifications_live :: "Db \<Rightarrow> SessionScope \<Rightarrow> bool" where
  "notifications_live db s \<longleftrightarrow>
     session_scope_is_current db s \<and> find_run_shutdown db (sc_run_id s) = None
     \<and> \<not> list_ex (\<lambda>c. sn_scope c = s) (session_controls_of_run db (sc_run_id s))
     \<and> (case find_session db (sc_session_id s) of None \<Rightarrow> False
        | Some x \<Rightarrow> se_process_owner x = ForegroundOwned \<and> se_state x = Running)"

definition delivery_uncertain :: "int \<Rightarrow> NotificationDelivery \<Rightarrow> bool" where
  "delivery_uncertain now d \<longleftrightarrow>
     nd_receipt_state d = ''legacy'' \<or> nd_state d \<in> set [''failed'', ''unknown'']
     \<or> (nd_state d = ''attempting'' \<and> nd_created_at d < sat_sub now 15)"

definition notification_availability :: "Db \<Rightarrow> SessionScope \<Rightarrow> int \<Rightarrow> NotificationAvailability" where
  "notification_availability db s now =
     (if \<not> notifications_live db s then Unavailable
      else (case find_notification db s of
          None \<Rightarrow> Unavailable
        | Some n \<Rightarrow>
            (case fn_thread_id n of None \<Rightarrow> PendingBinding
             | Some _ \<Rightarrow>
                 if exists_row (\<lambda>d. nd_session_id d = sc_session_id s \<and> delivery_uncertain now d)
                      (notification_deliveries db)
                 then UncertainDelivery else Automatic)))"

definition outstanding :: "NotificationDelivery \<Rightarrow> bool" where
  "outstanding d \<longleftrightarrow> nd_state d \<noteq> ''accepted'' \<or> nd_receipt_state d \<noteq> ''received''"

definition has_outstanding :: "Db \<Rightarrow> session_id \<Rightarrow> bool" where
  "has_outstanding db i \<longleftrightarrow> exists_row (\<lambda>d. nd_session_id d = i \<and> outstanding d) (notification_deliveries db)"

text \<open>\<open>COALESCE(MAX(sequence), c)\<close> over the rows after the cursor \<open>c\<close>.\<close>

definition max_after :: "int \<Rightarrow> int list \<Rightarrow> int" where
  "max_after c xs = (let ys = filter (\<lambda>x. c < x) xs in if ys = [] then c else Max (set ys))"

definition wakes :: "Env \<Rightarrow> SessionScope \<Rightarrow> EventRecord \<Rightarrow> bool" where
  "wakes e s x \<longleftrightarrow>
     ev_run_id x = sc_run_id s \<and> ev_actor x \<noteq> agent_text e (sc_agent_id s)
     \<and> ev_agent_id x \<noteq> Some (sc_agent_id s)
     \<and> ev_type x \<in> set [''task.lifecycle_changed'', ''assignment.lifecycle_changed'', ''session.lifecycle_changed'',
         ''session.deadline_approaching'', ''session.control_changed'', ''task.recovered'']"

definition unread :: "SessionScope \<Rightarrow> MessageRecord \<Rightarrow> bool" where
  "unread s m \<longleftrightarrow>
     ms_run_id m = sc_run_id s \<and> ms_recipient_agent_id m = sc_agent_id s \<and> ms_acknowledged_at m = None"

definition pending_notification ::
    "Env \<Rightarrow> Db \<Rightarrow> SessionScope \<Rightarrow> bool \<Rightarrow> (string \<times> int \<times> int) option" where
  "pending_notification e db s progress =
     (if \<not> notifications_live db s then None
      else if has_outstanding db (sc_session_id s) then None
      else (case find_notification db s of None \<Rightarrow> None
        | Some n \<Rightarrow>
            (case fn_thread_id n of None \<Rightarrow> None
             | Some thread \<Rightarrow>
                 let ms = max_after (fn_message_cursor n) (map ms_sequence (filter (unread s) (messages db)));
                     es = (if progress then max_after (fn_event_cursor n) (map ev_sequence (filter (wakes e s) (events db)))
                           else fn_event_cursor n) in
                 if fn_message_cursor n < ms \<or> fn_event_cursor n < es then Some (thread, es, ms) else None)))"

definition notification_pending :: "Env \<Rightarrow> Db \<Rightarrow> SessionScope \<Rightarrow> bool \<Rightarrow> bool" where
  "notification_pending e db s progress \<longleftrightarrow> pending_notification e db s progress \<noteq> None"

subsection \<open>Changing\<close>

definition enable_notifications :: "SessionScope \<Rightarrow> unit repo" where
  "enable_notifications s =
     bind (gets (\<lambda>db. session_scope_is_current db s)) (\<lambda>current.
     if \<not> current then ret ()
     else bind (gets (\<lambda>db. find_notification db s)) (\<lambda>known.
       if known \<noteq> None then ret ()
       else bind (gets (\<lambda>db. highest_event db (sc_run_id s))) (\<lambda>cursor.
         insert_row notification_row_ok (\<lambda>n. foreground_notifications_update (\<lambda>rows. rows @ [n]))
           \<lparr>fn_scope = s, fn_thread_id = None, fn_event_cursor = cursor, fn_message_cursor = 0\<rparr>)))"

definition bindable :: "SessionScope \<Rightarrow> string \<Rightarrow> ForegroundNotification \<Rightarrow> bool" where
  "bindable s thread n \<longleftrightarrow> own_row s n \<and> fn_thread_id n \<in> {None, Some thread}"

definition bind_notifications :: "SessionScope \<Rightarrow> string \<Rightarrow> bool repo" where
  "bind_notifications s thread =
     bind (gets (\<lambda>db. notifications_live db s)) (\<lambda>live.
     if \<not> live \<or> \<not> valid_thread_id thread then ret False
     else bind (gets (\<lambda>db. count_where (bindable s thread) (foreground_notifications db))) (\<lambda>changed.
       seq (modify (foreground_notifications_update (update_where (bindable s thread)
              (\<lambda>n. n\<lparr>fn_thread_id := Some thread\<rparr>))))
           (ret (changed = 1))))"

text \<open>The cursors of a session; a CHECK keeps them from being negative.\<close>

definition set_cursors :: "SessionScope \<Rightarrow> int \<Rightarrow> int \<Rightarrow> unit repo" where
  "set_cursors s es ms =
     bind (gets (\<lambda>db. find_notification db s)) (\<lambda>found.
     seq (require (found = None \<or> (0 \<le> es \<and> 0 \<le> ms)) Database)
         (modify (foreground_notifications_update (update_where (own_row s)
            (\<lambda>n. n\<lparr>fn_event_cursor := es, fn_message_cursor := ms\<rparr>)))))"

definition find_delivery :: "Db \<Rightarrow> SessionScope \<Rightarrow> operation_id \<Rightarrow> NotificationDelivery option" where
  "find_delivery db s i =
     find (\<lambda>d. nd_operation_id d = i \<and> nd_session_id d = sc_session_id s) (notification_deliveries db)"

text \<open>
  The join of the first query of \<open>claim_notification\<close>: no row, or the thread of the row, whose
  column may hold no thread.
\<close>

definition claimed_thread :: "Db \<Rightarrow> SessionScope \<Rightarrow> operation_id \<Rightarrow> string option option" where
  "claimed_thread db s i =
     (case find_delivery db s i of None \<Rightarrow> None | Some _ \<Rightarrow> map_option fn_thread_id (find_notification db s))"

definition insert_delivery :: "NotificationDelivery \<Rightarrow> unit repo" where
  "insert_delivery = insert_row delivery_row_ok (\<lambda>d. notification_deliveries_update (\<lambda>rows. rows @ [d]))"

definition claim_notification ::
    "Env \<Rightarrow> SessionScope \<Rightarrow> operation_id \<Rightarrow> bool \<Rightarrow> int \<Rightarrow> NotificationClaim option repo" where
  "claim_notification e s i progress now =
     bind (gets (\<lambda>db. notifications_live db s)) (\<lambda>live.
     if \<not> live then ret None
     else bind (gets (\<lambda>db. claimed_thread db s i)) (\<lambda>claimed.
       case claimed of
         Some None \<Rightarrow> fail Database
       | Some (Some thread) \<Rightarrow> ret (Some \<lparr>nc_operation_id = i, nc_thread_id = thread\<rparr>)
       | None \<Rightarrow>
           bind (gets (\<lambda>db. pending_notification e db s progress)) (\<lambda>found.
           case found of None \<Rightarrow> ret None
           | Some (thread, es, ms) \<Rightarrow>
               seq (insert_delivery
                      \<lparr>nd_operation_id = i, nd_session_id = sc_session_id s, nd_event_cursor = es,
                       nd_message_cursor = ms, nd_state = ''attempting'', nd_created_at = now, nd_observed_at = None,
                       nd_receipt_state = ''pending'', nd_received_at = None\<rparr>)
               (seq (set_cursors s es ms)
                    (ret (Some \<lparr>nc_operation_id = i, nc_thread_id = thread\<rparr>))))))"

definition observe_notification :: "SessionScope \<Rightarrow> operation_id \<Rightarrow> QueueOutcome \<Rightarrow> int \<Rightarrow> unit repo" where
  "observe_notification s i outcome now =
     bind (gets (\<lambda>db. session_scope_is_current db s)) (\<lambda>current.
     if \<not> current then ret ()
     else modify (notification_deliveries_update (update_where
       (\<lambda>d. nd_operation_id d = i \<and> nd_session_id d = sc_session_id s \<and> nd_state d = ''attempting'')
       (\<lambda>d. d\<lparr>nd_state := queue_outcome_str outcome, nd_observed_at := Some now\<rparr>))))"

definition receipt_of :: "Db \<Rightarrow> SessionScope \<Rightarrow> operation_id \<Rightarrow> string option" where
  "receipt_of db s i = map_option nd_receipt_state
     (find (\<lambda>d. nd_operation_id d = i \<and> nd_session_id d = sc_session_id s
        \<and> nd_state d \<in> set [''attempting'', ''accepted'']) (notification_deliveries db))"

definition receive_notification :: "SessionScope \<Rightarrow> operation_id \<Rightarrow> int \<Rightarrow> bool repo" where
  "receive_notification s i now =
     bind (gets (\<lambda>db. notifications_live db s)) (\<lambda>live.
     if \<not> live then ret False
     else bind (gets (\<lambda>db. receipt_of db s i)) (\<lambda>receipt.
       if receipt = Some ''received'' then ret True
       else if receipt \<noteq> Some ''pending'' then ret False
       else
         seq (modify (notification_deliveries_update (update_where (\<lambda>d. nd_operation_id d = i)
                (\<lambda>d. d\<lparr>nd_receipt_state := ''received'', nd_received_at := Some now\<rparr>))))
         (bind (gets (\<lambda>db. (highest_event db (sc_run_id s), highest_message db (sc_run_id s) (sc_agent_id s))))
           (\<lambda>(es, ms).
          seq (set_cursors s es ms) (ret True)))))"

subsection \<open>What holds of the notifications of a run\<close>

text \<open>A row only moves forward: its destination stays, its cursors grow, an outcome is final.\<close>

definition notification_later :: "ForegroundNotification \<Rightarrow> ForegroundNotification \<Rightarrow> bool" where
  "notification_later x y \<longleftrightarrow>
     fn_scope y = fn_scope x \<and> (fn_thread_id x \<noteq> None \<longrightarrow> fn_thread_id y = fn_thread_id x)
     \<and> fn_event_cursor x \<le> fn_event_cursor y \<and> fn_message_cursor x \<le> fn_message_cursor y"

definition delivery_later :: "NotificationDelivery \<Rightarrow> NotificationDelivery \<Rightarrow> bool" where
  "delivery_later x y \<longleftrightarrow>
     nd_operation_id y = nd_operation_id x \<and> nd_session_id y = nd_session_id x
     \<and> nd_event_cursor y = nd_event_cursor x \<and> nd_message_cursor y = nd_message_cursor x
     \<and> (nd_state x \<noteq> ''attempting'' \<longrightarrow> nd_state y = nd_state x)
     \<and> (nd_receipt_state x \<noteq> ''pending'' \<longrightarrow> nd_receipt_state y = nd_receipt_state x)"

definition cursors_ok :: "Db \<Rightarrow> ForegroundNotification \<Rightarrow> bool" where
  "cursors_ok db n \<longleftrightarrow>
     0 \<le> fn_event_cursor n \<and> fn_event_cursor n \<le> highest_event db (sc_run_id (fn_scope n))
     \<and> 0 \<le> fn_message_cursor n
     \<and> fn_message_cursor n \<le> highest_message db (sc_run_id (fn_scope n)) (sc_agent_id (fn_scope n))"

definition covers :: "NotificationDelivery \<Rightarrow> ForegroundNotification \<Rightarrow> bool" where
  "covers d n \<longleftrightarrow>
     sc_session_id (fn_scope n) = nd_session_id d \<and> fn_thread_id n \<noteq> None
     \<and> nd_event_cursor d \<le> fn_event_cursor n \<and> nd_message_cursor d \<le> fn_message_cursor n"

definition notifications_ok :: "Db \<Rightarrow> bool" where
  "notifications_ok db \<longleftrightarrow>
     distinct (map (\<lambda>n. sc_session_id (fn_scope n)) (foreground_notifications db))
     \<and> distinct (map nd_operation_id (notification_deliveries db))
     \<and> distinct (map nd_session_id (filter outstanding (notification_deliveries db)))
     \<and> (\<forall>n \<in> set (foreground_notifications db). cursors_ok db n \<and> exists_row (scope_row (fn_scope n)) (sessions db))
     \<and> (\<forall>d \<in> set (notification_deliveries db). \<exists>n \<in> set (foreground_notifications db). covers d n)"

lemma notification_later_refl [simp]: "notification_later n n"
  and delivery_later_refl [simp]: "delivery_later d d"
  by (simp_all add: notification_later_def delivery_later_def)

lemma notification_later_trans: "notification_later x y \<Longrightarrow> notification_later y z \<Longrightarrow> notification_later x z"
  by (auto simp: notification_later_def)

lemma delivery_later_trans: "delivery_later x y \<Longrightarrow> delivery_later y z \<Longrightarrow> delivery_later x z"
  by (auto simp: delivery_later_def)

definition notifications_grow :: "Db \<Rightarrow> Db \<Rightarrow> bool" where
  "notifications_grow old db \<longleftrightarrow>
     grows notification_later (foreground_notifications old) (foreground_notifications db)
     \<and> grows delivery_later (notification_deliveries old) (notification_deliveries db)"

lemma notifications_grow_refl [simp]: "notifications_grow db db"
  by (simp add: notifications_grow_def grows_refl)

lemma notifications_grow_trans: "notifications_grow a b \<Longrightarrow> notifications_grow b c \<Longrightarrow> notifications_grow a c"
  unfolding notifications_grow_def
  by (meson grows_trans notification_later_trans delivery_later_trans)

text \<open>Inside one operation the two tables change row by row.\<close>

lemma highest_frame [simp]:
  "highest_event (foreground_notifications_update f db) run = highest_event db run"
  "highest_event (notification_deliveries_update g db) run = highest_event db run"
  "highest_message (foreground_notifications_update f db) run agent = highest_message db run agent"
  "highest_message (notification_deliveries_update g db) run agent = highest_message db run agent"
  by (simp_all add: highest_event_def highest_message_def)

lemma live_frame [simp]:
  "session_scope_is_current (foreground_notifications_update f db) s = session_scope_is_current db s"
  "session_scope_is_current (notification_deliveries_update g db) s = session_scope_is_current db s"
  "notifications_live (foreground_notifications_update f db) s = notifications_live db s"
  "notifications_live (notification_deliveries_update g db) s = notifications_live db s"
  by (simp_all add: notifications_live_def session_scope_is_current_def session_recovered_def
      find_run_shutdown_def session_controls_of_run_def find_session_def)

lemma cursors_ok_frame [simp]:
  "cursors_ok (foreground_notifications_update f db) n = cursors_ok db n"
  "cursors_ok (notification_deliveries_update g db) n = cursors_ok db n"
  by (simp_all add: cursors_ok_def)

lemma notifications_update:
  assumes ok: "notifications_ok db"
    and later: "\<And>n. n \<in> set (foreground_notifications db) \<Longrightarrow> p n \<Longrightarrow> notification_later n (f n) \<and> cursors_ok db (f n)"
  defines "db' \<equiv> foreground_notifications_update (update_where p f) db"
  shows "notifications_ok db' \<and> notifications_grow db db'"
proof -
  have "map (\<lambda>n. sc_session_id (fn_scope n)) (update_where p f (foreground_notifications db))
      = map (\<lambda>n. sc_session_id (fn_scope n)) (foreground_notifications db)"
    unfolding update_where_def map_map by (rule map_cong) (auto dest: later simp: notification_later_def)
  moreover have "\<exists>y \<in> set (update_where p f (foreground_notifications db)). covers d y"
    if "n \<in> set (foreground_notifications db)" "covers d n" for d n
    by (rule bexI [of _ "if p n then f n else n"])
      (use that later in \<open>auto simp: set_update_where notification_later_def covers_def intro: order_trans\<close>)
  moreover have "fn_scope (f n) = fn_scope n" if "n \<in> set (foreground_notifications db)" "p n" for n
    using later [OF that] by (simp add: notification_later_def)
  ultimately have "notifications_ok db'"
    using ok later by (auto simp: notifications_ok_def db'_def set_update_where)
  moreover have "grows notification_later (foreground_notifications db) (update_where p f (foreground_notifications db))"
    by (rule grows_update_rows) (simp_all add: later)
  ultimately show ?thesis by (simp add: db'_def notifications_grow_def grows_refl)
qed

lemma filter_outstanding_update:
  assumes "\<And>d. d \<in> set rows \<Longrightarrow> p d \<Longrightarrow> nd_session_id (f d) = nd_session_id d \<and> (outstanding (f d) \<longrightarrow> outstanding d)"
    and "distinct (map nd_session_id (filter outstanding rows))"
  shows "distinct (map nd_session_id (filter outstanding (update_where p f rows)))
    \<and> nd_session_id ` {d \<in> set (update_where p f rows). outstanding d} \<subseteq> nd_session_id ` {d \<in> set rows. outstanding d}"
  using assms
proof (induction rows)
  case Nil
  then show ?case by (simp add: update_where_def)
next
  case (Cons d rows)
  let ?d = "if p d then f d else d"
  have d: "nd_session_id ?d = nd_session_id d" "outstanding ?d \<Longrightarrow> outstanding d"
    using Cons.prems(1) [of d] by (auto split: if_splits)
  have IH: "distinct (map nd_session_id (filter outstanding (update_where p f rows)))"
    "nd_session_id ` {d \<in> set (update_where p f rows). outstanding d} \<subseteq> nd_session_id ` {d \<in> set rows. outstanding d}"
    using Cons by (auto split: if_splits)
  have step: "update_where p f (d # rows) = ?d # update_where p f rows" by (simp add: update_where_def)
  have "nd_session_id d \<notin> nd_session_id ` {d \<in> set rows. outstanding d}" if "outstanding d"
    using Cons.prems(2) that by auto
  with IH d show ?case unfolding step by auto
qed

lemma deliveries_update:
  assumes ok: "notifications_ok db"
    and later: "\<And>d. d \<in> set (notification_deliveries db) \<Longrightarrow> p d \<Longrightarrow>
      delivery_later d (f d) \<and> (outstanding (f d) \<longrightarrow> outstanding d)"
  defines "db' \<equiv> notification_deliveries_update (update_where p f) db"
  shows "notifications_ok db' \<and> notifications_grow db db'"
proof -
  have "map nd_operation_id (update_where p f (notification_deliveries db)) = map nd_operation_id (notification_deliveries db)"
    unfolding update_where_def map_map by (rule map_cong) (auto dest: later simp: delivery_later_def)
  moreover have "distinct (map nd_session_id (filter outstanding (update_where p f (notification_deliveries db))))"
    using filter_outstanding_update [of "notification_deliveries db" p f] ok later
    by (auto simp: notifications_ok_def delivery_later_def)
  moreover have "covers (f d) n" if "covers d n" "d \<in> set (notification_deliveries db)" "p d" for d n
    using that later [of d] by (simp add: covers_def delivery_later_def)
  ultimately have "notifications_ok db'"
    using ok unfolding notifications_ok_def db'_def by (fastforce simp: set_update_where)
  moreover have "grows delivery_later (notification_deliveries db) (update_where p f (notification_deliveries db))"
    by (rule grows_update_rows) (simp_all add: later)
  ultimately show ?thesis by (simp add: db'_def notifications_grow_def grows_refl)
qed

lemma delivery_append:
  assumes ok: "notifications_ok db" and fresh: "nd_operation_id d \<notin> nd_operation_id ` set (notification_deliveries db)"
    and alone: "\<not> has_outstanding db (nd_session_id d)" and n: "n \<in> set (foreground_notifications db)" "covers d n"
  defines "db' \<equiv> notification_deliveries_update (\<lambda>rows. rows @ [d]) db"
  shows "notifications_ok db' \<and> notifications_grow db db'"
proof -
  have "nd_session_id d \<notin> nd_session_id ` set (filter outstanding (notification_deliveries db))"
    using alone by (auto simp: has_outstanding_def)
  then show ?thesis
    using ok fresh n by (auto simp: notifications_ok_def db'_def notifications_grow_def grows_refl intro: grows_append)
qed

subsection \<open>The operations keep it\<close>

lemma max_after_set: "max_after c xs = (if {x \<in> set xs. c < x} = {} then c else Max {x \<in> set xs. c < x})"
  by (auto simp: max_after_def Let_def filter_empty_conv)

lemma max_after_in: "max_after c xs = c \<or> c < max_after c xs \<and> max_after c xs \<in> set xs"
proof (cases "{x \<in> set xs. c < x} = {}")
  case False
  then have "Max {x \<in> set xs. c < x} \<in> {x \<in> set xs. c < x}" by (intro Max_in) auto
  with False show ?thesis by (simp add: max_after_set)
qed (simp add: max_after_set)

lemma max_after_ge: "c \<le> max_after c xs"
  using max_after_in [of c xs] by auto

lemma max_after_upper:
  assumes "x \<in> set xs"
  shows "x \<le> max_after c xs"
proof (cases "c < x")
  case True
  then have "x \<le> Max {x \<in> set xs. c < x}" by (intro Max_ge) (use assms in auto)
  with True assms show ?thesis by (auto simp: max_after_set)
next
  case False
  then show ?thesis using max_after_ge [of c xs] by simp
qed

lemma max_after_le: "c \<le> b \<Longrightarrow> (\<And>x. x \<in> set xs \<Longrightarrow> x \<le> b) \<Longrightarrow> max_after c xs \<le> b"
  using max_after_in [of c xs] by auto

lemma event_le_highest: "x \<in> set (events db) \<Longrightarrow> ev_run_id x = run \<Longrightarrow> ev_sequence x \<le> highest_event db run"
  unfolding highest_event_def by (rule max_or_zero_ge) auto

lemma message_le_highest:
  "m \<in> set (messages db) \<Longrightarrow> ms_run_id m = run \<Longrightarrow> ms_recipient_agent_id m = agent
    \<Longrightarrow> ms_sequence m \<le> highest_message db run agent"
  unfolding highest_message_def by (rule max_or_zero_ge) auto

lemma find_notification_in: "find_notification db s = Some n \<Longrightarrow> n \<in> set (foreground_notifications db) \<and> own_row s n"
  by (auto simp: find_notification_def dest: find_Some_in)

lemma own_row_unique:
  assumes "notifications_ok db" "n \<in> set (foreground_notifications db)" "own_row s n" "n' \<in> set (foreground_notifications db)"
    "own_row s n'"
  shows "n' = n"
  using assms by (auto simp: notifications_ok_def own_row_def distinct_map inj_on_def)

lemma delivery_unique:
  assumes "notifications_ok db" "d \<in> set (notification_deliveries db)" "d' \<in> set (notification_deliveries db)"
    "nd_operation_id d' = nd_operation_id d"
  shows "d' = d"
  using assms by (auto simp: notifications_ok_def distinct_map inj_on_def)

text \<open>What a pending notification says: the cursors of the notice reach every update after the old ones.\<close>

lemma pending_notificationE:
  assumes "pending_notification e db s progress = Some (thread, es, ms)"
  obtains n where "find_notification db s = Some n" "fn_thread_id n = Some thread" "notifications_live db s"
    "\<not> has_outstanding db (sc_session_id s)" "fn_event_cursor n \<le> es" "fn_message_cursor n \<le> ms"
    "fn_event_cursor n < es \<or> fn_message_cursor n < ms"
    "ms = max_after (fn_message_cursor n) (map ms_sequence (filter (unread s) (messages db)))"
    "es = (if progress then max_after (fn_event_cursor n) (map ev_sequence (filter (wakes e s) (events db)))
      else fn_event_cursor n)"
proof -
  from assms obtain n where n: "find_notification db s = Some n" "fn_thread_id n = Some thread" "notifications_live db s"
    "\<not> has_outstanding db (sc_session_id s)"
    by (auto simp: pending_notification_def Let_def split: option.splits if_splits)
  let ?ms = "max_after (fn_message_cursor n) (map ms_sequence (filter (unread s) (messages db)))"
  let ?es = "if progress then max_after (fn_event_cursor n) (map ev_sequence (filter (wakes e s) (events db)))
      else fn_event_cursor n"
  from assms n have cs: "fn_message_cursor n < ?ms \<or> fn_event_cursor n < ?es" "es = ?es" "ms = ?ms"
    by (simp_all add: pending_notification_def Let_def split: if_split_asm)
  show thesis
    by (rule that [OF n _ _ _ cs(3,2)]) (use cs max_after_ge in auto)
qed

text \<open>A session is notified under the scope it has: nobody else can use its row.\<close>

lemma scope_is_own:
  assumes "store_ok db" "notifications_ok db" "session_scope_is_current db s"
    and "n \<in> set (foreground_notifications db)" "own_row s n"
  shows "fn_scope n = s"
proof -
  obtain x where x: "x \<in> set (sessions db)" "scope_row (fn_scope n) x"
    using assms(2,4) by (auto simp: notifications_ok_def)
  obtain y where y: "y \<in> set (sessions db)" "scope_row s y"
    using assms(3) by (auto simp: session_scope_is_current_def scope_row_def)
  have "distinct (map se_id (sessions db))" using assms(1) by (simp add: store_ok_def keys_ok_def)
  with x y assms(5) have "x = y" by (auto simp: distinct_map inj_on_def scope_row_def own_row_def)
  with x y show ?thesis by (cases s; cases "fn_scope n") (simp add: scope_row_def)
qed

lemma notifications_keeps:
  assumes "notifications_ok db" "notifications_grow db db"
  shows "notifications_ok db \<and> notifications_grow db db"
  using assms by simp

lemma enable_notifications_keeps:
  assumes ok: "store_ok db" and n: "notifications_ok db" and run: "enable_notifications s db = Inr (u, db')"
  shows "notifications_ok db' \<and> notifications_grow db db'"
proof (cases "db' = db")
  case False
  let ?n = "\<lparr>fn_scope = s, fn_thread_id = None, fn_event_cursor = highest_event db (sc_run_id s), fn_message_cursor = 0\<rparr>"
  from run False have fresh: "find_notification db s = None" and current: "session_scope_is_current db s"
    and row: "notification_row_ok db ?n"
    and db': "db' = foreground_notifications_update (\<lambda>rows. rows @ [?n]) db"
    by (auto simp: enable_notifications_def insert_row_Inr split: if_splits)
  have "sc_session_id s \<notin> (\<lambda>n. sc_session_id (fn_scope n)) ` set (foreground_notifications db)"
    using fresh by (auto simp: find_notification_def find_None_all own_row_def)
  moreover have "cursors_ok db ?n"
  proof -
    have "0 \<le> highest_message db r a" for r a
    proof (cases "filter (\<lambda>m. ms_run_id m = r \<and> ms_recipient_agent_id m = a) (messages db) = []")
      case False
      have "map ms_sequence (inbox db r a) = map int [1..<Suc (length (inbox db r a))]"
        using ok by (simp add: store_ok_def inboxes_ok_def)
      then have "highest_message db r a = max_or_zero (map int [1..<Suc (length (inbox db r a))])"
        by (simp only: highest_message_def inbox_def)
      then show ?thesis by (simp only: max_or_zero_upto)
    qed (simp add: highest_message_def)
    then show ?thesis using row by (simp add: cursors_ok_def notification_row_ok_def)
  qed
  moreover have "exists_row (scope_row s) (sessions db)"
    using current by (auto simp: session_scope_is_current_def scope_row_def)
  ultimately have "notifications_ok db'"
    using n unfolding notifications_ok_def db' by (auto simp del: exists_row_iff) 
  then show ?thesis by (auto simp: db' notifications_grow_def grows_refl intro: grows_append)
qed (simp add: n)

lemma bind_notifications_keeps:
  assumes n: "notifications_ok db" and run: "bind_notifications s thread db = Inr (b, db')"
  shows "notifications_ok db' \<and> notifications_grow db db'"
proof (cases "db' = db")
  case False
  with run have db': "db' = foreground_notifications_update (update_where (bindable s thread)
      (\<lambda>n. n\<lparr>fn_thread_id := Some thread\<rparr>)) db"
    by (auto simp: bind_notifications_def seq_Inr_iff split: if_splits)
  show ?thesis
    unfolding db'
  proof (rule notifications_update [OF n])
    fix n assume "n \<in> set (foreground_notifications db)" "bindable s thread n"
    with n show "notification_later n (n\<lparr>fn_thread_id := Some thread\<rparr>) \<and> cursors_ok db (n\<lparr>fn_thread_id := Some thread\<rparr>)"
      by (auto simp: notification_later_def bindable_def notifications_ok_def cursors_ok_def)
  qed
qed (simp add: n)

lemma set_cursors_Inr:
  "set_cursors s es ms db = Inr (u, db') \<longleftrightarrow>
     (find_notification db s = None \<or> 0 \<le> es \<and> 0 \<le> ms)
     \<and> db' = foreground_notifications_update (update_where (own_row s)
         (\<lambda>n. n\<lparr>fn_event_cursor := es, fn_message_cursor := ms\<rparr>)) db"
  by (auto simp: set_cursors_def seq_Inr_iff)

lemma cursors_forward:
  assumes ok: "store_ok db" and n: "notifications_ok db" and current: "session_scope_is_current db s"
    and forward: "\<And>n. n \<in> set (foreground_notifications db) \<Longrightarrow> own_row s n \<Longrightarrow>
      fn_event_cursor n \<le> es \<and> fn_message_cursor n \<le> ms"
    and bounded: "es \<le> highest_event db (sc_run_id s)" "ms \<le> highest_message db (sc_run_id s) (sc_agent_id s)"
  defines "db' \<equiv> foreground_notifications_update (update_where (own_row s)
         (\<lambda>n. n\<lparr>fn_event_cursor := es, fn_message_cursor := ms\<rparr>)) db"
  shows "notifications_ok db' \<and> notifications_grow db db'"
  unfolding db'_def
proof (rule notifications_update [OF n])
  fix x assume x: "x \<in> set (foreground_notifications db)" "own_row s x"
  have "fn_scope x = s" by (rule scope_is_own [OF ok n current x])
  moreover have "0 \<le> fn_event_cursor x" "0 \<le> fn_message_cursor x"
    using n x by (auto simp: notifications_ok_def cursors_ok_def)
  ultimately show "notification_later x (x\<lparr>fn_event_cursor := es, fn_message_cursor := ms\<rparr>)
      \<and> cursors_ok db (x\<lparr>fn_event_cursor := es, fn_message_cursor := ms\<rparr>)"
    using forward [OF x] bounded by (simp add: notification_later_def cursors_ok_def)
qed

lemma claim_notification_cases:
  assumes run: "claim_notification e s i progress now db = Inr (c, db')"
  obtains (unchanged) "db' = db" "c = None \<or> find_delivery db s i \<noteq> None"
  | (claimed) thread es ms d where "pending_notification e db s progress = Some (thread, es, ms)"
      "find_delivery db s i = None \<or> find_notification db s = None"
      "d = \<lparr>nd_operation_id = i, nd_session_id = sc_session_id s, nd_event_cursor = es,
         nd_message_cursor = ms, nd_state = ''attempting'', nd_created_at = now, nd_observed_at = None,
         nd_receipt_state = ''pending'', nd_received_at = None\<rparr>"
      "delivery_row_ok db d" "0 \<le> es \<and> 0 \<le> ms"
      "db' = notification_deliveries_update (\<lambda>rows. rows @ [d])
         (foreground_notifications_update (update_where (own_row s)
           (\<lambda>n. n\<lparr>fn_event_cursor := es, fn_message_cursor := ms\<rparr>)) db)"
      "c = Some \<lparr>nc_operation_id = i, nc_thread_id = thread\<rparr>"
proof (cases "pending_notification e db s progress")
  case None
  with run have "db' = db" "c = None \<or> find_delivery db s i \<noteq> None"
    by (auto simp: claim_notification_def claimed_thread_def split: if_splits option.splits)
  then show thesis by (rule unchanged)
next
  case (Some p)
  obtain thread es ms where p: "pending_notification e db s progress = Some (thread, es, ms)"
    using Some by (cases p) auto
  obtain n where n: "find_notification db s = Some n" "notifications_live db s"
    by (rule pending_notificationE [OF p]) (rule that)
  show thesis
  proof (cases "claimed_thread db s i")
    case None
    have "find_notification (notification_deliveries_update f db) s = Some n" for f
      using n by (simp add: find_notification_def)
    moreover have "find_delivery db s i = None"
      using None n by (auto simp: claimed_thread_def split: option.splits)
    moreover define d where "d = \<lparr>nd_operation_id = i, nd_session_id = sc_session_id s, nd_event_cursor = es,
         nd_message_cursor = ms, nd_state = ''attempting'', nd_created_at = now, nd_observed_at = None,
         nd_receipt_state = ''pending'', nd_received_at = None\<rparr>"
    ultimately have "find_delivery db s i = None" "delivery_row_ok db d" "0 \<le> es \<and> 0 \<le> ms"
      "db' = notification_deliveries_update (\<lambda>rows. rows @ [d])
         (foreground_notifications_update (update_where (own_row s)
           (\<lambda>n. n\<lparr>fn_event_cursor := es, fn_message_cursor := ms\<rparr>)) db)"
      "c = Some \<lparr>nc_operation_id = i, nc_thread_id = thread\<rparr>"
      using run p n None
      by (auto simp: claim_notification_def insert_delivery_def insert_row_Inr seq_Inr_iff set_cursors_Inr)
    with p show thesis by (intro claimed [of thread es ms d]) (simp_all add: d_def)
  next
    case (Some t)
    with run n have "db' = db" "find_delivery db s i \<noteq> None"
      by (auto simp: claim_notification_def claimed_thread_def split: option.splits)
    then show thesis by (intro unchanged) simp_all
  qed
qed

lemma claim_notification_keeps:
  assumes ok: "store_ok db" and n: "notifications_ok db"
    and run: "claim_notification e s i progress now db = Inr (c, db')"
  shows "notifications_ok db' \<and> notifications_grow db db'"
  using run
proof (cases rule: claim_notification_cases)
  case unchanged
  with n show ?thesis by simp
next
  case (claimed thread es ms d)
  obtain x where x: "find_notification db s = Some x" "fn_thread_id x = Some thread" "notifications_live db s"
    "\<not> has_outstanding db (sc_session_id s)" "fn_event_cursor x \<le> es" "fn_message_cursor x \<le> ms"
    and ms: "ms = max_after (fn_message_cursor x) (map ms_sequence (filter (unread s) (messages db)))"
    and es: "es = (if progress then max_after (fn_event_cursor x) (map ev_sequence (filter (wakes e s) (events db)))
      else fn_event_cursor x)"
    by (rule pending_notificationE [OF claimed(1)]) (rule that)
  have current: "session_scope_is_current db s" using x(3) by (simp add: notifications_live_def)
  note row = find_notification_in [OF x(1)]
  have scope: "fn_scope x = s" by (rule scope_is_own [OF ok n current]) (use row in simp_all)
  have old: "fn_event_cursor x \<le> highest_event db (sc_run_id s)"
    "fn_message_cursor x \<le> highest_message db (sc_run_id s) (sc_agent_id s)"
    using n row scope by (auto simp: notifications_ok_def cursors_ok_def)
  have es': "es \<le> highest_event db (sc_run_id s)"
    using old(1) by (auto simp: es wakes_def intro!: max_after_le event_le_highest)
  have ms': "ms \<le> highest_message db (sc_run_id s) (sc_agent_id s)"
    using old(2) by (auto simp: ms unread_def intro!: max_after_le message_le_highest)
  let ?f = "\<lambda>n. n\<lparr>fn_event_cursor := es, fn_message_cursor := ms\<rparr>"
  let ?mid = "foreground_notifications_update (update_where (own_row s) ?f) db"
  have mid: "notifications_ok ?mid \<and> notifications_grow db ?mid"
  proof (rule cursors_forward [OF ok n current _ es' ms'])
    fix y assume "y \<in> set (foreground_notifications db)" "own_row s y"
    then have "y = x" using own_row_unique [OF n] row by blast
    then show "fn_event_cursor y \<le> es \<and> fn_message_cursor y \<le> ms" using x(5,6) by simp
  qed
  have "notifications_ok (notification_deliveries_update (\<lambda>rows. rows @ [d]) ?mid)
      \<and> notifications_grow ?mid (notification_deliveries_update (\<lambda>rows. rows @ [d]) ?mid)"
  proof (rule delivery_append)
    show "notifications_ok ?mid" using mid by simp
    show "nd_operation_id d \<notin> nd_operation_id ` set (notification_deliveries ?mid)"
      using claimed(4) by (simp add: delivery_row_ok_def)
    show "\<not> has_outstanding ?mid (nd_session_id d)" using x(4) claimed(3) by (simp add: has_outstanding_def)
    show "?f x \<in> set (foreground_notifications ?mid)" using row by (auto simp: set_update_where)
    show "covers d (?f x)" using claimed(3) x(2) row by (simp add: covers_def own_row_def)
  qed
  with mid show ?thesis using claimed(6) notifications_grow_trans by blast
qed

lemma observe_notification_keeps:
  assumes n: "notifications_ok db" and run: "observe_notification s i outcome now db = Inr (u, db')"
  shows "notifications_ok db' \<and> notifications_grow db db'"
proof (cases "db' = db")
  case False
  with run have db': "db' = notification_deliveries_update (update_where
       (\<lambda>d. nd_operation_id d = i \<and> nd_session_id d = sc_session_id s \<and> nd_state d = ''attempting'')
       (\<lambda>d. d\<lparr>nd_state := queue_outcome_str outcome, nd_observed_at := Some now\<rparr>)) db"
    by (auto simp: observe_notification_def split: if_splits)
  show ?thesis
    unfolding db' by (rule deliveries_update [OF n]) (auto simp: delivery_later_def outstanding_def)
qed (simp add: n)

lemma receive_notification_cases:
  assumes run: "receive_notification s i now db = Inr (b, db')"
  obtains (unchanged) "db' = db" "b \<longleftrightarrow> notifications_live db s \<and> receipt_of db s i = Some ''received''"
  | (received) d where "b" "notifications_live db s" "d \<in> set (notification_deliveries db)" "nd_operation_id d = i"
      "nd_session_id d = sc_session_id s" "nd_state d \<in> {''attempting'', ''accepted''}" "nd_receipt_state d = ''pending''"
      "db' = foreground_notifications_update (update_where (own_row s)
         (\<lambda>n. n\<lparr>fn_event_cursor := highest_event db (sc_run_id s),
                 fn_message_cursor := highest_message db (sc_run_id s) (sc_agent_id s)\<rparr>))
        (notification_deliveries_update (update_where (\<lambda>d. nd_operation_id d = i)
          (\<lambda>d. d\<lparr>nd_receipt_state := ''received'', nd_received_at := Some now\<rparr>)) db)"
proof (cases "notifications_live db s \<and> receipt_of db s i = Some ''pending''")
  case True
  then obtain d where d: "d \<in> set (notification_deliveries db)" "nd_operation_id d = i"
      "nd_session_id d = sc_session_id s" "nd_state d \<in> {''attempting'', ''accepted''}" "nd_receipt_state d = ''pending''"
    by (auto simp: receipt_of_def dest!: find_Some_in)
  show thesis
    using run True by (intro received [OF _ _ d]) (auto simp: receive_notification_def seq_Inr_iff set_cursors_Inr)
next
  case False
  with run show thesis
    by (intro unchanged) (auto simp: receive_notification_def split: if_splits)
qed

lemma receive_notification_keeps:
  assumes ok: "store_ok db" and n: "notifications_ok db" and run: "receive_notification s i now db = Inr (b, db')"
  shows "notifications_ok db' \<and> notifications_grow db db'"
  using run
proof (cases rule: receive_notification_cases)
  case unchanged
  with n show ?thesis by simp
next
  case (received d)
  let ?f = "\<lambda>d. d\<lparr>nd_receipt_state := ''received'', nd_received_at := Some now\<rparr>"
  let ?mid = "notification_deliveries_update (update_where (\<lambda>d. nd_operation_id d = i) ?f) db"
  have mid: "notifications_ok ?mid \<and> notifications_grow db ?mid"
  proof (rule deliveries_update [OF n])
    fix x assume x: "x \<in> set (notification_deliveries db)" "nd_operation_id x = i"
    have "x = d" by (rule delivery_unique [OF n received(3) x(1)]) (simp add: x received)
    with received(7) show "delivery_later x (?f x) \<and> (outstanding (?f x) \<longrightarrow> outstanding x)"
      by (simp add: delivery_later_def outstanding_def)
  qed
  have current: "session_scope_is_current db s" using received(2) by (simp add: notifications_live_def)
  have "store_ok ?mid" using ok by simp
  moreover have "session_scope_is_current ?mid s" using current by simp
  moreover have "fn_event_cursor x \<le> highest_event ?mid (sc_run_id s)
      \<and> fn_message_cursor x \<le> highest_message ?mid (sc_run_id s) (sc_agent_id s)"
    if "x \<in> set (foreground_notifications ?mid)" "own_row s x" for x
  proof -
    have "fn_scope x = s" by (rule scope_is_own [OF ok n current]) (use that in simp_all)
    with n that show ?thesis by (auto simp: notifications_ok_def cursors_ok_def)
  qed
  ultimately have "notifications_ok db' \<and> notifications_grow ?mid db'"
    using cursors_forward [of ?mid s "highest_event ?mid (sc_run_id s)" "highest_message ?mid (sc_run_id s) (sc_agent_id s)"]
      mid received(8) by simp
  with mid show ?thesis using notifications_grow_trans by blast
qed

lemma safe_enable_notifications [safe_intros]: "safe (enable_notifications s)"
  unfolding enable_notifications_def by (intro safe_intros safe_insert_row) simp

lemma safe_bind_notifications [safe_intros]: "safe (bind_notifications s thread)"
  unfolding bind_notifications_def by (intro safe_intros safe_modify) simp

lemma safe_set_cursors [safe_intros]: "safe (set_cursors s es ms)"
  unfolding set_cursors_def by (intro safe_intros safe_modify) simp

lemma safe_claim_notification [safe_intros]: "safe (claim_notification e s i progress now)"
  unfolding claim_notification_def insert_delivery_def
  by (auto split: option.split prod.split intro!: safe_intros safe_insert_row)

lemma safe_observe_notification [safe_intros]: "safe (observe_notification s i outcome now)"
  unfolding observe_notification_def by (intro safe_intros safe_modify) simp

lemma safe_receive_notification [safe_intros]: "safe (receive_notification s i now)"
  unfolding receive_notification_def
  by (auto split: prod.split intro!: safe_intros safe_modify)

subsection \<open>The notifications of a run over time\<close>

text \<open>
  A step is one of the operations above, or a change to the rest of the database that keeps its
  history and the identity of the sessions, which the foreign key of the notifications protects.
\<close>

text \<open>What the cursors count: events are only appended and messages only acknowledged.\<close>

definition logs_extend :: "Db \<Rightarrow> Db \<Rightarrow> bool" where
  "logs_extend db db' \<longleftrightarrow>
     prefix (events db) (events db') \<and> grows message_later (messages db) (messages db')"

lemma extends_logs: "extends db db' \<Longrightarrow> logs_extend db db'"
  by (simp add: extends_def logs_extend_def)

inductive notification_step :: "Env \<Rightarrow> Db \<Rightarrow> Db \<Rightarrow> bool" for e where
  Enable: "enable_notifications s db = Inr ((), db') \<Longrightarrow> notification_step e db db'"
| Bind: "bind_notifications s thread db = Inr (bound, db') \<Longrightarrow> notification_step e db db'"
| Claim: "claim_notification e s i progress now db = Inr (claim, db') \<Longrightarrow> notification_step e db db'"
| Observe: "observe_notification s i outcome now db = Inr ((), db') \<Longrightarrow> notification_step e db db'"
| Receive: "receive_notification s i now db = Inr (received, db') \<Longrightarrow> notification_step e db db'"
| Elsewhere: "store_ok db' \<Longrightarrow> logs_extend db db'
    \<Longrightarrow> foreground_notifications db' = foreground_notifications db
    \<Longrightarrow> notification_deliveries db' = notification_deliveries db
    \<Longrightarrow> \<forall>s. exists_row (scope_row s) (sessions db) \<longrightarrow> exists_row (scope_row s) (sessions db')
    \<Longrightarrow> notification_step e db db'"

lemma highest_event_log:
  assumes "store_ok db"
  shows "highest_event db run = int (length (run_log db run))"
proof -
  have "map ev_sequence (run_log db run) = map int [1..<Suc (length (run_log db run))]"
    using assms by (simp add: store_ok_def log_ok_def)
  then show ?thesis by (simp only: highest_event_def flip: run_log_def) (simp only: max_or_zero_upto)
qed

lemma highest_message_inbox:
  assumes "store_ok db"
  shows "highest_message db run agent = int (length (inbox db run agent))"
proof -
  have "map ms_sequence (inbox db run agent) = map int [1..<Suc (length (inbox db run agent))]"
    using assms by (simp add: store_ok_def inboxes_ok_def)
  then show ?thesis by (simp only: highest_message_def flip: inbox_def) (simp only: max_or_zero_upto)
qed

lemma highest_event_mono:
  assumes "store_ok db" "store_ok db'" "logs_extend db db'"
  shows "highest_event db run \<le> highest_event db' run"
  using assms by (auto simp: highest_event_log logs_extend_def run_log_def prefix_def)

lemma message_later_same:
  "message_later x y \<Longrightarrow> ms_run_id y = ms_run_id x \<and> ms_recipient_agent_id y = ms_recipient_agent_id x
    \<and> ms_sequence y = ms_sequence x"
  by (cases x; cases y) (auto simp: message_later_def)

lemma highest_message_mono:
  assumes ok: "store_ok db" "store_ok db'" and ext: "logs_extend db db'"
  shows "highest_message db run agent \<le> highest_message db' run agent"
proof (cases "inbox db run agent = []")
  case True
  then show ?thesis by (simp add: highest_message_inbox ok)
next
  case False
  let ?ms = "map ms_sequence (inbox db run agent)"
  have "max_or_zero ?ms \<in> set ?ms" by (rule max_or_zero_in) (simp add: False)
  then obtain m where m: "m \<in> set (messages db)" "ms_run_id m = run" "ms_recipient_agent_id m = agent"
    "ms_sequence m = highest_message db run agent"
    by (auto simp: inbox_def highest_message_def)
  then obtain m' where "m' \<in> set (messages db')" "message_later m m'"
    using ext by (auto simp: logs_extend_def grows_def)
  then have "ms_sequence m \<le> highest_message db' run agent"
    using m message_later_same [of m m'] message_le_highest [of m' db' run agent] by simp
  with m show ?thesis by simp
qed

lemma notification_step_keeps:
  assumes "notification_step e db db'" "store_ok db" "notifications_ok db"
  shows "store_ok db' \<and> notifications_ok db' \<and> notifications_grow db db'"
  using assms
proof cases
  case (Elsewhere)
  have "cursors_ok db' n" if "cursors_ok db n" for n
    using that highest_event_mono [OF assms(2) Elsewhere(1,2), of "sc_run_id (fn_scope n)"]
      highest_message_mono [OF assms(2) Elsewhere(1,2), of "sc_run_id (fn_scope n)" "sc_agent_id (fn_scope n)"]
    by (auto simp: cursors_ok_def)
  then have "notifications_ok db'"
    using assms(3) Elsewhere(3,4,5) by (auto simp: notifications_ok_def simp del: exists_row_iff)
  with Elsewhere show ?thesis by (simp add: notifications_grow_def grows_refl)
next
  case (Enable s)
  then show ?thesis using safeD [OF safe_enable_notifications] enable_notifications_keeps assms(2,3) by blast
next
  case (Bind s thread bound)
  then show ?thesis using safeD [OF safe_bind_notifications] bind_notifications_keeps assms(2,3) by blast
next
  case (Claim s i progress now claim)
  then show ?thesis using safeD [OF safe_claim_notification] claim_notification_keeps assms(2,3) by blast
next
  case (Observe s i outcome now)
  then show ?thesis using safeD [OF safe_observe_notification] observe_notification_keeps assms(2,3) by blast
next
  case (Receive s i now received)
  then show ?thesis using safeD [OF safe_receive_notification] receive_notification_keeps assms(2,3) by blast
qed

lemma notification_steps_keep:
  assumes "(notification_step e)\<^sup>*\<^sup>* db db'" "store_ok db" "notifications_ok db"
  shows "store_ok db' \<and> notifications_ok db' \<and> notifications_grow db db'"
  using assms
proof (induction rule: rtranclp_induct)
  case base
  then show ?case by simp
next
  case (step y z)
  then show ?case using notification_step_keeps [OF step.hyps(2)] notifications_grow_trans by blast
qed

lemma outstanding_unique:
  assumes "notifications_ok db" "d \<in> set (notification_deliveries db)" "d' \<in> set (notification_deliveries db)"
    "outstanding d" "outstanding d'" "nd_session_id d = nd_session_id d'"
  shows "d = d'"
  using assms by (auto simp: notifications_ok_def distinct_map inj_on_def)

subsection \<open>Claims and receipts\<close>

lemma find_notification_update:
  "(\<And>n. fn_scope (f n) = fn_scope n) \<Longrightarrow>
   find_notification (foreground_notifications_update (update_where (own_row s) f) db) s
     = map_option f (find_notification db s)"
  by (auto simp: find_notification_def find_update_where own_row_def map_option_case split: option.splits
      dest: find_Some_in)

lemma pending_not_outstanding: "has_outstanding db (sc_session_id s) \<Longrightarrow> pending_notification e db s progress = None"
  by (simp add: pending_notification_def)

text \<open>
  Property C22. A notice is claimed once and covers every update there is. A new claim is only
  made for a live foreground session with a bound thread and no outstanding delivery; its intent
  is stored before the provider is called, with cursors at or past every unread message of the
  recipient and, for a coordinator that may read the progress, every event that wakes it; no
  message is acknowledged by it. Asking again with the same operation gives the same claim, and
  no other delivery is claimed for the session while this one is outstanding.
\<close>

theorem claimed_notice_covers_every_update:
  assumes run: "claim_notification e s i progress now db = Inr (Some c, db')" and new: "find_delivery db s i = None"
  shows "notifications_live db s \<and> \<not> has_outstanding db (sc_session_id s) \<and> nc_operation_id c = i
    \<and> (\<exists>n. find_notification db s = Some n \<and> fn_thread_id n = Some (nc_thread_id c))
    \<and> messages db' = messages db
    \<and> (\<exists>d. find_delivery db' s i = Some d \<and> nd_state d = ''attempting'' \<and> nd_receipt_state d = ''pending''
        \<and> (\<forall>m \<in> set (messages db). unread s m \<longrightarrow> ms_sequence m \<le> nd_message_cursor d)
        \<and> (progress \<longrightarrow> (\<forall>x \<in> set (events db). wakes e s x \<longrightarrow> ev_sequence x \<le> nd_event_cursor d)))
    \<and> (\<forall>p t. claim_notification e s i p t db' = Inr (Some c, db'))
    \<and> (\<forall>j p t. find_delivery db s j = None \<and> j \<noteq> i \<longrightarrow> claim_notification e s j p t db' = Inr (None, db'))"
  using run
proof (cases rule: claim_notification_cases)
  case unchanged
  with new show ?thesis by simp
next
  case (claimed thread es ms d)
  let ?f = "\<lambda>n. n\<lparr>fn_event_cursor := es, fn_message_cursor := ms\<rparr>"
  obtain x where x: "find_notification db s = Some x" "fn_thread_id x = Some thread" "notifications_live db s"
    "\<not> has_outstanding db (sc_session_id s)"
    and ms: "ms = max_after (fn_message_cursor x) (map ms_sequence (filter (unread s) (messages db)))"
    and es: "es = (if progress then max_after (fn_event_cursor x) (map ev_sequence (filter (wakes e s) (events db)))
      else fn_event_cursor x)"
    by (rule pending_notificationE [OF claimed(1)]) (rule that)
  have c: "nc_operation_id c = i" "nc_thread_id c = thread" "c = \<lparr>nc_operation_id = i, nc_thread_id = thread\<rparr>"
    using claimed(7) by simp_all
  have d: "find_delivery db' s i = Some d" using new by (simp add: find_delivery_def claimed(3,6) find_append)
  have row: "find_notification db' s = Some (?f x)"
    using find_notification_update [of ?f s db] x(1) by (simp add: claimed(6) find_notification_def)
  have out: "has_outstanding db' (sc_session_id s)"
    by (simp add: has_outstanding_def claimed(3,6) outstanding_def)
  have live: "notifications_live db' s" using x(3) by (simp add: claimed(6))
  have "ms_sequence m \<le> nd_message_cursor d" if "m \<in> set (messages db)" "unread s m" for m
    using that by (auto simp: claimed(3) ms intro!: max_after_upper)
  moreover have "ev_sequence y \<le> nd_event_cursor d" if "y \<in> set (events db)" "wakes e s y" progress for y
    using that by (auto simp: claimed(3) es intro!: max_after_upper)
  moreover have "claim_notification e s i p t db' = Inr (Some c, db')" for p t
    using live d row x(2) c(3) by (simp add: claim_notification_def claimed_thread_def)
  moreover have "claim_notification e s j p t db' = Inr (None, db')" if "find_delivery db s j = None" "j \<noteq> i" for j p t
  proof -
    have "find_delivery db' s j = None" using that by (simp add: find_delivery_def claimed(3,6) find_append)
    then show ?thesis
      using live pending_not_outstanding [OF out] by (simp add: claim_notification_def claimed_thread_def)
  qed
  ultimately show ?thesis
    using x c d by (simp add: claimed(3,6))
qed

lemma pending_iff:
  assumes "notifications_live db s" "find_notification db s = Some n" "fn_thread_id n \<noteq> None"
    and "\<not> has_outstanding db (sc_session_id s)"
  shows "notification_pending e db s progress \<longleftrightarrow>
    (\<exists>m \<in> set (messages db). unread s m \<and> fn_message_cursor n < ms_sequence m)
    \<or> progress \<and> (\<exists>x \<in> set (events db). wakes e s x \<and> fn_event_cursor n < ev_sequence x)"
proof -
  have after: "c < max_after c xs \<longleftrightarrow> (\<exists>x \<in> set xs. c < x)" for c xs
    using max_after_in [of c xs] max_after_upper [of _ xs c] by force
  show ?thesis
    using assms by (auto simp: notification_pending_def pending_notification_def Let_def after split: if_splits)
qed

lemma message_inserted:
  "insert_message m db = Inr (u, db') \<longleftrightarrow> message_row_ok db m \<and> db' = messages_update (\<lambda>rows. rows @ [m]) db"
  by (auto simp: insert_message_def insert_row_Inr)

lemma live_messages [simp]:
  "notifications_live (messages_update f db) s = notifications_live db s"
  "find_notification (messages_update f db) s = find_notification db s"
  "has_outstanding (messages_update f db) i = has_outstanding db i"
  "receipt_of (messages_update f db) s j = receipt_of db s j"
  by (simp_all add: notifications_live_def session_scope_is_current_def session_recovered_def
      find_run_shutdown_def session_controls_of_run_def find_session_def find_notification_def has_outstanding_def
      receipt_of_def)

text \<open>
  A receipt consumes the updates that were there, and no later one. A delivery
  that is attempted or accepted is received, once: the first receipt moves the cursors to the
  newest update, so that nothing is pending for the recipient, who reads them now, and every
  later receipt of the same delivery changes nothing. When the delivery is settled, the next
  message to the recipient is pending, whatever receipts of earlier deliveries are repeated.
\<close>

lemma receipt_consumes_only_earlier_updates:
  assumes n: "notifications_ok db" and live: "notifications_live db s"
    and run: "receive_notification s i now db = Inr (b, db')"
  shows "(b \<longleftrightarrow> receipt_of db s i \<in> {Some ''pending'', Some ''received''})
    \<and> (receipt_of db s i \<noteq> Some ''pending'' \<longrightarrow> db' = db)
    \<and> (receipt_of db s i = Some ''pending'' \<longrightarrow> (\<forall>e progress. \<not> notification_pending e db' s progress))
    \<and> (b \<longrightarrow> (\<forall>later. receive_notification s i later db' = Inr (True, db')))
    \<and> (\<forall>m db'' e progress. insert_message m db' = Inr ((), db'') \<and> unread s m
          \<and> ms_sequence m = highest_message db' (sc_run_id s) (sc_agent_id s) + 1
          \<and> b \<and> \<not> has_outstanding db' (sc_session_id s)
        \<longrightarrow> (receipt_of db s i = Some ''pending'' \<longrightarrow> notification_pending e db'' s progress)
          \<and> (\<forall>j later. receipt_of db'' s j = Some ''received''
                \<longrightarrow> receive_notification s j later db'' = Inr (True, db'')))"
proof -
  have fresh: ?thesis if received: "receipt_of db s i = Some ''pending''"
  proof -
    let ?f = "\<lambda>n. n\<lparr>fn_event_cursor := highest_event db (sc_run_id s),
        fn_message_cursor := highest_message db (sc_run_id s) (sc_agent_id s)\<rparr>"
    let ?g = "\<lambda>d. d\<lparr>nd_receipt_state := ''received'', nd_received_at := Some now\<rparr>"
    let ?mid = "notification_deliveries_update (update_where (\<lambda>d. nd_operation_id d = i) ?g) db"
    have b: "b" and db': "db' = foreground_notifications_update (update_where (own_row s) ?f) ?mid"
      using run received live by (auto simp: receive_notification_def seq_Inr_iff set_cursors_Inr)
    obtain d where d: "d \<in> set (notification_deliveries db)" "nd_operation_id d = i" "nd_session_id d = sc_session_id s"
      using received by (auto simp: receipt_of_def dest!: find_Some_in)
    obtain x where "x \<in> set (foreground_notifications db)" "covers d x" using n d(1) by (auto simp: notifications_ok_def)
    then have x: "x \<in> set (foreground_notifications db)" "own_row s x" "fn_thread_id x \<noteq> None"
      using d(3) by (simp_all add: covers_def own_row_def)
    have "find_notification db s \<noteq> None" using x by (auto simp: find_notification_def find_None_all)
    then obtain y where y: "find_notification db s = Some y" by blast
    have "y = x" using own_row_unique [OF n x(1,2)] find_notification_in [OF y] by blast
    with x y have bound: "find_notification db' s = Some (?f x)" "fn_thread_id (?f x) \<noteq> None"
      using find_notification_update [of ?f s ?mid] by (simp_all add: db' find_notification_def)
    have live': "notifications_live db' s" using live by (simp add: db')
    have quiet: "\<not> notification_pending e db' s progress" for e progress
    proof (cases "has_outstanding db' (sc_session_id s)")
      case True
      then show ?thesis by (simp add: notification_pending_def pending_not_outstanding)
    next
      case False
      have "\<not> (fn_message_cursor (?f x) < ms_sequence m)" if "m \<in> set (messages db')" "unread s m" for m
        using message_le_highest [of m db "sc_run_id s" "sc_agent_id s"] that by (simp add: db' unread_def not_less)
      moreover have "\<not> (fn_event_cursor (?f x) < ev_sequence z)" if "z \<in> set (events db')" "wakes e s z" for z
        using event_le_highest [of z db "sc_run_id s"] that by (simp add: db' wakes_def not_less)
      ultimately show ?thesis using pending_iff [OF live' bound False] by blast
    qed
    have replay: "receive_notification s j later w = Inr (True, w)"
      if "notifications_live w s" "receipt_of w s j = Some ''received''" for j later w
      using that by (simp add: receive_notification_def)
    have "receipt_of db' s i = Some ''received''"
    proof -
      let ?P = "\<lambda>d. nd_operation_id d = i \<and> nd_session_id d = sc_session_id s \<and> nd_state d \<in> set [''attempting'', ''accepted'']"
      have "find ?P (notification_deliveries db') = map_option (\<lambda>d. if nd_operation_id d = i then ?g d else d)
          (find ?P (notification_deliveries db))"
        unfolding db' by (simp add: find_update_where)
      moreover obtain z where z: "find ?P (notification_deliveries db) = Some z" using received by (auto simp: receipt_of_def)
      moreover have "nd_operation_id z = i" using find_Some_in [OF z] by simp
      ultimately have "find ?P (notification_deliveries db') = Some (?g z)" by simp
      then show ?thesis unfolding receipt_of_def by (simp only: option.map) simp
    qed
    moreover have "notification_pending e db'' s progress"
      if "insert_message m db' = Inr ((), db'')" "unread s m" "ms_sequence m = highest_message db' (sc_run_id s) (sc_agent_id s) + 1"
        "\<not> has_outstanding db' (sc_session_id s)" for m db'' e progress
    proof -
      have db'': "db'' = messages_update (\<lambda>rows. rows @ [m]) db'" using that by (simp add: message_inserted)
      have "m \<in> set (messages db'')" "unread s m" "fn_message_cursor (?f x) < ms_sequence m"
        using that(2,3) by (simp_all add: db'' db')
      then show ?thesis using pending_iff [of db'' s "?f x" e progress] live' bound that(4) by (auto simp: db'')
    qed
    ultimately show ?thesis
      using b received quiet replay live' by (auto simp: message_inserted)
  qed
  show ?thesis
  proof (cases "receipt_of db s i = Some ''pending''")
    case True
    then show ?thesis by (rule fresh)
  next
    case False
    have same: "db' = db" "b \<longleftrightarrow> receipt_of db s i = Some ''received''"
      using run live False by (auto simp: receive_notification_def split: if_splits)
    then show ?thesis using False live by (auto simp: message_inserted receive_notification_def)
  qed
qed

subsection \<open>A notified coordinator\<close>

definition sample_mail :: MessageRecord where
  "sample_mail =
     \<lparr>ms_id = MessageId 1, ms_run_id = RunId 1, ms_sender_agent_id = Some (AgentId 2),
      ms_recipient_agent_id = AgentId 1, ms_sequence = 1, ms_body = ''done'', ms_created_at = 2,
      ms_acknowledged_at = None\<rparr>"

definition sample_foreground :: Db where
  "sample_foreground = sample_db
     \<lparr>sessions := [sample_session\<lparr>se_process_owner := ForegroundOwned\<rparr>], messages := [sample_mail]\<rparr>"

definition sample_thread :: string where
  "sample_thread = ''01234567-89ab-cdef-0123-456789abcdef''"

definition sample_bound :: "int \<Rightarrow> ForegroundNotification" where
  "sample_bound ms = \<lparr>fn_scope = sample_scope, fn_thread_id = Some sample_thread, fn_event_cursor = 0, fn_message_cursor = ms\<rparr>"

definition sample_delivery :: NotificationDelivery where
  "sample_delivery =
     \<lparr>nd_operation_id = OperationId 1, nd_session_id = SessionId 1, nd_event_cursor = 0, nd_message_cursor = 1,
      nd_state = ''attempting'', nd_created_at = 3, nd_observed_at = None, nd_receipt_state = ''pending'',
      nd_received_at = None\<rparr>"

lemma sample_thread_valid: "valid_thread_id sample_thread"
  by code_simp

lemma store_ok_sample_foreground: "store_ok sample_foreground"
  using store_ok_sample_db
  by (simp add: store_ok_def sample_foreground_def keys_ok_def inboxes_ok_def inbox_def sample_mail_def)

lemma sample_live: "notifications_live sample_foreground sample_scope"
  by (simp add: notifications_live_def session_scope_is_current_def session_recovered_def find_run_shutdown_def
      session_controls_of_run_def find_session_def sample_foreground_def sample_scope_def sample_session_def sample_run_def)

text \<open>The session is enabled and bound, a notice is claimed for its message, accepted and received.\<close>

definition sample_notified :: "int \<Rightarrow> NotificationDelivery list \<Rightarrow> Db" where
  "sample_notified ms ds = sample_foreground\<lparr>foreground_notifications := [sample_bound ms], notification_deliveries := ds\<rparr>"

lemma sample_notified_live:
  "notifications_live (sample_notified ms ds) sample_scope"
  "session_scope_is_current (sample_notified ms ds) sample_scope"
  "find_notification (sample_notified ms ds) sample_scope = Some (sample_bound ms)"
  "store_ok (sample_notified ms ds)"
proof -
  show live: "notifications_live (sample_notified ms ds) sample_scope"
    unfolding sample_notified_def by (simp add: sample_live)
  then show "session_scope_is_current (sample_notified ms ds) sample_scope" by (simp add: notifications_live_def)
  show "find_notification (sample_notified ms ds) sample_scope = Some (sample_bound ms)"
    by (simp add: sample_notified_def find_notification_def own_row_def sample_bound_def)
  show "store_ok (sample_notified ms ds)" using store_ok_sample_foreground by (simp add: sample_notified_def)
qed

lemma sample_enabled:
  "\<exists>db. enable_notifications sample_scope sample_foreground = Inr ((), db)
     \<and> bind_notifications sample_scope sample_thread db = Inr (True, sample_notified 0 [])"
proof -
  let ?n = "\<lparr>fn_scope = sample_scope, fn_thread_id = None, fn_event_cursor = 0, fn_message_cursor = 0\<rparr>"
  let ?db = "foreground_notifications_update (\<lambda>rows. rows @ [?n]) sample_foreground"
  have tables: "foreground_notifications sample_foreground = []" "notification_deliveries sample_foreground = []"
    "events sample_foreground = []"
    by (simp_all add: sample_foreground_def sample_db_def empty_db_def)
  have current: "session_scope_is_current sample_foreground sample_scope" using sample_live by (simp add: notifications_live_def)
  then have "exists_row (scope_row sample_scope) (sessions sample_foreground)"
    by (auto simp: session_scope_is_current_def scope_row_def)
  then have "notification_row_ok sample_foreground ?n"
    by (auto simp: notification_row_ok_def scope_row_def)
  with current have "enable_notifications sample_scope sample_foreground = Inr ((), ?db)"
    by (simp add: enable_notifications_def insert_row_def find_notification_def tables highest_event_def)
  moreover have "bind_notifications sample_scope sample_thread ?db = Inr (True, sample_notified 0 [])"
    using sample_live
    by (simp add: bind_notifications_def sample_thread_valid seq_def bindable_def own_row_def tables
        sample_notified_def sample_bound_def update_where_def)
  ultimately show ?thesis by blast
qed

lemma sample_claimed:
  "claim_notification sample_env sample_scope (OperationId 1) False 3 (sample_notified 0 [])
     = Inr (Some \<lparr>nc_operation_id = OperationId 1, nc_thread_id = sample_thread\<rparr>, sample_notified 1 [sample_delivery])"
proof -
  have "pending_notification sample_env (sample_notified 0 []) sample_scope False = Some (sample_thread, 0, 1)"
    using sample_notified_live
    by (simp add: pending_notification_def has_outstanding_def sample_bound_def sample_notified_def sample_foreground_def
        sample_mail_def unread_def sample_scope_def max_after_def)
  moreover have "insert_delivery sample_delivery (sample_notified 0 []) = Inr ((), sample_notified 0 [sample_delivery])"
    by (simp add: insert_delivery_def insert_row_def delivery_row_ok_def sample_notified_def sample_delivery_def
        sample_bound_def sample_scope_def)
  moreover have "set_cursors sample_scope 0 1 (sample_notified 0 [sample_delivery]) = Inr ((), sample_notified 1 [sample_delivery])"
    by (simp add: set_cursors_Inr) (simp add: sample_notified_def sample_bound_def own_row_def update_where_def)
  moreover have "claimed_thread (sample_notified 0 []) sample_scope i = None" for i
    by (simp add: claimed_thread_def find_delivery_def sample_notified_def)
  moreover have "\<lparr>nd_operation_id = OperationId 1, nd_session_id = sc_session_id sample_scope, nd_event_cursor = 0,
      nd_message_cursor = 1, nd_state = ''attempting'', nd_created_at = 3, nd_observed_at = None,
      nd_receipt_state = ''pending'', nd_received_at = None\<rparr> = sample_delivery"
    by (simp add: sample_delivery_def sample_scope_def)
  ultimately show ?thesis
    using sample_notified_live(1) by (simp add: claim_notification_def seq_def bind_run del: One_nat_def)
qed

definition sample_accepted :: NotificationDelivery where
  "sample_accepted = sample_delivery\<lparr>nd_state := ''accepted'', nd_observed_at := Some 4\<rparr>"

lemma sample_observed:
  "observe_notification sample_scope (OperationId 1) QueueAccepted 4 (sample_notified 1 [sample_delivery])
     = Inr ((), sample_notified 1 [sample_accepted])"
  using sample_notified_live
  by (simp add: observe_notification_def)
    (simp add: sample_notified_def sample_delivery_def sample_accepted_def sample_scope_def update_where_def)

lemma sample_received:
  "receive_notification sample_scope (OperationId 1) 6 (sample_notified 1 [sample_accepted])
     = Inr (True, sample_notified 1 [sample_accepted\<lparr>nd_receipt_state := ''received'', nd_received_at := Some 6\<rparr>])"
proof -
  let ?db = "sample_notified 1 [sample_accepted]"
  have "receipt_of ?db sample_scope (OperationId 1) = Some ''pending''"
    by (simp add: receipt_of_def sample_notified_def sample_accepted_def sample_delivery_def sample_scope_def)
  moreover have "highest_event ?db (RunId 1) = 0" "highest_message ?db (RunId 1) (AgentId 1) = 1"
    by (simp_all add: highest_event_def highest_message_def sample_notified_def sample_foreground_def sample_mail_def
        max_or_zero_def)
  moreover have "sc_run_id sample_scope = RunId 1" "sc_agent_id sample_scope = AgentId 1" by (simp_all add: sample_scope_def)
  ultimately show ?thesis
    using sample_notified_live
    by (simp add: receive_notification_def seq_def set_cursors_def bind_run del: One_nat_def)
      (simp add: sample_notified_def sample_accepted_def sample_delivery_def sample_bound_def own_row_def update_where_def)
qed

lemma notifications_ok_sample: "notifications_ok sample_foreground"
  by (simp add: notifications_ok_def sample_foreground_def sample_db_def empty_db_def)

theorem claimed_notice_covers_every_update_witness:
  "claim_notification sample_env sample_scope (OperationId 2) True 9 (sample_notified 1 [sample_delivery])
     = Inr (None, sample_notified 1 [sample_delivery])"
proof -
  have "find_delivery (sample_notified 0 []) sample_scope i = None" for i by (simp add: find_delivery_def sample_notified_def)
  with claimed_notice_covers_every_update [OF sample_claimed] show ?thesis by simp
qed

end
