(* ===== verification/Retained.thy ===== *)
theory Retained
  imports TaskRecovery
begin

section \<open>Submitting retained work (src/src/state/retained.rs)\<close>

text \<open>
  Work that an interrupted worker left in its worktree can be submitted without a new worker,
  after an independent review: the same preflight as a recovery, then the commit is recorded, the
  task is submitted and the ownership ends.
\<close>

record RetainedSubmission =
  rt_assignment_id :: assignment_id
  rt_result_commit :: string
  rt_summary :: string
  rt_reason :: string
  rt_review :: ReportedEvidence

definition retained_result ::
    "Mutation \<Rightarrow> RetainedSubmission \<Rightarrow> AssignmentRecord \<Rightarrow> WorkspaceRecord \<Rightarrow> json" where
  "retained_result m s a w = JObj
     [(''base_commit'', json_opt JStr (ws_base_commit w)), (''result_commit'', JStr (rt_result_commit s)),
      (''retained_submission'', JObj
        [(''assignment_id'', assignment_json (as_id a)), (''generation'', JInt (as_generation a)),
         (''operation_id'', operation_json (mu_id m)), (''reason'', JStr (rt_reason s)),
         (''review'', evidence_json (rt_review s)), (''session_id'', json_opt session_json (as_session_id a)),
         (''submitted_by'', json_opt agent_json (mu_actor_agent_id m))]),
      (''status'', JStr ''completed''), (''summary'', JStr (rt_summary s))]"

definition retained_transition :: "Mutation \<Rightarrow> RetainedSubmission \<Rightarrow> AssignmentRecord \<Rightarrow> json \<Rightarrow> TaskTransitionMutation" where
  "retained_transition m s a result =
     \<lparr>tt_operation_id = mu_id m, tt_run_id = mu_run_id m, tt_actor_agent_id = mu_actor_agent_id m,
      tt_task_id = as_task_id a, tt_transition = Submit, tt_result = Some result, tt_operator_override = None,
      tt_summary = Some (rt_summary s), tt_transitioned_at = mu_created_at m\<rparr>"

definition retained_events :: "Env \<Rightarrow> AssignmentRecord \<Rightarrow> json \<Rightarrow> (EventKind \<times> string \<times> json) list" where
  "retained_events e a result =
     [(TaskLifecycleChanged, task_text e (as_task_id a),
        JObj [(''previous_status'', JStr ''in_progress''), (''result'', result), (''status'', JStr ''submitted''),
          (''transition'', JStr ''submit_retained'')]),
      (AssignmentLifecycleChanged, assignment_text e (as_id a),
        JObj [(''previous_state'', JStr (as_state a)), (''state'', JStr ''completed'')]),
      (ClaimReleased, show_int (as_claim_id a),
        JObj [(''assignment_id'', assignment_json (as_id a)), (''claim_id'', JInt (as_claim_id a))])]"

definition retained_event ::
    "Env \<Rightarrow> Mutation \<Rightarrow> AssignmentRecord \<Rightarrow> WorkspaceRecord \<Rightarrow> EventKind \<times> string \<times> json \<Rightarrow> NewEvent" where
  "retained_event e m a w = (\<lambda>(kind, subject, data).
     \<lparr>ne_run_id = mu_run_id m, ne_kind = kind, ne_actor = mutation_actor e (mu_actor_agent_id m),
      ne_subject = subject, ne_project_id = Some (ws_project_id w), ne_agent_id = Some (as_agent_id a),
      ne_task_id = Some (as_task_id a), ne_operation_id = Some (mu_id m),
      ne_correlation_id = None, ne_causation_id = None, ne_data = data,
      ne_summary = ''Submitted retained commit for assignment '' @ assignment_text e (as_id a)
        @ '' after verified exit.'',
      ne_created_at = mu_created_at m\<rparr>)"

definition submit_retained :: "Env \<Rightarrow> Mutation \<Rightarrow> RetainedSubmission \<Rightarrow> json repo" where
  "submit_retained e m s =
     bind (lift_result (\<lambda>db. interrupted_assignment_preflight e db (mu_run_id m) (rt_assignment_id s) False
       (Some (rt_result_commit s)))) (\<lambda>(a, w).
     let result = retained_result m s a w in
     bind (record_workspace_result_commit (assignment_scope a) (rt_result_commit s)) (\<lambda>_.
     bind (apply_task_transition (retained_transition m s a result)) (\<lambda>_.
     seq (for_each (\<lambda>x. log_event e (retained_event e m a w x)) (retained_events e a result))
         (ret result))))"

lemma safe_submit_retained [safe_intros]: "safe (submit_retained e m s)"
  unfolding submit_retained_def case_prod_unfold Let_def
  by (intro safe_intros safe_lift_result safe_apply_task_transition)

text \<open>Submitting the task of a live assignment always goes through.\<close>

lemma submit_Inr:
  assumes ok: "store_ok db" and t: "find_task db (tt_task_id m) = Some t" "tk_run_id t = tt_run_id m"
    and s: "tk_status t = InProgress" "tt_transition m = Submit" "tt_operator_override m = None"
    and run: "apply_task_transition m db = Inr (r, db')"
  shows "db' = move_task m t Submitted (released_db m ''completed'' db)"
proof -
  have "transition_outcome db m = Transitioned InProgress Submitted"
    using t s by (simp add: transition_outcome_def find_task_in_run [OF ok] acceptance_met_def)
  with apply_task_transition_total [OF ok, of m] run have r: "r = Transitioned InProgress Submitted" by auto
  from apply_task_transition_Inr [OF run] show ?thesis
  proof (elim disjE conjE exE)
    fix why assume "r = TransitionRejected why"
    with r show ?thesis by simp
  next
    fix task status
    assume "find_task db (tt_task_id m) = Some task" "r = Transitioned (tk_status task) status"
      "if tk_status task = InProgress then (\<exists>state. released_state (tt_transition m) = Some state
         \<and> db' = move_task m task status (released_db m state db))
       else db' = move_task m task status db"
    with r t s show ?thesis by auto
  qed
qed

definition with_result_commit :: "assignment_id \<Rightarrow> string \<Rightarrow> Db \<Rightarrow> Db" where
  "with_result_commit i commit =
     workspaces_update (update_where (\<lambda>x. ws_assignment_id x = i) (\<lambda>x. x\<lparr>ws_result_commit := Some commit\<rparr>))"

lemma record_result_commit_Inr:
  assumes ok: "store_ok db" and w: "workspace_for_scope db scope = Some w"
    and run: "record_workspace_result_commit scope commit db = Inr (r, db')"
  shows "(db' = db \<and> ws_result_commit w = Some commit) \<or> db' = with_result_commit (sp_assignment_id scope) commit db"
  using run w by (auto simp: record_workspace_result_commit_def with_result_commit_def split: option.splits if_splits)

lemma submit_retainedE:
  assumes ok: "store_ok db" and run: "submit_retained e m s db = Inr (result, db')"
  obtains a w t x db1 evs n where "find_assignment db (rt_assignment_id s) = Some a" "as_id a = rt_assignment_id s"
    "as_run_id a = mu_run_id m" "find_task db (as_task_id a) = Some t" "tk_run_id t = mu_run_id m"
    "owns_task db (mu_run_id m) a t" "as_session_id a = Some (se_id x)" "find_session db (se_id x) = Some x"
    "session_ended db (session_scope_of (mu_run_id m) a x) x False"
    "workspace_for_scope db (assignment_scope a) = Some w"
    "result = retained_result m s a w"
    "(db1 = db \<and> ws_result_commit w = Some (rt_result_commit s))
      \<or> db1 = with_result_commit (rt_assignment_id s) (rt_result_commit s) db"
    "db' = (move_task (retained_transition m s a result) t Submitted
        (released_db (retained_transition m s a result) ''completed'' db1))\<lparr>events := events db @ evs, events_drawn := n\<rparr>"
proof -
  let ?m = "\<lambda>a. retained_transition m s a result"
  from run obtain a w where
    pre: "interrupted_assignment_preflight e db (mu_run_id m) (rt_assignment_id s) False (Some (rt_result_commit s)) = Inr (a, w)"
    by (auto simp: submit_retained_def bind_Inr_iff)
  with run obtain o1 db1 o2 db2 u where
    rec: "record_workspace_result_commit (assignment_scope a) (rt_result_commit s) db = Inr (o1, db1)"
    and res: "result = retained_result m s a w"
    and moved: "apply_task_transition (?m a) db1 = Inr (o2, db2)"
    and evs: "for_each (\<lambda>x. log_event e (retained_event e m a w x)) (retained_events e a result) db2 = Inr (u, db')"
    by (auto simp: submit_retained_def bind_Inr_iff seq_Inr_iff Let_def)
  from interrupted_preflight_Inr [OF pre] obtain t x where facts:
    "find_assignment db (rt_assignment_id s) = Some a" "as_run_id a = mu_run_id m" "find_task db (as_task_id a) = Some t"
    "owns_task db (mu_run_id m) a t" "as_session_id a = Some (se_id x)" "find_session db (se_id x) = Some x"
    "session_ended db (session_scope_of (mu_run_id m) a x) x False"
    "workspace_for_scope db (assignment_scope a) = Some w" "unsubmitted_worktree w (Some (rt_result_commit s))"
    by metis
  have a: "a \<in> set (assignments db)" "as_id a = rt_assignment_id s"
    using facts(1) by (auto simp: find_assignment_def dest: find_Some_in)
  have t: "tk_run_id t = mu_run_id m"
    using a facts(2) find_task_Some [OF facts(3)] ok same_task_same_run [of db t "as_run_id a"]
    by (auto simp: store_ok_def refs_ok_def)
  have db1: "(db1 = db \<and> ws_result_commit w = Some (rt_result_commit s))
      \<or> db1 = with_result_commit (rt_assignment_id s) (rt_result_commit s) db"
    using record_result_commit_Inr [OF ok facts(8) rec] a(2) by (simp add: assignment_scope_def)
  have ok1: "store_ok db1" using safeD [OF safe_record_workspace_result_commit rec ok] by simp
  have same: "tasks db1 = tasks db" "events db1 = events db"
    using db1 by (auto simp: with_result_commit_def)
  have "find_task db1 (tt_task_id (?m a)) = Some t" using facts(3) same by (simp add: find_task_def retained_transition_def)
  moreover have "tk_status t = InProgress" using facts(4) by (simp add: owns_task_def)
  ultimately have db2: "db2 = move_task (?m a) t Submitted (released_db (?m a) ''completed'' db1)"
    using t by (intro submit_Inr [OF ok1 _ _ _ _ _ moved]) (simp_all add: retained_transition_def)
  from append_events_Inr [OF evs] obtain xs n where "db' = db2\<lparr>events := events db2 @ xs, events_drawn := n\<rparr>" by blast
  moreover have "events db2 = events db" using same by (simp add: db2 move_task_def released_db_def)
  ultimately have db': "db' = (move_task (?m a) t Submitted (released_db (?m a) ''completed'' db1))
      \<lparr>events := events db @ xs, events_drawn := n\<rparr>" by (simp add: db2)
  show ?thesis by (rule that [OF facts(1) a(2) facts(2,3) t facts(4-8) res db1 db'])
qed

text \<open>
  Property C24. Retained work is submitted only for a live assignment whose worker is known to be
  gone: its session exited and its credential is revoked. Then nothing of the reviewed work is
  lost: the task is submitted with a result that names the reviewed commit, which is also what the
  workspace records, and no claim and no assignment of the task is left active.
\<close>

theorem retained_work_is_submitted:
  assumes ok: "store_ok db" and run: "submit_retained e m s db = Inr (result, db')"
  shows "\<exists>a x t. find_assignment db (rt_assignment_id s) = Some a \<and> find_task db (as_task_id a) = Some t
    \<and> as_session_id a = Some (se_id x) \<and> find_session db (se_id x) = Some x
    \<and> tk_status t = InProgress \<and> se_state x = Exited \<and> se_ended_at x \<noteq> None
    \<and> (\<exists>c. session_credential db (se_id x) = Some c \<and> cr_revoked_at c \<noteq> None)
    \<and> (\<exists>t'. find_task db' (tk_id t) = Some t' \<and> tk_status t' = Submitted \<and> tk_result t' = Some result)
    \<and> json_get ''result_commit'' result = Some (JStr (rt_result_commit s))
    \<and> map_option ws_result_commit (find_workspace db' (as_id a)) = Some (Some (rt_result_commit s))
    \<and> \<not> has_active_claim db' (mu_run_id m) (tk_id t)
    \<and> active_assignment_for_task db' (mu_run_id m) (tk_id t) = None"
proof -
  from submit_retainedE [OF ok run] obtain a w t x db1 evs n where a: "find_assignment db (rt_assignment_id s) = Some a"
      "as_id a = rt_assignment_id s" "as_run_id a = mu_run_id m"
    and t: "find_task db (as_task_id a) = Some t" "tk_run_id t = mu_run_id m" "owns_task db (mu_run_id m) a t"
    and x: "as_session_id a = Some (se_id x)" "find_session db (se_id x) = Some x"
      "session_ended db (session_scope_of (mu_run_id m) a x) x False"
    and w: "workspace_for_scope db (assignment_scope a) = Some w"
    and res: "result = retained_result m s a w"
    and db1: "(db1 = db \<and> ws_result_commit w = Some (rt_result_commit s))
      \<or> db1 = with_result_commit (rt_assignment_id s) (rt_result_commit s) db"
    and db': "db' = (move_task (retained_transition m s a result) t Submitted
        (released_db (retained_transition m s a result) ''completed'' db1))\<lparr>events := events db @ evs, events_drawn := n\<rparr>" .
  have id: "tk_id t = as_task_id a" using find_task_Some [OF t(1)] by simp
  have tables: "tasks db1 = tasks db" "claims db1 = claims db" "assignments db1 = assignments db"
    using db1 by (auto simp: with_result_commit_def)
  have "find_task db' (tk_id t) = map_option (\<lambda>y. if tk_id y = as_task_id a \<and> tk_run_id y = mu_run_id m
      then y\<lparr>tk_status := Submitted, tk_result := Some result, tk_updated_at := mu_created_at m\<rparr> else y)
      (find_task db (tk_id t))"
    unfolding find_task_def db'
    by (simp add: move_task_def released_db_def tables retained_transition_def transition_result_def)
      (rule find_update_where, simp)
  then have moved: "\<exists>t'. find_task db' (tk_id t) = Some t' \<and> tk_status t' = Submitted \<and> tk_result t' = Some result"
    using t by (simp add: id)
  have w': "find_workspace db (as_id a) = Some w" using w by (simp add: workspace_for_scope_Some assignment_scope_def)
  have "find_workspace db' (as_id a) = find_workspace db1 (as_id a)"
    by (simp add: db' find_workspace_def move_task_def released_db_def)
  moreover have "map_option ws_result_commit (find_workspace db1 (as_id a)) = Some (Some (rt_result_commit s))"
    using db1
  proof (elim disjE conjE)
    assume "db1 = db" "ws_result_commit w = Some (rt_result_commit s)"
    with w' show ?thesis by simp
  next
    assume "db1 = with_result_commit (rt_assignment_id s) (rt_result_commit s) db"
    then have "find_workspace db1 (as_id a) = map_option (\<lambda>y. if ws_assignment_id y = as_id a
        then y\<lparr>ws_result_commit := Some (rt_result_commit s)\<rparr> else y) (find_workspace db (as_id a))"
      unfolding find_workspace_def a(2) [symmetric]
      by (simp add: with_result_commit_def) (rule find_update_where, simp)
    with w' find_workspace_Some [OF w'] show ?thesis by simp
  qed
  moreover have free: "\<not> has_active_claim db' (mu_run_id m) (tk_id t)"
    "active_assignment_for_task db' (mu_run_id m) (tk_id t) = None"
    by (auto simp: has_active_claim_def active_assignment_for_task_def find_None_all db' move_task_def released_db_def
        set_update_where held_claim_def held_assignment_def retained_transition_def id complete_assignment_def
        release_claim_def)
  moreover have "tk_status t = InProgress" using t(3) by (simp add: owns_task_def)
  moreover have "se_state x = Exited" "se_ended_at x \<noteq> None"
    "\<exists>c. session_credential db (se_id x) = Some c \<and> cr_revoked_at c \<noteq> None"
    using x(3) by (auto simp: session_ended_def split: option.splits)
  moreover have "json_get ''result_commit'' result = Some (JStr (rt_result_commit s))"
    by (simp add: res retained_result_def)
  ultimately show ?thesis using a(1) t(1) x(1,2) moved by auto
qed

subsection \<open>A reviewed commit of an interrupted worker\<close>

definition sample_retained :: RetainedSubmission where
  "sample_retained =
     \<lparr>rt_assignment_id = AssignmentId 9, rt_result_commit = ''r'', rt_summary = ''done'', rt_reason = ''exited'',
      rt_review = \<lparr>re_text = ''ok'', re_source = ''ci''\<rparr>\<rparr>"

lemma preflight_retained:
  "interrupted_assignment_preflight e db run i lost None = Inr (a, w) \<Longrightarrow>
     interrupted_assignment_preflight e db run i lost (Some commit) = Inr (a, w)"
  by (auto simp: interrupted_assignment_preflight_def Let_def unsubmitted_worktree_def split: if_splits option.splits)

lemma sample_submission:
  "\<exists>result db'. submit_retained sample_env sample_retirement sample_retained sample_interrupted = Inr (result, db')"
proof -
  let ?w = "sample_workspace\<lparr>ws_result_commit := None\<rparr>" and ?m = sample_retirement and ?s = sample_retained
  let ?result = "retained_result ?m ?s sample_held ?w"
  let ?t = "retained_transition ?m ?s sample_held ?result"
  let ?mid = "with_result_commit (AssignmentId 9) ''r'' sample_interrupted"
  have m: "mu_run_id ?m = RunId 1" "mu_id ?m = OperationId 2" by (simp_all add: sample_retirement_def)
  have s: "rt_assignment_id ?s = AssignmentId 9" "rt_result_commit ?s = ''r''" by (simp_all add: sample_retained_def)
  have pre: "interrupted_assignment_preflight sample_env sample_interrupted (RunId 1) (AssignmentId 9) False None
      = Inr (sample_held, ?w)"
    using sample_interrupted_preflight by (simp add: recovery_preflight_def)
  from interrupted_preflight_Inr [OF pre] have scope: "workspace_for_scope sample_interrupted (assignment_scope sample_held) = Some ?w"
    by blast
  have id: "sp_assignment_id (assignment_scope sample_held) = AssignmentId 9"
    by (simp add: assignment_scope_def sample_held_def sample_assignment_def)
  have rec: "record_workspace_result_commit (assignment_scope sample_held) ''r'' sample_interrupted = Inr (WApplied, ?mid)"
    using scope id by (simp add: record_workspace_result_commit_def with_result_commit_def seq_def bind_run)
  have ok: "store_ok ?mid" using safeD [OF safe_record_workspace_result_commit rec store_ok_sample_interrupted] by simp
  from apply_task_transition_total [OF ok, of ?t] obtain r db2 where
    moved: "apply_task_transition ?t ?mid = Inr (r, db2)" by blast
  have t: "find_task ?mid (tt_task_id ?t) = Some (sample_task 1 InProgress)"
    by (simp add: find_task_def with_result_commit_def retained_transition_def sample_interrupted_rows)
  have db2: "db2 = move_task ?t (sample_task 1 InProgress) Submitted (released_db ?t ''completed'' ?mid)"
    by (rule submit_Inr [OF ok t _ _ _ _ moved]) (simp_all add: retained_transition_def m)
  have log: "log_ok db2" using safeD [OF safe_apply_task_transition moved ok] by (simp add: store_ok_def)
  have tables: "events db2 = [sample_exit_event]" "events_drawn db2 = 1" "runs db2 = [sample_run]"
    "projects db2 = [sample_project]" "map ag_id (agents db2) = [AgentId 1, AgentId 2]"
    "map ag_run_id (agents db2) = [RunId 1, RunId 1]" "operations db2 = [sample_operation 1, sample_operation 2]"
    by (simp_all add: db2 move_task_def released_db_def sample_interrupted_def with_result_commit_def)
  have task: "task_exists db2 (RunId 1) (TaskId 1)"
    by (simp add: task_exists_def db2 move_task_def released_db_def sample_interrupted_def with_result_commit_def update_where_def)
  have room: "event_room sample_env db2"
    using log by (simp add: event_room_def tables sample_env_def maximum_event_page_length_def sample_exit_event_def)
  have agent: "agent_exists db2 (RunId 1) (AgentId 1)"
    by (auto simp: agent_exists_def db2 move_task_def released_db_def sample_interrupted_def with_result_commit_def)
  have ref: "references_ok db2 (retained_event sample_env ?m sample_held ?w x)" for x
    using task agent
    by (auto simp: references_ok_def retained_event_def case_prod_unfold m run_exists_def project_exists_def
        operation_exists_def tables sample_run_def sample_project_def sample_interrupted_rows)
  from log_events_possible [OF room, of "retained_events sample_env sample_held ?result"
      "retained_event sample_env ?m sample_held ?w"] ref obtain db' evs n where
    logged: "for_each (\<lambda>x. log_event sample_env (retained_event sample_env ?m sample_held ?w x))
        (retained_events sample_env sample_held ?result) db2 = Inr ((), db')" by blast
  have "submit_retained sample_env ?m ?s sample_interrupted = Inr (?result, db')"
    using rec moved logged
    by (simp add: submit_retained_def bind_run preflight_retained [OF pre] m s lift_result_def Let_def seq_def
        del: One_nat_def)
  then show ?thesis by blast
qed

theorem retained_work_is_submitted_witness:
  "\<exists>result db' t'. submit_retained sample_env sample_retirement sample_retained sample_interrupted = Inr (result, db')
     \<and> find_task db' (TaskId 1) = Some t' \<and> tk_status t' = Submitted
     \<and> map_option ws_result_commit (find_workspace db' (AssignmentId 9)) = Some (Some ''r'')
     \<and> \<not> has_active_claim db' (RunId 1) (TaskId 1)"
proof -
  obtain result db' where run: "submit_retained sample_env sample_retirement sample_retained sample_interrupted = Inr (result, db')"
    using sample_submission by blast
  have a: "find_assignment sample_interrupted (AssignmentId 9) = Some sample_held" "as_id sample_held = AssignmentId 9"
    by (simp_all add: find_assignment_def sample_interrupted_rows)
  have t: "find_task sample_interrupted (as_task_id sample_held) = Some (sample_task 1 InProgress)"
    by (simp add: find_task_def sample_interrupted_rows)
  from retained_work_is_submitted [OF store_ok_sample_interrupted run] a t run show ?thesis
    by (auto simp: sample_retirement_def sample_retained_def)
qed

end
