(* ===== verification/Frames.thy ===== *)
theory Frames
  imports Creation Workspaces RunRecovery Notifications Retained
begin

section \<open>What the other operations leave alone\<close>

text \<open>
  Only the operations of \<open>Notifications\<close> write the two tables of foreground notifications, and
  no operation changes which session a row of \<open>sessions\<close> describes. An attempt to launch a session
  stays in flight until \<open>fail_session_launch\<close> settles it. An operation is \<open>elsewhere K\<close> when it
  leaves the notifications alone and settles no attempt of a session in \<open>K\<close>.
\<close>

named_theorems elsewhere_intros

definition in_flight :: "LaunchAttempt list \<Rightarrow> session_id \<Rightarrow> bool" where
  "in_flight rows i \<longleftrightarrow> (case find (\<lambda>l. sc_session_id (la_scope l) = i) rows of None \<Rightarrow> False | Some l \<Rightarrow> la_in_flight l)"

definition left_alone :: "session_id set \<Rightarrow> Db \<Rightarrow> Db \<Rightarrow> bool" where
  "left_alone K old db \<longleftrightarrow>
     foreground_notifications db = foreground_notifications old
     \<and> notification_deliveries db = notification_deliveries old
     \<and> (\<forall>s. exists_row (scope_row s) (sessions old) \<longrightarrow> exists_row (scope_row s) (sessions db))
     \<and> (\<forall>i \<in> K. in_flight (launch_attempts old) i \<longrightarrow> in_flight (launch_attempts db) i)"

definition elsewhere :: "session_id set \<Rightarrow> 'a repo \<Rightarrow> bool" where
  "elsewhere K m \<longleftrightarrow> (\<forall>old. keeps (left_alone K old) m)"

lemma elsewhereD: "elsewhere K m \<Longrightarrow> m db = Inr (a, db') \<Longrightarrow> left_alone K db db'"
  using keepsD [of "left_alone K db" m db a db'] by (simp add: elsewhere_def left_alone_def)

lemma elsewhere_basic [elsewhere_intros]:
  "elsewhere K (ret a)" "elsewhere K (fail err)" "elsewhere K (gets f)" "elsewhere K (require b err)" "elsewhere K (lift_result g)"
  by (simp_all add: elsewhere_def keeps_intros) (auto simp: keeps_def)

lemma elsewhere_bind [elsewhere_intros]: "elsewhere K m \<Longrightarrow> (\<And>a. elsewhere K (f a)) \<Longrightarrow> elsewhere K (bind m f)"
  by (simp add: elsewhere_def keeps_bind)

lemma elsewhere_seq [elsewhere_intros]: "elsewhere K m \<Longrightarrow> elsewhere K n \<Longrightarrow> elsewhere K (seq m n)"
  by (simp add: elsewhere_def keeps_seq)

lemma elsewhere_if [elsewhere_intros]: "(b \<Longrightarrow> elsewhere K m) \<Longrightarrow> (\<not> b \<Longrightarrow> elsewhere K n) \<Longrightarrow> elsewhere K (if b then m else n)"
  by simp

lemma elsewhere_option [elsewhere_intros]:
  "elsewhere K m \<Longrightarrow> (\<And>a. x = Some a \<Longrightarrow> elsewhere K (f a)) \<Longrightarrow> elsewhere K (case x of None \<Rightarrow> m | Some a \<Rightarrow> f a)"
  by (cases x) auto

lemma elsewhere_prod [elsewhere_intros]:
  "(\<And>a b. x = (a, b) \<Longrightarrow> elsewhere K (f a b)) \<Longrightarrow> elsewhere K (case x of (a, b) \<Rightarrow> f a b)"
  by (cases x) auto

lemma elsewhere_for_each [elsewhere_intros]: "(\<And>x. elsewhere K (f x)) \<Longrightarrow> elsewhere K (for_each f xs)"
  by (simp add: elsewhere_def keeps_for_each)

lemma elsewhere_modify: "(\<And>old db. left_alone K old db \<Longrightarrow> left_alone K old (f db)) \<Longrightarrow> elsewhere K (modify f)"
  by (simp add: elsewhere_def keeps_modify)

lemma elsewhere_insert: "(\<And>old db. left_alone K old db \<Longrightarrow> left_alone K old (put r db)) \<Longrightarrow> elsewhere K (insert_row ok put r)"
  by (simp add: elsewhere_def keeps_insert_row)

lemma elsewhere_append_event [elsewhere_intros]: "elsewhere K (append_event e n)"
  unfolding elsewhere_def by (intro allI keeps_append_event_frame) (simp add: left_alone_def)

lemma elsewhere_modify_table [elsewhere_intros]:
  "elsewhere K (modify (\<lambda>db. runs_update (g1 db) db))" "elsewhere K (modify (\<lambda>db. agents_update (g2 db) db))"
  "elsewhere K (modify (\<lambda>db. credentials_update (g3 db) db))" "elsewhere K (modify (\<lambda>db. tasks_update (g4 db) db))"
  "elsewhere K (modify (\<lambda>db. operations_update (g5 db) db))" "elsewhere K (modify (\<lambda>db. claims_update (g6 db) db))"
  "elsewhere K (modify (\<lambda>db. assignments_update (g7 db) db))" "elsewhere K (modify (\<lambda>db. messages_update (g8 db) db))"
  "elsewhere K (modify (\<lambda>db. workspaces_update (g9 db) db))" "elsewhere K (modify (\<lambda>db. run_shutdowns_update (g10 db) db))"
  "elsewhere K (modify (\<lambda>db. session_controls_update (g11 db) db))"
  "elsewhere K (modify (\<lambda>db. session_failures_update (g13 db) db))"
  by (rule elsewhere_modify, simp add: left_alone_def)+

lemma elsewhere_insert_table [elsewhere_intros]:
  "elsewhere K (insert_row ok1 (\<lambda>r. runs_update (g1 r)) r1)" "elsewhere K (insert_row ok2 (\<lambda>r. projects_update (g2 r)) r2)"
  "elsewhere K (insert_row ok3 (\<lambda>r. agents_update (g3 r)) r3)"
  "elsewhere K (insert_row ok4 (\<lambda>r. sessions_update (\<lambda>rows. rows @ [r])) r4)"
  "elsewhere K (insert_row ok5 (\<lambda>r. credentials_update (g5 r)) r5)" "elsewhere K (insert_row ok6 (\<lambda>r. task_groups_update (g6 r)) r6)"
  "elsewhere K (insert_row ok7 (\<lambda>r. tasks_update (g7 r)) r7)" "elsewhere K (insert_row ok8 (\<lambda>r. dependencies_update (g8 r)) r8)"
  "elsewhere K (insert_row ok9 (\<lambda>r. comments_update (g9 r)) r9)" "elsewhere K (insert_row ok10 (\<lambda>r. operations_update (g10 r)) r10)"
  "elsewhere K (insert_row ok11 (\<lambda>r. claims_update (g11 r)) r11)" "elsewhere K (insert_row ok12 (\<lambda>r. assignments_update (g12 r)) r12)"
  "elsewhere K (insert_row ok13 (\<lambda>r. messages_update (g13 r)) r13)" "elsewhere K (insert_row ok14 (\<lambda>r. workspaces_update (g14 r)) r14)"
  "elsewhere K (insert_row ok15 (\<lambda>r. run_shutdowns_update (g15 r)) r15)"
  "elsewhere K (insert_row ok16 (\<lambda>r. session_controls_update (g16 r)) r16)"
  "elsewhere K (insert_row ok18 (\<lambda>r. session_failures_update (g18 r)) r18)"
  "elsewhere K (insert_row ok19 (\<lambda>r. recovery_handoffs_update (g19 r)) r19)"
  "elsewhere K (insert_row ok20 (\<lambda>r. foreground_identities_update (g20 r)) r20)"
  by (rule elsewhere_insert, auto simp: left_alone_def)+

lemma elsewhere_modify_sessions [elsewhere_intros]:
  assumes "\<And>s x. scope_row s (f x) = scope_row s x"
  shows "elsewhere K (modify (sessions_update (update_where p f)))"
  by (rule elsewhere_modify) (use assms in \<open>auto simp: left_alone_def ex_update_where\<close>)

subsection \<open>The operations\<close>

lemma elsewhere_inserts [elsewhere_intros]:
  "elsewhere K (insert_run r1)" "elsewhere K (insert_project r2)" "elsewhere K (insert_agent r3)" "elsewhere K (insert_session r4)"
  "elsewhere K (insert_credential r5)" "elsewhere K (insert_task_group r6)" "elsewhere K (insert_task r7)"
  "elsewhere K (insert_dependency r8)" "elsewhere K (insert_comment r9)" "elsewhere K (insert_operation r10)"
  "elsewhere K (insert_claim r11)" "elsewhere K (insert_message r12)"
  unfolding insert_defs by (rule elsewhere_insert_table)+

lemma elsewhere_runs [elsewhere_intros]:
  "elsewhere K (stop_run i at)" "elsewhere K (start_agent_generation run agent c n)"
  unfolding stop_run_def start_agent_generation_def Let_def by (intro elsewhere_intros)+

lemma elsewhere_mutation:
  assumes "elsewhere K m"
  shows "elsewhere K (mutate_with_fingerprint enc dec mu fp m)"
  unfolding mutate_with_fingerprint_def by (intro elsewhere_intros assms)

lemma elsewhere_link_continuation [elsewhere_intros]: "elsewhere K (link_continuation e c)"
  unfolding link_continuation_def by (intro elsewhere_intros)

lemma elsewhere_apply_claim [elsewhere_intros]: "elsewhere K (apply_claim e c)"
proof -
  have "elsewhere K (compare_and_set_claim c)"
    unfolding compare_and_set_claim_def insert_assignment_def by (intro elsewhere_intros)
  moreover have "elsewhere K (append_task_claim_events e c r)" for r
    unfolding append_task_claim_events_def by (cases r) (auto intro!: elsewhere_intros)
  ultimately show ?thesis unfolding apply_claim_def by (intro elsewhere_intros)
qed

lemma elsewhere_claim [elsewhere_intros]: "elsewhere K (claim_task e c)"
  unfolding claim_task_def mutate_def by (intro elsewhere_mutation elsewhere_intros)

lemma elsewhere_create [elsewhere_intros]: "elsewhere K (create_task e m fp)"
  unfolding create_task_def apply_create_def group_for_def insert_named_task_group_def require_dependency_def
  by (intro elsewhere_mutation elsewhere_intros)

lemma elsewhere_move_task [elsewhere_intros]: "elsewhere K (modify (move_task m t st))"
  by (rule elsewhere_modify) (simp add: move_task_def left_alone_def)

lemma elsewhere_apply_task_transition [elsewhere_intros]: "elsewhere K (apply_task_transition m)"
  unfolding apply_task_transition_def release_task_ownership_def Let_def
  by (auto intro!: elsewhere_intros split: sum.split)

lemma elsewhere_transition [elsewhere_intros]: "elsewhere K (transition_task_with_fingerprint e m fp)"
  unfolding transition_task_with_fingerprint_def apply_transition_def
  by (auto intro!: elsewhere_mutation elsewhere_intros split: TaskTransitionResult.split)

lemma elsewhere_messages [elsewhere_intros]:
  "elsewhere K (send_message e s fp)" "elsewhere K (acknowledge_messages e k)"
  unfolding send_message_def apply_send_def acknowledge_messages_def mutate_def apply_acknowledgement_def
    apply_message_acknowledgement_def
  by (auto intro!: elsewhere_mutation elsewhere_intros split: AcknowledgeMessagesResult.split)

lemma elsewhere_revoke [elsewhere_intros]: "elsewhere K (revoke_credentials p at)"
  unfolding revoke_credentials_def by (intro elsewhere_intros)

lemma elsewhere_sessions [elsewhere_intros]:
  "elsewhere K (record_session_launch_observation s p at)" "elsewhere K (record_session_reconciliation_state s st at)"
  "elsewhere K (record_session_lifecycle s x at)" "elsewhere K (activate_session_credential c)"
  "elsewhere K (replace_desired_session_credential c)" "elsewhere K (associate_assignment_session a i)"
  unfolding record_session_launch_observation_def record_session_reconciliation_state_def record_session_lifecycle_def
    activate_session_credential_def replace_desired_session_credential_def associate_assignment_session_def Let_def
  by (intro elsewhere_intros; simp add: scope_row_def)+

lemma elsewhere_workspaces [elsewhere_intros]:
  "elsewhere K (insert_workspace w)" "elsewhere K (record_workspace_reconciliation_state a st at)"
  "elsewhere K (record_workspace_result_commit a c)" "elsewhere K (record_workspace_target_commit a c)"
  "elsewhere K (apply_resubmission e m b)"
  unfolding insert_workspace_def record_workspace_reconciliation_state_def record_workspace_result_commit_def
    record_workspace_target_commit_def apply_resubmission_def Let_def
  by (intro elsewhere_intros)+

lemma elsewhere_reconciliation [elsewhere_intros]:
  "elsewhere K (mark_operation_reconciliation_desired e i)" "elsewhere K (record_operation_reconciliation e i st err at)"
  unfolding mark_operation_reconciliation_desired_def record_operation_reconciliation_def
    append_operation_reconciliation_event_def Let_def
  by (intro elsewhere_intros)+

lemma elsewhere_supervision_event [elsewhere_intros]: "elsewhere K (supervision_event e r k s a i d t n)"
  unfolding supervision_event_def by (intro elsewhere_intros)

lemma elsewhere_upsert_launch [elsewhere_intros]: "elsewhere K (upsert_launch s window n at)"
proof -
  let ?P = "\<lambda>l. sc_session_id (la_scope l) = sc_session_id s"
  let ?f = "\<lambda>l. l\<lparr>la_window_started_at := window, la_attempts := n, la_next_attempt_at := at, la_in_flight := True\<rparr>"
  have kept: "in_flight (update_where ?P ?f rows) i" if "in_flight rows i" for rows i
  proof -
    have "find (\<lambda>l. sc_session_id (la_scope l) = i) (update_where ?P ?f rows)
        = map_option (\<lambda>l. if ?P l then ?f l else l) (find (\<lambda>l. sc_session_id (la_scope l) = i) rows)"
      by (rule find_update_where) simp
    with that show ?thesis by (auto simp: in_flight_def split: option.splits)
  qed
  have grown: "in_flight (rows @ [l]) i" if "in_flight rows i" for rows l i
    using that by (auto simp: in_flight_def find_append split: option.splits)
  have "elsewhere K (modify (launch_attempts_update (update_where ?P ?f)))"
    by (rule elsewhere_modify) (auto simp: left_alone_def intro: kept)
  moreover have "elsewhere K (insert_row ok (\<lambda>l. launch_attempts_update (\<lambda>rows. rows @ [l])) r)" for ok r
    by (rule elsewhere_insert) (auto simp: left_alone_def intro: grown)
  ultimately show ?thesis unfolding upsert_launch_def by (intro elsewhere_intros)
qed

lemma elsewhere_fail_launch:
  assumes "sc_session_id s \<notin> K"
  shows "elsewhere K (fail_session_launch e s now p)"
proof -
  have "in_flight (update_where (\<lambda>l. sc_session_id (la_scope l) = sc_session_id s)
      (\<lambda>l. l\<lparr>la_in_flight := False, la_quarantined := (n \<le> la_attempts l)\<rparr>) rows) i = in_flight rows i" if "i \<in> K" for i n rows
  proof -
    have "sc_session_id s \<noteq> i" using assms that by blast
    then show ?thesis unfolding in_flight_def
      by (subst find_update_where) (auto split: option.split dest: find_Some_in)
  qed
  then have "elsewhere K (modify (launch_attempts_update (update_where (\<lambda>l. sc_session_id (la_scope l) = sc_session_id s)
      (\<lambda>l. l\<lparr>la_in_flight := False, la_quarantined := (n \<le> la_attempts l)\<rparr>))))" for n
    by (intro elsewhere_modify) (simp add: left_alone_def)
  then show ?thesis unfolding fail_session_launch_def by (intro elsewhere_intros)
qed

lemma elsewhere_supervision [elsewhere_intros]:
  "elsewhere K (warn_job_deadline e s d n)" "elsewhere K (admit_session_launch s now p)"
  "elsewhere K (record_session_failure e s now p)" "elsewhere K (quarantine_unstarted_agent e r a i n)"
  unfolding warn_job_deadline_def admit_session_launch_def record_session_failure_def
    quarantine_unstarted_agent_def Let_def
  by (intro elsewhere_intros)+

lemma elsewhere_drain [elsewhere_intros]: "elsewhere K (drain_agent e r a n)"
  unfolding drain_agent_def drain_assignment_def by (intro elsewhere_intros)

lemma elsewhere_shutdown [elsewhere_intros]:
  "elsewhere K (begin_run_shutdown e r i n g t)" "elsewhere K (set_shutdown_phase e r ph n)"
  "elsewhere K (complete_shutdown_operation e r resp n)"
  unfolding begin_run_shutdown_def insert_shutdown_def set_shutdown_phase_def complete_shutdown_operation_def
    store_shutdown_result_def
  by (intro elsewhere_intros)+

lemma elsewhere_control [elsewhere_intros]:
  "elsewhere K (request_session_control e s why n g t)" "elsewhere K (set_control_phase e c ph n)" "elsewhere K (mark_control_delivered c)"
  unfolding request_session_control_def set_control_phase_def mark_control_delivered_def Let_def
  by (intro elsewhere_intros)+

lemma elsewhere_identity [elsewhere_intros]: "elsewhere K (record_foreground_identity s identity)"
  unfolding record_foreground_identity_def by (intro elsewhere_intros)

lemma elsewhere_recovery [elsewhere_intros]:
  "elsewhere K (recover_assignment e m i reason h lost)" "elsewhere K (reactivate_run e m)" "elsewhere K (submit_retained e m s)"
  unfolding recover_assignment_def submit_retained_def log_event_def insert_handoff_def reactivate_run_def
    complete_control_def Let_def case_prod_unfold
  by (auto intro!: elsewhere_intros split: option.split)

end
