(* ===== verification/Commits.thy ===== *)
theory Commits
  imports Creation Workspaces Shutdown Snapshot Frames
begin

section \<open>The store as a state machine\<close>

text \<open>
  One constructor per state-changing operation of the store, and \<open>MutateWith\<close> for a closure that
  runs as an idempotent mutation and records a result. A committed transaction runs a list of
  them on the database and keeps all of their changes; a failed one keeps none. An operation is
  \<open>scripted\<close> when each of its successful runs is such a list.
\<close>

datatype (plugins del: transfer) command =
  InsertRun RunRecord
| InsertProject ProjectRecord
| InsertAgent AgentRecord
| InsertSession SessionRecord
| InsertComment CommentRecord
| InsertOperation OperationRecord
| StopRun run_id int
| StartAgentGeneration run_id agent_id int int
| AppendEvent NewEvent
| CreateTask' CreateTask "string option"
| ClaimTask ClaimTaskMutation
| ApplyClaim ClaimTaskMutation
| LinkContinuation ClaimTaskMutation
| TransitionTask TaskTransitionMutation "string option"
| SendMessage' SendMessage "string option"
| AcknowledgeMessages AcknowledgeMessagesMutation
| RecordLaunch SessionScope string int
| RecordIdentity SessionScope ForegroundIdentity
| RecordSessionState SessionScope ExternalResourceState int
| RecordLifecycle SessionScope LifecycleState int
| ActivateCredential SessionCredentialRecord
| ReplaceCredential SessionCredentialRecord
| AssociateSession assignment_id session_id
| InsertWorkspace WorkspaceRecord
| RecordWorkspaceState AssignmentScope ExternalResourceState int
| RecordResultCommit AssignmentScope string
| RecordTargetCommit AssignmentScope string
| Resubmit Mutation Resubmission
| MarkReconciliationDesired operation_id
| RecordReconciliation operation_id ExternalResourceState "string option" int
| WarnDeadline SessionScope int int
| AdmitLaunch SessionScope int SupervisionPolicy
| FailLaunch SessionScope int SupervisionPolicy
| RecordFailure SessionScope int SupervisionPolicy
| QuarantineUnstarted run_id agent_id operation_id int
| BeginShutdown run_id operation_id int int int
| SetShutdownPhase run_id ShutdownPhase int
| CompleteShutdown run_id json int
| RequestControl SessionScope ControlReason int int int
| SetControlPhase SessionControl ControlPhase int
| MarkDelivered SessionControl
| RecoverAssignment Mutation assignment_id string RecoveryHandoff bool
| SubmitRetained Mutation RetainedSubmission
| ReactivateRun Mutation
| EnableNotifications SessionScope
| BindNotifications SessionScope string
| ClaimNotification SessionScope operation_id bool int
| ObserveNotification SessionScope operation_id QueueOutcome int
| ReceiveNotification SessionScope operation_id int
| MutateWith Mutation "string option" "command list" json

definition discard :: "'a repo \<Rightarrow> unit repo" where
  "discard m = bind m (\<lambda>_. ret ())"

lemma safe_apply_claim [safe_intros]: "safe (apply_claim e c)"
  unfolding apply_claim_def by (intro safe_intros)

lemma safe_discard [safe_intros]: "safe m \<Longrightarrow> safe (discard m)"
  unfolding discard_def by (intro safe_intros)

lemma for_each_cong [fundef_cong]:
  "xs = ys \<Longrightarrow> (\<And>x. x \<in> set ys \<Longrightarrow> f x = g x) \<Longrightarrow> for_each f xs = for_each g ys"
  by (induction xs arbitrary: ys) auto

text \<open>
  The operation of a shutdown is not an idempotent mutation: \<open>begin_run_shutdown\<close> records it.
\<close>

fun exec :: "Env \<Rightarrow> command \<Rightarrow> unit repo" where
  "exec e (InsertRun r) = insert_run r"
| "exec e (InsertProject r) = insert_project r"
| "exec e (InsertAgent r) = insert_agent r"
| "exec e (InsertSession r) = insert_session r"
| "exec e (InsertComment r) = insert_comment r"
| "exec e (InsertOperation r) = insert_operation r"
| "exec e (StopRun i at) = stop_run i at"
| "exec e (StartAgentGeneration r a c n) = discard (start_agent_generation r a c n)"
| "exec e (AppendEvent n) = discard (append_event e n)"
| "exec e (CreateTask' m fp) = discard (create_task e m fp)"
| "exec e (ClaimTask c) = discard (claim_task e c)"
| "exec e (ApplyClaim c) = discard (apply_claim e c)"
| "exec e (LinkContinuation c) = link_continuation e c"
| "exec e (TransitionTask m fp) = discard (transition_task_with_fingerprint e m fp)"
| "exec e (SendMessage' m fp) = discard (send_message e m fp)"
| "exec e (AcknowledgeMessages k) = discard (acknowledge_messages e k)"
| "exec e (RecordLaunch s p at) = discard (record_session_launch_observation s p at)"
| "exec e (RecordIdentity s i) = discard (record_foreground_identity s i)"
| "exec e (RecordSessionState s x at) = discard (record_session_reconciliation_state s x at)"
| "exec e (RecordLifecycle s x at) = discard (record_session_lifecycle s x at)"
| "exec e (ActivateCredential c) = activate_session_credential c"
| "exec e (ReplaceCredential c) = replace_desired_session_credential c"
| "exec e (AssociateSession a s) = associate_assignment_session a s"
| "exec e (InsertWorkspace w) = insert_workspace w"
| "exec e (RecordWorkspaceState s x at) = discard (record_workspace_reconciliation_state s x at)"
| "exec e (RecordResultCommit s c) = discard (record_workspace_result_commit s c)"
| "exec e (RecordTargetCommit s c) = discard (record_workspace_target_commit s c)"
| "exec e (Resubmit m b) = discard (apply_resubmission e m b)"
| "exec e (MarkReconciliationDesired i) = mark_operation_reconciliation_desired e i"
| "exec e (RecordReconciliation i x err at) = discard (record_operation_reconciliation e i x err at)"
| "exec e (WarnDeadline s d n) = warn_job_deadline e s d n"
| "exec e (AdmitLaunch s n p) = discard (admit_session_launch s n p)"
| "exec e (FailLaunch s n p) = discard (fail_session_launch e s n p)"
| "exec e (RecordFailure s n p) = discard (record_session_failure e s n p)"
| "exec e (QuarantineUnstarted r a i n) = quarantine_unstarted_agent e r a i n"
| "exec e (BeginShutdown r i n g t) = begin_run_shutdown e r i n g t"
| "exec e (SetShutdownPhase r p n) = set_shutdown_phase e r p n"
| "exec e (CompleteShutdown r j n) = complete_shutdown_operation e r j n"
| "exec e (RequestControl s why n g t) = request_session_control e s why n g t"
| "exec e (SetControlPhase c p n) = set_control_phase e c p n"
| "exec e (MarkDelivered c) = mark_control_delivered c"
| "exec e (RecoverAssignment m i reason h lost) = discard (recover_assignment e m i reason h lost)"
| "exec e (SubmitRetained m s) = discard (submit_retained e m s)"
| "exec e (ReactivateRun m) = discard (reactivate_run e m)"
| "exec e (EnableNotifications s) = enable_notifications s"
| "exec e (BindNotifications s t) = discard (bind_notifications s t)"
| "exec e (ClaimNotification s i progress now) = discard (claim_notification e s i progress now)"
| "exec e (ObserveNotification s i x now) = observe_notification s i x now"
| "exec e (ReceiveNotification s i now) = discard (receive_notification s i now)"
| "exec e (MutateWith m fp cs result) =
     discard (if mu_kind m = ''run.stop'' then ret (Replayed result)
       else mutate_with_fingerprint id Some m fp (seq (for_each (exec e) cs) (ret result)))"

lemma safe_for_each_in: "(\<And>x. x \<in> set xs \<Longrightarrow> safe (f x)) \<Longrightarrow> safe (for_each f xs)"
  by (induction xs) (auto intro: safe_intros)

lemma safe_exec: "safe (exec e c)"
proof (induction c rule: command.induct)
  case (MutateWith m fp cs result)
  then show ?case by (auto intro!: safe_intros safe_for_each_in)
qed (auto intro: safe_intros)

interpretation store_ops: invariant_operation "history old" "exec e" for old e
  by unfold_locales (use safe_exec in \<open>simp add: safe_def\<close>)

inductive commits :: "Env \<Rightarrow> Db \<Rightarrow> Db \<Rightarrow> bool" for e :: Env where
  commits_refl: "commits e db db"
| commits_step: "commits e db db1 \<Longrightarrow> transaction (for_each (exec e) cs) db1 = (out, db2) \<Longrightarrow> commits e db db2"

inductive_cases commits_stepE: "commits e db db'"

lemma transaction_history:
  assumes "transaction (for_each (exec e) cs) db = (out, db')" "store_ok db"
  shows "history db db'"
proof (cases "for_each (exec e) cs db")
  case (Inl err)
  with assms show ?thesis by (simp add: transaction_def history_def)
next
  case (Inr r)
  then obtain u where "for_each (exec e) cs db = Inr (u, db')"
    using assms(1) by (cases r) (simp add: transaction_def)
  moreover have "history db db" using assms(2) by (simp add: history_def)
  ultimately show ?thesis by (rule store_ops.run_all_inv)
qed

lemma commits_history:
  assumes "commits e db db'" "store_ok db"
  shows "history db db'"
  using assms
proof (induction rule: commits.induct)
  case (commits_refl db)
  then show ?case by (simp add: history_def)
next
  case (commits_step db db1 cs out db2)
  then have "history db db1" by simp
  moreover have "history db1 db2"
    using transaction_history commits_step.hyps(2) \<open>history db db1\<close> by (simp add: history_def)
  ultimately show ?case by (auto simp: history_def intro: extends_trans)
qed

lemma store_ok_empty: "store_ok empty_db"
  by (simp add: store_ok_def empty_db_def keys_ok_def refs_ok_def owned_def log_ok_def run_log_def
      shutdowns_ok_def inboxes_ok_def inbox_def paths_ok_def deps_ok_def)

abbreviation reachable :: "Env \<Rightarrow> Db \<Rightarrow> bool" where
  "reachable e \<equiv> commits e empty_db"

lemma reachable_store_ok: "reachable e db \<Longrightarrow> store_ok db"
  using commits_history [OF _ store_ok_empty] by (auto simp: history_def)

subsection \<open>Notifications of every run\<close>

lemma elsewhere_discard [elsewhere_intros]: "elsewhere K m \<Longrightarrow> elsewhere K (discard m)"
  unfolding discard_def by (intro elsewhere_intros)

lemma discard_Inr: "discard m db = Inr (u, db') \<longleftrightarrow> (\<exists>a. m db = Inr (a, db'))"
  by (simp add: discard_def bind_Inr_iff)

text \<open>Every operation of the store is a step of the notifications.\<close>

lemma elsewhere_step:
  assumes "elsewhere {} m" "safe m" "m db = Inr (a, db')" "store_ok db"
  shows "notification_step e db db'"
  using elsewhereD [OF assms(1,3)] safeD [OF assms(2-4)] by (intro notification_step.Elsewhere) (auto simp: left_alone_def extends_logs)

lemma execs_notification_steps_if:
  assumes "\<And>c db db'. c \<in> set cs \<Longrightarrow> exec e c db = Inr ((), db') \<Longrightarrow> store_ok db \<Longrightarrow> (notification_step e)\<^sup>*\<^sup>* db db'"
    and "for_each (exec e) cs db = Inr (u, db')" "store_ok db"
  shows "(notification_step e)\<^sup>*\<^sup>* db db'"
  using assms
proof (induction cs arbitrary: db)
  case Nil
  then show ?case by simp
next
  case (Cons c cs)
  then obtain mid where mid: "exec e c db = Inr ((), mid)" "for_each (exec e) cs mid = Inr (u, db')"
    by (auto simp: seq_Inr_iff)
  have "(notification_step e)\<^sup>*\<^sup>* db mid" by (rule Cons.prems(1) [OF _ mid(1) Cons.prems(3)]) simp
  moreover have "store_ok mid" using safeD [OF safe_exec mid(1) Cons.prems(3)] by simp
  then have "(notification_step e)\<^sup>*\<^sup>* mid db'" by (intro Cons.IH [OF _ mid(2)] Cons.prems(1)) auto
  ultimately show ?case by (rule rtranclp_trans)
qed

lemma exec_notification_steps:
  assumes "exec e c db = Inr ((), db')" "store_ok db"
  shows "(notification_step e)\<^sup>*\<^sup>* db db'"
  using assms
proof (induction c arbitrary: db db' rule: command.induct)
  case (MutateWith m fp cs result)
  let ?body = "seq (for_each (exec e) cs) (ret result)"
  show ?case
  proof (cases "mu_kind m = ''run.stop''")
    case True
    with MutateWith.prems(1) show ?thesis by (simp add: discard_Inr)
  next
    case False
    with MutateWith.prems(1) obtain out where run: "mutate_with_fingerprint id Some m fp ?body db = Inr (out, db')"
      by (auto simp: discard_Inr)
    show ?thesis
    proof (cases out)
      case (Replayed r)
      with run show ?thesis by (auto dest: mutate_Replayed_db)
    next
      case (Applied r)
      with run obtain db0 db1 where ins: "insert_operation (pending_operation m fp) db = Inr ((), db0)"
        and body: "?body db0 = Inr (r, db1)"
        and db': "db' = operations_update (update_where (\<lambda>x. op_id x = mu_id m)
          (\<lambda>x. x\<lparr>op_status := ''succeeded'', op_result := Some (id r), op_updated_at := mu_created_at m\<rparr>)) db1"
        by (auto elim: mutate_Applied)
      have ok0: "store_ok db0" using safeD [OF safe_insert_operation ins MutateWith.prems(2)] by simp
      have "elsewhere {} (insert_operation (pending_operation m fp))" by (intro elsewhere_intros)
      then have first: "notification_step e db db0"
        by (rule elsewhere_step [OF _ safe_insert_operation ins MutateWith.prems(2)])
      from body have inner: "for_each (exec e) cs db0 = Inr ((), db1)" by (auto simp: seq_Inr_iff)
      have mid: "(notification_step e)\<^sup>*\<^sup>* db0 db1"
        by (rule execs_notification_steps_if [OF _ inner ok0]) (rule MutateWith.IH)
      have "safe (mutate_with_fingerprint id Some m fp ?body)"
        using False by (intro safe_mutate_with_fingerprint safe_intros safe_for_each_in safe_exec)
      from safeD [OF this run MutateWith.prems(2)] have ok': "store_ok db'" and ext: "extends db db'" by auto
      have "logs_extend db1 db'" by (simp add: db' logs_extend_def grows_refl)
      then have "notification_step e db1 db'"
        using ok' by (intro notification_step.Elsewhere) (simp_all add: db')
      with first mid show ?thesis by (meson converse_rtranclp_into_rtranclp rtranclp.rtrancl_into_rtrancl)
    qed
  qed
next
  case (EnableNotifications s)
  then show ?case by (auto intro: notification_step.Enable)
next
  case (BindNotifications s t)
  then show ?case by (auto simp: discard_Inr intro: notification_step.Bind)
next
  case (ClaimNotification s i progress now)
  then show ?case by (auto simp: discard_Inr intro: notification_step.Claim)
next
  case (ObserveNotification s i x now)
  then show ?case by (auto intro: notification_step.Observe)
next
  case (ReceiveNotification s i now)
  then show ?case by (auto simp: discard_Inr intro: notification_step.Receive)
qed (rule r_into_rtranclp, erule elsewhere_step [OF _ safe_exec, rotated], assumption, simp, (intro elsewhere_intros elsewhere_fail_launch; simp))+

lemma execs_notification_steps:
  assumes "for_each (exec e) cs db = Inr (u, db')" "store_ok db"
  shows "(notification_step e)\<^sup>*\<^sup>* db db'"
  by (rule execs_notification_steps_if [OF exec_notification_steps assms])

lemma commits_notification_steps:
  assumes "commits e db db'" "store_ok db"
  shows "(notification_step e)\<^sup>*\<^sup>* db db'"
  using assms
proof (induction rule: commits.induct)
  case (commits_refl db)
  then show ?case by simp
next
  case (commits_step db db1 cs out db2)
  have ok: "store_ok db1" using commits_history [OF commits_step.hyps(1) commits_step.prems] by (simp add: history_def)
  show ?case
  proof (cases "for_each (exec e) cs db1")
    case (Inl err)
    with commits_step show ?thesis by (simp add: transaction_def)
  next
    case (Inr r)
    then have "for_each (exec e) cs db1 = Inr ((), db2)" using commits_step.hyps(2) by (cases r) (simp add: transaction_def)
    from execs_notification_steps [OF this ok] commits_step.IH [OF commits_step.prems] show ?thesis by (rule rtranclp_trans [rotated])
  qed
qed

subsection \<open>Launches in flight\<close>

text \<open>The commands that settle an attempt to launch the session, directly or within a mutation.\<close>

inductive settles :: "session_id \<Rightarrow> command \<Rightarrow> bool" for i :: session_id where
  settles_launch: "sc_session_id s = i \<Longrightarrow> settles i (FailLaunch s n p)"
| settles_within: "c \<in> set cs \<Longrightarrow> settles i c \<Longrightarrow> settles i (MutateWith m fp cs result)"

inductive_simps settles_simps [simp]: "settles i (FailLaunch s n p)" "settles i (MutateWith m fp cs result)"

abbreviation flying :: "session_id \<Rightarrow> Db \<Rightarrow> bool" where
  "flying i db \<equiv> in_flight (launch_attempts db) i"

lemma elsewhere_flying: "elsewhere {i} m \<Longrightarrow> keeps (flying i) m"
  by (auto simp: keeps_def left_alone_def dest!: elsewhereD)

lemma notices_flying:
  "keeps (flying i) (enable_notifications s)" "keeps (flying i) (bind_notifications s t)"
  "keeps (flying i) (claim_notification e s j progress now)" "keeps (flying i) (observe_notification s j x now)"
  "keeps (flying i) (receive_notification s j now)"
proof -
  have m: "keeps (flying i) (modify f)" if "\<And>db. launch_attempts (f db) = launch_attempts db" for f
    using that by (intro keeps_modify) simp
  have ins: "keeps (flying i) (insert_row ok put r)" if "\<And>db. launch_attempts (put r db) = launch_attempts db" for ok put r
    using that by (intro keeps_insert_row) simp
  have req: "keeps (flying i) (require b err)" "keeps (flying i) (lift_result g)" for b err g by (auto simp: keeps_def)
  have pair: "(\<And>a b. x = (a, b) \<Longrightarrow> keeps (flying i) (f a b)) \<Longrightarrow> keeps (flying i) (case x of (a, b) \<Rightarrow> f a b)" for x f
    by (cases x) auto
  have cursors: "keeps (flying i) (set_cursors s a b)" for s a b unfolding set_cursors_def by (intro keeps_intros m req) simp
  have delivery: "keeps (flying i) (insert_delivery d)" for d unfolding insert_delivery_def by (intro ins) simp
  note steps = keeps_intros pair cursors delivery m ins req
  show "keeps (flying i) (enable_notifications s)" unfolding enable_notifications_def by (intro steps; simp)
  show "keeps (flying i) (bind_notifications s t)" unfolding bind_notifications_def by (intro steps; simp)
  show "keeps (flying i) (claim_notification e s j progress now)" unfolding claim_notification_def Let_def by (intro steps; simp)
  show "keeps (flying i) (observe_notification s j x now)" unfolding observe_notification_def by (intro steps; simp)
  show "keeps (flying i) (receive_notification s j now)" unfolding receive_notification_def by (intro steps; simp)
qed

lemma exec_flying: "\<not> settles i c \<Longrightarrow> keeps (flying i) (exec e c)"
proof (induction c rule: command.induct)
  case (MutateWith m fp cs result)
  have body: "keeps (flying i) (seq (for_each (exec e) cs) (ret result))"
    using MutateWith by (intro keeps_intros keeps_for_each_in) auto
  have ops: "keeps (flying i) (insert_operation r)" for r by (intro elsewhere_flying elsewhere_intros)
  have upd: "keeps (flying i) (modify (\<lambda>db. operations_update (f db) db))" for f by (intro keeps_modify) simp
  have "keeps (flying i) (mutate_with_fingerprint id Some m fp (seq (for_each (exec e) cs) (ret result)))"
    unfolding mutate_with_fingerprint_def by (intro keeps_intros ops upd body)
  then show ?case by (simp add: discard_def keeps_intros)
qed (simp_all add: discard_def notices_flying keeps_intros,
    (rule elsewhere_flying, (intro elsewhere_intros elsewhere_fail_launch; simp))+)

lemma apart_flying:
  assumes "transaction (for_each (exec e) cs) db = (out, db')" "\<And>c. c \<in> set cs \<Longrightarrow> \<not> settles i c" "flying i db"
  shows "flying i db'"
proof -
  have "keeps (flying i) (for_each (exec e) cs)" using assms(2) by (intro keeps_for_each_in exec_flying)
  then show ?thesis using assms(1,3) by (auto simp: transaction_def dest: keepsD split: sum.splits)
qed

subsection \<open>Scripted operations\<close>

definition scripted :: "Env \<Rightarrow> 'a repo \<Rightarrow> bool" where
  "scripted e m \<longleftrightarrow> (\<forall>db a db'. m db = Inr (a, db') \<longrightarrow> (\<exists>cs. for_each (exec e) cs db = Inr ((), db')))"

named_theorems scripted_intros "rules that show that an operation is a list of commands"

lemma for_each_append_Inr:
  "for_each f (xs @ ys) db = Inr ((), db') \<longleftrightarrow> (\<exists>mid. for_each f xs db = Inr ((), mid) \<and> for_each f ys mid = Inr ((), db'))"
  by (induction xs arbitrary: db) (auto simp: seq_Inr_iff)

lemma scripted_Inr:
  assumes "\<And>db a db'. m db = Inr (a, db') \<Longrightarrow> db' = db"
  shows "scripted e m"
  unfolding scripted_def
proof (intro allI impI)
  fix db a db' assume "m db = Inr (a, db')"
  with assms have "db' = db" by blast
  then show "\<exists>cs. for_each (exec e) cs db = Inr ((), db')" by (intro exI [of _ "[]"]) simp
qed

lemma scripted_basic [scripted_intros]:
  "scripted e (ret a)" "scripted e (fail err)" "scripted e (gets f)" "scripted e (require b err)" "scripted e (lift_result g)"
  by (rule scripted_Inr, auto simp: lift_result_def split: sum.splits)+

lemma scripted_bind [scripted_intros]:
  assumes "scripted e m" "\<And>a. scripted e (f a)"
  shows "scripted e (bind m f)"
  unfolding scripted_def
proof (intro allI impI)
  fix db b db' assume "bind m f db = Inr (b, db')"
  then obtain a mid where "m db = Inr (a, mid)" "f a mid = Inr (b, db')" by (auto simp: action_Inr)
  with assms obtain cs ds where "for_each (exec e) cs db = Inr ((), mid)" "for_each (exec e) ds mid = Inr ((), db')"
    unfolding scripted_def by meson
  then show "\<exists>cs. for_each (exec e) cs db = Inr ((), db')"
    by (intro exI [of _ "cs @ ds"]) (simp only: for_each_append_Inr, blast)
qed

lemma scripted_seq [scripted_intros]: "scripted e m \<Longrightarrow> scripted e n \<Longrightarrow> scripted e (seq m n)"
  unfolding seq_def by (rule scripted_bind)

lemma scripted_if [scripted_intros]: "(b \<Longrightarrow> scripted e m) \<Longrightarrow> (\<not> b \<Longrightarrow> scripted e n) \<Longrightarrow> scripted e (if b then m else n)"
  by simp

lemma scripted_option [scripted_intros]:
  "scripted e m \<Longrightarrow> (\<And>a. x = Some a \<Longrightarrow> scripted e (f a)) \<Longrightarrow> scripted e (case x of None \<Rightarrow> m | Some a \<Rightarrow> f a)"
  by (cases x) auto

lemma scripted_for_each [scripted_intros]: "(\<And>x. scripted e (f x)) \<Longrightarrow> scripted e (for_each f xs)"
  by (induction xs) (auto intro: scripted_intros)

lemma scripted_command: "(\<And>db a db'. m db = Inr (a, db') \<Longrightarrow> exec e c db = Inr ((), db')) \<Longrightarrow> scripted e m"
  unfolding scripted_def
proof (intro allI impI)
  fix db a db' assume "\<And>db a db'. m db = Inr (a, db') \<Longrightarrow> exec e c db = Inr ((), db')" "m db = Inr (a, db')"
  then show "\<exists>cs. for_each (exec e) cs db = Inr ((), db')" by (intro exI [of _ "[c]"]) (simp add: seq_def bind_run)
qed

text \<open>A mutation is scripted when its closure is: the recorded result goes into the command.\<close>

lemma scripted_mutation:
  assumes body: "scripted e f" and kind: "mu_kind m \<noteq> ''run.stop''"
  shows "scripted e (mutate_with_fingerprint enc dec m fp f)"
  unfolding scripted_def
proof (intro allI impI)
  fix db out db' assume run: "mutate_with_fingerprint enc dec m fp f db = Inr (out, db')"
  show "\<exists>cs. for_each (exec e) cs db = Inr ((), db')"
  proof (cases out)
    case (Replayed r)
    with run have "db' = db" by (auto dest: mutate_Replayed_db)
    then show ?thesis by (intro exI [of _ "[]"]) simp
  next
    case (Applied r)
    with run obtain db0 db1 where fresh: "find_operation db (mu_id m) = None"
      and ins: "insert_operation (pending_operation m fp) db = Inr ((), db0)" and step: "f db0 = Inr (r, db1)"
      and db': "db' = operations_update (update_where (\<lambda>x. op_id x = mu_id m)
        (\<lambda>x. x\<lparr>op_status := ''succeeded'', op_result := Some (enc r), op_updated_at := mu_created_at m\<rparr>)) db1"
      by (auto elim: mutate_Applied)
    from body step obtain cs where cs: "for_each (exec e) cs db0 = Inr ((), db1)" unfolding scripted_def by blast
    have "mutate_with_fingerprint id Some m fp (seq (for_each (exec e) cs) (ret (enc r))) db = Inr (Applied (enc r), db')"
      using cs by (simp add: mutate_fresh [OF fresh] seq_def bind_run ins db')
    then have "exec e (MutateWith m fp cs (enc r)) db = Inr ((), db')" using kind by (auto simp: discard_Inr)
    then show ?thesis by (intro exI [of _ "[MutateWith m fp cs (enc r)]"]) (simp add: seq_def bind_run)
  qed
qed

lemma discard_run: "m db = Inr (a, db') \<Longrightarrow> discard m db = Inr ((), db')"
  by (simp add: discard_def bind_run)

lemma scripted_transaction:
  assumes "scripted e m" "transaction m db = (out, db')"
  shows "commits e db db'"
proof (cases "m db")
  case (Inl err)
  with assms(2) commits_refl show ?thesis by (simp add: transaction_def)
next
  case (Inr r)
  then have "m db = Inr (fst r, db')" using assms(2) by (cases r) (simp add: transaction_def)
  with assms(1) obtain cs where "for_each (exec e) cs db = Inr ((), db')" unfolding scripted_def by blast
  then have "transaction (for_each (exec e) cs) db = (Inr (), db')" by (simp add: transaction_def)
  from commits_step [OF commits_refl this] show ?thesis .
qed

lemma commits_trans: "commits e a b \<Longrightarrow> commits e b c \<Longrightarrow> commits e a c"
  by (rotate_tac, induction rule: commits.induct) (auto intro: commits_step)

end
