(* ===== verification/Effects.thy ===== *)
theory Effects
  imports Commits
begin

section \<open>Programs over the store and the outside world\<close>

text \<open>
  The code above the store runs several transactions in a row and calls into the outside world
  between them: a failure keeps what was committed before it. A \<open>process\<close> therefore returns its
  result together with the database and the world it leaves behind, whether it failed or not.
  \<open>p_store\<close> is one \<open>Store::transaction\<close> with its \<open>map_err\<close>, \<open>p_bind\<close> the operator \<open>?\<close>,
  \<open>p_attempt\<close> a \<open>match\<close> on a result. \<open>committing\<close> processes change the database only by
  committed transactions of the store; \<open>reading\<close> ones change nothing at all.
\<close>

named_theorems committing_intros "rules that show that a process only commits transactions"
named_theorems reading_intros "rules that show that a process changes nothing"

record 'w sys =
  sy_db :: Db
  sy_world :: 'w

type_synonym ('w, 'e, 'a) process = "'w sys \<Rightarrow> ('e + 'a) \<times> 'w sys"

definition p_ret :: "'a \<Rightarrow> ('w, 'e, 'a) process" where
  "p_ret a = (\<lambda>s. (Inr a, s))"

definition p_fail :: "'e \<Rightarrow> ('w, 'e, 'a) process" where
  "p_fail err = (\<lambda>s. (Inl err, s))"

definition p_bind :: "('w, 'e, 'a) process \<Rightarrow> ('a \<Rightarrow> ('w, 'e, 'b) process) \<Rightarrow> ('w, 'e, 'b) process" where
  "p_bind p f = (\<lambda>s. case p s of (Inl err, t) \<Rightarrow> (Inl err, t) | (Inr a, t) \<Rightarrow> f a t)"

definition p_seq :: "('w, 'e, unit) process \<Rightarrow> ('w, 'e, 'b) process \<Rightarrow> ('w, 'e, 'b) process" where
  "p_seq p q = p_bind p (\<lambda>_. q)"

definition p_attempt :: "('w, 'e, 'a) process \<Rightarrow> ('w, 'f, 'e + 'a) process" where
  "p_attempt p = (\<lambda>s. (Inr (fst (p s)), snd (p s)))"

definition p_error :: "('e \<Rightarrow> 'f) \<Rightarrow> ('w, 'e, 'a) process \<Rightarrow> ('w, 'f, 'a) process" where
  "p_error f p = (\<lambda>s. (map_sum f id (fst (p s)), snd (p s)))"

definition p_check :: "bool \<Rightarrow> 'e \<Rightarrow> ('w, 'e, unit) process" where
  "p_check b err = (if b then p_ret () else p_fail err)"

definition p_result :: "'e + 'a \<Rightarrow> ('w, 'e, 'a) process" where
  "p_result r = (\<lambda>s. (r, s))"

definition p_store :: "(StoreError \<Rightarrow> 'e) \<Rightarrow> 'a repo \<Rightarrow> ('w, 'e, 'a) process" where
  "p_store f m = (\<lambda>s. case transaction m (sy_db s) of (r, db) \<Rightarrow> (map_sum f id r, s\<lparr>sy_db := db\<rparr>))"

definition p_query :: "(Db \<Rightarrow> 'a) \<Rightarrow> ('w, 'e, 'a) process" where
  "p_query f = (\<lambda>s. (Inr (f (sy_db s)), s))"

definition p_look :: "('w \<Rightarrow> 'e + 'a) \<Rightarrow> ('w, 'e, 'a) process" where
  "p_look f = (\<lambda>s. (f (sy_world s), s))"

definition p_act :: "('w \<Rightarrow> ('e + 'a) \<times> 'w) \<Rightarrow> ('w, 'e, 'a) process" where
  "p_act f = (\<lambda>s. case f (sy_world s) of (r, w) \<Rightarrow> (r, s\<lparr>sy_world := w\<rparr>))"

fun p_each :: "('x \<Rightarrow> ('w, 'e, unit) process) \<Rightarrow> 'x list \<Rightarrow> ('w, 'e, unit) process" where
  "p_each f [] = p_ret ()"
| "p_each f (x # xs) = p_seq (f x) (p_each f xs)"

fun p_map :: "('x \<Rightarrow> ('w, 'e, 'a) process) \<Rightarrow> 'x list \<Rightarrow> ('w, 'e, 'a list) process" where
  "p_map f [] = p_ret []"
| "p_map f (x # xs) = p_bind (f x) (\<lambda>y. p_bind (p_map f xs) (\<lambda>ys. p_ret (y # ys)))"

subsection \<open>Running a process\<close>

lemma p_simps [simp]:
  "p_ret a s = (Inr a, s)" "p_fail err s = (Inl err, s)" "p_result r s = (r, s)"
  "p_query q s = (Inr (q (sy_db s)), s)" "p_look l s = (l (sy_world s), s)"
  "p_check b err s = (if b then Inr () else Inl err, s)"
  "p_attempt p s = (Inr (fst (p s)), snd (p s))"
  "p_error f p s = (map_sum f id (fst (p s)), snd (p s))"
  by (simp_all add: p_ret_def p_fail_def p_result_def p_query_def p_look_def p_check_def p_attempt_def p_error_def)

lemma p_bind_Inr:
  "p_bind p f s = (Inr b, t) \<longleftrightarrow> (\<exists>a u. p s = (Inr a, u) \<and> f a u = (Inr b, t))"
  by (auto simp: p_bind_def split: prod.splits sum.splits)

lemma p_seq_Inr:
  "p_seq p q s = (Inr b, t) \<longleftrightarrow> (\<exists>u. p s = (Inr (), u) \<and> q u = (Inr b, t))"
  by (simp add: p_seq_def p_bind_Inr)

lemma p_bind_Inl:
  "p_bind p f s = (Inl err, t) \<longleftrightarrow> p s = (Inl err, t) \<or> (\<exists>a u. p s = (Inr a, u) \<and> f a u = (Inl err, t))"
  by (auto simp: p_bind_def split: prod.splits sum.splits)

lemma p_seq_Inl:
  "p_seq p q s = (Inl err, t) \<longleftrightarrow> p s = (Inl err, t) \<or> (\<exists>u. p s = (Inr (), u) \<and> q u = (Inl err, t))"
  by (simp add: p_seq_def p_bind_Inl)

lemma p_bind_run:
  "p s = (Inr a, t) \<Longrightarrow> p_bind p f s = f a t"
  "p s = (Inl err, t) \<Longrightarrow> p_bind p f s = (Inl err, t)"
  by (simp_all add: p_bind_def)

lemma p_seq_run:
  "p s = (Inr (), t) \<Longrightarrow> p_seq p q s = q t"
  "p s = (Inl err, t) \<Longrightarrow> p_seq p q s = (Inl err, t)"
  by (simp_all add: p_seq_def p_bind_run)

lemma p_bind_simps [simp]:
  "p_bind (p_ret a) f = f a" "p_bind (p_fail err) f = p_fail err" "p_bind (p_result (Inr a)) f = f a"
  "p_bind (p_query q) f s = f (q (sy_db s)) s"
  "p_bind (p_look l) f s = (case l (sy_world s) of Inl err \<Rightarrow> (Inl err, s) | Inr a \<Rightarrow> f a s)"
  "p_seq (p_check b err) p s = (if b then p s else (Inl err, s))"
  "p_bind (p_attempt p) g s = g (fst (p s)) (snd (p s))"
  by (auto simp: p_bind_def p_seq_def fun_eq_iff)

lemma p_store_Inr:
  "p_store f m s = (Inr a, t) \<longleftrightarrow> (\<exists>db. m (sy_db s) = Inr (a, db) \<and> t = s\<lparr>sy_db := db\<rparr>)"
  by (auto simp: p_store_def transaction_def split: sum.splits)

lemma p_store_Inl:
  "p_store f m s = (Inl err, t) \<longleftrightarrow> t = s \<and> (\<exists>x. m (sy_db s) = Inl x \<and> err = f x)"
  by (auto simp: p_store_def transaction_def split: sum.splits)

lemma p_store_run:
  "m (sy_db s) = Inr (a, db) \<Longrightarrow> p_store f m s = (Inr a, s\<lparr>sy_db := db\<rparr>)"
  "m (sy_db s) = Inl x \<Longrightarrow> p_store f m s = (Inl (f x), s)"
  by (simp_all add: p_store_Inr p_store_Inl)

lemma p_act_run: "f (sy_world s) = (r, w) \<Longrightarrow> p_act f s = (r, s\<lparr>sy_world := w\<rparr>)"
  by (simp add: p_act_def)

lemma p_act_db [simp]: "sy_db (snd (p_act f s)) = sy_db s"
  by (simp add: p_act_def split: prod.splits)

lemma p_store_world [simp]: "sy_world (snd (p_store f m s)) = sy_world s"
  by (simp add: p_store_def split: prod.splits)

subsection \<open>Processes that commit transactions\<close>

definition committing :: "Env \<Rightarrow> ('w, 'e, 'a) process \<Rightarrow> bool" where
  "committing e p \<longleftrightarrow> (\<forall>s. commits e (sy_db s) (sy_db (snd (p s))))"

lemma committingD: "committing e p \<Longrightarrow> p s = (r, t) \<Longrightarrow> commits e (sy_db s) (sy_db t)"
  unfolding committing_def by (metis snd_conv)

lemma committing_basic [committing_intros]:
  "committing e (p_ret a)" "committing e (p_fail err)" "committing e (p_result r)" "committing e (p_query q)"
  "committing e (p_look l)" "committing e (p_act g)" "committing e (p_check b err)"
  by (simp_all add: committing_def commits_refl)

lemma committing_bind [committing_intros]:
  assumes p: "committing e p" and f: "\<And>a. committing e (f a)"
  shows "committing e (p_bind p f)"
  unfolding committing_def
proof
  fix s
  obtain r u where r: "p s = (r, u)" by (cases "p s")
  note first = committingD [OF p r]
  show "commits e (sy_db s) (sy_db (snd (p_bind p f s)))"
  proof (cases r)
    case (Inl err)
    with r first show ?thesis by (simp add: p_bind_run)
  next
    case (Inr a)
    have "commits e (sy_db u) (sy_db (snd (f a u)))" using f unfolding committing_def by blast
    with commits_trans [OF first] r Inr show ?thesis by (simp add: p_bind_run)
  qed
qed

lemma committing_seq [committing_intros]: "committing e p \<Longrightarrow> committing e q \<Longrightarrow> committing e (p_seq p q)"
  unfolding p_seq_def by (rule committing_bind)

lemma committing_attempt [committing_intros]: "committing e p \<Longrightarrow> committing e (p_attempt p)"
  and committing_error [committing_intros]: "committing e p \<Longrightarrow> committing e (p_error g p)"
  by (simp_all add: committing_def)

lemma committing_if [committing_intros]:
  "(b \<Longrightarrow> committing e p) \<Longrightarrow> (\<not> b \<Longrightarrow> committing e q) \<Longrightarrow> committing e (if b then p else q)"
  by simp

lemma committing_option [committing_intros]:
  "committing e p \<Longrightarrow> (\<And>a. x = Some a \<Longrightarrow> committing e (f a)) \<Longrightarrow> committing e (case x of None \<Rightarrow> p | Some a \<Rightarrow> f a)"
  by (cases x) auto

lemma committing_sum [committing_intros]:
  "(\<And>a. x = Inl a \<Longrightarrow> committing e (f a)) \<Longrightarrow> (\<And>b. x = Inr b \<Longrightarrow> committing e (g b))
    \<Longrightarrow> committing e (case x of Inl a \<Rightarrow> f a | Inr b \<Rightarrow> g b)"
  by (cases x) auto

lemma committing_prod [committing_intros]:
  "(\<And>a b. x = (a, b) \<Longrightarrow> committing e (f a b)) \<Longrightarrow> committing e (case x of (a, b) \<Rightarrow> f a b)"
  by (cases x) auto

lemma committing_each [committing_intros]: "(\<And>x. committing e (f x)) \<Longrightarrow> committing e (p_each f xs)"
  by (induction xs) (auto intro: committing_intros)

lemma committing_map [committing_intros]: "(\<And>x. committing e (f x)) \<Longrightarrow> committing e (p_map f xs)"
  by (induction xs) (auto intro: committing_intros)

lemma committing_store [committing_intros]: "scripted e m \<Longrightarrow> committing e (p_store f m)"
  unfolding committing_def p_store_def by (auto split: prod.splits intro: scripted_transaction)

subsection \<open>Processes that change nothing\<close>

definition reading :: "('w, 'e, 'a) process \<Rightarrow> bool" where
  "reading p \<longleftrightarrow> (\<forall>s. snd (p s) = s)"

lemma readingD: "reading p \<Longrightarrow> p s = (r, t) \<Longrightarrow> t = s"
  unfolding reading_def by (metis snd_conv)

lemma reading_basic [reading_intros]:
  "reading (p_ret a)" "reading (p_fail err)" "reading (p_result r)" "reading (p_query q)" "reading (p_look l)"
  "reading (p_check b err)"
  by (simp_all add: reading_def)

lemma reading_bind [reading_intros]: "reading p \<Longrightarrow> (\<And>a. reading (f a)) \<Longrightarrow> reading (p_bind p f)"
  by (auto simp: reading_def p_bind_def split: prod.splits sum.splits) (metis snd_conv)+

lemma reading_seq [reading_intros]: "reading p \<Longrightarrow> reading q \<Longrightarrow> reading (p_seq p q)"
  unfolding p_seq_def by (rule reading_bind)

lemma reading_attempt [reading_intros]: "reading p \<Longrightarrow> reading (p_attempt p)"
  and reading_error [reading_intros]: "reading p \<Longrightarrow> reading (p_error g p)"
  by (simp_all add: reading_def)

lemma reading_if [reading_intros]: "(b \<Longrightarrow> reading p) \<Longrightarrow> (\<not> b \<Longrightarrow> reading q) \<Longrightarrow> reading (if b then p else q)"
  by simp

lemma reading_option [reading_intros]:
  "reading p \<Longrightarrow> (\<And>a. x = Some a \<Longrightarrow> reading (f a)) \<Longrightarrow> reading (case x of None \<Rightarrow> p | Some a \<Rightarrow> f a)"
  by (cases x) auto

lemma reading_sum [reading_intros]:
  "(\<And>a. x = Inl a \<Longrightarrow> reading (f a)) \<Longrightarrow> (\<And>b. x = Inr b \<Longrightarrow> reading (g b))
    \<Longrightarrow> reading (case x of Inl a \<Rightarrow> f a | Inr b \<Rightarrow> g b)"
  by (cases x) auto

lemma reading_prod [reading_intros]:
  "(\<And>a b. x = (a, b) \<Longrightarrow> reading (f a b)) \<Longrightarrow> reading (case x of (a, b) \<Rightarrow> f a b)"
  by (cases x) auto

lemma reading_map [reading_intros]: "(\<And>x. reading (f x)) \<Longrightarrow> reading (p_map f xs)"
  by (induction xs) (auto intro: reading_intros)

lemma reading_store: "(\<And>db a db'. m db = Inr (a, db') \<Longrightarrow> db' = db) \<Longrightarrow> reading (p_store f m)"
  by (auto simp: reading_def p_store_def transaction_def split: sum.splits prod.splits)

lemma reading_lift [reading_intros]: "reading (p_store f (lift_result g))"
  by (rule reading_store) (auto simp: lift_result_def split: sum.splits)

subsection \<open>Processes that are refused\<close>

definition refuses :: "('w, 'e, 'a) process \<Rightarrow> 'w sys \<Rightarrow> bool" where
  "refuses p s \<longleftrightarrow> (\<exists>err. p s = (Inl err, s))"

named_theorems refuses_intros "rules that show that a process fails and changes nothing"

lemma refuses_fail [refuses_intros]: "refuses (p_fail err) s" "refuses (p_result (Inl err)) s"
  by (simp_all add: refuses_def)

lemma refuses_first: "refuses p s \<Longrightarrow> refuses (p_bind p f) s"
  and refuses_first_seq: "refuses q s \<Longrightarrow> refuses (p_seq q q') s"
  by (auto simp: refuses_def p_bind_run p_seq_run)

text \<open>What reads the state either fails, or the rest has to be refused from the same state.\<close>

lemma refuses_bind [refuses_intros]:
  assumes p: "reading p" and f: "\<And>a. p s = (Inr a, s) \<Longrightarrow> refuses (f a) s"
  shows "refuses (p_bind p f) s"
proof -
  obtain r u where run: "p s = (r, u)" by (cases "p s")
  with readingD [OF p run] f show ?thesis by (cases r) (auto simp: refuses_def p_bind_run)
qed

lemma refuses_seq [refuses_intros]:
  "reading p \<Longrightarrow> (p s = (Inr (), s) \<Longrightarrow> refuses q s) \<Longrightarrow> refuses (p_seq p q) s"
  unfolding p_seq_def by (rule refuses_bind) (simp_all)

lemma refuses_case [refuses_intros]:
  "(b \<Longrightarrow> refuses p s) \<Longrightarrow> (\<not> b \<Longrightarrow> refuses q s) \<Longrightarrow> refuses (if b then p else q) s"
  "(x = None \<Longrightarrow> refuses p s) \<Longrightarrow> (\<And>a. x = Some a \<Longrightarrow> refuses (f a) s) \<Longrightarrow> refuses (case x of None \<Rightarrow> p | Some a \<Rightarrow> f a) s"
  "(\<And>a b. y = (a, b) \<Longrightarrow> refuses (g a b) s) \<Longrightarrow> refuses (case y of (a, b) \<Rightarrow> g a b) s"
  by (simp_all split: option.split prod.split)

end
