(* ===== verification/Worktrees.thy ===== *)
theory Worktrees
  imports Effects
begin

section \<open>The workspace supervisor (src/src/workspace.rs)\<close>

text \<open>
  \<open>WorkspaceSupervisor\<close> keeps the durable records of the assignment workspaces in step with what a
  backend does outside. The Rust type is generic in its \<open>WorkspaceBackend\<close>; so is the model, over
  a record of the trait's functions on an arbitrary world. The functions that take \<open>&self\<close> read
  the world, the two that take \<open>&mut self\<close> may change it. The Git backend itself rests on
  libgit2 and is not modelled.
\<close>

subsection \<open>The backend\<close>

datatype IntegrationStrategy = Rebase | Merge

fun strategy_text :: "IntegrationStrategy \<Rightarrow> string" where
  "strategy_text Rebase = ''rebase''"
| "strategy_text Merge = ''merge''"

record IntegrationPlan =
  ip_run_id :: run_id
  ip_generation :: int
  ip_assignment_id :: assignment_id
  ip_project_id :: project_id
  ip_target_reference :: string
  ip_target_commit :: string
  ip_integrated_at :: int
  ip_strategy :: IntegrationStrategy

definition plan_scope :: "IntegrationPlan \<Rightarrow> AssignmentScope" where
  "plan_scope p =
     \<lparr>sp_run_id = ip_run_id p, sp_assignment_id = ip_assignment_id p, sp_generation = ip_generation p\<rparr>"

record IntegrationRecord =
  ir_strategy :: IntegrationStrategy
  ir_assignment_id :: assignment_id
  ir_project_id :: project_id
  ir_target_reference :: string
  ir_base_commit :: string
  ir_result_commit :: string
  ir_target_commit_before :: string
  ir_target_commit :: string

definition integration_json :: "IntegrationRecord \<Rightarrow> json" where
  "integration_json r = JObj
     [(''assignment_id'', assignment_json (ir_assignment_id r)), (''base_commit'', JStr (ir_base_commit r)),
      (''project_id'', project_json (ir_project_id r)), (''result_commit'', JStr (ir_result_commit r)),
      (''strategy'', JStr (strategy_text (ir_strategy r))), (''target_commit'', JStr (ir_target_commit r)),
      (''target_commit_before'', JStr (ir_target_commit_before r)),
      (''target_reference'', JStr (ir_target_reference r))]"

text \<open>The last text of \<open>InvalidCommit\<close> and the two after it is the error of libgit2 or the system.\<close>

datatype (plugins del: transfer) WorkspaceBackendError =
  RecoveryObservationUnavailable
| InvalidResubmission assignment_id string
| UnverifiableIndex string string
| OwnershipConflict assignment_id
| UnsupportedKind string
| WorktreeRequiresGit project_id
| ProjectIdentityChanged project_id
| UnexpectedPath assignment_id string string
| MissingProjectDirectory string
| UnsafeStateDirectory string
| MissingBaseCommit assignment_id
| MissingCommit assignment_id string
| InvalidCommit assignment_id string string
| UnsupportedIntegrationKind assignment_id string
| DirtyWorkspace assignment_id string
| UncommittedChanges assignment_id string string
| UnfinishedGitOperation assignment_id string
| DirtyTarget project_id string
| UnexpectedWorkspaceTip assignment_id string string
| AmbiguousTarget project_id
| AmbiguousHistory assignment_id
| IntegrationConflict assignment_id
| UnexpectedTargetTip project_id string string
| UnexpectedTargetReference project_id string string
| IntegrationPlanMismatch assignment_id
| InvalidIntegrationPlanCommit assignment_id string string
| GitFailure string string string
| IoFailure string string string

datatype WorkspaceError =
  WorkspaceState StoreError
| WorkspaceBackendFailure WorkspaceBackendError
| MissingProject project_id

record 'w WorkspaceBackend =
  wb_base_commit :: "'w \<Rightarrow> string \<Rightarrow> ProjectRecord \<Rightarrow> WorkspaceBackendError + string option"
  wb_create :: "WorkspaceRecord \<Rightarrow> ProjectRecord \<Rightarrow> 'w \<Rightarrow> (WorkspaceBackendError + unit) \<times> 'w"
  wb_observe :: "'w \<Rightarrow> WorkspaceRecord \<Rightarrow> ProjectRecord \<Rightarrow> WorkspaceBackendError + ExternalResourceState"
  wb_recovery_snapshot :: "'w \<Rightarrow> WorkspaceRecord \<Rightarrow> ProjectRecord \<Rightarrow> WorkspaceBackendError + RecoverySnapshot"
  wb_result_commit :: "'w \<Rightarrow> WorkspaceRecord \<Rightarrow> ProjectRecord \<Rightarrow> WorkspaceBackendError + string option"
  wb_validate_resubmission ::
    "'w \<Rightarrow> WorkspaceRecord \<Rightarrow> ProjectRecord \<Rightarrow> string \<Rightarrow> string \<Rightarrow> WorkspaceBackendError + unit"
  wb_validate_external_closure ::
    "'w \<Rightarrow> WorkspaceRecord \<Rightarrow> ProjectRecord \<Rightarrow> string \<Rightarrow> WorkspaceBackendError + string"
  wb_prepare_integration ::
    "'w \<Rightarrow> WorkspaceRecord \<Rightarrow> ProjectRecord \<Rightarrow> int \<Rightarrow> IntegrationStrategy \<Rightarrow> WorkspaceBackendError + IntegrationPlan"
  wb_integrate ::
    "WorkspaceRecord \<Rightarrow> ProjectRecord \<Rightarrow> IntegrationPlan \<Rightarrow> 'w \<Rightarrow> (WorkspaceBackendError + IntegrationRecord) \<times> 'w"

type_synonym ('w, 'a) working = "('w, WorkspaceError, 'a) process"

definition backend_look :: "('w \<Rightarrow> WorkspaceBackendError + 'a) \<Rightarrow> ('w, 'a) working" where
  "backend_look f = p_error WorkspaceBackendFailure (p_look f)"

definition backend_act :: "('w \<Rightarrow> (WorkspaceBackendError + 'a) \<times> 'w) \<Rightarrow> ('w, 'a) working" where
  "backend_act f = p_error WorkspaceBackendFailure (p_act f)"

subsection \<open>Records\<close>

definition current_records :: "AssignmentScope \<Rightarrow> Db \<Rightarrow> StoreError + (WorkspaceRecord \<times> ProjectRecord option)" where
  "current_records scope db =
     (case workspace_for_scope db scope of
        None \<Rightarrow> Inl (StaleAssignment (sp_assignment_id scope))
      | Some w \<Rightarrow> Inr (w, find_project db (ws_project_id w)))"

definition workspace_records :: "AssignmentScope \<Rightarrow> ('w, WorkspaceRecord \<times> ProjectRecord) working" where
  "workspace_records scope =
     p_bind (p_store WorkspaceState (lift_result (current_records scope))) (\<lambda>(w, project).
     case project of
       None \<Rightarrow> p_fail (MissingProject (ws_project_id w))
     | Some p \<Rightarrow> p_ret (w, p))"

definition state_event :: "Env \<Rightarrow> WorkspaceRecord \<Rightarrow> AssignmentRecord \<Rightarrow> ExternalResourceState \<Rightarrow> int \<Rightarrow> NewEvent" where
  "state_event e w a state at =
     \<lparr>ne_run_id = ws_run_id w, ne_kind = WorkspaceReconciliationChanged, ne_actor = ''reconciler'',
      ne_subject = assignment_text e (ws_assignment_id w), ne_project_id = Some (ws_project_id w),
      ne_agent_id = Some (as_agent_id a), ne_task_id = Some (as_task_id a), ne_operation_id = None,
      ne_correlation_id = None, ne_causation_id = None,
      ne_data = JObj [(''previous_state'', JStr (resource_as_str (ws_state w))),
                      (''state'', JStr (resource_as_str state))],
      ne_summary = ''Workspace '' @ assignment_text e (ws_assignment_id w)
        @ '' reconciliation changed from '' @ resource_as_str (ws_state w) @ '' to ''
        @ resource_as_str state @ ''.'',
      ne_created_at = at\<rparr>"

definition state_change :: "Env \<Rightarrow> WorkspaceRecord \<Rightarrow> ExternalResourceState \<Rightarrow> int \<Rightarrow> unit repo" where
  "state_change e w state at =
     bind (record_workspace_reconciliation_state (workspace_scope w) state at) (\<lambda>outcome.
     if outcome = WApplied then
       bind (gets (\<lambda>db. find_assignment db (ws_assignment_id w))) (\<lambda>found.
       case found of
         None \<Rightarrow> fail (CorruptAssignmentState (ws_assignment_id w))
       | Some a \<Rightarrow> log_event e (state_event e w a state at))
     else ret ())"

definition record_state :: "Env \<Rightarrow> WorkspaceRecord \<Rightarrow> ExternalResourceState \<Rightarrow> int \<Rightarrow> ('w, unit) working" where
  "record_state e w state at = p_store WorkspaceState (state_change e w state at)"

subsection \<open>Operations\<close>

definition give_up :: "Env \<Rightarrow> WorkspaceRecord \<Rightarrow> int \<Rightarrow> WorkspaceBackendError \<Rightarrow> ('w, 'a) working" where
  "give_up e w at err = p_seq (record_state e w RUnknown at) (p_fail (WorkspaceBackendFailure err))"

definition observed_state ::
    "Env \<Rightarrow> 'w WorkspaceBackend \<Rightarrow> WorkspaceRecord \<Rightarrow> ProjectRecord \<Rightarrow> int \<Rightarrow> ('w, ExternalResourceState) working" where
  "observed_state e be w p at =
     p_bind (p_attempt (p_look (\<lambda>world. wb_observe be world w p))) (\<lambda>r.
     case r of Inl err \<Rightarrow> give_up e w at err | Inr state \<Rightarrow> p_ret state)"

definition materialize ::
    "Env \<Rightarrow> 'w WorkspaceBackend \<Rightarrow> AssignmentScope \<Rightarrow> int \<Rightarrow> ('w, ExternalResourceState) working" where
  "materialize e be scope at =
     p_bind (workspace_records scope) (\<lambda>(w, p).
     p_bind (observed_state e be w p at) (\<lambda>observed.
     p_bind
       (if ws_state w \<in> {RDesired, RUnknown} \<and> observed = RLost then
          p_bind (p_attempt (p_act (wb_create be w p))) (\<lambda>created.
          case created of
            Inl err \<Rightarrow> give_up e w at err
          | Inr _ \<Rightarrow> observed_state e be w p at)
        else p_ret observed) (\<lambda>state.
     p_seq (record_state e w state at) (p_ret state))))"

text \<open>\<open>reconcile_after_restart\<close>: what a workspace may fail with without stopping the loop.\<close>

fun tolerated :: "WorkspaceError \<Rightarrow> bool" where
  "tolerated (WorkspaceBackendFailure _) = True"
| "tolerated (WorkspaceState (StaleAssignment _)) = True"
| "tolerated _ = False"

definition reconcile_after_restart :: "Env \<Rightarrow> 'w WorkspaceBackend \<Rightarrow> run_id \<Rightarrow> int \<Rightarrow> ('w, unit) working" where
  "reconcile_after_restart e be run at =
     p_bind (p_query (\<lambda>db. workspaces_of_run db run)) (\<lambda>ws.
     p_each (\<lambda>w.
       p_bind (p_attempt (materialize e be (workspace_scope w) at)) (\<lambda>r.
       case r of
         Inr _ \<Rightarrow> p_ret ()
       | Inl err \<Rightarrow> if tolerated err then p_ret () else p_fail err)) ws)"

fun stale_error :: "WorkspaceError \<Rightarrow> bool" where
  "stale_error (WorkspaceState (StaleAssignment _)) = True"
| "stale_error _ = False"

definition reconcile_for_shutdown :: "Env \<Rightarrow> 'w WorkspaceBackend \<Rightarrow> run_id \<Rightarrow> int \<Rightarrow> ('w, unit) working" where
  "reconcile_for_shutdown e be run at =
     p_bind (p_query (\<lambda>db. workspaces_of_run db run)) (\<lambda>ws.
     p_each (\<lambda>w.
       p_bind (p_attempt (workspace_records (workspace_scope w))) (\<lambda>r.
       case r of
         Inl err \<Rightarrow> if stale_error err then p_ret () else p_fail err
       | Inr (_, p) \<Rightarrow>
           p_bind (p_attempt (p_look (\<lambda>world. wb_observe be world w p))) (\<lambda>o'.
           record_state e w (case o' of Inl _ \<Rightarrow> RUnknown | Inr state \<Rightarrow> state) at))) ws)"

definition workspace_base_commit ::
    "'w WorkspaceBackend \<Rightarrow> string \<Rightarrow> ProjectRecord \<Rightarrow> ('w, string option) working" where
  "workspace_base_commit be kind p = backend_look (\<lambda>world. wb_base_commit be world kind p)"

definition observe_result_commit :: "'w WorkspaceBackend \<Rightarrow> AssignmentScope \<Rightarrow> ('w, string option) working" where
  "observe_result_commit be scope =
     p_bind (workspace_records scope) (\<lambda>(w, p). backend_look (\<lambda>world. wb_result_commit be world w p))"

definition record_result_commit :: "'w WorkspaceBackend \<Rightarrow> AssignmentScope \<Rightarrow> ('w, string option) working" where
  "record_result_commit be scope =
     p_bind (workspace_records scope) (\<lambda>(w, p).
     p_bind (backend_look (\<lambda>world. wb_result_commit be world w p)) (\<lambda>found.
     case found of
       None \<Rightarrow> p_ret None
     | Some commit \<Rightarrow>
         p_bind (p_store WorkspaceState (record_workspace_result_commit scope commit)) (\<lambda>_. p_ret found)))"

definition validate_resubmission ::
    "'w WorkspaceBackend \<Rightarrow> AssignmentScope \<Rightarrow> string \<Rightarrow> string \<Rightarrow> ('w, unit) working" where
  "validate_resubmission be scope expected replacement =
     p_bind (workspace_records scope) (\<lambda>(w, p).
     backend_look (\<lambda>world. wb_validate_resubmission be world w p expected replacement))"

definition validate_external_closure ::
    "'w WorkspaceBackend \<Rightarrow> AssignmentScope \<Rightarrow> string \<Rightarrow> ('w, string) working" where
  "validate_external_closure be scope target =
     p_bind (workspace_records scope) (\<lambda>(w, p).
     backend_look (\<lambda>world. wb_validate_external_closure be world w p target))"

definition observe_source :: "'w WorkspaceBackend \<Rightarrow> AssignmentScope \<Rightarrow> ('w, RecoverySnapshot) working" where
  "observe_source be scope =
     p_bind (workspace_records scope) (\<lambda>(w, p). backend_look (\<lambda>world. wb_recovery_snapshot be world w p))"

definition verify_retained ::
    "'w WorkspaceBackend \<Rightarrow> (WorkspaceRecord \<times> ProjectRecord) list \<Rightarrow> ('w, unit) working" where
  "verify_retained be records =
     p_each (\<lambda>(w, p).
       p_bind (backend_look (\<lambda>world. wb_observe be world w p)) (\<lambda>state.
       if state \<noteq> RObserved then p_fail (WorkspaceState (StaleAssignment (ws_assignment_id w)))
       else if ws_kind w = ''worktree''
         then p_bind (backend_look (\<lambda>world. wb_recovery_snapshot be world w p)) (\<lambda>_. p_ret ())
       else p_ret ())) records"

definition prepare_integration ::
    "'w WorkspaceBackend \<Rightarrow> AssignmentScope \<Rightarrow> int \<Rightarrow> IntegrationStrategy \<Rightarrow> ('w, IntegrationPlan) working" where
  "prepare_integration be scope at strategy =
     p_bind (workspace_records scope) (\<lambda>(w, p).
     backend_look (\<lambda>world. wb_prepare_integration be world w p at strategy))"

definition integrated_event ::
    "Env \<Rightarrow> WorkspaceRecord \<Rightarrow> AssignmentRecord \<Rightarrow> IntegrationRecord \<Rightarrow> operation_id \<Rightarrow> string \<Rightarrow> int \<Rightarrow> NewEvent" where
  "integrated_event e w a r i actor at =
     \<lparr>ne_run_id = ws_run_id w, ne_kind = WorkspaceIntegrated, ne_actor = actor,
      ne_subject = assignment_text e (ws_assignment_id w), ne_project_id = Some (ws_project_id w),
      ne_agent_id = Some (as_agent_id a), ne_task_id = Some (as_task_id a), ne_operation_id = Some i,
      ne_correlation_id = None, ne_causation_id = None, ne_data = integration_json r,
      ne_summary = ''Integrated workspace '' @ assignment_text e (ws_assignment_id w)
        @ '' as target commit '' @ ir_target_commit r @ ''.'',
      ne_created_at = at\<rparr>"

definition note_integration ::
    "Env \<Rightarrow> AssignmentScope \<Rightarrow> WorkspaceRecord \<Rightarrow> IntegrationRecord \<Rightarrow> operation_id \<Rightarrow> string \<Rightarrow> int
      \<Rightarrow> ResourceTransitionOutcome \<Rightarrow> unit repo" where
  "note_integration e scope w r i actor at outcome =
     (if outcome = WApplied then
        bind (gets (\<lambda>db. find_assignment db (sp_assignment_id scope))) (\<lambda>found.
        case found of
          None \<Rightarrow> fail (CorruptAssignmentState (sp_assignment_id scope))
        | Some a \<Rightarrow> log_event e (integrated_event e w a r i actor at))
      else ret ())"

definition record_integration ::
    "Env \<Rightarrow> AssignmentScope \<Rightarrow> WorkspaceRecord \<Rightarrow> IntegrationRecord \<Rightarrow> operation_id \<Rightarrow> string \<Rightarrow> int \<Rightarrow> int \<Rightarrow> unit repo" where
  "record_integration e scope w r i actor integrated_at at =
     bind (record_workspace_target_commit scope (ir_target_commit r)) (\<lambda>outcome.
     seq (note_integration e scope w r i actor integrated_at outcome)
     (bind (record_operation_reconciliation e i RObserved None at) (\<lambda>_. ret ())))"

definition integrate ::
    "Env \<Rightarrow> 'w WorkspaceBackend \<Rightarrow> AssignmentScope \<Rightarrow> IntegrationPlan \<Rightarrow> operation_id \<Rightarrow> string \<Rightarrow> int
      \<Rightarrow> ('w, IntegrationRecord) working" where
  "integrate e be scope plan i actor at =
     p_bind (workspace_records scope) (\<lambda>(w, p).
     p_seq (p_check (plan_scope plan = scope) (WorkspaceState (StaleAssignment (sp_assignment_id scope))))
     (p_bind (p_query (\<lambda>db. find_operation db i)) (\<lambda>found.
     p_seq (p_check (case found of None \<Rightarrow> False | Some x \<Rightarrow> op_run_id x = sp_run_id scope)
              (WorkspaceState (OperationConflict i)))
     (p_bind (backend_act (wb_integrate be w p plan)) (\<lambda>r.
     p_bind (p_store WorkspaceState (record_integration e scope w r i actor (ip_integrated_at plan) at)) (\<lambda>_.
     p_ret r))))))"

subsection \<open>Only committed transactions\<close>

lemma scripted_log_event [scripted_intros]: "scripted e (log_event e n)"
  by (rule scripted_command [where c = "AppendEvent n"]) (auto simp: log_event_Inr discard_Inr)

lemma scripted_workspace_records [scripted_intros]:
  "scripted e (record_workspace_reconciliation_state s x at)"
  "scripted e (record_workspace_result_commit s c)"
  "scripted e (record_workspace_target_commit s c)"
  "scripted e (record_operation_reconciliation e i x err at)"
proof -
  show "scripted e (record_workspace_reconciliation_state s x at)"
    by (rule scripted_command [where c = "RecordWorkspaceState s x at"]) (auto simp: discard_Inr)
  show "scripted e (record_workspace_result_commit s c)"
    by (rule scripted_command [where c = "RecordResultCommit s c"]) (auto simp: discard_Inr)
  show "scripted e (record_workspace_target_commit s c)"
    by (rule scripted_command [where c = "RecordTargetCommit s c"]) (auto simp: discard_Inr)
  show "scripted e (record_operation_reconciliation e i x err at)"
    by (rule scripted_command [where c = "RecordReconciliation i x err at"]) (auto simp: discard_Inr)
qed

lemma committing_backend [committing_intros]: "committing e (backend_look f)" "committing e (backend_act g)"
  unfolding backend_look_def backend_act_def by (intro committing_intros)+

lemma reading_backend [reading_intros]: "reading (backend_look f)"
  unfolding backend_look_def by (intro reading_intros)

lemma reading_workspace_records [reading_intros]: "reading (workspace_records scope)"
  unfolding workspace_records_def by (intro reading_intros)

lemma reading_committing: "reading p \<Longrightarrow> committing e p"
  by (simp add: reading_def committing_def commits_refl)

lemma committing_workspace_records [committing_intros]: "committing e (workspace_records scope)"
  by (rule reading_committing) (intro reading_intros)

lemma committing_record_state [committing_intros]: "committing e (record_state e w state at)"
  unfolding record_state_def state_change_def by (intro committing_intros scripted_intros)

lemma committing_materialize [committing_intros]: "committing e (materialize e be scope at)"
  unfolding materialize_def observed_state_def give_up_def by (intro committing_intros)

lemma committing_reconcile [committing_intros]:
  "committing e (reconcile_after_restart e be run at)" "committing e (reconcile_for_shutdown e be run at)"
  unfolding reconcile_after_restart_def reconcile_for_shutdown_def by (intro committing_intros)+

lemma committing_integrate [committing_intros]: "committing e (integrate e be scope plan i actor at)"
  unfolding integrate_def record_integration_def note_integration_def by (intro committing_intros scripted_intros)

lemma committing_record_result_commit [committing_intros]: "committing e (record_result_commit be scope)"
  unfolding record_result_commit_def by (intro committing_intros scripted_intros)

lemma reading_inspections [reading_intros]:
  "reading (workspace_base_commit be kind p)" "reading (observe_result_commit be scope)"
  "reading (validate_resubmission be scope expected replacement)"
  "reading (validate_external_closure be scope target)" "reading (observe_source be scope)"
  "reading (prepare_integration be scope at strategy)"
  unfolding workspace_base_commit_def observe_result_commit_def validate_resubmission_def
    validate_external_closure_def observe_source_def prepare_integration_def
  by (intro reading_intros)+

lemma reading_each [reading_intros]: "(\<And>x. reading (f x)) \<Longrightarrow> reading (p_each f xs)"
  by (induction xs) (auto intro: reading_intros)

lemma reading_verify_retained [reading_intros]: "reading (verify_retained be records)"
  unfolding verify_retained_def by (intro reading_intros)

lemmas committing_inspections [committing_intros] = reading_inspections [THEN reading_committing]

subsection \<open>Current records\<close>

lemma current_records_Inr:
  "current_records scope db = Inr (w, p) \<longleftrightarrow>
     workspace_for_scope db scope = Some w \<and> p = find_project db (ws_project_id w)"
  by (auto simp: current_records_def split: option.splits)

lemma workspace_records_Inr:
  "workspace_records scope s = (Inr (w, p), t) \<longleftrightarrow>
     t = s \<and> workspace_for_scope (sy_db s) scope = Some w \<and> find_project (sy_db s) (ws_project_id w) = Some p"
  by (auto simp: workspace_records_def p_bind_Inr p_store_Inr current_records_Inr split: option.splits)

lemma workspace_records_run:
  assumes "workspace_for_scope (sy_db s) scope = Some w" "find_project (sy_db s) (ws_project_id w) = Some p"
  shows "workspace_records scope s = (Inr (w, p), s)"
  using assms by (simp add: workspace_records_Inr)

text \<open>What a recorded state change leaves alone: the scope and the project stay current.\<close>

definition same_ownership :: "Db \<Rightarrow> Db \<Rightarrow> bool" where
  "same_ownership db db' \<longleftrightarrow>
     assignments db' = assignments db \<and> agents db' = agents db \<and> runs db' = runs db
     \<and> sessions db' = sessions db \<and> projects db' = projects db
     \<and> (\<forall>run i. assignment_recovered db' run i = assignment_recovered db run i)"

lemma same_ownership_scope:
  "same_ownership db db' \<Longrightarrow> assignment_scope_is_current db' scope = assignment_scope_is_current db scope"
  by (simp only: same_ownership_def assignment_scope_is_current_def)

lemma append_event_ownership:
  assumes "append_event e n db = Inr (ev, db')" "ne_kind n \<noteq> TaskRecovered"
  shows "same_ownership db db' \<and> workspaces db' = workspaces db"
proof -
  have "ev_type (new_event_record e n db) = event_kind_as_str (ne_kind n)" by (simp add: new_event_record_def)
  then have "ev_type (new_event_record e n db) \<noteq> ''task.recovered''" using assms(2) by (cases "ne_kind n") auto
  then show ?thesis
    using append_event_db(1) [OF assms(1)] by (auto simp: same_ownership_def assignment_recovered_def)
qed

lemma state_change_Inr:
  assumes run: "state_change e w state at db = Inr (u, db')"
    and w: "workspace_for_scope db scope = Some w"
  shows "same_ownership db db'
    \<and> workspaces db' = update_where (\<lambda>x. ws_assignment_id x = sp_assignment_id scope)
        (\<lambda>x. if ws_state w = state then x else x\<lparr>ws_state := state, ws_reconciled_at := Some at\<rparr>) (workspaces db)"
proof -
  have scope: "workspace_scope w = scope" using w by (simp add: workspace_for_scope_Some)
  show ?thesis
  proof (cases "ws_state w = state")
    case True
    with run w scope show ?thesis
      by (simp add: state_change_def record_workspace_reconciliation_state_def bind_run same_ownership_def update_where_def)
  next
    case False
    let ?db = "workspaces_update (update_where (\<lambda>x. ws_assignment_id x = sp_assignment_id scope)
      (\<lambda>x. x\<lparr>ws_state := state, ws_reconciled_at := Some at\<rparr>)) db"
    from False run w scope obtain n ev where ev: "append_event e n ?db = Inr (ev, db')"
      and kind: "ne_kind n = WorkspaceReconciliationChanged"
      by (auto simp: state_change_def record_workspace_reconciliation_state_def action_Inr log_event_Inr state_event_def
          split: option.splits)
    have "ne_kind n \<noteq> TaskRecovered" using kind by simp
    from append_event_ownership [OF ev this] False show ?thesis
      by (auto simp: same_ownership_def assignment_recovered_def)
  qed
qed

lemma find_workspace_update:
  assumes "find_workspace db i = Some w" "\<And>x. ws_assignment_id (f x) = ws_assignment_id x"
    and "workspaces db' = update_where (\<lambda>x. ws_assignment_id x = i) f (workspaces db)"
  shows "find_workspace db' i = Some (f w)"
  using assms find_workspace_Some [OF assms(1)] by (simp add: find_workspace_def find_update_where)

text \<open>After a recorded state change the scope is still current and reads back the new state.\<close>

lemma state_change_reads_back:
  assumes run: "state_change e w state at db = Inr (u, db')"
    and w: "workspace_for_scope db scope = Some w" and p: "find_project db (ws_project_id w) = Some p"
  shows "\<exists>w'. workspace_for_scope db' scope = Some w' \<and> ws_state w' = state \<and> ws_kind w' = ws_kind w
    \<and> ws_project_id w' = ws_project_id w \<and> find_project db' (ws_project_id w') = Some p
    \<and> w' = w\<lparr>ws_state := state, ws_reconciled_at := ws_reconciled_at w'\<rparr>"
proof -
  let ?f = "\<lambda>x. if ws_state w = state then x else x\<lparr>ws_state := state, ws_reconciled_at := Some at\<rparr>"
  note change = state_change_Inr [OF run w]
  have found: "find_workspace db (sp_assignment_id scope) = Some w" "workspace_scope w = scope"
    "assignment_scope_is_current db scope" using w by (simp_all add: workspace_for_scope_Some)
  have "find_workspace db' (sp_assignment_id scope) = Some (?f w)"
    by (rule find_workspace_update [OF found(1)]) (use change in auto)
  moreover have "assignment_scope_is_current db' scope"
    using change found(3) same_ownership_scope by blast
  moreover have "workspace_scope (?f w) = scope" using found(2) by (simp add: workspace_scope_def)
  ultimately have "workspace_for_scope db' scope = Some (?f w)" by (simp add: workspace_for_scope_Some)
  moreover have "find_project db' (ws_project_id w) = Some p"
    using change p by (simp add: same_ownership_def find_project_def)
  ultimately show ?thesis by (intro exI [of _ "?f w"]) (cases w, auto)
qed

lemma state_change_same:
  assumes "workspace_for_scope db scope = Some w" "ws_state w = state"
  shows "state_change e w state at db = Inr ((), db)"
proof -
  have "workspace_scope w = scope" using assms(1) by (simp add: workspace_for_scope_Some)
  then show ?thesis
    using assms by (simp add: state_change_def record_workspace_reconciliation_state_def bind_run)
qed

subsection \<open>Reconciliation\<close>

lemma observed_state_Inr:
  "observed_state e be w p at s = (Inr state, t) \<longleftrightarrow> t = s \<and> wb_observe be (sy_world s) w p = Inr state"
  by (auto simp: observed_state_def give_up_def p_bind_Inr p_seq_Inr split: sum.splits)

lemma record_state_Inr:
  "record_state e w state at s = (Inr u, t) \<longleftrightarrow>
     (\<exists>db. state_change e w state at (sy_db s) = Inr (u, db) \<and> t = s\<lparr>sy_db := db\<rparr>)"
  by (simp add: record_state_def p_store_Inr)

lemma materialize_Inr:
  assumes "materialize e be scope at s = (Inr state, t)"
  obtains w p observed world where
    "workspace_for_scope (sy_db s) scope = Some w" "find_project (sy_db s) (ws_project_id w) = Some p"
    "wb_observe be (sy_world s) w p = Inr observed"
    "if ws_state w \<in> {RDesired, RUnknown} \<and> observed = RLost
       then wb_create be w p (sy_world s) = (Inr (), world) else world = sy_world s"
    "wb_observe be world w p = Inr state" "sy_world t = world"
    "state_change e w state at (sy_db s) = Inr ((), sy_db t)"
proof -
  from assms obtain w p observed u where w: "workspace_for_scope (sy_db s) scope = Some w"
    "find_project (sy_db s) (ws_project_id w) = Some p"
    and o: "wb_observe be (sy_world s) w p = Inr observed"
    and mid: "(if ws_state w \<in> {RDesired, RUnknown} \<and> observed = RLost then
        p_bind (p_attempt (p_act (wb_create be w p))) (\<lambda>created. case created of
          Inl err \<Rightarrow> give_up e w at err | Inr _ \<Rightarrow> observed_state e be w p at)
        else p_ret observed) s = (Inr state, u)"
    and r: "record_state e w state at u = (Inr (), t)"
    by (auto simp: materialize_def p_bind_Inr p_seq_Inr workspace_records_Inr observed_state_Inr)
  from r obtain db where r: "state_change e w state at (sy_db u) = Inr ((), db)" "t = u\<lparr>sy_db := db\<rparr>"
    by (auto simp: record_state_Inr)
  show thesis
  proof (cases "ws_state w \<in> {RDesired, RUnknown} \<and> observed = RLost")
    case True
    obtain c world where c: "wb_create be w p (sy_world s) = (c, world)" by (cases "wb_create be w p (sy_world s)")
    show thesis
    proof (cases c)
      case (Inl err)
      with True mid c show thesis by (simp add: p_act_run give_up_def p_seq_Inr)
    next
      case (Inr x)
      with True mid c have "observed_state e be w p at (s\<lparr>sy_world := world\<rparr>) = (Inr state, u)"
        by (simp add: p_act_run)
      then have "u = s\<lparr>sy_world := world\<rparr>" "wb_observe be world w p = Inr state"
        by (simp_all add: observed_state_Inr)
      with True w o c Inr r that [of w p observed world] show thesis by simp
    qed
  next
    case False
    with mid have "state = observed" "u = s" by auto
    with False w o r that [of w p observed "sy_world s"] show thesis by (simp only: if_False simp_thms refl) simp
  qed
qed

text \<open>
  Property C25. Reconciling a workspace twice does what reconciling it once did. When a
  reconciliation succeeds, the recorded state is what the backend shows afterwards, whatever the
  backend, and repeating it at any later time, before anything else happens, calls no side effect
  of the backend and changes neither the database nor the outside world.
\<close>

theorem reconciling_twice_changes_nothing:
  assumes first: "materialize e be scope at s = (Inr state, t)"
    and backend: "\<And>world w p x y. wb_observe be world (w\<lparr>ws_state := x, ws_reconciled_at := y\<rparr>) p = wb_observe be world w p"
  shows "(\<exists>w p. workspace_for_scope (sy_db t) scope = Some w \<and> find_project (sy_db t) (ws_project_id w) = Some p
      \<and> ws_state w = state \<and> wb_observe be (sy_world t) w p = Inr state)
    \<and> materialize e be scope at' t = (Inr state, t)"
proof -
  from first obtain w p observed world where w: "workspace_for_scope (sy_db s) scope = Some w"
    "find_project (sy_db s) (ws_project_id w) = Some p"
    and again: "wb_observe be world w p = Inr state" "sy_world t = world"
    and change: "state_change e w state at (sy_db s) = Inr ((), sy_db t)"
    by (rule materialize_Inr)
  from state_change_reads_back [OF change w] obtain w' where
    w': "workspace_for_scope (sy_db t) scope = Some w'" "ws_state w' = state"
      "find_project (sy_db t) (ws_project_id w') = Some p"
    and same: "w' = w\<lparr>ws_state := state, ws_reconciled_at := ws_reconciled_at w'\<rparr>" by blast
  have seen: "wb_observe be (sy_world t) w' p = Inr state"
    using again backend [of "sy_world t" "ws_reconciled_at w'" state w p] same by simp
  have not_created: "\<not> (ws_state w' \<in> {RDesired, RUnknown} \<and> state = RLost)" using w'(2) by auto
  have "observed_state e be w' p at' t = (Inr state, t)" by (simp add: observed_state_Inr seen)
  moreover have "record_state e w' state at' t = (Inr (), t)"
    using state_change_same [OF w'(1,2)] by (simp add: record_state_Inr)
  ultimately have "materialize e be scope at' t = (Inr state, t)"
    unfolding materialize_def
    by (simp add: p_bind_run p_seq_run workspace_records_run [OF w'(1,3)] p_seq_def if_not_P [OF not_created] del: insert_iff)
  with w' seen show ?thesis by blast
qed

subsection \<open>Integration\<close>

lemma reconciliation_keeps_workspaces:
  assumes "record_operation_reconciliation e i x err at db = Inr (r, db')"
  shows "workspaces db' = workspaces db"
  using assms
  by (auto simp: record_operation_reconciliation_def append_operation_reconciliation_event_def Let_def action_Inr
      dest!: append_event_db(1) split: option.splits if_splits)

lemma note_integration_keeps_workspaces:
  "note_integration e scope w r i actor at outcome db = Inr (u, db') \<Longrightarrow> workspaces db' = workspaces db"
  by (auto simp: note_integration_def action_Inr log_event_Inr dest!: append_event_db(1)
      split: if_splits option.splits)

definition integrations :: "Db \<Rightarrow> nat" where
  "integrations db = length (filter (\<lambda>x. ev_type x = ''workspace.integrated'') (events db))"

lemma append_event_integrations:
  assumes "append_event e n db = Inr (ev, db')"
  shows "integrations db' = integrations db + (if ne_kind n = WorkspaceIntegrated then 1 else 0)"
proof -
  have "event_kind_as_str k = ''workspace.integrated'' \<longleftrightarrow> k = WorkspaceIntegrated" for k by (cases k) simp_all
  then show ?thesis using append_event_db(1) [OF assms] by (simp add: integrations_def new_event_record_def)
qed

lemma reconciliation_keeps_integrations:
  assumes "record_operation_reconciliation e i state err at db = Inr (out, db')"
  shows "integrations db' = integrations db"
proof -
  have ops: "integrations (operations_update f db) = integrations db" for f db by (simp add: integrations_def)
  have "keeps (\<lambda>s. integrations s = n) (record_operation_reconciliation e i state err at)" for n
  proof -
    have "keeps (\<lambda>s. integrations s = n) (append_operation_reconciliation_event e r p state err' at)" for r p err'
      by (auto simp: keeps_def append_operation_reconciliation_event_def action_Inr operation_reconciliation_event_def
          dest!: append_event_integrations)
    then show ?thesis
      unfolding record_operation_reconciliation_def Let_def
      by (intro keeps_intros keeps_modify) (simp_all add: ops)
  qed
  from keepsD [OF this assms refl] show ?thesis .
qed

lemma find_workspace_other:
  assumes "workspaces db' = update_where (\<lambda>x. ws_assignment_id x = i) f (workspaces db)"
    and "\<And>x. ws_assignment_id (f x) = ws_assignment_id x" "j \<noteq> i"
  shows "find_workspace db' j = find_workspace db j"
proof -
  have "find (\<lambda>x. ws_assignment_id x = j) (update_where (\<lambda>x. ws_assignment_id x = i) f rows)
      = find (\<lambda>x. ws_assignment_id x = j) rows" for rows
    using assms(2,3) by (induction rows) (auto simp: update_where_def)
  then show ?thesis by (simp add: find_workspace_def assms(1))
qed

lemma record_integration_once:
  assumes run: "record_integration e scope w r i actor at' at db = Inr (u, db')"
    and w: "workspace_for_scope db scope = Some w"
  shows "ws_target_commit w \<in> {None, Some (ir_target_commit r)}
    \<and> find_workspace db' (sp_assignment_id scope) = Some (w\<lparr>ws_target_commit := Some (ir_target_commit r)\<rparr>)
    \<and> (\<forall>j. j \<noteq> sp_assignment_id scope \<longrightarrow> find_workspace db' j = find_workspace db j)
    \<and> integrations db' = integrations db + (if ws_target_commit w = None then 1 else 0)"
proof -
  let ?f = "\<lambda>x. x\<lparr>ws_target_commit := Some (ir_target_commit r)\<rparr>"
  have found: "find_workspace db (sp_assignment_id scope) = Some w" using w by (simp add: workspace_for_scope_Some)
  from run obtain outcome mid noted out where
    first: "record_workspace_target_commit scope (ir_target_commit r) db = Inr (outcome, mid)"
    and logged: "note_integration e scope w r i actor at' outcome mid = Inr ((), noted)"
    and last: "record_operation_reconciliation e i RObserved None at noted = Inr (out, db')"
    by (auto simp: record_integration_def action_Inr)
  note same = reconciliation_keeps_workspaces [OF last] note_integration_keeps_workspaces [OF logged]
  note count = reconciliation_keeps_integrations [OF last]
  show ?thesis
  proof (cases "ws_target_commit w")
    case None
    then have mid: "mid = workspaces_update (update_where (\<lambda>x. ws_assignment_id x = sp_assignment_id scope) ?f) db" "outcome = WApplied"
      using first w by (auto simp: record_workspace_target_commit_def action_Inr)
    then have rows: "workspaces db' = update_where (\<lambda>x. ws_assignment_id x = sp_assignment_id scope) ?f (workspaces db)"
      by (simp add: same)
    have "find_workspace db' (sp_assignment_id scope) = Some (?f w)"
      by (rule find_workspace_update [OF found]) (simp_all add: rows)
    moreover have "find_workspace db' j = find_workspace db j" if "j \<noteq> sp_assignment_id scope" for j
      by (rule find_workspace_other [OF rows _ that]) simp
    moreover from logged obtain a n ev where "append_event e n mid = Inr (ev, noted)" "ne_kind n = WorkspaceIntegrated"
      by (auto simp: note_integration_def mid(2) action_Inr log_event_Inr integrated_event_def split: option.splits)
    then have "integrations noted = integrations db + 1"
      using append_event_integrations by (simp add: mid(1) integrations_def)
    ultimately show ?thesis using None count by simp
  next
    case (Some recorded)
    then have mid: "mid = db" "outcome = WUnchanged" "recorded = ir_target_commit r"
      using first w by (auto simp: record_workspace_target_commit_def split: if_splits)
    then have "noted = db" using logged by (simp add: note_integration_def)
    moreover have "find_workspace db' j = find_workspace db j" for j using same mid by (simp add: find_workspace_def)
    ultimately show ?thesis using Some found mid(3) count by (cases w) simp
  qed
qed

lemma workspace_records_cases:
  obtains w p where "workspace_for_scope (sy_db s) scope = Some w" "find_project (sy_db s) (ws_project_id w) = Some p"
    "workspace_records scope s = (Inr (w, p), s)"
  | err where "workspace_records scope s = (Inl err, s)"
proof (cases "workspace_records scope s")
  case (Pair r t)
  have t: "t = s" using readingD [OF reading_workspace_records Pair] .
  show thesis
  proof (cases r)
    case (Inl err)
    with Pair t that(2) show thesis by blast
  next
    case (Inr x)
    with Pair t that(1) show thesis by (cases x) (auto simp: workspace_records_Inr)
  qed
qed

lemma integrate_cases:
  assumes "integrate e be scope plan i actor at s = (r, t)"
  obtains err where "r = Inl err" "t = s"
  | w p x c world where "workspace_for_scope (sy_db s) scope = Some w"
      "find_project (sy_db s) (ws_project_id w) = Some p" "plan_scope plan = scope"
      "find_operation (sy_db s) i = Some x" "op_run_id x = sp_run_id scope"
      "wb_integrate be w p plan (sy_world s) = (c, world)" "sy_world t = world"
      "case c of Inl err \<Rightarrow> r = Inl (WorkspaceBackendFailure err) \<and> sy_db t = sy_db s
       | Inr y \<Rightarrow> (case record_integration e scope w y i actor (ip_integrated_at plan) at (sy_db s) of
            Inl err \<Rightarrow> r = Inl (WorkspaceState err) \<and> sy_db t = sy_db s
          | Inr (u, db) \<Rightarrow> r = Inr y \<and> sy_db t = db)"
proof (rule workspace_records_cases [of s scope])
  fix err assume "workspace_records scope s = (Inl err, s)"
  with assms that(1) show thesis by (auto simp: integrate_def p_bind_run)
next
  fix w p assume w: "workspace_for_scope (sy_db s) scope = Some w" "find_project (sy_db s) (ws_project_id w) = Some p"
    "workspace_records scope s = (Inr (w, p), s)"
  show thesis
  proof (cases "plan_scope plan = scope \<and> (\<exists>x. find_operation (sy_db s) i = Some x \<and> op_run_id x = sp_run_id scope)")
    case False
    with assms w(3) that(1) show thesis
      by (auto simp: integrate_def p_bind_run split: if_splits option.splits)
  next
    case True
    then obtain x where x: "plan_scope plan = scope" "find_operation (sy_db s) i = Some x" "op_run_id x = sp_run_id scope"
      by blast
    obtain c world where c: "wb_integrate be w p plan (sy_world s) = (c, world)"
      by (cases "wb_integrate be w p plan (sy_world s)")
    have act: "backend_act (wb_integrate be w p plan) s = (map_sum WorkspaceBackendFailure id c, s\<lparr>sy_world := world\<rparr>)"
      by (simp add: backend_act_def p_act_def c)
    show thesis
    proof (cases c)
      case (Inl err)
      with assms w(3) x act have "r = Inl (WorkspaceBackendFailure err)" "t = s\<lparr>sy_world := world\<rparr>"
        by (simp_all add: integrate_def p_bind_run)
      with that(2) [OF w(1,2) x c] Inl show thesis by simp
    next
      case (Inr y)
      show thesis
      proof (cases "record_integration e scope w y i actor (ip_integrated_at plan) at (sy_db s)")
        case (Inl err)
        with assms w(3) x act Inr have "r = Inl (WorkspaceState err)" "t = s\<lparr>sy_world := world\<rparr>"
          by (simp_all add: integrate_def p_bind_run p_store_run)
        with that(2) [OF w(1,2) x c] Inl Inr show thesis by simp
      next
        fix v assume v: "record_integration e scope w y i actor (ip_integrated_at plan) at (sy_db s) = Inr v"
        with assms w(3) x act Inr have "r = Inr y" "t = s\<lparr>sy_world := world, sy_db := snd v\<rparr>"
          by (cases v; simp add: integrate_def p_bind_run p_store_run)+
        with that(2) [OF w(1,2) x c] v Inr show thesis by (cases v) simp
      qed
    qed
  qed
qed

text \<open>
  Property C23. Integration is guarded, and its result is recorded once. The backend is asked to
  integrate only under the current owner's scope, with a plan made for that scope and an operation
  recorded in the same run; otherwise nothing at all changes. An integration that succeeds is the
  backend's answer for that plan. It succeeds only if no target commit was recorded
  for the workspace, or this very one: a recorded target is never replaced by another. Afterwards that commit is
  recorded for this workspace and no other workspace has changed, and the integration has been logged if
  and only if it was not recorded before. An integration that fails has changed nothing in the database.
\<close>

theorem integration_follows_its_plan:
  assumes run: "integrate e be scope plan i actor at s = (r, t)"
  shows "(sy_world t \<noteq> sy_world s \<or> sy_db t \<noteq> sy_db s \<or> (\<exists>x. r = Inr x) \<longrightarrow>
       (\<exists>w p x. workspace_for_scope (sy_db s) scope = Some w \<and> find_project (sy_db s) (ws_project_id w) = Some p
          \<and> plan_scope plan = scope \<and> find_operation (sy_db s) i = Some x \<and> op_run_id x = sp_run_id scope
          \<and> sy_world t = snd (wb_integrate be w p plan (sy_world s))
          \<and> (\<forall>y. r = Inr y \<longrightarrow> fst (wb_integrate be w p plan (sy_world s)) = Inr y)))
    \<and> (\<forall>y. r = Inr y \<longrightarrow> (\<exists>w. find_workspace (sy_db s) (sp_assignment_id scope) = Some w
          \<and> ws_target_commit w \<in> {None, Some (ir_target_commit y)}
          \<and> find_workspace (sy_db t) (sp_assignment_id scope) = Some (w\<lparr>ws_target_commit := Some (ir_target_commit y)\<rparr>)
          \<and> (\<forall>j. j \<noteq> sp_assignment_id scope \<longrightarrow> find_workspace (sy_db t) j = find_workspace (sy_db s) j)
          \<and> integrations (sy_db t) = integrations (sy_db s) + (if ws_target_commit w = None then 1 else 0)))
    \<and> (\<forall>err. r = Inl err \<longrightarrow> sy_db t = sy_db s)"
  using run
proof (cases rule: integrate_cases)
  case (1 err)
  then show ?thesis by simp
next
  case (2 w p x c world)
  show ?thesis
  proof (cases c)
    case (Inl err)
    with 2 show ?thesis by auto
  next
    case (Inr y)
    show ?thesis
    proof (cases "record_integration e scope w y i actor (ip_integrated_at plan) at (sy_db s)")
      case (Inl err)
      with 2 Inr show ?thesis by auto
    next
      fix v assume v: "record_integration e scope w y i actor (ip_integrated_at plan) at (sy_db s) = Inr v"
      obtain u db where uv: "v = (u, db)" by (cases v)
      have "find_workspace (sy_db s) (sp_assignment_id scope) = Some w" using 2(1) by (simp add: workspace_for_scope_Some)
      with record_integration_once [OF v [unfolded uv] 2(1)] 2 Inr v uv show ?thesis by simp
    qed
  qed
qed

subsection \<open>A sample backend\<close>

text \<open>A world in which the worktree of the sample assignment exists or not.\<close>

definition sample_plan :: IntegrationPlan where
  "sample_plan =
     \<lparr>ip_run_id = RunId 1, ip_generation = 0, ip_assignment_id = AssignmentId 9, ip_project_id = ProjectId 1,
      ip_target_reference = ''main'', ip_target_commit = ''t'', ip_integrated_at = 7, ip_strategy = Rebase\<rparr>"

definition sample_integration :: IntegrationRecord where
  "sample_integration =
     \<lparr>ir_strategy = Rebase, ir_assignment_id = AssignmentId 9, ir_project_id = ProjectId 1,
      ir_target_reference = ''main'', ir_base_commit = ''b'', ir_result_commit = ''r'',
      ir_target_commit_before = ''t'', ir_target_commit = ''m''\<rparr>"

definition sample_backend :: "bool WorkspaceBackend" where
  "sample_backend =
     \<lparr>wb_base_commit = (\<lambda>_ _ _. Inr (Some ''b'')),
      wb_create = (\<lambda>_ _ _. (Inr (), True)),
      wb_observe = (\<lambda>world _ _. Inr (if world then RObserved else RLost)),
      wb_recovery_snapshot = (\<lambda>_ _ _. Inl RecoveryObservationUnavailable),
      wb_result_commit = (\<lambda>_ _ _. Inr (Some ''r'')),
      wb_validate_resubmission = (\<lambda>_ w _ _ _. Inl (InvalidResubmission (ws_assignment_id w) [])),
      wb_validate_external_closure = (\<lambda>_ _ _ _. Inr ''main''),
      wb_prepare_integration = (\<lambda>_ _ _ _ _. Inr sample_plan),
      wb_integrate = (\<lambda>_ _ _ world. (Inr sample_integration, world))\<rparr>"

lemma sample_backend_simps [simp]:
  "wb_observe sample_backend world w p = Inr (if world then RObserved else RLost)"
  "wb_create sample_backend w p world = (Inr (), True)"
  "wb_integrate sample_backend w p plan world = (Inr sample_integration, world)"
  "wb_result_commit sample_backend world w p = Inr (Some ''r'')"
  "wb_validate_external_closure sample_backend world w p target = Inr ''main''"
  by (simp_all add: sample_backend_def)

definition sample_desired :: Db where
  "sample_desired = sample_worked\<lparr>workspaces := [sample_workspace\<lparr>ws_state := RDesired\<rparr>]\<rparr>"

lemma sample_worked_current:
  assumes "assignments db = assignments sample_worked" "agents db = agents sample_worked"
    and "runs db = runs sample_worked" "events db = []"
  shows "assignment_scope_is_current db (workspace_scope sample_workspace)"
  using assms
  by (simp add: assignment_scope_is_current_def assignment_recovered_def sample_worked_def workspace_scope_def
      sample_workspace_def sample_assignment_def sample_run_def)

lemma event_room_sample:
  assumes "events db = []" shows "event_room sample_env db"
  using assms by (simp add: event_room_def log_ok_def run_log_def sample_env_def maximum_event_page_length_def)

lemma sample_worked_references:
  assumes "runs db = runs sample_worked" "projects db = projects sample_worked" "agents db = agents sample_worked"
    and "tasks db = tasks sample_worked" "operations db = operations sample_worked"
    and "ne_run_id n = RunId 1" "ne_project_id n = Some (ProjectId 1)" "ne_agent_id n = Some (AgentId 1)"
    and "ne_task_id n = Some (TaskId 4)" "ne_operation_id n = None \<or> ne_operation_id n = Some (OperationId 1)"
    and "ne_correlation_id n = None" "ne_causation_id n = None"
  shows "references_ok db n"
  using assms
  by (auto simp: references_ok_def sample_worked_def run_exists_def project_exists_def agent_exists_def task_exists_def
      operation_exists_def sample_run_def sample_project_def sample_result_task_def)

lemma sample_materializes:
  "\<exists>t. materialize sample_env sample_backend (workspace_scope sample_workspace) 5
      \<lparr>sy_db = sample_desired, sy_world = False\<rparr> = (Inr RObserved, t)"
proof -
  let ?scope = "workspace_scope sample_workspace" and ?w = "sample_workspace\<lparr>ws_state := RDesired\<rparr>"
  let ?s = "\<lparr>sy_db = sample_desired, sy_world = False\<rparr>"
  have "assignment_scope_is_current sample_desired ?scope"
    by (rule sample_worked_current) (simp_all add: sample_desired_def sample_worked_def)
  then have w: "workspace_for_scope sample_desired ?scope = Some ?w"
    by (simp add: workspace_for_scope_Some find_workspace_def sample_desired_def workspace_scope_def sample_workspace_def)
  have p: "find_project sample_desired (ws_project_id ?w) = Some sample_project"
    by (simp add: find_project_def sample_desired_def sample_worked_def sample_workspace_def sample_project_def)
  define db1 where "db1 = workspaces_update (update_where (\<lambda>x. ws_assignment_id x = AssignmentId 9)
      (\<lambda>x. x\<lparr>ws_state := RObserved, ws_reconciled_at := Some 5\<rparr>)) sample_desired"
  have rec: "record_workspace_reconciliation_state ?scope RObserved 5 sample_desired = Inr (WApplied, db1)"
    using w by (simp add: record_workspace_reconciliation_state_def bind_run seq_def db1_def workspace_scope_def sample_workspace_def)
  have a: "find_assignment db1 (AssignmentId 9) = Some sample_assignment"
    by (simp add: find_assignment_def db1_def sample_desired_def sample_worked_def sample_assignment_def)
  let ?n = "state_event sample_env ?w sample_assignment RObserved 5"
  have "event_room sample_env db1" by (rule event_room_sample) (simp add: db1_def sample_desired_def sample_worked_def)
  moreover have "references_ok db1 ?n"
    by (rule sample_worked_references) (simp_all add: db1_def sample_desired_def state_event_def sample_workspace_def sample_assignment_def)
  ultimately obtain ev db2 where ev: "append_event sample_env ?n db1 = Inr (ev, db2)" by (rule append_event_possible) blast
  have scope: "workspace_scope ?w = ?scope" "ws_assignment_id ?w = AssignmentId 9"
    by (simp_all add: workspace_scope_def sample_workspace_def)
  have "log_event sample_env ?n db1 = Inr ((), db2)" using ev by (auto simp: log_event_Inr)
  then have "state_change sample_env ?w RObserved 5 sample_desired = Inr ((), db2)"
    using rec a by (simp add: state_change_def bind_run scope)
  then have "record_state sample_env ?w RObserved 5 \<lparr>sy_db = sample_desired, sy_world = True\<rparr>
      = (Inr (), \<lparr>sy_db = db2, sy_world = True\<rparr>)"
    by (simp add: record_state_Inr)
  moreover have "workspace_records ?scope ?s = (Inr (?w, sample_project), ?s)"
    using w p by (intro workspace_records_run) simp_all
  ultimately have "materialize sample_env sample_backend ?scope 5 ?s = (Inr RObserved, \<lparr>sy_db = db2, sy_world = True\<rparr>)"
    by (simp add: materialize_def observed_state_def p_bind_def p_seq_def p_act_def)
  then show ?thesis by blast
qed

theorem reconciling_twice_changes_nothing_witness:
  "\<exists>t. materialize sample_env sample_backend (workspace_scope sample_workspace) 5
         \<lparr>sy_db = sample_desired, sy_world = False\<rparr> = (Inr RObserved, t)
     \<and> materialize sample_env sample_backend (workspace_scope sample_workspace) 6 t = (Inr RObserved, t)"
proof -
  obtain t where t: "materialize sample_env sample_backend (workspace_scope sample_workspace) 5
      \<lparr>sy_db = sample_desired, sy_world = False\<rparr> = (Inr RObserved, t)"
    using sample_materializes by blast
  from reconciling_twice_changes_nothing [OF t, where at' = 6] t show ?thesis by simp
qed

lemma sample_integrates:
  "\<exists>t. integrate sample_env sample_backend (workspace_scope sample_workspace) sample_plan (OperationId 1) ''operator'' 7
      \<lparr>sy_db = sample_worked, sy_world = True\<rparr> = (Inr sample_integration, t)"
proof -
  let ?scope = "workspace_scope sample_workspace" and ?s = "\<lparr>sy_db = sample_worked, sy_world = True\<rparr>"
  have "events sample_worked = []" by (simp add: sample_worked_def)
  then have "assignment_scope_is_current sample_worked ?scope" by (intro sample_worked_current) simp_all
  then have w: "workspace_for_scope sample_worked ?scope = Some sample_workspace"
    by (simp add: workspace_for_scope_Some find_workspace_def sample_worked_def workspace_scope_def sample_workspace_def)
  have p: "find_project sample_worked (ws_project_id sample_workspace) = Some sample_project"
    by (simp add: find_project_def sample_worked_def sample_workspace_def sample_project_def)
  have scope: "sp_assignment_id ?scope = AssignmentId 9" "sp_run_id ?scope = RunId 1" "plan_scope sample_plan = ?scope"
    by (simp_all add: workspace_scope_def sample_workspace_def plan_scope_def sample_plan_def)
  define db1 where "db1 = workspaces_update (update_where (\<lambda>x. ws_assignment_id x = AssignmentId 9)
      (\<lambda>x. x\<lparr>ws_target_commit := Some ''m''\<rparr>)) sample_worked"
  have target: "ws_target_commit sample_workspace = None" by (simp add: sample_workspace_def)
  have rec: "record_workspace_target_commit ?scope ''m'' sample_worked = Inr (WApplied, db1)"
    using w target by (simp add: record_workspace_target_commit_def bind_run seq_def db1_def scope del: One_nat_def)
  let ?n = "integrated_event sample_env sample_workspace sample_assignment sample_integration (OperationId 1) ''operator'' 7"
  have a: "find_assignment db1 (AssignmentId 9) = Some sample_assignment"
    by (simp add: find_assignment_def db1_def sample_worked_def sample_assignment_def)
  have "event_room sample_env db1" by (rule event_room_sample) (simp add: db1_def sample_worked_def)
  moreover have "references_ok db1 ?n"
    by (rule sample_worked_references) (simp_all add: db1_def integrated_event_def sample_workspace_def sample_assignment_def)
  ultimately obtain ev db2 where ev: "append_event sample_env ?n db1 = Inr (ev, db2)"
    and db2: "db2 = db1\<lparr>events := events db1 @ [ev], events_drawn := Suc (events_drawn db1)\<rparr>"
    by (rule append_event_possible) blast
  have "log_event sample_env ?n db1 = Inr ((), db2)" using ev by (auto simp: log_event_Inr)
  then have note_it: "note_integration sample_env ?scope sample_workspace sample_integration (OperationId 1) ''operator'' 7 WApplied db1
      = Inr ((), db2)"
    using a by (simp add: note_integration_def bind_run scope)
  have op: "find_operation sample_worked (OperationId 1) = Some (sample_operation 1)"
    "find_operation db2 (OperationId 1) = Some (sample_operation 1)"
    by (simp_all add: find_operation_def db2 db1_def sample_worked_def)
  have "record_operation_reconciliation sample_env (OperationId 1) RObserved None 7 db2 = Inr (WStale, db2)"
    using op(2) by (simp add: record_operation_reconciliation_def redact_error_def bind_run sample_operation_def)
  moreover have "ir_target_commit sample_integration = ''m''" by (simp add: sample_integration_def)
  ultimately have "record_integration sample_env ?scope sample_workspace sample_integration (OperationId 1) ''operator'' 7 7 sample_worked
      = Inr ((), db2)"
    using rec note_it by (simp add: record_integration_def bind_run seq_def)
  moreover have "ip_integrated_at sample_plan = 7" by (simp add: sample_plan_def)
  ultimately have "p_store WorkspaceState (record_integration sample_env ?scope sample_workspace sample_integration (OperationId 1)
      ''operator'' (ip_integrated_at sample_plan) 7) ?s = (Inr (), \<lparr>sy_db = db2, sy_world = True\<rparr>)"
    by (simp add: p_store_Inr)
  moreover have "workspace_records ?scope ?s = (Inr (sample_workspace, sample_project), ?s)"
    using w p by (intro workspace_records_run) simp_all
  ultimately have "integrate sample_env sample_backend ?scope sample_plan (OperationId 1) ''operator'' 7 ?s
      = (Inr sample_integration, \<lparr>sy_db = db2, sy_world = True\<rparr>)"
    by (simp add: integrate_def p_bind_run scope op(1) backend_act_def p_act_def del: One_nat_def)
  then show ?thesis by blast
qed

theorem integration_follows_its_plan_witness:
  "\<exists>t w. integrate sample_env sample_backend (workspace_scope sample_workspace) sample_plan (OperationId 1) ''operator'' 7
         \<lparr>sy_db = sample_worked, sy_world = True\<rparr> = (Inr sample_integration, t)
     \<and> find_workspace (sy_db t) (AssignmentId 9) = Some w \<and> ws_target_commit w = Some ''m''"
proof -
  obtain t where t: "integrate sample_env sample_backend (workspace_scope sample_workspace) sample_plan (OperationId 1) ''operator'' 7
      \<lparr>sy_db = sample_worked, sy_world = True\<rparr> = (Inr sample_integration, t)"
    using sample_integrates by blast
  from integration_follows_its_plan [OF t] t show ?thesis
    by (auto simp: workspace_scope_def sample_workspace_def sample_integration_def)
qed

end
