(* ===== verification/Providers.thy ===== *)
theory Providers
  imports Effects
begin

section \<open>The process boundary (src/src/providers.rs)\<close>

text \<open>
  The types with which the session supervisor talks to an agent harness, and the trait \<open>Provider\<close>
  as a record of functions on the outside world: the supervisor is generic in it. The semantic
  version of a provider is kept as its text, and the cause of an operating-system error is not kept.
\<close>

datatype (plugins del: transfer) ProviderCapability =
  SupervisorRpc | StartupInstructions | ForegroundInteractive | BackgroundJobs | StructuredLifecycleEvents
| WorkingDirectory | FilesystemSandbox | NetworkSandbox | ApprovalPolicyCapability | AutomaticApprovalReview
| UnrestrictedAccess | InterruptCapability | Termination | TranscriptStreaming | QueuedNotifications

fun capability_text :: "ProviderCapability \<Rightarrow> string" where
  "capability_text SupervisorRpc = ''authenticated agent supervisor transport''"
| "capability_text StartupInstructions = ''startup instruction injection''"
| "capability_text ForegroundInteractive = ''foreground interactive sessions''"
| "capability_text BackgroundJobs = ''background job execution''"
| "capability_text StructuredLifecycleEvents = ''structured lifecycle events''"
| "capability_text WorkingDirectory = ''working directory enforcement''"
| "capability_text FilesystemSandbox = ''filesystem sandbox enforcement''"
| "capability_text NetworkSandbox = ''network sandbox enforcement''"
| "capability_text ApprovalPolicyCapability = ''approval policy enforcement''"
| "capability_text AutomaticApprovalReview = ''automatic approval review''"
| "capability_text UnrestrictedAccess = ''explicit unrestricted access''"
| "capability_text InterruptCapability = ''interrupt''"
| "capability_text Termination = ''termination''"
| "capability_text TranscriptStreaming = ''transcript streaming''"
| "capability_text QueuedNotifications = ''queued foreground notifications''"

datatype ProviderCompatibility = Compatible | Incompatible string string

text \<open>The capabilities are a \<open>BTreeSet\<close>: a list without duplicates in its order.\<close>

record ProviderProbe =
  pb_name :: string
  pb_version :: string
  pb_capabilities :: "ProviderCapability list"
  pb_compatibility :: ProviderCompatibility

datatype LaunchMode = Interactive | JobMode

record LaunchSpecification =
  lc_scope :: SessionScope
  lc_working_directory :: string
  lc_permission_profile :: PermissionProfile
  lc_bootstrap_instruction :: string

record JobEnvironment =
  je_project_id :: project_id
  je_primary_project_root :: string
  je_role :: string
  je_task_id :: task_id
  je_socket_path :: string
  je_token :: AgentToken

record ProviderSessionHandle =
  ph_provider_id :: string
  ph_scope :: SessionScope

subsection \<open>Observations\<close>

datatype ActivityState = Busy | Idle | UnknownActivity

datatype ExitReason = Process | Interrupted | Terminated

fun exit_reason_as_str :: "ExitReason \<Rightarrow> string" where
  "exit_reason_as_str Process = ''process''"
| "exit_reason_as_str Interrupted = ''interrupted''"
| "exit_reason_as_str Terminated = ''terminated''"

record SessionExit =
  xt_code :: "int option"
  xt_reason :: ExitReason

record SessionObservation =
  ob_lifecycle :: LifecycleState
  ob_activity :: ActivityState
  ob_exit :: "SessionExit option"

definition starting_observation :: SessionObservation where
  "starting_observation = \<lparr>ob_lifecycle = Starting, ob_activity = UnknownActivity, ob_exit = None\<rparr>"

definition process_exit :: "int option \<Rightarrow> SessionObservation" where
  "process_exit code =
     \<lparr>ob_lifecycle = Exited, ob_activity = UnknownActivity, ob_exit = Some \<lparr>xt_code = code, xt_reason = Process\<rparr>\<rparr>"

definition interrupted_observation :: SessionObservation where
  "interrupted_observation =
     \<lparr>ob_lifecycle = Exited, ob_activity = UnknownActivity, ob_exit = Some \<lparr>xt_code = None, xt_reason = Interrupted\<rparr>\<rparr>"

definition terminated_observation :: SessionObservation where
  "terminated_observation =
     \<lparr>ob_lifecycle = Exited, ob_activity = UnknownActivity, ob_exit = Some \<lparr>xt_code = None, xt_reason = Terminated\<rparr>\<rparr>"

datatype ProviderEventKind =
  Observation SessionObservation
| ProviderOutput string
| MalformedOutput string string SessionObservation

record ProviderEvent =
  pe_sequence :: nat
  pe_kind :: ProviderEventKind

fun event_observation :: "ProviderEventKind \<Rightarrow> SessionObservation option" where
  "event_observation (Observation observation) = Some observation"
| "event_observation (ProviderOutput _) = None"
| "event_observation (MalformedOutput _ _ observation) = Some observation"

datatype ProviderRecovery = RecoveryObserved ProviderSessionHandle SessionObservation | RecoveryLost | RecoveryUnknown

subsection \<open>Errors\<close>

datatype (plugins del: transfer) ProviderError =
  McpConfiguration
| NoLaunchScript
| UnknownProviderSession string
| EmptyCodexCommand
| ProbeExecution string
| ProbeFailed string string string
| InvalidVersionOutput string
| UnsupportedCodexOperation string
| MissingInteractiveEnvironment
| BootstrapExecutable
| InteractiveLaunch string
| JobLaunch string
| JobExecutableResolution string
| MissingJobStdout
| JobReaderThread
| JobObservation string
| JobControl string
| InteractiveWait
| SignalRegistration
| SignalThread
| SignalMonitorClosed
| UnsupportedSignal int
| InvalidProcessId nat
| SignalForward string

text \<open>Only these failures permit another attempt with the same launch intent.\<close>

fun proves_no_process_started :: "ProviderError \<Rightarrow> bool" where
  "proves_no_process_started NoLaunchScript = True"
| "proves_no_process_started EmptyCodexCommand = True"
| "proves_no_process_started (JobLaunch _) = True"
| "proves_no_process_started (JobExecutableResolution _) = True"
| "proves_no_process_started (InteractiveLaunch _) = True"
| "proves_no_process_started MissingInteractiveEnvironment = True"
| "proves_no_process_started BootstrapExecutable = True"
| "proves_no_process_started McpConfiguration = True"
| "proves_no_process_started SignalRegistration = True"
| "proves_no_process_started SignalThread = True"
| "proves_no_process_started _ = False"

subsection \<open>The trait\<close>

record 'w Provider =
  pv_configure :: "string list \<Rightarrow> 'w \<Rightarrow> 'w"
  pv_probe :: "'w \<Rightarrow> ProviderError + ProviderProbe"
  pv_launch_interactive :: "LaunchSpecification \<Rightarrow> 'w \<Rightarrow> (ProviderError + ProviderSessionHandle) \<times> 'w"
  pv_launch_job :: "LaunchSpecification \<Rightarrow> JobEnvironment \<Rightarrow> 'w \<Rightarrow> (ProviderError + ProviderSessionHandle) \<times> 'w"
  pv_recover :: "'w \<Rightarrow> string \<Rightarrow> SessionScope \<Rightarrow> ProviderError + ProviderRecovery"
  pv_next_event :: "ProviderSessionHandle \<Rightarrow> 'w \<Rightarrow> (ProviderError + ProviderEvent option) \<times> 'w"
  pv_interrupt :: "ProviderSessionHandle \<Rightarrow> 'w \<Rightarrow> (ProviderError + SessionObservation) \<times> 'w"
  pv_terminate :: "ProviderSessionHandle \<Rightarrow> 'w \<Rightarrow> (ProviderError + SessionObservation) \<times> 'w"
  pv_kill :: "ProviderSessionHandle \<Rightarrow> 'w \<Rightarrow> (ProviderError + SessionObservation) \<times> 'w"

subsection \<open>Errors of the session supervisor (src/src/supervisor/session.rs)\<close>

datatype TranscriptError = TranscriptError

datatype (plugins del: transfer) AgentSessionError =
  RestartLimited session_id "int option"
| SessionState StoreError
| SessionProvider ProviderError
| SessionTranscript TranscriptError
| SessionToken
| IncompatibleProvider string string string string
| MissingCapability string string ProviderCapability
| ScopeMismatch SessionScope SessionScope
| UnknownSession session_id
| IntentMismatch session_id
| UnresolvedIntent session_id ExternalResourceState

end
