(* ===== verification/Requests.thy ===== *)
theory Requests
  imports Worktrees Providers
begin

section \<open>The local protocol (src/src/protocol.rs)\<close>

text \<open>
  The requests and failures of the RPC protocol between the command line, the agents and the
  supervisor, the serialised form of a request (in declaration order, as serde writes it), the
  handshake, and the framing of messages on the byte stream.
\<close>

subsection \<open>Requests\<close>

datatype ConnectionChannel = OperatorChannel | AgentChannel

datatype RequestAuthentication =
  OperatorAuthentication
| AgentAuthentication agent_id session_id AgentToken

record ClosureOverrideRequest =
  cv_assignment_id :: assignment_id
  cv_result_commit :: string
  cv_target_commit :: string
  cv_reason :: string

datatype FinishStatus = FinishCompleted | FinishFailed

datatype (plugins del: transfer) RpcRequest =
  Ping
| EnableForegroundNotifications operation_id SessionScope
| BindForegroundNotifications operation_id string
| ForegroundNotificationPending SessionScope
| ClaimForegroundNotification operation_id SessionScope
| ObserveForegroundNotification operation_id operation_id SessionScope QueueOutcome
| ReceiveForegroundNotification operation_id operation_id
| LaunchForeground operation_id AgentToken
| ForegroundStarted SessionScope nat "ForegroundIdentity option"
| WaitForegroundControl SessionScope
| ForegroundExited SessionScope "int option" "int option"
| ForegroundLaunchFailed SessionScope
| ForegroundObservationLost SessionScope
| StatusRequest
| Doctor
| Whoami
| Prime "task_id option" nat
| TaskShow task_id nat nat "string option"
| AssignmentShow assignment_id nat nat "string option"
| Progress "string option" nat nat
| ProjectList
| ProjectAttach operation_id string "string option"
| TaskCreate operation_id string string string "string option" "task_id list"
| TaskReady
| TaskRecover operation_id assignment_id string "RecoveryReport option" bool
| TaskSubmitRetained operation_id RetainedSubmission
| TaskResubmit operation_id Resubmission
| TaskClose operation_id task_id string "ClosureOverrideRequest option"
| Spawn operation_id string task_id
| WorkspaceIntegrate operation_id assignment_id "IntegrationStrategy option"
| Finish operation_id FinishStatus string
| Send operation_id string string
| Inbox nat
| InboxAcknowledge operation_id nat
| Logs string nat nat "session_id option" bool
| Events nat nat
| ShutdownRequest operation_id

subsection \<open>Serialised requests\<close>

definition scope_json :: "SessionScope \<Rightarrow> json" where
  "scope_json s = JObj
     [(''run_id'', run_json (sc_run_id s)), (''agent_id'', agent_json (sc_agent_id s)),
      (''session_id'', session_json (sc_session_id s)), (''generation'', JInt (sc_generation s))]"

fun input_json :: "InheritedInput \<Rightarrow> json" where
  "input_json (Pty device inode special) = JObj
     [(''kind'', JStr ''pty''), (''device'', nat_json device), (''inode'', nat_json inode),
      (''special_device'', nat_json special)]"
| "input_json NonTerminal = JObj [(''kind'', JStr ''non_terminal'')]"
| "input_json UnavailableInput = JObj [(''kind'', JStr ''unavailable'')]"

definition identity_json :: "ForegroundIdentity \<Rightarrow> json" where
  "identity_json i = JObj
     [(''process_id'', nat_json (fi_process_id i)), (''boot_id'', JStr (fi_boot_id i)),
      (''start_ticks'', nat_json (fi_start_ticks i)), (''user_id'', nat_json (fi_user_id i)),
      (''input'', input_json (fi_input i))]"

definition reported_json :: "ReportedEvidence \<Rightarrow> json" where
  "reported_json v = JObj [(''text'', JStr (re_text v)), (''source'', JStr (re_source v))]"

definition recovery_report_json :: "RecoveryReport \<Rightarrow> json" where
  "recovery_report_json r = JObj
     [(''validation_evidence'', JArr (map reported_json (rp_validation_evidence r))),
      (''unfinished_steps'', JArr (map reported_json (rp_unfinished_steps r)))]"

definition retained_json :: "RetainedSubmission \<Rightarrow> json" where
  "retained_json s = JObj
     [(''assignment_id'', assignment_json (rt_assignment_id s)), (''result_commit'', JStr (rt_result_commit s)),
      (''summary'', JStr (rt_summary s)), (''reason'', JStr (rt_reason s)),
      (''review'', reported_json (rt_review s))]"

definition resubmission_json :: "Resubmission \<Rightarrow> json" where
  "resubmission_json s = JObj
     [(''assignment_id'', assignment_json (rb_assignment_id s)),
      (''expected_result'', JStr (rb_expected_result s)), (''result_commit'', JStr (rb_result_commit s)),
      (''summary'', JStr (rb_summary s)), (''reason'', JStr (rb_reason s))]"

definition closure_override_json :: "ClosureOverrideRequest \<Rightarrow> json" where
  "closure_override_json v = JObj
     [(''assignment_id'', assignment_json (cv_assignment_id v)), (''result_commit'', JStr (cv_result_commit v)),
      (''target_commit'', JStr (cv_target_commit v)), (''reason'', JStr (cv_reason v))]"

fun finish_status_text :: "FinishStatus \<Rightarrow> string" where
  "finish_status_text FinishCompleted = ''completed''"
| "finish_status_text FinishFailed = ''failed''"

definition path_json :: "string \<Rightarrow> json" where
  "path_json path = JArr (map (\<lambda>c. nat_json (of_char c)) path)"

definition optional :: "string \<Rightarrow> ('a \<Rightarrow> json) \<Rightarrow> 'a option \<Rightarrow> (string \<times> json) list" where
  "optional key f x = (case x of None \<Rightarrow> [] | Some a \<Rightarrow> [(key, f a)])"

fun method_name :: "RpcRequest \<Rightarrow> string" where
  "method_name Ping = ''ping''"
| "method_name (EnableForegroundNotifications _ _) = ''enable_foreground_notifications''"
| "method_name (BindForegroundNotifications _ _) = ''bind_foreground_notifications''"
| "method_name (ForegroundNotificationPending _) = ''foreground_notification_pending''"
| "method_name (ClaimForegroundNotification _ _) = ''claim_foreground_notification''"
| "method_name (ObserveForegroundNotification _ _ _ _) = ''observe_foreground_notification''"
| "method_name (ReceiveForegroundNotification _ _) = ''receive_foreground_notification''"
| "method_name (LaunchForeground _ _) = ''launch_foreground''"
| "method_name (ForegroundStarted _ _ _) = ''foreground_started''"
| "method_name (WaitForegroundControl _) = ''wait_foreground_control''"
| "method_name (ForegroundExited _ _ _) = ''foreground_exited''"
| "method_name (ForegroundLaunchFailed _) = ''foreground_launch_failed''"
| "method_name (ForegroundObservationLost _) = ''foreground_observation_lost''"
| "method_name StatusRequest = ''status''"
| "method_name Doctor = ''doctor''"
| "method_name Whoami = ''whoami''"
| "method_name (Prime _ _) = ''prime''"
| "method_name (TaskShow _ _ _ _) = ''task_show''"
| "method_name (AssignmentShow _ _ _ _) = ''assignment_show''"
| "method_name (Progress _ _ _) = ''progress''"
| "method_name ProjectList = ''project_list''"
| "method_name (ProjectAttach _ _ _) = ''project_attach''"
| "method_name (TaskCreate _ _ _ _ _ _) = ''task_create''"
| "method_name TaskReady = ''task_ready''"
| "method_name (TaskRecover _ _ _ _ _) = ''task_recover''"
| "method_name (TaskSubmitRetained _ _) = ''task_submit_retained''"
| "method_name (TaskResubmit _ _) = ''task_resubmit''"
| "method_name (TaskClose _ _ _ _) = ''task_close''"
| "method_name (Spawn _ _ _) = ''spawn''"
| "method_name (WorkspaceIntegrate _ _ _) = ''workspace_integrate''"
| "method_name (Finish _ _ _) = ''finish''"
| "method_name (Send _ _ _) = ''send''"
| "method_name (Inbox _) = ''inbox''"
| "method_name (InboxAcknowledge _ _) = ''inbox_acknowledge''"
| "method_name (Logs _ _ _ _ _) = ''logs''"
| "method_name (Events _ _) = ''events''"
| "method_name (ShutdownRequest _) = ''shutdown''"

definition operation_field :: "operation_id \<Rightarrow> string \<times> json" where
  "operation_field i = (''operation_id'', operation_json i)"

fun parameters :: "RpcRequest \<Rightarrow> (string \<times> json) list option" where
  "parameters (EnableForegroundNotifications i s) = Some [operation_field i, (''scope'', scope_json s)]"
| "parameters (BindForegroundNotifications i thread) = Some [operation_field i, (''thread_id'', JStr thread)]"
| "parameters (ForegroundNotificationPending s) = Some [(''scope'', scope_json s)]"
| "parameters (ClaimForegroundNotification i s) = Some [operation_field i, (''scope'', scope_json s)]"
| "parameters (ObserveForegroundNotification i d s outcome) = Some
     [operation_field i, (''delivery_id'', operation_json d), (''scope'', scope_json s),
      (''outcome'', JStr (queue_outcome_str outcome))]"
| "parameters (ReceiveForegroundNotification i d) = Some [operation_field i, (''delivery_id'', operation_json d)]"
| "parameters (LaunchForeground i token) = Some [operation_field i, (''token'', JStr (expose_secret token))]"
| "parameters (ForegroundStarted s p identity) = Some
     [(''scope'', scope_json s), (''process_id'', nat_json p), (''identity'', json_opt identity_json identity)]"
| "parameters (WaitForegroundControl s) = Some [(''scope'', scope_json s)]"
| "parameters (ForegroundExited s code signal) = Some
     [(''scope'', scope_json s), (''code'', json_opt JInt code), (''signal'', json_opt JInt signal)]"
| "parameters (ForegroundLaunchFailed s) = Some [(''scope'', scope_json s)]"
| "parameters (ForegroundObservationLost s) = Some [(''scope'', scope_json s)]"
| "parameters (Prime after limit) = Some [(''after_task'', json_opt task_json after), (''limit'', nat_json limit)]"
| "parameters (TaskShow t after limit revision) = Some
     [(''task_id'', task_json t), (''after'', nat_json after), (''limit'', nat_json limit),
      (''revision'', json_opt JStr revision)]"
| "parameters (AssignmentShow a after limit revision) = Some
     [(''assignment_id'', assignment_json a), (''after'', nat_json after), (''limit'', nat_json limit),
      (''revision'', json_opt JStr revision)]"
| "parameters (Progress after limit wait) = Some
     [(''after'', json_opt JStr after), (''limit'', nat_json limit), (''wait_seconds'', nat_json wait)]"
| "parameters (ProjectAttach i path alias) = Some
     [operation_field i, (''path'', path_json path), (''alias'', json_opt JStr alias)]"
| "parameters (TaskCreate i title description project group_name deps) = Some
     [operation_field i, (''title'', JStr title), (''description'', JStr description), (''project'', JStr project),
      (''group'', json_opt JStr group_name), (''dependencies'', JArr (map task_json deps))]"
| "parameters (TaskRecover i a reason report lost) = Some
     ([operation_field i, (''assignment_id'', assignment_json a), (''reason'', JStr reason)]
      @ optional ''report'' recovery_report_json report
      @ (if lost then [(''acknowledge_lost'', JBool True)] else []))"
| "parameters (TaskSubmitRetained i s) = Some [operation_field i, (''submission'', retained_json s)]"
| "parameters (TaskResubmit i s) = Some [operation_field i, (''submission'', resubmission_json s)]"
| "parameters (TaskClose i t summary v) = Some
     ([operation_field i, (''task_id'', task_json t), (''summary'', JStr summary)]
      @ optional ''operator_override'' closure_override_json v)"
| "parameters (Spawn i role_name t) = Some [operation_field i, (''role'', JStr role_name), (''task_id'', task_json t)]"
| "parameters (WorkspaceIntegrate i a strategy) = Some
     ([operation_field i, (''assignment_id'', assignment_json a)]
      @ optional ''strategy'' (\<lambda>x. JStr (strategy_text x)) strategy)"
| "parameters (Finish i status summary) = Some
     [operation_field i, (''status'', JStr (finish_status_text status)), (''summary'', JStr summary)]"
| "parameters (Send i recipient message) = Some
     [operation_field i, (''recipient'', JStr recipient), (''message'', JStr message)]"
| "parameters (Inbox after) = Some [(''after'', nat_json after)]"
| "parameters (InboxAcknowledge i through) = Some [operation_field i, (''through'', nat_json through)]"
| "parameters (Logs agent after limit session tail) = Some
     [(''agent'', JStr agent), (''after'', nat_json after), (''limit'', nat_json limit),
      (''session_id'', json_opt session_json session), (''tail'', JBool tail)]"
| "parameters (Events after limit) = Some [(''after'', nat_json after), (''limit'', nat_json limit)]"
| "parameters (ShutdownRequest i) = Some [operation_field i]"
| "parameters _ = None"

definition request_json :: "RpcRequest \<Rightarrow> json" where
  "request_json r = JObj ((''method'', JStr (method_name r))
     # (case parameters r of None \<Rightarrow> [] | Some fs \<Rightarrow> [(''parameters'', JObj fs)]))"

text \<open>The fingerprint that \<open>execute_request\<close> computes (src/src/supervisor.rs).\<close>

definition request_fingerprint :: "library \<Rightarrow> RpcRequest \<Rightarrow> string" where
  "request_fingerprint lib r = concat (map encode_byte (sha256 lib (json_bytes lib (request_json r))))"

subsection \<open>Failures\<close>

datatype (plugins del: transfer) RpcFailureCode =
  ProtocolVersionMismatch | RunMismatch | ProjectMismatch | HandshakeRequired | InvalidRequestSequence
| Unauthenticated | PermissionDenied | InvalidArgument | NotFound | Conflict | Unavailable | Internal

text \<open>
  The message of a failure is redacted text. The \<open>Display\<close> of an error is not spelled out: it is
  the error itself here.
\<close>

datatype FailureText =
  Message string
| StateMessage StoreError
| WorkspaceMessage WorkspaceError
| SessionMessage AgentSessionError
| ClockMessage
| Advised FailureText string

record RpcFailure =
  rf_code :: RpcFailureCode
  rf_message :: FailureText

definition redact :: "Env \<Rightarrow> string \<Rightarrow> string" where
  "redact e s = (case text_redacted (env_vars e) s of None \<Rightarrow> [] | Some t \<Rightarrow> t)"

definition rpc_failure :: "Env \<Rightarrow> RpcFailureCode \<Rightarrow> string \<Rightarrow> RpcFailure" where
  "rpc_failure e code message = \<lparr>rf_code = code, rf_message = Message (redact e message)\<rparr>"

subsection \<open>The handshake\<close>

definition PROTOCOL_VERSION :: nat where "PROTOCOL_VERSION = 18"

datatype ProjectKey = ProjectKey string

record HandshakeRequest =
  hq_protocol_version :: nat
  hq_expected_run_id :: run_id
  hq_project_key :: ProjectKey
  hq_channel :: ConnectionChannel

record VersionedRequest =
  vq_protocol_version :: nat
  vq_request_id :: nat
  vq_authentication :: RequestAuthentication
  vq_request :: RpcRequest

datatype ClientMessage = ClientHandshake HandshakeRequest | ClientRequest VersionedRequest

text \<open>The part of an entry of the index of active runs that a connection reads.\<close>

record ActiveRunEntry =
  ae_run_id :: run_id
  ae_project_id :: project_id
  ae_project_key :: ProjectKey

definition version_mismatch :: "Env \<Rightarrow> nat \<Rightarrow> RpcFailure" where
  "version_mismatch e version = rpc_failure e ProtocolVersionMismatch
     (''client requested protocol version '' @ show_nat version @ '', but the supervisor supports ''
      @ show_nat PROTOCOL_VERSION)"

definition validate_handshake :: "Env \<Rightarrow> HandshakeRequest \<Rightarrow> ActiveRunEntry \<Rightarrow> RpcFailure option" where
  "validate_handshake e q active =
     (if hq_protocol_version q \<noteq> PROTOCOL_VERSION then Some (version_mismatch e (hq_protocol_version q))
      else if hq_expected_run_id q \<noteq> ae_run_id active then
        Some (rpc_failure e RunMismatch (''socket belongs to run '' @ run_text e (ae_run_id active) @ '', not ''
          @ run_text e (hq_expected_run_id q)))
      else if hq_project_key q \<noteq> ae_project_key active then
        Some (rpc_failure e ProjectMismatch ''socket does not own the expected project identity'')
      else None)"

subsection \<open>Frames\<close>

definition MAXIMUM_FRAME_LENGTH :: nat where "MAXIMUM_FRAME_LENGTH = 1024 * 1024"

datatype FrameError = FrameIo | TooLarge nat nat | FrameEncode | FrameDecode

text \<open>
  A stream is the list of bytes in transit; reading past its end is the error \<open>UnexpectedEof\<close>. The
  JSON writer and reader are parameters.
\<close>

definition write_frame :: "('a \<Rightarrow> string option) \<Rightarrow> 'a \<Rightarrow> string \<Rightarrow> FrameError + string" where
  "write_frame encode value stream =
     (case encode value of
        None \<Rightarrow> Inl FrameEncode
      | Some encoded \<Rightarrow>
          if MAXIMUM_FRAME_LENGTH < length encoded then Inl (TooLarge (length encoded) MAXIMUM_FRAME_LENGTH)
          else if 2 ^ 32 \<le> length encoded then Inl (TooLarge (length encoded) MAXIMUM_FRAME_LENGTH)
          else Inr (stream @ be_bytes 4 (length encoded) @ encoded))"

definition from_be_bytes :: "string \<Rightarrow> nat" where
  "from_be_bytes bytes = foldl (\<lambda>n c. n * 256 + of_char c) 0 bytes"

definition read_frame :: "(string \<Rightarrow> 'a option) \<Rightarrow> string \<Rightarrow> (FrameError + 'a) \<times> string" where
  "read_frame decode stream =
     (if length stream < 4 then (Inl FrameIo, [])
      else
        let n = from_be_bytes (take 4 stream); rest = drop 4 stream in
        if MAXIMUM_FRAME_LENGTH < n then (Inl (TooLarge n MAXIMUM_FRAME_LENGTH), rest)
        else if length rest < n then (Inl FrameIo, [])
        else ((case decode (take n rest) of None \<Rightarrow> Inl FrameDecode | Some v \<Rightarrow> Inr v), drop n rest))"

fun write_frames :: "('a \<Rightarrow> string option) \<Rightarrow> 'a list \<Rightarrow> string \<Rightarrow> FrameError + string" where
  "write_frames encode [] stream = Inr stream"
| "write_frames encode (v # vs) stream =
     (case write_frame encode v stream of Inl err \<Rightarrow> Inl err | Inr s \<Rightarrow> write_frames encode vs s)"

fun read_frames :: "(string \<Rightarrow> 'a option) \<Rightarrow> nat \<Rightarrow> string \<Rightarrow> (FrameError + 'a list) \<times> string" where
  "read_frames decode 0 stream = (Inr [], stream)"
| "read_frames decode (Suc n) stream =
     (case read_frame decode stream of
        (Inl err, rest) \<Rightarrow> (Inl err, rest)
      | (Inr v, rest) \<Rightarrow>
          (case read_frames decode n rest of
             (Inl err, rest') \<Rightarrow> (Inl err, rest') | (Inr vs, rest') \<Rightarrow> (Inr (v # vs), rest')))"

text \<open>What is written is what is read, and nothing is left over or lost in between.\<close>

lemma from_be_bytes_append [simp]: "from_be_bytes (xs @ [c]) = from_be_bytes xs * 256 + of_char c"
  by (simp add: from_be_bytes_def)

lemma from_be_bytes_be_bytes: "n < 256 ^ k \<Longrightarrow> from_be_bytes (be_bytes k n) = n"
proof (induction k arbitrary: n)
  case 0
  then show ?case by (simp add: from_be_bytes_def)
next
  case (Suc k)
  then have "n div 256 < 256 ^ k" by (simp add: less_mult_imp_div_less mult.commute)
  with Suc.IH have "from_be_bytes (be_bytes k (n div 256)) = n div 256" by blast
  then show ?case by simp
qed

lemma read_written_frame:
  assumes "write_frame encode v stream = Inr s" and "\<And>bytes. encode v = Some bytes \<Longrightarrow> decode bytes = Some v"
  shows "\<exists>bytes. s = stream @ bytes \<and> (\<forall>rest. read_frame decode (bytes @ rest) = (Inr v, rest))"
proof -
  from assms(1) obtain encoded where enc: "encode v = Some encoded" "length encoded \<le> MAXIMUM_FRAME_LENGTH"
    and s: "s = stream @ be_bytes 4 (length encoded) @ encoded"
    by (auto simp: write_frame_def split: option.splits if_splits)
  have "length encoded < 256 ^ 4" using enc(2) by (simp add: MAXIMUM_FRAME_LENGTH_def)
  then have n: "from_be_bytes (be_bytes 4 (length encoded)) = length encoded" by (rule from_be_bytes_be_bytes)
  have "read_frame decode ((be_bytes 4 (length encoded) @ encoded) @ rest) = (Inr v, rest)" for rest
    using enc assms(2) n by (simp add: read_frame_def Let_def)
  with s show ?thesis by blast
qed

text \<open>
  Property C26. Frames need no delimiter: a sequence of messages written to a connection is read
  back as the same sequence, whatever follows it on the stream, and the rest of the stream is left
  untouched. A frame that announces more than the limit is refused from its header alone.
\<close>

theorem frames_read_back:
  assumes codec: "\<And>v bytes. encode v = Some bytes \<Longrightarrow> decode bytes = Some v"
  shows "(write_frames encode vs stream = Inr s \<longrightarrow>
       (\<exists>bytes. s = stream @ bytes \<and> (\<forall>rest. read_frames decode (length vs) (bytes @ rest) = (Inr vs, rest))))
    \<and> (MAXIMUM_FRAME_LENGTH < n \<and> n < 2 ^ 32 \<longrightarrow>
       read_frame decode (be_bytes 4 n @ payload) = (Inl (TooLarge n MAXIMUM_FRAME_LENGTH), payload))"
proof
  show "write_frames encode vs stream = Inr s \<longrightarrow>
       (\<exists>bytes. s = stream @ bytes \<and> (\<forall>rest. read_frames decode (length vs) (bytes @ rest) = (Inr vs, rest)))"
  proof (induction vs arbitrary: stream)
    case Nil
    then show ?case by simp
  next
    case (Cons v vs)
    show ?case
    proof
      assume "write_frames encode (v # vs) stream = Inr s"
      then obtain mid where mid: "write_frame encode v stream = Inr mid" "write_frames encode vs mid = Inr s"
        by (auto split: sum.splits)
      from read_written_frame [OF mid(1), of decode] codec obtain b1 where
        b1: "mid = stream @ b1" "\<And>rest. read_frame decode (b1 @ rest) = (Inr v, rest)" by blast
      from Cons.IH [of mid] mid(2) obtain b2 where
        b2: "s = mid @ b2" "\<And>rest. read_frames decode (length vs) (b2 @ rest) = (Inr vs, rest)" by blast
      from b1 b2 show "\<exists>bytes. s = stream @ bytes \<and>
          (\<forall>rest. read_frames decode (length (v # vs)) (bytes @ rest) = (Inr (v # vs), rest))"
        by (intro exI [of _ "b1 @ b2"]) simp
    qed
  qed
  show "MAXIMUM_FRAME_LENGTH < n \<and> n < 2 ^ 32 \<longrightarrow>
       read_frame decode (be_bytes 4 n @ payload) = (Inl (TooLarge n MAXIMUM_FRAME_LENGTH), payload)"
    using from_be_bytes_be_bytes [of n 4] by (auto simp: read_frame_def Let_def)
qed

theorem frames_read_back_witness:
  "\<exists>s. write_frames Some [''ab'', ''c''] [] = Inr s \<and> read_frames Some 2 (s @ ''more'') = (Inr [''ab'', ''c''], ''more'')"
proof -
  obtain s where s: "write_frames Some [''ab'', ''c''] [] = Inr s"
    by (simp add: write_frame_def MAXIMUM_FRAME_LENGTH_def)
  from frames_read_back [of Some Some "[''ab'', ''c'']" "[]" s] s obtain bytes where
    "s = bytes" "\<forall>rest. read_frames Some (length [''ab'', ''c'']) (bytes @ rest) = (Inr [''ab'', ''c''], rest)" by auto
  with s show ?thesis by (intro exI [of _ s]) (simp add: numeral_2_eq_2)
qed

end
