(* ===== verification/Callers.thy ===== *)
theory Callers
  imports Requests
begin

section \<open>Authentication and authority of callers (src/src/supervisor.rs)\<close>

text \<open>
  Who calls, what the caller may do, and the views of agents, projects and tasks that every
  handler of the supervisor shares. A handler is a process whose error is a failure of the
  protocol or, where the Rust code would panic, \<open>Unwinds\<close>, or, where its loop would not end,
  \<open>Diverges\<close>. What does not change while the
  supervisor runs, or is drawn anew for each request, is in the record \<open>Supervisor\<close>: the run, its
  stored configuration, the workspace backend, the clock and the next generated identifier.
\<close>

datatype AuthenticatedCaller = Operator | Agent SessionScope

fun is_operator :: "AuthenticatedCaller \<Rightarrow> bool" where
  "is_operator Operator = True"
| "is_operator (Agent _) = False"

fun caller_agent :: "AuthenticatedCaller \<Rightarrow> agent_id option" where
  "caller_agent Operator = None"
| "caller_agent (Agent scope) = Some (sc_agent_id scope)"

record 'w Supervisor =
  sv_env :: Env
  sv_run :: run_id
  sv_library :: library
  sv_decode :: "string \<Rightarrow> RunConfiguration option"
  sv_snapshots :: "ConfigurationSnapshotRecord table"
  sv_backend :: "'w WorkspaceBackend"
  sv_hmac :: "u8 list \<Rightarrow> string \<Rightarrow> string"
  sv_clock :: "int option"
  sv_fresh :: nat

subsection \<open>Errors\<close>

datatype HandlerError = Refused RpcFailure | Unwinds | Diverges

type_synonym ('w, 'a) handler = "('w, HandlerError, 'a) process"

fun state_code :: "StoreError \<Rightarrow> RpcFailureCode" where
  "state_code (OperationConflict _) = Conflict"
| "state_code (OperationIncomplete _ _) = Conflict"
| "state_code (RunNotActive _) = Conflict"
| "state_code (RunRecoveryConflict _ _) = Conflict"
| "state_code (StaleAssignment _) = Conflict"
| "state_code (WorkspacePathReserved _) = Conflict"
| "state_code (ResubmissionConflict _) = Conflict"
| "state_code (RecoveryConflict _ _) = Conflict"
| "state_code (WorkspaceResultConflict _ _ _) = Conflict"
| "state_code (WorkspaceTargetConflict _ _ _) = Conflict"
| "state_code (EventTooLarge _) = InvalidArgument"
| "state_code _ = Internal"

definition rpc_state_failure :: "StoreError \<Rightarrow> HandlerError" where
  "rpc_state_failure err =
     (if err = Panic then Unwinds else Refused \<lparr>rf_code = state_code err, rf_message = StateMessage err\<rparr>)"

fun backend_conflict :: "WorkspaceBackendError \<Rightarrow> bool" where
  "backend_conflict (DirtyWorkspace _ _) = True"
| "backend_conflict (InvalidResubmission _ _) = True"
| "backend_conflict (UncommittedChanges _ _ _) = True"
| "backend_conflict (UnfinishedGitOperation _ _) = True"
| "backend_conflict (UnverifiableIndex _ _) = True"
| "backend_conflict (DirtyTarget _ _) = True"
| "backend_conflict (UnexpectedWorkspaceTip _ _ _) = True"
| "backend_conflict (AmbiguousTarget _) = True"
| "backend_conflict (AmbiguousHistory _) = True"
| "backend_conflict (IntegrationConflict _) = True"
| "backend_conflict (UnexpectedTargetTip _ _ _) = True"
| "backend_conflict (UnexpectedTargetReference _ _ _) = True"
| "backend_conflict (IntegrationPlanMismatch _) = True"
| "backend_conflict _ = False"

fun rpc_workspace_failure :: "WorkspaceError \<Rightarrow> HandlerError" where
  "rpc_workspace_failure (WorkspaceBackendFailure err) =
     Refused \<lparr>rf_code = (if backend_conflict err then Conflict else Unavailable),
              rf_message = WorkspaceMessage (WorkspaceBackendFailure err)\<rparr>"
| "rpc_workspace_failure (WorkspaceState err) = rpc_state_failure err"
| "rpc_workspace_failure (MissingProject p) =
     Refused \<lparr>rf_code = Internal, rf_message = WorkspaceMessage (MissingProject p)\<rparr>"

definition refuse :: "'w Supervisor \<Rightarrow> RpcFailureCode \<Rightarrow> string \<Rightarrow> ('w, 'a) handler" where
  "refuse sv code message = p_fail (Refused (rpc_failure (sv_env sv) code message))"

abbreviation invalid_argument :: "'w Supervisor \<Rightarrow> string \<Rightarrow> ('w, 'a) handler" where
  "invalid_argument sv \<equiv> refuse sv InvalidArgument"
abbreviation not_found :: "'w Supervisor \<Rightarrow> string \<Rightarrow> ('w, 'a) handler" where
  "not_found sv \<equiv> refuse sv NotFound"
abbreviation conflict :: "'w Supervisor \<Rightarrow> string \<Rightarrow> ('w, 'a) handler" where
  "conflict sv \<equiv> refuse sv Conflict"

definition demand :: "'w Supervisor \<Rightarrow> bool \<Rightarrow> RpcFailureCode \<Rightarrow> string \<Rightarrow> ('w, unit) handler" where
  "demand sv b code message = (if b then p_ret () else refuse sv code message)"

definition in_store :: "'a repo \<Rightarrow> ('w, 'a) handler" where
  "in_store m = p_store rpc_state_failure m"

definition in_workspace :: "('w, 'a) working \<Rightarrow> ('w, 'a) handler" where
  "in_workspace p = p_error rpc_workspace_failure p"

definition rpc_timestamp :: "'w Supervisor \<Rightarrow> ('w, int) handler" where
  "rpc_timestamp sv =
     (case sv_clock sv of
        None \<Rightarrow> p_fail (Refused \<lparr>rf_code = Internal, rf_message = ClockMessage\<rparr>)
      | Some now \<Rightarrow> p_ret now)"

definition saved_configuration :: "'w Supervisor \<Rightarrow> ('w, EffectiveConfig) handler" where
  "saved_configuration sv =
     p_result (map_sum rpc_state_failure id (configuration (sv_library sv) (sv_decode sv) (sv_snapshots sv) (sv_run sv)))"

text \<open>\<open>u64::try_from\<close> and \<open>i64::try_from\<close>; unsigned numbers are naturals.\<close>

definition as_i64 :: "nat \<Rightarrow> int option" where
  "as_i64 n = (if int n \<le> i64_max then Some (int n) else None)"

definition as_u64 :: "int \<Rightarrow> nat option" where
  "as_u64 i = (if 0 \<le> i then Some (nat i) else None)"

definition convert :: "'w Supervisor \<Rightarrow> 'a option \<Rightarrow> RpcFailureCode \<Rightarrow> string \<Rightarrow> ('w, 'a) handler" where
  "convert sv x code message = (case x of None \<Rightarrow> refuse sv code message | Some a \<Rightarrow> p_ret a)"

subsection \<open>Credentials\<close>

definition authenticate_agent ::
    "'w Supervisor \<Rightarrow> Db \<Rightarrow> agent_id \<Rightarrow> session_id \<Rightarrow> AgentToken \<Rightarrow> SessionScope option" where
  "authenticate_agent sv db agent session token =
     (case active_session_credential db (sv_run sv) agent session of
        None \<Rightarrow> None
      | Some c \<Rightarrow>
          if verify (sv_hmac sv) (env_ulid (sv_env sv)) (cr_token_verifier c) token (credential_scope c)
          then Some (credential_scope c) else None)"

definition authenticate_request ::
    "'w Supervisor \<Rightarrow> ConnectionChannel \<Rightarrow> RequestAuthentication \<Rightarrow> ('w, AuthenticatedCaller) handler" where
  "authenticate_request sv channel authentication =
     (case (channel, authentication) of
        (OperatorChannel, OperatorAuthentication) \<Rightarrow> p_ret Operator
      | (AgentChannel, AgentAuthentication agent session token) \<Rightarrow>
          p_bind (p_query (\<lambda>db. authenticate_agent sv db agent session token)) (\<lambda>found.
          case found of
            Some scope \<Rightarrow>
              if sc_run_id scope = sv_run sv then p_ret (Agent scope)
              else refuse sv Unauthenticated
                ''agent credentials are invalid or no longer active; reconnecting cannot restore revoked credentials; after stopped-run recovery, launch a fresh session with `coterie`''
          | None \<Rightarrow> refuse sv Unauthenticated
                ''agent credentials are invalid or no longer active; reconnecting cannot restore revoked credentials; after stopped-run recovery, launch a fresh session with `coterie`'')
      | _ \<Rightarrow> refuse sv Unauthenticated ''request credentials do not match the established channel'')"

definition scope_is_active :: "run_id \<Rightarrow> SessionScope \<Rightarrow> Db \<Rightarrow> bool" where
  "scope_is_active run scope db \<longleftrightarrow>
     sc_run_id scope = run
     \<and> (case active_session_credential db (sc_run_id scope) (sc_agent_id scope) (sc_session_id scope) of
          None \<Rightarrow> False | Some c \<Rightarrow> cr_generation c = sc_generation scope)"

definition require_current_caller :: "'w Supervisor \<Rightarrow> AuthenticatedCaller \<Rightarrow> ('w, unit) handler" where
  "require_current_caller sv caller =
     (case caller of
        Operator \<Rightarrow> p_ret ()
      | Agent scope \<Rightarrow>
          p_bind (p_query (scope_is_active (sv_run sv) scope)) (\<lambda>current.
          demand sv current Unauthenticated ''the caller's session generation is no longer active''))"

definition require_operator :: "'w Supervisor \<Rightarrow> AuthenticatedCaller \<Rightarrow> string \<Rightarrow> ('w, unit) handler" where
  "require_operator sv caller message = demand sv (is_operator caller) PermissionDenied message"

subsection \<open>Agents\<close>

record AgentSummary =
  am_id :: agent_id
  am_name :: string
  am_role :: string
  am_state :: string

definition agent_name :: "string \<Rightarrow> string \<Rightarrow> nat \<Rightarrow> string" where
  "agent_name lead role_name ordinal =
     (if role_name = lead \<and> ordinal = 1 then role_name else role_name @ ''-'' @ show_nat ordinal)"

text \<open>The first argument counts the agents of each role seen so far.\<close>

fun summarize_from :: "(string \<Rightarrow> nat) \<Rightarrow> string \<Rightarrow> AgentRecord list \<Rightarrow> AgentSummary list" where
  "summarize_from counts lead [] = []"
| "summarize_from counts lead (a # rest) =
     (let ordinal = Suc (counts (ag_role a)) in
      \<lparr>am_id = ag_id a, am_name = agent_name lead (ag_role a) ordinal, am_role = ag_role a,
       am_state = lifecycle_as_str (ag_state a)\<rparr>
      # summarize_from (counts(ag_role a := ordinal)) lead rest)"

definition summarize_agents :: "AgentRecord list \<Rightarrow> string \<Rightarrow> AgentSummary list" where
  "summarize_agents rows lead = summarize_from (\<lambda>_. 0) lead rows"

definition no_such_agent :: "'w Supervisor \<Rightarrow> string \<Rightarrow> ('w, 'a) handler" where
  "no_such_agent sv name = not_found sv (''agent `'' @ name @ ''` does not exist'')"

definition agent_record :: "'w Supervisor \<Rightarrow> agent_id \<Rightarrow> ('w, AgentRecord) handler" where
  "agent_record sv agent =
     p_bind (p_query (\<lambda>db. find_agent db agent)) (\<lambda>found.
     case found of
       Some a \<Rightarrow> if ag_run_id a = sv_run sv then p_ret a else no_such_agent sv (agent_text (sv_env sv) agent)
     | None \<Rightarrow> no_such_agent sv (agent_text (sv_env sv) agent))"

definition agent_summaries :: "'w Supervisor \<Rightarrow> ('w, AgentSummary list) handler" where
  "agent_summaries sv =
     p_bind (p_query (\<lambda>db. agents_of_run db (sv_run sv))) (\<lambda>rows.
     p_bind (saved_configuration sv) (\<lambda>c.
     p_ret (summarize_agents rows (ar_lead (ec_archetype c)))))"

definition summary_for_agent :: "'w Supervisor \<Rightarrow> agent_id \<Rightarrow> ('w, AgentSummary) handler" where
  "summary_for_agent sv agent =
     p_bind (agent_summaries sv) (\<lambda>summaries.
     case find (\<lambda>x. am_id x = agent) summaries of
       None \<Rightarrow> no_such_agent sv (agent_text (sv_env sv) agent)
     | Some x \<Rightarrow> p_ret x)"

definition resolve_agent :: "'w Supervisor \<Rightarrow> string \<Rightarrow> ('w, AgentSummary) handler" where
  "resolve_agent sv name =
     p_bind (agent_summaries sv) (\<lambda>summaries.
     case (case parse_id (env_ulid (sv_env sv)) ''cg'' name of
             Inr u \<Rightarrow> find (\<lambda>x. am_id x = AgentId u) summaries
           | Inl _ \<Rightarrow> find (\<lambda>x. am_name x = name) summaries) of
       None \<Rightarrow> no_such_agent sv name
     | Some x \<Rightarrow> p_ret x)"

definition denied_text :: "string \<Rightarrow> string \<Rightarrow> string \<Rightarrow> string" where
  "denied_text role_name ns act =
     ''role `'' @ role_name @ ''` is not authorized for `'' @ ns @ '':'' @ act @ ''`''
     @ (if ns = ''spawn'' then ''; ask an authorized coordinator or the operator to launch; inspecting capacity grants no authority''
        else [])"

definition require_capability ::
    "'w Supervisor \<Rightarrow> AuthenticatedCaller \<Rightarrow> string \<Rightarrow> string \<Rightarrow> ('w, unit) handler" where
  "require_capability sv caller ns act =
     (case caller_agent caller of
        None \<Rightarrow> p_ret ()
      | Some agent \<Rightarrow>
          p_bind (agent_record sv agent) (\<lambda>a.
          p_bind (saved_configuration sv) (\<lambda>c.
          demand sv (authorize (ec_archetype c) (ag_role a) \<lparr>namespace = ns, action = act\<rparr> = Allowed)
            PermissionDenied (denied_text (ag_role a) ns act))))"

subsection \<open>Callers and projects\<close>

datatype CallerChannel = CalledByOperator | CalledByAgent

record CallerSummary =
  cx_run_id :: run_id
  cx_channel :: CallerChannel
  cx_agent :: "AgentSummary option"

definition caller_summary :: "'w Supervisor \<Rightarrow> AuthenticatedCaller \<Rightarrow> ('w, CallerSummary) handler" where
  "caller_summary sv caller =
     (case caller of
        Operator \<Rightarrow> p_ret \<lparr>cx_run_id = sv_run sv, cx_channel = CalledByOperator, cx_agent = None\<rparr>
      | Agent scope \<Rightarrow>
          p_bind (summary_for_agent sv (sc_agent_id scope)) (\<lambda>a.
          p_ret \<lparr>cx_run_id = sv_run sv, cx_channel = CalledByAgent, cx_agent = Some a\<rparr>))"

record ProjectSummary =
  px_id :: project_id
  px_alias :: string
  px_root :: string
  px_access :: string

definition project_summary :: "ProjectRecord \<Rightarrow> ProjectSummary" where
  "project_summary p =
     \<lparr>px_id = pj_id p, px_alias = pj_alias p, px_root = pj_canonical_path p, px_access = ''read_write''\<rparr>"

text \<open>A later entry of the same key replaces an earlier one in the \<open>BTreeMap\<close>.\<close>

definition project_aliases :: "ProjectRecord list \<Rightarrow> project_id \<Rightarrow> string option" where
  "project_aliases ps = map_of (rev (map (\<lambda>p. (pj_id p, pj_alias p)) ps))"

subsection \<open>Tasks\<close>

record TaskSummary =
  tx_id :: task_id
  tx_project_id :: project_id
  tx_project :: string
  tx_title :: string
  tx_description :: string
  tx_status :: TaskStatus
  tx_ready :: bool
  tx_unresolved_dependencies :: "task_id list"
  tx_result :: "json option"

definition summarize_task ::
    "'w Supervisor \<Rightarrow> (project_id \<Rightarrow> string option) \<Rightarrow> TaskRecord \<Rightarrow> ('w, TaskSummary) handler" where
  "summarize_task sv aliases t =
     p_bind (p_query (\<lambda>db. task_readiness db (tk_id t))) (\<lambda>readiness.
     case aliases (tk_project_id t) of
       None \<Rightarrow> refuse sv Internal (''task `'' @ task_text (sv_env sv) (tk_id t) @ ''` has no attached target project'')
     | Some alias \<Rightarrow> p_ret
         \<lparr>tx_id = tk_id t, tx_project_id = tk_project_id t, tx_project = alias, tx_title = tk_title t,
          tx_description = tk_description t, tx_status = tk_status t,
          tx_ready = (case readiness of None \<Rightarrow> False | Some r \<Rightarrow> is_ready r),
          tx_unresolved_dependencies = (case readiness of None \<Rightarrow> [] | Some r \<Rightarrow> rd_unresolved r),
          tx_result = tk_result t\<rparr>)"

definition summarize_tasks ::
    "'w Supervisor \<Rightarrow> (project_id \<Rightarrow> string option) \<Rightarrow> TaskRecord list \<Rightarrow> ('w, TaskSummary list) handler" where
  "summarize_tasks sv aliases ts = p_map (summarize_task sv aliases) ts"

definition no_such_task :: "'w Supervisor \<Rightarrow> task_id \<Rightarrow> ('w, 'a) handler" where
  "no_such_task sv t = not_found sv (''task `'' @ task_text (sv_env sv) t @ ''` does not exist'')"

definition task_by_id :: "'w Supervisor \<Rightarrow> task_id \<Rightarrow> ('w, TaskSummary) handler" where
  "task_by_id sv task =
     p_bind (p_query (\<lambda>db. (projects_of_run db (sv_run sv), find_task db task))) (\<lambda>(ps, found).
     case found of
       Some t \<Rightarrow> if tk_run_id t = sv_run sv then summarize_task sv (project_aliases ps) t else no_such_task sv task
     | None \<Rightarrow> no_such_task sv task)"

record TaskCounts =
  tc_open :: nat
  tc_in_progress :: nat
  tc_submitted :: nat
  tc_closed :: nat
  tc_canceled :: nat

fun count_task :: "TaskStatus \<Rightarrow> TaskCounts \<Rightarrow> TaskCounts" where
  "count_task Open c = c\<lparr>tc_open := tc_open c + 1\<rparr>"
| "count_task InProgress c = c\<lparr>tc_in_progress := tc_in_progress c + 1\<rparr>"
| "count_task Submitted c = c\<lparr>tc_submitted := tc_submitted c + 1\<rparr>"
| "count_task Closed c = c\<lparr>tc_closed := tc_closed c + 1\<rparr>"
| "count_task Canceled c = c\<lparr>tc_canceled := tc_canceled c + 1\<rparr>"

definition task_counts :: "TaskRecord list \<Rightarrow> TaskCounts" where
  "task_counts ts =
     fold (\<lambda>t c. count_task (tk_status t) c) ts
       \<lparr>tc_open = 0, tc_in_progress = 0, tc_submitted = 0, tc_closed = 0, tc_canceled = 0\<rparr>"

definition require_transition :: "'w Supervisor \<Rightarrow> TaskTransitionResult \<Rightarrow> task_id \<Rightarrow> string \<Rightarrow> ('w, unit) handler" where
  "require_transition sv result task verb =
     (case result of
        Transitioned _ _ \<Rightarrow> p_ret ()
      | TransitionRejected TransitionTaskNotFound \<Rightarrow> no_such_task sv task
      | TransitionRejected (InvalidStatus status) \<Rightarrow> conflict sv
          (''task `'' @ task_text (sv_env sv) task @ ''` cannot '' @ verb @ '' from `'' @ status_as_str status @ ''`'')
      | TransitionRejected AcceptanceNotMet \<Rightarrow> conflict sv
          (''task `'' @ task_text (sv_env sv) task
           @ ''` cannot close because its worktree assignment has not been integrated; run `coterie workspace integrate`, or ask the operator to validate external integration and run `coterie task close --override`''))"

fun mutation_value :: "'a MutationOutcome \<Rightarrow> 'a" where
  "mutation_value (Applied r) = r"
| "mutation_value (Replayed r) = r"

definition event_actor :: "'w Supervisor \<Rightarrow> AuthenticatedCaller \<Rightarrow> string" where
  "event_actor sv caller =
     (case caller_agent caller of None \<Rightarrow> ''operator'' | Some a \<Rightarrow> agent_text (sv_env sv) a)"

subsection \<open>Looking up changes nothing\<close>

lemma reading_refuse [reading_intros]: "reading (refuse sv code message)" "reading (demand sv b code message)"
  "reading (no_such_agent sv name)" "reading (no_such_task sv task)"
  unfolding demand_def refuse_def no_such_agent_def no_such_task_def by (intro reading_intros)+

lemma reading_lookups [reading_intros]:
  "reading (rpc_timestamp sv)" "reading (saved_configuration sv)" "reading (convert sv x code message)"
  "reading (require_operator sv caller message)" "reading (agent_record sv agent)" "reading (agent_summaries sv)"
  unfolding rpc_timestamp_def saved_configuration_def convert_def require_operator_def agent_record_def agent_summaries_def
  by (intro reading_intros)+

lemma reading_callers [reading_intros]:
  "reading (authenticate_request sv channel authentication)" "reading (require_current_caller sv caller)"
  "reading (summary_for_agent sv agent)" "reading (resolve_agent sv name)" "reading (require_capability sv caller ns act)"
proof -
  show "reading (authenticate_request sv channel authentication)"
    unfolding authenticate_request_def
    by (cases channel; cases authentication; simp) (intro reading_intros)+
  show "reading (require_current_caller sv caller)"
    unfolding require_current_caller_def by (cases caller; simp) (intro reading_intros)+
qed (unfold summary_for_agent_def resolve_agent_def require_capability_def, (intro reading_intros)+)

lemma reading_summaries [reading_intros]:
  "reading (caller_summary sv caller)" "reading (summarize_task sv aliases t)" "reading (summarize_tasks sv aliases ts)"
  "reading (task_by_id sv task)" "reading (require_transition sv result task verb)"
proof -
  show "reading (caller_summary sv caller)"
    unfolding caller_summary_def by (cases caller; simp) (intro reading_intros)+
  show "reading (require_transition sv result task verb)"
    unfolding require_transition_def by (auto intro!: reading_intros split: TaskTransitionResult.split TaskTransitionRejection.split)
  show st: "reading (summarize_task sv aliases t)" for t
    unfolding summarize_task_def by (intro reading_intros)
  show "reading (summarize_tasks sv aliases ts)" unfolding summarize_tasks_def by (intro reading_intros st)
  have st': "reading (summarize_task sv x t)" for x t unfolding summarize_task_def by (intro reading_intros)
  show "reading (task_by_id sv task)" unfolding task_by_id_def by (intro reading_intros st')
qed

lemmas committing_lookups [committing_intros] =
  reading_refuse [THEN reading_committing] reading_lookups [THEN reading_committing]
  reading_callers [THEN reading_committing] reading_summaries [THEN reading_committing]

lemma committing_in_store [committing_intros]: "scripted e m \<Longrightarrow> committing e (in_store m)"
  unfolding in_store_def by (rule committing_store)

lemma committing_in_workspace [committing_intros]: "committing e p \<Longrightarrow> committing e (in_workspace p)"
  unfolding in_workspace_def by (rule committing_error)

lemma in_store_Inr: "in_store m s = (Inr a, t) \<longleftrightarrow> (\<exists>db. m (sy_db s) = Inr (a, db) \<and> t = s\<lparr>sy_db := db\<rparr>)"
  by (simp add: in_store_def p_store_Inr)

lemma demand_Inr: "demand sv b code message s = (Inr u, t) \<longleftrightarrow> b \<and> t = s"
  by (auto simp: demand_def refuse_def)

lemma refuse_run [simp]: "refuse sv code message s = (Inl (Refused (rpc_failure (sv_env sv) code message)), s)"
  by (simp add: refuse_def)

subsection \<open>Credentials of superseded generations\<close>

lemma active_session_credential_Some:
  assumes "active_session_credential db run agent session = Some c"
  shows "c \<in> set (credentials db) \<and> credential_scope c = \<lparr>sc_run_id = run, sc_agent_id = agent, sc_session_id = session,
      sc_generation = cr_generation c\<rparr> \<and> cr_revoked_at c = None
    \<and> (\<exists>x \<in> set (sessions db). se_run_id x = run \<and> se_agent_id x = agent \<and> se_id x = session
         \<and> se_generation x = cr_generation c \<and> se_ended_at x = None)
    \<and> (\<exists>a \<in> set (agents db). ag_run_id a = run \<and> ag_id a = agent \<and> ag_generation a = cr_generation c)
    \<and> (\<exists>r \<in> set (runs db). rn_id r = run \<and> rn_status r = ''active'')"
  using assms by (auto simp: active_session_credential_def credential_scope_def dest!: find_Some_in)

lemma scope_is_active_generation:
  assumes "scope_is_active run scope db" "keys_ok db" "find_agent db (sc_agent_id scope) = Some a"
  shows "ag_generation a = sc_generation scope"
proof -
  from assms(1) obtain c where c: "active_session_credential db (sc_run_id scope) (sc_agent_id scope) (sc_session_id scope) = Some c"
    and g: "cr_generation c = sc_generation scope"
    by (auto simp: scope_is_active_def split: option.splits)
  from active_session_credential_Some [OF c] obtain b where
    "b \<in> set (agents db)" "ag_id b = sc_agent_id scope" "ag_generation b = cr_generation c" by blast
  moreover have "b = a"
    using find_agent_unique [OF assms(2) \<open>b \<in> set (agents db)\<close>] assms(3) \<open>ag_id b = sc_agent_id scope\<close> by simp
  ultimately show ?thesis using g by simp
qed

lemma authenticated_scope_is_active:
  assumes "authenticate_request sv channel authentication s = (Inr (Agent scope), t)"
  shows "scope_is_active (sv_run sv) scope (sy_db s) \<and> channel = AgentChannel \<and> t = s
    \<and> (\<exists>token c. authentication = AgentAuthentication (sc_agent_id scope) (sc_session_id scope) token
         \<and> c \<in> set (credentials (sy_db s)) \<and> credential_scope c = scope \<and> cr_revoked_at c = None
         \<and> verify (sv_hmac sv) (env_ulid (sv_env sv)) (cr_token_verifier c) token scope)"
proof -
  have t: "t = s" by (rule readingD [OF reading_callers(1) assms])
  from assms obtain agent session token where ch: "channel = AgentChannel"
    and au: "authentication = AgentAuthentication agent session token"
    and ok: "authenticate_agent sv (sy_db s) agent session token = Some scope"
    by (auto simp: authenticate_request_def split: ConnectionChannel.splits RequestAuthentication.splits
        option.splits if_splits)
  from ok obtain c where c: "active_session_credential (sy_db s) (sv_run sv) agent session = Some c"
    and v: "verify (sv_hmac sv) (env_ulid (sv_env sv)) (cr_token_verifier c) token (credential_scope c)"
    and scope: "scope = credential_scope c"
    by (auto simp: authenticate_agent_def split: option.splits if_splits)
  note facts = active_session_credential_Some [OF c]
  from facts scope have parts: "sc_run_id scope = sv_run sv" "sc_agent_id scope = agent" "sc_session_id scope = session"
    "sc_generation scope = cr_generation c" by (simp_all add: credential_scope_def)
  have "scope_is_active (sv_run sv) scope (sy_db s)" using c parts by (simp add: scope_is_active_def)
  moreover have "authentication = AgentAuthentication (sc_agent_id scope) (sc_session_id scope) token" using au parts by simp
  ultimately show ?thesis using t ch v scope facts by blast
qed

subsection \<open>Names of agents\<close>

declare show_nat.simps [simp del]

lemma show_nat_no_dash: "CHR ''-'' \<notin> set (show_nat n)"
proof (induction n rule: show_nat.induct)
  case (1 n)
  have digit: "CHR ''-'' \<noteq> (char_of (48 + k) :: char)" if "k < 10" for k :: nat
  proof
    assume "CHR ''-'' = (char_of (48 + k) :: char)"
    then have "(of_char (CHR ''-'') :: nat) = of_char (char_of (48 + k) :: char)" by simp
    with that show False by simp
  qed
  show ?case
  proof (cases "n < 10")
    case True
    then show ?thesis using digit [of n] by (simp add: show_nat.simps [of n])
  next
    case False
    then show ?thesis using 1 digit [of "n mod 10"] by (simp add: show_nat.simps [of n])
  qed
qed

lemma last_dash:
  assumes "xs @ ''-'' @ ys = xs' @ ''-'' @ ys'" "CHR ''-'' \<notin> set ys" "CHR ''-'' \<notin> set ys'"
  shows "xs = xs' \<and> ys = ys'"
proof -
  have "rev ys @ CHR ''-'' # rev xs = rev ys' @ CHR ''-'' # rev xs'"
    using arg_cong [OF assms(1), of rev] by simp
  moreover have "takeWhile (\<lambda>c. c \<noteq> CHR ''-'') (rev zs @ CHR ''-'' # ws) = rev zs" if "CHR ''-'' \<notin> set zs" for zs ws
    using that by (subst takeWhile_append2) auto
  ultimately have "rev ys = rev ys'" using assms(2,3) by metis
  then show ?thesis using assms(1) by simp
qed

lemma show_nat_inj: "show_nat m = show_nat n \<Longrightarrow> m = n"
proof (induction m arbitrary: n rule: show_nat.induct)
  case (1 m)
  have nonempty: "show_nat k \<noteq> []" for k by (simp add: show_nat.simps [of k])
  have digit: "(of_char (char_of (48 + k) :: char) :: nat) = 48 + k" if "k < 10" for k :: nat
    using that by simp
  have same: "j = k" if "(char_of (48 + j) :: char) = char_of (48 + k)" "j < 10" "k < 10" for j k :: nat
    using arg_cong [OF that(1), of "of_char :: char \<Rightarrow> nat"] digit [OF that(2)] digit [OF that(3)] by simp
  show ?case
  proof (cases "m < 10")
    case True
    then have m: "show_nat m = [char_of (48 + m)]" by (simp add: show_nat.simps [of m])
    show ?thesis
    proof (cases "n < 10")
      case True
      then have "show_nat n = [char_of (48 + n)]" by (simp add: show_nat.simps [of n])
      with m 1(2) same [OF _ \<open>m < 10\<close> True] show ?thesis by simp
    next
      case False
      then have n: "show_nat n = show_nat (n div 10) @ [char_of (48 + n mod 10)]" by (subst show_nat.simps) simp
      have "show_nat (n div 10) = []" using 1(2) unfolding m n by simp
      with nonempty show ?thesis by blast
    qed
  next
    case False
    then have m: "show_nat m = show_nat (m div 10) @ [char_of (48 + m mod 10)]" by (subst show_nat.simps) simp
    have "\<not> n < 10"
    proof
      assume "n < 10"
      then have n: "show_nat n = [char_of (48 + n)]" by (simp add: show_nat.simps [of n])
      have "show_nat (m div 10) = []" using 1(2) unfolding m n by simp
      with nonempty show False by blast
    qed
    then have n: "show_nat n = show_nat (n div 10) @ [char_of (48 + n mod 10)]" by (subst show_nat.simps) simp
    have "show_nat (m div 10) = show_nat (n div 10)"
      "(char_of (48 + m mod 10) :: char) = char_of (48 + n mod 10)"
      using 1(2) unfolding m n by simp_all
    then have "m div 10 = n div 10" "m mod 10 = n mod 10"
      using 1(1) [OF False] same [of "m mod 10" "n mod 10"] by simp_all
    then show ?thesis by (metis mult_div_mod_eq)
  qed
qed

definition unambiguous :: "string \<Rightarrow> AgentRecord list \<Rightarrow> bool" where
  "unambiguous lead rows \<longleftrightarrow> (\<forall>a \<in> set rows. \<forall>n. lead \<noteq> ag_role a @ ''-'' @ show_nat n)"

lemma agent_name_cases:
  "(r = lead \<and> j = 1 \<and> agent_name lead r j = lead)
    \<or> (\<not> (r = lead \<and> j = 1) \<and> agent_name lead r j = r @ ''-'' @ show_nat j)"
  unfolding agent_name_def by (cases "r = lead \<and> j = 1") (simp, simp only: if_False simp_thms)

lemma agent_name_inj:
  assumes "agent_name lead r j = agent_name lead r' k"
    and "\<forall>n. lead \<noteq> r @ ''-'' @ show_nat n" "\<forall>n. lead \<noteq> r' @ ''-'' @ show_nat n"
  shows "r = r' \<and> j = k"
proof (cases "r = lead \<and> j = 1")
  case True
  then have "agent_name lead r' k = lead" using assms(1) agent_name_cases [of r lead j] by metis
  then have "r' = lead \<and> k = 1" using assms(3) agent_name_cases [of r' lead k] by metis
  with True show ?thesis by simp
next
  case False
  then have first: "agent_name lead r j = r @ ''-'' @ show_nat j" using agent_name_cases [of r lead j] by blast
  have "agent_name lead r' k \<noteq> lead" using assms(1,2) first by metis
  then have "agent_name lead r' k = r' @ ''-'' @ show_nat k" using agent_name_cases [of r' lead k] by blast
  with assms(1) first have "r = r' \<and> show_nat j = show_nat k"
    by (intro last_dash [OF _ show_nat_no_dash show_nat_no_dash]) (rule trans [OF trans [OF sym]])
  then show ?thesis using show_nat_inj by blast
qed

lemma summarize_from_names:
  "x \<in> set (summarize_from counts lead rows) \<Longrightarrow>
     \<exists>a \<in> set rows. \<exists>k > counts (ag_role a). am_id x = ag_id a \<and> am_name x = agent_name lead (ag_role a) k"
proof (induction rows arbitrary: counts)
  case Nil
  then show ?case by simp
next
  case (Cons a rows)
  let ?counts = "counts(ag_role a := Suc (counts (ag_role a)))"
  show ?case
  proof (cases "x \<in> set (summarize_from ?counts lead rows)")
    case True
    from Cons.IH [OF this] obtain b k where "b \<in> set rows" "?counts (ag_role b) < k" "am_id x = ag_id b"
      "am_name x = agent_name lead (ag_role b) k" by blast
    moreover from this have "counts (ag_role b) < k" by (auto split: if_splits)
    ultimately show ?thesis by auto
  next
    case False
    with Cons.prems show ?thesis by (auto simp: Let_def intro!: exI [of _ "Suc (counts (ag_role a))"])
  qed
qed

lemma summarize_from_distinct:
  "unambiguous lead rows \<Longrightarrow> distinct (map am_name (summarize_from counts lead rows))"
proof (induction rows arbitrary: counts)
  case Nil
  then show ?case by simp
next
  case (Cons a rows)
  let ?counts = "counts(ag_role a := Suc (counts (ag_role a)))"
  have "am_name x \<noteq> agent_name lead (ag_role a) (Suc (counts (ag_role a)))"
    if "x \<in> set (summarize_from ?counts lead rows)" for x
  proof
    assume same: "am_name x = agent_name lead (ag_role a) (Suc (counts (ag_role a)))"
    from summarize_from_names [OF that] obtain b k where b: "b \<in> set rows" "?counts (ag_role b) < k"
      "am_name x = agent_name lead (ag_role b) k" by blast
    have "ag_role b = ag_role a \<and> k = Suc (counts (ag_role a))"
      using same b(1,3) Cons.prems by (intro agent_name_inj [of lead]) (auto simp: unambiguous_def)
    with b(2) show False by simp
  qed
  moreover have "distinct (map am_name (summarize_from ?counts lead rows))"
    using Cons.prems by (intro Cons.IH) (simp add: unambiguous_def)
  ultimately show ?case by (simp add: Let_def image_iff del: fun_upd_apply) metis
qed

lemma summarize_from_append:
  "\<exists>tail. summarize_from counts lead (rows @ added) = summarize_from counts lead rows @ tail"
  by (induction rows arbitrary: counts) (auto simp: Let_def)

lemma summarize_from_ids: "map am_id (summarize_from counts lead rows) = map ag_id rows"
  by (induction rows arbitrary: counts) (auto simp: Let_def)

lemma find_by_distinct: "distinct (map f xs) \<Longrightarrow> x \<in> set xs \<Longrightarrow> find (\<lambda>y. f y = f x) xs = Some x"
  by (induction xs) (auto simp: image_iff)

text \<open>
  A name identifies an agent. Unless the lead role is itself called like a numbered
  agent of another role, the agents of a run have different names, looking one up by its name
  finds that agent, and agents that join later leave the names of the others as they were.
\<close>

lemma agent_names_identify_agents:
  assumes "unambiguous lead rows"
  shows "distinct (map am_name (summarize_agents rows lead))
    \<and> map am_id (summarize_agents rows lead) = map ag_id rows
    \<and> (\<forall>x \<in> set (summarize_agents rows lead).
         find (\<lambda>y. am_name y = am_name x) (summarize_agents rows lead) = Some x)
    \<and> take (length rows) (summarize_agents (rows @ added) lead) = summarize_agents rows lead"
proof -
  obtain tail where tail: "summarize_agents (rows @ added) lead = summarize_agents rows lead @ tail"
    using summarize_from_append unfolding summarize_agents_def by blast
  have "length (summarize_agents rows lead) = length rows"
    using arg_cong [OF summarize_from_ids [of "\<lambda>_. 0" lead rows], of length] by (simp add: summarize_agents_def)
  with tail have "take (length rows) (summarize_agents (rows @ added) lead) = summarize_agents rows lead" by simp
  moreover have d: "distinct (map am_name (summarize_agents rows lead))"
    using summarize_from_distinct [OF assms] by (simp add: summarize_agents_def)
  moreover have "\<forall>x \<in> set (summarize_agents rows lead).
      find (\<lambda>y. am_name y = am_name x) (summarize_agents rows lead) = Some x"
    using find_by_distinct [OF d] by blast
  ultimately show ?thesis by (simp add: summarize_agents_def summarize_from_ids)
qed

text \<open>
  Without that condition two agents can share a name, and the one that joined first gets the
  messages of both: here the lead, of the role \<open>worker-1\<close>, and the first agent of the role \<open>worker\<close>.
\<close>

lemma agent_names_can_collide:
  "map am_name (summarize_agents [sample_agent 1\<lparr>ag_role := ''worker-1''\<rparr>, sample_agent 2] ''worker-1'')
     = [''worker-1'', ''worker-1'']"
  by code_simp

end
