(* ===== verification/Responses.thy ===== *)
theory Responses
  imports Callers
begin

section \<open>Responses (src/src/protocol.rs)\<close>

text \<open>
  The payloads of successful requests. Some of them are stored as the result of an operation, to
  be returned again when the request is repeated: for those the serialised form and its reader are
  given. The pages of \<open>doctor\<close>, \<open>prime\<close>, \<open>task show\<close>, \<open>assignment show\<close>, \<open>progress\<close> and
  \<open>logs\<close>, whose handlers are not modelled, have no constructor.
\<close>

record RetainedSubmissionSummary =
  ry_assignment_id :: assignment_id
  ry_task :: TaskSummary

record ResubmissionSummary =
  rw_assignment_id :: assignment_id
  rw_previous_result :: json
  rw_task :: TaskSummary

record MessageSummary =
  mx_id :: message_id
  mx_sequence :: nat
  mx_sender :: "AgentSummary option"
  mx_body :: string
  mx_created_at :: int
  mx_acknowledged :: bool

record EventSummary =
  ex_id :: event_id
  ex_run_id :: run_id
  ex_sequence :: nat
  ex_event_type :: string
  ex_actor :: string
  ex_subject :: string
  ex_project_id :: "project_id option"
  ex_agent_id :: "agent_id option"
  ex_task_id :: "task_id option"
  ex_operation_id :: "operation_id option"
  ex_correlation_id :: "event_id option"
  ex_causation_id :: "event_id option"
  ex_payload :: json
  ex_summary :: string
  ex_created_at :: int

text \<open>\<open>IntegrationSummary\<close> has the fields of \<open>IntegrationRecord\<close>, which \<open>integration_summary\<close> copies.\<close>

record IntegrationSummary =
  ix_strategy :: IntegrationStrategy
  ix_assignment_id :: assignment_id
  ix_project_id :: project_id
  ix_target_reference :: string
  ix_base_commit :: string
  ix_result_commit :: string
  ix_target_commit_before :: string
  ix_target_commit :: string

definition integration_summary :: "IntegrationRecord \<Rightarrow> IntegrationSummary" where
  "integration_summary r =
     \<lparr>ix_strategy = ir_strategy r, ix_assignment_id = ir_assignment_id r, ix_project_id = ir_project_id r,
      ix_target_reference = ir_target_reference r, ix_base_commit = ir_base_commit r,
      ix_result_commit = ir_result_commit r, ix_target_commit_before = ir_target_commit_before r,
      ix_target_commit = ir_target_commit r\<rparr>"

datatype (plugins del: transfer) RpcResponse =
  ForegroundNotificationReceived bool
| ForegroundNotifications NotificationAvailability bool
| ForegroundNotificationClaimed "NotificationClaim option"
| Pong run_id
| ForegroundPrepared run_id AgentSummary session_id int string
| ForegroundObserved session_id string
| ForegroundTerminationRequested session_id
| StatusResponse run_id string "ProjectSummary list" "AgentSummary list" TaskCounts
| Identity run_id CallerChannel "AgentSummary option"
| ProjectsResponse "ProjectSummary list"
| ProjectAttached operation_id ProjectSummary
| TaskCreatedResponse operation_id TaskSummary
| ReadyTasks "TaskSummary list"
| TaskClosed operation_id TaskSummary
| SpawnedResponse operation_id AgentSummary session_id assignment_id task_id
| WorkspaceIntegratedResponse operation_id IntegrationSummary
| AssignmentFinished operation_id assignment_id TaskSummary
| TaskRetainedSubmitted operation_id RetainedSubmissionSummary
| TaskResubmittedResponse operation_id ResubmissionSummary
| TaskRecoveredResponse operation_id RecoverySummary
| MessageSentResponse operation_id message_id AgentSummary nat
| InboxResponse "MessageSummary list" nat
| InboxAcknowledged operation_id nat nat
| EventsResponse "EventSummary list" nat
| ShuttingDown run_id operation_id

subsection \<open>Stored results\<close>

definition task_summary_json :: "TaskSummary \<Rightarrow> json" where
  "task_summary_json t = JObj
     [(''description'', JStr (tx_description t)), (''id'', task_json (tx_id t)), (''project'', JStr (tx_project t)),
      (''project_id'', project_json (tx_project_id t)), (''ready'', JBool (tx_ready t)),
      (''result'', json_opt id (tx_result t)), (''status'', status_json (tx_status t)),
      (''title'', JStr (tx_title t)),
      (''unresolved_dependencies'', JArr (map task_json (tx_unresolved_dependencies t)))]"

definition task_summary_of_json :: "Env \<Rightarrow> json \<Rightarrow> TaskSummary option" where
  "task_summary_of_json e j =
     Option.bind (field (id_of_json e ''ct'') ''id'' j) (\<lambda>i.
     Option.bind (field (id_of_json e ''cp'') ''project_id'' j) (\<lambda>project.
     Option.bind (field string_of_json ''project'' j) (\<lambda>alias.
     Option.bind (field string_of_json ''title'' j) (\<lambda>title.
     Option.bind (field string_of_json ''description'' j) (\<lambda>description.
     Option.bind (field status_of_json ''status'' j) (\<lambda>status.
     Option.bind (field bool_of_json ''ready'' j) (\<lambda>ready.
     Option.bind (field (list_of_json (id_of_json e ''ct'')) ''unresolved_dependencies'' j) (\<lambda>unresolved.
     Option.bind (option_field Some ''result'' j) (\<lambda>result.
     Some \<lparr>tx_id = TaskId i, tx_project_id = ProjectId project, tx_project = alias, tx_title = title,
       tx_description = description, tx_status = status, tx_ready = ready,
       tx_unresolved_dependencies = map TaskId unresolved, tx_result = result\<rparr>)))))))))"

text \<open>
  The stored value is the whole response: a tag beside the fields of the summary, flattened into
  it. An operation kind has one kind of response, so its reader refuses any other tag.
\<close>

definition tagged :: "string \<Rightarrow> json \<Rightarrow> bool" where
  "tagged tag j \<longleftrightarrow> json_get ''result'' j = Some (JStr tag)"

definition retained_response_json :: "operation_id \<times> RetainedSubmissionSummary \<Rightarrow> json" where
  "retained_response_json = (\<lambda>(i, r). JObj
     [(''assignment_id'', assignment_json (ry_assignment_id r)), (''operation_id'', operation_json i),
      (''result'', JStr ''task_retained_submitted''), (''task'', task_summary_json (ry_task r))])"

definition retained_response_of_json :: "Env \<Rightarrow> json \<Rightarrow> (operation_id \<times> RetainedSubmissionSummary) option" where
  "retained_response_of_json e j =
     (if \<not> tagged ''task_retained_submitted'' j then None
      else Option.bind (field (id_of_json e ''co'') ''operation_id'' j) (\<lambda>i.
           Option.bind (field (id_of_json e ''ca'') ''assignment_id'' j) (\<lambda>a.
           Option.bind (field (task_summary_of_json e) ''task'' j) (\<lambda>t.
           Some (OperationId i, \<lparr>ry_assignment_id = AssignmentId a, ry_task = t\<rparr>)))))"

definition resubmitted_response_json :: "operation_id \<times> ResubmissionSummary \<Rightarrow> json" where
  "resubmitted_response_json = (\<lambda>(i, r). JObj
     [(''assignment_id'', assignment_json (rw_assignment_id r)), (''operation_id'', operation_json i),
      (''previous_result'', rw_previous_result r), (''result'', JStr ''task_resubmitted''),
      (''task'', task_summary_json (rw_task r))])"

definition resubmitted_response_of_json :: "Env \<Rightarrow> json \<Rightarrow> (operation_id \<times> ResubmissionSummary) option" where
  "resubmitted_response_of_json e j =
     (if \<not> tagged ''task_resubmitted'' j then None
      else Option.bind (field (id_of_json e ''co'') ''operation_id'' j) (\<lambda>i.
           Option.bind (field (id_of_json e ''ca'') ''assignment_id'' j) (\<lambda>a.
           Option.bind (field Some ''previous_result'' j) (\<lambda>previous.
           Option.bind (field (task_summary_of_json e) ''task'' j) (\<lambda>t.
           Some (OperationId i,
             \<lparr>rw_assignment_id = AssignmentId a, rw_previous_result = previous, rw_task = t\<rparr>))))))"

definition recovered_response_json :: "operation_id \<times> RecoverySummary \<Rightarrow> json" where
  "recovered_response_json = (\<lambda>(i, r).
     case recovery_json r of
       JObj fs \<Rightarrow> JObj (obj_insert ''operation_id'' (operation_json i) (obj_insert ''result'' (JStr ''task_recovered'') fs))
     | j \<Rightarrow> j)"

definition recovered_response_of_json :: "Env \<Rightarrow> json \<Rightarrow> (operation_id \<times> RecoverySummary) option" where
  "recovered_response_of_json e j =
     (if \<not> tagged ''task_recovered'' j then None
      else Option.bind (field (id_of_json e ''co'') ''operation_id'' j) (\<lambda>i.
           Option.bind (recovery_of_json e j) (\<lambda>r. Some (OperationId i, r))))"

definition plan_json :: "IntegrationPlan \<Rightarrow> json" where
  "plan_json p = JObj
     [(''assignment_id'', assignment_json (ip_assignment_id p)), (''generation'', JInt (ip_generation p)),
      (''integrated_at'', JInt (ip_integrated_at p)), (''project_id'', project_json (ip_project_id p)),
      (''run_id'', run_json (ip_run_id p)), (''strategy'', JStr (strategy_text (ip_strategy p))),
      (''target_commit'', JStr (ip_target_commit p)), (''target_reference'', JStr (ip_target_reference p))]"

fun strategy_of_json :: "json \<Rightarrow> IntegrationStrategy option" where
  "strategy_of_json (JStr s) =
     (if s = ''rebase'' then Some Rebase else if s = ''merge'' then Some Merge else None)"
| "strategy_of_json _ = None"

definition plan_of_json :: "Env \<Rightarrow> json \<Rightarrow> IntegrationPlan option" where
  "plan_of_json e j =
     Option.bind (field (id_of_json e ''cr'') ''run_id'' j) (\<lambda>run.
     Option.bind (field int_of_json ''generation'' j) (\<lambda>generation.
     Option.bind (field (id_of_json e ''ca'') ''assignment_id'' j) (\<lambda>a.
     Option.bind (field (id_of_json e ''cp'') ''project_id'' j) (\<lambda>project.
     Option.bind (field string_of_json ''target_reference'' j) (\<lambda>reference.
     Option.bind (field string_of_json ''target_commit'' j) (\<lambda>commit.
     Option.bind (field int_of_json ''integrated_at'' j) (\<lambda>at.
     Option.bind (field strategy_of_json ''strategy'' j) (\<lambda>strategy.
     Some \<lparr>ip_run_id = RunId run, ip_generation = generation, ip_assignment_id = AssignmentId a,
       ip_project_id = ProjectId project, ip_target_reference = reference, ip_target_commit = commit,
       ip_integrated_at = at, ip_strategy = strategy\<rparr>))))))))"

definition override_of_json :: "Env \<Rightarrow> json \<Rightarrow> OperatorClosureOverride option" where
  "override_of_json e j =
     (if \<not> known_members [''assignment_id'', ''project_id'', ''base_commit'', ''result_commit'', ''target_reference'',
          ''target_commit'', ''reason'', ''validation_summary''] j
      then None
      else Option.bind (field (id_of_json e ''ca'') ''assignment_id'' j) (\<lambda>a.
           Option.bind (field (id_of_json e ''cp'') ''project_id'' j) (\<lambda>project.
           Option.bind (field string_of_json ''base_commit'' j) (\<lambda>base.
           Option.bind (field string_of_json ''result_commit'' j) (\<lambda>result.
           Option.bind (field string_of_json ''target_reference'' j) (\<lambda>reference.
           Option.bind (field string_of_json ''target_commit'' j) (\<lambda>target.
           Option.bind (field string_of_json ''reason'' j) (\<lambda>reason.
           Option.bind (field string_of_json ''validation_summary'' j) (\<lambda>validation.
           Some \<lparr>ov_assignment_id = AssignmentId a, ov_project_id = ProjectId project, ov_base_commit = base,
             ov_result_commit = result, ov_target_reference = reference, ov_target_commit = target,
             ov_reason = reason, ov_validation_summary = validation\<rparr>)))))))))"

subsection \<open>Reading stored results back\<close>

lemma id_of_json_JId [simp]: "id_of_json e tag (JId tag u) = Some u"
  by (simp add: id_of_json_def)

lemma those_Some [simp]: "those (map (\<lambda>x. Some (f x)) xs) = Some (map f xs)"
  by (induction xs) simp_all

lemma task_summary_roundtrip:
  assumes "tx_result t \<noteq> Some JNull"
  shows "task_summary_of_json e (task_summary_json t) = Some t"
proof -
  have "option_field Some ''result'' (task_summary_json t) = Some (tx_result t)"
    using assms by (auto simp: option_field_def task_summary_json_def json_opt_def split: option.split json.split)
  then show ?thesis
    by (simp add: task_summary_of_json_def field_def)
      (simp add: task_summary_json_def task_json_def project_json_def comp_def)
qed

text \<open>What an operation stores as its result is what a repetition of the request returns.\<close>

lemma stored_responses_roundtrip:
  "tx_result (ry_task r) \<noteq> Some JNull \<Longrightarrow> retained_response_of_json e (retained_response_json (i, r)) = Some (i, r)"
  "tx_result (rw_task b) \<noteq> Some JNull \<Longrightarrow> resubmitted_response_of_json e (resubmitted_response_json (i, b)) = Some (i, b)"
  by (simp_all add: retained_response_of_json_def retained_response_json_def resubmitted_response_of_json_def
      resubmitted_response_json_def tagged_def field_def task_summary_roundtrip operation_json_def assignment_json_def)

lemma strategy_roundtrip [simp]: "strategy_of_json (JStr (strategy_text x)) = Some x"
  by (cases x) simp_all

lemma plan_roundtrip:
  assumes "i64_min \<le> ip_generation p" "ip_generation p \<le> i64_max" "i64_min \<le> ip_integrated_at p" "ip_integrated_at p \<le> i64_max"
  shows "plan_of_json e (plan_json p) = Some p"
  using assms by (simp add: plan_of_json_def field_def plan_json_def run_json_def assignment_json_def project_json_def
      del: strategy_of_json.simps)

end
