(* ===== verification/TaskHandlers.thy ===== *)
theory TaskHandlers
  imports Responses
begin

section \<open>Requests about tasks (src/src/supervisor.rs and src/src/supervisor/)\<close>

text \<open>
  The handlers of \<open>execute_request\<close> that create, list, close, finish, resubmit and integrate work.
  Each checks the authority of the caller and its arguments, reads what it needs, and runs one
  idempotent mutation. A repeated operation identifier finds its earlier request and skips the
  checks that only a first attempt can pass.
\<close>

subsection \<open>Creating and listing\<close>

definition create_failure :: "'w Supervisor \<Rightarrow> task_id list \<Rightarrow> StoreError \<Rightarrow> HandlerError" where
  "create_failure sv deps err =
     (case err of
        CorruptTaskState i \<Rightarrow>
          if i \<in> set deps
          then Refused (rpc_failure (sv_env sv) NotFound
            (''dependency task `'' @ task_text (sv_env sv) i @ ''` does not exist''))
          else rpc_state_failure err
      | _ \<Rightarrow> rpc_state_failure err)"

definition create_task_handler ::
    "'w Supervisor \<Rightarrow> AuthenticatedCaller \<Rightarrow> operation_id \<Rightarrow> string \<Rightarrow> string \<Rightarrow> string \<Rightarrow> string option
      \<Rightarrow> task_id list \<Rightarrow> string \<Rightarrow> ('w, RpcResponse) handler" where
  "create_task_handler sv caller i title description alias group_name deps fp =
     p_seq (require_capability sv caller ''task'' ''create'')
     (p_seq (demand sv (\<not> is_blank title) InvalidArgument ''task title cannot be empty'')
     (p_seq (demand sv (\<not> is_blank description) InvalidArgument ''task description cannot be empty'')
     (p_seq (demand sv (case group_name of None \<Rightarrow> True | Some n \<Rightarrow> \<not> is_blank n) InvalidArgument
        ''task group cannot be empty'')
     (p_bind (p_query (\<lambda>db. project_by_alias db (sv_run sv) alias)) (\<lambda>found.
      case found of
        None \<Rightarrow> not_found sv (''project `'' @ alias @ ''` is not attached'')
      | Some p \<Rightarrow>
          p_bind (rpc_timestamp sv) (\<lambda>now.
          p_bind (p_store (create_failure sv deps) (create_task (sv_env sv)
            \<lparr>nt_operation_id = i, nt_run_id = sv_run sv, nt_actor = caller_agent caller,
             nt_task_id = TaskId (sv_fresh sv), nt_project_id = pj_id p, nt_project_alias = alias,
             nt_title = title, nt_description = description, nt_group = group_name,
             nt_dependencies = deps, nt_now = now\<rparr> (Some fp))) (\<lambda>outcome.
          p_bind (task_by_id sv (mutation_value outcome)) (\<lambda>t.
          p_ret (TaskCreatedResponse i t)))))))))"

definition ready_tasks_handler :: "'w Supervisor \<Rightarrow> AuthenticatedCaller \<Rightarrow> ('w, RpcResponse) handler" where
  "ready_tasks_handler sv caller =
     p_seq (require_capability sv caller ''task'' ''read'')
     (p_bind (p_query (\<lambda>db. (projects_of_run db (sv_run sv), ready_tasks db (sv_run sv)))) (\<lambda>(ps, ts).
      p_bind (summarize_tasks sv (project_aliases ps) ts) (\<lambda>xs. p_ret (ReadyTasks xs))))"

subsection \<open>Accepting work that was integrated elsewhere (src/src/supervisor/closure_override.rs)\<close>

definition lower_hex :: "char \<Rightarrow> bool" where
  "lower_hex c \<longleftrightarrow> (48 \<le> (of_char c :: nat) \<and> (of_char c :: nat) \<le> 57) \<or> (97 \<le> (of_char c :: nat) \<and> (of_char c :: nat) \<le> 102)"

definition object_id_text :: "string \<Rightarrow> string" where
  "object_id_text name = ''override '' @ name @ '' commit must be a full 40-digit Git object ID''"

definition integration_pending :: "Db \<Rightarrow> run_id \<Rightarrow> assignment_id \<Rightarrow> bool" where
  "integration_pending db run a \<longleftrightarrow>
     list_ex (\<lambda>r. op_kind r = ''workspace.integrate''
         \<and> json_get ''assignment_id'' (op_request r) = Some (assignment_json a))
       (operations_requiring_reconciliation db run)"

definition override_assignment_ok :: "run_id \<Rightarrow> task_id \<Rightarrow> assignment_id \<Rightarrow> AssignmentRecord \<Rightarrow> bool" where
  "override_assignment_ok run t named a \<longleftrightarrow>
     as_id a = named \<and> as_run_id a = run \<and> as_task_id a = t \<and> as_state a = ''completed'' \<and> as_completed_at a \<noteq> None"

definition override_workspace_ok :: "WorkspaceRecord \<Rightarrow> bool" where
  "override_workspace_ok w \<longleftrightarrow> ws_kind w = ''worktree'' \<and> ws_state w = RObserved \<and> ws_target_commit w = None"

definition accept_override ::
    "'w Supervisor \<Rightarrow> TaskRecord \<Rightarrow> AssignmentRecord \<Rightarrow> WorkspaceRecord \<Rightarrow> ClosureOverrideRequest \<Rightarrow> string
      \<Rightarrow> ('w, OperatorClosureOverride) handler" where
  "accept_override sv t a w request summary =
     (let result = map ascii_lower (cv_result_commit request); target = map ascii_lower (cv_target_commit request) in
      p_seq (demand sv (ws_result_commit w = Some result) Conflict
        ''override result commit must match the recorded submission; inspect `coterie prime` before retrying'')
      (p_bind (p_query (\<lambda>db. integration_pending db (sv_run sv) (as_id a))) (\<lambda>busy.
       p_seq (demand sv (\<not> busy) Conflict
         ''the assignment has a pending integration; reconcile it before overriding closure'')
       (p_bind (in_workspace (validate_external_closure (sv_backend sv) (assignment_scope a) target)) (\<lambda>reference.
        p_bind (convert sv (ws_base_commit w) Conflict ''the assignment has no recorded base commit'') (\<lambda>base.
        p_ret \<lparr>ov_assignment_id = as_id a, ov_project_id = tk_project_id t, ov_base_commit = base,
               ov_result_commit = result, ov_target_reference = reference, ov_target_commit = target,
               ov_reason = cv_reason request, ov_validation_summary = summary\<rparr>))))))"

definition validate_override ::
    "'w Supervisor \<Rightarrow> task_id \<Rightarrow> TaskRecord option \<Rightarrow> AssignmentRecord option \<Rightarrow> WorkspaceRecord option
      \<Rightarrow> ClosureOverrideRequest \<Rightarrow> string \<Rightarrow> ('w, OperatorClosureOverride) handler" where
  "validate_override sv task_id task assignment workspace request summary =
     p_seq (demand sv (\<not> is_blank (cv_reason request)) InvalidArgument ''override reason cannot be empty'')
     (p_seq (p_each (\<lambda>(name, v).
        demand sv (length v = 40 \<and> list_all is_ascii_hexdigit v) InvalidArgument (object_id_text name))
        [(''result'', cv_result_commit request), (''target'', cv_target_commit request)])
     (case task of None \<Rightarrow> no_such_task sv task_id
      | Some t \<Rightarrow>
          if tk_run_id t \<noteq> sv_run sv then no_such_task sv task_id
          else p_seq (demand sv (tk_status t = Submitted) Conflict
            (''task `'' @ task_text (sv_env sv) task_id @ ''` must be submitted before an operator closure override''))
          (p_bind (convert sv (case assignment of None \<Rightarrow> None
              | Some a \<Rightarrow> if override_assignment_ok (sv_run sv) task_id (cv_assignment_id request) a then Some a else None)
             Conflict ''override must name the task's latest completed assignment'') (\<lambda>a.
           p_bind (convert sv (case workspace of None \<Rightarrow> None
              | Some w \<Rightarrow> if override_workspace_ok w then Some w else None)
             Conflict ''override requires an observed, unintegrated Git worktree; use ordinary `coterie task close` for integrated work'') (\<lambda>w.
           accept_override sv t a w request summary)))))"

subsection \<open>Closing\<close>

definition closing_records ::
    "Db \<Rightarrow> run_id \<Rightarrow> task_id \<Rightarrow> TaskRecord option \<times> AssignmentRecord option \<times> WorkspaceRecord option" where
  "closing_records db run i =
     (let task = find_task db i;
          assignment = (case task of None \<Rightarrow> None
            | Some t \<Rightarrow> if tk_status t = Submitted then latest_assignment_for_task db run i else None)
      in (task, assignment, Option.bind assignment (\<lambda>a. find_workspace db (as_id a))))"

definition integration_evidence :: "AssignmentRecord \<Rightarrow> WorkspaceRecord \<Rightarrow> string \<Rightarrow> json" where
  "integration_evidence a w target = JObj
     [(''assignment_id'', assignment_json (as_id a)), (''base_commit'', json_opt JStr (ws_base_commit w)),
      (''result_commit'', json_opt JStr (ws_result_commit w)), (''target_commit'', JStr target)]"

definition closure_result ::
    "'w Supervisor \<Rightarrow> task_id \<Rightarrow> TaskRecord option \<Rightarrow> AssignmentRecord option \<Rightarrow> WorkspaceRecord option \<Rightarrow> string
      \<Rightarrow> ('w, json) handler" where
  "closure_result sv task_id task assignment workspace summary =
     (let fs = [(''assignment_result'', json_opt id (Option.bind task tk_result)), (''validation_summary'', JStr summary)] in
      if (case task of None \<Rightarrow> True | Some t \<Rightarrow> tk_status t \<noteq> Submitted) then p_ret (JObj fs)
      else
        p_bind (convert sv assignment Internal
          (''submitted task `'' @ task_text (sv_env sv) task_id @ ''` has no assignment'')) (\<lambda>a.
        p_bind (convert sv workspace Internal
          (''submitted task `'' @ task_text (sv_env sv) task_id @ ''` has no assignment workspace'')) (\<lambda>w.
        p_ret (case ws_target_commit w of
            Some target \<Rightarrow>
              if ws_kind w = ''worktree'' then JObj (obj_insert ''integration'' (integration_evidence a w target) fs)
              else JObj fs
          | None \<Rightarrow> JObj fs))))"

definition recorded_closure ::
    "'w Supervisor \<Rightarrow> bool \<Rightarrow> OperationRecord \<Rightarrow> ('w, OperatorClosureOverride option \<times> json option) handler" where
  "recorded_closure sv overriding operation =
     (let result = json_get ''result'' (op_request operation) in
      p_bind (case (if overriding then Option.bind result (json_get ''operator_override'') else None) of
          None \<Rightarrow> p_ret None
        | Some j \<Rightarrow> (case override_of_json (sv_env sv) j of
              None \<Rightarrow> p_fail (rpc_state_failure EncodeJson)
            | Some v \<Rightarrow> p_ret (Some v))) (\<lambda>evidence.
      p_ret (evidence, (if result = Some JNull then None else result))))"

definition new_closure ::
    "'w Supervisor \<Rightarrow> task_id \<Rightarrow> string \<Rightarrow> ClosureOverrideRequest option
      \<Rightarrow> ('w, OperatorClosureOverride option \<times> json option) handler" where
  "new_closure sv task_id summary request =
     p_bind (p_query (\<lambda>db. closing_records db (sv_run sv) task_id)) (\<lambda>(task, assignment, workspace).
     p_bind (case request of None \<Rightarrow> p_ret None
        | Some r \<Rightarrow> p_bind (validate_override sv task_id task assignment workspace r summary) (\<lambda>v. p_ret (Some v))) (\<lambda>evidence.
     p_bind (closure_result sv task_id task assignment workspace summary) (\<lambda>result.
     p_ret (evidence, Some result))))"

definition close_task ::
    "'w Supervisor \<Rightarrow> AuthenticatedCaller \<Rightarrow> operation_id \<Rightarrow> task_id \<Rightarrow> string \<Rightarrow> ClosureOverrideRequest option
      \<Rightarrow> string \<Rightarrow> ('w, RpcResponse) handler" where
  "close_task sv caller i task_id summary request fp =
     p_seq (if request = None then p_ret () else require_operator sv caller
        ''only the operator can override task acceptance; ask the operator to run `coterie task close --override`'')
     (p_seq (require_capability sv caller ''task'' ''close'')
     (p_seq (demand sv (\<not> is_blank summary) InvalidArgument ''closure summary cannot be empty'')
     (p_bind (p_query (\<lambda>db. find_operation db i)) (\<lambda>existing.
      p_bind (case existing of
          Some operation \<Rightarrow> recorded_closure sv (request \<noteq> None) operation
        | None \<Rightarrow> new_closure sv task_id summary request) (\<lambda>(evidence, result).
      p_bind (rpc_timestamp sv) (\<lambda>now.
      p_bind (in_store (transition_task_with_fingerprint (sv_env sv)
         \<lparr>tt_operation_id = i, tt_run_id = sv_run sv, tt_actor_agent_id = caller_agent caller, tt_task_id = task_id,
          tt_transition = Close, tt_result = result, tt_operator_override = evidence, tt_summary = Some summary,
          tt_transitioned_at = now\<rparr> (Some fp))) (\<lambda>outcome.
      p_seq (require_transition sv (mutation_value outcome) task_id ''close'')
      (p_bind (task_by_id sv task_id) (\<lambda>t. p_ret (TaskClosed i t))))))))))"

subsection \<open>Only committed transactions\<close>

lemma scripted_store_operations [scripted_intros]:
  "scripted e (create_task e m fp)" "scripted e (transition_task_with_fingerprint e t fp)"
  by (rule scripted_command [where c = "CreateTask' m fp"], simp add: discard_run)
    (rule scripted_command [where c = "TransitionTask t fp"], simp add: discard_run)

lemma committing_task_requests [committing_intros]:
  "committing (sv_env sv) (create_task_handler sv caller i title description alias group_name deps fp)"
  "committing e (ready_tasks_handler sv caller)"
  unfolding create_task_handler_def ready_tasks_handler_def by (intro committing_intros scripted_intros)+

lemma committing_override [committing_intros]:
  "committing e (accept_override sv t a w request summary)"
  "committing e (validate_override sv task_id task assignment workspace request summary)"
proof -
  show accept: "committing e (accept_override sv t a w request summary)" for t a w
    unfolding accept_override_def Let_def by (intro committing_intros)
  show "committing e (validate_override sv task_id task assignment workspace request summary)"
    unfolding validate_override_def case_prod_unfold by (intro committing_intros accept)
qed

lemma committing_close [committing_intros]: "committing (sv_env sv) (close_task sv caller i task_id summary request fp)"
  unfolding close_task_def recorded_closure_def new_closure_def closure_result_def Let_def case_prod_unfold
  by (intro committing_intros scripted_intros)

end
