(* ===== verification/WorkHandlers.thy ===== *)
theory WorkHandlers
  imports TaskHandlers
begin

section \<open>Finishing, correcting and integrating work\<close>

text \<open>
  An agent finishes the assignment of its own session, a submitted result can be replaced before
  it is integrated, and an integration records its plan before the backend acts on it.
\<close>

subsection \<open>Finishing (src/src/supervisor.rs)\<close>

definition no_assignment_text :: string where
  "no_assignment_text =
     ''the caller has no active assignment; for an incorrect submitted result, ask an operator or agent with `task:resubmit` to run `coterie task resubmit --assignment ID --expected-result OLD --result NEW --summary TEXT --reason TEXT`''"

text \<open>The second component says whether the operation was requested before.\<close>

definition finishing_assignment ::
    "Env \<Rightarrow> Db \<Rightarrow> run_id \<Rightarrow> agent_id \<Rightarrow> operation_id \<Rightarrow> AssignmentRecord option \<times> bool" where
  "finishing_assignment e db run agent i =
     (case find_operation db i of
        None \<Rightarrow> (active_assignment_for_agent db run agent, False)
      | Some r \<Rightarrow>
          (Option.bind (field (id_of_json e ''ct'') ''task_id'' (op_request r))
             (\<lambda>t. assignment_for_agent_task db run agent (TaskId t)), True))"

definition owns_assignment :: "run_id \<Rightarrow> SessionScope \<Rightarrow> AssignmentRecord \<Rightarrow> bool" where
  "owns_assignment run scope a \<longleftrightarrow>
     sc_run_id scope = run \<and> as_run_id a = sc_run_id scope \<and> as_agent_id a = sc_agent_id scope
     \<and> as_generation a = sc_generation scope \<and> as_session_id a = Some (sc_session_id scope)"

definition finish_result :: "FinishStatus \<Rightarrow> string \<Rightarrow> WorkspaceRecord option \<Rightarrow> (string \<times> json) list" where
  "finish_result status summary workspace =
     fold (\<lambda>(k, commit) fs. case commit of None \<Rightarrow> fs | Some c \<Rightarrow> obj_insert k (JStr c) fs)
       [(''base_commit'', Option.bind workspace ws_base_commit), (''result_commit'', Option.bind workspace ws_result_commit)]
       [(''status'', JStr (finish_status_text status)), (''summary'', JStr summary)]"

definition recorded_result :: "Db \<Rightarrow> operation_id \<Rightarrow> json option" where
  "recorded_result db i = Option.bind (find_operation db i) (\<lambda>r. json_get ''result'' (op_request r))"

definition finish_transition ::
    "'w Supervisor \<Rightarrow> agent_id \<Rightarrow> operation_id \<Rightarrow> FinishStatus \<Rightarrow> string \<Rightarrow> task_id \<Rightarrow> json \<Rightarrow> int \<Rightarrow> TaskTransitionMutation" where
  "finish_transition sv agent i status summary t result now =
     \<lparr>tt_operation_id = i, tt_run_id = sv_run sv, tt_actor_agent_id = Some agent, tt_task_id = t,
      tt_transition = (if status = FinishCompleted then Submit else Reopen), tt_result = Some result,
      tt_operator_override = None, tt_summary = Some summary, tt_transitioned_at = now\<rparr>"

definition finish_owned ::
    "'w Supervisor \<Rightarrow> agent_id \<Rightarrow> operation_id \<Rightarrow> FinishStatus \<Rightarrow> string \<Rightarrow> string \<Rightarrow> AssignmentRecord \<Rightarrow> bool
      \<Rightarrow> ('w, RpcResponse) handler" where
  "finish_owned sv agent i status summary fp a replaying =
     p_seq (if status = FinishCompleted \<and> \<not> replaying
            then p_bind (in_workspace (record_result_commit (sv_backend sv) (assignment_scope a))) (\<lambda>_. p_ret ())
            else p_ret ())
     (p_bind (p_query (\<lambda>db. find_workspace db (as_id a))) (\<lambda>workspace.
      p_bind (if replaying then p_query (\<lambda>db. recorded_result db i) else p_ret None) (\<lambda>recorded.
      let result = (case recorded of Some r \<Rightarrow> r | None \<Rightarrow> JObj (finish_result status summary workspace)) in
      p_bind (rpc_timestamp sv) (\<lambda>now.
      p_bind (in_store (transition_task_with_fingerprint (sv_env sv)
         (finish_transition sv agent i status summary (as_task_id a) result now) (Some fp))) (\<lambda>outcome.
      p_seq (require_transition sv (mutation_value outcome) (as_task_id a) ''finish'')
      (p_bind (task_by_id sv (as_task_id a)) (\<lambda>t.
       p_ret (AssignmentFinished i (as_id a)
         (if replaying \<and> status = FinishCompleted
          then t\<lparr>tx_status := Submitted, tx_ready := False, tx_result := Some result\<rparr> else t)))))))))"

definition finish_assignment ::
    "'w Supervisor \<Rightarrow> AuthenticatedCaller \<Rightarrow> operation_id \<Rightarrow> FinishStatus \<Rightarrow> string \<Rightarrow> string \<Rightarrow> ('w, RpcResponse) handler" where
  "finish_assignment sv caller i status summary fp =
     p_bind (convert sv (caller_agent caller) PermissionDenied ''only an assigned agent can finish its work'') (\<lambda>agent.
     p_seq (demand sv (\<not> is_blank summary) InvalidArgument ''finish summary cannot be empty'')
     (p_bind (p_query (\<lambda>db. finishing_assignment (sv_env sv) db (sv_run sv) agent i)) (\<lambda>(found, replaying).
      p_bind (convert sv found Conflict no_assignment_text) (\<lambda>a.
      case caller of
        Operator \<Rightarrow> conflict sv ''the caller has no session''
      | Agent scope \<Rightarrow>
          p_bind (p_query (\<lambda>db. owns_assignment (sv_run sv) scope a \<and> session_scope_is_current db scope)) (\<lambda>own.
          p_seq (demand sv own Conflict ''the assignment belongs to another session generation'')
                (finish_owned sv agent i status summary fp a replaying))))))"

subsection \<open>Replacing a submitted result (src/src/supervisor/resubmit.rs)\<close>

definition lower_commit :: "string \<Rightarrow> bool" where
  "lower_commit c \<longleftrightarrow> length c = 40 \<and> list_all lower_hex c"

text \<open>\<open>serde_json::to_value\<close> of the submission: its members in the order of their keys.\<close>

definition resubmission_value :: "Resubmission \<Rightarrow> json" where
  "resubmission_value b = JObj
     [(''assignment_id'', assignment_json (rb_assignment_id b)), (''expected_result'', JStr (rb_expected_result b)),
      (''reason'', JStr (rb_reason b)), (''result_commit'', JStr (rb_result_commit b)),
      (''summary'', JStr (rb_summary b))]"

definition prepare_resubmission :: "'w Supervisor \<Rightarrow> Resubmission \<Rightarrow> ('w, TaskSummary) handler" where
  "prepare_resubmission sv b =
     p_bind (in_store (lift_result (\<lambda>db. resubmission_preflight db (sv_run sv) b))) (\<lambda>(a, _, _).
     p_seq (in_workspace (validate_resubmission (sv_backend sv) (assignment_scope a) (rb_expected_result b) (rb_result_commit b)))
           (task_by_id sv (as_task_id a)))"

definition resubmit_closure ::
    "Env \<Rightarrow> Mutation \<Rightarrow> Resubmission \<Rightarrow> TaskSummary option \<Rightarrow> (operation_id \<times> ResubmissionSummary) repo" where
  "resubmit_closure e m b prepared =
     (case prepared of
        None \<Rightarrow> fail (OperationIncomplete (mu_id m) ''missing resubmission preflight'')
      | Some t \<Rightarrow>
          bind (apply_resubmission e m b) (\<lambda>(previous, current).
          ret (mu_id m, \<lparr>rw_assignment_id = rb_assignment_id b, rw_previous_result = previous,
                         rw_task = t\<lparr>tx_result := Some current\<rparr>\<rparr>)))"

definition resubmit_task ::
    "'w Supervisor \<Rightarrow> AuthenticatedCaller \<Rightarrow> operation_id \<Rightarrow> Resubmission \<Rightarrow> string \<Rightarrow> ('w, RpcResponse) handler" where
  "resubmit_task sv caller i b fp =
     p_seq (require_current_caller sv caller)
     (p_seq (require_capability sv caller ''task'' ''resubmit'')
     (p_seq (demand sv (\<not> is_blank (rb_summary b) \<and> \<not> is_blank (rb_reason b)) InvalidArgument
        ''resubmission requires a nonempty --summary and --reason'')
     (p_seq (p_each (\<lambda>c. demand sv (lower_commit c) InvalidArgument
        ''--expected-result and --result require full lowercase Git commit IDs'')
        [rb_expected_result b, rb_result_commit b])
     (p_seq (demand sv (rb_expected_result b \<noteq> rb_result_commit b) InvalidArgument
        ''--result must differ from --expected-result; use the original operation ID to retry an uncertain resubmission'')
     (p_bind (rpc_timestamp sv) (\<lambda>now.
      let m = \<lparr>mu_id = i, mu_run_id = sv_run sv, mu_kind = ''task.resubmit'',
               mu_actor_agent_id = caller_agent caller, mu_request = resubmission_value b, mu_created_at = now\<rparr> in
      p_bind (p_query (\<lambda>db. find_operation db i)) (\<lambda>existing.
      p_bind (if existing = None then p_bind (prepare_resubmission sv b) (\<lambda>t. p_ret (Some t)) else p_ret None) (\<lambda>prepared.
      p_bind (in_store (mutate_with_fingerprint resubmitted_response_json (resubmitted_response_of_json (sv_env sv)) m
         (Some fp) (resubmit_closure (sv_env sv) m b prepared))) (\<lambda>outcome.
      p_ret (TaskResubmittedResponse (fst (mutation_value outcome)) (snd (mutation_value outcome))))))))))))"

subsection \<open>Integrating (src/src/supervisor.rs)\<close>

definition integrable ::
    "'w Supervisor \<Rightarrow> assignment_id \<Rightarrow> Db \<Rightarrow> RpcFailure + WorkspaceRecord" where
  "integrable sv i db =
     (let failure = (\<lambda>code message. Inl (rpc_failure (sv_env sv) code message));
          name = assignment_text (sv_env sv) i in
      case find_assignment db i of
        None \<Rightarrow> failure NotFound (''assignment `'' @ name @ ''` does not exist'')
      | Some a \<Rightarrow>
          if as_run_id a \<noteq> sv_run sv then failure NotFound (''assignment `'' @ name @ ''` does not exist'')
          else if as_state a \<noteq> ''completed'' \<or> as_completed_at a = None
          then failure Conflict (''assignment `'' @ name @ ''` has not completed successfully'')
          else (case find_task db (as_task_id a) of
            None \<Rightarrow> failure Internal (''assignment `'' @ name @ ''` has no task'')
          | Some t \<Rightarrow>
              if tk_status t \<noteq> Submitted
              then failure Conflict (''task `'' @ task_text (sv_env sv) (tk_id t) @ ''` is not awaiting integration'')
              else (case find_workspace db i of
                None \<Rightarrow> failure Internal (''assignment `'' @ name @ ''` has no workspace'')
              | Some w \<Rightarrow>
                  if ws_state w \<noteq> RObserved
                  then failure Conflict (''workspace `'' @ name @ ''` reconciliation state is `''
                    @ resource_as_str (ws_state w) @ ''`'')
                  else if ws_target_commit w \<noteq> None
                  then failure Conflict (''workspace `'' @ name @ ''` is already integrated'')
                  else Inr w)))"

definition prepare_plan ::
    "'w Supervisor \<Rightarrow> assignment_id \<Rightarrow> IntegrationStrategy option \<Rightarrow> int \<Rightarrow> ('w, IntegrationPlan) handler" where
  "prepare_plan sv i strategy at =
     p_bind (p_query (integrable sv i)) (\<lambda>checked.
     case checked of
       Inl failure \<Rightarrow> p_fail (Refused failure)
     | Inr w \<Rightarrow> in_workspace (prepare_integration (sv_backend sv) (workspace_scope w) at
         (case strategy of None \<Rightarrow> Rebase | Some x \<Rightarrow> x)))"

definition planned_event :: "'w Supervisor \<Rightarrow> AuthenticatedCaller \<Rightarrow> operation_id \<Rightarrow> assignment_id \<Rightarrow> AssignmentRecord \<Rightarrow> IntegrationPlan \<Rightarrow> NewEvent" where
  "planned_event sv caller i assignment a plan =
     \<lparr>ne_run_id = sv_run sv, ne_kind = WorkspaceIntegrationDesired, ne_actor = event_actor sv caller,
      ne_subject = assignment_text (sv_env sv) assignment, ne_project_id = Some (ip_project_id plan),
      ne_agent_id = Some (as_agent_id a), ne_task_id = Some (as_task_id a), ne_operation_id = Some i,
      ne_correlation_id = None, ne_causation_id = None, ne_data = plan_json plan,
      ne_summary = ''Recorded guarded integration intent for workspace '' @ assignment_text (sv_env sv) assignment @ ''.'',
      ne_created_at = ip_integrated_at plan\<rparr>"

definition plan_closure ::
    "'w Supervisor \<Rightarrow> AuthenticatedCaller \<Rightarrow> operation_id \<Rightarrow> assignment_id \<Rightarrow> IntegrationPlan option \<Rightarrow> IntegrationPlan repo" where
  "plan_closure sv caller i assignment prepared =
     (case prepared of
        None \<Rightarrow> fail (OperationIncomplete i ''missing integration preflight'')
      | Some plan \<Rightarrow>
          bind (gets (\<lambda>db. find_assignment db assignment)) (\<lambda>found.
          case found of
            None \<Rightarrow> fail (CorruptAssignmentState assignment)
          | Some a \<Rightarrow>
              seq (log_event (sv_env sv) (planned_event sv caller i assignment a plan))
              (seq (mark_operation_reconciliation_desired (sv_env sv) i)
                   (ret plan))))"

definition integrate_workspace ::
    "(WorkspaceError \<Rightarrow> string) \<Rightarrow> 'w Supervisor \<Rightarrow> AuthenticatedCaller \<Rightarrow> operation_id \<Rightarrow> assignment_id
      \<Rightarrow> IntegrationStrategy option \<Rightarrow> ('w, RpcResponse) handler" where
  "integrate_workspace display sv caller i assignment strategy =
     p_seq (require_capability sv caller ''workspace'' ''integrate'')
     (p_bind (rpc_timestamp sv) (\<lambda>at.
      p_bind (p_query (\<lambda>db. find_operation db i)) (\<lambda>existing.
      p_bind (if existing = None then p_bind (prepare_plan sv assignment strategy at) (\<lambda>plan. p_ret (Some plan))
              else p_ret None) (\<lambda>prepared.
      p_bind (in_store (mutate plan_json (plan_of_json (sv_env sv))
         \<lparr>mu_id = i, mu_run_id = sv_run sv, mu_kind = ''workspace.integrate'', mu_actor_agent_id = caller_agent caller,
          mu_request = JObj ((''assignment_id'', assignment_json assignment)
            # optional ''strategy'' (\<lambda>x. JStr (strategy_text x)) strategy),
          mu_created_at = at\<rparr> (plan_closure sv caller i assignment prepared))) (\<lambda>outcome.
      let plan = mutation_value outcome in
      p_seq (demand sv (ip_run_id plan = sv_run sv) Conflict ''the integration plan belongs to another run'')
      (p_bind (p_attempt (integrate (sv_env sv) (sv_backend sv) (plan_scope plan) plan i (event_actor sv caller) at)) (\<lambda>r.
       case r of
         Inr integration \<Rightarrow> p_ret (WorkspaceIntegratedResponse i (integration_summary integration))
       | Inl err \<Rightarrow>
           p_bind (in_store (record_operation_reconciliation (sv_env sv) i RUnknown (Some (display err)) at)) (\<lambda>_.
           p_fail (rpc_workspace_failure err)))))))))"

subsection \<open>Only committed transactions\<close>

lemma scripted_work [scripted_intros]:
  "scripted e (apply_resubmission e m b)" "scripted e (mark_operation_reconciliation_desired e i)"
  by (rule scripted_command [where c = "Resubmit m b"], simp add: discard_run)
    (rule scripted_command [where c = "MarkReconciliationDesired i"], simp)

lemma committing_work [committing_intros]:
  "committing (sv_env sv) (finish_assignment sv caller i status summary fp)"
  "committing (sv_env sv) (resubmit_task sv caller i b fp)"
  "committing (sv_env sv) (integrate_workspace display sv caller i a strategy)"
proof -
  show "committing (sv_env sv) (finish_assignment sv caller i status summary fp)"
    unfolding finish_assignment_def finish_owned_def Let_def case_prod_unfold
    by (intro committing_intros scripted_intros) (cases caller; auto intro!: committing_intros scripted_intros)
  show "committing (sv_env sv) (resubmit_task sv caller i b fp)"
    unfolding resubmit_task_def prepare_resubmission_def resubmit_closure_def Let_def case_prod_unfold
    by (intro committing_intros scripted_intros scripted_mutation) simp_all
  show "committing (sv_env sv) (integrate_workspace display sv caller i a strategy)"
    unfolding integrate_workspace_def prepare_plan_def plan_closure_def Let_def mutate_def
    by (intro committing_intros scripted_intros scripted_mutation) simp_all
qed

end
