(* ===== verification/MessageHandlers.thy ===== *)
theory MessageHandlers
  imports Responses
begin

section \<open>Requests about messages, events and the run (src/src/supervisor.rs)\<close>

text \<open>
  Messages go to the inbox of an agent that the sender may address; an agent reads and acknowledges
  its own inbox only. The operator inspects the run and its event log.
\<close>

subsection \<open>The run\<close>

definition status_handler :: "'w Supervisor \<Rightarrow> AuthenticatedCaller \<Rightarrow> ('w, RpcResponse) handler" where
  "status_handler sv caller =
     p_seq (require_operator sv caller ''only the operator can inspect full run status'')
     (p_bind (p_query (\<lambda>db. (find_run db (sv_run sv), projects_of_run db (sv_run sv), agents_of_run db (sv_run sv),
         tasks_of_run db (sv_run sv)))) (\<lambda>(found, ps, rows, ts).
      p_bind (convert sv found NotFound ''the active run does not exist'') (\<lambda>r.
      p_bind (saved_configuration sv) (\<lambda>c.
      p_ret (StatusResponse (sv_run sv) (rn_status r) (map project_summary ps)
        (summarize_agents rows (ar_lead (ec_archetype c))) (task_counts ts))))))"

definition whoami :: "'w Supervisor \<Rightarrow> AuthenticatedCaller \<Rightarrow> ('w, RpcResponse) handler" where
  "whoami sv caller =
     p_bind (caller_summary sv caller) (\<lambda>x. p_ret (Identity (sv_run sv) (cx_channel x) (cx_agent x)))"

definition project_list :: "'w Supervisor \<Rightarrow> ('w, RpcResponse) handler" where
  "project_list sv = p_bind (p_query (\<lambda>db. projects_of_run db (sv_run sv))) (\<lambda>ps. p_ret (ProjectsResponse (map project_summary ps)))"

subsection \<open>Commands that a caller may use\<close>

definition operator_commands :: "string list" where
  "operator_commands =
     [''status'', ''project attach'', ''task create'', ''task ready'', ''task show'', ''assignment show'', ''task close'',
      ''spawn'', ''workspace integrate'', ''task recover'', ''task submit-retained'', ''send'', ''logs'', ''events'',
      ''progress'', ''stop'']"

definition guarded_commands :: "(string \<times> string \<times> string) list" where
  "guarded_commands =
     [(''task'', ''read'', ''progress''), (''task'', ''read'', ''task show''), (''task'', ''read'', ''assignment show''),
      (''project'', ''attach'', ''project attach''), (''task'', ''create'', ''task create''), (''task'', ''close'', ''task close''),
      (''task'', ''recover'', ''task recover''), (''task'', ''submit-retained'', ''task submit-retained''),
      (''logs'', ''*'', ''logs''), (''workspace'', ''integrate'', ''workspace integrate'')]"

definition available_commands :: "'w Supervisor \<Rightarrow> AuthenticatedCaller \<Rightarrow> ('w, string list) handler" where
  "available_commands sv caller =
     (let always = [''whoami'', ''prime'', ''project list''] in
      case caller_agent caller of
        None \<Rightarrow> p_ret (always @ operator_commands)
      | Some agent \<Rightarrow>
          p_bind (agent_record sv agent) (\<lambda>a.
          p_bind (saved_configuration sv) (\<lambda>c.
          p_ret (always @ [''task ready'', ''send'', ''inbox'', ''finish'']
            @ map (\<lambda>(ns, act, command). command)
                (filter (\<lambda>(ns, act, command).
                   authorize (ec_archetype c) (ag_role a) \<lparr>namespace = ns, action = act\<rparr> = Allowed) guarded_commands)))))"

subsection \<open>Sending\<close>

definition send_action :: "ArchetypeDefinition \<Rightarrow> string \<Rightarrow> string \<Rightarrow> string" where
  "send_action archetype sender recipient =
     (if recipient = ar_lead archetype then ''lead'' else if recipient = sender then ''peer'' else recipient)"

definition may_address :: "ArchetypeDefinition \<Rightarrow> string \<Rightarrow> string \<Rightarrow> bool" where
  "may_address archetype sender recipient \<longleftrightarrow>
     authorize archetype sender \<lparr>namespace = ''send'', action = recipient\<rparr> = Allowed
     \<or> authorize archetype sender \<lparr>namespace = ''send'', action = send_action archetype sender recipient\<rparr> = Allowed"

definition require_recipient :: "'w Supervisor \<Rightarrow> AuthenticatedCaller \<Rightarrow> AgentSummary \<Rightarrow> ('w, unit) handler" where
  "require_recipient sv caller recipient =
     (case caller_agent caller of
        None \<Rightarrow> p_ret ()
      | Some agent \<Rightarrow>
          p_seq (demand sv (agent \<noteq> am_id recipient) InvalidArgument ''an agent cannot send a message to itself'')
          (p_bind (agent_record sv agent) (\<lambda>sender.
           p_bind (saved_configuration sv) (\<lambda>c.
           if authorize (ec_archetype c) (ag_role sender) \<lparr>namespace = ''send'', action = am_role recipient\<rparr> = Allowed
           then p_ret ()
           else require_capability sv caller ''send'' (send_action (ec_archetype c) (ag_role sender) (am_role recipient))))))"

definition send_message_handler ::
    "'w Supervisor \<Rightarrow> AuthenticatedCaller \<Rightarrow> operation_id \<Rightarrow> string \<Rightarrow> string \<Rightarrow> string \<Rightarrow> ('w, RpcResponse) handler" where
  "send_message_handler sv caller i name message fp =
     p_seq (demand sv (\<not> is_blank message) InvalidArgument ''message cannot be empty'')
     (p_bind (resolve_agent sv name) (\<lambda>recipient.
      p_seq (require_recipient sv caller recipient)
      (p_bind (rpc_timestamp sv) (\<lambda>now.
       p_bind (in_store (send_message (sv_env sv)
         \<lparr>sm_operation_id = i, sm_run_id = sv_run sv, sm_sender = caller_agent caller, sm_recipient = am_id recipient,
          sm_recipient_name = am_name recipient, sm_message = message, sm_message_id = MessageId (sv_fresh sv),
          sm_now = now\<rparr> (Some fp))) (\<lambda>outcome.
       p_bind (convert sv (as_u64 (snd (mutation_value outcome))) Internal ''message sequence is not positive'') (\<lambda>q.
       p_ret (MessageSentResponse i (fst (mutation_value outcome)) recipient q)))))))"

subsection \<open>The inbox\<close>

definition require_inbox :: "'w Supervisor \<Rightarrow> AuthenticatedCaller \<Rightarrow> ('w, agent_id) handler" where
  "require_inbox sv caller =
     convert sv (caller_agent caller) PermissionDenied ''the operator does not have an agent inbox''"

definition message_summary :: "'w Supervisor \<Rightarrow> MessageRecord \<Rightarrow> ('w, MessageSummary) handler" where
  "message_summary sv m =
     p_bind (case ms_sender_agent_id m of
         None \<Rightarrow> p_ret None
       | Some a \<Rightarrow> p_bind (summary_for_agent sv a) (\<lambda>x. p_ret (Some x))) (\<lambda>sender.
     p_bind (convert sv (as_u64 (ms_sequence m)) Internal ''message sequence is not positive'') (\<lambda>q.
     p_ret \<lparr>mx_id = ms_id m, mx_sequence = q, mx_sender = sender, mx_body = ms_body m,
            mx_created_at = ms_created_at m, mx_acknowledged = (ms_acknowledged_at m \<noteq> None)\<rparr>))"

definition inbox_handler :: "'w Supervisor \<Rightarrow> AuthenticatedCaller \<Rightarrow> nat \<Rightarrow> ('w, RpcResponse) handler" where
  "inbox_handler sv caller after =
     p_bind (require_inbox sv caller) (\<lambda>agent.
     p_bind (convert sv (as_i64 after) InvalidArgument ''inbox cursor is too large'') (\<lambda>cursor.
     p_bind (p_query (\<lambda>db. messages_after db (sv_run sv) agent cursor)) (\<lambda>ms.
     p_bind (p_map (message_summary sv) ms) (\<lambda>xs.
     p_bind (convert sv (as_u64 (next_cursor cursor ms)) Internal ''invalid inbox cursor'') (\<lambda>next_one.
     p_ret (InboxResponse xs next_one))))))"

definition acknowledge_inbox ::
    "'w Supervisor \<Rightarrow> AuthenticatedCaller \<Rightarrow> operation_id \<Rightarrow> nat \<Rightarrow> ('w, RpcResponse) handler" where
  "acknowledge_inbox sv caller i through =
     p_bind (require_inbox sv caller) (\<lambda>agent.
     p_bind (convert sv (as_i64 through) InvalidArgument ''inbox cursor is too large'') (\<lambda>cursor.
     p_bind (rpc_timestamp sv) (\<lambda>now.
     p_bind (in_store (acknowledge_messages (sv_env sv)
        \<lparr>ak_operation_id = i, ak_run_id = sv_run sv, ak_agent_id = agent, ak_through = cursor, ak_acknowledged_at = now\<rparr>))
       (\<lambda>outcome.
     case mutation_value outcome of
       Acknowledged through' n \<Rightarrow>
         p_bind (convert sv (as_u64 through') Internal ''invalid acknowledged inbox cursor'') (\<lambda>q.
         p_ret (InboxAcknowledged i q n))
     | CursorNotFound highest \<Rightarrow>
         invalid_argument sv (''inbox cursor '' @ show_int cursor @ '' does not exist; highest cursor is '' @ show_int highest)))))"

subsection \<open>Events\<close>

definition event_summary :: "'w Supervisor \<Rightarrow> EventRecord \<Rightarrow> ('w, EventSummary) handler" where
  "event_summary sv x =
     p_bind (convert sv (as_u64 (ev_sequence x)) Internal ''event sequence is not positive'') (\<lambda>q.
     p_ret \<lparr>ex_id = ev_id x, ex_run_id = ev_run_id x, ex_sequence = q, ex_event_type = ev_type x, ex_actor = ev_actor x,
            ex_subject = ev_subject x, ex_project_id = ev_project_id x, ex_agent_id = ev_agent_id x,
            ex_task_id = ev_task_id x, ex_operation_id = ev_operation_id x, ex_correlation_id = ev_correlation_id x,
            ex_causation_id = ev_causation_id x, ex_payload = ev_payload x, ex_summary = ev_summary x,
            ex_created_at = ev_created_at x\<rparr>)"

definition events_handler :: "'w Supervisor \<Rightarrow> AuthenticatedCaller \<Rightarrow> nat \<Rightarrow> nat \<Rightarrow> ('w, RpcResponse) handler" where
  "events_handler sv caller after limit =
     p_seq (require_operator sv caller ''only the operator can inspect the full event stream'')
     (p_seq (demand sv (1 \<le> limit \<and> limit \<le> 1000) InvalidArgument ''event limit must be between 1 and 1000'')
     (p_bind (convert sv (as_i64 after) InvalidArgument ''event cursor is too large'') (\<lambda>cursor.
      p_bind (p_query (\<lambda>db. events_after (sv_env sv) db (sv_run sv) cursor limit)) (\<lambda>page.
      p_bind (p_map (event_summary sv) page) (\<lambda>xs.
      p_bind (convert sv (as_u64 (if page = [] then cursor else ev_sequence (last page))) Internal ''invalid event cursor'') (\<lambda>next_one.
      p_ret (EventsResponse xs next_one)))))))"

subsection \<open>Only committed transactions\<close>

lemma reading_run_requests [reading_intros]:
  "reading (status_handler sv caller)" "reading (whoami sv caller)" "reading (project_list sv)"
  "reading (available_commands sv caller)" "reading (require_recipient sv caller x)"
  "reading (inbox_handler sv caller after)" "reading (events_handler sv caller after limit)"
  unfolding status_handler_def whoami_def project_list_def available_commands_def require_recipient_def Let_def
    inbox_handler_def require_inbox_def message_summary_def events_handler_def event_summary_def case_prod_unfold
  by (intro reading_intros)+

lemma scripted_messages [scripted_intros]:
  "scripted e (send_message e m fp)" "scripted e (acknowledge_messages e k)"
  by (rule scripted_command [where c = "SendMessage' m fp"], simp add: discard_run)
    (rule scripted_command [where c = "AcknowledgeMessages k"], simp add: discard_run)

lemmas committing_run_requests [committing_intros] = reading_run_requests [THEN reading_committing]

lemma committing_messages [committing_intros]:
  "committing (sv_env sv) (send_message_handler sv caller i name message fp)"
  "committing (sv_env sv) (acknowledge_inbox sv caller i through)"
proof -
  show "committing (sv_env sv) (send_message_handler sv caller i name message fp)"
    unfolding send_message_handler_def by (intro committing_intros scripted_intros)
  show "committing (sv_env sv) (acknowledge_inbox sv caller i through)"
    unfolding acknowledge_inbox_def require_inbox_def
    by (intro committing_intros scripted_intros) (auto intro!: committing_intros split: AcknowledgeMessagesResult.split)
qed

end
