(* ===== verification/AgentSessions.thy ===== *)
theory AgentSessions
  imports Callers
begin

section \<open>Supervision of agent sessions (src/src/supervisor/session.rs)\<close>

text \<open>
  \<open>AgentSessionSupervisor\<close> keeps the handles of the sessions it manages and the redactors of their
  transcripts in memory, beside an outside world on which the provider and the transcript store
  act. Whatever it learns from the provider it writes to the store under the scope of the session,
  so that an observation of a superseded generation changes nothing.
\<close>

subsection \<open>State\<close>

text \<open>The handles are ordered by session, as in a \<open>BTreeMap\<close>.\<close>

record 'w Agents =
  aw_sessions :: "(session_id \<times> ProviderSessionHandle) list"
  aw_redactors :: "session_id \<Rightarrow> Redactor option"
  aw_outside :: 'w

text \<open>What it acts through: the provider, and the file to which a transcript is appended.\<close>

record 'w Harness =
  hs_provider :: "'w Provider"
  hs_append :: "session_id \<Rightarrow> string \<Rightarrow> 'w \<Rightarrow> (TranscriptError + unit) \<times> 'w"
  hs_build :: json
  hs_bridge :: json

definition transcript_path :: "Env \<Rightarrow> session_id \<Rightarrow> string" where
  "transcript_path e i = ''transcripts/'' @ session_text e i @ ''.jsonl''"

type_synonym ('w, 'a) agents = "('w Agents, AgentSessionError, 'a) process"

fun insert_handle :: "session_id \<Rightarrow> 'h \<Rightarrow> (session_id \<times> 'h) list \<Rightarrow> (session_id \<times> 'h) list" where
  "insert_handle i h [] = [(i, h)]"
| "insert_handle i h ((j, k) # rest) =
     (if i = j then (i, h) # rest
      else if session_ulid i < session_ulid j then (i, h) # (j, k) # rest
      else (j, k) # insert_handle i h rest)"

definition keep_handle :: "session_id \<Rightarrow> ProviderSessionHandle \<Rightarrow> ('w, unit) agents" where
  "keep_handle i h = p_act (\<lambda>w. (Inr (), w\<lparr>aw_sessions := insert_handle i h (aw_sessions w)\<rparr>))"

definition keep_redactor :: "session_id \<Rightarrow> Redactor \<Rightarrow> ('w, unit) agents" where
  "keep_redactor i r = p_act (\<lambda>w. (Inr (), w\<lparr>aw_redactors := (aw_redactors w)(i := Some r)\<rparr>))"

definition handle_of :: "session_id \<Rightarrow> ('w, ProviderSessionHandle) agents" where
  "handle_of i = p_look (\<lambda>w. case map_of (aw_sessions w) i of None \<Rightarrow> Inl (UnknownSession i) | Some h \<Rightarrow> Inr h)"

definition outside :: "('w \<Rightarrow> 'r \<times> 'w) \<Rightarrow> 'w Agents \<Rightarrow> 'r \<times> 'w Agents" where
  "outside f w = (case f (aw_outside w) of (r, v) \<Rightarrow> (r, w\<lparr>aw_outside := v\<rparr>))"

definition provide :: "('w \<Rightarrow> (ProviderError + 'a) \<times> 'w) \<Rightarrow> ('w, 'a) agents" where
  "provide f = p_error SessionProvider (p_act (outside f))"

definition provider_look :: "('w \<Rightarrow> ProviderError + 'a) \<Rightarrow> ('w, ProviderError + 'a) agents" where
  "provider_look f = p_look (\<lambda>w. Inr (f (aw_outside w)))"

definition in_state :: "'a repo \<Rightarrow> ('w, 'a) agents" where
  "in_state m = p_store SessionState m"

definition run_config :: "'v Supervisor \<Rightarrow> run_id \<Rightarrow> StoreError + EffectiveConfig" where
  "run_config sv run = configuration (sv_library sv) (sv_decode sv) (sv_snapshots sv) run"

definition session_config :: "'v Supervisor \<Rightarrow> run_id \<Rightarrow> ('w, EffectiveConfig) agents" where
  "session_config sv run = p_result (map_sum SessionState id (run_config sv run))"

definition session_scope :: "SessionRecord \<Rightarrow> SessionScope" where
  "session_scope x =
     \<lparr>sc_run_id = se_run_id x, sc_agent_id = se_agent_id x, sc_session_id = se_id x, sc_generation = se_generation x\<rparr>"

definition configure_provider :: "'v Supervisor \<Rightarrow> 'w Harness \<Rightarrow> run_id \<Rightarrow> string \<Rightarrow> ('w, unit) agents" where
  "configure_provider sv hs run role_name =
     p_bind (session_config sv run) (\<lambda>c.
     case Option.bind (map_of (ar_roles (ec_archetype c)) role_name) (\<lambda>r. map_of (ec_providers c) (rl_provider r)) of
       None \<Rightarrow> p_fail (SessionState (InvalidConfigurationSnapshot run))
     | Some binding \<Rightarrow> p_act (outside (\<lambda>w. (Inr (), pv_configure (hs_provider hs) binding w))))"

subsection \<open>Recording what the provider reports\<close>

definition session_event ::
    "Env \<Rightarrow> SessionScope \<Rightarrow> EventKind \<Rightarrow> string \<Rightarrow> string \<Rightarrow> event_id option \<Rightarrow> json \<Rightarrow> string \<Rightarrow> int \<Rightarrow> NewEvent" where
  "session_event e s kind actor subject cause data summary at =
     \<lparr>ne_run_id = sc_run_id s, ne_kind = kind, ne_actor = actor, ne_subject = subject, ne_project_id = None,
      ne_agent_id = Some (sc_agent_id s), ne_task_id = None, ne_operation_id = None, ne_correlation_id = cause,
      ne_causation_id = cause, ne_data = data, ne_summary = summary, ne_created_at = at\<rparr>"

definition reconciliation_event ::
    "Env \<Rightarrow> SessionScope \<Rightarrow> string \<Rightarrow> SessionRecord \<Rightarrow> ExternalResourceState \<Rightarrow> int \<Rightarrow> NewEvent" where
  "reconciliation_event e s actor x state at =
     session_event e s SessionReconciliationChanged actor (session_text e (sc_session_id s)) None
       (JObj [(''previous_state'', JStr (resource_as_str (se_reconciliation_state x))),
              (''state'', JStr (resource_as_str state))])
       (''Session '' @ session_text e (sc_session_id s) @ '' reconciliation changed from ''
         @ resource_as_str (se_reconciliation_state x) @ '' to '' @ resource_as_str state @ ''.'') at"

definition lifecycle_change_event ::
    "Env \<Rightarrow> SessionScope \<Rightarrow> string \<Rightarrow> SessionRecord \<Rightarrow> LifecycleState \<Rightarrow> json option \<Rightarrow> int \<Rightarrow> NewEvent" where
  "lifecycle_change_event e s actor x lifecycle exit at =
     session_event e s SessionLifecycleChanged actor (session_text e (sc_session_id s)) None
       (JObj ((case exit of None \<Rightarrow> [] | Some j \<Rightarrow> [(''exit'', j)])
         @ [(''generation'', JInt (sc_generation s)), (''previous_state'', JStr (lifecycle_as_str (se_state x))),
            (''provider'', JStr (se_provider x)), (''state'', JStr (lifecycle_as_str lifecycle))]))
       (''Session '' @ session_text e (sc_session_id s) @ '' changed from '' @ lifecycle_as_str (se_state x)
         @ '' to '' @ lifecycle_as_str lifecycle @ ''.'') at"

definition agent_change_event ::
    "Env \<Rightarrow> SessionScope \<Rightarrow> string \<Rightarrow> SessionRecord \<Rightarrow> LifecycleState \<Rightarrow> event_id \<Rightarrow> int \<Rightarrow> NewEvent" where
  "agent_change_event e s actor x lifecycle cause at =
     session_event e s AgentLifecycleChanged actor (agent_text e (sc_agent_id s)) (Some cause)
       (JObj [(''generation'', JInt (sc_generation s)), (''previous_state'', JStr (lifecycle_as_str (se_state x))),
              (''state'', JStr (lifecycle_as_str lifecycle))])
       (''Agent '' @ agent_text e (sc_agent_id s) @ '' changed from '' @ lifecycle_as_str (se_state x)
         @ '' to '' @ lifecycle_as_str lifecycle @ ''.'') at"

text \<open>The last part of both transactions: two events when the lifecycle has changed.\<close>

definition note_lifecycle ::
    "Env \<Rightarrow> SessionScope \<Rightarrow> string \<Rightarrow> SessionRecord \<Rightarrow> LifecycleState \<Rightarrow> json option \<Rightarrow> int \<Rightarrow> unit repo" where
  "note_lifecycle e s actor x lifecycle exit at =
     bind (record_session_lifecycle s lifecycle at) (\<lambda>outcome.
     if outcome = SApplied then
       bind (append_event e (lifecycle_change_event e s actor x lifecycle exit at)) (\<lambda>ev.
       log_event e (agent_change_event e s actor x lifecycle (ev_id ev) at))
     else ret ())"

definition note_reconciliation ::
    "Env \<Rightarrow> SessionScope \<Rightarrow> string \<Rightarrow> SessionRecord \<Rightarrow> ExternalResourceState \<Rightarrow> int \<Rightarrow> unit repo" where
  "note_reconciliation e s actor x state at =
     bind (record_session_reconciliation_state s state at) (\<lambda>outcome.
     if outcome = SApplied then log_event e (reconciliation_event e s actor x state at) else ret ())"

definition record_reconciliation_in ::
    "Env \<Rightarrow> SessionScope \<Rightarrow> ExternalResourceState \<Rightarrow> LifecycleState \<Rightarrow> int \<Rightarrow> unit repo" where
  "record_reconciliation_in e s state lifecycle at =
     bind (gets (\<lambda>db. find_session db (sc_session_id s))) (\<lambda>found.
     case found of None \<Rightarrow> ret ()
     | Some x \<Rightarrow>
         seq (note_reconciliation e s ''reconciler'' x state at)
             (note_lifecycle e s ''reconciler'' x lifecycle None at))"

definition record_reconciliation ::
    "Env \<Rightarrow> SessionScope \<Rightarrow> ExternalResourceState \<Rightarrow> LifecycleState \<Rightarrow> int \<Rightarrow> ('w, unit) agents" where
  "record_reconciliation e s state lifecycle at = in_state (record_reconciliation_in e s state lifecycle at)"

fun reconciled_state :: "LifecycleState \<Rightarrow> ExternalResourceState" where
  "reconciled_state Lost = RLost"
| "reconciled_state Unknown = RUnknown"
| "reconciled_state _ = RObserved"

definition exit_json :: "SessionExit \<Rightarrow> json" where
  "exit_json x = JObj [(''code'', json_opt JInt (xt_code x)), (''reason'', JStr (exit_reason_as_str (xt_reason x)))]"

text \<open>The lifecycle to record: a process that failed too often is quarantined.\<close>

definition failing_exit :: "SessionObservation \<Rightarrow> bool" where
  "failing_exit observation \<longleftrightarrow>
     (case ob_exit observation of None \<Rightarrow> False | Some x \<Rightarrow> xt_reason x = Process \<and> xt_code x \<noteq> Some 0)"

definition settled_lifecycle :: "'v Supervisor \<Rightarrow> SessionScope \<Rightarrow> SessionRecord \<Rightarrow> SessionObservation \<Rightarrow> int \<Rightarrow> LifecycleState repo" where
  "settled_lifecycle sv s x observation at =
     (if \<not> is_terminal (se_state x) \<and> failing_exit observation then
        bind (lift_result (\<lambda>_. run_config sv (sc_run_id s))) (\<lambda>c.
        bind (record_session_failure (sv_env sv) s at (ec_supervision c)) (\<lambda>quarantined.
        ret (if quarantined then Quarantined else ob_lifecycle observation)))
      else ret (ob_lifecycle observation))"

definition record_observation_in :: "'v Supervisor \<Rightarrow> SessionScope \<Rightarrow> SessionObservation \<Rightarrow> int \<Rightarrow> unit repo" where
  "record_observation_in sv s observation at =
     bind (gets (\<lambda>db. find_session db (sc_session_id s))) (\<lambda>found.
     case found of None \<Rightarrow> ret ()
     | Some x \<Rightarrow>
         bind (settled_lifecycle sv s x observation at) (\<lambda>lifecycle.
         seq (note_reconciliation (sv_env sv) s ''provider'' x (reconciled_state lifecycle) at)
             (note_lifecycle (sv_env sv) s ''provider'' x lifecycle
               (Some (case ob_exit observation of None \<Rightarrow> JNull | Some q \<Rightarrow> exit_json q)) at)))"

subsection \<open>Transcripts\<close>

definition append_file :: "'w Harness \<Rightarrow> session_id \<Rightarrow> string \<Rightarrow> ('w, unit) agents" where
  "append_file hs i bytes = p_error SessionTranscript (p_act (outside (hs_append hs i bytes)))"

definition append_transcript :: "'v Supervisor \<Rightarrow> 'w Harness \<Rightarrow> session_id \<Rightarrow> string \<Rightarrow> ('w, unit) agents" where
  "append_transcript sv hs i bytes =
     p_bind (p_act (\<lambda>w.
       let r = (case aw_redactors w i of None \<Rightarrow> from_environment (env_vars (sv_env sv)) | Some r \<Rightarrow> r) in
       case push bytes r of
         None \<Rightarrow> (Inr [], w)
       | Some (out, r') \<Rightarrow> (Inr out, w\<lparr>aw_redactors := (aw_redactors w)(i := Some r')\<rparr>)))
     (append_file hs i)"

definition flush_transcript :: "'w Harness \<Rightarrow> session_id \<Rightarrow> ('w, unit) agents" where
  "flush_transcript hs i =
     p_bind (p_act (\<lambda>w. case aw_redactors w i of
         None \<Rightarrow> (Inr [], w)
       | Some r \<Rightarrow> (case finish r of
             None \<Rightarrow> (Inr [], w)
           | Some (out, r') \<Rightarrow> (Inr out, w\<lparr>aw_redactors := (aw_redactors w)(i := Some r')\<rparr>))))
     (\<lambda>tail. if tail = [] then p_ret () else append_file hs i tail)"

definition record_observation ::
    "'v Supervisor \<Rightarrow> 'w Harness \<Rightarrow> SessionScope \<Rightarrow> SessionObservation \<Rightarrow> int \<Rightarrow> ('w, unit) agents" where
  "record_observation sv hs s observation at =
     p_seq (in_state (record_observation_in sv s observation at))
           (if is_terminal (ob_lifecycle observation) then flush_transcript hs (sc_session_id s) else p_ret ())"

definition record_launch_observation_in :: "Env \<Rightarrow> session_id \<Rightarrow> ProviderSessionHandle \<Rightarrow> int \<Rightarrow> unit repo" where
  "record_launch_observation_in e i h at =
     bind (gets (\<lambda>db. find_session db i)) (\<lambda>found.
     case found of None \<Rightarrow> ret ()
     | Some x \<Rightarrow>
         bind (record_session_launch_observation (ph_scope h) (ph_provider_id h) at) (\<lambda>outcome.
         if outcome = SApplied then
           log_event e (session_event e (ph_scope h) SessionReconciliationChanged ''reconciler'' (session_text e i) None
             (JObj [(''previous_state'', JStr (resource_as_str (se_reconciliation_state x))),
                    (''provider_session_id'', JStr (ph_provider_id h)), (''state'', JStr (resource_as_str RObserved))])
             (''Observed provider session '' @ session_text e i @ ''.'') at)
         else ret ()))"

definition record_launch_observation :: "Env \<Rightarrow> session_id \<Rightarrow> int \<Rightarrow> ('w, unit) agents" where
  "record_launch_observation e i at =
     p_bind (handle_of i) (\<lambda>h. in_state (record_launch_observation_in e i h at))"

subsection \<open>Sessions change by committed transactions\<close>

lemma scripted_sessions [scripted_intros]:
  "scripted e (insert_agent a)" "scripted e (insert_session x)"
  "scripted e (activate_session_credential c)" "scripted e (replace_desired_session_credential c)"
  "scripted e (associate_assignment_session i j)" "scripted e (append_event e n)"
  "scripted e (start_agent_generation run b g h)"
  by (rule scripted_command [where c = "InsertAgent a"], simp)
    (rule scripted_command [where c = "InsertSession x"], simp,
     rule scripted_command [where c = "ActivateCredential c"], simp,
     rule scripted_command [where c = "ReplaceCredential c"], simp,
     rule scripted_command [where c = "AssociateSession i j"], simp,
     rule scripted_command [where c = "AppendEvent n"], simp add: discard_run,
     rule scripted_command [where c = "StartAgentGeneration run b g h"], simp add: discard_run)

lemma scripted_observations [scripted_intros]:
  "scripted e (record_session_reconciliation_state s x at)" "scripted e (record_session_lifecycle s y at)"
  "scripted e (record_session_launch_observation s p at)" "scripted e (record_foreground_identity s i)"
  "scripted e (record_session_failure e s at policy)"
  by (rule scripted_command [where c = "RecordSessionState s x at"], simp add: discard_run)
    (rule scripted_command [where c = "RecordLifecycle s y at"], simp add: discard_run,
     rule scripted_command [where c = "RecordLaunch s p at"], simp add: discard_run,
     rule scripted_command [where c = "RecordIdentity s i"], simp add: discard_run,
     rule scripted_command [where c = "RecordFailure s at policy"], simp add: discard_run)

lemma scripted_supervision [scripted_intros]:
  "scripted e (admit_session_launch s at policy)" "scripted e (fail_session_launch e s at policy)"
  "scripted e (quarantine_unstarted_agent e run a i at)" "scripted e (warn_job_deadline e s d at)"
  "scripted e (request_session_control e s why n g t)" "scripted e (set_control_phase e c phase at)"
  "scripted e (mark_control_delivered c)"
  by (rule scripted_command [where c = "AdmitLaunch s at policy"], simp add: discard_run)
    (rule scripted_command [where c = "FailLaunch s at policy"], simp add: discard_run,
     rule scripted_command [where c = "QuarantineUnstarted run a i at"], simp,
     rule scripted_command [where c = "WarnDeadline s d at"], simp,
     rule scripted_command [where c = "RequestControl s why n g t"], simp,
     rule scripted_command [where c = "SetControlPhase c phase at"], simp,
     rule scripted_command [where c = "MarkDelivered c"], simp)

lemma scripted_discard [scripted_intros]: "scripted e m \<Longrightarrow> scripted e (discard m)"
  unfolding discard_def by (intro scripted_intros)

lemma scripted_prod [scripted_intros]: "(\<And>a b. x = (a, b) \<Longrightarrow> scripted e (f a b)) \<Longrightarrow> scripted e (case x of (a, b) \<Rightarrow> f a b)"
  by (cases x) auto

lemma scripted_notes [scripted_intros]:
  "scripted e (note_lifecycle e s actor x lifecycle exit at)" "scripted e (note_reconciliation e s actor x state at)"
  "scripted e (record_launch_observation_in e i h at)"
  unfolding note_lifecycle_def note_reconciliation_def record_launch_observation_in_def
  by (intro scripted_intros)+

lemma scripted_records [scripted_intros]:
  "scripted e (record_reconciliation_in e s state lifecycle at)"
  "sv_env sv = e \<Longrightarrow> scripted e (record_observation_in sv s observation at)"
  unfolding record_reconciliation_in_def record_observation_in_def settled_lifecycle_def
  by (intro scripted_intros) (elim subst, intro scripted_intros)

lemma committing_in_state [committing_intros]: "scripted e m \<Longrightarrow> committing e (in_state m)"
  unfolding in_state_def by (rule committing_store)

lemma committing_agents [committing_intros]:
  "committing e (keep_handle i h)" "committing e (keep_redactor i r)" "committing e (handle_of i)" "committing e (provide f)"
  "committing e (provider_look q)" "committing e (session_config sv run)" "committing e (configure_provider sv hs run name)"
  "committing e (append_file hs i bytes)"
  unfolding keep_handle_def keep_redactor_def handle_of_def provide_def provider_look_def session_config_def
    configure_provider_def append_file_def
  by (intro committing_intros)+

lemma committing_observations [committing_intros]:
  "committing (sv_env sv) (record_observation sv hs s observation at)"
  "committing e (record_launch_observation e i at)" "committing e (record_reconciliation e s state lifecycle at)"
  "committing e (append_transcript sv hs i bytes)" "committing e (flush_transcript hs i)"
proof -
  show flush: "committing e (flush_transcript hs i)" for e i
    unfolding flush_transcript_def by (intro committing_intros)
  show "committing (sv_env sv) (record_observation sv hs s observation at)"
    unfolding record_observation_def by (intro committing_intros scripted_intros flush) simp
qed (unfold record_launch_observation_def record_reconciliation_def append_transcript_def,
    (intro committing_intros scripted_intros)+)

subsection \<open>Invariants of processes\<close>

named_theorems p_inv_intros "rules that show that a process keeps a predicate of the database and the world"

definition p_inv :: "('w sys \<Rightarrow> bool) \<Rightarrow> ('w, 'e, 'a) process \<Rightarrow> bool" where
  "p_inv I p \<longleftrightarrow> (\<forall>s. I s \<longrightarrow> I (snd (p s)))"

lemma p_invD: "p_inv I p \<Longrightarrow> p s = (r, t) \<Longrightarrow> I s \<Longrightarrow> I t"
  unfolding p_inv_def by (metis snd_conv)

lemma p_inv_reading: "reading p \<Longrightarrow> p_inv I p"
  by (simp add: p_inv_def reading_def)

lemmas p_inv_basic [p_inv_intros] = reading_basic [THEN p_inv_reading]

lemma p_inv_bind [p_inv_intros]:
  assumes p: "p_inv I p" and f: "\<And>a. p_inv I (f a)"
  shows "p_inv I (p_bind p f)"
  unfolding p_inv_def
proof (intro allI impI)
  fix s assume s: "I s"
  obtain r u where run: "p s = (r, u)" by (cases "p s")
  from p_invD [OF p run s] have u: "I u" .
  show "I (snd (p_bind p f s))"
    using run u f by (cases r) (simp_all add: p_bind_run p_inv_def)
qed

lemma p_inv_seq [p_inv_intros]: "p_inv I p \<Longrightarrow> p_inv I q \<Longrightarrow> p_inv I (p_seq p q)"
  unfolding p_seq_def by (rule p_inv_bind)

lemma p_inv_attempt [p_inv_intros]: "p_inv I p \<Longrightarrow> p_inv I (p_attempt p)"
  and p_inv_error [p_inv_intros]: "p_inv I p \<Longrightarrow> p_inv I (p_error g p)"
  by (simp_all add: p_inv_def)

lemma p_inv_if [p_inv_intros]: "(b \<Longrightarrow> p_inv I p) \<Longrightarrow> (\<not> b \<Longrightarrow> p_inv I q) \<Longrightarrow> p_inv I (if b then p else q)"
  by simp

lemma p_inv_option [p_inv_intros]:
  "p_inv I p \<Longrightarrow> (\<And>a. x = Some a \<Longrightarrow> p_inv I (f a)) \<Longrightarrow> p_inv I (case x of None \<Rightarrow> p | Some a \<Rightarrow> f a)"
  by (cases x) auto

lemma p_inv_sum [p_inv_intros]:
  "(\<And>a. x = Inl a \<Longrightarrow> p_inv I (f a)) \<Longrightarrow> (\<And>b. x = Inr b \<Longrightarrow> p_inv I (g b))
    \<Longrightarrow> p_inv I (case x of Inl a \<Rightarrow> f a | Inr b \<Rightarrow> g b)"
  by (cases x) auto

lemma p_inv_prod [p_inv_intros]: "(\<And>a b. x = (a, b) \<Longrightarrow> p_inv I (f a b)) \<Longrightarrow> p_inv I (case x of (a, b) \<Rightarrow> f a b)"
  by (cases x) auto

lemma p_inv_store:
  "(\<And>s a db. I s \<Longrightarrow> m (sy_db s) = Inr (a, db) \<Longrightarrow> I (s\<lparr>sy_db := db\<rparr>)) \<Longrightarrow> p_inv I (p_store f m)"
  by (auto simp: p_inv_def p_store_def transaction_def split: sum.split prod.split)

lemma p_inv_act: "(\<And>s. I s \<Longrightarrow> I (s\<lparr>sy_world := snd (f (sy_world s))\<rparr>)) \<Longrightarrow> p_inv I (p_act f)"
  by (simp add: p_inv_def p_act_def case_prod_unfold)

end
