(* ===== verification/HandlerSamples.thy ===== *)
theory HandlerSamples
  imports AgentSessions
begin

section \<open>A sample supervisor\<close>

text \<open>
  The run of the sample database with a small stored configuration: an interactive lead that may
  spawn workers, and workers that run as jobs in the project itself. The world is the one of the
  workspace samples: whether a worktree exists.
\<close>

definition sample_profile :: PermissionProfile where
  "sample_profile = \<lparr>filesystem = WorkspaceWrite, network = Deny, approvals = Never, approval_reviewer = User\<rparr>"

definition sample_role :: "RoleMode \<Rightarrow> CapabilityGrant list \<Rightarrow> RoleDefinition" where
  "sample_role mode grants =
     \<lparr>rl_provider = ''codex'', rl_mode = mode, rl_max_instances = None, rl_workspace = ProjectWorkspace,
      rl_permission_profile = ''standard'', rl_instructions = None, rl_capabilities = grants\<rparr>"

definition sample_effective_role :: EffectiveRole where
  "sample_effective_role =
     \<lparr>er_enabled = True, er_max_instances = None, er_permission_profile = sample_profile\<rparr>"

definition sample_config :: EffectiveConfig where
  "sample_config =
     \<lparr>ec_archetype =
        \<lparr>ar_reference = ''local:sample'', ar_lead = ''lead'', ar_permission_profiles = [(''standard'', sample_profile)],
         ar_roles =
           [(''lead'', sample_role InteractiveMode [\<lparr>grant_namespace = ''spawn'', grant_action = ''worker''\<rparr>]),
            (''worker'', sample_role Job [])]\<rparr>,
      ec_providers = [(''codex'', [''codex''])], ec_allowed_project_roots = [],
      ec_limits = \<lparr>max_concurrent_agents = 8, max_agents_per_run = 16, max_spawns_per_minute = 4\<rparr>,
      ec_supervision = cd_supervision compiled_defaults,
      ec_roles = [(''lead'', sample_effective_role), (''worker'', sample_effective_role)],
      ec_provenance = []\<rparr>"

lemma sample_config_simps [simp]:
  "ar_lead (ec_archetype sample_config) = ''lead''"
  "ar_roles (ec_archetype sample_config) =
     [(''lead'', sample_role InteractiveMode [\<lparr>grant_namespace = ''spawn'', grant_action = ''worker''\<rparr>]),
      (''worker'', sample_role Job [])]"
  "ec_roles sample_config = [(''lead'', sample_effective_role), (''worker'', sample_effective_role)]"
  "ec_providers sample_config = [(''codex'', [''codex''])]" "ec_provenance sample_config = []"
  "ec_limits sample_config = \<lparr>max_concurrent_agents = 8, max_agents_per_run = 16, max_spawns_per_minute = 4\<rparr>"
  "rl_mode (sample_role mode grants) = mode" "rl_workspace (sample_role mode grants) = ProjectWorkspace"
  "rl_provider (sample_role mode grants) = ''codex''" "er_enabled sample_effective_role"
  "er_max_instances sample_effective_role = None"
  by (simp_all add: sample_config_def sample_role_def sample_effective_role_def)

definition sample_snapshot :: ConfigurationSnapshotRecord where
  "sample_snapshot =
     \<lparr>cs_id = 1, cs_run_id = RunId 1, cs_project_id = None, cs_scope = ''run'', cs_schema_version = 1,
      cs_fingerprint = concat (map encode_byte (replicate 32 0)), cs_document = ''{}'', cs_created_at = 1\<rparr>"

definition sample_supervisor :: "bool Supervisor" where
  "sample_supervisor =
     \<lparr>sv_env = sample_env, sv_run = RunId 1, sv_library = sample_library,
      sv_decode = (\<lambda>_. Some (new_run_configuration sample_config)), sv_snapshots = [sample_snapshot],
      sv_backend = sample_backend, sv_hmac = (\<lambda>_ _. ''mac''), sv_clock = Some 100, sv_fresh = 50\<rparr>"

lemma sample_supervisor_simps [simp]:
  "sv_env sample_supervisor = sample_env" "sv_run sample_supervisor = RunId 1"
  "sv_library sample_supervisor = sample_library" "sv_backend sample_supervisor = sample_backend"
  "sv_clock sample_supervisor = Some 100" "sv_fresh sample_supervisor = 50"
  by (simp_all add: sample_supervisor_def)

lemma sample_valid: "valid_snapshot sample_library (new_run_configuration sample_config) (cs_fingerprint sample_snapshot)"
  by code_simp

lemma sample_configuration [simp]:
  "configuration (sv_library sample_supervisor) (sv_decode sample_supervisor) (sv_snapshots sample_supervisor)
     (sv_run sample_supervisor) = Inr sample_config"
  using sample_valid
  by (simp add: configuration_def run_configuration_def sample_supervisor_def sample_snapshot_def restore_def
      new_run_configuration_def sample_config_def)

lemma sample_configuration_run [simp]:
  "configuration sample_library (sv_decode sample_supervisor) (sv_snapshots sample_supervisor) (RunId 1) = Inr sample_config"
  "configuration sample_library (sv_decode sample_supervisor) (sv_snapshots sample_supervisor) (RunId (Suc 0)) = Inr sample_config"
  using sample_configuration by simp_all

lemma sample_saved [simp]: "saved_configuration sample_supervisor = p_ret sample_config"
  using sample_configuration by (simp add: saved_configuration_def p_result_def p_ret_def)

lemma sample_clock [simp]: "rpc_timestamp sample_supervisor = p_ret 100"
  by (simp add: rpc_timestamp_def)

lemma sample_library_bytes [simp]: "json_bytes sample_library j = []"
  by (simp add: sample_library_def)


subsection \<open>A sample provider\<close>

text \<open>A provider that starts every job it is asked to start; its world is whether it was asked.\<close>

definition sample_handle :: ProviderSessionHandle where
  "sample_handle = \<lparr>ph_provider_id = ''job-1'', ph_scope = sample_scope\<rparr>"

definition all_capabilities :: "ProviderCapability list" where
  "all_capabilities =
     [SupervisorRpc, StartupInstructions, ForegroundInteractive, BackgroundJobs, StructuredLifecycleEvents,
      WorkingDirectory, FilesystemSandbox, NetworkSandbox, ApprovalPolicyCapability, AutomaticApprovalReview,
      UnrestrictedAccess, InterruptCapability, Termination, TranscriptStreaming, QueuedNotifications]"

definition sample_provider :: "bool Provider" where
  "sample_provider =
     \<lparr>pv_configure = (\<lambda>_ w. w),
      pv_probe = (\<lambda>_. Inr \<lparr>pb_name = ''codex'', pb_version = ''1.0.0'', pb_capabilities = all_capabilities,
         pb_compatibility = Compatible\<rparr>),
      pv_launch_interactive = (\<lambda>x _. (Inr \<lparr>ph_provider_id = ''job-1'', ph_scope = lc_scope x\<rparr>, True)),
      pv_launch_job = (\<lambda>x _ _. (Inr \<lparr>ph_provider_id = ''job-1'', ph_scope = lc_scope x\<rparr>, True)),
      pv_recover = (\<lambda>_ _ _. Inr RecoveryUnknown),
      pv_next_event = (\<lambda>_ w. (Inr None, w)),
      pv_interrupt = (\<lambda>_ _. (Inr interrupted_observation, True)),
      pv_terminate = (\<lambda>_ _. (Inr terminated_observation, True)),
      pv_kill = (\<lambda>_ _. (Inr terminated_observation, True))\<rparr>"

definition sample_harness :: "bool Harness" where
  "sample_harness =
     \<lparr>hs_provider = sample_provider, hs_append = (\<lambda>_ _ w. (Inr (), w)), hs_build = JNull, hs_bridge = JNull\<rparr>"

lemma sample_harness_simps [simp]:
  "hs_provider sample_harness = sample_provider" "hs_append sample_harness i bytes w = (Inr (), w)"
  "pv_configure sample_provider b w = w" "pv_next_event sample_provider h w = (Inr None, w)"
  "pv_interrupt sample_provider h w = (Inr interrupted_observation, True)"
  "pv_launch_job sample_provider x e w = (Inr \<lparr>ph_provider_id = ''job-1'', ph_scope = lc_scope x\<rparr>, True)"
  "pv_recover sample_provider w p s = Inr RecoveryUnknown"
  by (simp_all add: sample_harness_def sample_provider_def)

definition managing :: "(session_id \<times> ProviderSessionHandle) list \<Rightarrow> bool Agents" where
  "managing hs = \<lparr>aw_sessions = hs, aw_redactors = (\<lambda>_. None), aw_outside = False\<rparr>"

lemma managing_simps [simp]: "aw_sessions (managing hs) = hs" "aw_outside (managing hs) = False"
  by (simp_all add: managing_def)

text \<open>The sample run after its first agent has moved on to generation 1.\<close>

definition sample_superseded :: Db where
  "sample_superseded = sample_db\<lparr>agents := [sample_agent 1\<lparr>ag_generation := 1\<rparr>, sample_agent 2]\<rparr>"

lemma sample_scope_superseded: "\<not> session_scope_is_current sample_superseded sample_scope"
  by (simp add: session_scope_is_current_def sample_superseded_def sample_scope_def sample_session_def)

end
