(* ===== verification/SessionLaunch.thy ===== *)
theory SessionLaunch
  imports HandlerSamples
begin

section \<open>Launching a session (src/src/supervisor/session.rs)\<close>

text \<open>
  A launch is first recorded as an intent (agent, session, credential and events in one
  transaction) and only then handed to the provider, after the store has admitted the attempt.
  A failure is retried only when it proves that no process was started; otherwise the session
  becomes unknown and is never launched again.
\<close>

subsection \<open>What a launch requires of its provider\<close>

record AgentLaunch =
  al_scope :: SessionScope
  al_role :: string
  al_mode :: LaunchMode
  al_working_directory :: string
  al_project_id :: project_id
  al_primary_project_root :: string
  al_task_id :: task_id
  al_socket_path :: string
  al_permission_profile :: PermissionProfile
  al_bootstrap_instruction :: string
  al_created_at :: int

record LaunchedAgent =
  ld_scope :: SessionScope
  ld_token :: AgentToken

definition required_permission_capabilities :: "PermissionProfile \<Rightarrow> ProviderCapability list" where
  "required_permission_capabilities p =
     [SupervisorRpc, WorkingDirectory, FilesystemSandbox]
     @ (if network p = Deny then [NetworkSandbox] else [])
     @ [ApprovalPolicyCapability]
     @ (if approval_reviewer p = AutoReview then [AutomaticApprovalReview] else [])
     @ (if filesystem p = Unrestricted then [UnrestrictedAccess] else [])"

definition required_capabilities :: "AgentLaunch \<Rightarrow> ProviderCapability list" where
  "required_capabilities l =
     (case al_mode l of Interactive \<Rightarrow> [ForegroundInteractive] | JobMode \<Rightarrow> [BackgroundJobs])
     @ (if al_bootstrap_instruction l \<noteq> [] then [StartupInstructions] else [])
     @ (case al_mode l of Interactive \<Rightarrow> []
        | JobMode \<Rightarrow> [StructuredLifecycleEvents, TranscriptStreaming, InterruptCapability, Termination])
     @ required_permission_capabilities (al_permission_profile l)"

definition validate_provider_capabilities ::
    "ProviderProbe \<Rightarrow> ProviderCapability list \<Rightarrow> AgentSessionError + unit" where
  "validate_provider_capabilities probe wanted =
     (case pb_compatibility probe of
        Incompatible reason remedy \<Rightarrow> Inl (IncompatibleProvider (pb_name probe) (pb_version probe) reason remedy)
      | Compatible \<Rightarrow>
          (case find (\<lambda>c. c \<notin> set (pb_capabilities probe)) wanted of
             Some c \<Rightarrow> Inl (MissingCapability (pb_name probe) (pb_version probe) c)
           | None \<Rightarrow> Inr ()))"

definition validate_provider_probe :: "ProviderProbe \<Rightarrow> AgentLaunch \<Rightarrow> AgentSessionError + unit" where
  "validate_provider_probe probe l = validate_provider_capabilities probe (required_capabilities l)"

text \<open>Evidence of what was launched (src/src/supervisor/launch_contract.rs).\<close>

definition launch_contract :: "library \<Rightarrow> 'w Harness \<Rightarrow> ProviderProbe \<Rightarrow> AgentLaunch \<Rightarrow> EffectiveConfig \<Rightarrow> json option" where
  "launch_contract lib hs probe l c =
     map_option (\<lambda>lock. JObj
       [(''bridge'', hs_bridge hs), (''configuration_fingerprint'', JStr (lk_fingerprint lock)),
        (''permission_profile'', profile_json (al_permission_profile l)),
        (''provider'', JObj
          [(''capabilities'', JArr (map (\<lambda>x. JStr (capability_text x)) (pb_capabilities probe))),
           (''name'', JStr (pb_name probe)),
           (''required_capabilities'', JArr (map (\<lambda>x. JStr (capability_text x)) (required_capabilities l))),
           (''version'', JStr (pb_version probe))]),
        (''role'', JStr (al_role l)), (''schema_version'', JInt 1), (''supervisor'', hs_build hs)])
       (for_config lib c)"

subsection \<open>The durable intent\<close>

definition launch_credential :: "'v Supervisor \<Rightarrow> AgentLaunch \<Rightarrow> AgentToken \<Rightarrow> SessionCredentialRecord" where
  "launch_credential sv l token =
     \<lparr>cr_session_id = sc_session_id (al_scope l), cr_run_id = sc_run_id (al_scope l),
      cr_agent_id = sc_agent_id (al_scope l), cr_generation = sc_generation (al_scope l),
      cr_token_verifier = verifier (sv_hmac sv) (env_ulid (sv_env sv)) token (al_scope l),
      cr_created_at = al_created_at l, cr_revoked_at = None\<rparr>"

definition launch_event ::
    "AgentLaunch \<Rightarrow> EventKind \<Rightarrow> string \<Rightarrow> project_id option \<Rightarrow> task_id option \<Rightarrow> event_id option \<Rightarrow> json \<Rightarrow> string \<Rightarrow> NewEvent" where
  "launch_event l kind subject project task cause data summary =
     \<lparr>ne_run_id = sc_run_id (al_scope l), ne_kind = kind, ne_actor = ''supervisor'', ne_subject = subject,
      ne_project_id = project, ne_agent_id = Some (sc_agent_id (al_scope l)), ne_task_id = task,
      ne_operation_id = None, ne_correlation_id = cause, ne_causation_id = cause, ne_data = data,
      ne_summary = summary, ne_created_at = al_created_at l\<rparr>"

definition launching_agent :: "AgentLaunch \<Rightarrow> AgentRecord \<Rightarrow> bool" where
  "launching_agent l a \<longleftrightarrow>
     ag_run_id a = sc_run_id (al_scope l) \<and> ag_generation a = sc_generation (al_scope l)
     \<and> ag_state a = Starting \<and> ag_role a = al_role l"

definition intent_mismatch :: "AgentLaunch \<Rightarrow> assignment_id option \<Rightarrow> StoreError" where
  "intent_mismatch l assignment =
     (case assignment of
        None \<Rightarrow> InconsistentSessionLifecycle (sc_session_id (al_scope l)) (sc_agent_id (al_scope l))
      | Some a \<Rightarrow> CorruptAssignmentState a)"

definition intend_agent :: "Env \<Rightarrow> AgentLaunch \<Rightarrow> bool \<Rightarrow> assignment_id option \<Rightarrow> unit repo" where
  "intend_agent e l existing assignment =
     (if existing then
        bind (gets (\<lambda>db. find_agent db (sc_agent_id (al_scope l)))) (\<lambda>found.
        require (case found of None \<Rightarrow> False | Some a \<Rightarrow> launching_agent l a) (intent_mismatch l assignment))
      else
        seq (insert_agent \<lparr>ag_id = sc_agent_id (al_scope l), ag_run_id = sc_run_id (al_scope l), ag_role = al_role l,
               ag_generation = sc_generation (al_scope l), ag_state = Starting, ag_created_at = al_created_at l\<rparr>)
        (log_event e (launch_event l AgentCreated (agent_text e (sc_agent_id (al_scope l))) None None None
           (JObj [(''generation'', JInt (sc_generation (al_scope l))), (''role'', JStr (al_role l)),
                  (''state'', JStr (lifecycle_as_str Starting))])
           (''Created agent '' @ agent_text e (sc_agent_id (al_scope l)) @ ''.''))))"

definition intended_session :: "Env \<Rightarrow> AgentLaunch \<Rightarrow> string \<Rightarrow> SessionRecord" where
  "intended_session e l provider =
     \<lparr>se_id = sc_session_id (al_scope l), se_run_id = sc_run_id (al_scope l), se_agent_id = sc_agent_id (al_scope l),
      se_generation = sc_generation (al_scope l), se_provider = provider, se_provider_session_id = None,
      se_reconciliation_state = RDesired, se_state = Starting,
      se_transcript_path = transcript_path e (sc_session_id (al_scope l)),
      se_created_at = al_created_at l, se_ended_at = None, se_reconciled_at = None,
      se_process_owner = SupervisorOwned\<rparr>"

definition started_event :: "Env \<Rightarrow> AgentLaunch \<Rightarrow> string \<Rightarrow> json \<Rightarrow> NewEvent" where
  "started_event e l provider contract =
     launch_event l SessionStarted (session_text e (sc_session_id (al_scope l))) None None None
       (JObj [(''generation'', JInt (sc_generation (al_scope l))), (''launch_contract'', contract),
              (''provider'', JStr provider), (''state'', JStr (lifecycle_as_str Starting))])
       (''Started session '' @ session_text e (sc_session_id (al_scope l)) @ '' for agent ''
        @ agent_text e (sc_agent_id (al_scope l)) @ ''.'')"

definition bind_assignment :: "Env \<Rightarrow> AgentLaunch \<Rightarrow> event_id \<Rightarrow> assignment_id \<Rightarrow> unit repo" where
  "bind_assignment e l cause i =
     seq (associate_assignment_session i (sc_session_id (al_scope l)))
     (bind (gets (\<lambda>db. find_assignment db i)) (\<lambda>found.
      case found of
        None \<Rightarrow> fail (CorruptAssignmentState i)
      | Some a \<Rightarrow>
          bind (gets (\<lambda>db. find_task db (as_task_id a))) (\<lambda>task.
          case task of
            None \<Rightarrow> fail (CorruptAssignmentState i)
          | Some t \<Rightarrow>
              log_event e (launch_event l AssignmentSessionAssociated (assignment_text e i) (Some (tk_project_id t))
                (Some (as_task_id a)) (Some cause)
                (JObj [(''session_id'', session_json (sc_session_id (al_scope l)))])
                (''Associated session '' @ session_text e (sc_session_id (al_scope l)) @ '' with assignment ''
                 @ assignment_text e i @ ''.'')))))"

definition record_intent ::
    "'v Supervisor \<Rightarrow> AgentLaunch \<Rightarrow> bool \<Rightarrow> assignment_id option \<Rightarrow> string \<Rightarrow> json \<Rightarrow> AgentToken \<Rightarrow> unit repo" where
  "record_intent sv l existing assignment provider contract token =
     seq (intend_agent (sv_env sv) l existing assignment)
     (seq (insert_session (intended_session (sv_env sv) l provider))
     (seq (activate_session_credential (launch_credential sv l token))
     (bind (append_event (sv_env sv) (started_event (sv_env sv) l provider contract)) (\<lambda>ev.
      case assignment of None \<Rightarrow> ret () | Some i \<Rightarrow> bind_assignment (sv_env sv) l (ev_id ev) i))))"

text \<open>The token is drawn from the system's random source, which may fail.\<close>

definition fresh_token :: "AgentToken option \<Rightarrow> ('w, AgentToken) agents" where
  "fresh_token token = (case token of None \<Rightarrow> p_fail SessionToken | Some t \<Rightarrow> p_ret t)"

definition probe_provider :: "'w Harness \<Rightarrow> ('w, ProviderProbe) agents" where
  "probe_provider hs = p_bind (provider_look (pv_probe (hs_provider hs))) (\<lambda>r. p_result (map_sum SessionProvider id r))"

definition persist_launch_intent ::
    "'v Supervisor \<Rightarrow> 'w Harness \<Rightarrow> AgentLaunch \<Rightarrow> bool \<Rightarrow> assignment_id option \<Rightarrow> AgentToken option \<Rightarrow> ('w, AgentToken) agents" where
  "persist_launch_intent sv hs l existing assignment token =
     p_seq (configure_provider sv hs (sc_run_id (al_scope l)) (al_role l))
     (p_bind (probe_provider hs) (\<lambda>probe.
      p_seq (p_result (validate_provider_probe probe l))
      (p_bind (session_config sv (sc_run_id (al_scope l))) (\<lambda>c.
      case launch_contract (sv_library sv) hs probe l c of
        None \<Rightarrow> p_fail (SessionState Panic)
      | Some contract \<Rightarrow>
          p_bind (fresh_token token) (\<lambda>t.
          p_seq (in_state (record_intent sv l existing assignment (pb_name probe) contract t)) (p_ret t))))))"

subsection \<open>Starting\<close>

definition launch_specification :: "AgentLaunch \<Rightarrow> LaunchSpecification" where
  "launch_specification l =
     \<lparr>lc_scope = al_scope l, lc_working_directory = al_working_directory l,
      lc_permission_profile = al_permission_profile l, lc_bootstrap_instruction = al_bootstrap_instruction l\<rparr>"

definition job_environment :: "AgentLaunch \<Rightarrow> AgentToken \<Rightarrow> JobEnvironment" where
  "job_environment l token =
     \<lparr>je_project_id = al_project_id l, je_primary_project_root = al_primary_project_root l, je_role = al_role l,
      je_task_id = al_task_id l, je_socket_path = al_socket_path l, je_token = token\<rparr>"

definition call_provider :: "'w Harness \<Rightarrow> AgentLaunch \<Rightarrow> AgentToken \<Rightarrow> ('w, ProviderSessionHandle) agents" where
  "call_provider hs l token =
     provide (case al_mode l of
        Interactive \<Rightarrow> pv_launch_interactive (hs_provider hs) (launch_specification l)
      | JobMode \<Rightarrow> pv_launch_job (hs_provider hs) (launch_specification l) (job_environment l token))"

definition start_provider :: "'v Supervisor \<Rightarrow> 'w Harness \<Rightarrow> AgentLaunch \<Rightarrow> AgentToken \<Rightarrow> ('w, LaunchedAgent) agents" where
  "start_provider sv hs l token =
     p_bind (call_provider hs l token) (\<lambda>h.
     if ph_scope h \<noteq> al_scope l then p_fail (ScopeMismatch (al_scope l) (ph_scope h))
     else
       p_seq (keep_handle (sc_session_id (al_scope l)) h)
       (p_seq (keep_redactor (sc_session_id (al_scope l))
          (add (expose_secret token) (from_environment (env_vars (sv_env sv)))))
       (p_ret \<lparr>ld_scope = al_scope l, ld_token = token\<rparr>)))"

fun admitted :: "session_id \<Rightarrow> LaunchAdmission \<Rightarrow> AgentSessionError + unit" where
  "admitted i LaunchAllowed = Inr ()"
| "admitted i (Backoff until) = Inl (RestartLimited i (Some until))"
| "admitted i LaunchQuarantined = Inl (RestartLimited i None)"
| "admitted i LaunchUnknown = Inl (UnresolvedIntent i RUnknown)"

definition note_unstarted :: "Env \<Rightarrow> SessionScope \<Rightarrow> int \<Rightarrow> SupervisionPolicy \<Rightarrow> unit repo" where
  "note_unstarted e s at policy =
     bind (fail_session_launch e s at policy) (\<lambda>quarantined.
     if quarantined then record_reconciliation_in e s RObserved Quarantined at else ret ())"

fun safe_to_retry :: "AgentSessionError \<Rightarrow> bool" where
  "safe_to_retry (SessionProvider err) = proves_no_process_started err"
| "safe_to_retry _ = False"

definition note_failed_start ::
    "Env \<Rightarrow> AgentLaunch \<Rightarrow> int \<Rightarrow> SupervisionPolicy \<Rightarrow> AgentSessionError \<Rightarrow> ('w, unit) agents" where
  "note_failed_start e l at policy err =
     (case err of
        ScopeMismatch expected observed \<Rightarrow> record_reconciliation e (al_scope l) RUnknown Unknown (al_created_at l)
      | _ \<Rightarrow>
          if safe_to_retry err then in_state (note_unstarted e (al_scope l) at policy)
          else record_reconciliation e (al_scope l) RUnknown Unknown at)"

text \<open>
  An attempt has three parts: what is committed before the provider is called, the call, and what
  is committed after it.
\<close>

definition admit_launch :: "'v Supervisor \<Rightarrow> AgentLaunch \<Rightarrow> AgentToken \<Rightarrow> int \<Rightarrow> ('w, SupervisionPolicy) agents" where
  "admit_launch sv l token at =
     p_bind (session_config sv (sc_run_id (al_scope l))) (\<lambda>c.
     p_bind (in_state (admit_session_launch (al_scope l) at (ec_supervision c))) (\<lambda>admission.
     p_seq (p_result (admitted (sc_session_id (al_scope l)) admission))
     (p_seq (in_state (replace_desired_session_credential (launch_credential sv l token)))
            (p_ret (ec_supervision c)))))"

definition finish_launch ::
    "Env \<Rightarrow> AgentLaunch \<Rightarrow> int \<Rightarrow> SupervisionPolicy \<Rightarrow> AgentSessionError + LaunchedAgent \<Rightarrow> ('w, LaunchedAgent) agents" where
  "finish_launch e l at policy started =
     (case started of
        Inl err \<Rightarrow> p_seq (note_failed_start e l at policy err) (p_fail err)
      | Inr launched \<Rightarrow>
          p_seq (record_launch_observation e (sc_session_id (al_scope l)) (al_created_at l)) (p_ret launched))"

definition start_and_record ::
    "'v Supervisor \<Rightarrow> 'w Harness \<Rightarrow> AgentLaunch \<Rightarrow> AgentToken \<Rightarrow> int \<Rightarrow> ('w, LaunchedAgent) agents" where
  "start_and_record sv hs l token at =
     p_bind (admit_launch sv l token at) (\<lambda>policy.
     p_bind (p_attempt (start_provider sv hs l token)) (finish_launch (sv_env sv) l at policy))"

definition launch_session ::
    "'v Supervisor \<Rightarrow> 'w Harness \<Rightarrow> AgentLaunch \<Rightarrow> bool \<Rightarrow> assignment_id option \<Rightarrow> AgentToken option
      \<Rightarrow> ('w, LaunchedAgent) agents" where
  "launch_session sv hs l existing assignment token =
     p_bind (persist_launch_intent sv hs l existing assignment token) (\<lambda>t.
     start_and_record sv hs l t (al_created_at l))"

definition matches_intent :: "AgentLaunch \<Rightarrow> string \<Rightarrow> SessionRecord \<Rightarrow> bool" where
  "matches_intent l provider x \<longleftrightarrow>
     se_run_id x = sc_run_id (al_scope l) \<and> se_agent_id x = sc_agent_id (al_scope l)
     \<and> se_generation x = sc_generation (al_scope l) \<and> se_provider x = provider"

definition resume_launch ::
    "'v Supervisor \<Rightarrow> 'w Harness \<Rightarrow> AgentLaunch \<Rightarrow> ProviderProbe \<Rightarrow> AgentToken option \<Rightarrow> int
      \<Rightarrow> ('w, LaunchedAgent option) agents" where
  "resume_launch sv hs l probe token at =
     p_seq (p_result (validate_provider_probe probe l))
     (p_bind (p_look (\<lambda>w. Inr (map_of (aw_sessions w) (sc_session_id (al_scope l)) \<noteq> None))) (\<lambda>known.
      if known then
        p_seq (record_launch_observation (sv_env sv) (sc_session_id (al_scope l)) (al_created_at l)) (p_ret None)
      else
        p_bind (fresh_token token) (\<lambda>t. p_bind (start_and_record sv hs l t at) (\<lambda>launched. p_ret (Some launched)))))"

definition ensure_existing_launch ::
    "'v Supervisor \<Rightarrow> 'w Harness \<Rightarrow> AgentLaunch \<Rightarrow> assignment_id option \<Rightarrow> AgentToken option \<Rightarrow> int
      \<Rightarrow> ('w, LaunchedAgent option) agents" where
  "ensure_existing_launch sv hs l assignment token at =
     (let i = sc_session_id (al_scope l) in
      p_bind (p_query (\<lambda>db. find_session db i)) (\<lambda>found.
      case found of
        None \<Rightarrow> p_bind (launch_session sv hs l True assignment token) (\<lambda>launched. p_ret (Some launched))
      | Some x \<Rightarrow>
          p_seq (configure_provider sv hs (sc_run_id (al_scope l)) (al_role l))
          (p_bind (probe_provider hs) (\<lambda>probe.
           p_bind (p_query (\<lambda>db. session_scope_is_current db (al_scope l))) (\<lambda>current.
           if \<not> current \<or> \<not> matches_intent l (pb_name probe) x then p_fail (IntentMismatch i)
           else case se_reconciliation_state x of
               RObserved \<Rightarrow> if se_state x = Quarantined then p_fail (RestartLimited (se_id x) None) else p_ret None
             | RDesired \<Rightarrow> resume_launch sv hs l probe token at
             | RLost \<Rightarrow> p_fail (UnresolvedIntent i RLost)
             | RUnknown \<Rightarrow> p_fail (UnresolvedIntent i RUnknown))))))"

subsection \<open>A launch is committed step by step\<close>

lemma scripted_intent [scripted_intros]: "scripted e (record_intent sv l existing assignment provider contract token)"
  if "sv_env sv = e"
  unfolding record_intent_def intend_agent_def bind_assignment_def that
  by (intro scripted_intros)

lemma committing_launch [committing_intros]:
  "committing e (fresh_token token)" "committing e (probe_provider hs)" "committing e (start_provider sv hs l t)"
  unfolding fresh_token_def probe_provider_def start_provider_def call_provider_def
  by (intro committing_intros)+

lemma committing_persist [committing_intros]:
  "committing (sv_env sv) (persist_launch_intent sv hs l existing assignment token)"
  unfolding persist_launch_intent_def by (intro committing_intros scripted_intros refl)

lemma committing_note_failed [committing_intros]: "committing e (note_failed_start e l at policy err)"
  unfolding note_failed_start_def note_unstarted_def
  by (cases err) (auto intro!: committing_intros scripted_intros)

lemma committing_start [committing_intros]: "committing (sv_env sv) (start_and_record sv hs l token at)"
  unfolding start_and_record_def admit_launch_def finish_launch_def by (intro committing_intros scripted_intros)

lemma committing_ensure [committing_intros]:
  "committing (sv_env sv) (launch_session sv hs l existing assignment token)"
  "committing (sv_env sv) (ensure_existing_launch sv hs l assignment token at)"
proof -
  show launch: "committing (sv_env sv) (launch_session sv hs l existing assignment token)" for existing token
    unfolding launch_session_def by (intro committing_intros)
  have resume: "committing (sv_env sv) (resume_launch sv hs l probe token at)" for probe
    unfolding resume_launch_def by (intro committing_intros)
  show "committing (sv_env sv) (ensure_existing_launch sv hs l assignment token at)"
    unfolding ensure_existing_launch_def Let_def
    by (intro committing_intros launch)
      (auto intro!: committing_intros resume split: ExternalResourceState.split)
qed

subsection \<open>Attempts in flight\<close>

abbreviation attempts :: "LaunchAttempt list \<Rightarrow> Db \<Rightarrow> bool" where
  "attempts rows db \<equiv> launch_attempts db = rows"

lemma attempts_kept [keeps_intros]:
  "keeps (attempts rows) (append_event e n)" "keeps (attempts rows) (log_event e n)"
  "keeps (attempts rows) (insert_agent a)" "keeps (attempts rows) (insert_session x)"
  "keeps (attempts rows) (activate_session_credential c)" "keeps (attempts rows) (replace_desired_session_credential c)"
  "keeps (attempts rows) (associate_assignment_session i j)"
  "keeps (attempts rows) (record_session_reconciliation_state s state at)"
  "keeps (attempts rows) (record_session_lifecycle s lifecycle at)"
  "keeps (attempts rows) (record_session_launch_observation s p at)"
proof -
  show ev: "keeps (attempts rows) (append_event e n)" for e n by (rule keeps_append_event_frame) simp
  show "keeps (attempts rows) (log_event e n)" unfolding log_event_def by (intro keeps_intros ev)
  have m: "keeps (attempts rows) (modify f)" if "\<And>db. launch_attempts (f db) = launch_attempts db" for f
    using that by (intro keeps_modify) simp
  have ins: "keeps (attempts rows) (insert_row ok put r)" if "\<And>db. launch_attempts (put r db) = launch_attempts db"
    for ok put r using that by (intro keeps_insert_row) simp
  have req: "keeps (attempts rows) (require b err)" for b err by (auto simp: keeps_def)
  show "keeps (attempts rows) (insert_agent a)" "keeps (attempts rows) (insert_session x)"
    unfolding insert_defs by (intro ins; simp)+
  have credential: "keeps (attempts rows) (insert_credential d)" for d unfolding insert_defs by (intro ins) simp
  have rev: "keeps (attempts rows) (revoke_credentials q at)" for q at
    unfolding revoke_credentials_def by (intro keeps_intros req m) simp
  show "keeps (attempts rows) (activate_session_credential c)"
    unfolding activate_session_credential_def by (intro keeps_intros req rev credential)
  show "keeps (attempts rows) (replace_desired_session_credential c)"
    unfolding replace_desired_session_credential_def by (intro keeps_intros req m) simp
  show "keeps (attempts rows) (associate_assignment_session i j)"
    unfolding associate_assignment_session_def Let_def by (intro keeps_intros req m) simp
  show "keeps (attempts rows) (record_session_reconciliation_state s state at)"
    "keeps (attempts rows) (record_session_launch_observation s p at)"
    unfolding record_session_reconciliation_state_def record_session_launch_observation_def
    by (intro keeps_intros m; simp)+
  show "keeps (attempts rows) (record_session_lifecycle s lifecycle at)"
    unfolding record_session_lifecycle_def by (intro keeps_intros m rev; simp)
qed

lemma attempts_kept_by_notes [keeps_intros]:
  "keeps (attempts rows) (record_reconciliation_in e s state lifecycle at)"
  "keeps (attempts rows) (record_launch_observation_in e i h at)"
  unfolding record_reconciliation_in_def note_reconciliation_def note_lifecycle_def record_launch_observation_in_def
  by (intro keeps_intros)+

lemma admit_in_flight:
  assumes "find_launch db (sc_session_id s) = Some k" "la_in_flight k"
  shows "\<exists>x. x \<noteq> LaunchAllowed \<and> admit_session_launch s now p db = Inr (x, db)"
  using assms by (auto simp: admit_session_launch_def)

lemma admit_attempts:
  assumes "admit_session_launch s now p db = Inr (x, db')"
  shows "(x = LaunchAllowed \<longrightarrow> (\<exists>k. find_launch db' (sc_session_id s) = Some k \<and> la_in_flight k))
    \<and> (x \<noteq> LaunchAllowed \<longrightarrow> db' = db)"
proof (cases "x = LaunchAllowed")
  case True
  with assms obtain window n next_at where up: "upsert_launch s window n next_at db = Inr ((), db')"
    by (auto simp: admit_session_launch_def Let_def seq_Inr_iff split: if_splits option.splits)
  have "\<exists>k. find_launch db' (sc_session_id s) = Some k \<and> la_in_flight k"
  proof (cases "find_launch db (sc_session_id s)")
    case None
    with up have db': "launch_attempts db' = launch_attempts db @ [\<lparr>la_scope = s, la_window_started_at = window, la_attempts = n,
            la_next_attempt_at = next_at, la_in_flight = True, la_quarantined = False\<rparr>]"
      by (auto simp: upsert_launch_def insert_row_def split: if_splits)
    with None show ?thesis by (simp add: find_launch_def find_append)
  next
    case (Some l)
    with up have db': "launch_attempts db' = update_where (\<lambda>l. sc_session_id (la_scope l) = sc_session_id s)
        (\<lambda>l. l\<lparr>la_window_started_at := window, la_attempts := n, la_next_attempt_at := next_at, la_in_flight := True\<rparr>) (launch_attempts db)"
      by (auto simp: upsert_launch_def seq_Inr_iff split: if_splits)
    have "find (\<lambda>l. sc_session_id (la_scope l) = sc_session_id s) (launch_attempts db') = Some (l\<lparr>la_window_started_at := window,
        la_attempts := n, la_next_attempt_at := next_at, la_in_flight := True\<rparr>)"
      using Some unfolding db' find_launch_def by (subst find_update_where) (auto dest: find_Some_in)
    then show ?thesis by (auto simp: find_launch_def)
  qed
  with True show ?thesis by simp
next
  case False
  with assms show ?thesis
    by (auto simp: admit_session_launch_def Let_def seq_Inr_iff split: if_splits option.splits)
qed

lemma start_in_flight:
  assumes "find_launch (sy_db s) (sc_session_id (al_scope l)) = Some k" "la_in_flight k"
  shows "\<exists>err. start_and_record sv hs l token at s = (Inl err, s)"
proof (cases "run_config sv (sc_run_id (al_scope l))")
  case (Inl err)
  then show ?thesis by (simp add: start_and_record_def admit_launch_def session_config_def p_bind_def)
next
  case (Inr c)
  obtain x where x: "x \<noteq> LaunchAllowed" "admit_session_launch (al_scope l) at (ec_supervision c) (sy_db s) = Inr (x, sy_db s)"
    using admit_in_flight [OF assms] by blast
  then have "in_state (admit_session_launch (al_scope l) at (ec_supervision c)) s = (Inr x, s)"
    by (simp add: in_state_def p_store_def transaction_def)
  moreover have "\<exists>err. admitted (sc_session_id (al_scope l)) x = Inl err" using x(1) by (cases x) simp_all
  ultimately show ?thesis using Inr
    by (auto simp: start_and_record_def admit_launch_def session_config_def p_bind_def p_seq_def)
qed

text \<open>The worlds that selecting a provider command can lead to.\<close>

inductive_set configured :: "'w Harness \<Rightarrow> 'w \<Rightarrow> 'w set" for hs :: "'w Harness" and w :: 'w where
  configured_refl: "w \<in> configured hs w"
| configured_step: "v \<in> configured hs w \<Longrightarrow> pv_configure (hs_provider hs) binding v \<in> configured hs w"

definition idle_since :: "'w Harness \<Rightarrow> 'w \<Rightarrow> LaunchAttempt list \<Rightarrow> 'w Agents sys \<Rightarrow> bool" where
  "idle_since hs w rows s \<longleftrightarrow> aw_outside (sy_world s) \<in> configured hs w \<and> launch_attempts (sy_db s) = rows"

lemma idle_in_state: "keeps (attempts rows) m \<Longrightarrow> p_inv (idle_since hs w rows) (in_state m)"
  unfolding in_state_def by (intro p_inv_store) (auto simp: idle_since_def dest: keepsD)

lemma idle_basic [p_inv_intros]:
  "p_inv (idle_since hs w rows) (configure_provider sv hs run name)" "p_inv (idle_since hs w rows) (session_config sv run)"
  "p_inv (idle_since hs w rows) (probe_provider hs')" "p_inv (idle_since hs w rows) (fresh_token token)"
  "p_inv (idle_since hs w rows) (handle_of i)"
proof -
  show c: "p_inv (idle_since hs w rows) (session_config sv run)" for sv :: "'c Supervisor" and run
    unfolding session_config_def by (intro p_inv_intros)
  show "p_inv (idle_since hs w rows) (configure_provider sv hs run name)"
    unfolding configure_provider_def
    by (intro p_inv_intros c p_inv_act) (auto simp: idle_since_def outside_def intro: configured_step)
  show "p_inv (idle_since hs w rows) (probe_provider hs')" "p_inv (idle_since hs w rows) (fresh_token token)"
    "p_inv (idle_since hs w rows) (handle_of i)"
    unfolding probe_provider_def fresh_token_def provider_look_def handle_of_def by (intro p_inv_intros)+
qed

lemma idle_intent: "p_inv (idle_since hs w rows) (persist_launch_intent sv hs l existing assignment token)"
proof -
  have req: "keeps (attempts rows) (require b err)" for b err by (auto simp: keeps_def)
  have intent: "keeps (attempts rows) (record_intent sv l existing assignment provider contract t)" for provider contract t
    unfolding record_intent_def intend_agent_def bind_assignment_def
    by (intro keeps_intros req)
  show ?thesis
    unfolding persist_launch_intent_def by (intro p_inv_intros idle_in_state intent)
qed

lemma idle_observation: "p_inv (idle_since hs w rows) (record_launch_observation e i at)"
  unfolding record_launch_observation_def by (intro p_inv_intros idle_in_state keeps_intros)

lemma idle_start:
  assumes "find (\<lambda>k. sc_session_id (la_scope k) = sc_session_id (al_scope l)) rows = Some k" "la_in_flight k"
  shows "p_inv (idle_since hs w rows) (start_and_record sv hs l token at)"
  unfolding p_inv_def
proof (intro allI impI)
  fix s :: "'a Agents sys" assume s: "idle_since hs w rows s"
  with assms(1) have "find_launch (sy_db s) (sc_session_id (al_scope l)) = Some k"
    by (simp add: idle_since_def find_launch_def)
  from start_in_flight [OF this assms(2), of sv hs token at] s
  show "idle_since hs w rows (snd (start_and_record sv hs l token at s))" by auto
qed

lemma idle_ensure:
  assumes "find (\<lambda>k. sc_session_id (la_scope k) = sc_session_id (al_scope l)) rows = Some k" "la_in_flight k"
  shows "p_inv (idle_since hs w rows) (ensure_existing_launch sv hs l assignment token at)"
proof -
  note start = idle_start [OF assms]
  have resume: "p_inv (idle_since hs w rows) (resume_launch sv hs l probe token at)" for probe
    unfolding resume_launch_def by (intro p_inv_intros start idle_observation)
  show ?thesis
    unfolding ensure_existing_launch_def launch_session_def Let_def
    by (intro p_inv_intros start idle_intent)
      (auto intro!: p_inv_intros resume split: ExternalResourceState.split)
qed

subsection \<open>No launch is repeated\<close>

lemma flying_find: "flying i db \<longleftrightarrow> (\<exists>k. find_launch db i = Some k \<and> la_in_flight k)"
  by (auto simp: in_flight_def find_launch_def split: option.split)

lemma flying_kept:
  assumes "\<And>rows. keeps (attempts rows) m" "in_state m s = (r, t)" "flying i (sy_db s)"
  shows "flying i (sy_db t)"
proof -
  have "p_inv (\<lambda>v. launch_attempts (sy_db v) = launch_attempts (sy_db s)) (in_state m)"
    unfolding in_state_def using assms(1) by (intro p_inv_store) (auto dest: keepsD)
  from p_invD [OF this assms(2) refl] assms(3) show ?thesis by simp
qed

text \<open>The attempt is in flight before the provider is called, and the call does not change the store.\<close>

lemma admitted_flying:
  assumes "admit_launch sv l token at s = (Inr policy, u)"
  shows "flying (sc_session_id (al_scope l)) (sy_db u)"
proof -
  from assms obtain c :: EffectiveConfig and x mid
    where admit: "in_state (admit_session_launch (al_scope l) at (ec_supervision c)) s = (Inr x, mid)"
    and allowed: "admitted (sc_session_id (al_scope l)) x = Inr ()"
    and credential: "in_state (replace_desired_session_credential (launch_credential sv l token)) mid = (Inr (), u)"
    by (auto simp: admit_launch_def session_config_def p_bind_Inr p_seq_Inr)
  have "x = LaunchAllowed" using allowed by (cases x) simp_all
  with admit have "flying (sc_session_id (al_scope l)) (sy_db mid)"
    by (auto simp: in_state_def p_store_Inr flying_find dest: admit_attempts)
  then show ?thesis by (rule flying_kept [OF attempts_kept(6) credential])
qed

lemma provider_leaves_store:
  assumes "start_provider sv hs l token u = (r, v)"
  shows "sy_db v = sy_db u"
proof -
  have "p_inv (\<lambda>v. sy_db v = sy_db u) (start_provider sv hs l token)"
    unfolding start_provider_def call_provider_def provide_def keep_handle_def keep_redactor_def
    by (intro p_inv_intros p_inv_act) simp_all
  from p_invD [OF this assms refl] show ?thesis .
qed

text \<open>It stays in flight unless the failure that is reported proves that nothing was started.\<close>

lemma finished_flying:
  assumes run: "finish_launch e l at policy started v = (r, w)" and unsafe: "\<And>err. r = Inl err \<Longrightarrow> \<not> safe_to_retry err"
    and v: "flying i (sy_db v)"
  shows "flying i (sy_db w)"
proof (cases started)
  case (Inr launched)
  with run obtain a where first: "record_launch_observation e (sc_session_id (al_scope l)) (al_created_at l) v = (a, w)"
    by (cases "record_launch_observation e (sc_session_id (al_scope l)) (al_created_at l) v"; cases "fst (record_launch_observation e (sc_session_id (al_scope l)) (al_created_at l) v)")
      (auto simp: finish_launch_def p_seq_run)
  have "p_inv (\<lambda>u. launch_attempts (sy_db u) = launch_attempts (sy_db v))
      (record_launch_observation e (sc_session_id (al_scope l)) (al_created_at l))"
    unfolding record_launch_observation_def handle_of_def
    by (intro p_inv_intros p_inv_store) (auto simp: in_state_def intro!: p_inv_store dest: keepsD [OF attempts_kept_by_notes(2)])
  from p_invD [OF this first refl] v show ?thesis by simp
next
  case (Inl err)
  with run have noted: "p_seq (note_failed_start e l at policy err) (p_fail err) v = (r, w)" by (simp add: finish_launch_def)
  show ?thesis
  proof (cases "safe_to_retry err")
    case True
    then have "note_failed_start e l at policy err v = in_state (note_unstarted e (al_scope l) at policy) v"
      by (cases err) (simp_all add: note_failed_start_def)
    with noted have "p_seq (in_state (note_unstarted e (al_scope l) at policy)) (p_fail err) v = (r, w)"
      by (simp add: p_seq_def p_bind_def)
    with unsafe True obtain e2 where "in_state (note_unstarted e (al_scope l) at policy) v = (Inl e2, w)"
      by (cases "in_state (note_unstarted e (al_scope l) at policy) v"; cases "fst (in_state (note_unstarted e (al_scope l) at policy) v)")
        (auto simp: p_seq_run)
    then have "w = v" by (simp add: in_state_def p_store_Inl)
    with v show ?thesis by simp
  next
    case False
    then have "\<exists>state lifecycle t. note_failed_start e l at policy err v = in_state (record_reconciliation_in e (al_scope l) state lifecycle t) v"
      by (cases err) (auto simp: note_failed_start_def record_reconciliation_def)
    then obtain state lifecycle t where note_run: "note_failed_start e l at policy err v = in_state (record_reconciliation_in e (al_scope l) state lifecycle t) v"
      by blast
    obtain a u where first: "in_state (record_reconciliation_in e (al_scope l) state lifecycle t) v = (a, u)"
      by (cases "in_state (record_reconciliation_in e (al_scope l) state lifecycle t) v")
    have "w = u" using noted note_run first by (cases a) (auto simp: p_seq_run)
    with flying_kept [OF attempts_kept_by_notes(1) first v] show ?thesis by simp
  qed
qed

text \<open>
  What can happen between an attempt and a later one: the supervisor ends and its successor
  starts with another memory in another world; transactions are committed, by whatever part of the
  program, that do not settle this attempt; and anyone tries to launch the session again.
\<close>

inductive afterwards :: "session_id \<Rightarrow> 'w Agents sys \<Rightarrow> 'w Agents sys \<Rightarrow> bool" for i :: session_id and s :: "'w Agents sys" where
  afterwards_now: "afterwards i s s"
| afterwards_restart: "afterwards i s t \<Longrightarrow> afterwards i s (t\<lparr>sy_world := world\<rparr>)"
| afterwards_commit: "afterwards i s t \<Longrightarrow> transaction (for_each (exec e) cs) (sy_db t) = (out, db) \<Longrightarrow>
    (\<And>c. c \<in> set cs \<Longrightarrow> \<not> settles i c) \<Longrightarrow> afterwards i s (t\<lparr>sy_db := db\<rparr>)"
| afterwards_retry: "afterwards i s t \<Longrightarrow> sc_session_id (al_scope l) = i \<Longrightarrow>
    ensure_existing_launch (sv :: 'w Supervisor) hs l assignment token at t = (r, u) \<Longrightarrow> afterwards i s u"

lemma retry_does_nothing:
  assumes flying: "flying (sc_session_id (al_scope l)) (sy_db s)"
    and retry: "ensure_existing_launch sv hs l assignment token at s = (r, t)"
  shows "aw_outside (sy_world t) \<in> configured hs (aw_outside (sy_world s)) \<and> launch_attempts (sy_db t) = launch_attempts (sy_db s)"
proof -
  obtain k where "find_launch (sy_db s) (sc_session_id (al_scope l)) = Some k" "la_in_flight k"
    using flying by (auto simp: flying_find)
  then have idle: "p_inv (idle_since hs (aw_outside (sy_world s)) (launch_attempts (sy_db s)))
      (ensure_existing_launch sv hs l assignment token at)"
    by (intro idle_ensure) (simp_all add: find_launch_def)
  have "idle_since hs (aw_outside (sy_world s)) (launch_attempts (sy_db s)) s"
    by (simp add: idle_since_def configured_refl)
  from p_invD [OF idle retry this] show ?thesis by (simp add: idle_since_def)
qed

lemma afterwards_flying: "afterwards i s t \<Longrightarrow> flying i (sy_db s) \<Longrightarrow> flying i (sy_db t)"
proof (induction rule: afterwards.induct)
  case (afterwards_commit t e cs out db)
  then show ?case using apart_flying by simp
next
  case (afterwards_retry t l sv hs assignment token at r u)
  then show ?case using retry_does_nothing by fastforce
qed simp_all

text \<open>
  Property C8. No session is launched twice. An attempt records itself before it calls the provider.
  From that call on, wherever the supervisor crashes, or after it has recorded the outcome
  without a proof that no process was started, that session is never launched again: not after any
  number of restarts with another memory, not after any further transactions that do
  not settle the attempt, not after any other attempts to launch it, and not by another supervisor.
  Whatever the world is by then, a later attempt does nothing to it beyond selecting the provider's
  command.
\<close>

theorem launches_are_never_repeated:
  assumes begun: "admit_launch sv l token at s = (Inr policy, u)"
    and called: "start_provider sv hs l token u = (started, v)"
    and left: "sy_db w = sy_db v \<or>
      (\<exists>r. finish_launch (sv_env sv) l at policy started v = (r, w) \<and> (\<forall>err. r = Inl err \<longrightarrow> \<not> safe_to_retry err))"
    and later: "afterwards (sc_session_id (al_scope l)) w s'"
    and same: "sc_session_id (al_scope l') = sc_session_id (al_scope l)"
    and retry: "ensure_existing_launch sv' hs' l' assignment token' at' s' = (r', t')"
  shows "start_and_record sv hs l token at s = finish_launch (sv_env sv) l at policy started v
    \<and> aw_outside (sy_world t') \<in> configured hs' (aw_outside (sy_world s'))"
proof
  show "start_and_record sv hs l token at s = finish_launch (sv_env sv) l at policy started v"
    using begun called by (simp add: start_and_record_def p_bind_run)
  have v: "flying (sc_session_id (al_scope l)) (sy_db v)"
    using admitted_flying [OF begun] provider_leaves_store [OF called] by simp
  have "flying (sc_session_id (al_scope l)) (sy_db w)"
    using left
  proof (elim disjE exE conjE)
    assume "sy_db w = sy_db v"
    with v show ?thesis by simp
  next
    fix r assume "finish_launch (sv_env sv) l at policy started v = (r, w)" "\<forall>err. r = Inl err \<longrightarrow> \<not> safe_to_retry err"
    then show ?thesis by (intro finished_flying [OF _ _ v]) auto
  qed
  then have "flying (sc_session_id (al_scope l)) (sy_db s')" by (rule afterwards_flying [OF later])
  with retry_does_nothing [OF _ retry] same show "aw_outside (sy_world t') \<in> configured hs' (aw_outside (sy_world s'))" by simp
qed

definition sample_launch :: AgentLaunch where
  "sample_launch =
     \<lparr>al_scope = sample_scope, al_role = ''worker'', al_mode = JobMode, al_working_directory = ''/p'',
      al_project_id = ProjectId 1, al_primary_project_root = ''/p'', al_task_id = TaskId 1, al_socket_path = ''/s'',
      al_permission_profile = sample_profile, al_bootstrap_instruction = [], al_created_at = 1\<rparr>"

definition sample_credentialed :: Db where
  "sample_credentialed = sample_db\<lparr>credentials :=
     [\<lparr>cr_session_id = SessionId 1, cr_run_id = RunId 1, cr_agent_id = AgentId 1, cr_generation = 0,
       cr_token_verifier = TokenVerifier ''v'', cr_created_at = 1, cr_revoked_at = None\<rparr>]\<rparr>"

lemma sample_admitted:
  "\<exists>db1. admit_session_launch sample_scope 9 policy sample_credentialed = Inr (LaunchAllowed, db1)
     \<and> credentials db1 = credentials sample_credentialed \<and> sessions db1 = [sample_session]"
proof -
  have "session_scope_is_current sample_credentialed sample_scope"
    by (simp add: session_scope_is_current_def session_recovered_def sample_credentialed_def sample_scope_def
        sample_session_def sample_run_def)
  then show ?thesis
    by (simp add: admit_session_launch_def find_run_shutdown_def find_launch_def upsert_launch_def insert_row_def seq_def
        bind_run Let_def control_fk_ok_def sample_scope_def sample_credentialed_def session_exists_def sample_session_def
        empty_db_def sample_db_def)
qed

text \<open>A crash between the provider's call and the record of its outcome.\<close>

theorem launches_are_never_repeated_witness:
  "\<exists>policy u started v r' t'. admit_launch sample_supervisor sample_launch (AgentToken (replicate 32 7)) 9
        \<lparr>sy_db = sample_credentialed, sy_world = managing []\<rparr> = (Inr policy, u)
     \<and> start_provider sample_supervisor sample_harness sample_launch (AgentToken (replicate 32 7)) u = (started, v)
     \<and> aw_outside (sy_world v) = True
     \<and> ensure_existing_launch sample_supervisor sample_harness sample_launch None None 500 (v\<lparr>sy_world := managing []\<rparr>) = (r', t')
     \<and> aw_outside (sy_world t') = False"
proof -
  let ?s = "\<lparr>sy_db = sample_credentialed, sy_world = managing []\<rparr>" and ?token = "AgentToken (replicate 32 7)"
  have scope: "al_scope sample_launch = sample_scope" "sc_run_id sample_scope = RunId 1" "sc_session_id sample_scope = SessionId 1"
    by (simp_all add: sample_launch_def sample_scope_def)
  obtain db1 where admit: "admit_session_launch sample_scope 9 (ec_supervision sample_config) sample_credentialed = Inr (LaunchAllowed, db1)"
    and rows: "credentials db1 = credentials sample_credentialed" "sessions db1 = [sample_session]"
    using sample_admitted by blast
  obtain db2 where credential: "replace_desired_session_credential (launch_credential sample_supervisor sample_launch ?token) db1 = Inr ((), db2)"
    using rows by (simp add: replace_desired_session_credential_def launch_credential_def sample_launch_def sample_scope_def
        sample_credentialed_def sample_session_def seq_def bind_run count_where_def)
  let ?u = "?s\<lparr>sy_db := db2\<rparr>"
  obtain v where started: "start_provider sample_supervisor sample_harness sample_launch ?token ?u
      = (Inr \<lparr>ld_scope = sample_scope, ld_token = ?token\<rparr>, v)" and v: "aw_outside (sy_world v) = True"
    by (simp add: start_provider_def call_provider_def provide_def outside_def p_act_def p_bind_def p_seq_def
        sample_launch_def launch_specification_def keep_handle_def keep_redactor_def managing_def sample_handle_def scope)
  have begun: "admit_launch sample_supervisor sample_launch ?token 9 ?s = (Inr (ec_supervision sample_config), ?u)"
    using admit credential scope
    by (simp add: admit_launch_def session_config_def run_config_def in_state_def p_store_run p_bind_run p_seq_run
        sample_launch_def del: One_nat_def)
  let ?w = "v\<lparr>sy_world := managing []\<rparr>"
  obtain r' t' where retry: "ensure_existing_launch sample_supervisor sample_harness sample_launch None None 500 ?w = (r', t')"
    by (cases "ensure_existing_launch sample_supervisor sample_harness sample_launch None None 500 ?w")
  have crash: "sy_db ?w = sy_db v \<or> (\<exists>r. finish_launch (sv_env sample_supervisor) sample_launch 9 (ec_supervision sample_config)
      (Inr \<lparr>ld_scope = sample_scope, ld_token = ?token\<rparr>) v = (r, ?w) \<and> (\<forall>err. r = Inl err \<longrightarrow> \<not> safe_to_retry err))"
    by simp
  have "aw_outside (sy_world t') \<in> configured sample_harness (aw_outside (sy_world ?w))"
    using launches_are_never_repeated [OF begun started crash afterwards_now refl retry] by simp
  moreover have "w = False" if "w \<in> configured sample_harness False" for w
    using that by (induction rule: configured.induct) simp_all
  ultimately have "aw_outside (sy_world t') = False" by simp
  with begun started v retry show ?thesis by blast
qed

end
