(* ===== verification/SessionDriving.thy ===== *)
theory SessionDriving
  imports HandlerSamples
begin

section \<open>Driving running sessions (src/src/supervisor/session.rs)\<close>

text \<open>
  After a restart every session that is not known to have ended is classified by what its provider
  can prove. Events of running sessions are applied one by one in bounded batches, and sessions
  past a deadline, or of a run that is stopping, are interrupted, terminated and killed in turn.
\<close>

subsection \<open>Recovered workers\<close>

definition recovery_probe ::
    "'v Supervisor \<Rightarrow> 'w Harness \<Rightarrow> SessionScope \<Rightarrow> SessionRecord \<Rightarrow> AgentRecord \<Rightarrow> string
      \<Rightarrow> ('w, (ProviderError + ProviderRecovery) option) agents" where
  "recovery_probe sv hs s x a provider_id =
     p_seq (configure_provider sv hs (sc_run_id s) (ag_role a))
     (p_bind (provider_look (pv_probe (hs_provider hs))) (\<lambda>probe.
      case probe of
        Inr q \<Rightarrow>
          if pb_name q = se_provider x then
            p_bind (provider_look (\<lambda>w. pv_recover (hs_provider hs) w provider_id s)) (\<lambda>r. p_ret (Some r))
          else p_ret None
      | Inl _ \<Rightarrow> p_ret None))"

definition proves_exit :: "SessionScope \<Rightarrow> string \<Rightarrow> ProviderError + ProviderRecovery \<Rightarrow> bool" where
  "proves_exit s provider_id r =
     (case r of
        Inr (RecoveryObserved h observation) \<Rightarrow>
          ph_scope h = s \<and> ph_provider_id h = provider_id \<and> ob_lifecycle observation = Exited \<and> ob_exit observation \<noteq> None
      | Inr RecoveryLost \<Rightarrow> True
      | Inr RecoveryUnknown \<Rightarrow> False
      | Inl _ \<Rightarrow> False)"

definition verify_recovery ::
    "'v Supervisor \<Rightarrow> 'w Harness \<Rightarrow> SessionScope \<Rightarrow> (string \<Rightarrow> ProviderError + ProviderRecovery \<Rightarrow> bool) \<Rightarrow> ('w, bool) agents" where
  "verify_recovery sv hs s proves =
     p_bind (p_query (\<lambda>db. (find_session db (sc_session_id s), find_agent db (sc_agent_id s)))) (\<lambda>(found, agent).
     case (found, agent) of
       (Some x, Some a) \<Rightarrow>
         (case se_provider_session_id x of
            None \<Rightarrow> p_ret False
          | Some provider_id \<Rightarrow>
              p_bind (recovery_probe sv hs s x a provider_id) (\<lambda>r.
              p_ret (case r of None \<Rightarrow> False | Some q \<Rightarrow> proves provider_id q)))
     | _ \<Rightarrow> p_ret False)"

definition verify_recovery_exit :: "'v Supervisor \<Rightarrow> 'w Harness \<Rightarrow> SessionScope \<Rightarrow> ('w, bool) agents" where
  "verify_recovery_exit sv hs s = verify_recovery sv hs s (proves_exit s)"

definition verify_recovery_absence :: "'v Supervisor \<Rightarrow> 'w Harness \<Rightarrow> SessionScope \<Rightarrow> ('w, bool) agents" where
  "verify_recovery_absence sv hs s = verify_recovery sv hs s (\<lambda>_ r. r = Inr RecoveryLost)"

subsection \<open>Reconciliation after a restart\<close>

definition recover_session ::
    "'v Supervisor \<Rightarrow> 'w Harness \<Rightarrow> run_id \<Rightarrow> SessionRecord \<Rightarrow> string \<Rightarrow> ('w, ProviderError + ProviderRecovery) agents" where
  "recover_session sv hs run x provider_id =
     p_bind (p_query (\<lambda>db. find_agent db (se_agent_id x))) (\<lambda>found.
     case found of
       None \<Rightarrow> p_fail (SessionState (InvalidConfigurationSnapshot run))
     | Some a \<Rightarrow>
         p_seq (configure_provider sv hs run (ag_role a))
         (provider_look (\<lambda>w. pv_recover (hs_provider hs) w provider_id (session_scope x))))"

definition note_unknown :: "'v Supervisor \<Rightarrow> SessionRecord \<Rightarrow> int \<Rightarrow> ('w, unit) agents" where
  "note_unknown sv x at = record_reconciliation (sv_env sv) (session_scope x) RUnknown Unknown at"

definition note_lost :: "'v Supervisor \<Rightarrow> SessionRecord \<Rightarrow> int \<Rightarrow> ('w, unit) agents" where
  "note_lost sv x at = record_reconciliation (sv_env sv) (session_scope x) RLost Lost at"

text \<open>A foreground session is controlled by its wrapper: only the absence of the process is used.\<close>

definition reconcile_foreground :: "'v Supervisor \<Rightarrow> 'w Harness \<Rightarrow> run_id \<Rightarrow> int \<Rightarrow> SessionRecord \<Rightarrow> ('w, unit) agents" where
  "reconcile_foreground sv hs run at x =
     (case se_provider_session_id x of
        None \<Rightarrow> note_unknown sv x at
      | Some provider_id \<Rightarrow>
          p_bind (recover_session sv hs run x provider_id) (\<lambda>r.
          if r = Inr RecoveryLost then note_lost sv x at else note_unknown sv x at))"

definition adopt_session ::
    "'v Supervisor \<Rightarrow> 'w Harness \<Rightarrow> SessionRecord \<Rightarrow> ProviderSessionHandle \<Rightarrow> SessionObservation \<Rightarrow> int \<Rightarrow> ('w, unit) agents" where
  "adopt_session sv hs x h observation at =
     p_seq (keep_handle (se_id x) h)
     (p_seq (record_launch_observation (sv_env sv) (se_id x) at)
     (p_bind (handle_of (se_id x)) (\<lambda>k. record_observation sv hs (ph_scope k) observation at)))"

definition reconcile_background ::
    "'v Supervisor \<Rightarrow> 'w Harness \<Rightarrow> run_id \<Rightarrow> int \<Rightarrow> SessionRecord \<Rightarrow> string \<Rightarrow> ('w, unit) agents" where
  "reconcile_background sv hs run at x provider_id =
     p_bind (recover_session sv hs run x provider_id) (\<lambda>r.
     case r of
       Inr (RecoveryObserved h observation) \<Rightarrow>
         if ph_scope h \<noteq> session_scope x \<or> ph_provider_id h \<noteq> provider_id then note_unknown sv x at
         else
           p_bind (provider_look (pv_probe (hs_provider hs))) (\<lambda>probe.
           if (case probe of Inr q \<Rightarrow> pb_name q = se_provider x | Inl _ \<Rightarrow> False)
           then adopt_session sv hs x h observation at
           else note_unknown sv x at)
     | Inr RecoveryLost \<Rightarrow> note_lost sv x at
     | Inr RecoveryUnknown \<Rightarrow> note_unknown sv x at
     | Inl _ \<Rightarrow> note_unknown sv x at)"

text \<open>A launch that is known not to have started keeps its intent.\<close>

definition reconcile_unobserved :: "'v Supervisor \<Rightarrow> SessionRecord \<Rightarrow> int \<Rightarrow> ('w, unit) agents" where
  "reconcile_unobserved sv x at =
     p_bind (p_query (\<lambda>db. se_reconciliation_state x = RDesired \<and> session_launch_is_retryable db (session_scope x))) (\<lambda>retryable.
     if retryable then p_ret () else note_unknown sv x at)"

definition reconcile_session ::
    "'v Supervisor \<Rightarrow> 'w Harness \<Rightarrow> run_id \<Rightarrow> int \<Rightarrow> bool \<Rightarrow> SessionRecord \<Rightarrow> ('w, unit) agents" where
  "reconcile_session sv hs run at unknown_only x =
     (if is_terminal (se_state x) \<or> unknown_only \<and> se_reconciliation_state x \<noteq> RUnknown then p_ret ()
      else
        p_bind (p_query (\<lambda>db. session_scope_is_current db (session_scope x))) (\<lambda>current.
        if \<not> current then p_ret ()
        else if se_process_owner x = ForegroundOwned then reconcile_foreground sv hs run at x
        else case se_provider_session_id x of
            None \<Rightarrow> reconcile_unobserved sv x at
          | Some provider_id \<Rightarrow> reconcile_background sv hs run at x provider_id))"

definition reconcile_sessions :: "'v Supervisor \<Rightarrow> 'w Harness \<Rightarrow> run_id \<Rightarrow> int \<Rightarrow> bool \<Rightarrow> ('w, unit) agents" where
  "reconcile_sessions sv hs run at unknown_only =
     p_bind (p_query (\<lambda>db. sessions_of_run db run)) (\<lambda>xs. p_each (reconcile_session sv hs run at unknown_only) xs)"

definition reconcile_sessions_after_restart :: "'v Supervisor \<Rightarrow> 'w Harness \<Rightarrow> run_id \<Rightarrow> int \<Rightarrow> ('w, unit) agents" where
  "reconcile_sessions_after_restart sv hs run at = reconcile_sessions sv hs run at False"

definition reconcile_unknown_sessions :: "'v Supervisor \<Rightarrow> 'w Harness \<Rightarrow> run_id \<Rightarrow> int \<Rightarrow> ('w, unit) agents" where
  "reconcile_unknown_sessions sv hs run at = reconcile_sessions sv hs run at True"

subsection \<open>Events\<close>

definition apply_event ::
    "'v Supervisor \<Rightarrow> 'w Harness \<Rightarrow> session_id \<Rightarrow> ProviderSessionHandle \<Rightarrow> ProviderEventKind \<Rightarrow> int \<Rightarrow> ('w, unit) agents" where
  "apply_event sv hs i h kind at =
     (case kind of
        Observation observation \<Rightarrow> record_observation sv hs (ph_scope h) observation at
      | ProviderOutput bytes \<Rightarrow> append_transcript sv hs i bytes
      | MalformedOutput bytes diagnostic observation \<Rightarrow>
          p_seq (append_transcript sv hs i bytes) (record_observation sv hs (ph_scope h) observation at))"

definition advance :: "'v Supervisor \<Rightarrow> 'w Harness \<Rightarrow> session_id \<Rightarrow> int \<Rightarrow> ('w, ProviderEvent option) agents" where
  "advance sv hs i at =
     p_bind (handle_of i) (\<lambda>h.
     p_bind (p_query (\<lambda>db. session_scope_is_current db (ph_scope h))) (\<lambda>current.
     if \<not> current then p_ret None
     else
       p_bind (provide (pv_next_event (hs_provider hs) h)) (\<lambda>found.
       case found of
         None \<Rightarrow> p_ret None
       | Some event \<Rightarrow> p_seq (apply_event sv hs i h (pe_kind event) at) (p_ret (Some event)))))"

text \<open>
  One round over all sessions, and rounds until one makes no progress. The argument \<open>room\<close> is the
  number of events that may still be applied; a round that exhausts it ends the loop.
\<close>

fun advance_round ::
    "'v Supervisor \<Rightarrow> 'w Harness \<Rightarrow> int \<Rightarrow> session_id list \<Rightarrow> nat \<Rightarrow> ('w, nat \<times> bool) agents" where
  "advance_round sv hs at [] room = p_ret (room, False)"
| "advance_round sv hs at (i # rest) room =
     (if room = 0 then p_ret (0, True)
      else p_bind (advance sv hs i at) (\<lambda>event.
        advance_round sv hs at rest (if event = None then room else room - 1)))"

function advance_rounds ::
    "'v Supervisor \<Rightarrow> 'w Harness \<Rightarrow> int \<Rightarrow> session_id list \<Rightarrow> nat \<Rightarrow> 'w Agents sys \<Rightarrow> (AgentSessionError + nat) \<times> 'w Agents sys" where
  "advance_rounds sv hs at ids room s =
     (case advance_round sv hs at ids room s of
        (Inl err, t) \<Rightarrow> (Inl err, t)
      | (Inr (left, full), t) \<Rightarrow>
          if full then (Inr left, t)
          else if left < room then advance_rounds sv hs at ids left t
          else (Inr left, t))"
  by pat_completeness auto
termination
  by (relation "measure (\<lambda>(sv, hs, at, ids, room, s). room)") auto

declare advance_rounds.simps [simp del]

definition managed_sessions :: "run_id \<Rightarrow> 'w Agents \<Rightarrow> session_id list" where
  "managed_sessions run w = map fst (filter (\<lambda>(i, h). sc_run_id (ph_scope h) = run) (aw_sessions w))"

definition advance_available :: "'v Supervisor \<Rightarrow> 'w Harness \<Rightarrow> run_id \<Rightarrow> int \<Rightarrow> nat \<Rightarrow> ('w, nat) agents" where
  "advance_available sv hs run at maximum =
     p_seq (reconcile_unknown_sessions sv hs run at)
     (p_bind (p_look (\<lambda>w. Inr (managed_sessions run w))) (\<lambda>ids.
      p_bind (advance_rounds sv hs at ids maximum) (\<lambda>left. p_ret (maximum - left))))"

subsection \<open>Deadlines\<close>

definition warning_due :: "SupervisionPolicy \<Rightarrow> SessionRecord \<Rightarrow> int \<Rightarrow> bool" where
  "warning_due policy x elapsed \<longleftrightarrow>
     se_process_owner x = SupervisorOwned \<and> se_state x = Running
     \<and> sat_sub (job_timeout_seconds policy) (job_warning_window (job_timeout_seconds policy)) \<le> elapsed
     \<and> elapsed < job_timeout_seconds policy"

definition control_reason :: "SupervisionPolicy \<Rightarrow> bool \<Rightarrow> SessionRecord \<Rightarrow> int \<Rightarrow> ControlReason option" where
  "control_reason policy stopping x elapsed =
     (if stopping then Some Shutdown
      else if (se_state x = Starting \<or> se_provider_session_id x = None) \<and> startup_timeout_seconds policy \<le> elapsed
        then Some StartupTimeout
      else if se_process_owner x = SupervisorOwned \<and> job_timeout_seconds policy \<le> elapsed then Some ExecutionTimeout
      else None)"

definition control_times :: "SupervisionPolicy \<Rightarrow> RunShutdown option \<Rightarrow> int \<Rightarrow> int \<times> int \<times> int" where
  "control_times policy shutdown now_ms =
     (case shutdown of
        None \<Rightarrow> (now_ms, interrupt_grace_ms policy, shutdown_timeout_ms policy)
      | Some d \<Rightarrow> (rs_requested_at_ms d, rs_interrupt_until_ms d - rs_requested_at_ms d,
          rs_deadline_ms d - rs_requested_at_ms d))"

definition request_control ::
    "Env \<Rightarrow> SupervisionPolicy \<Rightarrow> RunShutdown option \<Rightarrow> run_id \<Rightarrow> int \<Rightarrow> SessionRecord \<Rightarrow> unit repo" where
  "request_control e policy shutdown run now_ms x =
     (let s = (session_scope x)\<lparr>sc_run_id := run\<rparr>;
          elapsed = sat_sub (quot_i64 now_ms 1000) (se_created_at x) in
      if is_terminal (se_state x) then ret ()
      else
        seq (if shutdown = None \<and> warning_due policy x elapsed
             then warn_job_deadline e s (sat_add (se_created_at x) (job_timeout_seconds policy)) now_ms else ret ())
        (case control_reason policy (shutdown \<noteq> None) x elapsed of
           None \<Rightarrow> ret ()
         | Some reason \<Rightarrow>
             (case control_times policy shutdown now_ms of (requested_at, grace, timeout) \<Rightarrow>
                request_session_control e s reason requested_at grace timeout)))"

definition request_controls :: "Env \<Rightarrow> SupervisionPolicy \<Rightarrow> run_id \<Rightarrow> int \<Rightarrow> unit repo" where
  "request_controls e policy run now_ms =
     bind (gets (\<lambda>db. (find_run_shutdown db run, sessions_of_run db run))) (\<lambda>(shutdown, xs).
     for_each (request_control e policy shutdown run now_ms) xs)"

text \<open>The order of the phases, in which a control only moves upwards.\<close>

fun phase_rank :: "ControlPhase \<Rightarrow> nat" where
  "phase_rank Interrupt = 0"
| "phase_rank Terminate = 1"
| "phase_rank Kill = 2"
| "phase_rank ControlTimedOut = 3"
| "phase_rank ControlCompleted = 4"

definition due_phase :: "SessionControl \<Rightarrow> SessionRecord \<Rightarrow> int \<Rightarrow> ControlPhase" where
  "due_phase c x now_ms =
     (if is_terminal (se_state x) then ControlCompleted
      else if sn_deadline_ms c \<le> now_ms then ControlTimedOut
      else if sn_kill_at_ms c \<le> now_ms then Kill
      else if sn_interrupt_until_ms c \<le> now_ms then Terminate
      else Interrupt)"

definition next_phase :: "SessionControl \<Rightarrow> SessionRecord \<Rightarrow> int \<Rightarrow> ControlPhase" where
  "next_phase c x now_ms =
     (let due = due_phase c x now_ms in if phase_rank (sn_phase c) \<le> phase_rank due then due else sn_phase c)"

definition signal ::
    "'w Harness \<Rightarrow> ControlPhase \<Rightarrow> ProviderSessionHandle \<Rightarrow> 'w \<Rightarrow> (ProviderError + SessionObservation) \<times> 'w" where
  "signal hs phase h =
     (case phase of
        Interrupt \<Rightarrow> pv_interrupt (hs_provider hs) h
      | Terminate \<Rightarrow> pv_terminate (hs_provider hs) h
      | _ \<Rightarrow> pv_kill (hs_provider hs) h)"

definition deliver_control ::
    "'v Supervisor \<Rightarrow> 'w Harness \<Rightarrow> SessionControl \<Rightarrow> ProviderSessionHandle \<Rightarrow> int \<Rightarrow> ('w, unit) agents" where
  "deliver_control sv hs c h now_ms =
     p_bind (p_attempt (p_act (outside (signal hs (sn_phase c) h)))) (\<lambda>r.
     case r of
       Inl (_ :: ProviderError) \<Rightarrow> p_ret ()
     | Inr observation \<Rightarrow>
         p_seq (record_observation sv hs (ph_scope h) observation (quot_i64 now_ms 1000))
               (in_state (mark_control_delivered c)))"

definition escalate :: "Env \<Rightarrow> SessionControl \<Rightarrow> ControlPhase \<Rightarrow> int \<Rightarrow> ('w, SessionControl) agents" where
  "escalate e c phase now_ms =
     (if phase = sn_phase c then p_ret c
      else p_seq (in_state (set_control_phase e c phase now_ms)) (p_ret (c\<lparr>sn_phase := phase, sn_delivered := False\<rparr>)))"

definition drive_control :: "'v Supervisor \<Rightarrow> 'w Harness \<Rightarrow> int \<Rightarrow> SessionControl \<Rightarrow> ('w, unit) agents" where
  "drive_control sv hs now_ms c =
     p_bind (p_query (\<lambda>db. if session_scope_is_current db (sn_scope c) then find_session db (sc_session_id (sn_scope c)) else None))
     (\<lambda>found.
      case found of
        None \<Rightarrow> p_ret ()
      | Some x \<Rightarrow>
          p_bind (escalate (sv_env sv) c (next_phase c x now_ms) now_ms) (\<lambda>d.
          if sn_delivered d \<or> sn_phase d \<in> {ControlCompleted, ControlTimedOut} \<or> se_process_owner x = ForegroundOwned
          then p_ret ()
          else
            p_bind (p_look (\<lambda>w. Inr (map_of (aw_sessions w) (se_id x)))) (\<lambda>handle.
            case handle of
              None \<Rightarrow> p_ret ()
            | Some h \<Rightarrow> if ph_scope h = sn_scope c then deliver_control sv hs d h now_ms else p_ret ())))"

definition drive_controls :: "'v Supervisor \<Rightarrow> 'w Harness \<Rightarrow> run_id \<Rightarrow> int \<Rightarrow> ('w, unit) agents" where
  "drive_controls sv hs run now_ms =
     p_bind (session_config sv run) (\<lambda>c.
     p_seq (in_state (request_controls (sv_env sv) (ec_supervision c) run now_ms))
     (p_bind (p_query (\<lambda>db. session_controls_of_run db run)) (\<lambda>cs. p_each (drive_control sv hs now_ms) cs)))"

subsection \<open>Direct control\<close>

definition control_session :: "'v Supervisor \<Rightarrow> 'w Harness \<Rightarrow> ControlPhase \<Rightarrow> session_id \<Rightarrow> int \<Rightarrow> ('w, SessionObservation) agents" where
  "control_session sv hs phase i at =
     p_bind (handle_of i) (\<lambda>h.
     p_bind (p_query (\<lambda>db. session_scope_is_current db (ph_scope h))) (\<lambda>current.
     if \<not> current then p_fail (IntentMismatch i)
     else
       p_bind (provide (signal hs phase h)) (\<lambda>observation.
       p_seq (record_observation sv hs (ph_scope h) observation at) (p_ret observation))))"

definition interrupt_session :: "'v Supervisor \<Rightarrow> 'w Harness \<Rightarrow> session_id \<Rightarrow> int \<Rightarrow> ('w, SessionObservation) agents" where
  "interrupt_session sv hs i at = control_session sv hs Interrupt i at"

definition terminate_session :: "'v Supervisor \<Rightarrow> 'w Harness \<Rightarrow> session_id \<Rightarrow> int \<Rightarrow> ('w, SessionObservation) agents" where
  "terminate_session sv hs i at = control_session sv hs Terminate i at"

subsection \<open>Everything is written by committed transactions\<close>

lemma committing_notes [committing_intros]:
  "committing (sv_env sv) (note_unknown sv x at)" "committing (sv_env sv) (note_lost sv x at)"
  unfolding note_unknown_def note_lost_def by (intro committing_intros)+

lemma committing_recover [committing_intros]: "committing e (recover_session sv hs run x p)"
  unfolding recover_session_def by (intro committing_intros)

lemma committing_probe [committing_intros]: "committing e (recovery_probe sv hs s x a p)"
  unfolding recovery_probe_def by (intro committing_intros)

lemma committing_verify_recovery [committing_intros]: "committing e (verify_recovery sv hs s proves)"
  unfolding verify_recovery_def by (intro committing_intros)

lemma committing_verify [committing_intros]:
  "committing e (verify_recovery_exit sv hs s)" "committing e (verify_recovery_absence sv hs s)"
  unfolding verify_recovery_exit_def verify_recovery_absence_def by (intro committing_intros)+

lemma committing_reconcile_session [committing_intros]:
  "committing (sv_env sv) (reconcile_session sv hs run at unknown_only x)"
proof -
  have adopt: "committing (sv_env sv) (adopt_session sv hs x h observation at)" for h observation
    unfolding adopt_session_def by (intro committing_intros)
  have background: "committing (sv_env sv) (reconcile_background sv hs run at x p)" for p
    unfolding reconcile_background_def
    by (intro committing_intros) (auto intro!: committing_intros adopt split: ProviderRecovery.split sum.split)
  show ?thesis
    unfolding reconcile_session_def reconcile_foreground_def reconcile_unobserved_def
    by (intro committing_intros background)
qed

lemma committing_advance [committing_intros]: "committing (sv_env sv) (advance sv hs i at)"
  unfolding advance_def apply_event_def
  by (intro committing_intros) (auto intro!: committing_intros split: ProviderEventKind.split)

lemma committing_advance_round [committing_intros]: "committing (sv_env sv) (advance_round sv hs at ids room)"
  by (induction ids arbitrary: room) (auto intro!: committing_intros)

lemma committing_advance_rounds [committing_intros]: "committing (sv_env sv) (advance_rounds sv hs at ids room)"
  unfolding committing_def
proof
  fix s
  show "commits (sv_env sv) (sy_db s) (sy_db (snd (advance_rounds sv hs at ids room s)))"
  proof (induction sv hs at ids room s rule: advance_rounds.induct)
    case (1 sv hs at ids room s)
    obtain r u where round: "advance_round sv hs at ids room s = (r, u)" by (cases "advance_round sv hs at ids room s")
    note first = committingD [OF committing_advance_round round]
    show ?case
    proof (cases r)
      case (Inl err)
      with round first show ?thesis by (subst advance_rounds.simps) simp
    next
      case (Inr out)
      obtain left full where out: "out = (left, full)" by (cases out)
      show ?thesis
      proof (cases "\<not> full \<and> left < room")
        case True
        then have "commits (sv_env sv) (sy_db u) (sy_db (snd (advance_rounds sv hs at ids left u)))"
          using 1 [OF round [symmetric] Inr out [symmetric]] by blast
        from commits_trans [OF first this] True round Inr out show ?thesis by (subst advance_rounds.simps) simp
      next
        case False
        with round first Inr out show ?thesis by (subst advance_rounds.simps) auto
      qed
    qed
  qed
qed

lemma committing_driving [committing_intros]:
  "committing (sv_env sv) (reconcile_sessions sv hs run at unknown_only)"
  "committing (sv_env sv) (advance_available sv hs run at maximum)"
  "committing (sv_env sv) (drive_control sv hs now_ms c)" "committing (sv_env sv) (drive_controls sv hs run now_ms)"
proof -
  show all: "committing (sv_env sv) (reconcile_sessions sv hs run at unknown_only)" for unknown_only
    unfolding reconcile_sessions_def by (intro committing_intros)
  show "committing (sv_env sv) (advance_available sv hs run at maximum)"
    unfolding advance_available_def reconcile_unknown_sessions_def by (intro committing_intros all)
  have deliver: "committing (sv_env sv) (deliver_control sv hs d h now_ms)" for d h
    unfolding deliver_control_def by (intro committing_intros scripted_intros)
  have escalates: "committing (sv_env sv) (escalate (sv_env sv) d phase now_ms)" for d phase
    unfolding escalate_def by (intro committing_intros scripted_intros)
  show drive: "committing (sv_env sv) (drive_control sv hs now_ms c)" for c
    unfolding drive_control_def by (intro committing_intros escalates deliver)
  show "committing (sv_env sv) (drive_controls sv hs run now_ms)"
    unfolding drive_controls_def request_controls_def request_control_def Let_def
    by (intro committing_intros scripted_intros drive)
qed

subsection \<open>Superseded sessions\<close>

lemma stale_records:
  assumes "\<not> session_scope_is_current db s"
  shows "record_session_reconciliation_state s state at db = Inr (SStale, db)"
    "record_session_lifecycle s lifecycle at db = Inr (SStale, db)"
    "record_session_launch_observation s p at db = Inr (SStale, db)"
    "record_session_failure e s at policy db = Inr (False, db)"
  using assms
  by (auto simp: record_session_reconciliation_state_def record_session_lifecycle_def
      record_session_launch_observation_def record_session_failure_def split: option.splits)

lemma stale_notes:
  assumes "\<not> session_scope_is_current db s"
  shows "note_reconciliation e s actor x state at db = Inr ((), db)"
    "note_lifecycle e s actor x lifecycle exit at db = Inr ((), db)"
    "record_reconciliation_in e s state lifecycle at db = Inr ((), db)"
proof -
  show r: "note_reconciliation e s actor x state at db = Inr ((), db)" for actor x state
    using assms by (simp add: note_reconciliation_def bind_run stale_records)
  show l: "note_lifecycle e s actor x lifecycle exit at db = Inr ((), db)" for actor x lifecycle exit
    using assms by (simp add: note_lifecycle_def bind_run stale_records)
  show "record_reconciliation_in e s state lifecycle at db = Inr ((), db)"
    by (simp add: record_reconciliation_in_def seq_def bind_run r l split: option.split)
qed

lemma stale_observation_in:
  assumes "\<not> session_scope_is_current db s" "record_observation_in sv s observation at db = Inr (u, db')"
  shows "db' = db"
proof (cases "find_session db (sc_session_id s)")
  case None
  with assms(2) show ?thesis by (simp add: record_observation_in_def)
next
  case (Some x)
  then obtain lifecycle db1 where settled: "settled_lifecycle sv s x observation at db = Inr (lifecycle, db1)"
    and rest: "seq (note_reconciliation (sv_env sv) s ''provider'' x (reconciled_state lifecycle) at)
             (note_lifecycle (sv_env sv) s ''provider'' x lifecycle
               (Some (case ob_exit observation of None \<Rightarrow> JNull | Some q \<Rightarrow> exit_json q)) at) db1 = Inr (u, db')"
    using assms(2) by (auto simp: record_observation_in_def bind_Inr_iff)
  have "db1 = db"
    using settled assms(1)
    by (auto simp: settled_lifecycle_def bind_Inr_iff stale_records lift_result_def split: if_splits sum.splits)
  with rest assms(1) show ?thesis by (simp add: seq_def bind_run stale_notes)
qed

lemma flush_db [simp]: "sy_db (snd (flush_transcript hs i s)) = sy_db s"
  by (simp add: flush_transcript_def p_bind_def p_act_def append_file_def p_ret_def split: prod.splits sum.splits)

lemma p_seq_db:
  assumes "\<And>a t. p s = (a, t) \<Longrightarrow> sy_db t = d" "\<And>t. p s = (Inr (), t) \<Longrightarrow> sy_db (snd (q t)) = sy_db t"
  shows "sy_db (snd (p_seq p q s)) = d"
proof -
  obtain a t where run: "p s = (a, t)" by (cases "p s")
  show ?thesis
  proof (cases a)
    case (Inl err)
    with run assms(1) show ?thesis by (simp add: p_seq_run)
  next
    case (Inr u)
    with run assms show ?thesis by (simp add: p_seq_run)
  qed
qed

lemma stale_observation:
  assumes "\<not> session_scope_is_current (sy_db s) scope"
  shows "sy_db (snd (record_observation sv hs scope observation at s)) = sy_db s"
  unfolding record_observation_def
proof (rule p_seq_db)
  fix a t assume "in_state (record_observation_in sv scope observation at) s = (a, t)"
  then show "sy_db t = sy_db s"
    using stale_observation_in [OF assms] by (cases a) (auto simp: in_state_def p_store_Inr p_store_Inl)
qed simp

text \<open>
  Property C13. A superseded session changes nothing any more. Once a newer generation has replaced
  it, its events are not taken from the provider, it cannot be interrupted or terminated, its
  pending controls send no signal, reconciliation skips it, and an observation that is still
  reported for it leaves the database as it is.
\<close>

theorem superseded_sessions_change_nothing:
  assumes stale: "\<not> session_scope_is_current (sy_db s) (ph_scope h)"
    and handle: "map_of (aw_sessions (sy_world s)) i = Some h"
  shows "advance sv hs i at s = (Inr None, s)
    \<and> control_session sv hs phase i at s = (Inl (IntentMismatch i), s)
    \<and> record_launch_observation (sv_env sv) i at s = (Inr (), s)
    \<and> sy_db (snd (record_observation sv hs (ph_scope h) observation at s)) = sy_db s
    \<and> record_reconciliation (sv_env sv) (ph_scope h) state lifecycle at s = (Inr (), s)
    \<and> (sn_scope c = ph_scope h \<longrightarrow> drive_control sv hs now_ms c s = (Inr (), s))
    \<and> (session_scope x = ph_scope h \<longrightarrow> reconcile_session sv hs run at unknown_only x s = (Inr (), s))"
proof (intro conjI impI)
  have h: "handle_of i s = (Inr h, s)" using handle by (simp add: handle_of_def)
  show "advance sv hs i at s = (Inr None, s)" "control_session sv hs phase i at s = (Inl (IntentMismatch i), s)"
    using stale h by (simp_all add: advance_def control_session_def p_bind_run)
  show "record_launch_observation (sv_env sv) i at s = (Inr (), s)"
    using stale h
    by (simp add: record_launch_observation_def p_bind_run in_state_def p_store_def record_launch_observation_in_def
        transaction_def bind_run stale_records split: option.split)
  show "sy_db (snd (record_observation sv hs (ph_scope h) observation at s)) = sy_db s"
    using stale by (rule stale_observation)
  show "record_reconciliation (sv_env sv) (ph_scope h) state lifecycle at s = (Inr (), s)"
    using stale by (simp add: record_reconciliation_def in_state_def p_store_def transaction_def stale_notes)
  show "drive_control sv hs now_ms c s = (Inr (), s)" if "sn_scope c = ph_scope h"
    using stale that by (simp add: drive_control_def)
  show "reconcile_session sv hs run at unknown_only x s = (Inr (), s)" if "session_scope x = ph_scope h"
    using stale that by (simp add: reconcile_session_def)
qed


theorem superseded_sessions_change_nothing_witness:
  "let s = \<lparr>sy_db = sample_superseded, sy_world = managing [(SessionId 1, sample_handle)]\<rparr>
   in \<not> session_scope_is_current sample_superseded (ph_scope sample_handle)
     \<and> control_session sample_supervisor sample_harness Interrupt (SessionId 1) 9 s = (Inl (IntentMismatch (SessionId 1)), s)
     \<and> sy_db (snd (record_observation sample_supervisor sample_harness (ph_scope sample_handle) interrupted_observation 9 s))
         = sample_superseded"
proof -
  let ?s = "\<lparr>sy_db = sample_superseded, sy_world = managing [(SessionId 1, sample_handle)]\<rparr>"
  have stale: "\<not> session_scope_is_current (sy_db ?s) (ph_scope sample_handle)"
    using sample_scope_superseded by (simp add: sample_handle_def)
  have handle: "map_of (aw_sessions (sy_world ?s)) (SessionId 1) = Some sample_handle" by simp
  note result = superseded_sessions_change_nothing [OF stale handle, where sv = sample_supervisor and hs = sample_harness]
  from stale have "\<not> session_scope_is_current sample_superseded (ph_scope sample_handle)" by simp
  moreover have "control_session sample_supervisor sample_harness Interrupt (SessionId 1) 9 ?s
      = (Inl (IntentMismatch (SessionId 1)), ?s)"
    by (rule result [THEN conjunct2, THEN conjunct1])
  moreover have "sy_db (snd (record_observation sample_supervisor sample_harness (ph_scope sample_handle)
      interrupted_observation 9 ?s)) = sample_superseded"
    using result [THEN conjunct2, THEN conjunct2, THEN conjunct2, THEN conjunct1] by simp
  ultimately show ?thesis unfolding Let_def by (intro conjI)
qed

subsection \<open>Signals\<close>

lemma outside_same [simp]:
  "aw_outside (sy_world (snd (in_state m s))) = aw_outside (sy_world s)"
  "aw_sessions (sy_world (snd (in_state m s))) = aw_sessions (sy_world s)"
  by (simp_all add: in_state_def)

lemma append_outside:
  "append_file hs i bytes s = (r, t) \<Longrightarrow> aw_outside (sy_world t) = snd (hs_append hs i bytes (aw_outside (sy_world s)))"
  by (auto simp: append_file_def p_act_def outside_def split: prod.splits)

lemma flush_outside:
  assumes "flush_transcript hs i s = (r, t)"
  shows "aw_outside (sy_world t) \<in> insert (aw_outside (sy_world s))
    (range (\<lambda>bytes. snd (hs_append hs i bytes (aw_outside (sy_world s)))))"
proof (cases "Option.bind (aw_redactors (sy_world s) i) finish")
  case None
  with assms have "t = s"
    by (cases "aw_redactors (sy_world s) i") (auto simp: flush_transcript_def p_bind_def p_act_def)
  then show ?thesis by simp
next
  case (Some found)
  then obtain red tail red' where red: "aw_redactors (sy_world s) i = Some red" "finish red = Some (tail, red')"
    by (cases "aw_redactors (sy_world s) i"; cases found) auto
  let ?u = "s\<lparr>sy_world := (sy_world s)\<lparr>aw_redactors := (aw_redactors (sy_world s))(i := Some red')\<rparr>\<rparr>"
  have "(if tail = [] then p_ret () else append_file hs i tail) ?u = (r, t)"
    using assms red by (simp add: flush_transcript_def p_bind_def p_act_def)
  with append_outside [of hs i tail ?u r t] show ?thesis by (auto split: if_splits)
qed

lemma observation_outside:
  assumes "record_observation sv hs scope observation at s = (r, t)"
  shows "aw_outside (sy_world t) \<in> insert (aw_outside (sy_world s))
    (range (\<lambda>bytes. snd (hs_append hs (sc_session_id scope) bytes (aw_outside (sy_world s)))))"
proof -
  obtain a u where first: "in_state (record_observation_in sv scope observation at) s = (a, u)"
    by (cases "in_state (record_observation_in sv scope observation at) s")
  have same: "aw_outside (sy_world u) = aw_outside (sy_world s)"
    using outside_same(1) [of "record_observation_in sv scope observation at" s] first by simp
  show ?thesis
  proof (cases a)
    case (Inl err)
    with assms first same show ?thesis by (simp add: record_observation_def p_seq_run)
  next
    case (Inr v)
    with assms first have "(if is_terminal (ob_lifecycle observation) then flush_transcript hs (sc_session_id scope) else p_ret ()) u = (r, t)"
      by (simp add: record_observation_def p_seq_run)
    with flush_outside [of hs "sc_session_id scope" u r t] same show ?thesis by (auto split: if_splits)
  qed
qed

lemma deliver_outside:
  assumes "deliver_control sv hs c h now_ms s = (r, t)"
  obtains out w where "signal hs (sn_phase c) h (aw_outside (sy_world s)) = (out, w)"
    "aw_outside (sy_world t) \<in> insert w (range (\<lambda>bytes. snd (hs_append hs (sc_session_id (ph_scope h)) bytes w)))"
proof -
  obtain out w where sig: "signal hs (sn_phase c) h (aw_outside (sy_world s)) = (out, w)"
    by (cases "signal hs (sn_phase c) h (aw_outside (sy_world s))")
  let ?u = "s\<lparr>sy_world := (sy_world s)\<lparr>aw_outside := w\<rparr>\<rparr>"
  have act: "p_act (outside (signal hs (sn_phase c) h)) s = (out, ?u)"
    using sig by (simp add: p_act_def outside_def)
  show ?thesis
  proof (cases out)
    case (Inl err)
    with assms act have "t = ?u" by (simp add: deliver_control_def)
    then show ?thesis by (intro that [OF sig]) simp
  next
    case (Inr observation)
    with assms act have rest: "p_seq (record_observation sv hs (ph_scope h) observation (quot_i64 now_ms 1000))
        (in_state (mark_control_delivered c)) ?u = (r, t)" by (simp add: deliver_control_def)
    obtain a v where recorded: "record_observation sv hs (ph_scope h) observation (quot_i64 now_ms 1000) ?u = (a, v)"
      by (cases "record_observation sv hs (ph_scope h) observation (quot_i64 now_ms 1000) ?u")
    have "aw_outside (sy_world t) = aw_outside (sy_world v)"
    proof (cases a)
      case (Inl err)
      with rest recorded show ?thesis by (simp add: p_seq_run)
    next
      case (Inr u)
      with rest recorded have "in_state (mark_control_delivered c) v = (r, t)" by (simp add: p_seq_run)
      then show ?thesis using outside_same(1) [of "mark_control_delivered c" v] by simp
    qed
    with observation_outside [OF recorded] show ?thesis by (intro that [OF sig]) simp
  qed
qed

lemma escalate_run:
  assumes "escalate e c phase now_ms s = (Inr d, t)"
  shows "sn_scope d = sn_scope c \<and> sn_phase d = phase \<and> sn_delivered d = (sn_delivered c \<and> phase = sn_phase c)
    \<and> sy_world t = sy_world s"
  using assms
  by (cases "phase = sn_phase c") (auto simp: escalate_def p_seq_Inr in_state_def p_store_Inr)

lemma next_phase_rank: "phase_rank (sn_phase c) \<le> phase_rank (next_phase c x now_ms)"
  and next_phase_due: "next_phase c x now_ms = sn_phase c \<or> next_phase c x now_ms = due_phase c x now_ms"
  and next_phase_least: "phase_rank (due_phase c x now_ms) \<le> phase_rank (next_phase c x now_ms)"
  by (simp_all add: next_phase_def Let_def)

lemma phase_rank_inj: "phase_rank p = phase_rank q \<longleftrightarrow> p = q"
  by (cases p; cases q) simp_all

lemma deliver_records:
  assumes "deliver_control sv hs c h now_ms s = (r, t)" "signal hs (sn_phase c) h (aw_outside (sy_world s)) = (out, w)"
  shows "(\<exists>observation. out = Inr observation) \<and> r = Inr () \<and> session_scope_is_current (sy_db t) (sn_scope c) \<longrightarrow>
      (\<forall>k \<in> set (session_controls (sy_db t)). sc_session_id (sn_scope k) = sc_session_id (sn_scope c)
         \<and> sn_phase k = sn_phase c \<longrightarrow> sn_delivered k)"
    "(\<exists>err. out = Inl err) \<longrightarrow> r = Inr () \<and> sy_db t = sy_db s"
proof -
  let ?u = "s\<lparr>sy_world := (sy_world s)\<lparr>aw_outside := w\<rparr>\<rparr>"
  have act: "p_act (outside (signal hs (sn_phase c) h)) s = (out, ?u)"
    using assms(2) by (simp add: p_act_def outside_def)
  show "(\<exists>err. out = Inl err) \<longrightarrow> r = Inr () \<and> sy_db t = sy_db s"
    using assms(1) act by (auto simp: deliver_control_def)
  show "(\<exists>observation. out = Inr observation) \<and> r = Inr () \<and> session_scope_is_current (sy_db t) (sn_scope c) \<longrightarrow>
      (\<forall>k \<in> set (session_controls (sy_db t)). sc_session_id (sn_scope k) = sc_session_id (sn_scope c)
         \<and> sn_phase k = sn_phase c \<longrightarrow> sn_delivered k)"
  proof (intro impI ballI, elim conjE exE)
    fix observation k assume out: "out = Inr observation" and r: "r = Inr ()"
      and current: "session_scope_is_current (sy_db t) (sn_scope c)"
      and k: "k \<in> set (session_controls (sy_db t))" "sc_session_id (sn_scope k) = sc_session_id (sn_scope c)" "sn_phase k = sn_phase c"
    from assms(1) act out r obtain v where "in_state (mark_control_delivered c) v = (Inr (), t)"
      by (auto simp: deliver_control_def p_seq_Inr)
    then obtain db where mark: "mark_control_delivered c (sy_db v) = Inr ((), db)" and t: "sy_db t = db"
      by (auto simp: in_state_def p_store_Inr)
    have kept: "session_scope_is_current (session_controls_update f d) (sn_scope c) = session_scope_is_current d (sn_scope c)" for f d
      by (simp add: session_scope_is_current_def session_recovered_def)
    have "session_scope_is_current (sy_db v) (sn_scope c)"
      using mark current kept by (auto simp: mark_control_delivered_def action_Inr t split: if_splits)
    then show "sn_delivered k" using mark k by (auto simp: mark_control_delivered_def action_Inr t set_update_where split: if_splits)
  qed
qed

lemma escalate_controls:
  assumes "escalate e c phase now_ms s = (Inr d, t)" "k \<in> set (session_controls (sy_db t))" "sn_delivered k"
  shows "k \<in> set (session_controls (sy_db s))"
proof (cases "phase = sn_phase c")
  case True
  with assms show ?thesis by (simp add: escalate_def)
next
  case False
  with assms(1) obtain db where set: "set_control_phase e c phase now_ms (sy_db s) = Inr ((), db)" and t: "sy_db t = db"
    by (auto simp: escalate_def p_seq_Inr in_state_def p_store_Inr)
  have ev: "session_controls d' = session_controls d" if "supervision_event e r k' x a i j m n d = Inr ((), d')"
    for r k' x a i j m n d d' using that by (auto simp: supervision_event_def action_Inr dest!: append_event_db(1))
  from set assms(2,3) show ?thesis
    by (auto simp: set_control_phase_def Let_def action_Inr t set_update_where dest!: ev split: if_splits)
qed

text \<open>
  Property C14. Signals are sent in order and only to the process they are meant for. When
  driving a control touches the outside world at all, it has sent exactly the signal of the phase
  that is now due: the session is the current one of its agent, has not ended, is owned by the
  supervisor and managed under the very scope of the control; the deadline has not passed; the
  phase is not before the last one recorded, and is after it when the signal of that phase was recorded as
  delivered; and a process is killed only when its time to be killed has come or it is being killed
  already. A signal the provider accepted is recorded as delivered when the call
  succeeds and the session is still the current one; a signal the provider refused stays pending
  and marks nothing as delivered, so that it is sent again.
\<close>

theorem signals_escalate_in_order:
  assumes run: "drive_control sv hs now_ms c s = (r, t)"
    and touched: "aw_outside (sy_world t) \<noteq> aw_outside (sy_world s)"
  shows "\<exists>x h out w. find_session (sy_db s) (sc_session_id (sn_scope c)) = Some x
    \<and> session_scope_is_current (sy_db s) (sn_scope c) \<and> \<not> is_terminal (se_state x) \<and> se_process_owner x = SupervisorOwned
    \<and> map_of (aw_sessions (sy_world s)) (se_id x) = Some h \<and> ph_scope h = sn_scope c \<and> now_ms < sn_deadline_ms c
    \<and> signal hs (next_phase c x now_ms) h (aw_outside (sy_world s)) = (out, w)
    \<and> aw_outside (sy_world t) \<in> insert w (range (\<lambda>bytes. snd (hs_append hs (sc_session_id (sn_scope c)) bytes w)))
    \<and> next_phase c x now_ms \<in> {Interrupt, Terminate, Kill}
    \<and> phase_rank (sn_phase c) + (if sn_delivered c then 1 else 0) \<le> phase_rank (next_phase c x now_ms)
    \<and> (next_phase c x now_ms = Kill \<longrightarrow> sn_kill_at_ms c \<le> now_ms \<or> sn_phase c = Kill)
    \<and> ((\<exists>observation. out = Inr observation) \<and> r = Inr () \<and> session_scope_is_current (sy_db t) (sn_scope c) \<longrightarrow>
         (\<forall>k \<in> set (session_controls (sy_db t)). sc_session_id (sn_scope k) = sc_session_id (sn_scope c)
            \<and> sn_phase k = next_phase c x now_ms \<longrightarrow> sn_delivered k))
    \<and> ((\<exists>err. out = Inl err) \<longrightarrow> r = Inr ()
         \<and> (\<forall>k \<in> set (session_controls (sy_db t)). sn_delivered k \<longrightarrow> k \<in> set (session_controls (sy_db s))))"
proof -
  have cur: "session_scope_is_current (sy_db s) (sn_scope c)"
    using run touched by (auto simp: drive_control_def split: if_splits)
  with run touched obtain x where x: "find_session (sy_db s) (sc_session_id (sn_scope c)) = Some x"
    by (auto simp: drive_control_def split: option.splits)
  let ?phase = "next_phase c x now_ms"
  obtain e u where esc: "escalate (sv_env sv) c ?phase now_ms s = (e, u)"
    by (cases "escalate (sv_env sv) c ?phase now_ms s")
  have same: "aw_outside (sy_world u) = aw_outside (sy_world s)"
    using esc
    by (cases "?phase = sn_phase c") (auto simp: escalate_def p_seq_def p_bind_def in_state_def p_store_def split: prod.splits sum.splits)
  obtain d where d: "e = Inr d"
    using run touched esc same x cur by (cases e) (auto simp: drive_control_def p_bind_run)
  from escalate_run [OF esc [unfolded d]] have world: "sy_world u = sy_world s" and
    scope: "sn_scope d = sn_scope c" and phase: "sn_phase d = ?phase"
    and delivered: "sn_delivered d = (sn_delivered c \<and> ?phase = sn_phase c)" by auto
  have rest: "(if sn_delivered d \<or> sn_phase d \<in> {ControlCompleted, ControlTimedOut} \<or> se_process_owner x = ForegroundOwned
          then p_ret ()
          else
            p_bind (p_look (\<lambda>w. Inr (map_of (aw_sessions w) (se_id x)))) (\<lambda>handle.
            case handle of
              None \<Rightarrow> p_ret ()
            | Some h \<Rightarrow> if ph_scope h = sn_scope c then deliver_control sv hs d h now_ms else p_ret ())) u = (r, t)"
    using run esc d x cur by (simp add: drive_control_def p_bind_run)
  have quiet: "\<not> sn_delivered d" "sn_phase d \<notin> {ControlCompleted, ControlTimedOut}" "se_process_owner x \<noteq> ForegroundOwned"
    using rest touched same by (auto split: if_splits)
  from rest quiet touched same obtain h where h: "map_of (aw_sessions (sy_world u)) (se_id x) = Some h" "ph_scope h = sn_scope c"
    and deliver: "deliver_control sv hs d h now_ms u = (r, t)"
    by (auto split: option.splits if_splits)
  obtain out w where sig: "signal hs ?phase h (aw_outside (sy_world s)) = (out, w)"
    "aw_outside (sy_world t) \<in> insert w (range (\<lambda>bytes. snd (hs_append hs (sc_session_id (sn_scope c)) bytes w)))"
    using deliver_outside [OF deliver] phase h(2) world by metis
  have live: "?phase \<in> {Interrupt, Terminate, Kill}" using quiet(2) phase by (cases ?phase) auto
  then have early: "phase_rank ?phase \<le> 2" by auto
  then have due: "phase_rank (due_phase c x now_ms) \<le> 2" using next_phase_least [of c x now_ms] by linarith
  have open_: "\<not> is_terminal (se_state x)" "now_ms < sn_deadline_ms c"
    using due by (auto simp: due_phase_def split: if_splits)
  have owner: "se_process_owner x = SupervisorOwned" using quiet(3) by (cases "se_process_owner x") auto
  have "sn_delivered c \<longrightarrow> ?phase \<noteq> sn_phase c" using delivered quiet(1) by simp
  then have rank: "phase_rank (sn_phase c) + (if sn_delivered c then 1 else 0) \<le> phase_rank ?phase"
    using next_phase_rank [of c x now_ms] phase_rank_inj [of "sn_phase c" ?phase] by (cases "sn_delivered c") auto
  have recorded: "((\<exists>observation. out = Inr observation) \<and> r = Inr () \<and> session_scope_is_current (sy_db t) (sn_scope c) \<longrightarrow>
         (\<forall>k \<in> set (session_controls (sy_db t)). sc_session_id (sn_scope k) = sc_session_id (sn_scope c)
            \<and> sn_phase k = ?phase \<longrightarrow> sn_delivered k))"
    and pending: "(\<exists>err. out = Inl err) \<longrightarrow> r = Inr ()
         \<and> (\<forall>k \<in> set (session_controls (sy_db t)). sn_delivered k \<longrightarrow> k \<in> set (session_controls (sy_db s)))"
    using deliver_records [OF deliver, of out w] sig(1) phase scope world escalate_controls [OF esc [unfolded d]] by auto
  have kill: "?phase = Kill \<longrightarrow> sn_kill_at_ms c \<le> now_ms \<or> sn_phase c = Kill"
    using next_phase_due [of c x now_ms] by (auto simp: due_phase_def split: if_splits)
  show ?thesis
    using x cur open_ owner h(1) h(2) world sig live rank kill recorded pending by (intro exI [of _ x] exI [of _ h] exI [of _ out] exI [of _ w]) simp
qed

definition sample_control :: SessionControl where
  "sample_control = new_control sample_scope Shutdown 1000 5000 10000"

theorem signals_escalate_in_order_witness:
  "\<exists>r t. drive_control sample_supervisor sample_harness 2000 sample_control
       \<lparr>sy_db = sample_db, sy_world = managing [(SessionId 1, sample_handle)]\<rparr> = (r, t)
     \<and> aw_outside (sy_world t) = True \<and> next_phase sample_control sample_session 2000 = Interrupt
     \<and> (\<exists>x h. find_session sample_db (SessionId 1) = Some x \<and> map_of [(SessionId 1, sample_handle)] (se_id x) = Some h
          \<and> ph_scope h = sample_scope)"
proof -
  let ?s = "\<lparr>sy_db = sample_db, sy_world = managing [(SessionId 1, sample_handle)]\<rparr>"
  have scope: "sn_scope sample_control = sample_scope" "sc_session_id sample_scope = SessionId 1"
    by (simp_all add: sample_control_def new_control_def sample_scope_def)
  have x: "find_session sample_db (SessionId 1) = Some sample_session" "se_id sample_session = SessionId 1"
    "se_process_owner sample_session = SupervisorOwned"
    by (simp_all add: find_session_def sample_session_def)
  have phase: "next_phase sample_control sample_session 2000 = Interrupt" "sn_phase sample_control = Interrupt"
    "\<not> sn_delivered sample_control"
    by (simp_all add: next_phase_def due_phase_def sample_control_def new_control_def sample_session_def
        sat_add_def clamp_i64_def i64_max_def i64_min_def quot_i64_def is_terminal_def)
  obtain r t where delivered: "deliver_control sample_supervisor sample_harness sample_control sample_handle 2000 ?s = (r, t)"
    by (cases "deliver_control sample_supervisor sample_harness sample_control sample_handle 2000 ?s")
  have run: "drive_control sample_supervisor sample_harness 2000 sample_control ?s = (r, t)"
    using delivered scope x phase sample_scope_current
    by (simp add: drive_control_def escalate_def sample_handle_def del: One_nat_def)
  obtain out w where "signal sample_harness (sn_phase sample_control) sample_handle (aw_outside (sy_world ?s)) = (out, w)"
    "aw_outside (sy_world t) \<in> insert w (range (\<lambda>bytes. snd (hs_append sample_harness (sc_session_id (ph_scope sample_handle)) bytes w)))"
    by (rule deliver_outside [OF delivered])
  with phase(2) have touched: "aw_outside (sy_world t) = True" by (auto simp: signal_def)
  then have "aw_outside (sy_world t) \<noteq> aw_outside (sy_world ?s)" by simp
  from signals_escalate_in_order [OF run this] obtain x h where
    "find_session (sy_db ?s) (sc_session_id (sn_scope sample_control)) = Some x"
    "map_of (aw_sessions (sy_world ?s)) (se_id x) = Some h" "ph_scope h = sn_scope sample_control"
    by (elim exE conjE) (rule that)
  then have "find_session sample_db (SessionId 1) = Some x" "map_of [(SessionId 1, sample_handle)] (se_id x) = Some h"
    "ph_scope h = sample_scope" unfolding scope by (simp_all del: One_nat_def)
  then show ?thesis using run touched phase(1) by blast
qed

subsection \<open>Batches of events\<close>

lemma advance_round_left:
  "advance_round sv hs at ids room s = (Inr (left, full), t) \<Longrightarrow> left \<le> room \<and> (full \<longrightarrow> left = 0)"
proof (induction ids arbitrary: room s)
  case Nil
  then show ?case by simp
next
  case (Cons i ids)
  show ?case
  proof (cases "room = 0")
    case True
    with Cons.prems show ?thesis by simp
  next
    case False
    with Cons.prems obtain event :: "ProviderEvent option" and u where
      "advance_round sv hs at ids (if event = None then room else room - 1) u = (Inr (left, full), t)"
      by (auto simp: p_bind_Inr)
    from Cons.IH [OF this] show ?thesis by (auto split: if_splits)
  qed
qed

lemma advance_rounds_left:
  "advance_rounds sv hs at ids room s = (Inr left, t) \<Longrightarrow> left \<le> room
    \<and> (0 < left \<longrightarrow> (\<exists>u. advance_round sv hs at ids left u = (Inr (left, False), t)))"
proof (induction sv hs at ids room s rule: advance_rounds.induct)
  case (1 sv hs at ids room s)
  note step = advance_rounds.simps [of sv hs at ids room s]
  obtain r u where first: "advance_round sv hs at ids room s = (r, u)" by (cases "advance_round sv hs at ids room s")
  obtain l full where "r = Inr (l, full)"
    using "1.prems" unfolding step first by (cases r) auto
  with first have round: "advance_round sv hs at ids room s = (Inr (l, full), u)" by simp
  note bound = advance_round_left [OF round]
  show ?case
  proof (cases "\<not> full \<and> l < room")
    case True
    with "1.prems" have again: "advance_rounds sv hs at ids l u = (Inr left, t)"
      unfolding step round by simp
    from True have "left \<le> l \<and> (0 < left \<longrightarrow> (\<exists>u. advance_round sv hs at ids left u = (Inr (left, False), t)))"
      using "1.IH" [OF round [symmetric] refl refl _ _ again] by blast
    with bound show ?thesis by auto
  next
    case False
    with "1.prems" have "left = l" "t = u" unfolding step round by (cases full, auto)+
    with False round bound show ?thesis by (cases full) auto
  qed
qed

text \<open>
  Draining events always ends, whatever the provider does, and takes at most as many
  events as it was allowed. When it returns fewer, a last round over all managed sessions found
  that none of them had an event left.
\<close>

lemma event_batches_are_bounded:
  assumes "advance_available sv hs run at maximum s = (Inr n, t)"
  shows "n \<le> maximum
    \<and> (n < maximum \<longrightarrow> (\<exists>ids u. advance_round sv hs at ids (maximum - n) u = (Inr (maximum - n, False), t)
         \<and> (\<exists>v. ids = managed_sessions run (sy_world v) \<and> reconcile_unknown_sessions sv hs run at s = (Inr (), v))))"
proof -
  from assms obtain v left where first: "reconcile_unknown_sessions sv hs run at s = (Inr (), v)"
    and rounds: "advance_rounds sv hs at (managed_sessions run (sy_world v)) maximum v = (Inr left, t)"
    and n: "n = maximum - left"
    by (auto simp: advance_available_def p_seq_Inr p_bind_Inr)
  from advance_rounds_left [OF rounds] n first show ?thesis by (cases "left = 0") auto
qed

end
