(* ===== verification/Admission.thy ===== *)
theory Admission
  imports Responses HandlerSamples
begin

section \<open>Admission of agents (src/src/supervisor/admission.rs)\<close>

text \<open>
  The limits of a run as budgets: how much is used, what remains, what releases it and which layer
  of the configuration set the limit. Launches are refused on an exhausted budget, and callers with
  spawn authority can look at the budgets in a view of bounded size.
\<close>

subsection \<open>Budgets (src/src/protocol/admission.rs)\<close>

datatype CapacityRelease = AgentTerminal | RollingMinute | NeverReleased

record PolicySource =
  po_layer :: ConfigLayer
  po_field :: TextPreview

record AdmissionBudget =
  bu_used :: nat
  bu_limit :: "nat option"
  bu_remaining :: "nat option"
  bu_exhausted :: bool
  bu_released_by :: CapacityRelease
  bu_source :: "PolicySource option"

record RoleAdmission =
  ra_role :: TextPreview
  ra_enabled :: bool
  ra_enabled_source :: "PolicySource option"
  ra_active_instances :: AdmissionBudget

record AdmissionView =
  av_observed_at :: int
  av_concurrent_agents :: AdmissionBudget
  av_agents_per_run :: AdmissionBudget
  av_spawns_per_minute :: AdmissionBudget
  av_roles :: "RoleAdmission list"
  av_omitted_roles :: nat
  av_warning :: "string option"
  av_guidance :: string

fun release_text :: "CapacityRelease \<Rightarrow> string" where
  "release_text AgentTerminal = ''agent_terminal''"
| "release_text RollingMinute = ''rolling_minute''"
| "release_text NeverReleased = ''never''"

definition policy_source_json :: "PolicySource \<Rightarrow> json" where
  "policy_source_json x = JObj [(''layer'', JStr (layer_text (po_layer x))), (''field'', preview_json (po_field x))]"

definition budget_json :: "AdmissionBudget \<Rightarrow> json" where
  "budget_json b = JObj
     [(''used'', nat_json (bu_used b)), (''limit'', json_opt nat_json (bu_limit b)),
      (''remaining'', json_opt nat_json (bu_remaining b)), (''exhausted'', JBool (bu_exhausted b)),
      (''released_by'', JStr (release_text (bu_released_by b))),
      (''source'', json_opt policy_source_json (bu_source b))]"

definition role_admission_json :: "RoleAdmission \<Rightarrow> json" where
  "role_admission_json r = JObj
     [(''role'', preview_json (ra_role r)), (''enabled'', JBool (ra_enabled r)),
      (''enabled_source'', json_opt policy_source_json (ra_enabled_source r)),
      (''active_instances'', budget_json (ra_active_instances r))]"

definition admission_view_json :: "AdmissionView \<Rightarrow> json" where
  "admission_view_json v = JObj
     [(''observed_at'', JInt (av_observed_at v)), (''concurrent_agents'', budget_json (av_concurrent_agents v)),
      (''agents_per_run'', budget_json (av_agents_per_run v)),
      (''spawns_per_minute'', budget_json (av_spawns_per_minute v)),
      (''roles'', JArr (map role_admission_json (av_roles v))),
      (''omitted_roles'', nat_json (av_omitted_roles v)), (''warning'', json_opt JStr (av_warning v)),
      (''guidance'', JStr (av_guidance v))]"

subsection \<open>Computing the budgets\<close>

definition GUIDANCE :: string where
  "GUIDANCE = ''Worker exit releases active concurrency and role slots, never lifetime admissions. Spawn rate slots expire after the rolling minute. Recovery itself admits no agent; each fresh continuation or review spawn consumes another lifetime and rate slot. Inspect prime.admission before recovery or review. If authority is missing, ask an authorized coordinator or the operator. An exhausted lifetime budget requires the operator to preserve work, stop the run, and start a new run with suitable trusted policy, carrying retained work through explicit review, integration, validation, and acceptance. Editing configuration cannot increase an active snapshot.''"

definition policy_source :: "EffectiveConfig \<Rightarrow> string \<Rightarrow> PolicySource option" where
  "policy_source c name =
     map_option (\<lambda>v. \<lparr>po_layer = cs_layer (vp_source v), po_field = text_preview (cs_field (vp_source v))\<rparr>)
       (map_of (ec_provenance c) name)"

definition budget :: "EffectiveConfig \<Rightarrow> string \<Rightarrow> nat \<Rightarrow> nat option \<Rightarrow> CapacityRelease \<Rightarrow> AdmissionBudget" where
  "budget c name used limit released_by =
     \<lparr>bu_used = used, bu_limit = limit, bu_remaining = map_option (\<lambda>n. n - used) limit,
      bu_exhausted = (case limit of None \<Rightarrow> False | Some n \<Rightarrow> n \<le> used),
      bu_released_by = released_by, bu_source = policy_source c name\<rparr>"

definition live_agents :: "AgentRecord list \<Rightarrow> AgentRecord list" where
  "live_agents rows = filter (\<lambda>a. \<not> is_terminal (ag_state a)) rows"

definition role_field :: "string \<Rightarrow> string \<Rightarrow> string" where
  "role_field role_name name = ''roles.'' @ role_name @ ''.'' @ name"

text \<open>Indexing the roles of the configuration with an unknown name panics.\<close>

definition role_budget :: "EffectiveConfig \<Rightarrow> AgentRecord list \<Rightarrow> string \<Rightarrow> AdmissionBudget option" where
  "role_budget c rows role_name =
     map_option (\<lambda>r. budget c (role_field role_name ''max_instances'')
        (length (filter (\<lambda>a. ag_role a = role_name) (live_agents rows))) (er_max_instances r) AgentTerminal)
       (map_of (ec_roles c) role_name)"

definition lifetime_warning :: "nat \<Rightarrow> string" where
  "lifetime_warning n =
     ''Only '' @ show_nat n @ '' lifetime admission(s) remain. Reserve budget for fresh recovery continuations and reviews; worker exit does not restore it. ''
     @ GUIDANCE"

definition admission_view :: "EffectiveConfig \<Rightarrow> AgentRecord list \<Rightarrow> nat \<Rightarrow> int \<Rightarrow> AdmissionView" where
  "admission_view c rows recent now =
     (let lifetime = budget c ''limits.max_agents_per_run'' (length rows)
            (Some (max_agents_per_run (ec_limits c))) NeverReleased in
      \<lparr>av_observed_at = now,
       av_concurrent_agents = budget c ''limits.max_concurrent_agents'' (length (live_agents rows))
         (Some (max_concurrent_agents (ec_limits c))) AgentTerminal,
       av_agents_per_run = lifetime,
       av_spawns_per_minute = budget c ''limits.max_spawns_per_minute'' recent
         (Some (max_spawns_per_minute (ec_limits c))) RollingMinute,
       av_roles = [], av_omitted_roles = 0,
       av_warning = (case bu_remaining lifetime of None \<Rightarrow> None
         | Some n \<Rightarrow> if n \<le> 2 then Some (lifetime_warning n) else None),
       av_guidance = GUIDANCE\<rparr>)"

definition counters :: "'w Supervisor \<Rightarrow> int \<Rightarrow> ('w, EffectiveConfig \<times> AgentRecord list \<times> AdmissionView) handler" where
  "counters sv now =
     p_bind (saved_configuration sv) (\<lambda>c.
     p_bind (p_query (\<lambda>db. (agents_of_run db (sv_run sv), recent_spawns db (sv_run sv) now))) (\<lambda>(rows, recent).
     p_ret (c, rows, admission_view c rows recent now)))"

definition release_advice :: "CapacityRelease \<Rightarrow> string" where
  "release_advice r =
     (case r of
        AgentTerminal \<Rightarrow> ''Wait for a recorded terminal agent state; unknown states still consume active slots.''
      | RollingMinute \<Rightarrow>
          ''Retry after explicit spawns leave the rolling 60-second window; worker exit does not release these slots.''
      | NeverReleased \<Rightarrow> GUIDANCE)"

definition exhausted_failure :: "'w Supervisor \<Rightarrow> string \<Rightarrow> AdmissionBudget \<Rightarrow> HandlerError" where
  "exhausted_failure sv name b =
     (case bu_limit b of
        None \<Rightarrow> Unwinds
      | Some limit \<Rightarrow> Refused (rpc_failure (sv_env sv) Conflict
          (''admission limit `'' @ name @ ''` exhausted: used '' @ show_nat (bu_used b) @ '', ceiling '' @ show_nat limit
           @ '', source ''
           @ (case bu_source b of None \<Rightarrow> ''unknown historical source''
              | Some x \<Rightarrow> layer_text (po_layer x) @ '':'' @ tp_text (po_field x))
           @ ''. '' @ release_advice (bu_released_by b))))"

definition within :: "'w Supervisor \<Rightarrow> string \<Rightarrow> AdmissionBudget \<Rightarrow> ('w, unit) handler" where
  "within sv name b = (if bu_exhausted b then p_fail (exhausted_failure sv name b) else p_ret ())"

subsection \<open>The view\<close>

definition MAXIMUM_VIEW_ROLES :: nat where "MAXIMUM_VIEW_ROLES = 16"
definition MAXIMUM_VIEW_BYTES :: nat where "MAXIMUM_VIEW_BYTES = 32 * 1024"

definition view_too_large :: "library \<Rightarrow> AdmissionView \<Rightarrow> bool" where
  "view_too_large lib v \<longleftrightarrow> MAXIMUM_VIEW_BYTES < length (json_bytes lib (admission_view_json v))"

definition omit_role :: "AdmissionView \<Rightarrow> AdmissionView" where
  "omit_role v = v\<lparr>av_omitted_roles := av_omitted_roles v + 1\<rparr>"

definition show_role :: "library \<Rightarrow> RoleAdmission \<Rightarrow> AdmissionView \<Rightarrow> AdmissionView" where
  "show_role lib r v =
     (let shown = v\<lparr>av_roles := av_roles v @ [r]\<rparr> in
      if view_too_large lib shown then omit_role v else shown)"

definition role_admission :: "EffectiveConfig \<Rightarrow> AgentRecord list \<Rightarrow> string \<Rightarrow> RoleAdmission option" where
  "role_admission c rows name =
     Option.bind (map_of (ec_roles c) name) (\<lambda>r.
     Option.bind (role_budget c rows name) (\<lambda>b.
     Some \<lparr>ra_role = text_preview name, ra_enabled = er_enabled r,
           ra_enabled_source = policy_source c (role_field name ''enabled''), ra_active_instances = b\<rparr>))"

text \<open>The flag tells whether the caller may spawn any role at all.\<close>

fun view_roles ::
    "library \<Rightarrow> EffectiveConfig \<Rightarrow> AgentRecord list \<Rightarrow> (string \<Rightarrow> bool) \<Rightarrow> RoleDefinition name_map
      \<Rightarrow> bool \<Rightarrow> AdmissionView \<Rightarrow> (bool \<times> AdmissionView) option" where
  "view_roles lib c rows may [] authorized v = Some (authorized, v)"
| "view_roles lib c rows may ((name, d) # rest) authorized v =
     (if \<not> may name then view_roles lib c rows may rest authorized v
      else if rl_mode d \<noteq> Job then view_roles lib c rows may rest True v
      else if length (av_roles v) = MAXIMUM_VIEW_ROLES then view_roles lib c rows may rest True (omit_role v)
      else (case role_admission c rows name of
              None \<Rightarrow> None
            | Some r \<Rightarrow> view_roles lib c rows may rest True (show_role lib r v)))"

function trim_view :: "library \<Rightarrow> AdmissionView \<Rightarrow> AdmissionView option" where
  "trim_view lib v =
     (if \<not> view_too_large lib v then Some v
      else if av_roles v = [] then None
      else trim_view lib (omit_role (v\<lparr>av_roles := butlast (av_roles v)\<rparr>)))"
  by pat_completeness auto
termination
  by (relation "measure (\<lambda>(lib, v). length (av_roles v))") (auto simp: omit_role_def)

declare trim_view.simps [simp del]

definition may_spawn :: "EffectiveConfig \<Rightarrow> string option \<Rightarrow> string \<Rightarrow> bool" where
  "may_spawn c caller_role target \<longleftrightarrow>
     (case caller_role of
        None \<Rightarrow> True
      | Some r \<Rightarrow> authorize (ec_archetype c) r \<lparr>namespace = ''spawn'', action = target\<rparr> = Allowed)"

definition finish_view :: "'w Supervisor \<Rightarrow> bool \<Rightarrow> AdmissionView \<Rightarrow> ('w, AdmissionView option) handler" where
  "finish_view sv authorized v =
     (case trim_view (sv_library sv) v of
        None \<Rightarrow> refuse sv Internal ''fixed admission metadata exceeds its byte budget''
      | Some w \<Rightarrow> p_ret (if authorized then Some w else None))"

definition view :: "'w Supervisor \<Rightarrow> AuthenticatedCaller \<Rightarrow> ('w, AdmissionView option) handler" where
  "view sv caller =
     p_seq (require_current_caller sv caller)
     (p_bind (rpc_timestamp sv) (\<lambda>now.
      p_bind (counters sv now) (\<lambda>(c, rows, v).
      p_bind (case caller_agent caller of None \<Rightarrow> p_ret None
          | Some a \<Rightarrow> p_bind (agent_record sv a) (\<lambda>x. p_ret (Some (ag_role x)))) (\<lambda>caller_role.
      case view_roles (sv_library sv) c rows (may_spawn c caller_role) (ar_roles (ec_archetype c)) False v of
        None \<Rightarrow> p_fail Unwinds
      | Some (authorized, w) \<Rightarrow> finish_view sv authorized w))))"

subsection \<open>Looking changes nothing\<close>

lemma reading_admission [reading_intros]:
  "reading (counters sv now)" "reading (within sv name b)" "reading (finish_view sv authorized v)" "reading (view sv caller)"
proof -
  show "reading (within sv name b)" unfolding within_def by (intro reading_intros)
  show f: "reading (finish_view sv authorized v)" for authorized v unfolding finish_view_def by (intro reading_intros)
  show c: "reading (counters sv now)" for now
    unfolding counters_def case_prod_unfold by (intro reading_intros)
  show "reading (view sv caller)"
    unfolding view_def case_prod_unfold by (intro reading_intros c f)
qed

lemmas committing_admission [committing_intros] = reading_admission [THEN reading_committing]

subsection \<open>The view is small\<close>

lemma trim_view_small: "trim_view lib v = Some w \<Longrightarrow> \<not> view_too_large lib w \<and> length (av_roles w) \<le> length (av_roles v)"
proof (induction lib v rule: trim_view.induct)
  case (1 lib v)
  show ?case
  proof (cases "\<not> view_too_large lib v \<or> av_roles v = []")
    case True
    with "1.prems" show ?thesis by (subst (asm) trim_view.simps) (auto split: if_splits)
  next
    case False
    with "1.prems" have "trim_view lib (omit_role (v\<lparr>av_roles := butlast (av_roles v)\<rparr>)) = Some w"
      by (subst (asm) trim_view.simps) simp
    with "1.IH" False show ?thesis by (auto simp: omit_role_def)
  qed
qed

lemma view_roles_few:
  "view_roles lib c rows may ds authorized v = Some (b, w) \<Longrightarrow> length (av_roles v) \<le> MAXIMUM_VIEW_ROLES
    \<Longrightarrow> length (av_roles w) \<le> MAXIMUM_VIEW_ROLES"
  by (induction lib c rows may ds authorized v rule: view_roles.induct)
    (auto simp: omit_role_def show_role_def Let_def split: if_splits option.splits)

lemma view_roles_authorized:
  "view_roles lib c rows may ds authorized v = Some (b, w) \<Longrightarrow> b \<longleftrightarrow> authorized \<or> (\<exists>name \<in> fst ` set ds. may name)"
  by (induction lib c rows may ds authorized v rule: view_roles.induct)
    (auto split: if_splits option.splits)

lemma saved_configuration_Inr:
  "saved_configuration sv s = (Inr c, t) \<longleftrightarrow>
     configuration (sv_library sv) (sv_decode sv) (sv_snapshots sv) (sv_run sv) = Inr c \<and> t = s"
  by (cases "configuration (sv_library sv) (sv_decode sv) (sv_snapshots sv) (sv_run sv)")
    (auto simp: saved_configuration_def)

lemma counters_Inr: "counters sv now s = (Inr (c, rows, v), t) \<longleftrightarrow>
    configuration (sv_library sv) (sv_decode sv) (sv_snapshots sv) (sv_run sv) = Inr c \<and> t = s
    \<and> rows = agents_of_run (sy_db s) (sv_run sv)
    \<and> v = admission_view c rows (recent_spawns (sy_db s) (sv_run sv) now) now"
  by (auto simp: counters_def p_bind_Inr saved_configuration_Inr)

lemma admission_view_roles [simp]: "av_roles (admission_view c rows recent now) = []"
  by (simp add: admission_view_def Let_def)

lemma finish_view_small:
  "finish_view sv authorized w s = (Inr (Some v), t) \<Longrightarrow>
     authorized \<and> \<not> view_too_large (sv_library sv) v \<and> length (av_roles v) \<le> length (av_roles w)"
  using trim_view_small by (fastforce simp: finish_view_def refuse_def split: option.splits if_splits)

text \<open>
  Property C34. The admission view is bounded. Whatever the configuration and the number of roles,
  the view that a caller receives serialises to at most 32 KiB and lists at most sixteen roles,
  reading it changes nothing, and an agent receives one only if it may spawn some role.
\<close>

theorem admission_view_is_bounded:
  assumes "view sv caller s = (Inr (Some v), t)"
  shows "t = s \<and> length (json_bytes (sv_library sv) (admission_view_json v)) \<le> 32768 \<and> length (av_roles v) \<le> 16
    \<and> (\<forall>a. caller_agent caller = Some a \<longrightarrow>
         (\<exists>x c target. find_agent (sy_db s) a = Some x \<and> configuration (sv_library sv) (sv_decode sv) (sv_snapshots sv) (sv_run sv) = Inr c
            \<and> may_spawn c (Some (ag_role x)) target))"
proof -
  from assms obtain now c rows v0 u asker u' authorized w where
    counted: "counters sv now s = (Inr (c, rows, v0), u)" and
    asker: "(case caller_agent caller of None \<Rightarrow> p_ret None
          | Some a \<Rightarrow> p_bind (agent_record sv a) (\<lambda>x. p_ret (Some (ag_role x)))) u = (Inr asker, u')" and
    roles: "view_roles (sv_library sv) c rows (may_spawn c asker) (ar_roles (ec_archetype c)) False v0 = Some (authorized, w)" and
    finished: "finish_view sv authorized w u' = (Inr (Some v), t)"
    by (auto simp: view_def p_bind_Inr p_seq_Inr dest!: readingD [OF reading_callers(2)] split: option.splits)
       (auto simp: rpc_timestamp_def dest!: readingD [OF reading_callers(2)] split: option.splits)
  have same: "u = s" using readingD [OF reading_admission(1) counted] .
  from counted have none: "av_roles v0 = []"
    and conf: "configuration (sv_library sv) (sv_decode sv) (sv_snapshots sv) (sv_run sv) = Inr c"
    by (auto simp: counters_Inr)
  from finish_view_small [OF finished] have au: authorized and small: "\<not> view_too_large (sv_library sv) v"
    and few: "length (av_roles v) \<le> length (av_roles w)" by auto
  from view_roles_few [OF roles] none few have "length (av_roles v) \<le> 16" by (simp add: MAXIMUM_VIEW_ROLES_def)
  moreover from small have "length (json_bytes (sv_library sv) (admission_view_json v)) \<le> 32768"
    by (simp add: view_too_large_def MAXIMUM_VIEW_BYTES_def)
  moreover from view_roles_authorized [OF roles] au obtain target where target: "may_spawn c asker target" by auto
  have "\<exists>x c target. find_agent (sy_db s) a = Some x
      \<and> configuration (sv_library sv) (sv_decode sv) (sv_snapshots sv) (sv_run sv) = Inr c
      \<and> may_spawn c (Some (ag_role x)) target" if a: "caller_agent caller = Some a" for a
  proof -
    from asker a same obtain x where "find_agent (sy_db s) a = Some x" "asker = Some (ag_role x)"
      by (auto simp: p_bind_Inr agent_record_def no_such_agent_def refuse_def split: option.splits if_splits)
    with conf target show ?thesis by auto
  qed
  ultimately show ?thesis using readingD [OF reading_admission(4) assms] by blast
qed

theorem admission_view_is_bounded_witness:
  "\<exists>v. view sample_supervisor Operator \<lparr>sy_db = sample_db, sy_world = False\<rparr>
       = (Inr (Some v), \<lparr>sy_db = sample_db, sy_world = False\<rparr>)
     \<and> map ra_role (av_roles v) = [text_preview ''worker''] \<and> length (av_roles v) \<le> 16"
proof -
  let ?s = "\<lparr>sy_db = sample_db, sy_world = False\<rparr>"
  have small: "\<not> view_too_large sample_library v" for v by (simp add: view_too_large_def)
  then have trim: "trim_view sample_library v = Some v" for v by (subst trim_view.simps) simp
  let ?rows = "agents_of_run sample_db (RunId 1)"
  let ?v = "admission_view sample_config ?rows (recent_spawns sample_db (RunId 1) 100) 100"
  obtain r where r: "role_admission sample_config ?rows ''worker'' = Some r" "ra_role r = text_preview ''worker''"
    by (simp add: role_admission_def role_budget_def)
  have roles: "view_roles sample_library sample_config ?rows (may_spawn sample_config None)
      (ar_roles (ec_archetype sample_config)) False ?v = Some (True, ?v\<lparr>av_roles := [r]\<rparr>)"
    using r(1) small by (simp add: may_spawn_def MAXIMUM_VIEW_ROLES_def show_role_def Let_def)
  have counted: "counters sample_supervisor 100 ?s = (Inr (sample_config, ?rows, ?v), ?s)"
    unfolding counters_Inr by (simp del: One_nat_def)
  have run: "view sample_supervisor Operator ?s = (Inr (Some (?v\<lparr>av_roles := [r]\<rparr>)), ?s)"
    unfolding view_def require_current_caller_def
    using roles counted trim by (simp add: p_seq_def p_bind_run finish_view_def del: One_nat_def view_roles.simps sample_config_simps)
  have named: "map ra_role (av_roles (?v\<lparr>av_roles := [r]\<rparr>)) = [text_preview ''worker'']" using r(2) by simp
  from admission_view_is_bounded [OF run] have few: "length (av_roles (?v\<lparr>av_roles := [r]\<rparr>)) \<le> 16" by (elim conjE)
  show ?thesis by (intro exI conjI) (rule run named few)+
qed

end
