(* ===== verification/Bootstrap.thy ===== *)
theory Bootstrap
  imports Responses
begin

section \<open>What a launched agent is told (src/src/supervisor.rs, src/src/supervisor/commit_handoff.rs)\<close>

text \<open>
  The bootstrap instruction of an agent: the texts depend on what its role may do, so that an agent
  is told to use an operation only when the archetype grants it. Looking up the permission profile
  of a role that the archetype does not have would panic: the result is \<open>None\<close>.
\<close>

definition NEWLINE :: string where "NEWLINE = [CHR 0x0A]"

subsection \<open>Commit handoffs\<close>

definition requires_handoff :: "string \<Rightarrow> EffectiveConfig \<Rightarrow> bool option" where
  "requires_handoff role_name c =
     (case map_of (ar_roles (ec_archetype c)) role_name of
        None \<Rightarrow> Some False
      | Some r \<Rightarrow>
          if rl_workspace r \<noteq> Worktree then Some False
          else map_option (\<lambda>p. filesystem p \<noteq> FsReadOnly)
            (map_of (ar_permission_profiles (ec_archetype c)) (rl_permission_profile r)))"

definition HANDOFF_WORKER :: string where
  "HANDOFF_WORKER = NEWLINE @ ''Direct worker staging and committing is unsupported under the selected worktree policy because Git metadata is outside the assigned file tree. Use the coordinator-commit handoff in `prime.commit_handoffs`. Establish an available coordinator or operator with separately authorized Git access before editing; otherwise report a blocker. Validate edits, then use an authorized `send` to request a commit with assignment identity, base commit, intended paths, proposed commit message, validation commands and outcomes, and blocked checks. After sending, stop editing and poll `inbox` for confirmation. Check the confirmed full commit ID against HEAD and verify cleanliness before `finish`. Never widen permissions or grant writes to the common Git directory. After recovery, request a commit only in the fresh continuation worktree, never the preserved source.''"

definition HANDOFF_COORDINATOR :: string where
  "HANDOFF_COORDINATOR = NEWLINE @ ''If coordinating a commit handoff from `prime.commit_handoffs`, verify current assignment ownership and review intended paths and validation evidence. Stage and commit only in that assignment's worktree through separately authorized Git access, then send the full commit ID to its worker. A message grants no Git authority; report a blocker if that access is unavailable. Read-only assignments must not acquire write authority through a handoff.''"

definition handoff_bootstrap :: "string \<Rightarrow> EffectiveConfig \<Rightarrow> string option" where
  "handoff_bootstrap role_name c =
     map_option (\<lambda>required. if required then HANDOFF_WORKER else HANDOFF_COORDINATOR) (requires_handoff role_name c)"

record CommitHandoff =
  ch_assignment_id :: assignment_id
  ch_agent_id :: agent_id
  ch_task_id :: task_id
  ch_generation :: int
  ch_workspace_path :: string
  ch_workspace_path_bytes :: string
  ch_owned_reference :: string
  ch_base_commit :: "string option"
  ch_provider :: string
  ch_permission_profile :: PermissionProfile

definition workspace_reference :: "Env \<Rightarrow> WorkspaceRecord \<Rightarrow> string" where
  "workspace_reference e w =
     ''refs/heads/coterie/'' @ run_text e (ws_run_id w) @ ''/'' @ assignment_text e (ws_assignment_id w)"

definition commit_handoff ::
    "Env \<Rightarrow> AgentRecord \<Rightarrow> AssignmentRecord \<Rightarrow> WorkspaceRecord \<Rightarrow> RoleDefinition \<Rightarrow> PermissionProfile \<Rightarrow> CommitHandoff" where
  "commit_handoff e a x w r p =
     \<lparr>ch_assignment_id = as_id x, ch_agent_id = ag_id a, ch_task_id = as_task_id x, ch_generation = as_generation x,
      ch_workspace_path = to_string_lossy (ws_path w), ch_workspace_path_bytes = ws_path w,
      ch_owned_reference = workspace_reference e w, ch_base_commit = ws_base_commit w,
      ch_provider = rl_provider r, ch_permission_profile = p\<rparr>"

definition handoff_of :: "Env \<Rightarrow> EffectiveConfig \<Rightarrow> Db \<Rightarrow> run_id \<Rightarrow> AgentRecord \<Rightarrow> CommitHandoff list option" where
  "handoff_of e c db run a =
     Option.bind (requires_handoff (ag_role a) c) (\<lambda>required.
     if \<not> required then Some []
     else (case active_assignment_for_agent db run (ag_id a) of
        None \<Rightarrow> Some []
      | Some x \<Rightarrow> (case find_workspace db (as_id x) of
            None \<Rightarrow> Some []
          | Some w \<Rightarrow>
              if ws_kind w \<noteq> ''worktree'' then Some []
              else
                Option.bind (map_of (ar_roles (ec_archetype c)) (ag_role a)) (\<lambda>r.
                map_option (\<lambda>p. [commit_handoff e a x w r p])
                  (map_of (ar_permission_profiles (ec_archetype c)) (rl_permission_profile r))))))"

fun handoffs_of :: "Env \<Rightarrow> EffectiveConfig \<Rightarrow> Db \<Rightarrow> run_id \<Rightarrow> AgentRecord list \<Rightarrow> CommitHandoff list option" where
  "handoffs_of e c db run [] = Some []"
| "handoffs_of e c db run (a # rest) =
     Option.bind (handoff_of e c db run a) (\<lambda>xs. map_option (\<lambda>ys. xs @ ys) (handoffs_of e c db run rest))"

definition handoff_summaries :: "'w Supervisor \<Rightarrow> ('w, CommitHandoff list) handler" where
  "handoff_summaries sv =
     p_bind (saved_configuration sv) (\<lambda>c.
     p_bind (p_query (\<lambda>db. handoffs_of (sv_env sv) c db (sv_run sv) (agents_of_run db (sv_run sv)))) (\<lambda>found.
     case found of None \<Rightarrow> p_fail Unwinds | Some xs \<Rightarrow> p_ret xs))"

subsection \<open>The bootstrap instruction\<close>

definition COORDINATING :: string where
  "COORDINATING = NEWLINE @ ''If you are coordinating delegated work, keep coordinating while work remains unless the user pauses it. Carry submitted results through review, integration where needed, validation, and accepted task closure within your granted authority. Submission and provider exit alone are not acceptance.''"

definition POLLING :: string where
  "POLLING = NEWLINE @ ''Call `poll` with no cursor initially, then pass its returned cursor unchanged. It drains progress pages and includes unhandled inbox messages. Repeat while has_more. When prime.notifications is automatic, use wait_seconds=0 after notifications; otherwise use the polling fallback with wait_seconds=5. On a job_deadline_warning, inspect `progress` for remaining time and complete any pending review or commit handoff so the worker can call `finish` before its deadline. An exit does not accept a task. Inspect bounded current tasks with `prime`; fetch full descriptions and results with `task_show`, and full reports or recovery provenance with `assignment_show`. Detail continuations retain revision and next_cursor. For recent raw activity use `logs` with tail=true and limit=4096 when authorized; full transcripts remain available from after=0.''"

definition CONTINUATION :: string where
  "CONTINUATION = NEWLINE @ ''For a recovery continuation, read assignment_show on the source assignment ID in prime.recoveries. Its recovery_handoffs separate the recorded Git snapshot from reported validation_evidence and unfinished_steps with source references. Missing reports or historical snapshots mean unknown. Preserve the source files and index; port selected changes into your own fresh worktree, then validate and submit through the normal commit handoff.''"

definition NO_TASK_READ :: string where
  "NO_TASK_READ = NEWLINE @ ''Your role lacks task:read. Use `poll` with include_progress=false for inbox messages and `prime` for current context. Report monitoring blockers to the user or an authorized coordinator.''"

definition SPAWNING :: string where
  "SPAWNING = NEWLINE @ ''Before spawning a worker or reviewer, or recovering work needing a fresh continuation, inspect prime.admission for remaining lifetime admissions, active slots, spawn rate, and policy sources. Reserve the remaining budget for recovery and review. Worker exit never restores lifetime admissions; an exhausted lifetime ceiling requires the operator to preserve work, stop the run, and start a new run under suitable trusted policy. Inspecting capacity grants no authority and provider exit never accepts a task.''"

definition SUBMIT_RETAINED :: string where
  "SUBMIT_RETAINED = NEWLINE @ ''If another worker exits before finish with a clean retained commit, independently review that exact commit and use task_submit_retained with its full lowercase ID, review source, validation summary, and reason. The current assignment must still own its claim, credentials must be revoked, and a recorded exit plus fresh provider proof is required. HEAD and the owned reference must equal the reviewed commit with a clean, fully inspectable index and worktree and no pending resource operations. You cannot submit your own assignment through this path. This submits the original assignment without a replacement worker; integrate, validate the target, and explicitly close afterward. Dirty work needs task_recover and a fresh continuation after verified exit. Unknown or lost exits require operator inspection, never an inferred exit.''"

definition NO_SUBMIT_RETAINED :: string where
  "NO_SUBMIT_RETAINED = NEWLINE @ ''Your role lacks task:submit-retained. If a worker exits before submission, preserve its work and ask an authorized coordinator or the operator to independently review and submit its exact clean retained commit. Ordinary task_recover requires verified exit and recovery authority, then a fresh worktree continuation. Missing exit evidence requires operator inspection; do not infer exit from process absence.''"

definition RECOVERING :: string where
  "RECOVERING = NEWLINE @ ''When using task_recover, supply report with validation_evidence and unfinished_steps arrays of {text, source} from available messages, logs, or artifacts. Report blocked checks explicitly. Coterie records this context without executing it or treating reported checks as verified acceptance.''"

definition INBOX :: string where
  "INBOX = NEWLINE @ ''Call `poll` at startup, task boundaries, each coordination cycle, and before finishing. It never acknowledges messages. Use `inbox_handled` with their message_ids only after handling a prefix of pending messages; unhandled messages remain in later polls.''"

definition INTEGRATING :: string where
  "INTEGRATING = NEWLINE @ ''After reviewing a submitted Git worktree result, use `workspace_integrate` with assignment_id=<assignment_id>, including for an unchanged read-only review at its base commit. This explicit no-op integration is still required before closure. Then validate the integrated target; a review of an older commit does not establish review of a newer target.''"

definition NO_INTEGRATION :: string where
  "NO_INTEGRATION = NEWLINE @ ''Your role lacks workspace:integrate. If a result needs integration, request it from the user or an authorized coordinator.''"

definition CLOSING :: string where
  "CLOSING = NEWLINE @ ''After the acceptance conditions pass, use `task_close` with task_id=<task_id> and summary=<validation_evidence> to record validated closure.''"

definition NO_CLOSURE :: string where
  "NO_CLOSURE = NEWLINE @ ''Your role lacks task:close. Report validation evidence to the user or an authorized coordinator for accepted closure.''"

definition REPORTING :: string where
  "REPORTING = NEWLINE @ ''Report blockers requiring user action. Check prime.notifications before relying on automatic delivery. When it is automatic, and you have handled current inbox messages and actionable results, you may end your turn while waiting for delegated work. Coterie will queue a fixed notification when new inbox messages or permitted worker lifecycle changes arrive. After verifying a notice against prime.session, call notification_received with its delivery_id and a new operation_id, then poll. Receipt coalesces updates while a notice waits in the provider queue; ordinary reads do not release it. Receipt does not acknowledge messages or resume paused work. This does not waive review, integration, validation, or acceptance. Notifications preserve user pauses and stop instructions; they never grant new authority. When notifications is unavailable, pending_binding, or uncertain, use the polling fallback when authorized and report delivery blockers requiring user action. Do not silently leave actionable delegated results unhandled.''"

definition bootstrap_opening :: "Env \<Rightarrow> run_id \<Rightarrow> string \<Rightarrow> string \<Rightarrow> string" where
  "bootstrap_opening e run role_name instructions =
     ''You are a '' @ role_name @ '' agent for Coterie run '' @ run_text e run
     @ ''. Call the `prime` orchestration tool now for current orchestration context. Follow the repository's AGENTS.md instructions. Before calling `finish` with status completed, validate the work and commit any intended Git worktree changes successfully. Uncommitted changes keep the assignment active; resolve them and retry finish. A clean assignment may finish with no new commit.'' @ NEWLINE @ instructions"

definition role_grants :: "EffectiveConfig \<Rightarrow> string \<Rightarrow> string \<Rightarrow> string \<Rightarrow> bool" where
  "role_grants c role_name ns act \<longleftrightarrow>
     authorize (ec_archetype c) role_name \<lparr>namespace = ns, action = act\<rparr> = Allowed"

definition bootstrap_sections :: "EffectiveConfig \<Rightarrow> string \<Rightarrow> string" where
  "bootstrap_sections c role_name =
     COORDINATING
     @ (if role_grants c role_name ''task'' ''read'' then POLLING @ CONTINUATION else NO_TASK_READ)
     @ (if list_ex (\<lambda>(target, _). role_grants c role_name ''spawn'' target) (ar_roles (ec_archetype c)) then SPAWNING else [])
     @ (if role_grants c role_name ''task'' ''submit-retained'' then SUBMIT_RETAINED else NO_SUBMIT_RETAINED)
     @ (if role_grants c role_name ''task'' ''recover'' then RECOVERING else [])
     @ INBOX
     @ (if role_grants c role_name ''workspace'' ''integrate'' then INTEGRATING else NO_INTEGRATION)
     @ (if role_grants c role_name ''task'' ''close'' then CLOSING else NO_CLOSURE)
     @ REPORTING"

definition bootstrap_instruction :: "Env \<Rightarrow> run_id \<Rightarrow> string \<Rightarrow> EffectiveConfig \<Rightarrow> string option" where
  "bootstrap_instruction e run role_name c =
     map_option (\<lambda>handoff.
       bootstrap_opening e run role_name
         (case Option.bind (map_of (ar_roles (ec_archetype c)) role_name) rl_instructions of None \<Rightarrow> [] | Some t \<Rightarrow> t)
       @ handoff @ bootstrap_sections c role_name)
       (handoff_bootstrap role_name c)"

lemma reading_handoff_summaries [reading_intros]: "reading (handoff_summaries sv)"
  unfolding handoff_summaries_def by (intro reading_intros)

lemmas committing_handoff_summaries [committing_intros] = reading_handoff_summaries [THEN reading_committing]

end
