(* ===== verification/SpawnHandlers.thy ===== *)
theory SpawnHandlers
  imports SessionLaunch SessionDriving Admission Bootstrap
begin

section \<open>Spawning workers (src/src/supervisor.rs)\<close>

text \<open>
  A spawn first records everything it intends in one idempotent mutation: the agent, its claim of
  the task, the workspace and the events. Only then is the workspace created and the provider
  started. What fails afterwards is recorded on the operation, which the reconciler takes up again.
  Requests that use the session supervisor run on its state \<open>'w Agents\<close>; those that do not are
  lifted with \<open>p_outer\<close>.
\<close>

subsection \<open>Requests beside the session supervisor\<close>

type_synonym ('w, 'a) request = "('w Agents, HandlerError, 'a) process"

definition p_outer :: "('w, 'e, 'a) process \<Rightarrow> ('w Agents, 'e, 'a) process" where
  "p_outer p = (\<lambda>s. case p \<lparr>sy_db = sy_db s, sy_world = aw_outside (sy_world s)\<rparr> of
     (r, t) \<Rightarrow> (r, \<lparr>sy_db = sy_db t, sy_world = (sy_world s)\<lparr>aw_outside := sy_world t\<rparr>\<rparr>))"

fun rpc_session_failure :: "AgentSessionError \<Rightarrow> HandlerError" where
  "rpc_session_failure (SessionState err) = rpc_state_failure err"
| "rpc_session_failure (IncompatibleProvider a b c d) =
     Refused \<lparr>rf_code = Unavailable, rf_message = SessionMessage (IncompatibleProvider a b c d)\<rparr>"
| "rpc_session_failure (MissingCapability a b c) =
     Refused \<lparr>rf_code = Unavailable, rf_message = SessionMessage (MissingCapability a b c)\<rparr>"
| "rpc_session_failure (SessionProvider err) =
     Refused \<lparr>rf_code = Unavailable, rf_message = SessionMessage (SessionProvider err)\<rparr>"
| "rpc_session_failure (UnresolvedIntent i state) =
     Refused \<lparr>rf_code = Conflict, rf_message = SessionMessage (UnresolvedIntent i state)\<rparr>"
| "rpc_session_failure (RestartLimited i at) =
     Refused \<lparr>rf_code = Conflict, rf_message = SessionMessage (RestartLimited i at)\<rparr>"
| "rpc_session_failure err = Refused \<lparr>rf_code = Internal, rf_message = SessionMessage err\<rparr>"

definition in_sessions :: "('w, 'a) agents \<Rightarrow> ('w, 'a) request" where
  "in_sessions p = p_error rpc_session_failure p"

text \<open>
  Applying events until there are none. A provider that always has another event would keep this
  loop running: the result is then \<open>None\<close>.
\<close>

partial_function (option) drain_loop ::
    "'v Supervisor \<Rightarrow> 'w Harness \<Rightarrow> session_id \<Rightarrow> int \<Rightarrow> 'w Agents sys \<Rightarrow> ((AgentSessionError + unit) \<times> 'w Agents sys) option" where
  "drain_loop sv hs i at s =
     (case advance sv hs i at s of
        (Inl err, t) \<Rightarrow> Some (Inl err, t)
      | (Inr None, t) \<Rightarrow> Some (Inr (), t)
      | (Inr (Some event), t) \<Rightarrow> drain_loop sv hs i at t)"

definition drain_available_events :: "'v Supervisor \<Rightarrow> 'w Harness \<Rightarrow> session_id \<Rightarrow> int \<Rightarrow> ('w, unit) request" where
  "drain_available_events sv hs i at =
     (\<lambda>s. case drain_loop sv hs i at s of
        None \<Rightarrow> (Inl Diverges, s)
      | Some (r, t) \<Rightarrow> (map_sum rpc_session_failure id r, t))"

subsection \<open>Workspaces of assignments\<close>

record RuntimePaths =
  rp_run_state_directory :: string
  rp_socket_path :: string

fun workspace_policy_name :: "WorkspacePolicy \<Rightarrow> string" where
  "workspace_policy_name ProjectWorkspace = ''project''"
| "workspace_policy_name Worktree = ''worktree''"
| "workspace_policy_name ReadOnlyWorkspace = ''read_only''"

text \<open>\<open>Path::join\<close> with a relative path.\<close>

definition join_path :: "string \<Rightarrow> string \<Rightarrow> string" where
  "join_path base name = (if base = [] \<or> last base = CHR ''/'' then base @ name else base @ ''/'' @ name)"

definition assignment_workspace_path :: "Env \<Rightarrow> string \<Rightarrow> WorkspacePolicy \<Rightarrow> ProjectRecord \<Rightarrow> assignment_id \<Rightarrow> string" where
  "assignment_workspace_path e directory policy p i =
     (if policy = Worktree
      then join_path (join_path (join_path directory ''workspaces'')
        (format_id (env_ulid e) ''cp'' (project_ulid (pj_id p)))) (assignment_text e i)
      else pj_canonical_path p)"

subsection \<open>Checks before a first attempt\<close>

definition spawn_role ::
    "'w Supervisor \<Rightarrow> AuthenticatedCaller \<Rightarrow> string \<Rightarrow> ('w, EffectiveConfig \<times> RoleDefinition \<times> EffectiveRole) handler" where
  "spawn_role sv caller name =
     p_seq (require_capability sv caller ''spawn'' name)
     (p_bind (saved_configuration sv) (\<lambda>c.
      p_bind (convert sv (map_of (ar_roles (ec_archetype c)) name) NotFound (''role `'' @ name @ ''` is not configured'')) (\<lambda>d.
      case map_of (ec_roles c) name of
        None \<Rightarrow> p_fail Unwinds
      | Some r \<Rightarrow>
          p_seq (demand sv (er_enabled r) Conflict (''role `'' @ name @ ''` is disabled by the run configuration''))
          (p_seq (demand sv (rl_mode d = Job) Conflict (''role `'' @ name @ ''` is not a background job role''))
          (p_ret (c, d, r))))))"

definition require_fresh_worktree :: "'w Supervisor \<Rightarrow> string \<Rightarrow> task_id \<Rightarrow> ('w, unit) handler" where
  "require_fresh_worktree sv kind task =
     (if kind = ''worktree'' then p_ret ()
      else p_bind (in_store (lift_result (\<lambda>db. pending_recovery (sv_env sv) db (sv_run sv) task))) (\<lambda>recovery.
        demand sv (recovery = None) Conflict
          ''recovered work requires a fresh worktree; use `coterie spawn` with a worktree role and inspect the preserved source with `coterie prime`''))"

definition spawn_target :: "'w Supervisor \<Rightarrow> task_id \<Rightarrow> ('w, ProjectRecord) handler" where
  "spawn_target sv i =
     p_bind (p_query (\<lambda>db. (find_task db i, Option.bind (find_task db i) (\<lambda>t. find_project db (tk_project_id t)), task_readiness db i)))
       (\<lambda>(task, project, readiness).
     if (case task of None \<Rightarrow> True | Some t \<Rightarrow> tk_run_id t \<noteq> sv_run sv) then no_such_task sv i
     else
       p_bind (convert sv project Internal
         (''the target project for task `'' @ task_text (sv_env sv) i @ ''` is missing'')) (\<lambda>p.
       p_seq (demand sv (case readiness of None \<Rightarrow> False | Some r \<Rightarrow> is_ready r) Conflict
         (''task `'' @ task_text (sv_env sv) i @ ''` is not ready''))
       (p_ret p)))"

definition require_capacity :: "'w Supervisor \<Rightarrow> string \<Rightarrow> ('w, unit) handler" where
  "require_capacity sv name =
     p_bind (rpc_timestamp sv) (\<lambda>now.
     p_bind (counters sv now) (\<lambda>(c, rows, capacity).
     p_seq (within sv ''limits.max_spawns_per_minute'' (av_spawns_per_minute capacity))
     (case role_budget c rows name of
        None \<Rightarrow> p_fail Unwinds
      | Some b \<Rightarrow>
          p_seq (within sv (role_field name ''max_instances'') b)
          (p_seq (within sv ''limits.max_agents_per_run'' (av_agents_per_run capacity))
                 (within sv ''limits.max_concurrent_agents'' (av_concurrent_agents capacity))))))"

definition spawn_preflight :: "'w Supervisor \<Rightarrow> string \<Rightarrow> string \<Rightarrow> task_id \<Rightarrow> ('w, string option) handler" where
  "spawn_preflight sv name kind task =
     p_seq (require_fresh_worktree sv kind task)
     (p_bind (spawn_target sv task) (\<lambda>p.
      p_seq (require_capacity sv name)
            (in_workspace (workspace_base_commit (sv_backend sv) kind p))))"

subsection \<open>The durable intent\<close>

record SpawnIntent =
  si_agent_id :: agent_id
  si_session_id :: session_id
  si_assignment_id :: assignment_id
  si_task_id :: task_id

definition spawn_intent_json :: "SpawnIntent \<Rightarrow> json" where
  "spawn_intent_json x = JObj
     [(''agent_id'', agent_json (si_agent_id x)), (''assignment_id'', assignment_json (si_assignment_id x)),
      (''session_id'', session_json (si_session_id x)), (''task_id'', task_json (si_task_id x))]"

definition spawn_intent_of_json :: "Env \<Rightarrow> json \<Rightarrow> SpawnIntent option" where
  "spawn_intent_of_json e j =
     Option.bind (field (id_of_json e ''cg'') ''agent_id'' j) (\<lambda>a.
     Option.bind (field (id_of_json e ''cs'') ''session_id'' j) (\<lambda>s.
     Option.bind (field (id_of_json e ''ca'') ''assignment_id'' j) (\<lambda>x.
     Option.bind (field (id_of_json e ''ct'') ''task_id'' j) (\<lambda>t.
     Some \<lparr>si_agent_id = AgentId a, si_session_id = SessionId s, si_assignment_id = AssignmentId x, si_task_id = TaskId t\<rparr>))))"

text \<open>What one request to spawn knows: who asked, the operation, the role and the new identifiers.\<close>

record Spawning =
  sg_caller :: AuthenticatedCaller
  sg_operation :: operation_id
  sg_role :: string
  sg_policy :: WorkspacePolicy
  sg_claim :: ClaimTaskMutation
  sg_directory :: string
  sg_base_commit :: "string option"

definition spawn_event ::
    "'w Supervisor \<Rightarrow> Spawning \<Rightarrow> EventKind \<Rightarrow> string \<Rightarrow> project_id option \<Rightarrow> json \<Rightarrow> string \<Rightarrow> NewEvent" where
  "spawn_event sv g kind subject project data summary =
     \<lparr>ne_run_id = sv_run sv, ne_kind = kind, ne_actor = event_actor sv (sg_caller g), ne_subject = subject,
      ne_project_id = project, ne_agent_id = Some (ct_agent_id (sg_claim g)), ne_task_id = Some (ct_task_id (sg_claim g)),
      ne_operation_id = Some (sg_operation g), ne_correlation_id = None, ne_causation_id = None,
      ne_data = data, ne_summary = summary, ne_created_at = ct_claimed_at (sg_claim g)\<rparr>"

definition spawned_agent :: "'w Supervisor \<Rightarrow> Spawning \<Rightarrow> AgentRecord" where
  "spawned_agent sv g =
     \<lparr>ag_id = ct_agent_id (sg_claim g), ag_run_id = sv_run sv, ag_role = sg_role g, ag_generation = 0,
      ag_state = Starting, ag_created_at = ct_claimed_at (sg_claim g)\<rparr>"

definition spawned_workspace :: "'w Supervisor \<Rightarrow> Spawning \<Rightarrow> ProjectRecord \<Rightarrow> assignment_id \<Rightarrow> WorkspaceRecord" where
  "spawned_workspace sv g p i =
     \<lparr>ws_assignment_id = i, ws_generation = 0, ws_run_id = sv_run sv, ws_project_id = pj_id p,
      ws_kind = workspace_policy_name (sg_policy g),
      ws_path = assignment_workspace_path (sv_env sv) (sg_directory g) (sg_policy g) p i,
      ws_state = RDesired, ws_base_commit = sg_base_commit g, ws_result_commit = None, ws_target_commit = None,
      ws_created_at = ct_claimed_at (sg_claim g), ws_reconciled_at = None\<rparr>"

definition workspace_event :: "'w Supervisor \<Rightarrow> Spawning \<Rightarrow> WorkspaceRecord \<Rightarrow> NewEvent" where
  "workspace_event sv g w =
     spawn_event sv g WorkspaceDesired (assignment_text (sv_env sv) (ws_assignment_id w)) (Some (ws_project_id w))
       (JObj [(''base_commit'', json_opt JStr (ws_base_commit w)), (''kind'', JStr (ws_kind w)),
              (''path'', JStr (ws_path w)), (''state'', JStr (resource_as_str (ws_state w)))])
       (''Recorded desired workspace for assignment '' @ assignment_text (sv_env sv) (ws_assignment_id w) @ ''.'')"

definition desire_workspace :: "'w Supervisor \<Rightarrow> Spawning \<Rightarrow> ProjectRecord \<Rightarrow> assignment_id \<Rightarrow> unit repo" where
  "desire_workspace sv g p i =
     (let w = spawned_workspace sv g p i in
      seq (insert_workspace w)
      (seq (log_event (sv_env sv) (workspace_event sv g w))
           (mark_operation_reconciliation_desired (sv_env sv) (sg_operation g))))"

definition target_of_task :: "Db \<Rightarrow> task_id \<Rightarrow> ProjectRecord option" where
  "target_of_task db i = Option.bind (find_task db i) (\<lambda>t. find_project db (tk_project_id t))"

definition created_agent_event :: "'w Supervisor \<Rightarrow> Spawning \<Rightarrow> NewEvent" where
  "created_agent_event sv g =
     (let a = agent_text (sv_env sv) (ct_agent_id (sg_claim g)) in
      spawn_event sv g AgentCreated a None
        (JObj [(''generation'', JInt 0), (''role'', JStr (sg_role g)), (''state'', JStr (lifecycle_as_str Starting))])
        (''Created agent '' @ a @ ''.''))"

text \<open>The task was ready before the transaction: a rejected claim is reported as corruption.\<close>

definition record_spawn :: "'w Supervisor \<Rightarrow> Spawning \<Rightarrow> session_id \<Rightarrow> SpawnIntent repo" where
  "record_spawn sv g session =
     (let claim = sg_claim g in
      seq (insert_agent (spawned_agent sv g))
      (seq (log_event (sv_env sv) (created_agent_event sv g))
      (bind (apply_claim (sv_env sv) claim) (\<lambda>result.
       case result of
         ClaimRejected _ \<Rightarrow> fail (CorruptTaskState (ct_task_id claim))
       | Claimed _ i \<Rightarrow>
           bind (gets (\<lambda>db. target_of_task db (ct_task_id claim))) (\<lambda>found.
           case found of
             None \<Rightarrow> fail (CorruptTaskState (ct_task_id claim))
           | Some p \<Rightarrow>
               seq (desire_workspace sv g p i)
               (ret \<lparr>si_agent_id = ct_agent_id claim, si_session_id = session, si_assignment_id = i,
                     si_task_id = ct_task_id claim\<rparr>))))))"

definition spawning_claim :: "'w Supervisor \<Rightarrow> AuthenticatedCaller \<Rightarrow> operation_id \<Rightarrow> task_id \<Rightarrow> int \<Rightarrow> ClaimTaskMutation" where
  "spawning_claim sv caller i task now =
     \<lparr>ct_operation_id = i, ct_run_id = sv_run sv, ct_actor_agent_id = caller_agent caller, ct_task_id = task,
      ct_agent_id = AgentId (sv_fresh sv), ct_assignment_id = AssignmentId (sv_fresh sv), ct_claimed_at = now\<rparr>"

definition spawn_mutation :: "'w Supervisor \<Rightarrow> AuthenticatedCaller \<Rightarrow> operation_id \<Rightarrow> string \<Rightarrow> task_id \<Rightarrow> int \<Rightarrow> Mutation" where
  "spawn_mutation sv caller i name task now =
     \<lparr>mu_id = i, mu_run_id = sv_run sv, mu_kind = ''agent.spawn'', mu_actor_agent_id = caller_agent caller,
      mu_request = JObj [(''role'', JStr name), (''task_id'', task_json task)], mu_created_at = now\<rparr>"

definition intend_spawn :: "'w Supervisor \<Rightarrow> Spawning \<Rightarrow> ('w, SpawnIntent) handler" where
  "intend_spawn sv g =
     p_bind (in_store (mutate spawn_intent_json (spawn_intent_of_json (sv_env sv))
       (spawn_mutation sv (sg_caller g) (sg_operation g) (sg_role g) (ct_task_id (sg_claim g)) (ct_claimed_at (sg_claim g)))
       (record_spawn sv g (SessionId (sv_fresh sv))))) (\<lambda>outcome. p_ret (mutation_value outcome))"

subsection \<open>Carrying it out\<close>

record SpawnCompletion =
  sp_operation_id :: operation_id
  sp_role :: string
  sp_permission_profile :: PermissionProfile
  sp_intent :: SpawnIntent
  sp_created_at :: int
  sp_reconciled_at :: int

definition owns_spawn :: "run_id \<Rightarrow> SpawnIntent \<Rightarrow> WorkspaceRecord \<Rightarrow> AssignmentRecord option \<Rightarrow> bool" where
  "owns_spawn run x w found \<longleftrightarrow>
     ws_run_id w = run
     \<and> (case found of
          None \<Rightarrow> False
        | Some a \<Rightarrow>
            as_run_id a = run \<and> as_agent_id a = si_agent_id x \<and> as_task_id a = si_task_id x
            \<and> assignment_scope a = workspace_scope w \<and> as_session_id a \<in> {None, Some (si_session_id x)})"

definition spawn_launch ::
    "'w Supervisor \<Rightarrow> RuntimePaths \<Rightarrow> SpawnCompletion \<Rightarrow> WorkspaceRecord \<Rightarrow> ProjectRecord \<Rightarrow> string \<Rightarrow> AgentLaunch" where
  "spawn_launch sv paths x w primary bootstrap =
     \<lparr>al_scope = \<lparr>sc_run_id = sv_run sv, sc_agent_id = si_agent_id (sp_intent x),
        sc_session_id = si_session_id (sp_intent x), sc_generation = ws_generation w\<rparr>,
      al_role = sp_role x, al_mode = JobMode, al_working_directory = ws_path w, al_project_id = ws_project_id w,
      al_primary_project_root = pj_canonical_path primary, al_task_id = si_task_id (sp_intent x),
      al_socket_path = rp_socket_path paths, al_permission_profile = sp_permission_profile x,
      al_bootstrap_instruction = bootstrap, al_created_at = sp_created_at x\<rparr>"

definition operation_observed :: "Db \<Rightarrow> operation_id \<Rightarrow> bool" where
  "operation_observed db i \<longleftrightarrow>
     (case find_operation db i of None \<Rightarrow> False | Some r \<Rightarrow> op_reconciliation_state r = Some RObserved)"

definition launch_spawned ::
    "'w Supervisor \<Rightarrow> 'w Harness \<Rightarrow> RuntimePaths \<Rightarrow> AgentToken option \<Rightarrow> SpawnCompletion \<Rightarrow> WorkspaceRecord \<Rightarrow> ProjectRecord
      \<Rightarrow> ('w, unit) request" where
  "launch_spawned sv hs paths token x w primary =
     p_bind (p_outer (saved_configuration sv)) (\<lambda>c.
     case bootstrap_instruction (sv_env sv) (sv_run sv) (sp_role x) c of
       None \<Rightarrow> p_fail Unwinds
     | Some bootstrap \<Rightarrow>
         p_bind (in_sessions (ensure_existing_launch sv hs (spawn_launch sv paths x w primary bootstrap)
           (Some (si_assignment_id (sp_intent x))) token (sp_reconciled_at x))) (\<lambda>_.
         p_seq (drain_available_events sv hs (si_session_id (sp_intent x)) (sp_reconciled_at x))
         (p_bind (in_store (record_operation_reconciliation (sv_env sv) (sp_operation_id x) RObserved None (sp_reconciled_at x)))
           (\<lambda>_. p_ret ()))))"

definition materialize_spawned :: "'w Supervisor \<Rightarrow> SpawnCompletion \<Rightarrow> WorkspaceRecord \<Rightarrow> ('w, unit) handler" where
  "materialize_spawned sv x w =
     p_bind (in_workspace (materialize (sv_env sv) (sv_backend sv) (workspace_scope w) (sp_reconciled_at x))) (\<lambda>state.
     demand sv (state = RObserved) Conflict
       (''workspace `'' @ assignment_text (sv_env sv) (si_assignment_id (sp_intent x)) @ ''` reconciliation state is `''
        @ resource_as_str state @ ''`''))"

definition complete_spawn_operation ::
    "'w Supervisor \<Rightarrow> 'w Harness \<Rightarrow> RuntimePaths \<Rightarrow> AgentToken option \<Rightarrow> SpawnCompletion \<Rightarrow> ('w, unit) request" where
  "complete_spawn_operation sv hs paths token x =
     p_bind (p_query (\<lambda>db. (find_workspace db (si_assignment_id (sp_intent x)),
        find pj_is_primary (projects_of_run db (sv_run sv)),
        find_assignment db (si_assignment_id (sp_intent x)), operation_observed db (sp_operation_id x))))
       (\<lambda>(found, primary, assignment, observed).
     p_bind (p_outer (convert sv found Internal ''the assignment workspace intent is missing'')) (\<lambda>w.
     p_seq (p_outer (demand sv (owns_spawn (sv_run sv) (sp_intent x) w assignment) Conflict
        ''the spawn intent belongs to another run or assignment generation''))
     (if observed then p_ret ()
      else
        p_bind (p_outer (convert sv primary Internal ''the run has no primary project'')) (\<lambda>project.
        p_seq (p_outer (materialize_spawned sv x w))
              (launch_spawned sv hs paths token x w project)))))"

definition spawn_reconciliation_state :: "SessionRecord option \<Rightarrow> ExternalResourceState" where
  "spawn_reconciliation_state found =
     (case found of
        None \<Rightarrow> RDesired
      | Some x \<Rightarrow> if se_provider_session_id x \<noteq> None then RObserved else se_reconciliation_state x)"

definition preflight_quarantined :: "run_id \<Rightarrow> SpawnIntent \<Rightarrow> Db \<Rightarrow> bool" where
  "preflight_quarantined run x db \<longleftrightarrow>
     find_session db (si_session_id x) = None
     \<and> (case find_agent db (si_agent_id x) of
          None \<Rightarrow> False | Some a \<Rightarrow> ag_run_id a = run \<and> ag_state a = Quarantined)"

definition preflights_used_up :: "SupervisionPolicy \<Rightarrow> SpawnCompletion \<Rightarrow> Db \<Rightarrow> bool" where
  "preflights_used_up policy x db \<longleftrightarrow>
     find_session db (si_session_id (sp_intent x)) = None
     \<and> (case find_operation db (sp_operation_id x) of
          None \<Rightarrow> False | Some r \<Rightarrow> max_launch_attempts policy \<le> op_reconciliation_attempt_count r)"

definition note_spawn_failure ::
    "'w Supervisor \<Rightarrow> SpawnCompletion \<Rightarrow> ExternalResourceState \<Rightarrow> string \<Rightarrow> unit repo" where
  "note_spawn_failure sv x state message =
     (let e = sv_env sv; i = sp_operation_id x; at = sp_reconciled_at x in
      seq (discard (record_operation_reconciliation e i state (Some message) at))
      (bind (lift_result (\<lambda>_. run_config sv (sv_run sv))) (\<lambda>c.
       bind (gets (preflights_used_up (ec_supervision c) x)) (\<lambda>used_up.
       if used_up then
         seq (quarantine_unstarted_agent e (sv_run sv) (si_agent_id (sp_intent x)) i at)
             (discard (record_operation_reconciliation e i RObserved
               (Some ''launch quarantined after repeated preflight failures; no provider session was created'') at))
       else ret ()))))"

text \<open>\<open>display\<close> is the text of a failure.\<close>

definition attempt_spawn_operation ::
    "(FailureText \<Rightarrow> string) \<Rightarrow> 'w Supervisor \<Rightarrow> 'w Harness \<Rightarrow> RuntimePaths \<Rightarrow> AgentToken option \<Rightarrow> SpawnCompletion
      \<Rightarrow> ('w, unit) request" where
  "attempt_spawn_operation display sv hs paths token x =
     p_bind (p_query (preflight_quarantined (sv_run sv) (sp_intent x))) (\<lambda>quarantined.
     p_seq (p_outer (demand sv (\<not> quarantined) Conflict
       ''the launch is quarantined after repeated preflight failures; inspect its events and preserved workspace''))
     (p_bind (p_attempt (complete_spawn_operation sv hs paths token x)) (\<lambda>r.
      case r of
        Inr _ \<Rightarrow> p_ret ()
      | Inl (Refused failure) \<Rightarrow>
          p_bind (p_query (\<lambda>db. spawn_reconciliation_state (find_session db (si_session_id (sp_intent x))))) (\<lambda>state.
          p_seq (in_store (note_spawn_failure sv x state (display (rf_message failure)))) (p_fail (Refused failure)))
      | Inl err \<Rightarrow> p_fail err)))"

definition spawn_agent ::
    "(FailureText \<Rightarrow> string) \<Rightarrow> 'w Supervisor \<Rightarrow> 'w Harness \<Rightarrow> RuntimePaths \<Rightarrow> AgentToken option \<Rightarrow> AuthenticatedCaller
      \<Rightarrow> operation_id \<Rightarrow> string \<Rightarrow> task_id \<Rightarrow> ('w, RpcResponse) request" where
  "spawn_agent display sv hs paths token caller i name task =
     p_bind (p_outer (spawn_role sv caller name)) (\<lambda>(c, d, r).
     p_bind (p_query (\<lambda>db. find_operation db i \<noteq> None)) (\<lambda>replaying.
     p_bind (if replaying then p_ret None
        else p_outer (spawn_preflight sv name (workspace_policy_name (rl_workspace d)) task)) (\<lambda>base.
     p_bind (p_outer (rpc_timestamp sv)) (\<lambda>now.
     p_bind (p_outer (intend_spawn sv
        \<lparr>sg_caller = caller, sg_operation = i, sg_role = name, sg_policy = rl_workspace d,
         sg_claim = spawning_claim sv caller i task now, sg_directory = rp_run_state_directory paths,
         sg_base_commit = base\<rparr>)) (\<lambda>x.
     p_seq (attempt_spawn_operation display sv hs paths token
        \<lparr>sp_operation_id = i, sp_role = name, sp_permission_profile = er_permission_profile r, sp_intent = x,
         sp_created_at = now, sp_reconciled_at = now\<rparr>)
     (p_bind (p_outer (summary_for_agent sv (si_agent_id x))) (\<lambda>a.
      p_ret (SpawnedResponse i a (si_session_id x) (si_assignment_id x) (si_task_id x)))))))))"

subsection \<open>What a spawn writes\<close>

lemma committing_outer [committing_intros]: "committing e p \<Longrightarrow> committing e (p_outer p)"
  unfolding committing_def p_outer_def case_prod_unfold
  by (auto dest: spec [of _ "\<lparr>sy_db = sy_db s, sy_world = aw_outside (sy_world s)\<rparr>" for s])

lemma committing_in_sessions [committing_intros]: "committing e p \<Longrightarrow> committing e (in_sessions p)"
  unfolding in_sessions_def by (rule committing_error)

lemma drain_loop_commits:
  assumes run: "drain_loop sv hs i at s = Some out"
  shows "commits (sv_env sv) (sy_db s) (sy_db (snd out))"
proof (rule drain_loop.raw_induct [OF _ run, where P = "\<lambda>sv hs i at s out. commits (sv_env sv) (sy_db s) (sy_db (snd out))"])
  fix loop :: "'b Supervisor \<Rightarrow> 'a Harness \<Rightarrow> session_id \<Rightarrow> int \<Rightarrow> 'a Agents sys \<Rightarrow> ((AgentSessionError + unit) \<times> 'a Agents sys) option"
    and sv :: "'b Supervisor" and hs :: "'a Harness" and i at and s :: "'a Agents sys"
    and out :: "(AgentSessionError + unit) \<times> 'a Agents sys"
  assume IH: "\<And>sv hs i at s out. loop sv hs i at s = Some out \<Longrightarrow> commits (sv_env sv) (sy_db s) (sy_db (snd out))"
    and step: "(case advance sv hs i at s of
        (Inl err, t) \<Rightarrow> Some (Inl err, t)
      | (Inr None, t) \<Rightarrow> Some (Inr (), t)
      | (Inr (Some event), t) \<Rightarrow> loop sv hs i at t) = Some out"
  obtain a u where adv: "advance sv hs i at s = (a, u)" by (cases "advance sv hs i at s")
  note first = committingD [OF committing_advance adv]
  show "commits (sv_env sv) (sy_db s) (sy_db (snd out))"
  proof (cases "\<exists>event. a = Inr (Some event)")
    case True
    with step adv have "loop sv hs i at u = Some out" by auto
    from commits_trans [OF first IH [OF this]] show ?thesis .
  next
    case False
    with step adv first show ?thesis by (auto split: sum.splits option.splits)
  qed
qed

lemma committing_drain [committing_intros]: "committing (sv_env sv) (drain_available_events sv hs i at)"
  unfolding committing_def drain_available_events_def
  using drain_loop_commits by (fastforce simp: commits_refl split: option.split)

lemma reading_spawn_checks [reading_intros]:
  "reading (spawn_role sv caller name)" "reading (require_fresh_worktree sv kind task)" "reading (spawn_target sv task)"
  "reading (require_capacity sv name)" "reading (spawn_preflight sv name kind task)"
proof -
  show "reading (spawn_role sv caller name)"
    unfolding spawn_role_def by (intro reading_intros)
  show fresh: "reading (require_fresh_worktree sv kind task)" for sv :: "'w Supervisor" and kind task
    unfolding require_fresh_worktree_def in_store_def by (intro reading_intros)
  show target: "reading (spawn_target sv task)" for sv :: "'w Supervisor" and task
    unfolding spawn_target_def case_prod_unfold by (intro reading_intros)
  show capacity: "reading (require_capacity sv name)" for sv :: "'w Supervisor" and name
    unfolding require_capacity_def case_prod_unfold by (intro reading_intros)
  show "reading (spawn_preflight sv name kind task)"
    unfolding spawn_preflight_def in_workspace_def by (intro reading_intros fresh target capacity)
qed

lemma committing_spawn_checks [committing_intros]: "committing e (spawn_role sv caller name)"
  "committing e (spawn_preflight sv name kind task)"
  by (rule reading_spawn_checks [THEN reading_committing])+

lemma scripted_spawn_writes [scripted_intros]: "scripted e (insert_workspace w)" "scripted e (apply_claim e claim)"
  "scripted e (mark_operation_reconciliation_desired e i)"
  by (rule scripted_command [where c = "InsertWorkspace w"], simp)
    (rule scripted_command [where c = "ApplyClaim claim"], simp add: discard_run,
     rule scripted_command [where c = "MarkReconciliationDesired i"], simp)

lemma scripted_record_spawn [scripted_intros]: "scripted (sv_env sv) (record_spawn sv g session)"
  unfolding record_spawn_def desire_workspace_def Let_def
  by (intro scripted_intros) (auto intro!: scripted_intros split: ClaimTaskResult.split)

lemma committing_intend_spawn [committing_intros]: "committing (sv_env sv) (intend_spawn sv g)"
  unfolding intend_spawn_def mutate_def
  by (intro committing_intros scripted_intros scripted_mutation) (simp add: spawn_mutation_def)

lemma scripted_note_spawn_failure [scripted_intros]: "scripted (sv_env sv) (note_spawn_failure sv x state message)"
  unfolding note_spawn_failure_def Let_def by (intro scripted_intros)

lemma committing_complete_spawn [committing_intros]: "committing (sv_env sv) (complete_spawn_operation sv hs paths token x)"
proof -
  have launch: "committing (sv_env sv) (launch_spawned sv hs paths token x w primary)" for w primary
    unfolding launch_spawned_def by (intro committing_intros scripted_intros)
  have materialized: "committing (sv_env sv) (materialize_spawned sv x w)" for w
    unfolding materialize_spawned_def by (intro committing_intros)
  show ?thesis
    unfolding complete_spawn_operation_def case_prod_unfold by (intro committing_intros launch materialized)
qed

lemma committing_attempt_spawn [committing_intros]:
  "committing (sv_env sv) (attempt_spawn_operation display sv hs paths token x)"
  unfolding attempt_spawn_operation_def
  by (intro committing_intros) (auto intro!: committing_intros scripted_intros split: sum.split HandlerError.split)

lemma committing_spawn_agent [committing_intros]:
  "committing (sv_env sv) (spawn_agent display sv hs paths token caller i name task)"
  unfolding spawn_agent_def case_prod_unfold by (intro committing_intros)

subsection \<open>What a spawn requires\<close>

definition inner :: "'w Agents sys \<Rightarrow> 'w sys" where
  "inner s = \<lparr>sy_db = sy_db s, sy_world = aw_outside (sy_world s)\<rparr>"

lemma inner_db [simp]: "sy_db (inner s) = sy_db s"
  by (simp add: inner_def)

lemma p_outer_reading:
  assumes "reading p" "p_outer p s = (r, t)"
  shows "t = s \<and> p (inner s) = (r, inner s)"
proof -
  obtain a u where run: "p (inner s) = (a, u)" by (cases "p (inner s)")
  from readingD [OF assms(1) run] have "u = inner s" .
  with run assms(2) show ?thesis by (auto simp: p_outer_def inner_def)
qed

lemma within_Inr: "within sv name b s = (Inr u, t) \<longleftrightarrow> \<not> bu_exhausted b \<and> t = s"
  by (auto simp: within_def)

lemma budget_open: "\<not> bu_exhausted (budget c name used (Some n) released) \<longleftrightarrow> used < n"
  by (auto simp: budget_def)

lemma convert_Inr: "convert sv x code message s = (Inr a, t) \<longleftrightarrow> x = Some a \<and> t = s"
  by (auto simp: convert_def refuse_def split: option.splits)

text \<open>\<open>admitted_spawn db c role now\<close>: there is room for one more agent of the role at that time.\<close>

definition room_for :: "Db \<Rightarrow> run_id \<Rightarrow> EffectiveConfig \<Rightarrow> string \<Rightarrow> int \<Rightarrow> bool" where
  "room_for db run c name now \<longleftrightarrow>
     recent_spawns db run now < max_spawns_per_minute (ec_limits c)
     \<and> length (agents_of_run db run) < max_agents_per_run (ec_limits c)
     \<and> length (live_agents (agents_of_run db run)) < max_concurrent_agents (ec_limits c)
     \<and> (\<forall>r n. map_of (ec_roles c) name = Some r \<and> er_max_instances r = Some n \<longrightarrow>
          length (filter (\<lambda>a. ag_role a = name) (live_agents (agents_of_run db run))) < n)"

lemma require_capacity_Inr:
  assumes "require_capacity sv name s = (Inr u, t)"
    and c: "configuration (sv_library sv) (sv_decode sv) (sv_snapshots sv) (sv_run sv) = Inr c"
  shows "\<exists>now. sv_clock sv = Some now \<and> room_for (sy_db s) (sv_run sv) c name now"
proof -
  obtain now where now: "sv_clock sv = Some now" using assms(1)
    by (cases "sv_clock sv") (auto simp: require_capacity_def rpc_timestamp_def)
  let ?rows = "agents_of_run (sy_db s) (sv_run sv)"
  let ?v = "admission_view c ?rows (recent_spawns (sy_db s) (sv_run sv) now) now"
  have counted: "counters sv now s = (Inr (c, ?rows, ?v), s)" using c by (simp add: counters_Inr)
  obtain b where b: "role_budget c ?rows name = Some b" and within:
    "\<not> bu_exhausted (av_spawns_per_minute ?v)" "\<not> bu_exhausted b"
    "\<not> bu_exhausted (av_agents_per_run ?v)" "\<not> bu_exhausted (av_concurrent_agents ?v)"
    using assms(1) counted now
    by (auto simp: require_capacity_def rpc_timestamp_def p_bind_run p_seq_Inr within_Inr split: option.splits)
  have instances: "length (filter (\<lambda>a. ag_role a = name) (live_agents ?rows)) < n"
    if "map_of (ec_roles c) name = Some r" "er_max_instances r = Some n" for r n
    using b within(2) that by (auto simp: role_budget_def budget_open)
  have "room_for (sy_db s) (sv_run sv) c name now"
    using within(1,3,4) instances
    by (auto simp: room_for_def admission_view_def Let_def budget_open)
  with now show ?thesis by blast
qed

lemma spawn_role_Inr:
  assumes "spawn_role sv caller name s = (Inr (c, d, r), t)"
  obtains v where "require_capability sv caller ''spawn'' name s = (Inr (), v)"
    "configuration (sv_library sv) (sv_decode sv) (sv_snapshots sv) (sv_run sv) = Inr c"
    "map_of (ar_roles (ec_archetype c)) name = Some d" "rl_mode d = Job" "map_of (ec_roles c) name = Some r" "er_enabled r"
proof -
  from assms obtain v c' d' v' where cap: "require_capability sv caller ''spawn'' name s = (Inr (), v)"
    and c': "configuration (sv_library sv) (sv_decode sv) (sv_snapshots sv) (sv_run sv) = Inr c'"
    and d': "map_of (ar_roles (ec_archetype c')) name = Some d'"
    and rest: "(case map_of (ec_roles c') name of
        None \<Rightarrow> p_fail Unwinds
      | Some r \<Rightarrow>
          p_seq (demand sv (er_enabled r) Conflict (''role `'' @ name @ ''` is disabled by the run configuration''))
          (p_seq (demand sv (rl_mode d' = Job) Conflict (''role `'' @ name @ ''` is not a background job role''))
          (p_ret (c', d', r)))) v' = (Inr (c, d, r), t)"
    unfolding spawn_role_def p_seq_Inr p_bind_Inr saved_configuration_Inr convert_Inr by blast
  from rest have "c' = c \<and> d' = d \<and> rl_mode d = Job \<and> map_of (ec_roles c) name = Some r \<and> er_enabled r"
    by (cases "map_of (ec_roles c') name") (auto simp: p_seq_Inr demand_Inr)
  with cap c' d' show ?thesis by (intro that) auto
qed

text \<open>
  \<open>spawn_allowed sv caller name task db\<close>: the role is a configured and enabled background role, an
  agent that asks is allowed to spawn that role, there is room under every limit at the time of the
  request, and the task is a ready task of the run.
\<close>

definition spawn_allowed :: "'w Supervisor \<Rightarrow> AuthenticatedCaller \<Rightarrow> string \<Rightarrow> task_id \<Rightarrow> Db \<Rightarrow> bool" where
  "spawn_allowed sv caller name task db \<longleftrightarrow>
     (\<exists>c d r now.
        configuration (sv_library sv) (sv_decode sv) (sv_snapshots sv) (sv_run sv) = Inr c
      \<and> map_of (ar_roles (ec_archetype c)) name = Some d \<and> rl_mode d = Job
      \<and> map_of (ec_roles c) name = Some r \<and> er_enabled r
      \<and> (\<forall>a. caller_agent caller = Some a \<longrightarrow> (\<exists>x. find_agent db a = Some x \<and> may_spawn c (Some (ag_role x)) name))
      \<and> sv_clock sv = Some now \<and> room_for db (sv_run sv) c name now
      \<and> (\<exists>k q. find_task db task = Some k \<and> tk_run_id k = sv_run sv \<and> task_readiness db task = Some q \<and> is_ready q))"

lemma spawn_checks_allow:
  assumes checked: "spawn_role sv caller name s = (Inr (c, d, r), s)"
    and flight: "spawn_preflight sv name kind task s = (Inr base, s)"
  shows "spawn_allowed sv caller name task (sy_db s)"
proof -
  obtain v where capability: "require_capability sv caller ''spawn'' name s = (Inr (), v)"
    and conf: "configuration (sv_library sv) (sv_decode sv) (sv_snapshots sv) (sv_run sv) = Inr c"
    and d: "map_of (ar_roles (ec_archetype c)) name = Some d" "rl_mode d = Job"
    and r: "map_of (ec_roles c) name = Some r" "er_enabled r"
    by (rule spawn_role_Inr [OF checked])
  have allowed: "\<exists>x. find_agent (sy_db s) a = Some x \<and> may_spawn c (Some (ag_role x)) name" if "caller_agent caller = Some a" for a
    using capability that conf
    by (auto simp: require_capability_def p_bind_Inr agent_record_def no_such_agent_def saved_configuration_Inr demand_Inr
        may_spawn_def split: option.splits if_splits)
  from flight obtain v1 p v2 v3 where
    fresh_tree: "require_fresh_worktree sv kind task s = (Inr (), v1)"
    and target: "spawn_target sv task v1 = (Inr p, v2)" and capacity: "require_capacity sv name v2 = (Inr (), v3)"
    by (auto simp: spawn_preflight_def p_seq_Inr p_bind_Inr)
  have same: "v1 = s" "v2 = s"
    using readingD [OF reading_spawn_checks(2) fresh_tree] readingD [OF reading_spawn_checks(3) target] by simp_all
  obtain now where now: "sv_clock sv = Some now" "room_for (sy_db s) (sv_run sv) c name now"
    using require_capacity_Inr [OF capacity conf] same by auto
  have ready: "\<exists>k q. find_task (sy_db s) task = Some k \<and> tk_run_id k = sv_run sv \<and> task_readiness (sy_db s) task = Some q \<and> is_ready q"
    using target same
    by (auto simp: spawn_target_def no_such_task_def p_bind_Inr p_seq_Inr demand_Inr split: option.splits if_splits)
  have every: "\<forall>a. caller_agent caller = Some a \<longrightarrow> (\<exists>x. find_agent (sy_db s) a = Some x \<and> may_spawn c (Some (ag_role x)) name)"
    by (intro allI impI allowed)
  show ?thesis
    unfolding spawn_allowed_def
    by (rule exI [of _ c], rule exI [of _ d], rule exI [of _ r], rule exI [of _ now], intro conjI)
      (rule conf d r every now ready)+
qed

text \<open>
  Property C9. A spawn stays within the trusted policy. A first request to spawn that the policy
  does not allow is refused and changes nothing, in the database or outside it: the role has to be a
  configured and enabled background role that the asking agent may spawn, there has to be room
  under every limit (spawns in the last minute, agents of the whole run, live agents, live agents of
  the role), and the task has to be a ready task of the run.
\<close>

theorem spawn_respects_policy:
  assumes fresh: "find_operation (sy_db s) i = None" and refused: "\<not> spawn_allowed sv caller name task (sy_db s)"
  shows "\<exists>err. spawn_agent display sv hs paths token caller i name task s = (Inl err, s)"
proof -
  obtain x u where role_out: "p_outer (spawn_role sv caller name) s = (x, u)" by (cases "p_outer (spawn_role sv caller name) s")
  from p_outer_reading [OF reading_spawn_checks(1) role_out] have u: "u = s"
    and checked: "spawn_role sv caller name (inner s) = (x, inner s)" by auto
  show ?thesis
  proof (cases x)
    case (Inl err)
    with role_out u show ?thesis by (auto simp: spawn_agent_def p_bind_run)
  next
    case (Inr found)
    then obtain c d r where x: "x = Inr (c, d, r)" by (cases found) auto
    let ?preflight = "spawn_preflight sv name (workspace_policy_name (rl_workspace d)) task"
    obtain y w where preflight_out: "p_outer ?preflight s = (y, w)" by (cases "p_outer ?preflight s")
    from p_outer_reading [OF reading_spawn_checks(5) preflight_out]
    have w: "w = s" and flight: "?preflight (inner s) = (y, inner s)" by auto
    show ?thesis
    proof (cases y)
      case (Inl err)
      with role_out u x fresh preflight_out w show ?thesis by (auto simp: spawn_agent_def p_bind_run)
    next
      case (Inr base)
      with spawn_checks_allow [of sv caller name "inner s" c d r] checked x flight refused show ?thesis by auto
    qed
  qed
qed

lemma spawn_respects_policy_witness:
  "\<exists>err. spawn_agent (\<lambda>_. []) sample_supervisor sample_harness \<lparr>rp_run_state_directory = ''/r'', rp_socket_path = ''/s''\<rparr>
     None Operator (OperationId 40) ''lead'' (TaskId 1) \<lparr>sy_db = sample_db, sy_world = managing []\<rparr>
   = (Inl err, \<lparr>sy_db = sample_db, sy_world = managing []\<rparr>)"
proof -
  have fresh: "find_operation (sy_db \<lparr>sy_db = sample_db, sy_world = managing []\<rparr>) (OperationId 40) = None"
    by (simp add: find_operation_def sample_db_def empty_db_def)
  have refused: "\<not> spawn_allowed sample_supervisor Operator ''lead'' (TaskId 1) (sy_db \<lparr>sy_db = sample_db, sy_world = managing []\<rparr>)"
    by (auto simp: spawn_allowed_def)
  show ?thesis by (rule spawn_respects_policy [OF fresh refused])
qed

end
