(* ===== verification/ForegroundHandlers.thy ===== *)
theory ForegroundHandlers
  imports Admission Bootstrap HandlerSamples
begin

section \<open>The foreground agent (src/src/supervisor.rs)\<close>

text \<open>
  The lead runs in the operator's terminal, as a child of the command line and not of the
  supervisor. The supervisor claims the launch in one transaction and hands it out once; afterwards
  the wrapper reports what became of the process, under the scope of the session it was given.
\<close>

subsection \<open>Preparing a launch\<close>

record LaunchIntent =
  li_agent_id :: agent_id
  li_session_id :: session_id
  li_generation :: int
  li_already_active :: bool

definition launch_intent_json :: "LaunchIntent \<Rightarrow> json" where
  "launch_intent_json x = JObj
     [(''agent_id'', agent_json (li_agent_id x)), (''already_active'', JBool (li_already_active x)),
      (''generation'', JInt (li_generation x)), (''session_id'', session_json (li_session_id x))]"

definition launch_intent_of_json :: "Env \<Rightarrow> json \<Rightarrow> LaunchIntent option" where
  "launch_intent_of_json e j =
     Option.bind (field (id_of_json e ''cg'') ''agent_id'' j) (\<lambda>a.
     Option.bind (field (id_of_json e ''cs'') ''session_id'' j) (\<lambda>s.
     Option.bind (field int_of_json ''generation'' j) (\<lambda>g.
     Option.bind (field bool_of_json ''already_active'' j) (\<lambda>b.
     Some \<lparr>li_agent_id = AgentId a, li_session_id = SessionId s, li_generation = g, li_already_active = b\<rparr>))))"

definition role_agent :: "Db \<Rightarrow> run_id \<Rightarrow> string \<Rightarrow> AgentRecord option" where
  "role_agent db run name = find (\<lambda>a. ag_role a = name) (agents_of_run db run)"

definition foreground_role ::
    "'w Supervisor \<Rightarrow> ('w, EffectiveConfig \<times> string \<times> RoleDefinition \<times> string) handler" where
  "foreground_role sv =
     p_bind (saved_configuration sv) (\<lambda>c.
     let name = ar_lead (ec_archetype c) in
     p_bind (convert sv (map_of (ar_roles (ec_archetype c)) name) Internal
       ''the active archetype has no designated foreground role'') (\<lambda>d.
     p_seq (demand sv (rl_mode d = InteractiveMode) Internal ''the designated foreground role is not interactive'')
     (case bootstrap_instruction (sv_env sv) (sv_run sv) name c of
        None \<Rightarrow> p_fail Unwinds
      | Some bootstrap \<Rightarrow> p_ret (c, name, d, bootstrap))))"

definition foreground_quarantine :: "Db \<Rightarrow> run_id \<Rightarrow> operation_id \<Rightarrow> string \<Rightarrow> int \<Rightarrow> int option" where
  "foreground_quarantine db run i name now =
     (if find_operation db i \<noteq> None then None
      else Option.bind (role_agent db run name) (\<lambda>a. agent_quarantine_until db run (ag_id a) now))"

definition require_foreground_capacity :: "'w Supervisor \<Rightarrow> operation_id \<Rightarrow> string \<Rightarrow> int \<Rightarrow> ('w, unit) handler" where
  "require_foreground_capacity sv i name now =
     p_bind (p_query (\<lambda>db. (find_operation db i \<noteq> None, agents_of_run db (sv_run sv)))) (\<lambda>(replaying, rows).
     if replaying \<or> list_ex (\<lambda>a. ag_role a = name \<and> \<not> is_terminal (ag_state a)) rows then p_ret ()
     else
       p_bind (counters sv now) (\<lambda>(c, _, capacity).
       p_seq (if list_ex (\<lambda>a. ag_role a = name) rows then p_ret ()
              else within sv ''limits.max_agents_per_run'' (av_agents_per_run capacity))
             (within sv ''limits.max_concurrent_agents'' (av_concurrent_agents capacity))))"

text \<open>One request to launch: who asks, the operation, the role and its provider, the new identifiers and the time.\<close>

record Foregrounding =
  fg_caller :: AuthenticatedCaller
  fg_operation :: operation_id
  fg_role :: string
  fg_provider :: string
  fg_agent :: agent_id
  fg_session :: session_id
  fg_token :: AgentToken
  fg_now :: int

definition foreground_event ::
    "'w Supervisor \<Rightarrow> Foregrounding \<Rightarrow> EventKind \<Rightarrow> string \<Rightarrow> agent_id \<Rightarrow> json \<Rightarrow> string \<Rightarrow> NewEvent" where
  "foreground_event sv g kind subject agent data summary =
     \<lparr>ne_run_id = sv_run sv, ne_kind = kind, ne_actor = event_actor sv (fg_caller g), ne_subject = subject,
      ne_project_id = None, ne_agent_id = Some agent, ne_task_id = None, ne_operation_id = Some (fg_operation g),
      ne_correlation_id = None, ne_causation_id = None, ne_data = data, ne_summary = summary, ne_created_at = fg_now g\<rparr>"

definition foreground_scope :: "'w Supervisor \<Rightarrow> agent_id \<Rightarrow> session_id \<Rightarrow> int \<Rightarrow> SessionScope" where
  "foreground_scope sv a i generation =
     \<lparr>sc_run_id = sv_run sv, sc_agent_id = a, sc_session_id = i, sc_generation = generation\<rparr>"

definition foreground_credential :: "'w Supervisor \<Rightarrow> AgentToken \<Rightarrow> int \<Rightarrow> SessionScope \<Rightarrow> SessionCredentialRecord" where
  "foreground_credential sv token now s =
     \<lparr>cr_session_id = sc_session_id s, cr_run_id = sc_run_id s, cr_agent_id = sc_agent_id s,
      cr_generation = sc_generation s, cr_token_verifier = verifier (sv_hmac sv) (env_ulid (sv_env sv)) token s,
      cr_created_at = now, cr_revoked_at = None\<rparr>"

definition next_generation :: "'w Supervisor \<Rightarrow> Foregrounding \<Rightarrow> AgentRecord \<Rightarrow> int repo" where
  "next_generation sv g a =
     (let n = ag_generation a + 1 in
      seq (require (ag_generation a < i64_max) (CorruptAgentState (ag_id a)))
      (bind (start_agent_generation (sv_run sv) (ag_id a) (ag_generation a) n) (\<lambda>started.
       seq (require started (CorruptAgentState (ag_id a)))
       (seq (log_event (sv_env sv) (foreground_event sv g AgentLifecycleChanged (agent_text (sv_env sv) (ag_id a)) (ag_id a)
          (JObj [(''generation'', JInt n), (''previous_generation'', JInt (ag_generation a)),
                 (''previous_state'', JStr (lifecycle_as_str (ag_state a))), (''state'', JStr (lifecycle_as_str Starting))])
          (''Starting generation '' @ show_int n @ '' for agent '' @ agent_text (sv_env sv) (ag_id a) @ ''.'')))
       (ret n)))))"

definition first_generation :: "'w Supervisor \<Rightarrow> Foregrounding \<Rightarrow> unit repo" where
  "first_generation sv g =
     seq (insert_agent \<lparr>ag_id = fg_agent g, ag_run_id = sv_run sv, ag_role = fg_role g, ag_generation = 0,
            ag_state = Starting, ag_created_at = fg_now g\<rparr>)
     (log_event (sv_env sv) (foreground_event sv g AgentCreated (agent_text (sv_env sv) (fg_agent g)) (fg_agent g)
        (JObj [(''generation'', JInt 0), (''role'', JStr (fg_role g)), (''state'', JStr (lifecycle_as_str Starting))])
        (''Created foreground agent '' @ agent_text (sv_env sv) (fg_agent g) @ ''.'')))"

definition foreground_session :: "'w Supervisor \<Rightarrow> Foregrounding \<Rightarrow> SessionScope \<Rightarrow> SessionRecord" where
  "foreground_session sv g s =
     \<lparr>se_id = sc_session_id s, se_run_id = sc_run_id s, se_agent_id = sc_agent_id s, se_generation = sc_generation s,
      se_provider = fg_provider g, se_provider_session_id = None, se_reconciliation_state = RDesired,
      se_state = Starting, se_transcript_path = transcript_path (sv_env sv) (sc_session_id s),
      se_created_at = fg_now g, se_ended_at = None, se_reconciled_at = None, se_process_owner = ForegroundOwned\<rparr>"

definition started_session_event :: "'w Supervisor \<Rightarrow> Foregrounding \<Rightarrow> SessionScope \<Rightarrow> NewEvent" where
  "started_session_event sv g s =
     foreground_event sv g SessionStarted (session_text (sv_env sv) (sc_session_id s)) (sc_agent_id s)
       (JObj [(''generation'', JInt (sc_generation s)), (''provider'', JStr (fg_provider g)),
              (''state'', JStr (lifecycle_as_str Starting))])
       (''Started session '' @ session_text (sv_env sv) (sc_session_id s) @ '' for agent ''
        @ agent_text (sv_env sv) (sc_agent_id s) @ ''.'')"

definition claimed_launch_event :: "'w Supervisor \<Rightarrow> Foregrounding \<Rightarrow> SessionScope \<Rightarrow> NewEvent" where
  "claimed_launch_event sv g s =
     foreground_event sv g SessionReconciliationChanged (session_text (sv_env sv) (sc_session_id s)) (sc_agent_id s)
       (JObj [(''previous_state'', JStr (resource_as_str RDesired)), (''reason'', JStr ''launch_claimed''),
              (''state'', JStr (resource_as_str RUnknown))])
       (''Claimed the provider launch for foreground session '' @ session_text (sv_env sv) (sc_session_id s) @ ''.'')"

definition claim_launch :: "'w Supervisor \<Rightarrow> Foregrounding \<Rightarrow> SessionScope \<Rightarrow> LaunchIntent repo" where
  "claim_launch sv g s =
     seq (insert_session (foreground_session sv g s))
     (seq (activate_session_credential (foreground_credential sv (fg_token g) (fg_now g) s))
     (seq (log_event (sv_env sv) (started_session_event sv g s))
     (seq (mark_operation_reconciliation_desired (sv_env sv) (fg_operation g))
     (bind (record_session_reconciliation_state s RUnknown (fg_now g)) (\<lambda>claimed.
      seq (require (claimed = SApplied) (CorruptAgentState (sc_agent_id s)))
      (seq (log_event (sv_env sv) (claimed_launch_event sv g s))
      (ret \<lparr>li_agent_id = sc_agent_id s, li_session_id = sc_session_id s, li_generation = sc_generation s,
            li_already_active = False\<rparr>)))))))"

definition replace_generation :: "'w Supervisor \<Rightarrow> Foregrounding \<Rightarrow> AgentRecord \<Rightarrow> SessionRecord \<Rightarrow> LaunchIntent repo" where
  "replace_generation sv g a latest =
     (if is_terminal (ag_state a) then
        bind (next_generation sv g a) (\<lambda>n. claim_launch sv g (foreground_scope sv (ag_id a) (fg_session g) n))
      else ret \<lparr>li_agent_id = ag_id a, li_session_id = se_id latest, li_generation = ag_generation a,
                li_already_active = True\<rparr>)"

definition record_foreground_launch :: "'w Supervisor \<Rightarrow> Foregrounding \<Rightarrow> LaunchIntent repo" where
  "record_foreground_launch sv g =
     bind (gets (\<lambda>db. role_agent db (sv_run sv) (fg_role g))) (\<lambda>existing.
     case existing of
       None \<Rightarrow> seq (first_generation sv g) (claim_launch sv g (foreground_scope sv (fg_agent g) (fg_session g) 0))
     | Some a \<Rightarrow>
         bind (gets (\<lambda>db. latest_session_for_agent db (sv_run sv) (ag_id a))) (\<lambda>latest.
         case latest of
           None \<Rightarrow> fail (CorruptAgentState (ag_id a))
         | Some x \<Rightarrow> replace_generation sv g a x))"

text \<open>A repeated request may still claim a launch that no attempt has claimed.\<close>

definition reclaim_launch :: "'w Supervisor \<Rightarrow> Foregrounding \<Rightarrow> LaunchIntent \<Rightarrow> bool repo" where
  "reclaim_launch sv g x =
     (let s = foreground_scope sv (li_agent_id x) (li_session_id x) (li_generation x) in
      bind (gets (\<lambda>db. find_session db (li_session_id x))) (\<lambda>found.
      if (case found of None \<Rightarrow> False | Some y \<Rightarrow> se_reconciliation_state y = RDesired \<and> se_state y = Starting) then
        seq (replace_desired_session_credential (foreground_credential sv (fg_token g) (fg_now g) s))
        (seq (discard (record_session_reconciliation_state s RUnknown (fg_now g)))
        (seq (log_event (sv_env sv) (claimed_launch_event sv g s)) (ret True)))
      else ret False))"

definition settle_launch ::
    "'w Supervisor \<Rightarrow> Foregrounding \<Rightarrow> LaunchIntent MutationOutcome \<Rightarrow> ('w, LaunchIntent) handler" where
  "settle_launch sv g outcome =
     (case outcome of
        Applied x \<Rightarrow> p_ret x
      | Replayed x \<Rightarrow>
          p_bind (in_store (reclaim_launch sv g x)) (\<lambda>replayable.
          p_seq (demand sv replayable Conflict
            (''foreground operation `'' @ operation_text (sv_env sv) (fg_operation g)
             @ ''` has already attempted its provider launch''))
          (p_ret x)))"

definition foreground_mutation :: "'w Supervisor \<Rightarrow> Foregrounding \<Rightarrow> Mutation" where
  "foreground_mutation sv g =
     \<lparr>mu_id = fg_operation g, mu_run_id = sv_run sv, mu_kind = ''agent.launch_foreground'', mu_actor_agent_id = None,
      mu_request = JObj [(''role'', JStr (fg_role g))], mu_created_at = fg_now g\<rparr>"

definition launch_foreground ::
    "'w Supervisor \<Rightarrow> AuthenticatedCaller \<Rightarrow> operation_id \<Rightarrow> AgentToken \<Rightarrow> ('w, RpcResponse) handler" where
  "launch_foreground sv caller i token =
     p_seq (require_operator sv caller ''only the operator can launch the foreground agent'')
     (p_bind (foreground_role sv) (\<lambda>(c, name, d, bootstrap).
      p_bind (rpc_timestamp sv) (\<lambda>now.
      p_bind (p_query (\<lambda>db. foreground_quarantine db (sv_run sv) i name now)) (\<lambda>until.
      case until of
        Some at \<Rightarrow> conflict sv (''the foreground session is quarantined after repeated failures; retry after Unix timestamp ''
          @ show_int at @ '' and inspect its events'')
      | None \<Rightarrow>
          (let g = \<lparr>fg_caller = caller, fg_operation = i, fg_role = name, fg_provider = rl_provider d,
                    fg_agent = AgentId (sv_fresh sv), fg_session = SessionId (sv_fresh sv), fg_token = token, fg_now = now\<rparr> in
           p_seq (require_foreground_capacity sv i name now)
           (p_bind (in_store (mutate launch_intent_json (launch_intent_of_json (sv_env sv)) (foreground_mutation sv g)
              (record_foreground_launch sv g))) (\<lambda>outcome.
            p_bind (settle_launch sv g outcome) (\<lambda>x.
            p_seq (demand sv (\<not> li_already_active x) Conflict
              (''foreground session `'' @ session_text (sv_env sv) (li_session_id x) @ ''` is already active''))
            (p_bind (summary_for_agent sv (li_agent_id x)) (\<lambda>a.
             p_ret (ForegroundPrepared (sv_run sv) a (li_session_id x) (li_generation x) bootstrap)))))))))))"

subsection \<open>What the wrapper reports\<close>

definition foreground_configured :: "EffectiveConfig \<Rightarrow> AgentRecord option \<Rightarrow> SessionRecord \<Rightarrow> bool" where
  "foreground_configured c found x \<longleftrightarrow>
     (case Option.bind found (\<lambda>a. map_of (ar_roles (ec_archetype c)) (ag_role a)) of
        None \<Rightarrow> False
      | Some r \<Rightarrow> rl_mode r = InteractiveMode \<and> rl_provider r = se_provider x \<and> map_of (ec_providers c) (rl_provider r) \<noteq> None)"

definition require_foreground_scope :: "'w Supervisor \<Rightarrow> SessionScope \<Rightarrow> ('w, unit) handler" where
  "require_foreground_scope sv s =
     p_bind (p_query (\<lambda>db. (find_session db (sc_session_id s), session_scope_is_current db s, find_agent db (sc_agent_id s))))
       (\<lambda>(found, current, agent).
     p_bind (convert sv found NotFound ''the foreground session does not exist'') (\<lambda>x.
     p_seq (demand sv (sc_run_id s = sv_run sv \<and> se_run_id x = sc_run_id s \<and> se_agent_id x = sc_agent_id s
         \<and> se_generation x = sc_generation s \<and> current \<and> se_process_owner x = ForegroundOwned) Conflict
       ''the foreground observation does not match its session ownership and generation'')
     (p_bind (saved_configuration sv) (\<lambda>c.
      demand sv (foreground_configured c agent x) Conflict
        ''the foreground observation does not match its configured provider and interactive role''))))"

definition operation_for_session :: "SessionScope \<Rightarrow> operation_id repo" where
  "operation_for_session s =
     bind (gets (\<lambda>db. foreground_launch_operation_for_session db (sc_run_id s) (sc_session_id s))) (\<lambda>found.
     case found of None \<Rightarrow> fail (CorruptAgentState (sc_agent_id s)) | Some r \<Rightarrow> ret (op_id r))"

definition foreground_session_of :: "SessionScope \<Rightarrow> SessionRecord repo" where
  "foreground_session_of s =
     bind (gets (\<lambda>db. find_session db (sc_session_id s))) (\<lambda>found.
     case found of None \<Rightarrow> fail (CorruptAgentState (sc_agent_id s)) | Some x \<Rightarrow> ret x)"

definition foreground_lifecycle_event ::
    "Env \<Rightarrow> SessionScope \<Rightarrow> SessionRecord \<Rightarrow> LifecycleState \<Rightarrow> json \<Rightarrow> int \<Rightarrow> NewEvent" where
  "foreground_lifecycle_event e s x lifecycle details at =
     session_event e s SessionLifecycleChanged ''foreground'' (session_text e (sc_session_id s)) None
       (JObj [(''details'', details), (''generation'', JInt (sc_generation s)),
              (''previous_state'', JStr (lifecycle_as_str (se_state x))), (''provider'', JStr (se_provider x)),
              (''state'', JStr (lifecycle_as_str lifecycle))])
       (''Foreground session '' @ session_text e (sc_session_id s) @ '' changed from '' @ lifecycle_as_str (se_state x)
         @ '' to '' @ lifecycle_as_str lifecycle @ ''.'') at"

definition foreground_agent_event :: "Env \<Rightarrow> SessionScope \<Rightarrow> SessionRecord \<Rightarrow> LifecycleState \<Rightarrow> event_id \<Rightarrow> int \<Rightarrow> NewEvent" where
  "foreground_agent_event e s x lifecycle cause at =
     session_event e s AgentLifecycleChanged ''foreground'' (agent_text e (sc_agent_id s)) (Some cause)
       (JObj [(''generation'', JInt (sc_generation s)), (''previous_state'', JStr (lifecycle_as_str (se_state x))),
              (''state'', JStr (lifecycle_as_str lifecycle))])
       (''Foreground agent '' @ agent_text e (sc_agent_id s) @ '' changed from '' @ lifecycle_as_str (se_state x)
         @ '' to '' @ lifecycle_as_str lifecycle @ ''.'') at"

definition record_foreground_lifecycle ::
    "Env \<Rightarrow> SessionRecord \<Rightarrow> SessionScope \<Rightarrow> LifecycleState \<Rightarrow> json \<Rightarrow> int \<Rightarrow> unit repo" where
  "record_foreground_lifecycle e x s lifecycle details at =
     bind (record_session_lifecycle s lifecycle at) (\<lambda>outcome.
     if outcome = SApplied then
       bind (append_event e (foreground_lifecycle_event e s x lifecycle details at)) (\<lambda>ev.
       log_event e (foreground_agent_event e s x lifecycle (ev_id ev) at))
     else ret ())"

definition observed_start_event :: "Env \<Rightarrow> SessionScope \<Rightarrow> SessionRecord \<Rightarrow> string \<Rightarrow> int \<Rightarrow> NewEvent" where
  "observed_start_event e s x provider_id at =
     session_event e s SessionReconciliationChanged ''foreground'' (session_text e (sc_session_id s)) None
       (JObj [(''previous_state'', JStr (resource_as_str (se_reconciliation_state x))),
              (''provider_session_id'', JStr provider_id), (''state'', JStr (resource_as_str RObserved))])
       (''Observed foreground provider session '' @ session_text e (sc_session_id s) @ ''.'') at"

definition record_foreground_start :: "Env \<Rightarrow> SessionScope \<Rightarrow> nat \<Rightarrow> ForegroundIdentity option \<Rightarrow> int \<Rightarrow> unit repo" where
  "record_foreground_start e s p identity at =
     bind (foreground_session_of s) (\<lambda>x.
     bind (record_session_launch_observation s (process_text p) at) (\<lambda>outcome.
     seq (case identity of None \<Rightarrow> ret () | Some i \<Rightarrow> discard (record_foreground_identity s i))
     (seq (if outcome = SApplied then log_event e (observed_start_event e s x (process_text p) at) else ret ())
     (seq (record_foreground_lifecycle e x s Running (JObj [(''process_id'', nat_json p)]) at)
     (bind (operation_for_session s) (\<lambda>i. discard (record_operation_reconciliation e i RObserved None at)))))))"

definition observe_foreground_started ::
    "'w Supervisor \<Rightarrow> AuthenticatedCaller \<Rightarrow> SessionScope \<Rightarrow> nat \<Rightarrow> ForegroundIdentity option \<Rightarrow> ('w, RpcResponse) handler" where
  "observe_foreground_started sv caller s p identity =
     p_seq (require_operator sv caller ''only the foreground operator can report provider startup'')
     (p_seq (require_foreground_scope sv s)
     (p_seq (demand sv (case identity of None \<Rightarrow> True | Some i \<Rightarrow> fi_process_id i = p) Conflict
        ''foreground process identity does not match the observed child'')
     (p_bind (rpc_timestamp sv) (\<lambda>at.
      p_seq (in_store (record_foreground_start (sv_env sv) s p identity at))
      (p_ret (ForegroundObserved (sc_session_id s) (lifecycle_as_str Running)))))))"

datatype ForegroundEnd = EndExited "int option" "int option" | EndLaunchFailed | EndObservationLost

definition SIGINT :: int where "SIGINT = 2"
definition SIGTERM :: int where "SIGTERM = 15"

fun end_states :: "ForegroundEnd \<Rightarrow> ExternalResourceState \<times> LifecycleState \<times> json" where
  "end_states (EndExited code sig) =
     (RObserved, Exited, JObj [(''code'', json_opt JInt code), (''signal'', json_opt JInt sig)])"
| "end_states EndLaunchFailed = (RLost, Lost, JObj [(''reason'', JStr ''launch_failed'')])"
| "end_states EndObservationLost = (RUnknown, Unknown, JObj [(''reason'', JStr ''observation_failed'')])"

fun end_error :: "ForegroundEnd \<Rightarrow> string option" where
  "end_error (EndExited _ _) = None"
| "end_error EndLaunchFailed = Some ''foreground provider launch failed''"
| "end_error EndObservationLost = Some ''foreground provider observation was lost''"

fun end_failed :: "ForegroundEnd \<Rightarrow> bool" where
  "end_failed (EndExited code sig) \<longleftrightarrow> code \<noteq> Some 0 \<and> sig \<noteq> Some SIGINT \<and> sig \<noteq> Some SIGTERM"
| "end_failed EndLaunchFailed = True"
| "end_failed EndObservationLost = False"

fun is_exit :: "ForegroundEnd \<Rightarrow> bool" where
  "is_exit (EndExited _ _) = True"
| "is_exit _ = False"

definition stopping :: "Db \<Rightarrow> SessionScope \<Rightarrow> bool" where
  "stopping db s \<longleftrightarrow>
     find_run_shutdown db (sc_run_id s) \<noteq> None \<or> list_ex (\<lambda>c. sn_scope c = s) (session_controls_of_run db (sc_run_id s))"

text \<open>A crash of the foreground process counts towards its quarantine, unless it was asked to stop.\<close>

definition ended_lifecycle :: "'w Supervisor \<Rightarrow> SessionScope \<Rightarrow> SessionRecord \<Rightarrow> ForegroundEnd \<Rightarrow> int \<Rightarrow> LifecycleState repo" where
  "ended_lifecycle sv s x how at =
     bind (gets (\<lambda>db. stopping db s)) (\<lambda>stops.
     if end_failed how \<and> \<not> stops \<and> \<not> is_terminal (se_state x) then
       bind (lift_result (\<lambda>_. run_config sv (sv_run sv))) (\<lambda>c.
       bind (record_session_failure (sv_env sv) s at (ec_supervision c)) (\<lambda>quarantined.
       ret (if quarantined then Quarantined else fst (snd (end_states how)))))
     else ret (fst (snd (end_states how))))"

definition foreground_reconciliation_event ::
    "Env \<Rightarrow> SessionScope \<Rightarrow> SessionRecord \<Rightarrow> ExternalResourceState \<Rightarrow> int \<Rightarrow> NewEvent" where
  "foreground_reconciliation_event e s x state at =
     session_event e s SessionReconciliationChanged ''foreground'' (session_text e (sc_session_id s)) None
       (JObj [(''previous_state'', JStr (resource_as_str (se_reconciliation_state x))),
              (''state'', JStr (resource_as_str state))])
       (''Foreground session '' @ session_text e (sc_session_id s) @ '' reconciliation changed from ''
         @ resource_as_str (se_reconciliation_state x) @ '' to '' @ resource_as_str state @ ''.'') at"

definition record_foreground_end :: "'w Supervisor \<Rightarrow> SessionScope \<Rightarrow> ForegroundEnd \<Rightarrow> int \<Rightarrow> LifecycleState repo" where
  "record_foreground_end sv s how at =
     (let e = sv_env sv; state = fst (end_states how); details = snd (snd (end_states how)) in
      bind (foreground_session_of s) (\<lambda>x.
      if is_terminal (se_state x) \<and> \<not> (se_state x = Lost \<and> is_exit how) then ret (se_state x)
      else
        bind (record_session_reconciliation_state s state at) (\<lambda>outcome.
        seq (if outcome = SApplied then log_event e (foreground_reconciliation_event e s x state at) else ret ())
        (bind (ended_lifecycle sv s x how at) (\<lambda>lifecycle.
         seq (record_foreground_lifecycle e x s lifecycle details at)
         (bind (operation_for_session s) (\<lambda>i.
          seq (discard (record_operation_reconciliation e i state (end_error how) at)) (ret lifecycle))))))))"

definition observe_foreground_ended ::
    "'w Supervisor \<Rightarrow> AuthenticatedCaller \<Rightarrow> SessionScope \<Rightarrow> ForegroundEnd \<Rightarrow> ('w, RpcResponse) handler" where
  "observe_foreground_ended sv caller s how =
     p_seq (require_operator sv caller ''only the foreground operator can report provider state'')
     (p_seq (require_foreground_scope sv s)
     (p_bind (rpc_timestamp sv) (\<lambda>at.
      p_bind (in_store (record_foreground_end sv s how at)) (\<lambda>lifecycle.
      p_ret (ForegroundObserved (sc_session_id s) (lifecycle_as_str lifecycle))))))"

subsection \<open>What these requests write\<close>

lemma scripted_foreground [scripted_intros]: "scripted e (mark_operation_reconciliation_desired e i)"
  "scripted e (record_operation_reconciliation e i x err at)"
  by (rule scripted_command [where c = "MarkReconciliationDesired i"], simp)
    (rule scripted_command [where c = "RecordReconciliation i x err at"], simp add: discard_run)

lemma scripted_launch_foreground [scripted_intros]:
  "scripted (sv_env sv) (record_foreground_launch sv g)" "scripted (sv_env sv) (reclaim_launch sv g x)"
proof -
  have claim: "scripted (sv_env sv) (claim_launch sv g s)" for s
    unfolding claim_launch_def by (intro scripted_intros)
  show "scripted (sv_env sv) (record_foreground_launch sv g)"
    unfolding record_foreground_launch_def replace_generation_def next_generation_def first_generation_def Let_def
    by (intro scripted_intros claim)
  show "scripted (sv_env sv) (reclaim_launch sv g x)"
    unfolding reclaim_launch_def Let_def by (intro scripted_intros)
qed

lemma scripted_foreground_reports [scripted_intros]:
  "scripted (sv_env sv) (record_foreground_start (sv_env sv) s p identity at)"
  "scripted (sv_env sv) (record_foreground_end sv s how at)"
  unfolding record_foreground_start_def record_foreground_end_def foreground_session_of_def operation_for_session_def
    record_foreground_lifecycle_def ended_lifecycle_def Let_def
  by (intro scripted_intros)+

lemma reading_foreground [reading_intros]:
  "reading (foreground_role sv)" "reading (require_foreground_capacity sv i name now)" "reading (require_foreground_scope sv s)"
  unfolding foreground_role_def require_foreground_capacity_def require_foreground_scope_def Let_def
  by (intro reading_intros)+

lemmas committing_foreground [committing_intros] = reading_foreground [THEN reading_committing]

lemma committing_launch_foreground [committing_intros]:
  "committing (sv_env sv) (launch_foreground sv caller i token)"
proof -
  have settle: "committing (sv_env sv) (settle_launch sv g outcome)" for g outcome
    unfolding settle_launch_def by (cases outcome; simp) (intro committing_intros scripted_intros)+
  show ?thesis
    unfolding launch_foreground_def mutate_def Let_def
    by (intro committing_intros scripted_intros scripted_mutation settle) (simp add: foreground_mutation_def)
qed

lemma committing_foreground_reports [committing_intros]:
  "committing (sv_env sv) (observe_foreground_started sv caller s p identity)"
  "committing (sv_env sv) (observe_foreground_ended sv caller s how)"
  unfolding observe_foreground_started_def observe_foreground_ended_def
  by (intro committing_intros scripted_intros)+

subsection \<open>A launch is handed out once\<close>

lemma launch_intent_roundtrip:
  "launch_intent_of_json e (launch_intent_json x) = None \<or> launch_intent_of_json e (launch_intent_json x) = Some x"
  by (cases x; cases "li_agent_id x"; cases "li_session_id x")
    (simp add: launch_intent_of_json_def launch_intent_json_def field_def agent_json_def session_json_def)

lemma mutate_recorded:
  assumes "find_operation db (mu_id m) = Some r" "op_result r = Some (enc x)" "dec (enc x) = None \<or> dec (enc x) = Some x"
  shows "(\<exists>err. mutate enc dec m f db = Inl err) \<or> mutate enc dec m f db = Inr (Replayed x, db)"
  using assms by (auto simp: mutate_def mutate_with_fingerprint_def)

lemma settle_claimed:
  assumes "find_session (sy_db s) (li_session_id x) = Some y" "se_reconciliation_state y \<noteq> RDesired"
  shows "refuses (settle_launch sv g (Replayed x)) s"
proof -
  have "reclaim_launch sv g x (sy_db s) = Inr (False, sy_db s)"
    using assms by (simp add: reclaim_launch_def Let_def bind_run)
  then have "in_store (reclaim_launch sv g x) s = (Inr False, s)"
    by (simp add: in_store_def p_store_Inr)
  note again = p_bind_run(1) [where p = "in_store (reclaim_launch sv g x)", OF this]
  show ?thesis by (simp add: settle_launch_def refuses_def p_seq_def demand_def refuse_def again)
qed

text \<open>
  Property C15. A foreground launch is handed out once. After an operation has claimed a launch, that
  is, its recorded session has left the desired state, no repetition of the request, by whichever
  caller and with whichever token, prepares the launch again: it is refused and changes nothing.
\<close>

theorem foreground_launches_are_handed_out_once:
  assumes "find_operation (sy_db s) i = Some r" "op_result r = Some (launch_intent_json x)"
    and "find_session (sy_db s) (li_session_id x) = Some y" "se_reconciliation_state y \<noteq> RDesired"
  shows "\<exists>err. launch_foreground sv caller i token s = (Inl err, s)"
proof -
  have replay: "refuses (p_bind (in_store (mutate launch_intent_json (launch_intent_of_json (sv_env sv)) (foreground_mutation sv g)
      (record_foreground_launch sv g))) (\<lambda>outcome. p_bind (settle_launch sv g outcome) f)) s"
    if "fg_operation g = i" for g f
  proof -
    have "find_operation (sy_db s) (mu_id (foreground_mutation sv g)) = Some r"
      using assms(1) that by (simp add: foreground_mutation_def)
    from mutate_recorded [where enc = launch_intent_json and dec = "launch_intent_of_json (sv_env sv)"
        and f = "record_foreground_launch sv g", OF this assms(2) launch_intent_roundtrip]
    show ?thesis
      using refuses_first [OF settle_claimed [OF assms(3,4)], of sv g f]
      by (auto simp: in_store_def refuses_def p_bind_run p_store_run)
  qed
  have "refuses (launch_foreground sv caller i token) s"
    unfolding launch_foreground_def Let_def
    by (intro refuses_intros reading_intros replay) (simp_all add: refuse_def refuses_intros)
  then show ?thesis by (simp add: refuses_def)
qed

definition sample_intent :: LaunchIntent where
  "sample_intent = \<lparr>li_agent_id = AgentId 1, li_session_id = SessionId 1, li_generation = 0, li_already_active = False\<rparr>"

definition sample_claimed :: Db where
  "sample_claimed = sample_db\<lparr>
     operations := [(pending_operation \<lparr>mu_id = OperationId 40, mu_run_id = RunId 1, mu_kind = ''agent.launch_foreground'',
         mu_actor_agent_id = None, mu_request = JObj [(''role'', JStr ''lead'')], mu_created_at = 1\<rparr> None)
       \<lparr>op_status := ''succeeded'', op_result := Some (launch_intent_json sample_intent)\<rparr>],
     sessions := [sample_session\<lparr>se_reconciliation_state := RUnknown\<rparr>]\<rparr>"

lemma foreground_launches_are_handed_out_once_witness:
  "\<exists>err. launch_foreground sample_supervisor Operator (OperationId 40) (AgentToken (replicate 32 7))
     \<lparr>sy_db = sample_claimed, sy_world = False\<rparr> = (Inl err, \<lparr>sy_db = sample_claimed, sy_world = False\<rparr>)"
  by (rule foreground_launches_are_handed_out_once [where x = sample_intent and
        r = "hd (operations sample_claimed)" and y = "hd (sessions sample_claimed)"])
    (simp_all add: sample_claimed_def find_operation_def find_session_def pending_operation_def sample_intent_def sample_session_def)

subsection \<open>Reports are fenced\<close>

text \<open>
  Property C33. Only the wrapper of the current foreground session is heard. A report about the
  process, its start or its end, is refused and changes nothing when it does not come from the
  operator, when the session is not the current one of its agent, or when the session is not one
  that a foreground wrapper owns.
\<close>

theorem foreground_reports_are_fenced:
  assumes "caller \<noteq> Operator \<or> \<not> session_scope_is_current (sy_db s) scope
    \<or> (\<forall>x. find_session (sy_db s) (sc_session_id scope) = Some x \<longrightarrow> se_process_owner x \<noteq> ForegroundOwned)"
  shows "(\<exists>err. observe_foreground_started sv caller scope p identity s = (Inl err, s))
    \<and> (\<exists>err. observe_foreground_ended sv caller scope how s = (Inl err, s))"
proof -
  have scope: "refuses (require_foreground_scope sv scope) s" if "caller = Operator"
    using assms that unfolding require_foreground_scope_def
    by (intro refuses_intros reading_intros)
      (auto simp: convert_def refuse_def demand_def refuses_def p_seq_run split: option.splits)
  have both: "refuses (p_seq (require_operator sv caller m) (p_seq (require_foreground_scope sv scope) q)) s"
    for m :: string and q :: "('a, RpcResponse) handler"
  proof (cases "caller = Operator")
    case True
    from refuses_first_seq [OF scope [OF this]] show ?thesis by (blast intro: refuses_seq reading_intros)
  next
    case False
    then have "refuses (require_operator sv caller m) s"
      by (cases caller) (auto simp: require_operator_def demand_def refuse_def refuses_def)
    then show ?thesis by (rule refuses_first_seq)
  qed
  show ?thesis
    using both unfolding observe_foreground_started_def observe_foreground_ended_def refuses_def by blast
qed

lemma foreground_reports_are_fenced_witness:
  "(\<exists>err. observe_foreground_started sample_supervisor Operator sample_scope 7 None \<lparr>sy_db = sample_superseded, sy_world = False\<rparr>
      = (Inl err, \<lparr>sy_db = sample_superseded, sy_world = False\<rparr>))
   \<and> (\<exists>err. observe_foreground_ended sample_supervisor Operator sample_scope EndObservationLost \<lparr>sy_db = sample_superseded, sy_world = False\<rparr>
      = (Inl err, \<lparr>sy_db = sample_superseded, sy_world = False\<rparr>))"
  by (rule foreground_reports_are_fenced) (simp add: sample_scope_superseded)

end
