(* ===== verification/NotificationHandlers.thy ===== *)
theory NotificationHandlers
  imports ForegroundHandlers
begin

section \<open>Foreground notifications (src/src/supervisor/notifications.rs)\<close>

text \<open>
  The wrapper of the foreground session asks whether something is pending, claims a delivery,
  queues it with the provider and reports the outcome; the session itself reports the receipt and,
  through the bridge its provider launched, the thread to notify. Each change is one idempotent
  mutation whose stored result is the answer.
\<close>

definition availability :: "'w Supervisor \<Rightarrow> AuthenticatedCaller \<Rightarrow> ('w, NotificationAvailability) handler" where
  "availability sv caller =
     (case caller of
        Operator \<Rightarrow> p_ret NotificationAvailability.Unavailable
      | Agent scope \<Rightarrow>
          p_bind (rpc_timestamp sv) (\<lambda>now. p_query (\<lambda>db. notification_availability db scope now)))"

subsection \<open>Who may ask\<close>

text \<open>\<open>owns identity pid\<close>: the process is a bridge that the identified provider launched.\<close>

definition bridge_owner ::
    "(ForegroundIdentity \<Rightarrow> nat \<Rightarrow> bool) \<Rightarrow> 'w Supervisor \<Rightarrow> SessionScope \<Rightarrow> nat option \<Rightarrow> ('w, unit) handler" where
  "bridge_owner owns sv scope peer =
     p_bind (p_query (\<lambda>db. foreground_identity db (sv_run sv) (sc_session_id scope))) (\<lambda>identity.
     demand sv (case identity of None \<Rightarrow> False | Some x \<Rightarrow> (case peer of None \<Rightarrow> False | Some pid \<Rightarrow> owns x pid)) PermissionDenied
       ''notification metadata must originate from this foreground provider's host MCP bridge'')"

definition owner_scope ::
    "'w Supervisor \<Rightarrow> AuthenticatedCaller \<Rightarrow> SessionScope \<Rightarrow> operation_id option \<Rightarrow> ('w, SessionScope \<times> operation_id option) handler" where
  "owner_scope sv caller scope i =
     p_seq (require_operator sv caller ''notification delivery belongs to the foreground process owner'') (p_ret (scope, i))"

fun notification_scope ::
    "(ForegroundIdentity \<Rightarrow> nat \<Rightarrow> bool) \<Rightarrow> 'w Supervisor \<Rightarrow> AuthenticatedCaller \<Rightarrow> RpcRequest \<Rightarrow> nat option
      \<Rightarrow> ('w, SessionScope \<times> operation_id option) handler" where
  "notification_scope owns sv caller (ReceiveForegroundNotification i _) peer =
     (case caller of
        Operator \<Rightarrow> refuse sv PermissionDenied
          ''only the authenticated foreground recipient can report a notification receipt''
      | Agent scope \<Rightarrow> p_ret (scope, Some i))"
| "notification_scope owns sv caller (BindForegroundNotifications i thread) peer =
     (case caller of
        Operator \<Rightarrow> refuse sv PermissionDenied ''only a provider-launched MCP bridge can bind notifications''
      | Agent scope \<Rightarrow>
          p_seq (demand sv (valid_thread_id thread) InvalidArgument ''the provider thread ID must be a canonical UUID'')
          (p_seq (bridge_owner owns sv scope peer) (p_ret (scope, Some i))))"
| "notification_scope owns sv caller (EnableForegroundNotifications i scope) peer = owner_scope sv caller scope (Some i)"
| "notification_scope owns sv caller (ClaimForegroundNotification i scope) peer = owner_scope sv caller scope (Some i)"
| "notification_scope owns sv caller (ObserveForegroundNotification i _ scope _) peer = owner_scope sv caller scope (Some i)"
| "notification_scope owns sv caller (ForegroundNotificationPending scope) peer = owner_scope sv caller scope None"
| "notification_scope owns sv caller _ peer = invalid_argument sv ''unsupported notification request''"

subsection \<open>Answers and their stored form\<close>

datatype NotificationAnswer =
  NoticeReceived bool
| NoticesAvailable NotificationAvailability bool
| NoticeClaimed "NotificationClaim option"

fun notification_response :: "NotificationAnswer \<Rightarrow> RpcResponse" where
  "notification_response (NoticeReceived b) = ForegroundNotificationReceived b"
| "notification_response (NoticesAvailable a b) = ForegroundNotifications a b"
| "notification_response (NoticeClaimed c) = ForegroundNotificationClaimed c"

fun availability_text :: "NotificationAvailability \<Rightarrow> string" where
  "availability_text NotificationAvailability.Unavailable = ''unavailable''"
| "availability_text PendingBinding = ''pending_binding''"
| "availability_text Automatic = ''automatic''"
| "availability_text UncertainDelivery = ''uncertain''"

definition availability_of_json :: "json \<Rightarrow> NotificationAvailability option" where
  "availability_of_json j =
     find (\<lambda>a. j = JStr (availability_text a)) [NotificationAvailability.Unavailable, PendingBinding, Automatic, UncertainDelivery]"

definition notice_json :: "NotificationClaim \<Rightarrow> json" where
  "notice_json c = JObj
     [(''operation_id'', operation_json (nc_operation_id c)), (''thread_id'', JStr (nc_thread_id c))]"

definition notice_of_json :: "Env \<Rightarrow> json \<Rightarrow> NotificationClaim option" where
  "notice_of_json e j =
     Option.bind (field (id_of_json e ''co'') ''operation_id'' j) (\<lambda>i.
     Option.bind (field string_of_json ''thread_id'' j) (\<lambda>t.
     Some \<lparr>nc_operation_id = OperationId i, nc_thread_id = t\<rparr>))"

fun notification_answer_json :: "NotificationAnswer \<Rightarrow> json" where
  "notification_answer_json (NoticeReceived b) =
     JObj [(''received'', JBool b), (''result'', JStr ''foreground_notification_received'')]"
| "notification_answer_json (NoticesAvailable a b) =
     JObj [(''availability'', JStr (availability_text a)), (''pending'', JBool b),
           (''result'', JStr ''foreground_notifications'')]"
| "notification_answer_json (NoticeClaimed c) =
     JObj [(''claim'', json_opt notice_json c), (''result'', JStr ''foreground_notification_claimed'')]"

definition notification_answer_of_json :: "Env \<Rightarrow> json \<Rightarrow> NotificationAnswer option" where
  "notification_answer_of_json e j =
     (if tagged ''foreground_notification_received'' j
      then map_option NoticeReceived (field bool_of_json ''received'' j)
      else if tagged ''foreground_notifications'' j
      then Option.bind (field availability_of_json ''availability'' j) (\<lambda>a.
           map_option (NoticesAvailable a) (field bool_of_json ''pending'' j))
      else if tagged ''foreground_notification_claimed'' j
      then map_option NoticeClaimed (option_field (notice_of_json e) ''claim'' j)
      else None)"

text \<open>\<open>serde_json::to_value\<close>: objects as maps ordered by key.\<close>

fun to_value :: "json \<Rightarrow> json" where
  "to_value (JObj fs) = JObj (fold (\<lambda>(k, v). obj_insert k v) (map (\<lambda>(k, v). (k, to_value v)) fs) [])"
| "to_value (JArr xs) = JArr (map to_value xs)"
| "to_value j = j"

subsection \<open>Carrying it out\<close>

definition notification_mutation ::
    "'w Supervisor \<Rightarrow> AuthenticatedCaller \<Rightarrow> operation_id \<Rightarrow> RpcRequest \<Rightarrow> int \<Rightarrow> Mutation" where
  "notification_mutation sv caller i r now =
     \<lparr>mu_id = i, mu_run_id = sv_run sv, mu_kind = ''foreground.notification'', mu_actor_agent_id = caller_agent caller,
      mu_request = to_value (request_json r), mu_created_at = now\<rparr>"

definition now_available :: "SessionScope \<Rightarrow> int \<Rightarrow> NotificationAnswer repo" where
  "now_available scope now = gets (\<lambda>db. NoticesAvailable (notification_availability db scope now) False)"

text \<open>The requests that \<open>notification_scope\<close> refuses do not come this far: \<open>unreachable!\<close>.\<close>

fun notify :: "Env \<Rightarrow> SessionScope \<Rightarrow> operation_id \<Rightarrow> bool \<Rightarrow> int \<Rightarrow> RpcRequest \<Rightarrow> NotificationAnswer repo" where
  "notify e scope i progress now (EnableForegroundNotifications _ _) =
     seq (enable_notifications scope) (now_available scope now)"
| "notify e scope i progress now (BindForegroundNotifications _ thread) =
     bind (bind_notifications scope thread) (\<lambda>bound.
     seq (require bound (CorruptAgentState (sc_agent_id scope))) (now_available scope now))"
| "notify e scope i progress now (ClaimForegroundNotification _ _) =
     bind (claim_notification e scope i progress now) (\<lambda>c. ret (NoticeClaimed c))"
| "notify e scope i progress now (ObserveForegroundNotification _ delivery _ outcome) =
     seq (observe_notification scope delivery outcome now) (now_available scope now)"
| "notify e scope i progress now (ReceiveForegroundNotification _ delivery) =
     bind (receive_notification scope delivery now) (\<lambda>b. ret (NoticeReceived b))"
| "notify e scope i progress now _ = fail Panic"

definition notification_for ::
    "'w Supervisor \<Rightarrow> AuthenticatedCaller \<Rightarrow> RpcRequest \<Rightarrow> SessionScope \<Rightarrow> operation_id option \<Rightarrow> ('w, RpcResponse) handler" where
  "notification_for sv caller r scope operation =
     p_seq (require_foreground_scope sv scope)
     (p_bind (agent_record sv (sc_agent_id scope)) (\<lambda>a.
      p_bind (saved_configuration sv) (\<lambda>c.
      let progress = authorize (ec_archetype c) (ag_role a) \<lparr>namespace = ''task'', action = ''read''\<rparr> = Allowed in
      p_bind (rpc_timestamp sv) (\<lambda>now.
      case operation of
        None \<Rightarrow> p_query (\<lambda>db. ForegroundNotifications (notification_availability db scope now)
          (notification_pending (sv_env sv) db scope progress))
      | Some i \<Rightarrow>
          p_bind (in_store (mutate notification_answer_json (notification_answer_of_json (sv_env sv))
            (notification_mutation sv caller i r now) (notify (sv_env sv) scope i progress now r))) (\<lambda>outcome.
          p_ret (notification_response (mutation_value outcome)))))))"

definition notification_request ::
    "(ForegroundIdentity \<Rightarrow> nat \<Rightarrow> bool) \<Rightarrow> 'w Supervisor \<Rightarrow> AuthenticatedCaller \<Rightarrow> RpcRequest \<Rightarrow> nat option \<Rightarrow> ('w, RpcResponse) handler" where
  "notification_request owns sv caller r peer =
     p_bind (notification_scope owns sv caller r peer) (\<lambda>(scope, operation). notification_for sv caller r scope operation)"

subsection \<open>Only committed transactions\<close>

lemma scripted_notices [scripted_intros]:
  "scripted e (enable_notifications x)" "scripted e (bind_notifications x thread)"
  "scripted e (claim_notification e x i progress now)" "scripted e (observe_notification x i outcome now)"
  "scripted e (receive_notification x i now)"
  by (rule scripted_command [where c = "EnableNotifications x"], simp)
    (rule scripted_command [where c = "BindNotifications x thread"], simp add: discard_run,
     rule scripted_command [where c = "ClaimNotification x i progress now"], simp add: discard_run,
     rule scripted_command [where c = "ObserveNotification x i outcome now"], simp,
     rule scripted_command [where c = "ReceiveNotification x i now"], simp add: discard_run)

lemma scripted_notify [scripted_intros]: "scripted e (notify e x i progress now r)"
  by (cases r; simp add: now_available_def; intro scripted_intros)

lemma reading_foreground_scope [reading_intros]: "reading (require_foreground_scope sv x)"
  unfolding require_foreground_scope_def case_prod_unfold by (intro reading_intros)

lemma reading_availability [reading_intros]: "reading (availability sv caller)"
  unfolding availability_def by (cases caller; simp) (intro reading_intros)+

lemma reading_notification_scope [reading_intros]: "reading (notification_scope owns sv caller r peer)"
  by (cases r; cases caller; simp add: owner_scope_def bridge_owner_def; intro reading_intros)

lemma committing_notification_request [committing_intros]:
  "committing (sv_env sv) (notification_request owns sv caller r peer)"
  unfolding notification_request_def notification_for_def mutate_def Let_def case_prod_unfold
  by (intro committing_intros scripted_intros scripted_mutation reading_committing reading_intros)
    (simp add: notification_mutation_def)

subsection \<open>Who may deliver\<close>

text \<open>
  \<open>may_notify owns sv caller r peer db\<close>: the process that asks is the one that this request is for.
\<close>

fun may_notify ::
    "(ForegroundIdentity \<Rightarrow> nat \<Rightarrow> bool) \<Rightarrow> 'w Supervisor \<Rightarrow> AuthenticatedCaller \<Rightarrow> RpcRequest \<Rightarrow> nat option \<Rightarrow> Db \<Rightarrow> bool" where
  "may_notify owns sv caller (ReceiveForegroundNotification _ _) peer db \<longleftrightarrow>
     (\<exists>scope. caller = Agent scope \<and> session_scope_is_current db scope)"
| "may_notify owns sv caller (BindForegroundNotifications _ thread) peer db \<longleftrightarrow>
     valid_thread_id thread
     \<and> (\<exists>scope x pid. caller = Agent scope \<and> session_scope_is_current db scope
          \<and> foreground_identity db (sv_run sv) (sc_session_id scope) = Some x \<and> peer = Some pid \<and> owns x pid)"
| "may_notify owns sv caller (EnableForegroundNotifications _ scope) peer db \<longleftrightarrow>
     caller = Operator \<and> session_scope_is_current db scope"
| "may_notify owns sv caller (ClaimForegroundNotification _ scope) peer db \<longleftrightarrow>
     caller = Operator \<and> session_scope_is_current db scope"
| "may_notify owns sv caller (ObserveForegroundNotification _ _ scope _) peer db \<longleftrightarrow>
     caller = Operator \<and> session_scope_is_current db scope"
| "may_notify owns sv caller (ForegroundNotificationPending scope) peer db \<longleftrightarrow>
     caller = Operator \<and> session_scope_is_current db scope"
| "may_notify owns sv caller _ peer db \<longleftrightarrow> False"

lemma stale_foreground_refused:
  assumes "\<not> session_scope_is_current (sy_db s) x"
  shows "refuses (require_foreground_scope sv x) s"
  using assms unfolding require_foreground_scope_def
  by (intro refuses_intros reading_intros)
    (auto simp: convert_def refuse_def demand_def refuses_def p_seq_run split: option.splits)

lemma owner_scope_Inr:
  "owner_scope sv caller x i s = (Inr r, t) \<longleftrightarrow> caller = Operator \<and> r = (x, i) \<and> t = s"
  by (cases caller) (auto simp: owner_scope_def require_operator_def p_seq_Inr demand_Inr)

lemma bridge_owner_Inr:
  "bridge_owner owns sv x peer s = (Inr u, t) \<longleftrightarrow>
     (\<exists>y pid. foreground_identity (sy_db s) (sv_run sv) (sc_session_id x) = Some y \<and> peer = Some pid \<and> owns y pid) \<and> t = s"
  by (auto simp: bridge_owner_def demand_Inr split: option.splits)

lemma notification_scope_allowed:
  assumes "notification_scope owns sv caller r peer s = (Inr (x, i), s)" "session_scope_is_current (sy_db s) x"
  shows "may_notify owns sv caller r peer (sy_db s)"
  using assms
  by (cases r; cases caller) (auto simp: owner_scope_Inr p_seq_Inr demand_Inr bridge_owner_Inr)

text \<open>
  Property C12. No agent chooses where its notifications go. A request about notifications is refused
  and changes nothing unless it comes from the process it is for: enabling, claiming and observing
  deliveries from the operator's wrapper of the current foreground session, a receipt from the
  session itself, and a thread to notify only from a bridge that the identified provider process of
  that session launched, with a canonical thread identifier.
\<close>

theorem notification_destinations_are_fenced:
  assumes "\<not> may_notify owns sv caller r peer (sy_db s)"
  shows "\<exists>err. notification_request owns sv caller r peer s = (Inl err, s)"
proof -
  have "refuses (notification_request owns sv caller r peer) s"
    unfolding notification_request_def
  proof (rule refuses_bind [OF reading_notification_scope])
    fix found assume "notification_scope owns sv caller r peer s = (Inr found, s)"
    moreover obtain x i where found: "found = (x, i)" by (cases found)
    ultimately have "\<not> session_scope_is_current (sy_db s) x"
      using assms notification_scope_allowed [of owns sv caller r peer s x i] by auto
    from refuses_first_seq [OF stale_foreground_refused [OF this]]
    show "refuses (case found of (scope, operation) \<Rightarrow> notification_for sv caller r scope operation) s"
      by (simp add: found notification_for_def)
  qed
  then show ?thesis by (simp add: refuses_def)
qed

text \<open>An agent of the sample run names a thread from a process that no provider launched.\<close>

lemma notification_destinations_are_fenced_witness:
  "\<exists>err. notification_request (\<lambda>_ _. False) sample_supervisor (Agent sample_scope)
     (BindForegroundNotifications (OperationId 40) sample_thread) (Some 7) \<lparr>sy_db = sample_foreground, sy_world = False\<rparr>
   = (Inl err, \<lparr>sy_db = sample_foreground, sy_world = False\<rparr>)"
  by (rule notification_destinations_are_fenced) simp

end
