(* ===== verification/RecoveryHandlers.thy ===== *)
theory RecoveryHandlers
  imports SpawnHandlers WorkHandlers
begin

section \<open>Recovering work of a lost worker (src/src/supervisor/recovery.rs, retained.rs)\<close>

text \<open>
  Before the store retires a worker or accepts its retained work, the handler asks the provider
  whether the process has ended and the workspace backend what the worktree holds. All of this is
  skipped when the operation was requested before: the store then returns the recorded result.
\<close>

definition reported_text_ok :: "ReportedEvidence \<Rightarrow> bool" where
  "reported_text_ok v \<longleftrightarrow> \<not> is_blank (re_text v) \<and> \<not> is_blank (re_source v)"

definition report_ok :: "RecoveryReport \<Rightarrow> bool" where
  "report_ok r \<longleftrightarrow> list_all reported_text_ok (rp_validation_evidence r @ rp_unfinished_steps r)"

text \<open>\<open>serde_json::to_value\<close> of a report: members in the order of their keys.\<close>

definition reported_value :: "ReportedEvidence \<Rightarrow> json" where
  "reported_value v = JObj [(''source'', JStr (re_source v)), (''text'', JStr (re_text v))]"

definition report_value :: "RecoveryReport \<Rightarrow> json" where
  "report_value r = JObj
     [(''unfinished_steps'', JArr (map reported_value (rp_unfinished_steps r))),
      (''validation_evidence'', JArr (map reported_value (rp_validation_evidence r)))]"

definition recover_request :: "assignment_id \<Rightarrow> string \<Rightarrow> RecoveryReport option \<Rightarrow> bool \<Rightarrow> json" where
  "recover_request i reason report acknowledge_lost = JObj
     (optional ''acknowledge_lost'' (\<lambda>_. JBool True) (if acknowledge_lost then Some () else None)
      @ [(''assignment_id'', assignment_json i), (''reason'', JStr reason)]
      @ optional ''report'' report_value report)"

definition recover_mutation ::
    "'w Supervisor \<Rightarrow> AuthenticatedCaller \<Rightarrow> operation_id \<Rightarrow> assignment_id \<Rightarrow> string \<Rightarrow> RecoveryReport option \<Rightarrow> bool \<Rightarrow> int \<Rightarrow> Mutation" where
  "recover_mutation sv caller i assignment reason report acknowledge_lost now =
     \<lparr>mu_id = i, mu_run_id = sv_run sv, mu_kind = ''task.recover'', mu_actor_agent_id = caller_agent caller,
      mu_request = recover_request assignment reason report acknowledge_lost, mu_created_at = now\<rparr>"

text \<open>The scope of the session of an assignment; the preflight made sure that there is one.\<close>

definition assignment_session_scope :: "'w Supervisor \<Rightarrow> AssignmentRecord \<Rightarrow> SessionScope option" where
  "assignment_session_scope sv a =
     map_option (\<lambda>i. \<lparr>sc_run_id = sv_run sv, sc_agent_id = as_agent_id a, sc_session_id = i,
       sc_generation = as_generation a\<rparr>) (as_session_id a)"

definition require_inactive ::
    "'w Supervisor \<Rightarrow> 'w Harness \<Rightarrow> AssignmentRecord \<Rightarrow> bool \<Rightarrow> string \<Rightarrow> ('w, unit) request" where
  "require_inactive sv hs a acknowledge_lost message =
     (case assignment_session_scope sv a of
        None \<Rightarrow> p_fail Unwinds
      | Some scope \<Rightarrow>
          p_bind (in_sessions (if acknowledge_lost then verify_recovery_absence sv hs scope else verify_recovery_exit sv hs scope))
            (\<lambda>inactive. p_outer (demand sv inactive Conflict message)))"

fun advise :: "string \<Rightarrow> HandlerError \<Rightarrow> HandlerError" where
  "advise hint (Refused f) = Refused (f\<lparr>rf_message := Advised (rf_message f) hint\<rparr>)"
| "advise hint err = err"

definition inspect_source ::
    "'w Supervisor \<Rightarrow> 'w Harness \<Rightarrow> AuthenticatedCaller \<Rightarrow> operation_id \<Rightarrow> assignment_id \<Rightarrow> RecoveryReport option \<Rightarrow> bool \<Rightarrow> int
      \<Rightarrow> ('w, RecoveryHandoff) request" where
  "inspect_source sv hs caller i assignment report acknowledge_lost now =
     p_bind (p_outer (in_store (lift_result (\<lambda>db. recovery_preflight (sv_env sv) db (sv_run sv) assignment acknowledge_lost)))) (\<lambda>(a, _).
     p_seq (require_inactive sv hs a acknowledge_lost
       ''the provider cannot verify process inactivity; preserve the workspace and inspect `coterie doctor` before retrying `coterie task recover`'')
     (p_bind (p_outer (p_error (advise ''; preserve the source and inspect `coterie doctor` before retrying `coterie task recover`'')
        (in_workspace (observe_source (sv_backend sv) (assignment_scope a))))) (\<lambda>mechanical.
      p_ret \<lparr>ho_operation_id = i, ho_source_assignment_id = assignment, ho_recorded_at = now,
             ho_reported_by = caller_agent caller, ho_mechanical = mechanical,
             ho_reported = (case report of None \<Rightarrow> \<lparr>rp_validation_evidence = [], rp_unfinished_steps = []\<rparr> | Some r \<Rightarrow> r)\<rparr>)))"

definition recover_closure ::
    "Env \<Rightarrow> Mutation \<Rightarrow> assignment_id \<Rightarrow> string \<Rightarrow> RecoveryHandoff option \<Rightarrow> bool \<Rightarrow> (operation_id \<times> RecoverySummary) repo" where
  "recover_closure e m assignment reason handoff acknowledge_lost =
     (case handoff of
        None \<Rightarrow> fail Panic
      | Some h \<Rightarrow> bind (recover_assignment e m assignment reason h acknowledge_lost) (\<lambda>r. ret (mu_id m, r)))"

definition recover_task ::
    "'w Supervisor \<Rightarrow> 'w Harness \<Rightarrow> AuthenticatedCaller \<Rightarrow> operation_id \<Rightarrow> assignment_id \<Rightarrow> string \<Rightarrow> RecoveryReport option \<Rightarrow> bool
      \<Rightarrow> string \<Rightarrow> ('w, RpcResponse) request" where
  "recover_task sv hs caller i assignment reason report acknowledge_lost fp =
     p_seq (p_outer (require_current_caller sv caller))
     (p_seq (p_outer (require_capability sv caller ''task'' ''recover''))
     (p_seq (p_outer (demand sv (acknowledge_lost \<longrightarrow> caller = Operator) PermissionDenied
        ''acknowledging a lost worker requires the local operator''))
     (p_seq (p_outer (demand sv (\<not> is_blank reason) InvalidArgument ''recovery requires a nonempty --reason''))
     (p_seq (p_outer (demand sv (case report of None \<Rightarrow> True | Some r \<Rightarrow> report_ok r) InvalidArgument
        ''every reported check and unfinished step requires nonempty text and a source reference''))
     (p_bind (p_outer (rpc_timestamp sv)) (\<lambda>now.
      p_bind (p_query (\<lambda>db. find_operation db i)) (\<lambda>existing.
      p_bind (if existing = None
              then p_bind (inspect_source sv hs caller i assignment report acknowledge_lost now) (\<lambda>h. p_ret (Some h))
              else p_ret None) (\<lambda>handoff.
      let m = recover_mutation sv caller i assignment reason report acknowledge_lost now in
      p_bind (p_outer (in_store (mutate_with_fingerprint recovered_response_json (recovered_response_of_json (sv_env sv)) m
         (Some fp) (recover_closure (sv_env sv) m assignment reason handoff acknowledge_lost)))) (\<lambda>outcome.
      p_ret (TaskRecoveredResponse (fst (mutation_value outcome)) (snd (mutation_value outcome))))))))))))"

subsection \<open>Submitting retained work\<close>

definition retained_value :: "RetainedSubmission \<Rightarrow> json" where
  "retained_value s = JObj
     [(''assignment_id'', assignment_json (rt_assignment_id s)), (''reason'', JStr (rt_reason s)),
      (''result_commit'', JStr (rt_result_commit s)), (''review'', reported_value (rt_review s)),
      (''summary'', JStr (rt_summary s))]"

definition retained_mutation ::
    "'w Supervisor \<Rightarrow> AuthenticatedCaller \<Rightarrow> operation_id \<Rightarrow> RetainedSubmission \<Rightarrow> int \<Rightarrow> Mutation" where
  "retained_mutation sv caller i s now =
     \<lparr>mu_id = i, mu_run_id = sv_run sv, mu_kind = ''task.submit-retained'', mu_actor_agent_id = caller_agent caller,
      mu_request = retained_value s, mu_created_at = now\<rparr>"

definition prepare_retained ::
    "'w Supervisor \<Rightarrow> 'w Harness \<Rightarrow> AuthenticatedCaller \<Rightarrow> RetainedSubmission \<Rightarrow> ('w, TaskSummary) request" where
  "prepare_retained sv hs caller s =
     p_bind (p_outer (in_store (lift_result (\<lambda>db. interrupted_assignment_preflight (sv_env sv) db (sv_run sv)
        (rt_assignment_id s) False (Some (rt_result_commit s)))))) (\<lambda>(a, _).
     p_seq (p_outer (demand sv (caller_agent caller \<noteq> Some (as_agent_id a)) PermissionDenied
        ''retained submission requires an independent caller''))
     (p_seq (require_inactive sv hs a False
        ''the provider cannot verify process inactivity; preserve the worktree and inspect `coterie doctor`'')
     (p_bind (p_outer (in_workspace (observe_result_commit (sv_backend sv) (assignment_scope a)))) (\<lambda>observed.
      p_seq (p_outer (demand sv (observed = Some (rt_result_commit s)) Conflict
        ''the clean owned worktree tip must equal --result; independently review the current commit before retrying `task submit-retained`''))
      (p_outer (task_by_id sv (as_task_id a)))))))"

definition retained_closure ::
    "Env \<Rightarrow> Mutation \<Rightarrow> RetainedSubmission \<Rightarrow> TaskSummary option \<Rightarrow> (operation_id \<times> RetainedSubmissionSummary) repo" where
  "retained_closure e m s prepared =
     (case prepared of
        None \<Rightarrow> fail (OperationIncomplete (mu_id m) ''missing retained submission preflight'')
      | Some t \<Rightarrow>
          bind (submit_retained e m s) (\<lambda>result.
          ret (mu_id m, \<lparr>ry_assignment_id = rt_assignment_id s,
                         ry_task = t\<lparr>tx_result := Some result, tx_status := Submitted, tx_ready := False\<rparr>\<rparr>)))"

definition submit_retained_handler ::
    "'w Supervisor \<Rightarrow> 'w Harness \<Rightarrow> AuthenticatedCaller \<Rightarrow> operation_id \<Rightarrow> RetainedSubmission \<Rightarrow> string \<Rightarrow> ('w, RpcResponse) request" where
  "submit_retained_handler sv hs caller i s fp =
     p_seq (p_outer (require_current_caller sv caller))
     (p_seq (p_outer (require_capability sv caller ''task'' ''submit-retained''))
     (p_seq (p_outer (demand sv (list_all (\<lambda>v. \<not> is_blank v) [rt_summary s, rt_reason s, re_text (rt_review s), re_source (rt_review s)])
        InvalidArgument ''retained submission requires a summary, reason, independent review, and review source''))
     (p_seq (p_outer (demand sv (lower_commit (rt_result_commit s)) InvalidArgument ''--result requires a full lowercase Git commit ID''))
     (p_bind (p_outer (rpc_timestamp sv)) (\<lambda>now.
      p_bind (p_query (\<lambda>db. find_operation db i)) (\<lambda>existing.
      p_bind (if existing = None then p_bind (prepare_retained sv hs caller s) (\<lambda>t. p_ret (Some t)) else p_ret None) (\<lambda>prepared.
      let m = retained_mutation sv caller i s now in
      p_bind (p_outer (in_store (mutate_with_fingerprint retained_response_json (retained_response_of_json (sv_env sv)) m
         (Some fp) (retained_closure (sv_env sv) m s prepared)))) (\<lambda>outcome.
      p_ret (TaskRetainedSubmitted (fst (mutation_value outcome)) (snd (mutation_value outcome)))))))))))"

subsection \<open>What a refused request leaves behind\<close>

text \<open>
  \<open>still\<close> processes never change the database, \<open>atomic\<close> ones do not when they fail. A request that
  inspects the outside world and then runs one mutation is atomic.
\<close>

definition still :: "('w, 'e, 'a) process \<Rightarrow> bool" where
  "still p \<longleftrightarrow> (\<forall>s. sy_db (snd (p s)) = sy_db s)"

definition atomic :: "('w, 'e, 'a) process \<Rightarrow> bool" where
  "atomic p \<longleftrightarrow> (\<forall>s err t. p s = (Inl err, t) \<longrightarrow> sy_db t = sy_db s)"

named_theorems still_intros "rules that show that a process never changes the database"

lemma stillD: "still p \<Longrightarrow> p s = (r, t) \<Longrightarrow> sy_db t = sy_db s"
  unfolding still_def by (metis snd_conv)

lemma atomicD: "atomic p \<Longrightarrow> p s = (Inl err, t) \<Longrightarrow> sy_db t = sy_db s"
  unfolding atomic_def by blast

lemma still_reading: "reading p \<Longrightarrow> still p"
  by (simp add: still_def reading_def)

lemma still_act [still_intros]: "still (p_act f)" "still (p_ret a)" "still (p_fail err)" "still (p_query q)"
  by (simp_all add: still_def)

lemma still_bind [still_intros]:
  assumes "still p" "\<And>a. still (f a)"
  shows "still (p_bind p f)"
  unfolding still_def
proof
  fix s
  obtain r u where run: "p s = (r, u)" by (cases "p s")
  with stillD [OF assms(1) run] assms(2) show "sy_db (snd (p_bind p f s)) = sy_db s"
    by (cases r) (auto simp: p_bind_run still_def)
qed

lemma still_seq [still_intros]: "still p \<Longrightarrow> still q \<Longrightarrow> still (p_seq p q)"
  unfolding p_seq_def by (rule still_bind)

lemma still_option [still_intros]:
  "still p \<Longrightarrow> (\<And>a. still (f a)) \<Longrightarrow> still (case x of None \<Rightarrow> p | Some a \<Rightarrow> f a)"
  by (cases x) auto

lemma still_if [still_intros]: "still p \<Longrightarrow> still q \<Longrightarrow> still (if b then p else q)"
  by simp

lemma still_sum [still_intros]:
  "(\<And>a. still (f a)) \<Longrightarrow> (\<And>b. still (g b)) \<Longrightarrow> still (case x of Inl a \<Rightarrow> f a | Inr b \<Rightarrow> g b)"
  by (cases x) auto

lemma still_outer [still_intros]: "reading p \<Longrightarrow> still (p_outer p)"
  unfolding still_def by (metis p_outer_reading prod.collapse)

lemma still_error [still_intros]: "still p \<Longrightarrow> still (p_error f p)"
  by (simp add: still_def)

lemma atomic_bind:
  assumes p: "still p" and f: "\<And>a. atomic (f a)"
  shows "atomic (p_bind p f)"
  using stillD [OF p] atomicD [OF f] by (fastforce simp: atomic_def p_bind_Inl)

lemma atomic_seq: "still p \<Longrightarrow> atomic q \<Longrightarrow> atomic (p_seq p q)"
  unfolding p_seq_def by (rule atomic_bind)

lemma atomic_last: "atomic (p_bind (p_outer (in_store m)) (\<lambda>a. p_ret (g a)))"
  by (auto simp: atomic_def p_bind_Inl p_outer_def in_store_def p_store_Inl split: prod.splits)

lemma still_configure [still_intros]: "still (configure_provider sv hs run name)" "still (provider_look q)"
  unfolding configure_provider_def session_config_def provider_look_def
  by (intro still_intros still_reading reading_intros)+

lemma still_verify_recovery [still_intros]:
  "still (verify_recovery_exit sv hs scope)" "still (verify_recovery_absence sv hs scope)"
  unfolding verify_recovery_exit_def verify_recovery_absence_def verify_recovery_def recovery_probe_def case_prod_unfold
  by (intro still_intros)+

lemma still_require_inactive [still_intros]: "still (require_inactive sv hs a lost message)"
  unfolding require_inactive_def in_sessions_def by (intro still_intros reading_intros)

lemma still_inspections [still_intros]:
  "still (inspect_source sv hs caller i assignment report lost now)" "still (prepare_retained sv hs caller x)"
  unfolding inspect_source_def prepare_retained_def in_store_def in_workspace_def case_prod_unfold
  by (intro still_intros reading_intros)+

lemma atomic_recovery:
  "atomic (recover_task sv hs caller i assignment reason report lost fp)"
  "atomic (submit_retained_handler sv hs caller i x fp)"
  unfolding recover_task_def submit_retained_handler_def Let_def
  by (intro atomic_bind atomic_seq atomic_last still_intros reading_intros)+

subsection \<open>Only committed transactions\<close>

lemma scripted_recovery [scripted_intros]:
  "scripted e (recover_assignment e m assignment reason h lost)" "scripted e (submit_retained e m x)"
  by (rule scripted_command [where c = "RecoverAssignment m assignment reason h lost"], simp add: discard_run)
    (rule scripted_command [where c = "SubmitRetained m x"], simp add: discard_run)

lemma committing_require_inactive [committing_intros]: "committing e (require_inactive sv hs a lost message)"
  unfolding require_inactive_def by (intro committing_intros)

lemma committing_recovery [committing_intros]:
  "committing (sv_env sv) (recover_task sv hs caller i assignment reason report lost fp)"
  "committing (sv_env sv) (submit_retained_handler sv hs caller i x fp)"
  unfolding recover_task_def recover_mutation_def recover_closure_def inspect_source_def
    submit_retained_handler_def retained_mutation_def retained_closure_def prepare_retained_def Let_def case_prod_unfold
  by (intro committing_intros scripted_intros scripted_mutation; simp)+

subsection \<open>What recovery requires\<close>

definition asked_provider :: "'w Supervisor \<Rightarrow> 'w Harness \<Rightarrow> AgentRecord \<Rightarrow> 'w Agents sys \<Rightarrow> 'w option" where
  "asked_provider sv hs g s =
     (case configuration (sv_library sv) (sv_decode sv) (sv_snapshots sv) (sv_run sv) of
        Inl _ \<Rightarrow> None
      | Inr c \<Rightarrow> map_option (\<lambda>binding. pv_configure (hs_provider hs) binding (aw_outside (sy_world s)))
          (Option.bind (map_of (ar_roles (ec_archetype c)) (ag_role g)) (\<lambda>r. map_of (ec_providers c) (rl_provider r))))"

text \<open>
  \<open>proven_inactive sv hs a lost s w\<close>: the provider that the run configuration binds to the role of
  the worker was asked in the world \<open>w\<close> about the session of the assignment, and its answer proves
  that the process has ended; for a worker whose loss is acknowledged, that it knows of no process.
\<close>

definition proven_inactive :: "'w Supervisor \<Rightarrow> 'w Harness \<Rightarrow> AssignmentRecord \<Rightarrow> bool \<Rightarrow> 'w Agents sys \<Rightarrow> 'w \<Rightarrow> bool" where
  "proven_inactive sv hs a lost s w \<longleftrightarrow>
     (\<exists>i x g provider_id. as_session_id a = Some i \<and> find_session (sy_db s) i = Some x
        \<and> find_agent (sy_db s) (as_agent_id a) = Some g \<and> se_provider_session_id x = Some provider_id
        \<and> asked_provider sv hs g s = Some w
        \<and> (let scope = \<lparr>sc_run_id = sv_run sv, sc_agent_id = as_agent_id a, sc_session_id = i, sc_generation = as_generation a\<rparr>;
               reply = pv_recover (hs_provider hs) w provider_id scope in
           if lost then reply = Inr RecoveryLost else proves_exit scope provider_id reply))"

lemma configure_provider_Inr:
  assumes "configure_provider sv hs (sv_run sv) (ag_role g) s = (Inr u, t)"
  shows "asked_provider sv hs g s = Some (aw_outside (sy_world t)) \<and> sy_db t = sy_db s"
  using assms
  by (auto simp: configure_provider_def asked_provider_def session_config_def run_config_def p_bind_Inr p_act_def outside_def
      split: sum.splits option.splits prod.splits)

lemma verify_recovery_Inr:
  assumes "verify_recovery sv hs s proves v = (Inr True, t)" and run: "sc_run_id s = sv_run sv"
  obtains x g provider_id where "find_session (sy_db v) (sc_session_id s) = Some x" "find_agent (sy_db v) (sc_agent_id s) = Some g"
    "se_provider_session_id x = Some provider_id" "asked_provider sv hs g v = Some (aw_outside (sy_world t))"
    "proves provider_id (pv_recover (hs_provider hs) (aw_outside (sy_world t)) provider_id s)" "sy_db t = sy_db v"
proof -
  from assms(1) obtain x g where x: "find_session (sy_db v) (sc_session_id s) = Some x"
    and g: "find_agent (sy_db v) (sc_agent_id s) = Some g"
    by (auto simp: verify_recovery_def split: option.splits)
  with assms(1) obtain provider_id where p: "se_provider_session_id x = Some provider_id"
    by (auto simp: verify_recovery_def split: option.splits)
  with assms(1) x g obtain q where probed: "recovery_probe sv hs s x g provider_id v = (Inr (Some q), t)" and q: "proves provider_id q"
    by (auto simp: verify_recovery_def p_bind_Inr split: option.splits)
  from probed obtain u where conf: "configure_provider sv hs (sv_run sv) (ag_role g) v = (Inr (), u)"
    and rest: "(case pv_probe (hs_provider hs) (aw_outside (sy_world u)) of
        Inr k \<Rightarrow>
          if pb_name k = se_provider x
          then p_bind (provider_look (\<lambda>w. pv_recover (hs_provider hs) w provider_id s)) (\<lambda>r. p_ret (Some r))
          else p_ret None
      | Inl _ \<Rightarrow> p_ret None) u = (Inr (Some q), t)"
    using run by (auto simp: recovery_probe_def p_seq_Inr p_bind_Inr provider_look_def)
  from rest have t: "t = u" and said: "q = pv_recover (hs_provider hs) (aw_outside (sy_world u)) provider_id s"
    by (cases "pv_probe (hs_provider hs) (aw_outside (sy_world u))"; auto simp: provider_look_def split: if_splits)+
  show ?thesis
    using x g p configure_provider_Inr [OF conf] said q t by (intro that) auto
qed

lemma outer_reading_Inr:
  assumes "reading p"
  shows "p_outer p s = (Inr a, t) \<longleftrightarrow> p (inner s) = (Inr a, inner s) \<and> t = s"
proof
  assume "p_outer p s = (Inr a, t)"
  from p_outer_reading [OF assms this] show "p (inner s) = (Inr a, inner s) \<and> t = s" by simp
next
  assume "p (inner s) = (Inr a, inner s) \<and> t = s"
  then show "p_outer p s = (Inr a, t)" by (simp add: p_outer_def inner_def)
qed

lemmas outer_demand_Inr = outer_reading_Inr [OF reading_refuse(2)]

lemma in_sessions_Inr: "in_sessions p s = (Inr a, t) \<longleftrightarrow> p s = (Inr a, t)"
  by (cases "p s"; cases "fst (p s)") (auto simp: in_sessions_def)

lemma require_inactive_Inr:
  assumes "require_inactive sv hs a lost message s = (Inr u, t)"
  shows "proven_inactive sv hs a lost s (aw_outside (sy_world t)) \<and> sy_db t = sy_db s"
proof -
  from assms obtain i where i: "as_session_id a = Some i"
    by (auto simp: require_inactive_def assignment_session_scope_def split: option.splits)
  let ?scope = "\<lparr>sc_run_id = sv_run sv, sc_agent_id = as_agent_id a, sc_session_id = i, sc_generation = as_generation a\<rparr>"
  from assms i have verified: "(if lost then verify_recovery_absence sv hs ?scope else verify_recovery_exit sv hs ?scope) s = (Inr True, t)"
    by (auto simp: require_inactive_def assignment_session_scope_def p_bind_Inr in_sessions_Inr outer_demand_Inr demand_Inr)
  let ?proves = "if lost then (\<lambda>_ r. r = Inr RecoveryLost) else proves_exit ?scope"
  from verified have "verify_recovery sv hs ?scope ?proves s = (Inr True, t)"
    by (auto simp: verify_recovery_absence_def verify_recovery_exit_def split: if_splits)
  from verify_recovery_Inr [OF this] show ?thesis
    using i by (fastforce simp: proven_inactive_def Let_def split: if_splits)
qed

text \<open>\<open>entitled sv caller act db\<close>: an agent that asks has a role with the capability \<open>task:act\<close>.\<close>

definition entitled :: "'w Supervisor \<Rightarrow> AuthenticatedCaller \<Rightarrow> string \<Rightarrow> Db \<Rightarrow> bool" where
  "entitled sv caller act db \<longleftrightarrow>
     (\<forall>agent. caller_agent caller = Some agent \<longrightarrow> (\<exists>g c. find_agent db agent = Some g
        \<and> configuration (sv_library sv) (sv_decode sv) (sv_snapshots sv) (sv_run sv) = Inr c
        \<and> authorize (ec_archetype c) (ag_role g) \<lparr>namespace = ''task'', action = act\<rparr> = Allowed))"

lemma require_capability_entitled:
  assumes "p_outer (require_capability sv caller ''task'' act) s = (Inr u, t)"
  shows "entitled sv caller act (sy_db s) \<and> t = s"
  using iffD1 [OF outer_reading_Inr [OF reading_callers(5)] assms]
  by (auto simp: require_capability_def entitled_def p_bind_Inr agent_record_def
      no_such_agent_def saved_configuration_Inr demand_Inr split: option.splits if_splits)

definition recovery_justified :: "'w Supervisor \<Rightarrow> 'w Harness \<Rightarrow> AuthenticatedCaller \<Rightarrow> assignment_id \<Rightarrow> bool \<Rightarrow> 'w Agents sys \<Rightarrow> bool" where
  "recovery_justified sv hs caller assignment lost s \<longleftrightarrow>
     entitled sv caller ''recover'' (sy_db s) \<and> (lost \<longrightarrow> caller = Operator)
     \<and> (\<exists>a w v. interrupted_assignment_preflight (sv_env sv) (sy_db s) (sv_run sv) assignment lost None = Inr (a, w)
          \<and> proven_inactive sv hs a lost s v)"

definition retained_justified :: "'w Supervisor \<Rightarrow> 'w Harness \<Rightarrow> AuthenticatedCaller \<Rightarrow> RetainedSubmission \<Rightarrow> 'w Agents sys \<Rightarrow> bool" where
  "retained_justified sv hs caller x s \<longleftrightarrow>
     entitled sv caller ''submit-retained'' (sy_db s)
     \<and> (\<exists>a w v. interrupted_assignment_preflight (sv_env sv) (sy_db s) (sv_run sv) (rt_assignment_id x) False
            (Some (rt_result_commit x)) = Inr (a, w)
          \<and> proven_inactive sv hs a False s v \<and> caller_agent caller \<noteq> Some (as_agent_id a)
          \<and> fst (observe_result_commit (sv_backend sv) (assignment_scope a) \<lparr>sy_db = sy_db s, sy_world = v\<rparr>)
              = Inr (Some (rt_result_commit x)))"

lemma in_store_lift_Inr: "in_store (lift_result g) s = (Inr a, t) \<longleftrightarrow> g (sy_db s) = Inr a \<and> t = s"
  by (auto simp: in_store_Inr lift_result_def split: sum.splits)

lemma in_workspace_Inr: "in_workspace p s = (Inr a, t) \<longleftrightarrow> p s = (Inr a, t)"
  by (cases "p s"; cases "fst (p s)") (auto simp: in_workspace_def)

lemma outer_lift_Inr: "p_outer (in_store (lift_result g)) s = (Inr a, t) \<longleftrightarrow> g (sy_db s) = Inr a \<and> t = s"
proof -
  have "reading (in_store (lift_result g))" unfolding in_store_def by (rule reading_lift)
  from outer_reading_Inr [OF this] show ?thesis by (auto simp: in_store_lift_Inr)
qed

lemma inspect_source_Inr:
  assumes "inspect_source sv hs caller i assignment report lost now s = (Inr h, t)"
  shows "\<exists>a w v. interrupted_assignment_preflight (sv_env sv) (sy_db s) (sv_run sv) assignment lost None = Inr (a, w)
    \<and> proven_inactive sv hs a lost s v"
  using assms
  by (auto simp: inspect_source_def p_bind_Inr p_seq_Inr outer_lift_Inr recovery_preflight_def dest!: require_inactive_Inr)

lemma prepare_retained_Inr:
  assumes "prepare_retained sv hs caller x s = (Inr k, t)"
  shows "\<exists>a w v. interrupted_assignment_preflight (sv_env sv) (sy_db s) (sv_run sv) (rt_assignment_id x) False
      (Some (rt_result_commit x)) = Inr (a, w)
    \<and> proven_inactive sv hs a False s v \<and> caller_agent caller \<noteq> Some (as_agent_id a)
    \<and> fst (observe_result_commit (sv_backend sv) (assignment_scope a) \<lparr>sy_db = sy_db s, sy_world = v\<rparr>)
        = Inr (Some (rt_result_commit x))"
proof -
  from assms obtain a w v where pre: "interrupted_assignment_preflight (sv_env sv) (sy_db s) (sv_run sv)
      (rt_assignment_id x) False (Some (rt_result_commit x)) = Inr (a, w)"
    and other: "caller_agent caller \<noteq> Some (as_agent_id a)"
    and quiet: "require_inactive sv hs a False
       ''the provider cannot verify process inactivity; preserve the worktree and inspect `coterie doctor`'' s = (Inr (), v)"
    and seen: "p_outer (in_workspace (observe_result_commit (sv_backend sv) (assignment_scope a))) v = (Inr (Some (rt_result_commit x)), v)"
    by (auto simp: prepare_retained_def p_bind_Inr p_seq_Inr outer_lift_Inr outer_demand_Inr demand_Inr
        outer_reading_Inr in_workspace_def reading_intros)
  have "reading (in_workspace (observe_result_commit (sv_backend sv) (assignment_scope a)))"
    unfolding in_workspace_def by (intro reading_intros)
  from seen have "observe_result_commit (sv_backend sv) (assignment_scope a) (inner v) = (Inr (Some (rt_result_commit x)), inner v)"
    unfolding outer_reading_Inr [OF \<open>reading (in_workspace _)\<close>] in_workspace_Inr by simp
  then have "fst (observe_result_commit (sv_backend sv) (assignment_scope a) \<lparr>sy_db = sy_db s, sy_world = aw_outside (sy_world v)\<rparr>)
      = Inr (Some (rt_result_commit x))"
    using require_inactive_Inr [OF quiet] by (simp add: inner_def)
  with require_inactive_Inr [OF quiet] pre other show ?thesis by blast
qed

definition request_refused :: "('w, 'e, 'a) process \<Rightarrow> 'w sys \<Rightarrow> bool" where
  "request_refused p s \<longleftrightarrow> (\<exists>err t. p s = (Inl err, t) \<and> sy_db t = sy_db s)"

lemma request_refusedI:
  assumes "atomic p" "\<And>a t. p s \<noteq> (Inr a, t)"
  shows "request_refused p s"
proof -
  obtain r t where run: "p s = (r, t)" by (cases "p s")
  with assms(2) obtain err where "r = Inl err" by (cases r) auto
  with atomicD [OF assms(1)] run show ?thesis by (auto simp: request_refused_def)
qed

text \<open>
  Property C10. Work is taken from a lost worker only on proof. A first request to recover its
  assignment, or to submit the work it left behind, is refused and leaves the database unchanged
  unless an agent that asks has the capability for it, the assignment is one of an ended or lost
  session with an observed unsubmitted worktree, and the provider of the worker proves that its process
  has ended. A worker without an observed exit is given up only by the operator and when its
  provider knows of no process any more; retained work is submitted only by another
  agent than the worker, and only the commit that its worktree holds.
\<close>

theorem lost_work_needs_proof_of_exit:
  assumes fresh: "find_operation (sy_db s) i = None"
  shows "(\<not> recovery_justified sv hs caller assignment lost s
      \<longrightarrow> request_refused (recover_task sv hs caller i assignment reason report lost fp) s)
    \<and> (\<not> retained_justified sv hs caller x s
      \<longrightarrow> request_refused (submit_retained_handler sv hs caller i x fp) s)"
proof (intro conjI impI request_refusedI atomic_recovery)
  fix r t
  assume "\<not> recovery_justified sv hs caller assignment lost s"
  then show "recover_task sv hs caller i assignment reason report lost fp s \<noteq> (Inr r, t)"
    using fresh
    by (auto simp: recover_task_def recovery_justified_def p_seq_Inr p_bind_Inr outer_demand_Inr demand_Inr
        outer_reading_Inr [OF reading_callers(2)] outer_reading_Inr [OF reading_lookups(1)]
        dest!: require_capability_entitled inspect_source_Inr)
next
  fix r t
  assume "\<not> retained_justified sv hs caller x s"
  then show "submit_retained_handler sv hs caller i x fp s \<noteq> (Inr r, t)"
    using fresh
    by (auto simp: submit_retained_handler_def retained_justified_def p_seq_Inr p_bind_Inr outer_demand_Inr demand_Inr
        outer_reading_Inr [OF reading_callers(2)] outer_reading_Inr [OF reading_lookups(1)]
        dest!: require_capability_entitled prepare_retained_Inr)
qed

definition retained_sample :: RetainedSubmission where
  "retained_sample =
     \<lparr>rt_assignment_id = AssignmentId 1, rt_result_commit = replicate 40 CHR ''a'', rt_summary = ''done'',
      rt_reason = ''worker lost'', rt_review = \<lparr>re_text = ''checked'', re_source = ''log''\<rparr>\<rparr>"

text \<open>The sample provider cannot tell what became of a session.\<close>

lemma lost_work_needs_proof_of_exit_witness:
  "request_refused (recover_task sample_supervisor sample_harness Operator (OperationId 40) (AssignmentId 1) ''gone'' None True ''fp'')
     \<lparr>sy_db = sample_db, sy_world = managing []\<rparr>
   \<and> request_refused (submit_retained_handler sample_supervisor sample_harness Operator (OperationId 40) retained_sample ''fp'')
     \<lparr>sy_db = sample_db, sy_world = managing []\<rparr>"
proof -
  let ?s = "\<lparr>sy_db = sample_db, sy_world = managing []\<rparr>"
  have fresh: "find_operation (sy_db ?s) (OperationId 40) = None"
    by (simp add: find_operation_def sample_db_def empty_db_def)
  have unproven: "\<not> proven_inactive sample_supervisor sample_harness a lost ?s v" for a lost v
    by (auto simp: proven_inactive_def proves_exit_def Let_def)
  have "\<not> recovery_justified sample_supervisor sample_harness Operator (AssignmentId 1) True ?s"
    "\<not> retained_justified sample_supervisor sample_harness Operator retained_sample ?s"
    by (simp_all add: recovery_justified_def retained_justified_def unproven)
  with lost_work_needs_proof_of_exit [OF fresh] show ?thesis by blast
qed

end
