(* ===== verification/Reconciler.thy ===== *)
theory Reconciler
  imports SpawnHandlers ForegroundHandlers WorkHandlers
begin

section \<open>Reconciling operations (src/src/supervisor.rs)\<close>

text \<open>
  Operations whose external effect is not settled are taken up again, after a restart and then
  periodically: the durable state of the session or of the workspace tells what became of a launch
  or of an integration, and what has not started yet is attempted again.
\<close>

text \<open>
  \<open>SupervisorError\<close>, as far as these functions return it: a rejection, an error of the store, the
  clock; and a loop that does not end.
\<close>

datatype SupervisorError = RejectedError RpcFailure | SupervisorState StoreError | SupervisorClock | SupervisorDiverges

type_synonym ('w, 'a) runtime = "('w Agents, SupervisorError, 'a) process"

fun supervisor_rpc_failure :: "SupervisorError \<Rightarrow> HandlerError" where
  "supervisor_rpc_failure (RejectedError f) = Refused f"
| "supervisor_rpc_failure (SupervisorState err) = rpc_state_failure err"
| "supervisor_rpc_failure SupervisorClock = Refused \<lparr>rf_code = Internal, rf_message = ClockMessage\<rparr>"
| "supervisor_rpc_failure SupervisorDiverges = Diverges"

subsection \<open>Recording what was found\<close>

definition already_settled :: "operation_id \<Rightarrow> ExternalResourceState \<Rightarrow> string option \<Rightarrow> Db \<Rightarrow> bool" where
  "already_settled i state err db \<longleftrightarrow>
     (case find_operation db i of
        None \<Rightarrow> False
      | Some r \<Rightarrow> op_reconciliation_state r = Some state \<and> op_reconciliation_error r = err \<and> op_reconciled_at r \<noteq> None)"

definition settle_in :: "Env \<Rightarrow> operation_id \<Rightarrow> ExternalResourceState \<Rightarrow> string option \<Rightarrow> int \<Rightarrow> unit repo" where
  "settle_in e i state raw at =
     (case redact_error e raw of
        None \<Rightarrow> fail Panic
      | Some err \<Rightarrow>
          bind (gets (already_settled i state err)) (\<lambda>settled.
          if settled then ret () else discard (record_operation_reconciliation e i state err at)))"

definition settle :: "'v Supervisor \<Rightarrow> operation_id \<Rightarrow> ExternalResourceState \<Rightarrow> string option \<Rightarrow> int \<Rightarrow> ('w, unit) runtime" where
  "settle sv i state err at = p_store SupervisorState (settle_in (sv_env sv) i state err at)"

text \<open>\<open>why j\<close> is the reason that \<open>serde_json\<close> gives for not reading \<open>j\<close>.\<close>

definition operation_result :: "(json \<Rightarrow> string) \<Rightarrow> Env \<Rightarrow> (json \<Rightarrow> 'a option) \<Rightarrow> OperationRecord \<Rightarrow> string + 'a" where
  "operation_result why e dec r =
     (case op_result r of
        None \<Rightarrow> Inl (''operation '' @ operation_text e (op_id r) @ '' has no durable result'')
      | Some j \<Rightarrow>
          (case dec j of
             None \<Rightarrow> Inl (''operation '' @ operation_text e (op_id r) @ '' has an invalid durable result: '' @ why j)
           | Some x \<Rightarrow> Inr x))"

definition known_state :: "OperationRecord \<Rightarrow> ExternalResourceState \<Rightarrow> bool" where
  "known_state r state \<longleftrightarrow> op_reconciliation_state r = Some state \<and> op_reconciled_at r \<noteq> None"

subsection \<open>Foreground launches\<close>

definition foreground_resource :: "SessionRecord option \<Rightarrow> ExternalResourceState" where
  "foreground_resource found =
     (case found of
        None \<Rightarrow> RLost
      | Some x \<Rightarrow> if se_provider_session_id x \<noteq> None then RObserved else se_reconciliation_state x)"

definition reconcile_foreground_operation ::
    "(json \<Rightarrow> string) \<Rightarrow> 'v Supervisor \<Rightarrow> OperationRecord \<Rightarrow> int \<Rightarrow> ('w, unit) runtime" where
  "reconcile_foreground_operation why sv r at =
     (case operation_result why (sv_env sv) (launch_intent_of_json (sv_env sv)) r of
        Inl err \<Rightarrow> settle sv (op_id r) RUnknown (Some err) at
      | Inr intent \<Rightarrow>
          p_bind (p_query (\<lambda>db. foreground_resource (find_session db (li_session_id intent)))) (\<lambda>state.
          if known_state r state then p_ret ()
          else settle sv (op_id r) state
            (if state = RObserved then None
             else Some (''foreground session '' @ session_text (sv_env sv) (li_session_id intent) @ '' is '' @ resource_as_str state)) at))"

subsection \<open>Spawns\<close>

definition resume_spawn ::
    "(FailureText \<Rightarrow> string) \<Rightarrow> 'w Supervisor \<Rightarrow> 'w Harness \<Rightarrow> RuntimePaths \<Rightarrow> OperationRecord \<Rightarrow> SpawnIntent \<Rightarrow> AgentToken option \<Rightarrow> int
      \<Rightarrow> ('w, unit) runtime" where
  "resume_spawn display sv hs paths r intent token at =
     (case Option.bind (json_get ''role'' (op_request r)) string_of_json of
        None \<Rightarrow> settle sv (op_id r) RUnknown (Some ''spawn operation has no role'') at
      | Some name \<Rightarrow>
          p_bind (p_result (map_sum SupervisorState id
            (configuration (sv_library sv) (sv_decode sv) (sv_snapshots sv) (sv_run sv)))) (\<lambda>c.
          case map_of (ar_roles (ec_archetype c)) name of
            None \<Rightarrow> settle sv (op_id r) RUnknown (Some (''spawn role `'' @ name @ ''` is no longer configured'')) at
          | Some _ \<Rightarrow>
              (case map_of (ec_roles c) name of
                 None \<Rightarrow> settle sv (op_id r) RUnknown (Some (''spawn role `'' @ name @ ''` has no permission profile'')) at
               | Some role_policy \<Rightarrow>
                   p_bind (p_attempt (attempt_spawn_operation display sv hs paths token
                     \<lparr>sp_operation_id = op_id r, sp_role = name, sp_permission_profile = er_permission_profile role_policy,
                      sp_intent = intent, sp_created_at = op_created_at r, sp_reconciled_at = at\<rparr>)) (\<lambda>outcome.
                   case outcome of
                     Inl Unwinds \<Rightarrow> p_fail (SupervisorState Panic)
                   | Inl Diverges \<Rightarrow> p_fail SupervisorDiverges
                   | _ \<Rightarrow> p_ret ()))))"

definition spawn_given_up :: "OperationRecord \<Rightarrow> SpawnIntent \<Rightarrow> Db \<Rightarrow> bool" where
  "spawn_given_up r intent db \<longleftrightarrow>
     known_state r RUnknown
     \<and> (case find_workspace db (si_assignment_id intent) of None \<Rightarrow> True | Some w \<Rightarrow> ws_state w \<noteq> RObserved)"

definition reconcile_spawn_operation ::
    "(json \<Rightarrow> string) \<Rightarrow> (FailureText \<Rightarrow> string) \<Rightarrow> 'w Supervisor \<Rightarrow> 'w Harness \<Rightarrow> RuntimePaths \<Rightarrow> OperationRecord
      \<Rightarrow> AgentToken option \<Rightarrow> int \<Rightarrow> ('w, unit) runtime" where
  "reconcile_spawn_operation why display sv hs paths r token at =
     (case operation_result why (sv_env sv) (spawn_intent_of_json (sv_env sv)) r of
        Inl err \<Rightarrow> settle sv (op_id r) RUnknown (Some err) at
      | Inr intent \<Rightarrow>
          p_bind (p_query (\<lambda>db. (find_session db (si_session_id intent), spawn_given_up r intent db))) (\<lambda>(found, given_up).
          case found of
            None \<Rightarrow> if given_up then p_ret () else resume_spawn display sv hs paths r intent token at
          | Some x \<Rightarrow>
              if se_provider_session_id x \<noteq> None then settle sv (op_id r) RObserved None at
              else if se_reconciliation_state x = RDesired then resume_spawn display sv hs paths r intent token at
              else if known_state r (se_reconciliation_state x) then p_ret ()
              else settle sv (op_id r) (se_reconciliation_state x)
                (Some (''provider session '' @ session_text (sv_env sv) (si_session_id intent) @ '' is ''
                  @ resource_as_str (se_reconciliation_state x))) at))"

subsection \<open>Integrations\<close>

definition reconcile_integration_operation ::
    "(json \<Rightarrow> string) \<Rightarrow> (WorkspaceError \<Rightarrow> string) \<Rightarrow> 'w Supervisor \<Rightarrow> OperationRecord \<Rightarrow> int \<Rightarrow> ('w, unit) runtime" where
  "reconcile_integration_operation why display sv r at =
     (case operation_result why (sv_env sv) (plan_of_json (sv_env sv)) r of
        Inl err \<Rightarrow> settle sv (op_id r) RUnknown (Some err) at
      | Inr plan \<Rightarrow>
          if ip_run_id plan \<noteq> op_run_id r
          then settle sv (op_id r) RUnknown (Some ''integration plan belongs to another run'') at
          else
            p_bind (p_query (\<lambda>db. Option.bind (find_workspace db (ip_assignment_id plan)) ws_target_commit)) (\<lambda>target.
            if target \<noteq> None then settle sv (op_id r) RObserved None at
            else
              p_bind (p_attempt (p_outer (integrate (sv_env sv) (sv_backend sv) (plan_scope plan) plan (op_id r) ''reconciler'' at))) (\<lambda>outcome.
              case outcome of
                Inr _ \<Rightarrow> p_ret ()
              | Inl (WorkspaceState Panic) \<Rightarrow> p_fail (SupervisorState Panic)
              | Inl err \<Rightarrow> settle sv (op_id r) RUnknown (Some (display err)) at)))"

subsection \<open>One pass over the operations\<close>

text \<open>\<open>tokens\<close> are the random tokens that the launches of this pass would draw.\<close>

definition reconcile_operation ::
    "(json \<Rightarrow> string) \<Rightarrow> (FailureText \<Rightarrow> string) \<Rightarrow> (WorkspaceError \<Rightarrow> string) \<Rightarrow> 'w Supervisor \<Rightarrow> 'w Harness \<Rightarrow> RuntimePaths
      \<Rightarrow> (operation_id \<Rightarrow> AgentToken option) \<Rightarrow> int \<Rightarrow> bool \<Rightarrow> OperationRecord \<Rightarrow> ('w, unit) runtime" where
  "reconcile_operation why display display_workspace sv hs paths tokens at halting r =
     (if halting \<and> op_kind r = ''agent.spawn'' then p_ret ()
      else if op_kind r \<in> {''run.stop'', ''project.attach''} then p_ret ()
      else if op_kind r = ''agent.launch_foreground'' then reconcile_foreground_operation why sv r at
      else if op_kind r = ''agent.spawn'' then reconcile_spawn_operation why display sv hs paths r (tokens (op_id r)) at
      else if op_kind r = ''workspace.integrate'' then reconcile_integration_operation why display_workspace sv r at
      else settle sv (op_id r) RUnknown (Some (''operation kind `'' @ op_kind r @ ''` has no reconciler'')) at)"

definition reconcile_operations ::
    "(json \<Rightarrow> string) \<Rightarrow> (FailureText \<Rightarrow> string) \<Rightarrow> (WorkspaceError \<Rightarrow> string) \<Rightarrow> 'w Supervisor \<Rightarrow> 'w Harness \<Rightarrow> RuntimePaths
      \<Rightarrow> (operation_id \<Rightarrow> AgentToken option) \<Rightarrow> int \<Rightarrow> ('w, unit) runtime" where
  "reconcile_operations why display display_workspace sv hs paths tokens at =
     p_bind (p_query (\<lambda>db. (operations_requiring_reconciliation db (sv_run sv), find_run_shutdown db (sv_run sv) \<noteq> None)))
       (\<lambda>(rows, halting). p_each (reconcile_operation why display display_workspace sv hs paths tokens at halting) rows)"

subsection \<open>Only committed transactions\<close>

lemma scripted_settle [scripted_intros]: "scripted e (settle_in e i state raw at)"
proof (cases "redact_error e raw")
  case None
  then show ?thesis by (simp add: settle_in_def scripted_basic)
next
  case (Some err)
  have "scripted e (discard (record_operation_reconciliation e i state err at))"
    by (rule scripted_command [where c = "RecordReconciliation i state err at"]) (auto simp: discard_Inr)
  with Some show ?thesis unfolding settle_in_def by (auto intro!: scripted_intros)
qed

lemma committing_settle [committing_intros]: "committing (sv_env sv) (settle sv i state raw at)"
  unfolding settle_def by (intro committing_intros scripted_intros)

lemma committing_reconciler [committing_intros]:
  "committing (sv_env sv) (reconcile_foreground_operation why sv r at)"
  "committing (sv_env sv) (reconcile_spawn_operation why display sv hs paths r token at)"
  "committing (sv_env sv) (reconcile_integration_operation why display_workspace sv r at)"
proof -
  show "committing (sv_env sv) (reconcile_foreground_operation why sv r at)"
    unfolding reconcile_foreground_operation_def by (intro committing_intros)
  have resume: "committing (sv_env sv) (resume_spawn display sv hs paths r intent token at)" for intent
    unfolding resume_spawn_def
    by (intro committing_intros) (auto intro!: committing_intros split: sum.split HandlerError.split)
  show "committing (sv_env sv) (reconcile_spawn_operation why display sv hs paths r token at)"
    unfolding reconcile_spawn_operation_def case_prod_unfold by (intro committing_intros resume)
  show "committing (sv_env sv) (reconcile_integration_operation why display_workspace sv r at)"
    unfolding reconcile_integration_operation_def
    by (intro committing_intros)
      (auto intro!: committing_intros split: sum.split WorkspaceError.split StoreError.split)
qed

lemma committing_reconcile_operations [committing_intros]:
  "committing (sv_env sv) (reconcile_operations why display display_workspace sv hs paths tokens at)"
  unfolding reconcile_operations_def reconcile_operation_def case_prod_unfold by (intro committing_intros)

subsection \<open>Runs that are stopping\<close>

text \<open>\<open>crew old db\<close>: the agents, sessions, credentials and launches of \<open>old\<close>, row for row.\<close>

definition crew :: "Db \<Rightarrow> Db \<Rightarrow> bool" where
  "crew old db \<longleftrightarrow> agents db = agents old \<and> sessions db = sessions old \<and> credentials db = credentials old
     \<and> launch_attempts db = launch_attempts old"

lemma keeps_crew [keeps_intros]:
  "keeps (crew old) (append_event e n)" "keeps (crew old) (log_event e n)"
  "keeps (crew old) (modify (operations_update f))" "keeps (crew old) (modify (workspaces_update g))"
proof -
  show ev: "keeps (crew old) (append_event e n)" for e n by (rule keeps_append_event_frame) (simp add: crew_def)
  show "keeps (crew old) (log_event e n)" unfolding log_event_def by (intro keeps_intros ev)
qed (intro keeps_modify; simp add: crew_def)+

lemma crew_kept [keeps_intros]:
  "keeps (crew old) (record_operation_reconciliation e i state raw at)"
  "keeps (crew old) (record_workspace_target_commit scope c)" "keeps (crew old) (note_integration e scope w r i actor at outcome)"
  unfolding record_operation_reconciliation_def append_operation_reconciliation_event_def Let_def
    record_workspace_target_commit_def note_integration_def
  by (intro keeps_intros)+

lemma crew_settled [keeps_intros]:
  "keeps (crew old) (settle_in e i state raw at)" "keeps (crew old) (record_integration e scope w r i actor integrated at)"
  unfolding settle_in_def discard_def record_integration_def by (intro keeps_intros)+

text \<open>\<open>same_crew old handles s\<close>: besides, the session supervisor manages the same processes.\<close>

definition same_crew :: "Db \<Rightarrow> (session_id \<times> ProviderSessionHandle) list \<Rightarrow> 'w Agents sys \<Rightarrow> bool" where
  "same_crew old handles s \<longleftrightarrow> crew old (sy_db s) \<and> aw_sessions (sy_world s) = handles"

lemma same_crew_outer:
  assumes "p_inv (\<lambda>v. crew old (sy_db v)) p"
  shows "p_inv (same_crew old handles) (p_outer p)"
  using assms unfolding p_inv_def same_crew_def p_outer_def case_prod_unfold
  by (auto dest: spec [of _ "\<lparr>sy_db = sy_db s, sy_world = aw_outside (sy_world s)\<rparr>" for s])

lemma same_crew_settle [p_inv_intros]: "p_inv (same_crew old handles) (settle sv i state raw at)"
  unfolding settle_def by (intro p_inv_store) (auto simp: same_crew_def dest: keepsD [OF crew_settled(1)])

lemma same_crew_integrate [p_inv_intros]: "p_inv (same_crew old handles) (p_outer (integrate e be scope plan i actor at))"
proof (rule same_crew_outer)
  have act: "p_inv (\<lambda>v. crew old (sy_db v)) (backend_act f)" for f :: "'w \<Rightarrow> (WorkspaceBackendError + 'b) \<times> 'w"
    unfolding backend_act_def by (intro p_inv_intros p_inv_act) simp
  have records: "p_inv (\<lambda>v. crew old (sy_db v)) (workspace_records scope)" for scope :: AssignmentScope
    by (intro p_inv_reading reading_intros)
  have store: "p_inv (\<lambda>v. crew old (sy_db v)) (p_store WorkspaceState m)" if "keeps (crew old) m" for m :: "unit repo"
    using that by (intro p_inv_store) (auto dest: keepsD)
  show "p_inv (\<lambda>v. crew old (sy_db v)) (integrate e be scope plan i actor at)"
    unfolding integrate_def by (intro p_inv_intros act records store keeps_intros)
qed

lemma same_crew_each [p_inv_intros]: "(\<And>x. x \<in> set xs \<Longrightarrow> p_inv I (f x)) \<Longrightarrow> p_inv I (p_each f xs)"
  by (induction xs) (auto intro: p_inv_intros p_inv_basic)

lemma same_crew_reconciled:
  "p_inv (same_crew old handles) (reconcile_operation why display display_workspace sv hs paths tokens at True r)"
proof -
  have foreground: "p_inv (same_crew old handles) (reconcile_foreground_operation why sv r at)"
    unfolding reconcile_foreground_operation_def by (intro p_inv_intros)
  have integration: "p_inv (same_crew old handles) (reconcile_integration_operation why display_workspace sv r at)"
    unfolding reconcile_integration_operation_def
    by (intro p_inv_intros)
      (auto intro!: p_inv_intros split: sum.split WorkspaceError.split StoreError.split)
  show ?thesis
    unfolding reconcile_operation_def
    by (cases "op_kind r = ''agent.spawn''") (auto intro!: p_inv_intros foreground integration)
qed

text \<open>
  Property C11. A run that is stopping launches nothing on its own. Once a stop of the run is
  recorded, a pass of the reconciler over its unfinished operations leaves every agent, session,
  credential and launch attempt as it is and manages no process it did not manage before: launches
  that were only intended are not taken up again.
\<close>

theorem stopping_runs_resume_no_launch:
  assumes stopping: "find_run_shutdown (sy_db s) (sv_run sv) \<noteq> None"
    and run: "reconcile_operations why display display_workspace sv hs paths tokens at s = (r, t)"
  shows "agents (sy_db t) = agents (sy_db s) \<and> sessions (sy_db t) = sessions (sy_db s)
    \<and> credentials (sy_db t) = credentials (sy_db s) \<and> launch_attempts (sy_db t) = launch_attempts (sy_db s)
    \<and> aw_sessions (sy_world t) = aw_sessions (sy_world s)"
proof -
  let ?rows = "operations_requiring_reconciliation (sy_db s) (sv_run sv)"
  from run stopping have each: "p_each (reconcile_operation why display display_workspace sv hs paths tokens at True) ?rows s = (r, t)"
    by (simp add: reconcile_operations_def)
  have "p_inv (same_crew (sy_db s) (aw_sessions (sy_world s)))
      (p_each (reconcile_operation why display display_workspace sv hs paths tokens at True) ?rows)"
    by (intro p_inv_intros same_crew_reconciled)
  from p_invD [OF this each] show ?thesis by (simp add: same_crew_def crew_def)
qed

text \<open>The sample run with a recorded stop and a spawn that was never carried out.\<close>

definition sample_stopping :: Db where
  "sample_stopping = sample_db\<lparr>
     operations := [(pending_operation \<lparr>mu_id = OperationId 40, mu_run_id = RunId 1, mu_kind = ''agent.spawn'',
         mu_actor_agent_id = None, mu_request = JObj [(''role'', JStr ''worker'')], mu_created_at = 1\<rparr> None)
       \<lparr>op_status := ''succeeded'', op_reconciliation_state := Some RDesired\<rparr>],
     run_shutdowns := [\<lparr>rs_run_id = RunId 1, rs_operation_id = OperationId 41, rs_phase = Interrupting,
       rs_requested_at_ms = 1000, rs_interrupt_until_ms = 2000, rs_deadline_ms = 3000\<rparr>]\<rparr>"

lemma stopping_runs_resume_no_launch_witness:
  "sessions (sy_db (snd (reconcile_operations (\<lambda>_. []) (\<lambda>_. []) (\<lambda>_. []) sample_supervisor sample_harness
     \<lparr>rp_run_state_directory = ''/r'', rp_socket_path = ''/s''\<rparr> (\<lambda>_. None) 9
     \<lparr>sy_db = sample_stopping, sy_world = managing []\<rparr>))) = sessions sample_stopping"
proof -
  let ?s = "\<lparr>sy_db = sample_stopping, sy_world = managing []\<rparr>"
  have "find_run_shutdown (sy_db ?s) (sv_run sample_supervisor) \<noteq> None"
    by (simp add: find_run_shutdown_def sample_stopping_def)
  from stopping_runs_resume_no_launch [OF this prod.collapse [symmetric]] show ?thesis by simp
qed

end
