(* ===== verification/Spec2Isabelle.thy ===== *)
theory Spec2Isabelle
  imports WorkHandlers MessageHandlers SpawnHandlers ForegroundHandlers NotificationHandlers RecoveryHandlers Reconciler
begin

text \<open>
  Coterie runs a crew of coding agents for one user. Its supervisor (src/supervisor.rs and
  src/supervisor/) is the only writer of one SQLite database (src/state.rs and src/state/); every
  handler of the supervisor is a sequence of transactions over that database, between which it
  calls the provider of the agents and the workspace backend, and agents, which are separate
  processes, reach it only through authenticated requests. What makes the program correct is
  therefore what its store operations guarantee, in any order and after any crash, what the handlers
  check before they use them, together with the pure code that decides authority: identifiers and tokens (src/id.rs, src/auth.rs), the task
  lifecycle (src/tasks.rs), permissions and archetypes (src/config/policy.rs, src/config.rs), the
  resolution of layered configuration (src/config/resolver.rs), locks and run snapshots
  (src/config/lock.rs, src/config/snapshot.rs) and the redaction of secrets (src/redaction.rs). Paths are relative to the crate directory.

  Model. The database is the record \<open>Db\<close> with one list of rows per table, in insertion order
  (rowid order). A store operation is an action \<open>Db \<Rightarrow> StoreError + ('a \<times> Db)\<close>, composed with
  \<open>bind\<close> and \<open>seq\<close> as the Rust code sequences its statements and its \<open>?\<close>; an UPDATE is
  \<open>update_where\<close>, an INSERT checks the constraints of the migrations and fails as SQLite aborts.
  \<open>transaction\<close> keeps the changes of a successful closure and drops those of a failed one. 64-bit
  integers are \<open>int\<close>, with saturation and truncation written out where the code has them; texts
  are \<open>string\<close>; stored JSON is the datatype \<open>json\<close>.

  Theories. \<open>Prelude\<close>: actions, tables, the locale \<open>invariant_operation\<close> and list lemmas.
  \<open>Values\<close>: ids and JSON (src/id.rs). \<open>Tasks\<close> (src/tasks.rs). \<open>Lifecycle\<close>: session and
  resource states (src/providers.rs, src/state.rs). \<open>Policy\<close> and \<open>Archetype\<close> (src/config/policy.rs,
  src/config.rs). \<open>Resolver\<close> (src/config/resolver.rs, src/config/provenance.rs,
  src/config/input.rs): resolution as an action that threads the provenance, with a lookup that
  would panic as the failure \<open>Panicked\<close>. \<open>Resolution\<close>: a Hoare logic \<open>resolves\<close> for these actions,
  the invariant \<open>config_ok\<close> of an accepted configuration and the properties. \<open>Snapshot\<close>
  (src/config/lock.rs, src/config/snapshot.rs, src/state/configuration.rs): locks, their
  comparison, and run configurations stored in the database. \<open>Redaction\<close> (src/redaction.rs). \<open>Token\<close> (src/auth.rs). \<open>Records\<close>: the rows,
  mutations, errors and the transaction wrapper of src/state.rs and src/state/supervision.rs.
  \<open>Schema\<close>: the constraints of src/state/migrations. \<open>Repositories\<close> and \<open>Events\<close>: inserts,
  queries and the event log. \<open>Store\<close>: the invariant \<open>store_ok\<close>, the order \<open>extends\<close> on databases
  and what it means for an operation to be \<open>safe\<close>. \<open>Mutations\<close>, \<open>Claims\<close>, \<open>Creation\<close>,
  \<open>Transitions\<close>, \<open>Sessions\<close>, \<open>Messages\<close>, \<open>Workspaces\<close>, \<open>Reconciliation\<close>, \<open>Recovery\<close>:
  the operations of src/state.rs, src/state/resubmit.rs and src/state/recovery.rs. \<open>Supervision\<close>
  and \<open>Shutdown\<close>: src/state/supervision.rs. \<open>EventLog\<close>: appending several events. \<open>TaskRecovery\<close>
  (src/state/recovery.rs, src/protocol/recovery.rs): retiring an interrupted worker with its
  handoff, and reading both back for the continuation. \<open>RunRecovery\<close> (src/state/run_recovery.rs):
  reactivating a stopped run. \<open>Notifications\<close> (src/state/notifications.rs,
  src/protocol/notifications.rs): the deliveries of a foreground session, with the step relation
  \<open>notification_step\<close> and its invariant \<open>notifications_ok\<close>. \<open>Frames\<close>: which operations leave the
  notifications alone, and which leave alone the idempotency keys of launches (\<open>elsewhere\<close>).
  \<open>Samples\<close>: the concrete databases of the witnesses.
  \<open>Retained\<close> (src/state/foreground.rs, src/state/retained.rs): process identities and the
  submission of retained work.
  \<open>Commits\<close> makes the store a state machine: one \<open>command\<close> per state-changing operation, \<open>commits\<close>
  for the databases that committed transactions lead to, and \<open>scripted\<close> for the operations that
  are lists of commands; \<open>settles\<close> are the commands that may end the attempt of a launch in flight.

  The supervisor. A handler is a \<open>process\<close> (theory \<open>Effects\<close>): a function of the database and of
  an outside world, which returns an error or a value and the new state. \<open>p_store\<close> runs one
  transaction, \<open>p_act\<close> one call to the outside, and the other combinators sequence them as the code
  does. The outside is a type parameter: \<open>WorkspaceBackend\<close> (\<open>Worktrees\<close>, src/workspace.rs) and
  \<open>Provider\<close> (\<open>Providers\<close>, src/providers.rs) are records of functions on it, with the operations of
  the traits of that name. \<open>Requests\<close> and \<open>Responses\<close> (src/protocol.rs): requests, framing,
  answers and their serialised forms. \<open>Callers\<close>: authentication, capabilities and summaries.
  \<open>TaskHandlers\<close>, \<open>WorkHandlers\<close>, \<open>MessageHandlers\<close>: the requests on tasks, workspaces, messages
  and inspection. \<open>AgentSessions\<close>, \<open>SessionLaunch\<close>, \<open>SessionDriving\<close> (src/supervisor/session.rs):
  the sessions of agents at the provider, their launch, recovery, events, deadlines and controls;
  the memory of the supervisor (handles and redactors) is part of their state \<open>Agents\<close>.
  A launch is modelled in the three parts between which a crash matters: \<open>admit_launch\<close> (the
  attempt is recorded in flight), \<open>start_provider\<close> (the only call that starts a process) and
  \<open>finish_launch\<close>; \<open>afterwards\<close> are the states that crashes, restarts, transactions and retries
  lead to from there.
  \<open>Admission\<close> (src/supervisor/admission.rs), \<open>Bootstrap\<close> (instructions of roles,
  src/supervisor/commit_handoff.rs), \<open>SpawnHandlers\<close> and \<open>ForegroundHandlers\<close>: starting workers and
  the lead. \<open>RecoveryHandlers\<close> (src/supervisor/recovery.rs, src/supervisor/retained.rs): taking over
  work of a lost worker. \<open>NotificationHandlers\<close> (src/supervisor/notifications.rs). \<open>Reconciler\<close>: the
  pass over operations whose external effect is not settled. \<open>HandlerSamples\<close>: the supervisor, provider and configuration of the witnesses.
  This theory holds the properties of the composed store.

  Lemmas. Each component proves \<open>safe op\<close> for its operations (the invariant is kept and nothing
  final is taken back), what its rows look like afterwards (\<open>op_Inr\<close> and frame lemmas), and its
  properties. Idempotence is proved once, in the locale \<open>idempotent_mutation\<close>, and interpreted for
  every mutation.

  A process that only reads is \<open>reading\<close>, one whose changes to the database are committed
  transactions is \<open>committing\<close>, one that fails and changes nothing \<open>refuses\<close>; collections of
  introduction rules prove these from the definitions, so that every property of the store holds
  across every handler. A process that never changes the database is \<open>still\<close>, one that does not
  when it fails \<open>atomic\<close>.

  Bounds and loops. The redactor's loop is \<open>partial_function (option)\<close> and proved to return. So is
  the loop that applies all events of a provider after a launch, which ends only when the provider
  has no event left: the request then \<open>Diverges\<close>. Rounds of events in the main loop are bounded
  and end by a measure, as do the trimming of the admission view and the numbering of agents; all
  other recursion is structural. No fuel is used.

  Parameters. The provider, the workspace backend, appending to transcripts, random tokens, the
  clock, fresh identifiers, the ULID codec, HMAC, SHA-256, the JSON writer and reader and the
  matching of version requirements; laws of them are hypotheses where they are needed.

  Not modelled. Operating system work: git, file permissions, sockets, processes, terminals, MCP
  configuration files and fault injection, hence the codex provider and the git backend behind the
  two records. SQL text and DDL are represented by their meaning on rows. The TOML files of
  src/config/loader.rs, the writing of lock files, the command line and the MCP bridge are glue. Of
  the supervisor, the socket server with its start-up and main loop and the requests on progress,
  details, logs, diagnosis and stopping are not modelled.
\<close>

section \<open>Properties of every run of the supervisor\<close>

text \<open>
  Property C1. Mutations take effect exactly once. Once a creation, a claim, a transition, a
  message or an acknowledgement was applied, submitting it again after any number of further
  transactions returns the recorded result and changes nothing, even though the retry comes with
  another time and with newly generated identifiers.
\<close>

theorem mutations_take_effect_exactly_once:
  assumes ok: "store_ok db" and later: "commits e db1 db2"
  shows "(create_task e m fp db = Inr (Applied i, db1) \<longrightarrow>
      create_task e (m\<lparr>nt_task_id := i', nt_project_id := p', nt_now := t'\<rparr>) fp db2 = Inr (Replayed i, db2))
    \<and> (claim_task e c db = Inr (Applied r, db1) \<longrightarrow>
      claim_task e (c\<lparr>ct_assignment_id := a', ct_claimed_at := t'\<rparr>) db2 = Inr (Replayed r, db2))
    \<and> (transition_task_with_fingerprint e x fp db = Inr (Applied y, db1) \<longrightarrow>
      transition_task_with_fingerprint e (x\<lparr>tt_transitioned_at := t'\<rparr>) fp db2 = Inr (Replayed y, db2))
    \<and> (send_message e s fp db = Inr (Applied q, db1) \<longrightarrow>
      send_message e (s\<lparr>sm_recipient_name := n', sm_message_id := g', sm_now := t'\<rparr>) fp db2 = Inr (Replayed q, db2))
    \<and> (acknowledge_messages e k db = Inr (Applied z, db1) \<longrightarrow>
      acknowledge_messages e (k\<lparr>ak_acknowledged_at := t'\<rparr>) db2 = Inr (Replayed z, db2))"
proof -
  have grow: "extends db1 db2 \<and> store_ok db2" if "store_ok db1"
    using commits_history [OF later that] by (simp add: history_def)
  have c1: "create_task e m fp db = Inr (Applied i, db1) \<longrightarrow>
      create_task e (m\<lparr>nt_task_id := i', nt_project_id := p', nt_now := t'\<rparr>) fp db2 = Inr (Replayed i, db2)"
  proof
    assume run: "create_task e m fp db = Inr (Applied i, db1)"
    from safeD [OF safe_create_task run ok] grow have g: "extends db1 db2" "store_ok db2" by auto
    show "create_task e (m\<lparr>nt_task_id := i', nt_project_id := p', nt_now := t'\<rparr>) fp db2 = Inr (Replayed i, db2)"
      unfolding create_task_def
      by (rule create_op.retry_replays [OF ok run [unfolded create_task_def] g]) (simp add: create_mutation_def)
  qed
  have c2: "claim_task e c db = Inr (Applied r, db1) \<longrightarrow>
      claim_task e (c\<lparr>ct_assignment_id := a', ct_claimed_at := t'\<rparr>) db2 = Inr (Replayed r, db2)"
  proof
    assume run: "claim_task e c db = Inr (Applied r, db1)"
    from safeD [OF safe_claim_task run ok] grow have g: "extends db1 db2" "store_ok db2" by auto
    show "claim_task e (c\<lparr>ct_assignment_id := a', ct_claimed_at := t'\<rparr>) db2 = Inr (Replayed r, db2)"
      unfolding claim_task_def mutate_def
      by (rule claim_op.retry_replays [OF ok run [unfolded claim_task_def mutate_def] g]) (simp add: claim_mutation_def)
  qed
  have c3: "transition_task_with_fingerprint e x fp db = Inr (Applied y, db1) \<longrightarrow>
      transition_task_with_fingerprint e (x\<lparr>tt_transitioned_at := t'\<rparr>) fp db2 = Inr (Replayed y, db2)"
  proof
    assume run: "transition_task_with_fingerprint e x fp db = Inr (Applied y, db1)"
    from safeD [OF safe_transition_task run ok] grow have g: "extends db1 db2" "store_ok db2" by auto
    from run obtain x' where x': "with_evidence x = Some x'"
      by (cases "with_evidence x") (auto simp: transition_task_with_fingerprint_def)
    then have retried: "with_evidence (x\<lparr>tt_transitioned_at := t'\<rparr>) = Some (x'\<lparr>tt_transitioned_at := t'\<rparr>)"
      by (auto simp: with_evidence_def split: option.splits)
    show "transition_task_with_fingerprint e (x\<lparr>tt_transitioned_at := t'\<rparr>) fp db2 = Inr (Replayed y, db2)"
    proof -
      have inner: "mutate_with_fingerprint transition_result_json transition_result_of_json
          (transition_mutation x') fp (apply_transition e x') db = Inr (Applied y, db1)"
        using run by (simp add: transition_task_with_fingerprint_def x')
      have "mutate_with_fingerprint transition_result_json transition_result_of_json
          (transition_mutation (x'\<lparr>tt_transitioned_at := t'\<rparr>)) fp (apply_transition e (x'\<lparr>tt_transitioned_at := t'\<rparr>)) db2
          = Inr (Replayed y, db2)"
        by (rule transition_op.retry_replays [OF ok inner g]) (simp add: transition_mutation_def)
      then show ?thesis by (simp add: transition_task_with_fingerprint_def retried)
    qed
  qed
  have c4: "send_message e s fp db = Inr (Applied q, db1) \<longrightarrow>
      send_message e (s\<lparr>sm_recipient_name := n', sm_message_id := g', sm_now := t'\<rparr>) fp db2 = Inr (Replayed q, db2)"
  proof
    assume run: "send_message e s fp db = Inr (Applied q, db1)"
    from safeD [OF safe_send_message run ok] grow have g: "extends db1 db2" "store_ok db2" by auto
    show "send_message e (s\<lparr>sm_recipient_name := n', sm_message_id := g', sm_now := t'\<rparr>) fp db2 = Inr (Replayed q, db2)"
      unfolding send_message_def
      by (rule send_op.retry_replays [OF ok run [unfolded send_message_def] g]) (simp add: send_mutation_def)
  qed
  have c5: "acknowledge_messages e k db = Inr (Applied z, db1) \<longrightarrow>
      acknowledge_messages e (k\<lparr>ak_acknowledged_at := t'\<rparr>) db2 = Inr (Replayed z, db2)"
  proof
    assume run: "acknowledge_messages e k db = Inr (Applied z, db1)"
    from safeD [OF safe_acknowledge_messages run ok] grow have g: "extends db1 db2" "store_ok db2" by auto
    show "acknowledge_messages e (k\<lparr>ak_acknowledged_at := t'\<rparr>) db2 = Inr (Replayed z, db2)"
      unfolding acknowledge_messages_def mutate_def
      by (rule acknowledge_op.retry_replays [OF ok run [unfolded acknowledge_messages_def mutate_def] g])
        (simp add: acknowledge_mutation_def)
  qed
  show ?thesis using c1 c2 c3 c4 c5 by (intro conjI)
qed

theorem mutations_take_effect_exactly_once_witness:
  "\<exists>db1. create_task sample_env sample_create None sample_db = Inr (Applied (TaskId 9), db1)
     \<and> create_task sample_env (sample_create\<lparr>nt_task_id := TaskId 77, nt_project_id := ProjectId 1, nt_now := 99\<rparr>)
         None db1 = Inr (Replayed (TaskId 9), db1)"
proof -
  have "\<exists>db1. create_task sample_env sample_create None sample_db = Inr (Applied (TaskId 9), db1)"
    by (simp add: create_task_def mutate_with_fingerprint_def find_operation_def insert_operation_def
        operation_row_ok_def pending_operation_def create_mutation_def apply_create_def sample_create_def
        require_dependency_def group_for_def insert_task_def insert_dependency_def insert_row_def
        task_row_ok_def created_task_def created_edge_def dependency_row_ok_def append_event_def
        insert_event_def event_row_ok_def new_event_record_def created_event_def next_event_sequence_def
        sample_env_def maximum_event_page_length_def find_task_def run_exists_def project_exists_def
        task_exists_def operation_exists_def references_def sample_run_def sample_project_def seq_def
        bind_run require_def sample_db_def empty_db_def update_where_def)
  then obtain db1 where run: "create_task sample_env sample_create None sample_db = Inr (Applied (TaskId 9), db1)"
    by blast
  with mutations_take_effect_exactly_once [OF store_ok_sample_db commits_refl] show ?thesis by blast
qed

text \<open>
  Property C2. Every database the supervisor can reach is consistent: a task is in progress
  exactly while one unreleased claim on it has an open assignment, a task has at most one
  unreleased claim and an agent at most one open assignment, the events of a run are numbered
  without gaps, and the dependencies have no cycle.
\<close>

theorem reachable_databases_are_consistent:
  assumes "reachable e db"
  shows "((\<forall>t \<in> set (tasks db). tk_status t = InProgress \<longleftrightarrow>
        (\<exists>!c. c \<in> set (claims db) \<and> cl_task_id c = tk_id t \<and> cl_released_at c = None)))
    \<and> (\<forall>a \<in> set (assignments db). \<forall>b \<in> set (assignments db).
        as_completed_at a = None \<and> as_completed_at b = None \<and> as_agent_id a = as_agent_id b \<longrightarrow> a = b)
    \<and> (\<forall>a \<in> set (assignments db). as_completed_at a = None \<longrightarrow>
        (\<exists>t \<in> set (tasks db). tk_id t = as_task_id a \<and> tk_status t = InProgress))
    \<and> (map ev_sequence (run_log db r) = map int [1..<Suc (length (run_log db r))])
    \<and> (acyclic {(dp_task_id d, dp_dependency_task_id d) |d. d \<in> set (dependencies db)})"
proof -
  have ok: "store_ok db" using assms by (rule reachable_store_ok)
  then have parts: "keys_ok db" "refs_ok db" "owned db" "log_ok db" by (simp_all add: store_ok_def)
  have c1: "\<forall>t \<in> set (tasks db). tk_status t = InProgress \<longleftrightarrow>
        (\<exists>!c. c \<in> set (claims db) \<and> cl_task_id c = tk_id t \<and> cl_released_at c = None)"
  proof
    fix t assume "t \<in> set (tasks db)"
    then have "tk_status t = InProgress \<longleftrightarrow>
        (\<exists>c. c \<in> set (claims db) \<and> cl_task_id c = tk_id t \<and> cl_released_at c = None)"
      using parts(3) by (auto simp: owned_def)
    then show "tk_status t = InProgress \<longleftrightarrow>
        (\<exists>!c. c \<in> set (claims db) \<and> cl_task_id c = tk_id t \<and> cl_released_at c = None)"
      using active_claim_unique [OF ok] by metis
  qed
  have c2: "\<forall>a \<in> set (assignments db). \<forall>b \<in> set (assignments db).
        as_completed_at a = None \<and> as_completed_at b = None \<and> as_agent_id a = as_agent_id b \<longrightarrow> a = b"
    using active_assignment_of_agent_unique [OF parts(1)] by metis
  have c3: "\<forall>a \<in> set (assignments db). as_completed_at a = None \<longrightarrow>
        (\<exists>t \<in> set (tasks db). tk_id t = as_task_id a \<and> tk_status t = InProgress)"
  proof (intro ballI impI)
    fix a assume a: "a \<in> set (assignments db)" "as_completed_at a = None"
    obtain c where c: "c \<in> set (claims db)" "cl_released_at c = None" "cl_task_id c = as_task_id a"
      using active_assignment_claim [OF ok a] by metis
    obtain t where t: "t \<in> set (tasks db)" "tk_id t = as_task_id a"
      using parts(2) a(1) by (auto simp: refs_ok_def task_exists_def)
    with c parts(3) have "tk_status t = InProgress" by (auto simp: owned_def)
    with t show "\<exists>t \<in> set (tasks db). tk_id t = as_task_id a \<and> tk_status t = InProgress" by blast
  qed
  have c4: "map ev_sequence (run_log db r) = map int [1..<Suc (length (run_log db r))]"
    using parts(4) by (simp add: log_ok_def)
  have c5: "acyclic {(dp_task_id d, dp_dependency_task_id d) |d. d \<in> set (dependencies db)}"
  proof (rule acyclic_subset)
    show "acyclic ((measure (position (map tk_id (tasks db))))\<inverse>)"
      by (simp add: wf_acyclic)
    show "{(dp_task_id d, dp_dependency_task_id d) |d. d \<in> set (dependencies db)}
        \<subseteq> (measure (position (map tk_id (tasks db))))\<inverse>"
      using position_dependency [OF ok] by auto
  qed
  show ?thesis using c1 c2 c3 c4 c5 by (intro conjI)
qed

text \<open>
  Property C17. Nothing that was committed is taken back. Along any further transactions events
  are only appended; an operation keeps its identity and its request, and one that has succeeded keeps its
  result, except for the stop of a run, whose result is written when the stop completes; an
  agent keeps its role and its generation never decreases; a released claim and a revoked
  credential stay as they are, and a completed assignment too, except for the
  summary that a resubmission replaces; an acknowledged message stays acknowledged; and a
  closed or canceled task never changes again.
\<close>

theorem committed_history_is_final:
  assumes ok: "store_ok db" and later: "commits e db db'"
  shows "(\<exists>more. events db' = events db @ more)
    \<and> (\<forall>r. find_operation db i = Some r \<longrightarrow>
         (\<exists>r'. find_operation db' i = Some r' \<and> op_run_id r' = op_run_id r \<and> op_kind r' = op_kind r
            \<and> op_actor_agent_id r' = op_actor_agent_id r \<and> op_request r' = op_request r
            \<and> (op_status r = ''succeeded'' \<and> op_kind r \<noteq> ''run.stop'' \<longrightarrow> op_status r' = ''succeeded'' \<and> op_result r' = op_result r)))
    \<and> (\<forall>a. find_agent db g = Some a \<longrightarrow>
         (\<exists>a'. find_agent db' g = Some a' \<and> ag_generation a \<le> ag_generation a' \<and> ag_role a' = ag_role a))
    \<and> (\<forall>c \<in> set (claims db). cl_released_at c \<noteq> None \<longrightarrow> c \<in> set (claims db'))
    \<and> (\<forall>a \<in> set (assignments db). as_completed_at a \<noteq> None \<longrightarrow> (\<exists>a' \<in> set (assignments db'). a' = a\<lparr>as_summary := as_summary a'\<rparr>))
    \<and> (\<forall>c \<in> set (credentials db). cr_revoked_at c \<noteq> None \<longrightarrow> c \<in> set (credentials db'))
    \<and> (\<forall>m \<in> set (messages db). ms_acknowledged_at m \<noteq> None \<longrightarrow> m \<in> set (messages db'))
    \<and> (\<forall>t. find_task db k = Some t \<and> tk_status t \<in> {Closed, Canceled} \<longrightarrow> find_task db' k = Some t)"
proof -
  from commits_history [OF later ok] have ok': "store_ok db'" and ext: "extends db db'"
    by (simp_all add: history_def)
  have keys: "keys_ok db'" using ok' by (simp add: store_ok_def)
  have ops: "\<exists>r'. find_operation db' i = Some r' \<and> op_run_id r' = op_run_id r \<and> op_kind r' = op_kind r
      \<and> op_actor_agent_id r' = op_actor_agent_id r \<and> op_request r' = op_request r
      \<and> (op_status r = ''succeeded'' \<and> op_kind r \<noteq> ''run.stop'' \<longrightarrow> op_status r' = ''succeeded'' \<and> op_result r' = op_result r)"
    if "find_operation db i = Some r" for r
    using extends_operation [OF ext ok' that] by (auto simp: receipt_def)
  have closed: "\<forall>a \<in> set (assignments db). as_completed_at a \<noteq> None \<longrightarrow> (\<exists>a' \<in> set (assignments db'). a' = a\<lparr>as_summary := as_summary a'\<rparr>)"
    using ext by (fastforce simp: extends_def grows_def assignment_later_def)
  have agents: "\<exists>a'. find_agent db' g = Some a' \<and> ag_generation a \<le> ag_generation a' \<and> ag_role a' = ag_role a"
    if "find_agent db g = Some a" for a
  proof -
    from find_agent_Some [OF that] ext obtain a' where "a' \<in> set (agents db')" "agent_later a a'" "ag_id a = g"
      by (auto simp: extends_def grows_def)
    then show ?thesis using find_agent_unique [OF keys, of a'] by (auto simp: agent_later_def)
  qed
  have tasks: "find_task db' k = Some t"
    if "find_task db k = Some t" "tk_status t \<in> {Closed, Canceled}" for t
  proof -
    from find_task_Some [OF that(1)] ext obtain t' where "t' \<in> set (tasks db')" "task_later t t'" "tk_id t = k"
      by (auto simp: extends_def grows_def)
    then show ?thesis using find_task_unique [OF keys, of t'] that(2) by (auto simp: task_later_def)
  qed
  have rows: "\<forall>c \<in> set (claims db). cl_released_at c \<noteq> None \<longrightarrow> c \<in> set (claims db')"
    "\<forall>c \<in> set (credentials db). cr_revoked_at c \<noteq> None \<longrightarrow> c \<in> set (credentials db')"
    "\<forall>m \<in> set (messages db). ms_acknowledged_at m \<noteq> None \<longrightarrow> m \<in> set (messages db')"
    using ext by (fastforce simp: extends_def grows_def claim_later_def credential_later_def message_later_def)+
  have log: "\<exists>more. events db' = events db @ more" using ext by (auto simp: extends_def prefix_def)
  show ?thesis using log ops agents rows closed tasks by blast
qed

theorem committed_history_is_final_witness:
  "\<exists>db'. commits sample_env sample_queue db' \<and> map rn_status (runs db') = [''stopped'']
     \<and> find_task db' (TaskId 2) = Some (sample_task 2 Closed)"
proof -
  obtain db' where run: "stop_run (RunId 1) 9 sample_queue = Inr ((), db')"
    and stopped: "map rn_status (runs db') = [''stopped'']"
    using sample_queue_stops by (elim exE conjE) (rule that)
  have "transaction (for_each (exec sample_env) [StopRun (RunId 1) 9]) sample_queue = (Inr (), db')"
    by (simp add: transaction_def seq_def bind_run run del: One_nat_def)
  from commits_step [OF commits_refl this] have later: "commits sample_env sample_queue db'" .
  have "find_task sample_queue (TaskId 2) = Some (sample_task 2 Closed)"
    by (simp add: find_task_def sample_queue_def)
  then have "find_task db' (TaskId 2) = Some (sample_task 2 Closed)"
    using committed_history_is_final [OF store_ok_sample_queue later, of _ _ "TaskId 2"] by simp
  then show ?thesis using later stopped by (intro exI conjI)
qed

theorem reachable_databases_are_consistent_witness:
  "\<exists>db. reachable sample_env db \<and> runs db = [sample_run]
     \<and> map ev_sequence (run_log db (RunId 1)) = map int [1..<Suc (length (run_log db (RunId 1)))]"
proof -
  let ?db = "runs_update (\<lambda>rows. rows @ [sample_run]) empty_db"
  have "transaction (for_each (exec sample_env) [InsertRun sample_run]) empty_db = (Inr (), ?db)"
    by (simp add: transaction_def seq_def bind_run insert_run_def insert_row_def run_row_ok_def empty_db_def)
  from commits_step [OF commits_refl this] have r: "reachable sample_env ?db" .
  with reachable_databases_are_consistent [OF r, of "RunId 1"] show ?thesis
    by (intro exI [of _ ?db]) (simp add: empty_db_def)
qed

text \<open>
  Property C32. Resolution and the store disagree about the interrupt grace. Resolution accepts a
  grace of 3 s within a shutdown timeout of 5 s, and under that policy every request to stop a
  session fails silently: whatever the session, the reason and the database, it returns
  successfully and changes nothing, so that it never interrupts, terminates or kills the session.
\<close>

theorem accepted_policy_can_lose_session_controls:
  "\<exists>g pr ov c. resolve g pr ov = Inr c
     \<and> interrupt_grace_ms (ec_supervision c) = 3000 \<and> shutdown_timeout_ms (ec_supervision c) = 5000
     \<and> (\<forall>e s reason now db. 0 \<le> now \<and> now + 5000 \<le> i64_max \<longrightarrow>
          request_session_control e s reason now (interrupt_grace_ms (ec_supervision c))
            (shutdown_timeout_ms (ec_supervision c)) db = Inr ((), db))"
proof -
  obtain c where c: "resolve sample_global sample_project_config sample_overrides = Inr c"
    and policy: "ec_supervision c = (cd_supervision compiled_defaults)\<lparr>interrupt_grace_ms := 3000\<rparr>"
    using sample_resolves by blast
  have numbers: "interrupt_grace_ms (ec_supervision c) = 3000" "shutdown_timeout_ms (ec_supervision c) = 5000"
    by (simp_all add: policy compiled_defaults_def)
  have "\<forall>e s reason now db. 0 \<le> now \<and> now + 5000 \<le> i64_max \<longrightarrow>
      request_session_control e s reason now (interrupt_grace_ms (ec_supervision c))
        (shutdown_timeout_ms (ec_supervision c)) db = Inr ((), db)"
    unfolding numbers using long_grace_drops_control [where grace = 3000 and timeout = 5000] by simp
  with c numbers show ?thesis by blast
qed

theorem accepted_policy_can_lose_session_controls_witness:
  "session_scope_is_current sample_db sample_scope
     \<and> (\<exists>g pr ov c. resolve g pr ov = Inr c
        \<and> request_session_control sample_env sample_scope Shutdown 7 (interrupt_grace_ms (ec_supervision c))
            (shutdown_timeout_ms (ec_supervision c)) sample_db = Inr ((), sample_db))"
proof -
  have "(0::int) \<le> 7 \<and> 7 + 5000 \<le> i64_max" by (simp add: i64_max_def)
  then show ?thesis
    using accepted_policy_can_lose_session_controls sample_scope_current by blast
qed

text \<open>
  Property C19. However the notification operations are interleaved, with each other and with
  all other operations of the store, at most one delivery of a session is outstanding; a session
  stays bound to the provider thread it was first bound to; its cursors never go back and never
  pass what is recorded; every delivery has a bound session whose cursors reach it; and the
  outcome of a delivery and its receipt, once known, are final.
\<close>

theorem one_notification_is_outstanding:
  assumes "commits e db db'" "store_ok db" "notifications_ok db"
  shows "notifications_ok db' \<and> notifications_grow db db'
    \<and> (\<forall>d \<in> set (notification_deliveries db'). \<forall>d' \<in> set (notification_deliveries db').
        outstanding d \<and> outstanding d' \<and> nd_session_id d = nd_session_id d' \<longrightarrow> d = d')"
  using notification_steps_keep [OF commits_notification_steps [OF assms(1,2)] assms(2,3)] outstanding_unique by blast

theorem one_notification_is_outstanding_witness:
  "commits sample_env sample_foreground (sample_notified 1 [sample_accepted])
     \<and> notifications_grow sample_foreground (sample_notified 1 [sample_accepted])"
proof -
  obtain db where db: "enable_notifications sample_scope sample_foreground = Inr ((), db)"
    "bind_notifications sample_scope sample_thread db = Inr (True, sample_notified 0 [])"
    using sample_enabled by blast
  have "for_each (exec sample_env) [EnableNotifications sample_scope, BindNotifications sample_scope sample_thread,
      ClaimNotification sample_scope (OperationId 1) False 3, ObserveNotification sample_scope (OperationId 1) QueueAccepted 4]
      sample_foreground = Inr ((), sample_notified 1 [sample_accepted])"
    using db sample_claimed sample_observed by (simp add: discard_def seq_def bind_run)
  then have "transaction (for_each (exec sample_env) [EnableNotifications sample_scope,
      BindNotifications sample_scope sample_thread, ClaimNotification sample_scope (OperationId 1) False 3,
      ObserveNotification sample_scope (OperationId 1) QueueAccepted 4]) sample_foreground
      = (Inr (), sample_notified 1 [sample_accepted])"
    by (simp only: transaction_def sum.case prod.case)
  from commits_step [OF commits_refl this] have later: "commits sample_env sample_foreground (sample_notified 1 [sample_accepted])" .
  with one_notification_is_outstanding [OF later store_ok_sample_foreground notifications_ok_sample] show ?thesis by blast
qed

end
